(* ===== verification/Zk_Prelude.thy ===== *)
theory Zk_Prelude
  imports Main "HOL-Library.Word" "HOL-Library.AList"
begin

text \<open>
  Shared ground of the ZkBNB development.

  \<^item> Control flow of the Go code: a computation over a mutable state returns a value, a Go
    \<open>error\<close>, or panics; in the last two cases the mutations made so far stay, as they do in Go.
  \<^item> Go's integer arithmetic: \<open>int64\<close> wrap-around, division truncated towards zero.
  \<^item> Go maps as association lists, with the order of a \<open>range\<close> loop left to a parameter.
  \<^item> Decimal printing and parsing as in \<open>big.Int.String\<close>, \<open>big.Int.SetString\<close> and
    \<open>strconv.ParseInt\<close>.
\<close>

named_theorems run \<open>equations that execute the computations of the model\<close>
named_theorems frame \<open>what an operation of the state leaves unchanged\<close>

section \<open>Results and stateful computations\<close>

datatype ('e, 'a) res = Ok 'a | Err 'e | Panic string

type_synonym ('s, 'e, 'a) comp = "'s \<Rightarrow> ('e, 'a) res \<times> 's"

definition ret :: "'a \<Rightarrow> ('s, 'e, 'a) comp" where
  "ret a = (\<lambda>s. (Ok a, s))"

definition throw :: "'e \<Rightarrow> ('s, 'e, 'a) comp" where
  "throw e = (\<lambda>s. (Err e, s))"

definition panic :: "string \<Rightarrow> ('s, 'e, 'a) comp" where
  "panic m = (\<lambda>s. (Panic m, s))"

definition bnd :: "('s, 'e, 'a) comp \<Rightarrow> ('a \<Rightarrow> ('s, 'e, 'b) comp) \<Rightarrow> ('s, 'e, 'b) comp" where
  "bnd m f = (\<lambda>s. case m s of (Ok a, t) \<Rightarrow> f a t | (Err e, t) \<Rightarrow> (Err e, t) | (Panic p, t) \<Rightarrow> (Panic p, t))"

definition thn :: "('s, 'e, 'a) comp \<Rightarrow> ('s, 'e, 'b) comp \<Rightarrow> ('s, 'e, 'b) comp" where
  "thn m n = bnd m (\<lambda>_. n)"

definition gets :: "('s \<Rightarrow> 'a) \<Rightarrow> ('s, 'e, 'a) comp" where
  "gets f = (\<lambda>s. (Ok (f s), s))"

definition modify :: "('s \<Rightarrow> 's) \<Rightarrow> ('s, 'e, unit) comp" where
  "modify f = (\<lambda>s. (Ok (), f s))"

text \<open>\<open>if b { return e }\<close>\<close>

definition failIf :: "bool \<Rightarrow> 'e \<Rightarrow> ('s, 'e, unit) comp" where
  "failIf b e = (if b then throw e else ret ())"

text \<open>\<open>if err != nil { return err }\<close> for an error value that is \<open>None\<close> when nil\<close>

definition failOn :: "'e option \<Rightarrow> ('s, 'e, unit) comp" where
  "failOn x = (case x of None \<Rightarrow> ret () | Some e \<Rightarrow> throw e)"

text \<open>A Go call that returns a value and an error\<close>

definition ofSum :: "'e + 'a \<Rightarrow> ('s, 'e, 'a) comp" where
  "ofSum x = (case x of Inl e \<Rightarrow> throw e | Inr a \<Rightarrow> ret a)"

text \<open>A value whose absence is a run-time panic: a nil dereference, a buffer too small\<close>

definition orPanic :: "string \<Rightarrow> 'a option \<Rightarrow> ('s, 'e, 'a) comp" where
  "orPanic msg x = (case x of None \<Rightarrow> panic msg | Some a \<Rightarrow> ret a)"

definition orThrow :: "'e \<Rightarrow> 'a option \<Rightarrow> ('s, 'e, 'a) comp" where
  "orThrow e x = (case x of None \<Rightarrow> throw e | Some a \<Rightarrow> ret a)"

text \<open>\<open>for _, x := range xs { f(x) }\<close>, leaving the loop at the first error\<close>

fun forM :: "'a list \<Rightarrow> ('a \<Rightarrow> ('s, 'e, unit) comp) \<Rightarrow> ('s, 'e, unit) comp" where
  "forM [] f = ret ()"
| "forM (x # xs) f = thn (f x) (forM xs f)"

text \<open>The Go call \<open>v, err := m()\<close> whose error the caller inspects itself\<close>

definition attempt :: "('s, 'e, 'a) comp \<Rightarrow> ('s, 'e, 'e + 'a) comp" where
  "attempt m = (\<lambda>s. case m s of (Ok a, t) \<Rightarrow> (Ok (Inr a), t) | (Err e, t) \<Rightarrow> (Ok (Inl e), t)
     | (Panic p, t) \<Rightarrow> (Panic p, t))"

text \<open>A caller that turns the error of a call into a panic: \<open>if err != nil { panic(err) }\<close>\<close>

definition mustOk :: "string \<Rightarrow> ('s, 'e, 'a) comp \<Rightarrow> ('s, 'e, 'a) comp" where
  "mustOk msg m = (\<lambda>s. case m s of (Err e, t) \<Rightarrow> (Panic msg, t) | r \<Rightarrow> r)"

text \<open>A caller that maps the error of a call: \<open>if err != nil { return f(err) }\<close>\<close>

definition mapErr :: "('e \<Rightarrow> 'e) \<Rightarrow> ('s, 'e, 'a) comp \<Rightarrow> ('s, 'e, 'a) comp" where
  "mapErr f m = (\<lambda>s. case m s of (Err e, t) \<Rightarrow> (Err (f e), t) | r \<Rightarrow> r)"

lemma ret_run [run, simp]: "ret a s = (Ok a, s)" by (simp add: ret_def)

lemma throw_run [run, simp]: "throw e s = (Err e, s)" by (simp add: throw_def)

lemma panic_run [run, simp]: "panic e s = (Panic e, s)" by (simp add: panic_def)

lemma gets_run [run, simp]: "gets f s = (Ok (f s), s)" by (simp add: gets_def)

lemma modify_run [run, simp]: "modify f s = (Ok (), f s)" by (simp add: modify_def)

lemma failIf_run [run]: "failIf b e s = (if b then (Err e, s) else (Ok (), s))"
  by (simp add: failIf_def)

lemma failOn_run [run]: "failOn x s = (case x of None \<Rightarrow> (Ok (), s) | Some e \<Rightarrow> (Err e, s))"
  by (simp add: failOn_def split: option.splits)

lemma ofSum_run [run]: "ofSum x s = (case x of Inl e \<Rightarrow> (Err e, s) | Inr a \<Rightarrow> (Ok a, s))"
  by (simp add: ofSum_def split: sum.splits)

lemma orPanic_run [run]: "orPanic m x s = (case x of None \<Rightarrow> (Panic m, s) | Some a \<Rightarrow> (Ok a, s))"
  by (simp add: orPanic_def split: option.splits)

lemma orThrow_run [run]: "orThrow e x s = (case x of None \<Rightarrow> (Err e, s) | Some a \<Rightarrow> (Ok a, s))"
  by (simp add: orThrow_def split: option.splits)

lemma bnd_run [run]:
  "bnd m f s = (case m s of (Ok a, t) \<Rightarrow> f a t | (Err e, t) \<Rightarrow> (Err e, t) | (Panic p, t) \<Rightarrow> (Panic p, t))"
  by (simp add: bnd_def)

lemma thn_run [run]:
  "thn m n s = (case m s of (Ok a, t) \<Rightarrow> n t | (Err e, t) \<Rightarrow> (Err e, t) | (Panic p, t) \<Rightarrow> (Panic p, t))"
  by (simp add: thn_def bnd_def)

lemma bnd_ret [simp]: "bnd (ret a) f = f a" by (simp add: bnd_def ret_def)

lemma bnd_assoc: "bnd (bnd m f) g = bnd m (\<lambda>x. bnd (f x) g)"
  by (auto simp: bnd_def fun_eq_iff split: prod.splits res.splits)

text \<open>Inversion of a computation that came back with a value.\<close>

lemma bnd_OkE:
  assumes "bnd m f s = (Ok b, t)"
  obtains a u where "m s = (Ok a, u)" "f a u = (Ok b, t)"
  using assms by (auto simp: bnd_def split: prod.splits res.splits)

lemma thn_OkE:
  assumes "thn m n s = (Ok b, t)"
  obtains a u where "m s = (Ok a, u)" "n u = (Ok b, t)"
  using assms by (auto simp: thn_def elim: bnd_OkE)

lemma failIf_Ok [simp]: "failIf b e s = (Ok u, t) \<longleftrightarrow> \<not> b \<and> t = s"
  by (auto simp: failIf_run)

lemma failOn_Ok [simp]: "failOn x s = (Ok u, t) \<longleftrightarrow> x = None \<and> t = s"
  by (auto simp: failOn_run split: option.splits)

lemma ofSum_Ok [simp]: "ofSum x s = (Ok u, t) \<longleftrightarrow> x = Inr u \<and> t = s"
  by (auto simp: ofSum_run split: sum.splits)

lemma orPanic_Ok [simp]: "orPanic m x s = (Ok u, t) \<longleftrightarrow> x = Some u \<and> t = s"
  by (auto simp: orPanic_run split: option.splits)

lemma orThrow_Ok [simp]: "orThrow e x s = (Ok u, t) \<longleftrightarrow> x = Some u \<and> t = s"
  by (auto simp: orThrow_run split: option.splits)

section \<open>Invariants of a computation\<close>

text \<open>
  \<open>keeps I m\<close>: whatever \<open>m\<close> returns, an error and a panic included, it takes a state of the
  invariant to a state of the invariant. \<open>same g m\<close>: it never changes the observation \<open>g\<close>.
\<close>

definition keeps :: "('s \<Rightarrow> bool) \<Rightarrow> ('s, 'e, 'a) comp \<Rightarrow> bool" where
  "keeps I m \<longleftrightarrow> (\<forall>s. I s \<longrightarrow> I (snd (m s)))"

lemma keepsI [intro?]: "(\<And>s. I s \<Longrightarrow> I (snd (m s))) \<Longrightarrow> keeps I m"
  by (simp add: keeps_def)

lemma keepsD: "keeps I m \<Longrightarrow> I s \<Longrightarrow> m s = (r, t) \<Longrightarrow> I t"
  by (force simp: keeps_def dest: spec [of _ s])

named_theorems keep \<open>computations that keep an invariant\<close>

lemma keeps_ret [keep]: "keeps I (ret a)" by (simp add: keeps_def)
lemma keeps_throw [keep]: "keeps I (throw a)" by (simp add: keeps_def)
lemma keeps_panic [keep]: "keeps I (panic a)" by (simp add: keeps_def)
lemma keeps_gets [keep]: "keeps I (gets f)" by (simp add: keeps_def)
lemma keeps_failIf [keep]: "keeps I (failIf b e)" by (simp add: keeps_def failIf_run)
lemma keeps_failOn [keep]: "keeps I (failOn x)" by (simp add: keeps_def failOn_run split: option.splits)
lemma keeps_ofSum [keep]: "keeps I (ofSum x)" by (simp add: keeps_def ofSum_run split: sum.splits)
lemma keeps_orPanic [keep]: "keeps I (orPanic m x)" by (simp add: keeps_def orPanic_run split: option.splits)
lemma keeps_orThrow [keep]: "keeps I (orThrow e x)" by (simp add: keeps_def orThrow_run split: option.splits)

lemma keeps_bnd [keep]: "keeps I m \<Longrightarrow> (\<And>a. keeps I (f a)) \<Longrightarrow> keeps I (bnd m f)"
  unfolding keeps_def bnd_run by (force split: prod.splits res.splits)

lemma keeps_thn [keep]: "keeps I m \<Longrightarrow> keeps I n \<Longrightarrow> keeps I (thn m n)"
  by (simp add: thn_def keep)

lemma keeps_if [keep]: "(b \<Longrightarrow> keeps I m) \<Longrightarrow> (\<not> b \<Longrightarrow> keeps I n) \<Longrightarrow> keeps I (if b then m else n)"
  by simp

lemma keeps_case_option [keep]:
  "(x = None \<Longrightarrow> keeps I m) \<Longrightarrow> (\<And>a. x = Some a \<Longrightarrow> keeps I (f a)) \<Longrightarrow>
   keeps I (case x of None \<Rightarrow> m | Some a \<Rightarrow> f a)"
  by (cases x) auto

lemma keeps_case_sum [keep]:
  "(\<And>a. x = Inl a \<Longrightarrow> keeps I (g a)) \<Longrightarrow> (\<And>a. x = Inr a \<Longrightarrow> keeps I (f a)) \<Longrightarrow>
   keeps I (case x of Inl a \<Rightarrow> g a | Inr a \<Rightarrow> f a)"
  by (cases x) auto

lemma keeps_case_prod [keep]:
  "(\<And>a b. x = (a, b) \<Longrightarrow> keeps I (f a b)) \<Longrightarrow> keeps I (case x of (a, b) \<Rightarrow> f a b)"
  by (cases x) auto

lemma keeps_forM [keep]: "(\<And>x. x \<in> set xs \<Longrightarrow> keeps I (f x)) \<Longrightarrow> keeps I (forM xs f)"
  by (induction xs) (auto intro!: keep)

lemma keeps_attempt [keep]: "keeps I m \<Longrightarrow> keeps I (attempt m)"
  unfolding keeps_def attempt_def by (auto split: prod.splits res.splits)

lemma keeps_mustOk [keep]: "keeps I m \<Longrightarrow> keeps I (mustOk msg m)"
  unfolding keeps_def mustOk_def by (auto split: prod.splits res.splits)

lemma keeps_mapErr [keep]: "keeps I m \<Longrightarrow> keeps I (mapErr g m)"
  unfolding keeps_def mapErr_def by (auto split: prod.splits res.splits)

lemma keeps_modify: "(\<And>s. I s \<Longrightarrow> I (f s)) \<Longrightarrow> keeps I (modify f)"
  by (simp add: keeps_def)

section \<open>Go integers\<close>

text \<open>\<open>int64\<close> values are integers; an arithmetic operation whose result may leave the range wraps.\<close>

definition wrap64 :: "int \<Rightarrow> int" where
  "wrap64 x = (x + 2 ^ 63) mod 2 ^ 64 - 2 ^ 63"

lemma wrap64_id: "- (2 ^ 63) \<le> x \<Longrightarrow> x < 2 ^ 63 \<Longrightarrow> wrap64 x = x"
  by (simp add: wrap64_def)

lemma wrap64_range: "- (2 ^ 63) \<le> wrap64 x \<and> wrap64 x < 2 ^ 63"
proof -
  have "0 \<le> (x + 2 ^ 63) mod 2 ^ 64" "(x + 2 ^ 63) mod 2 ^ 64 < (2::int) ^ 64"
    by (rule pos_mod_sign pos_mod_bound; simp)+
  then show ?thesis by (simp add: wrap64_def)
qed

lemma wrap64_Suc_neq: "wrap64 (x + 1) \<noteq> x"
proof
  assume "wrap64 (x + 1) = x"
  then have "(x + 1 + 2 ^ 63) mod 2 ^ 64 = x + (2::int) ^ 63" by (simp add: wrap64_def)
  then have "(x + 1 + 2 ^ 63 - (x + 2 ^ 63)) mod (2::int) ^ 64 = 0"
    by (metis mod_eq_dvd_iff mod_mod_trivial dvd_imp_mod_0)
  then show False by simp
qed

text \<open>Go's \<open>/\<close> and \<open>%\<close> truncate towards zero.\<close>

definition go_div :: "int \<Rightarrow> int \<Rightarrow> int" where
  "go_div a b = sgn a * sgn b * (\<bar>a\<bar> div \<bar>b\<bar>)"

definition go_mod :: "int \<Rightarrow> int \<Rightarrow> int" where
  "go_mod a b = a - b * go_div a b"

lemma go_div_nonneg: "0 \<le> a \<Longrightarrow> 0 < b \<Longrightarrow> go_div a b = a div b"
  by (cases "a = 0") (simp_all add: go_div_def)

lemma go_mod_nonneg: "0 \<le> a \<Longrightarrow> 0 < b \<Longrightarrow> go_mod a b = a mod b"
  by (simp add: go_mod_def go_div_nonneg minus_mult_div_eq_mod)

section \<open>Go maps keyed by \<open>int64\<close>\<close>

type_synonym 'v gomap = "(int \<times> 'v) list"

definition mget :: "'v gomap \<Rightarrow> int \<Rightarrow> 'v option" where
  "mget m k = map_of m k"

definition mput :: "int \<Rightarrow> 'v \<Rightarrow> 'v gomap \<Rightarrow> 'v gomap" where
  "mput k v m = AList.update k v m"

definition mkeys :: "'v gomap \<Rightarrow> int list" where
  "mkeys m = remdups (map fst m)"

lemma mget_Nil [simp]: "mget [] k = None" by (simp add: mget_def)

lemma mget_mput [simp]: "mget (mput k v m) j = (if j = k then Some v else mget m j)"
  by (simp add: mget_def mput_def update_conv')

lemma mkeys_mput [simp]: "set (mkeys (mput k v m)) = insert k (set (mkeys m))"
  by (simp add: mkeys_def mput_def dom_update flip: dom_map_of_conv_image_fst [unfolded image_set])

lemma mkeys_dom: "k \<in> set (mkeys m) \<longleftrightarrow> mget m k \<noteq> None"
  by (auto simp: mkeys_def mget_def map_of_eq_None_iff)

lemma distinct_mkeys [simp]: "distinct (mkeys m)" by (simp add: mkeys_def)

lemma length_mkeys: "length (mkeys m) \<le> length m"
  by (metis length_map length_remdups_leq mkeys_def)

section \<open>Decimal numerals\<close>

definition digitChar :: "nat \<Rightarrow> char" where
  "digitChar d = char_of (48 + d)"

definition isDigit :: "char \<Rightarrow> bool" where
  "isDigit c \<longleftrightarrow> 48 \<le> (of_char c :: nat) \<and> (of_char c :: nat) \<le> 57"

definition digitVal :: "char \<Rightarrow> nat" where
  "digitVal c = of_char c - 48"

fun showNat :: "nat \<Rightarrow> string" where
  "showNat n = (if n < 10 then [digitChar n] else showNat (n div 10) @ [digitChar (n mod 10)])"

declare showNat.simps [simp del]

text \<open>\<open>big.Int.String\<close> and \<open>strconv.FormatInt(_, 10)\<close>\<close>

definition showInt :: "int \<Rightarrow> string" where
  "showInt x = (if x < 0 then CHR ''-'' # showNat (nat (- x)) else showNat (nat x))"

fun digitsVal :: "string \<Rightarrow> nat \<Rightarrow> nat option" where
  "digitsVal [] acc = Some acc"
| "digitsVal (c # cs) acc = (if isDigit c then digitsVal cs (10 * acc + digitVal c) else None)"

definition parseNat :: "string \<Rightarrow> nat option" where
  "parseNat s = (if s = [] then None else digitsVal s 0)"

text \<open>\<open>new(big.Int).SetString(s, 10)\<close>: an optional sign and at least one digit.\<close>

definition parseBig :: "string \<Rightarrow> int option" where
  "parseBig s = (case s of [] \<Rightarrow> None
     | c # cs \<Rightarrow> if c = CHR ''-'' then map_option (\<lambda>n. - int n) (parseNat cs)
                else if c = CHR ''+'' then map_option int (parseNat cs)
                else map_option int (parseNat s))"

text \<open>\<open>strconv.ParseInt(s, 10, 64)\<close>: the same syntax, and an error out of the \<open>int64\<close> range.\<close>

definition parseInt64 :: "string \<Rightarrow> int option" where
  "parseInt64 s = (case parseBig s of None \<Rightarrow> None
     | Some x \<Rightarrow> if - (2 ^ 63) \<le> x \<and> x < 2 ^ 63 then Some x else None)"

lemma digitChar_props:
  assumes "d < 10"
  shows "isDigit (digitChar d)" "digitVal (digitChar d) = d"
  using assms by (simp_all add: isDigit_def digitVal_def digitChar_def)

lemma digitsVal_append:
  "digitsVal (xs @ ys) acc = (case digitsVal xs acc of None \<Rightarrow> None | Some v \<Rightarrow> digitsVal ys v)"
  by (induction xs arbitrary: acc) auto

lemma digitsVal_showNat: "digitsVal (showNat n) 0 = Some n"
proof (induction n rule: showNat.induct)
  case (1 n)
  show ?case
  proof (cases "n < 10")
    case True
    then show ?thesis by (simp add: showNat.simps [of n] digitChar_props)
  next
    case False
    with 1 have "digitsVal (showNat (n div 10)) 0 = Some (n div 10)" by simp
    with False show ?thesis
      by (simp add: showNat.simps [of n] digitsVal_append digitChar_props)
  qed
qed

lemma showNat_nonempty [simp]: "showNat n \<noteq> []"
  by (simp add: showNat.simps [of n])

lemma showNat_digits: "c \<in> set (showNat n) \<Longrightarrow> isDigit c"
proof (induction n rule: showNat.induct)
  case (1 n)
  then show ?case by (cases "n < 10") (auto simp: showNat.simps [of n] digitChar_props)
qed

lemma parseNat_showNat: "parseNat (showNat n) = Some n"
  by (simp add: parseNat_def digitsVal_showNat)

lemma parseBig_showInt: "parseBig (showInt x) = Some x"
proof (cases "x < 0")
  case True
  then show ?thesis by (simp add: parseBig_def showInt_def parseNat_showNat)
next
  case False
  obtain c cs where c: "showNat (nat x) = c # cs" by (cases "showNat (nat x)") auto
  then have "isDigit c" using showNat_digits [of c "nat x"] by simp
  then have "c \<noteq> CHR ''-''" "c \<noteq> CHR ''+''" by (auto simp: isDigit_def)
  then have "parseBig (c # cs) = map_option int (parseNat (c # cs))" by (simp add: parseBig_def)
  then show ?thesis using False parseNat_showNat [of "nat x"] by (simp add: showInt_def c)
qed

lemma parseInt64_showInt:
  "- (2 ^ 63) \<le> x \<Longrightarrow> x < 2 ^ 63 \<Longrightarrow> parseInt64 (showInt x) = Some x"
  by (simp add: parseInt64_def parseBig_showInt)

end
