(* ===== verification/Zk_Bytes.thy ===== *)
theory Zk_Bytes
  imports Zk_Prelude
begin

text \<open>
  Byte strings: \<open>big.Int.SetBytes\<close> and \<open>big.Int.FillBytes\<close>, the readers and writers of
  \<open>src/common/bytes.go\<close>, and the account-name helpers of \<open>src/common/string.go\<close>.
  A writer that finds its buffer too small panics (\<open>None\<close>); a reader that leaves the buffer
  panics (\<open>None\<close>). The locale \<open>fixed_codec\<close> is the contract of a fixed-width integer field:
  what a reader sees after a writer; every width of the repository is an interpretation of it.
\<close>

type_synonym byte = "8 word"

section \<open>Big-endian integers of math/big\<close>

fun beBytes :: "nat \<Rightarrow> nat \<Rightarrow> byte list" where
  "beBytes 0 x = []"
| "beBytes (Suc n) x = beBytes n (x div 256) @ [of_nat (x mod 256)]"

text \<open>\<open>a.FillBytes(make([]byte, n))\<close>: the absolute value, zero padded; panics when it does not fit.\<close>

definition FillBytes :: "nat \<Rightarrow> int \<Rightarrow> byte list option" where
  "FillBytes n a = (if nat \<bar>a\<bar> < 256 ^ n then Some (beBytes n (nat \<bar>a\<bar>)) else None)"

definition SetBytes :: "byte list \<Rightarrow> int" where
  "SetBytes bs = int (foldl (\<lambda>acc b. 256 * acc + unat b) 0 bs)"

lemma length_beBytes [simp]: "length (beBytes n x) = n"
  by (induction n arbitrary: x) auto

lemma SetBytes_Nil [simp]: "SetBytes [] = 0" by (simp add: SetBytes_def)

lemma SetBytes_snoc: "SetBytes (bs @ [b]) = 256 * SetBytes bs + uint b"
  by (simp add: SetBytes_def)

lemma SetBytes_nonneg [simp]: "0 \<le> SetBytes bs" by (simp add: SetBytes_def)

lemma SetBytes_bound: "SetBytes bs < 256 ^ length bs"
proof (induction bs rule: rev_induct)
  case (snoc b bs)
  have "uint b < 256" using uint_lt2p [of b] by simp
  with snoc show ?case by (simp add: SetBytes_snoc)
qed simp

lemma SetBytes_beBytes: "x < 256 ^ n \<Longrightarrow> SetBytes (beBytes n x) = int x"
proof (induction n arbitrary: x)
  case (Suc n)
  from Suc.prems have "x div 256 < 256 ^ n"
    by (metis less_mult_imp_div_less mult.commute power_Suc)
  moreover have "uint (of_nat (x mod 256) :: byte) = int (x mod 256)"
    by (simp add: uint_nat unat_of_nat)
  moreover have "256 * int (x div 256) + int (x mod 256) = int x"
    by (metis mult_div_mod_eq of_nat_add of_nat_mult of_nat_numeral)
  ultimately show ?case using Suc.IH [of "x div 256"] by (simp add: SetBytes_snoc)
qed simp

lemma beBytes_SetBytes: "beBytes (length bs) (nat (SetBytes bs)) = bs"
proof (induction bs rule: rev_induct)
  case (snoc b bs)
  have u: "unat b < 256" using unsigned_less [of b] by simp
  have n: "nat (256 * SetBytes bs + uint b) = 256 * nat (SetBytes bs) + unat b"
    by (simp add: nat_add_distrib nat_mult_distrib)
  from u have "nat (256 * SetBytes bs + uint b) div 256 = nat (SetBytes bs)"
    and "nat (256 * SetBytes bs + uint b) mod 256 = unat b"
    by (simp_all add: n)
  with snoc show ?case by (simp add: SetBytes_snoc)
qed simp

lemma FillBytes_length: "FillBytes n a = Some bs \<Longrightarrow> length bs = n"
  by (auto simp: FillBytes_def split: if_splits)

lemma FillBytes_Some: "0 \<le> a \<Longrightarrow> a < 256 ^ n \<Longrightarrow> FillBytes n a = Some (beBytes n (nat a))"
  by (simp add: FillBytes_def nat_less_iff)

lemma SetBytes_FillBytes:
  assumes "FillBytes n a = Some bs"
  shows "SetBytes bs = \<bar>a\<bar>"
  using assms by (auto simp: FillBytes_def SetBytes_beBytes split: if_splits)

lemma FillBytes_SetBytes: "FillBytes (length bs) (SetBytes bs) = Some bs"
  by (simp add: FillBytes_Some SetBytes_bound beBytes_SetBytes)

section \<open>Writers\<close>

definition Uint16ToBytes :: "16 word \<Rightarrow> byte list" where
  "Uint16ToBytes a = beBytes 2 (unat a)"

definition Uint24ToBytes :: "int \<Rightarrow> byte list option" where
  "Uint24ToBytes a = FillBytes 3 a"

definition Uint32ToBytes :: "32 word \<Rightarrow> byte list" where
  "Uint32ToBytes a = beBytes 4 (unat a)"

definition Uint40ToBytes :: "int \<Rightarrow> byte list option" where
  "Uint40ToBytes a = FillBytes 5 a"

definition Uint128ToBytes :: "int \<Rightarrow> byte list option" where
  "Uint128ToBytes a = FillBytes 16 a"

definition Uint256ToBytes :: "int \<Rightarrow> byte list option" where
  "Uint256ToBytes a = FillBytes 32 a"

definition PrefixPaddingBufToChunkSize :: "byte list \<Rightarrow> byte list option" where
  "PrefixPaddingBufToChunkSize buf = FillBytes 32 (SetBytes buf)"

text \<open>\<open>copy(res[:], buf[:])\<close> into 32 zero bytes: what does not fit is dropped.\<close>

definition SuffixPaddingBufToChunkSize :: "byte list \<Rightarrow> byte list" where
  "SuffixPaddingBufToChunkSize buf = take 32 buf @ replicate (32 - length buf) 0"

text \<open>The writers of \<open>uint16\<close> and \<open>uint32\<close> never panic: the value always fits its bytes.\<close>

lemma Uint16ToBytes_FillBytes: "FillBytes 2 (uint a) = Some (Uint16ToBytes (a :: 16 word))"
  using uint_lt2p [of a] by (simp add: Uint16ToBytes_def FillBytes_Some)

lemma Uint32ToBytes_FillBytes: "FillBytes 4 (uint a) = Some (Uint32ToBytes (a :: 32 word))"
  using uint_lt2p [of a] by (simp add: Uint32ToBytes_def FillBytes_Some)

lemma length_writers [simp]:
  "length (Uint16ToBytes a) = 2" "length (Uint32ToBytes b) = 4"
  "length (SuffixPaddingBufToChunkSize buf) = 32"
  by (simp_all add: Uint16ToBytes_def Uint32ToBytes_def SuffixPaddingBufToChunkSize_def)

lemma length_writers_opt:
  "Uint24ToBytes a = Some bs \<Longrightarrow> length bs = 3"
  "Uint40ToBytes a = Some bs \<Longrightarrow> length bs = 5"
  "Uint128ToBytes a = Some bs \<Longrightarrow> length bs = 16"
  "Uint256ToBytes a = Some bs \<Longrightarrow> length bs = 32"
  "PrefixPaddingBufToChunkSize buf = Some bs \<Longrightarrow> length bs = 32"
  by (simp_all add: Uint24ToBytes_def Uint40ToBytes_def Uint128ToBytes_def Uint256ToBytes_def
      PrefixPaddingBufToChunkSize_def FillBytes_length)

lemma PrefixPadding_32: "length buf = 32 \<Longrightarrow> PrefixPaddingBufToChunkSize buf = Some buf"
  using FillBytes_SetBytes [of buf] by (simp add: PrefixPaddingBufToChunkSize_def)

lemma PrefixPadding_Nil: "PrefixPaddingBufToChunkSize [] = Some (replicate 32 0)"
proof -
  have "beBytes n 0 = replicate n 0" for n
    by (induction n) (simp_all add: replicate_append_same)
  then show ?thesis by (simp add: PrefixPaddingBufToChunkSize_def FillBytes_def)
qed

section \<open>Readers\<close>

text \<open>\<open>buf[offset : offset+n]\<close>; out of range is a panic.\<close>

definition sliceAt :: "byte list \<Rightarrow> nat \<Rightarrow> nat \<Rightarrow> byte list option" where
  "sliceAt buf off n = (if off + n \<le> length buf then Some (take n (drop off buf)) else None)"

definition ReadUint8 :: "byte list \<Rightarrow> nat \<Rightarrow> (nat \<times> int) option" where
  "ReadUint8 buf off = (if off < length buf then Some (off + 1, uint (buf ! off)) else None)"

definition ReadUint16 :: "byte list \<Rightarrow> nat \<Rightarrow> (nat \<times> int) option" where
  "ReadUint16 buf off = map_option (\<lambda>b. (off + 2, SetBytes b)) (sliceAt buf off 2)"

definition ReadUint32 :: "byte list \<Rightarrow> nat \<Rightarrow> (nat \<times> int) option" where
  "ReadUint32 buf off = map_option (\<lambda>b. (off + 4, SetBytes b)) (sliceAt buf off 4)"

definition ReadUint40 :: "byte list \<Rightarrow> nat \<Rightarrow> (nat \<times> int) option" where
  "ReadUint40 buf off = map_option (\<lambda>b. (off + 5, SetBytes b)) (sliceAt buf off 5)"

definition ReadUint128 :: "byte list \<Rightarrow> nat \<Rightarrow> (nat \<times> int) option" where
  "ReadUint128 buf off = map_option (\<lambda>b. (off + 16, SetBytes b)) (sliceAt buf off 16)"

definition ReadUint256 :: "byte list \<Rightarrow> nat \<Rightarrow> (nat \<times> int) option" where
  "ReadUint256 buf off = map_option (\<lambda>b. (off + 32, SetBytes b)) (sliceAt buf off 32)"

definition ReadBytes32 :: "byte list \<Rightarrow> nat \<Rightarrow> (nat \<times> byte list) option" where
  "ReadBytes32 buf off = map_option (\<lambda>b. (off + 32, b)) (sliceAt buf off 32)"

text \<open>\<open>ReadAddress\<close>: \<open>common.BytesToAddress(_).Hex()\<close> of go-ethereum is the parameter.\<close>

definition ReadAddress :: "(byte list \<Rightarrow> string) \<Rightarrow> byte list \<Rightarrow> nat \<Rightarrow> (nat \<times> string) option" where
  "ReadAddress addrHex buf off = map_option (\<lambda>b. (off + 20, addrHex b)) (sliceAt buf off 20)"

lemma sliceAt_append:
  "length xs = off \<Longrightarrow> length ys = n \<Longrightarrow> sliceAt (xs @ ys @ zs) off n = Some ys"
  by (simp add: sliceAt_def)

text \<open>A fixed-width field: a writer, a reader, and what the reader returns after the writer.\<close>

locale fixed_codec =
  fixes width :: nat
    and fits :: "int \<Rightarrow> bool"
    and put :: "int \<Rightarrow> byte list option"
    and get :: "byte list \<Rightarrow> nat \<Rightarrow> (nat \<times> int) option"
  assumes put_total: "fits a \<Longrightarrow> \<exists>bs. put a = Some bs"
    and put_width: "fits a \<Longrightarrow> put a = Some bs \<Longrightarrow> length bs = width"
    and get_put: "fits a \<Longrightarrow> put a = Some bs \<Longrightarrow>
          get (xs @ bs @ ys) (length xs) = Some (length xs + width, a)"
begin

lemma get_field:
  assumes "fits a"
  obtains bs where "put a = Some bs" "length bs = width"
    "\<And>xs ys. get (xs @ bs @ ys) (length xs) = Some (length xs + width, a)"
proof -
  from put_total [OF assms] obtain bs where "put a = Some bs" by blast
  with that put_width [OF assms] get_put [OF assms] show ?thesis by blast
qed

lemma write_inj:
  assumes "fits a" "fits b" "put a = put b"
  shows "a = b"
proof -
  from put_total [OF assms(1)] obtain bs where "put a = Some bs" by blast
  with assms show ?thesis
    using get_put [of a bs "[]" "[]"] get_put [of b bs "[]" "[]"] by simp
qed

end

lemma fixed_codec_FillBytes:
  assumes "get = (\<lambda>buf off. map_option (\<lambda>b. (off + n, SetBytes b)) (sliceAt buf off n))"
  shows "fixed_codec n (\<lambda>a. 0 \<le> a \<and> a < 256 ^ n) (FillBytes n) get"
proof
  fix a :: int and bs xs ys
  assume a: "0 \<le> a \<and> a < 256 ^ n"
  then show "\<exists>bs. FillBytes n a = Some bs" by (simp add: FillBytes_Some)
  assume w: "FillBytes n a = Some bs"
  then show len: "length bs = n" by (rule FillBytes_length)
  show "get (xs @ bs @ ys) (length xs) = Some (length xs + n, a)"
    using a len SetBytes_FillBytes [OF w] by (simp add: assms sliceAt_append)
qed

interpretation u16: fixed_codec 2 "\<lambda>a. 0 \<le> a \<and> a < 256 ^ 2" "FillBytes 2" ReadUint16
  by (rule fixed_codec_FillBytes) (simp add: ReadUint16_def fun_eq_iff)

interpretation u32: fixed_codec 4 "\<lambda>a. 0 \<le> a \<and> a < 256 ^ 4" "FillBytes 4" ReadUint32
  by (rule fixed_codec_FillBytes) (simp add: ReadUint32_def fun_eq_iff)

interpretation u40: fixed_codec 5 "\<lambda>a. 0 \<le> a \<and> a < 256 ^ 5" Uint40ToBytes ReadUint40
  unfolding Uint40ToBytes_def [abs_def]
  by (rule fixed_codec_FillBytes) (simp add: ReadUint40_def fun_eq_iff)

interpretation u128: fixed_codec 16 "\<lambda>a. 0 \<le> a \<and> a < 256 ^ 16" Uint128ToBytes ReadUint128
  unfolding Uint128ToBytes_def [abs_def]
  by (rule fixed_codec_FillBytes) (simp add: ReadUint128_def fun_eq_iff)

interpretation u256: fixed_codec 32 "\<lambda>a. 0 \<le> a \<and> a < 256 ^ 32" Uint256ToBytes ReadUint256
  unfolding Uint256ToBytes_def [abs_def]
  by (rule fixed_codec_FillBytes) (simp add: ReadUint256_def fun_eq_iff)

section \<open>Account names\<close>

definition byteOfChar :: "char \<Rightarrow> byte" where
  "byteOfChar c = of_char c"

definition charOfByte :: "byte \<Rightarrow> char" where
  "charOfByte b = char_of (unat b)"

definition AccountNameSuffix :: string where
  "AccountNameSuffix = ''.legend''"

text \<open>\<open>strings.Split(s, sep)[0]\<close>: the text before the first occurrence of the separator.\<close>

fun splitHead :: "string \<Rightarrow> string \<Rightarrow> string" where
  "splitHead sep [] = []"
| "splitHead sep (c # cs) = (if take (length sep) (c # cs) = sep then [] else c # splitHead sep cs)"

definition AccountNameToBytes32 :: "string \<Rightarrow> byte list" where
  "AccountNameToBytes32 accountName =
     (let realName = map byteOfChar (splitHead AccountNameSuffix accountName)
      in take 32 realName @ replicate (32 - length realName) 0)"

text \<open>\<open>string(bytes.Trim(a[:], "\x00")) + ".legend"\<close>\<close>

definition SerializeAccountName :: "byte list \<Rightarrow> string" where
  "SerializeAccountName a =
     map charOfByte (rev (dropWhile (\<lambda>b. b = 0) (rev (dropWhile (\<lambda>b. b = 0) a)))) @ AccountNameSuffix"

text \<open>
  \<open>LowerCase\<close>, \<open>OmitSpace\<close> and \<open>OmitSpaceMiddle\<close> on ASCII text; the bytes of other code points
  are left as they are.
\<close>

definition lowerChar :: "char \<Rightarrow> char" where
  "lowerChar c = (let n = (of_char c :: nat) in if 65 \<le> n \<and> n \<le> 90 then char_of (n + 32) else c)"

definition isSpaceChar :: "char \<Rightarrow> bool" where
  "isSpaceChar c \<longleftrightarrow> (let n = (of_char c :: nat) in n = 32 \<or> (9 \<le> n \<and> n \<le> 13))"

definition LowerCase :: "string \<Rightarrow> string" where
  "LowerCase s = map lowerChar s"

definition OmitSpace :: "string \<Rightarrow> string" where
  "OmitSpace s = rev (dropWhile isSpaceChar (rev (dropWhile isSpaceChar s)))"

definition OmitSpaceMiddle :: "string \<Rightarrow> string" where
  "OmitSpaceMiddle s = filter (\<lambda>c. \<not> isSpaceChar c) s"

definition CleanAccountName :: "string \<Rightarrow> string" where
  "CleanAccountName name = OmitSpaceMiddle (OmitSpace (LowerCase name))"

lemma length_AccountNameToBytes32 [simp]: "length (AccountNameToBytes32 n) = 32"
  by (simp add: AccountNameToBytes32_def Let_def)

lemma charOfByte_byteOfChar [simp]: "charOfByte (byteOfChar c) = c"
proof -
  have "unat (byteOfChar c) = of_char c"
    by (cases c) (simp add: byteOfChar_def)
  then show ?thesis by (simp add: charOfByte_def)
qed

end
