(* ===== verification/Zk_Errors.thy ===== *)
theory Zk_Errors
  imports Zk_Prelude
begin

text \<open>
  The error values of \<open>src/types/code.go\<close> and \<open>src/types/error.go\<close>. An application error is a
  code and a message (\<open>commonError\<close>); the database and JSON sentinels, \<open>errors.New(_)\<close> values
  and the validation errors of the zkbnb-crypto library are further constructors. Two
  application errors of the source are never equal as values, so that comparing values is
  comparing the pointers the Go code compares.
\<close>

text \<open>The sentinels of \<open>txtypes\<close> that \<open>core/block_processor.go\<close> names, and any other error of it.\<close>

datatype txtypesErr =
    ErrAccountIndexTooLow
  | ErrAccountIndexTooHigh
  | ErrCreatorAccountIndexTooLow
  | ErrCreatorAccountIndexTooHigh
  | ErrFromAccountIndexTooLow
  | ErrFromAccountIndexTooHigh
  | ErrToAccountIndexTooLow
  | ErrToAccountIndexTooHigh
  | ErrGasAccountIndexTooLow
  | ErrGasAccountIndexTooHigh
  | ErrGasFeeAssetIdTooLow
  | ErrGasFeeAssetIdTooHigh
  | ErrGasFeeAssetAmountTooLow
  | ErrGasFeeAssetAmountTooHigh
  | ErrNonceTooLow
  | ErrOfferTypeInvalid
  | ErrOfferIdTooLow
  | ErrNftIndexTooLow
  | ErrAssetIdTooLow
  | ErrAssetIdTooHigh
  | ErrAssetAmountTooLow
  | ErrAssetAmountTooHigh
  | ErrListedAtTooLow
  | ErrTreasuryRateTooLow
  | ErrTreasuryRateTooHigh
  | ErrCreatorTreasuryRateTooLow
  | ErrCreatorTreasuryRateTooHigh
  | ErrCollectionNameTooShort
  | ErrCollectionNameTooLong
  | ErrIntroductionTooLong
  | ErrNftContentHashInvalid
  | ErrNftCollectionIdTooLow
  | ErrNftCollectionIdTooHigh
  | ErrCallDataHashInvalid
  | ErrToAccountNameHashInvalid
  | ErrToAddressInvalid
  | ErrBuyOfferInvalid
  | ErrSellOfferInvalid
  | ErrOther string

datatype err =
    AppErr int string
  | DbErrNotFound
  | DbErrSqlOperation
  | JsonErrUnmarshal
  | JsonErrMarshal
  | ErrorsNew string
  | TxtypesErr txtypesErr

section \<open>Application errors\<close>

definition AppErrInvalidParam :: err where
  "AppErrInvalidParam = AppErr 20001 ''invalid param: ''"

definition AppErrInvalidTxField :: err where
  "AppErrInvalidTxField = AppErr 20002 ''invalid tx field: ''"

definition AppErrInvalidExpireTime :: err where
  "AppErrInvalidExpireTime = AppErr 21000 ''invalid expired time''"

definition AppErrInvalidGasFeeAmount :: err where
  "AppErrInvalidGasFeeAmount = AppErr 21001 ''invalid gas fee amount''"

definition AppErrBalanceNotEnough :: err where
  "AppErrBalanceNotEnough = AppErr 21002 ''balance is not enough''"

definition AppErrInvalidTreasuryRate :: err where
  "AppErrInvalidTreasuryRate = AppErr 21003 ''invalid treasury rate''"

definition AppErrInvalidCallDataHash :: err where
  "AppErrInvalidCallDataHash = AppErr 21004 ''invalid calldata hash''"

definition AppErrInvalidToAddress :: err where
  "AppErrInvalidToAddress = AppErr 21005 ''invalid toAddress''"

definition AppErrAccountNotFound :: err where
  "AppErrAccountNotFound = AppErr 21100 ''account not found''"

definition AppErrAccountNonceNotFound :: err where
  "AppErrAccountNonceNotFound = AppErr 21101 ''account nonce not found''"

definition AppErrInvalidAccountIndex :: err where
  "AppErrInvalidAccountIndex = AppErr 21102 ''invalid account index''"

definition AppErrInvalidNonce :: err where
  "AppErrInvalidNonce = AppErr 21103 ''invalid nonce''"

definition AppErrInvalidGasFeeAccount :: err where
  "AppErrInvalidGasFeeAccount = AppErr 21104 ''invalid gas fee account''"

definition AppErrInvalidToAccountNameHash :: err where
  "AppErrInvalidToAccountNameHash = AppErr 21105 ''invalid ToAccountNameHash''"

definition AppErrAccountNameAlreadyRegistered :: err where
  "AppErrAccountNameAlreadyRegistered = AppErr 21106 ''invalid account name, already registered''"

definition AppErrAssetNotFound :: err where
  "AppErrAssetNotFound = AppErr 21200 ''asset not found''"

definition AppErrInvalidAssetId :: err where
  "AppErrInvalidAssetId = AppErr 21201 ''invalid asset id''"

definition AppErrInvalidGasFeeAsset :: err where
  "AppErrInvalidGasFeeAsset = AppErr 21202 ''invalid gas fee asset''"

definition AppErrInvalidAssetAmount :: err where
  "AppErrInvalidAssetAmount = AppErr 21203 ''invalid asset amount''"

definition AppErrBlockNotFound :: err where
  "AppErrBlockNotFound = AppErr 21300 ''block not found''"

definition AppErrInvalidBlockHeight :: err where
  "AppErrInvalidBlockHeight = AppErr 21301 ''invalid block height''"

definition AppErrPoolTxNotFound :: err where
  "AppErrPoolTxNotFound = AppErr 21400 ''pool tx not found''"

definition AppErrInvalidTxInfo :: err where
  "AppErrInvalidTxInfo = AppErr 21401 ''invalid tx info''"

definition AppErrInvalidOfferType :: err where
  "AppErrInvalidOfferType = AppErr 21500 ''invalid offer type''"

definition AppErrInvalidOfferState :: err where
  "AppErrInvalidOfferState = AppErr 21501 ''invalid offer state, already canceled or finalized''"

definition AppErrInvalidOfferId :: err where
  "AppErrInvalidOfferId = AppErr 21502 ''invalid offer id''"

definition AppErrInvalidListTime :: err where
  "AppErrInvalidListTime = AppErr 21503 ''invalid listed time''"

definition AppErrInvalidBuyOffer :: err where
  "AppErrInvalidBuyOffer = AppErr 21504 ''invalid buy offer''"

definition AppErrInvalidSellOffer :: err where
  "AppErrInvalidSellOffer = AppErr 21505 ''invalid sell offer''"

definition AppErrSameBuyerAndSeller :: err where
  "AppErrSameBuyerAndSeller = AppErr 21506 ''same buyer and seller''"

definition AppErrBuyOfferMismatchSellOffer :: err where
  "AppErrBuyOfferMismatchSellOffer = AppErr 21506 ''buy offer mismatches sell offer''"

definition AppErrInvalidBuyOfferExpireTime :: err where
  "AppErrInvalidBuyOfferExpireTime = AppErr 21507 ''invalid BuyOffer.ExpiredAt''"

definition AppErrInvalidSellOfferExpireTime :: err where
  "AppErrInvalidSellOfferExpireTime = AppErr 21508 ''invalid SellOffer.ExpiredAt''"

definition AppErrSellerBalanceNotEnough :: err where
  "AppErrSellerBalanceNotEnough = AppErr 21508 ''seller balance is not enough''"

definition AppErrBuyerBalanceNotEnough :: err where
  "AppErrBuyerBalanceNotEnough = AppErr 21509 ''buyer balance is not enough''"

definition AppErrSellerNotOwner :: err where
  "AppErrSellerNotOwner = AppErr 21510 ''seller is not owner''"

definition AppErrInvalidSellOfferState :: err where
  "AppErrInvalidSellOfferState = AppErr 21511 ''invalid sell offer state, already canceled or finalized''"

definition AppErrInvalidBuyOfferState :: err where
  "AppErrInvalidBuyOfferState = AppErr 21512 ''invalid buy offer state, already canceled or finalized''"

definition AppErrInvalidAssetOfOffer :: err where
  "AppErrInvalidAssetOfOffer = AppErr 21513 ''invalid asset of offer''"

definition AppErrNftAlreadyExist :: err where
  "AppErrNftAlreadyExist = AppErr 21600 ''invalid nft index, already exist''"

definition AppErrInvalidNftContenthash :: err where
  "AppErrInvalidNftContenthash = AppErr 21601 ''invalid nft content hash''"

definition AppErrNotNftOwner :: err where
  "AppErrNotNftOwner = AppErr 21602 ''account is not owner of the nft''"

definition AppErrInvalidNftIndex :: err where
  "AppErrInvalidNftIndex = AppErr 21603 ''invalid nft index''"

definition AppErrNftNotFound :: err where
  "AppErrNftNotFound = AppErr 21604 ''nft not found''"

definition AppErrInvalidCollectionId :: err where
  "AppErrInvalidCollectionId = AppErr 21700 ''invalid collection id''"

definition AppErrInvalidCollectionName :: err where
  "AppErrInvalidCollectionName = AppErr 21701 ''invalid collection name''"

definition AppErrInvalidIntroduction :: err where
  "AppErrInvalidIntroduction = AppErr 21702 ''invalid introduction''"

definition AppErrInvalidGasAsset :: err where
  "AppErrInvalidGasAsset = AppErr 25003 ''invalid gas asset''"

definition AppErrInvalidTxType :: err where
  "AppErrInvalidTxType = AppErr 25004 ''invalid tx type''"

definition AppErrTooManyTxs :: err where
  "AppErrTooManyTxs = AppErr 25005 ''too many pending txs''"

definition AppErrNotFound :: err where
  "AppErrNotFound = AppErr 29404 ''not found''"

definition AppErrInternal :: err where
  "AppErrInternal = AppErr 29500 ''internal server error''"

lemmas err_defs =
  AppErrInvalidParam_def
  AppErrInvalidTxField_def
  AppErrInvalidExpireTime_def
  AppErrInvalidGasFeeAmount_def
  AppErrBalanceNotEnough_def
  AppErrInvalidTreasuryRate_def
  AppErrInvalidCallDataHash_def
  AppErrInvalidToAddress_def
  AppErrAccountNotFound_def
  AppErrAccountNonceNotFound_def
  AppErrInvalidAccountIndex_def
  AppErrInvalidNonce_def
  AppErrInvalidGasFeeAccount_def
  AppErrInvalidToAccountNameHash_def
  AppErrAccountNameAlreadyRegistered_def
  AppErrAssetNotFound_def
  AppErrInvalidAssetId_def
  AppErrInvalidGasFeeAsset_def
  AppErrInvalidAssetAmount_def
  AppErrBlockNotFound_def
  AppErrInvalidBlockHeight_def
  AppErrPoolTxNotFound_def
  AppErrInvalidTxInfo_def
  AppErrInvalidOfferType_def
  AppErrInvalidOfferState_def
  AppErrInvalidOfferId_def
  AppErrInvalidListTime_def
  AppErrInvalidBuyOffer_def
  AppErrInvalidSellOffer_def
  AppErrSameBuyerAndSeller_def
  AppErrBuyOfferMismatchSellOffer_def
  AppErrInvalidBuyOfferExpireTime_def
  AppErrInvalidSellOfferExpireTime_def
  AppErrSellerBalanceNotEnough_def
  AppErrBuyerBalanceNotEnough_def
  AppErrSellerNotOwner_def
  AppErrInvalidSellOfferState_def
  AppErrInvalidBuyOfferState_def
  AppErrInvalidAssetOfOffer_def
  AppErrNftAlreadyExist_def
  AppErrInvalidNftContenthash_def
  AppErrNotNftOwner_def
  AppErrInvalidNftIndex_def
  AppErrNftNotFound_def
  AppErrInvalidCollectionId_def
  AppErrInvalidCollectionName_def
  AppErrInvalidIntroduction_def
  AppErrInvalidGasAsset_def
  AppErrInvalidTxType_def
  AppErrTooManyTxs_def
  AppErrNotFound_def
  AppErrInternal_def

text \<open>\<open>Error.Code\<close> and \<open>Error.RefineError\<close> of \<open>commonError\<close>\<close>

fun errCode :: "err \<Rightarrow> int option" where
  "errCode (AppErr c m) = Some c"
| "errCode _ = None"

definition RefineError :: "err \<Rightarrow> string \<Rightarrow> err" where
  "RefineError e msg = (case e of AppErr c m \<Rightarrow> AppErr c (m @ msg) | _ \<Rightarrow> e)"

lemma RefineError_code: "errCode (RefineError e msg) = errCode e"
  by (cases e) (simp_all add: RefineError_def)

end
