(* ===== verification/Zk_Types.thy ===== *)
theory Zk_Types
  imports Zk_Bytes Zk_Errors
begin

text \<open>
  The data of the program: the constants and structs of \<open>src/types\<close>, the rows of \<open>src/dao\<close>, the
  transaction payloads (structs of the zkbnb-crypto library, with the fields the repository
  reads or writes), and the record of library functions the repository calls but does not
  contain, which every definition that needs one takes as its argument \<open>X\<close>.

  A text column that holds the output of \<open>json.Marshal\<close> is represented by the value it decodes
  to; a text that does not decode is a constructor of its own. \<open>*big.Int\<close> values are integers.
\<close>

section \<open>Constants (src/types/constant.go, src/types/tx.go, src/types/account.go)\<close>

definition EmptyAccountIndex :: int where "EmptyAccountIndex = 0"
definition EmptyNonce :: int where "EmptyNonce = 0"
definition EmptyCollectionNonce :: int where "EmptyCollectionNonce = 0"
definition EmptyNftContentHash :: string where "EmptyNftContentHash = ''0''"
definition EmptyAccountNameHash :: string where "EmptyAccountNameHash = ''0''"
definition EmptyTxHash :: string where "EmptyTxHash = ''0''"
definition EmptyL1TokenId :: string where "EmptyL1TokenId = ''0''"
definition EmptyL1Address :: string where "EmptyL1Address = ''0''"
definition EmptyCreatorTreasuryRate :: int where "EmptyCreatorTreasuryRate = 0"
definition EmptyAccountAssetId :: int where "EmptyAccountAssetId = 0"
definition NilAccountName :: string where "NilAccountName = ''''"
definition NilAccountIndex :: int where "NilAccountIndex = -1"
definition NilAssetId :: int where "NilAssetId = -1"
definition NilAccountOrder :: int where "NilAccountOrder = -1"
definition GasAccount :: int where "GasAccount = 1"
definition GasAssets :: "int list" where "GasAssets = [0, 1]"
definition FungibleAssetType :: int where "FungibleAssetType = 1"
definition NftAssetType :: int where "NftAssetType = 2"
definition CollectionNonceAssetType :: int where "CollectionNonceAssetType = 3"
definition BuyOfferType :: int where "BuyOfferType = 0"
definition SellOfferType :: int where "SellOfferType = 1"
definition OfferPerAsset :: int where "OfferPerAsset = 128"
definition TenThousand :: int where "TenThousand = 10000"
definition AccountStatusConfirmed :: int where "AccountStatusConfirmed = 1"
definition EmptyStringKeccak :: string where
  "EmptyStringKeccak = ''0xc5d2460186f7233c927e7db2dcc703c0e500b653ca82273b7bfad8045d85a470''"

definition TxTypeEmpty :: int where "TxTypeEmpty = 0"
definition TxTypeRegisterZns :: int where "TxTypeRegisterZns = 1"
definition TxTypeDeposit :: int where "TxTypeDeposit = 2"
definition TxTypeDepositNft :: int where "TxTypeDepositNft = 3"
definition TxTypeTransfer :: int where "TxTypeTransfer = 4"
definition TxTypeWithdraw :: int where "TxTypeWithdraw = 5"
definition TxTypeCreateCollection :: int where "TxTypeCreateCollection = 6"
definition TxTypeMintNft :: int where "TxTypeMintNft = 7"
definition TxTypeTransferNft :: int where "TxTypeTransferNft = 8"
definition TxTypeAtomicMatch :: int where "TxTypeAtomicMatch = 9"
definition TxTypeCancelOffer :: int where "TxTypeCancelOffer = 10"
definition TxTypeWithdrawNft :: int where "TxTypeWithdrawNft = 11"
definition TxTypeFullExit :: int where "TxTypeFullExit = 12"
definition TxTypeFullExitNft :: int where "TxTypeFullExitNft = 13"
definition TxTypeOffer :: int where "TxTypeOffer = 14"

lemmas txtype_defs =
  TxTypeEmpty_def TxTypeRegisterZns_def TxTypeDeposit_def TxTypeDepositNft_def TxTypeTransfer_def
  TxTypeWithdraw_def TxTypeCreateCollection_def TxTypeMintNft_def TxTypeTransferNft_def
  TxTypeAtomicMatch_def TxTypeCancelOffer_def TxTypeWithdrawNft_def TxTypeFullExit_def
  TxTypeFullExitNft_def TxTypeOffer_def

definition IsL2Tx :: "int \<Rightarrow> bool" where
  "IsL2Tx t \<longleftrightarrow> t = TxTypeTransfer \<or> t = TxTypeWithdraw \<or> t = TxTypeCreateCollection \<or> t = TxTypeMintNft \<or>
     t = TxTypeTransferNft \<or> t = TxTypeAtomicMatch \<or> t = TxTypeCancelOffer \<or> t = TxTypeWithdrawNft"

definition IsPriorityOperationTx :: "int \<Rightarrow> bool" where
  "IsPriorityOperationTx t \<longleftrightarrow> t = TxTypeRegisterZns \<or> t = TxTypeDeposit \<or> t = TxTypeDepositNft \<or>
     t = TxTypeFullExit \<or> t = TxTypeFullExitNft"

lemma L2_not_priority: "IsL2Tx t \<Longrightarrow> \<not> IsPriorityOperationTx t"
  by (auto simp: IsL2Tx_def IsPriorityOperationTx_def txtype_defs)

section \<open>Accounts (src/types/account.go, src/dao/account/account.go)\<close>

record AccountAsset =
  aa_AssetId :: int
  aa_Balance :: int
  aa_OfferCanceledOrFinalized :: int

definition ConstructAccountAsset :: "int \<Rightarrow> int \<Rightarrow> int \<Rightarrow> AccountAsset" where
  "ConstructAccountAsset assetId balance offer =
     \<lparr>aa_AssetId = assetId, aa_Balance = balance, aa_OfferCanceledOrFinalized = offer\<rparr>"

text \<open>A nil \<open>AssetInfo\<close> map and an empty one read alike; both are the empty map.\<close>

record AccountInfo =
  ai_AccountId :: int
  ai_AccountIndex :: int
  ai_AccountName :: string
  ai_PublicKey :: string
  ai_AccountNameHash :: string
  ai_L1Address :: string
  ai_Nonce :: int
  ai_CollectionNonce :: int
  ai_AssetInfo :: "int \<rightharpoonup> AccountAsset"
  ai_AssetRoot :: string
  ai_Status :: int

datatype assetText = AssetJson "int \<rightharpoonup> AccountAsset" | BadAssetJson string

record Account =
  ac_ID :: int
  ac_AccountIndex :: int
  ac_AccountName :: string
  ac_PublicKey :: string
  ac_AccountNameHash :: string
  ac_L1Address :: string
  ac_Nonce :: int
  ac_CollectionNonce :: int
  ac_AssetInfo :: assetText
  ac_AssetRoot :: string
  ac_Status :: int

text \<open>\<open>chain.FromFormatAccountInfo\<close>: a map of assets always marshals, so there is no error case.\<close>

definition FromFormatAccountInfo :: "AccountInfo \<Rightarrow> Account" where
  "FromFormatAccountInfo f =
     \<lparr>ac_ID = ai_AccountId f, ac_AccountIndex = ai_AccountIndex f, ac_AccountName = ai_AccountName f,
      ac_PublicKey = ai_PublicKey f, ac_AccountNameHash = ai_AccountNameHash f,
      ac_L1Address = ai_L1Address f, ac_Nonce = ai_Nonce f, ac_CollectionNonce = ai_CollectionNonce f,
      ac_AssetInfo = AssetJson (ai_AssetInfo f), ac_AssetRoot = ai_AssetRoot f, ac_Status = ai_Status f\<rparr>"

definition ToFormatAccountInfo :: "Account \<Rightarrow> err + AccountInfo" where
  "ToFormatAccountInfo a =
     (case ac_AssetInfo a of
        BadAssetJson _ \<Rightarrow> Inl JsonErrUnmarshal
      | AssetJson m \<Rightarrow> Inr
         \<lparr>ai_AccountId = ac_ID a, ai_AccountIndex = ac_AccountIndex a, ai_AccountName = ac_AccountName a,
          ai_PublicKey = ac_PublicKey a, ai_AccountNameHash = ac_AccountNameHash a,
          ai_L1Address = ac_L1Address a, ai_Nonce = ac_Nonce a, ai_CollectionNonce = ac_CollectionNonce a,
          ai_AssetInfo = m, ai_AssetRoot = ac_AssetRoot a, ai_Status = ac_Status a\<rparr>)"

lemma ToFormat_FromFormat: "ToFormatAccountInfo (FromFormatAccountInfo f) = Inr f"
  by (simp add: ToFormatAccountInfo_def FromFormatAccountInfo_def)

lemma FromFormat_ToFormat: "ToFormatAccountInfo a = Inr f \<Longrightarrow> FromFormatAccountInfo f = a"
  by (auto simp: ToFormatAccountInfo_def FromFormatAccountInfo_def split: assetText.splits)

lemma ToFormat_index: "ToFormatAccountInfo a = Inr f \<Longrightarrow> ai_AccountIndex f = ac_AccountIndex a"
  by (auto simp: ToFormatAccountInfo_def split: assetText.splits)

section \<open>NFTs (src/types/nft.go, src/dao/nft/nft.go)\<close>

record L2Nft =
  nft_ID :: int
  nft_NftIndex :: int
  nft_CreatorAccountIndex :: int
  nft_OwnerAccountIndex :: int
  nft_NftContentHash :: string
  nft_NftL1Address :: string
  nft_NftL1TokenId :: string
  nft_CreatorTreasuryRate :: int
  nft_CollectionId :: int

record NftInfo =
  ni_NftIndex :: int
  ni_CreatorAccountIndex :: int
  ni_OwnerAccountIndex :: int
  ni_NftContentHash :: string
  ni_NftL1TokenId :: string
  ni_NftL1Address :: string
  ni_CreatorTreasuryRate :: int
  ni_CollectionId :: int

definition IsEmptyNft :: "NftInfo \<Rightarrow> bool" where
  "IsEmptyNft i \<longleftrightarrow> ni_CreatorAccountIndex i = EmptyAccountIndex \<and> ni_OwnerAccountIndex i = EmptyAccountIndex \<and>
     ni_NftContentHash i = EmptyNftContentHash \<and> ni_NftL1TokenId i = EmptyL1TokenId \<and>
     ni_NftL1Address i = EmptyL1Address \<and> ni_CreatorTreasuryRate i = EmptyCreatorTreasuryRate \<and>
     ni_CollectionId i = EmptyCollectionNonce"

definition EmptyNftInfo :: "int \<Rightarrow> NftInfo" where
  "EmptyNftInfo nftIndex =
     \<lparr>ni_NftIndex = nftIndex, ni_CreatorAccountIndex = EmptyAccountIndex,
      ni_OwnerAccountIndex = EmptyAccountIndex, ni_NftContentHash = EmptyNftContentHash,
      ni_NftL1TokenId = EmptyL1TokenId, ni_NftL1Address = EmptyL1Address,
      ni_CreatorTreasuryRate = EmptyCreatorTreasuryRate, ni_CollectionId = EmptyCollectionNonce\<rparr>"

definition ConstructNftInfo ::
  "int \<Rightarrow> int \<Rightarrow> int \<Rightarrow> string \<Rightarrow> string \<Rightarrow> string \<Rightarrow> int \<Rightarrow> int \<Rightarrow> NftInfo" where
  "ConstructNftInfo idx creator owner contentHash l1TokenId l1Address rate collectionId =
     \<lparr>ni_NftIndex = idx, ni_CreatorAccountIndex = creator, ni_OwnerAccountIndex = owner,
      ni_NftContentHash = contentHash, ni_NftL1TokenId = l1TokenId, ni_NftL1Address = l1Address,
      ni_CreatorTreasuryRate = rate, ni_CollectionId = collectionId\<rparr>"

lemma IsEmptyNft_EmptyNftInfo: "IsEmptyNft (EmptyNftInfo n)"
  by (simp add: IsEmptyNft_def EmptyNftInfo_def)

section \<open>Transactions and blocks (src/dao/tx, src/dao/block)\<close>

text \<open>The texts of the balance columns: \<open>AccountAsset.String\<close> (\<open>null\<close> for a nil pointer),
  \<open>NftInfo.String\<close>, and the decimal collection nonce.\<close>

datatype detailText = AssetText "AccountAsset option" | NftText NftInfo | NumText int

record TxDetail =
  td_AssetId :: int
  td_AssetType :: int
  td_AccountIndex :: int
  td_AccountName :: string
  td_Balance :: detailText
  td_BalanceDelta :: detailText
  td_Order :: int
  td_AccountOrder :: int
  td_Nonce :: int
  td_CollectionNonce :: int
  td_IsGas :: bool

datatype txStatus = StatusFailed | StatusPending | StatusExecuted | StatusPacked | StatusCommitted | StatusVerified

record Tx =
  tx_ID :: int
  tx_TxHash :: string
  tx_TxType :: int
  tx_TxInfo :: string
  tx_AccountIndex :: int
  tx_Nonce :: int
  tx_ExpiredAt :: int
  tx_GasFee :: string
  tx_GasFeeAssetId :: int
  tx_NftIndex :: int
  tx_CollectionId :: int
  tx_AssetId :: int
  tx_TxAmount :: string
  tx_NativeAddress :: string
  tx_TxDetails :: "TxDetail list"
  tx_TxIndex :: int
  tx_BlockHeight :: int
  tx_TxStatus :: txStatus

datatype blockStatus = StatusProposing | BlockPending | BlockCommitted | StatusVerifiedAndExecuted

text \<open>\<open>CreatedAt\<close> is kept in Unix milliseconds; Go's zero time is the constant below.\<close>

definition zeroTimeMilli :: int where "zeroTimeMilli = -62135596800000"

record Block =
  bk_BlockHeight :: int
  bk_StateRoot :: string
  bk_BlockStatus :: blockStatus
  bk_CreatedAt :: int
  bk_BlockSize :: "16 word"
  bk_BlockCommitment :: string
  bk_PriorityOperations :: int
  bk_PendingOnChainOperationsHash :: string
  bk_PendingOnChainOperationsPubData :: "byte list list"
  bk_Txs :: "Tx list"

section \<open>Transaction payloads (structs of zkbnb-crypto/wasm/txtypes)\<close>

record RegisterZnsTxInfo =
  rz_TxType :: int
  rz_AccountIndex :: int
  rz_AccountName :: string
  rz_AccountNameHash :: "byte list"
  rz_PubKey :: string

record DepositTxInfo =
  dp_TxType :: int
  dp_AccountIndex :: int
  dp_AccountNameHash :: "byte list"
  dp_AssetId :: int
  dp_AssetAmount :: int

record DepositNftTxInfo =
  dn_TxType :: int
  dn_AccountIndex :: int
  dn_NftIndex :: int
  dn_NftL1Address :: string
  dn_CreatorAccountIndex :: int
  dn_CreatorTreasuryRate :: int
  dn_NftContentHash :: "byte list"
  dn_NftL1TokenId :: int
  dn_AccountNameHash :: "byte list"
  dn_CollectionId :: int

record FullExitTxInfo =
  fe_TxType :: int
  fe_AccountIndex :: int
  fe_AccountNameHash :: "byte list"
  fe_AssetId :: int
  fe_AssetAmount :: int

text \<open>The token id is \<open>None\<close> for a nil pointer, which \<open>SetString\<close> returns on a bad numeral.\<close>

record FullExitNftTxInfo =
  fn_TxType :: int
  fn_AccountIndex :: int
  fn_CreatorAccountIndex :: int
  fn_CreatorTreasuryRate :: int
  fn_NftIndex :: int
  fn_CollectionId :: int
  fn_NftL1Address :: string
  fn_AccountNameHash :: "byte list"
  fn_CreatorAccountNameHash :: "byte list"
  fn_NftContentHash :: "byte list"
  fn_NftL1TokenId :: "int option"

record TransferTxInfo =
  tr_FromAccountIndex :: int
  tr_ToAccountIndex :: int
  tr_ToAccountNameHash :: string
  tr_AssetId :: int
  tr_AssetAmount :: int
  tr_GasAccountIndex :: int
  tr_GasFeeAssetId :: int
  tr_GasFeeAssetAmount :: int
  tr_CallDataHash :: "byte list"
  tr_ExpiredAt :: int
  tr_Nonce :: int

record WithdrawTxInfo =
  wd_FromAccountIndex :: int
  wd_AssetId :: int
  wd_AssetAmount :: int
  wd_GasAccountIndex :: int
  wd_GasFeeAssetId :: int
  wd_GasFeeAssetAmount :: int
  wd_ToAddress :: string
  wd_ExpiredAt :: int
  wd_Nonce :: int

record CreateCollectionTxInfo =
  cc_AccountIndex :: int
  cc_CollectionId :: int
  cc_GasAccountIndex :: int
  cc_GasFeeAssetId :: int
  cc_GasFeeAssetAmount :: int
  cc_ExpiredAt :: int
  cc_Nonce :: int

record MintNftTxInfo =
  mn_CreatorAccountIndex :: int
  mn_ToAccountIndex :: int
  mn_ToAccountNameHash :: string
  mn_NftIndex :: int
  mn_NftContentHash :: string
  mn_NftCollectionId :: int
  mn_CreatorTreasuryRate :: int
  mn_GasAccountIndex :: int
  mn_GasFeeAssetId :: int
  mn_GasFeeAssetAmount :: int
  mn_ExpiredAt :: int
  mn_Nonce :: int

record TransferNftTxInfo =
  tn_FromAccountIndex :: int
  tn_ToAccountIndex :: int
  tn_ToAccountNameHash :: string
  tn_NftIndex :: int
  tn_GasAccountIndex :: int
  tn_GasFeeAssetId :: int
  tn_GasFeeAssetAmount :: int
  tn_CallDataHash :: "byte list"
  tn_ExpiredAt :: int
  tn_Nonce :: int

record OfferTxInfo =
  of_Type :: int
  of_OfferId :: int
  of_AccountIndex :: int
  of_NftIndex :: int
  of_AssetId :: int
  of_AssetAmount :: int
  of_ExpiredAt :: int
  of_TreasuryRate :: int

record AtomicMatchTxInfo =
  am_AccountIndex :: int
  am_BuyOffer :: OfferTxInfo
  am_SellOffer :: OfferTxInfo
  am_CreatorAmount :: int
  am_TreasuryAmount :: int
  am_GasAccountIndex :: int
  am_GasFeeAssetId :: int
  am_GasFeeAssetAmount :: int
  am_ExpiredAt :: int
  am_Nonce :: int

record CancelOfferTxInfo =
  co_AccountIndex :: int
  co_OfferId :: int
  co_GasAccountIndex :: int
  co_GasFeeAssetId :: int
  co_GasFeeAssetAmount :: int
  co_ExpiredAt :: int
  co_Nonce :: int

record WithdrawNftTxInfo =
  wn_AccountIndex :: int
  wn_CreatorAccountIndex :: int
  wn_CreatorAccountNameHash :: "byte list"
  wn_CreatorTreasuryRate :: int
  wn_NftIndex :: int
  wn_NftContentHash :: "byte list"
  wn_NftL1Address :: string
  wn_NftL1TokenId :: "int option"
  wn_CollectionId :: int
  wn_ToAddress :: string
  wn_GasAccountIndex :: int
  wn_GasFeeAssetId :: int
  wn_GasFeeAssetAmount :: int
  wn_ExpiredAt :: int
  wn_Nonce :: int

datatype TxInfo =
    RegisterZnsInfo RegisterZnsTxInfo
  | DepositInfo DepositTxInfo
  | DepositNftInfo DepositNftTxInfo
  | TransferInfo TransferTxInfo
  | WithdrawInfo WithdrawTxInfo
  | CreateCollectionInfo CreateCollectionTxInfo
  | MintNftInfo MintNftTxInfo
  | TransferNftInfo TransferNftTxInfo
  | AtomicMatchInfo AtomicMatchTxInfo
  | CancelOfferInfo CancelOfferTxInfo
  | WithdrawNftInfo WithdrawNftTxInfo
  | FullExitInfo FullExitTxInfo
  | FullExitNftInfo FullExitNftTxInfo

end
