(* ===== verification/Zk_Env.thy ===== *)
theory Zk_Env
  imports Zk_Types
begin

text \<open>
  The code the program only calls: the functions of zkbnb-crypto, go-ethereum and golang-lru that
  the sources use are the fields of one record, an argument of every definition that needs them.
  What a theorem relies on is a named predicate on that record, stated from the documentation of
  the library; \<open>sampleLib\<close> is an instance of all of them.

  A cache of golang-lru is the list of its entries, the most recently used first; a Go map's
  \<open>range\<close> order is a permutation of its keys chosen by the run-time.
\<close>

type_synonym lru = "(int \<times> nat) list"

record Lib =
  x_Add :: "int \<Rightarrow> int \<Rightarrow> int"
  x_Sub :: "int \<Rightarrow> int \<Rightarrow> int"
  x_Neg :: "int \<Rightarrow> int"
  x_Multiply :: "int \<Rightarrow> int \<Rightarrow> int"
  x_Div :: "int \<Rightarrow> int \<Rightarrow> int"
  x_Bytes2Hex :: "byte list \<Rightarrow> string"
  x_FromHex :: "string \<Rightarrow> byte list"
  x_AddressHex :: "byte list \<Rightarrow> string"
  x_Keccak256Hash :: "byte list \<Rightarrow> byte list"
  x_ToPackedAmount :: "int \<Rightarrow> err + int"
  x_ToPackedFee :: "int \<Rightarrow> err + int"
  x_PointSetBytes :: "byte list \<Rightarrow> err + (byte list \<times> byte list)"
  x_PubKeyBytes :: "byte list \<Rightarrow> byte list \<Rightarrow> byte list"
  x_PubDataSizePerTx :: int
  x_NilAccountAssetRoot :: "byte list"
  x_Validate :: "TxInfo \<Rightarrow> err option"
  x_VerifySignature :: "TxInfo \<Rightarrow> string \<Rightarrow> err option"
  x_OfferVerifySignature :: "OfferTxInfo \<Rightarrow> string \<Rightarrow> err option"
  x_Hash :: "TxInfo \<Rightarrow> err + byte list"
  x_GetFromAccountIndex :: "TxInfo \<Rightarrow> int"
  x_GetNonce :: "TxInfo \<Rightarrow> int"
  x_GetExpiredAt :: "TxInfo \<Rightarrow> int"
  x_GetGas :: "TxInfo \<Rightarrow> int \<times> int \<times> int"
  x_GetTxType :: "TxInfo \<Rightarrow> int"
  x_UnmarshalRegisterZns :: "string \<Rightarrow> err + RegisterZnsTxInfo"
  x_UnmarshalDeposit :: "string \<Rightarrow> err + DepositTxInfo"
  x_UnmarshalDepositNft :: "string \<Rightarrow> err + DepositNftTxInfo"
  x_UnmarshalTransfer :: "string \<Rightarrow> err + TransferTxInfo"
  x_UnmarshalWithdraw :: "string \<Rightarrow> err + WithdrawTxInfo"
  x_UnmarshalCreateCollection :: "string \<Rightarrow> err + CreateCollectionTxInfo"
  x_UnmarshalMintNft :: "string \<Rightarrow> err + MintNftTxInfo"
  x_UnmarshalTransferNft :: "string \<Rightarrow> err + TransferNftTxInfo"
  x_UnmarshalAtomicMatch :: "string \<Rightarrow> err + AtomicMatchTxInfo"
  x_UnmarshalCancelOffer :: "string \<Rightarrow> err + CancelOfferTxInfo"
  x_UnmarshalWithdrawNft :: "string \<Rightarrow> err + WithdrawNftTxInfo"
  x_UnmarshalFullExit :: "string \<Rightarrow> err + FullExitTxInfo"
  x_UnmarshalFullExitNft :: "string \<Rightarrow> err + FullExitNftTxInfo"
  x_MarshalTx :: "TxInfo \<Rightarrow> err + string"
  x_UnmarshalGasConfig :: "string \<Rightarrow> err + (int \<rightharpoonup> (int \<rightharpoonup> int))"
  x_lruGet :: "lru \<Rightarrow> int \<Rightarrow> nat option \<times> lru"
  x_lruAdd :: "nat \<Rightarrow> lru \<Rightarrow> int \<Rightarrow> nat \<Rightarrow> lru"
  x_range :: "int list \<Rightarrow> int list"

section \<open>What is relied on\<close>

text \<open>ffmath: the operations of \<open>big.Int\<close>; division of naturals rounds down.\<close>

definition ffmath_ok :: "Lib \<Rightarrow> bool" where
  "ffmath_ok X \<longleftrightarrow> x_Add X = (+) \<and> x_Sub X = (-) \<and> x_Neg X = uminus \<and> x_Multiply X = (*) \<and>
     (\<forall>a b. 0 \<le> a \<longrightarrow> 0 < b \<longrightarrow> x_Div X a b = a div b)"

text \<open>
  golang-lru: \<open>Get\<close> returns the entry and only refreshes it, \<open>Add\<close> inserts the entry and may evict
  others, never alter them.
\<close>

definition lru_ok :: "Lib \<Rightarrow> bool" where
  "lru_ok X \<longleftrightarrow>
     (\<forall>c k. fst (x_lruGet X c k) = map_of c k \<and> map_of (snd (x_lruGet X c k)) = map_of c) \<and>
     (\<forall>n c k v. 0 < n \<longrightarrow> map_of (x_lruAdd X n c k v) k = Some v) \<and>
     (\<forall>n c k v j. j \<noteq> k \<longrightarrow> map_of (x_lruAdd X n c k v) j \<in> {None, map_of c j})"

text \<open>
  golang-lru is of fixed size and evicts the least recently used entry: a hit of \<open>Get\<close> and \<open>Add\<close>
  move the entry to the front, and \<open>Add\<close> drops what exceeds the size from the other end.
\<close>

definition lru_order :: "Lib \<Rightarrow> bool" where
  "lru_order X \<longleftrightarrow>
     (\<forall>c k. map fst (snd (x_lruGet X c k)) =
        (if map_of c k = None then map fst c else k # removeAll k (map fst c))) \<and>
     (\<forall>n c k v. map fst (x_lruAdd X n c k v) = take n (k # removeAll k (map fst c)))"

text \<open>A \<open>range\<close> loop visits every key of the map once.\<close>

definition range_ok :: "Lib \<Rightarrow> bool" where
  "range_ok X \<longleftrightarrow> (\<forall>xs. set (x_range X xs) = set xs \<and> (distinct xs \<longrightarrow> distinct (x_range X xs)))"

text \<open>
  zkbnb-crypto/wasm/txtypes: the accessors of a payload. Priority operations have no sender.
\<close>

fun payloadFrom :: "TxInfo \<Rightarrow> int" where
  "payloadFrom (TransferInfo t) = tr_FromAccountIndex t"
| "payloadFrom (WithdrawInfo t) = wd_FromAccountIndex t"
| "payloadFrom (CreateCollectionInfo t) = cc_AccountIndex t"
| "payloadFrom (MintNftInfo t) = mn_CreatorAccountIndex t"
| "payloadFrom (TransferNftInfo t) = tn_FromAccountIndex t"
| "payloadFrom (AtomicMatchInfo t) = am_AccountIndex t"
| "payloadFrom (CancelOfferInfo t) = co_AccountIndex t"
| "payloadFrom (WithdrawNftInfo t) = wn_AccountIndex t"
| "payloadFrom _ = NilAccountIndex"

fun payloadNonce :: "TxInfo \<Rightarrow> int" where
  "payloadNonce (TransferInfo t) = tr_Nonce t"
| "payloadNonce (WithdrawInfo t) = wd_Nonce t"
| "payloadNonce (CreateCollectionInfo t) = cc_Nonce t"
| "payloadNonce (MintNftInfo t) = mn_Nonce t"
| "payloadNonce (TransferNftInfo t) = tn_Nonce t"
| "payloadNonce (AtomicMatchInfo t) = am_Nonce t"
| "payloadNonce (CancelOfferInfo t) = co_Nonce t"
| "payloadNonce (WithdrawNftInfo t) = wn_Nonce t"
| "payloadNonce _ = -1"

fun payloadExpiredAt :: "TxInfo \<Rightarrow> int" where
  "payloadExpiredAt (TransferInfo t) = tr_ExpiredAt t"
| "payloadExpiredAt (WithdrawInfo t) = wd_ExpiredAt t"
| "payloadExpiredAt (CreateCollectionInfo t) = cc_ExpiredAt t"
| "payloadExpiredAt (MintNftInfo t) = mn_ExpiredAt t"
| "payloadExpiredAt (TransferNftInfo t) = tn_ExpiredAt t"
| "payloadExpiredAt (AtomicMatchInfo t) = am_ExpiredAt t"
| "payloadExpiredAt (CancelOfferInfo t) = co_ExpiredAt t"
| "payloadExpiredAt (WithdrawNftInfo t) = wn_ExpiredAt t"
| "payloadExpiredAt _ = 2 ^ 63 - 1"

fun payloadGas :: "TxInfo \<Rightarrow> int \<times> int \<times> int" where
  "payloadGas (TransferInfo t) = (tr_GasAccountIndex t, tr_GasFeeAssetId t, tr_GasFeeAssetAmount t)"
| "payloadGas (WithdrawInfo t) = (wd_GasAccountIndex t, wd_GasFeeAssetId t, wd_GasFeeAssetAmount t)"
| "payloadGas (CreateCollectionInfo t) = (cc_GasAccountIndex t, cc_GasFeeAssetId t, cc_GasFeeAssetAmount t)"
| "payloadGas (MintNftInfo t) = (mn_GasAccountIndex t, mn_GasFeeAssetId t, mn_GasFeeAssetAmount t)"
| "payloadGas (TransferNftInfo t) = (tn_GasAccountIndex t, tn_GasFeeAssetId t, tn_GasFeeAssetAmount t)"
| "payloadGas (AtomicMatchInfo t) = (am_GasAccountIndex t, am_GasFeeAssetId t, am_GasFeeAssetAmount t)"
| "payloadGas (CancelOfferInfo t) = (co_GasAccountIndex t, co_GasFeeAssetId t, co_GasFeeAssetAmount t)"
| "payloadGas (WithdrawNftInfo t) = (wn_GasAccountIndex t, wn_GasFeeAssetId t, wn_GasFeeAssetAmount t)"
| "payloadGas _ = (NilAccountIndex, -1, 0)"

definition accessors_ok :: "Lib \<Rightarrow> bool" where
  "accessors_ok X \<longleftrightarrow> x_GetFromAccountIndex X = payloadFrom \<and> x_GetNonce X = payloadNonce \<and>
     (\<forall>ti. payloadFrom ti \<noteq> NilAccountIndex \<longrightarrow> x_GetExpiredAt X ti = payloadExpiredAt ti \<and> x_GetGas X ti = payloadGas ti)"

text \<open>
  \<open>Validate\<close> of zkbnb-crypto rejects a payload of an L2 transaction whose indices, asset ids or
  amounts are below their minimum, zero; its errors are the sentinels \<open>ErrFromAccountIndexTooLow\<close>,
  \<open>ErrAssetIdTooLow\<close>, \<open>ErrGasFeeAssetAmountTooLow\<close> and so on, which
  \<open>mappingVerifyInputsErrors\<close> translates.
\<close>

definition offerOk :: "OfferTxInfo \<Rightarrow> bool" where
  "offerOk f \<longleftrightarrow> 0 \<le> of_OfferId f \<and> 0 \<le> of_AccountIndex f \<and> 0 \<le> of_AssetId f \<and> 0 \<le> of_AssetAmount f \<and> 0 \<le> of_TreasuryRate f"

fun payloadOk :: "TxInfo \<Rightarrow> bool" where
  "payloadOk (TransferInfo t) \<longleftrightarrow> 0 \<le> tr_FromAccountIndex t \<and> 0 \<le> tr_ToAccountIndex t \<and> 0 \<le> tr_GasAccountIndex t \<and>
     0 \<le> tr_AssetId t \<and> 0 \<le> tr_AssetAmount t \<and> 0 \<le> tr_GasFeeAssetId t \<and> 0 \<le> tr_GasFeeAssetAmount t"
| "payloadOk (WithdrawInfo t) \<longleftrightarrow> 0 \<le> wd_FromAccountIndex t \<and> 0 \<le> wd_GasAccountIndex t \<and>
     0 \<le> wd_AssetId t \<and> 0 \<le> wd_AssetAmount t \<and> 0 \<le> wd_GasFeeAssetId t \<and> 0 \<le> wd_GasFeeAssetAmount t"
| "payloadOk (CreateCollectionInfo t) \<longleftrightarrow> 0 \<le> cc_AccountIndex t \<and> 0 \<le> cc_GasAccountIndex t \<and>
     0 \<le> cc_GasFeeAssetId t \<and> 0 \<le> cc_GasFeeAssetAmount t"
| "payloadOk (MintNftInfo t) \<longleftrightarrow> 0 \<le> mn_CreatorAccountIndex t \<and> 0 \<le> mn_ToAccountIndex t \<and> 0 \<le> mn_GasAccountIndex t \<and>
     0 \<le> mn_GasFeeAssetId t \<and> 0 \<le> mn_GasFeeAssetAmount t"
| "payloadOk (TransferNftInfo t) \<longleftrightarrow> 0 \<le> tn_FromAccountIndex t \<and> 0 \<le> tn_ToAccountIndex t \<and> 0 \<le> tn_GasAccountIndex t \<and>
     0 \<le> tn_GasFeeAssetId t \<and> 0 \<le> tn_GasFeeAssetAmount t"
| "payloadOk (AtomicMatchInfo t) \<longleftrightarrow> 0 \<le> am_AccountIndex t \<and> 0 \<le> am_GasAccountIndex t \<and> 0 \<le> am_GasFeeAssetId t \<and>
     0 \<le> am_GasFeeAssetAmount t \<and> offerOk (am_BuyOffer t) \<and> offerOk (am_SellOffer t)"
| "payloadOk (CancelOfferInfo t) \<longleftrightarrow> 0 \<le> co_AccountIndex t \<and> 0 \<le> co_OfferId t \<and> 0 \<le> co_GasAccountIndex t \<and>
     0 \<le> co_GasFeeAssetId t \<and> 0 \<le> co_GasFeeAssetAmount t"
| "payloadOk (WithdrawNftInfo t) \<longleftrightarrow> 0 \<le> wn_AccountIndex t \<and> 0 \<le> wn_GasAccountIndex t \<and>
     0 \<le> wn_GasFeeAssetId t \<and> 0 \<le> wn_GasFeeAssetAmount t"
| "payloadOk _ \<longleftrightarrow> True"

definition validate_ok :: "Lib \<Rightarrow> bool" where
  "validate_ok X \<longleftrightarrow> (\<forall>ti. x_Validate X ti = None \<longrightarrow> payloadOk ti)"

text \<open>Packed amounts fill 40 bits, packed fees 16 bits.\<close>

definition packing_ok :: "Lib \<Rightarrow> bool" where
  "packing_ok X \<longleftrightarrow>
     (\<forall>a p. x_ToPackedAmount X a = Inr p \<longrightarrow> 0 \<le> p \<and> p < 2 ^ 40) \<and>
     (\<forall>a p. x_ToPackedFee X a = Inr p \<longrightarrow> 0 \<le> p \<and> p < 2 ^ 16)"

lemma lru_getD: "lru_ok X \<Longrightarrow> fst (x_lruGet X c k) = map_of c k"
  by (simp add: lru_ok_def)

lemma lru_get_keeps: "lru_ok X \<Longrightarrow> map_of (snd (x_lruGet X c k)) = map_of c"
  by (simp add: lru_ok_def)

lemma lru_add_same: "lru_ok X \<Longrightarrow> 0 < n \<Longrightarrow> map_of (x_lruAdd X n c k v) k = Some v"
  by (simp add: lru_ok_def)

lemma lru_add_other: "lru_ok X \<Longrightarrow> j \<noteq> k \<Longrightarrow> map_of (x_lruAdd X n c k v) j = Some w \<Longrightarrow> map_of c j = Some w"
  by (simp add: lru_ok_def) (metis option.distinct(1))

section \<open>An instance\<close>

text \<open>A concrete library, used to evaluate the model on examples.\<close>

definition lruGetSample :: "lru \<Rightarrow> int \<Rightarrow> nat option \<times> lru" where
  "lruGetSample c k = (case map_of c k of None \<Rightarrow> (None, c)
     | Some v \<Rightarrow> (Some v, (k, v) # filter (\<lambda>p. fst p \<noteq> k) c))"

definition lruAddSample :: "nat \<Rightarrow> lru \<Rightarrow> int \<Rightarrow> nat \<Rightarrow> lru" where
  "lruAddSample n c k v = take n ((k, v) # filter (\<lambda>p. fst p \<noteq> k) c)"

text \<open>The payload argument is what every transaction text decodes to.\<close>

definition sampleLib :: "TxInfo \<Rightarrow> Lib" where
  "sampleLib ti =
     \<lparr>x_Add = (+), x_Sub = (-), x_Neg = uminus, x_Multiply = (*), x_Div = (div),
      x_Bytes2Hex = map charOfByte, x_FromHex = map byteOfChar,
      x_AddressHex = map charOfByte,
      x_Keccak256Hash = (\<lambda>_. replicate 32 0),
      x_ToPackedAmount = (\<lambda>a. if 0 \<le> a \<and> a < 2 ^ 35 then Inr a else Inl (ErrorsNew ''amount'')),
      x_ToPackedFee = (\<lambda>a. if 0 \<le> a \<and> a < 2 ^ 11 then Inr a else Inl (ErrorsNew ''fee'')),
      x_PointSetBytes = (\<lambda>_. Inr (replicate 32 0, replicate 32 0)), x_PubKeyBytes = (\<lambda>x y. y),
      x_PubDataSizePerTx = 6, x_NilAccountAssetRoot = [],
      x_Validate = (\<lambda>i. if payloadOk i then None else Some (TxtypesErr ErrAccountIndexTooLow)), x_VerifySignature = (\<lambda>_ _. None),
      x_OfferVerifySignature = (\<lambda>_ _. None), x_Hash = (\<lambda>_. Inr []),
      x_GetFromAccountIndex = payloadFrom, x_GetNonce = payloadNonce, x_GetExpiredAt = payloadExpiredAt,
      x_GetGas = payloadGas, x_GetTxType = (\<lambda>_. 0),
      x_UnmarshalRegisterZns = (\<lambda>_. case ti of RegisterZnsInfo t \<Rightarrow> Inr t | _ \<Rightarrow> Inl JsonErrUnmarshal),
      x_UnmarshalDeposit = (\<lambda>_. case ti of DepositInfo t \<Rightarrow> Inr t | _ \<Rightarrow> Inl JsonErrUnmarshal),
      x_UnmarshalDepositNft = (\<lambda>_. case ti of DepositNftInfo t \<Rightarrow> Inr t | _ \<Rightarrow> Inl JsonErrUnmarshal),
      x_UnmarshalTransfer = (\<lambda>_. case ti of TransferInfo t \<Rightarrow> Inr t | _ \<Rightarrow> Inl JsonErrUnmarshal),
      x_UnmarshalWithdraw = (\<lambda>_. case ti of WithdrawInfo t \<Rightarrow> Inr t | _ \<Rightarrow> Inl JsonErrUnmarshal),
      x_UnmarshalCreateCollection = (\<lambda>_. case ti of CreateCollectionInfo t \<Rightarrow> Inr t | _ \<Rightarrow> Inl JsonErrUnmarshal),
      x_UnmarshalMintNft = (\<lambda>_. case ti of MintNftInfo t \<Rightarrow> Inr t | _ \<Rightarrow> Inl JsonErrUnmarshal),
      x_UnmarshalTransferNft = (\<lambda>_. case ti of TransferNftInfo t \<Rightarrow> Inr t | _ \<Rightarrow> Inl JsonErrUnmarshal),
      x_UnmarshalAtomicMatch = (\<lambda>_. case ti of AtomicMatchInfo t \<Rightarrow> Inr t | _ \<Rightarrow> Inl JsonErrUnmarshal),
      x_UnmarshalCancelOffer = (\<lambda>_. case ti of CancelOfferInfo t \<Rightarrow> Inr t | _ \<Rightarrow> Inl JsonErrUnmarshal),
      x_UnmarshalWithdrawNft = (\<lambda>_. case ti of WithdrawNftInfo t \<Rightarrow> Inr t | _ \<Rightarrow> Inl JsonErrUnmarshal),
      x_UnmarshalFullExit = (\<lambda>_. case ti of FullExitInfo t \<Rightarrow> Inr t | _ \<Rightarrow> Inl JsonErrUnmarshal),
      x_UnmarshalFullExitNft = (\<lambda>_. case ti of FullExitNftInfo t \<Rightarrow> Inr t | _ \<Rightarrow> Inl JsonErrUnmarshal),
      x_MarshalTx = (\<lambda>_. Inr ''payload''),
      x_UnmarshalGasConfig = (\<lambda>_. Inr [0 \<mapsto> [0 \<mapsto> 0]]),
      x_lruGet = lruGetSample, x_lruAdd = lruAddSample, x_range = (\<lambda>xs. xs)\<rparr>"

lemma map_of_filter_neq: "map_of (filter (\<lambda>p. fst p \<noteq> k) c) j = (if j = k then None else map_of c j)"
  by (induction c) auto

lemma keys_filter_neq: "map fst (filter (\<lambda>p. fst p \<noteq> k) c) = removeAll k (map fst c)"
  by (induction c) auto

lemma map_of_take: "map_of (take n c) j = Some v \<Longrightarrow> map_of c j = Some v"
  by (induction c arbitrary: n) (auto simp: take_Cons split: nat.splits if_splits)

lemma lruAddSample_same: "0 < n \<Longrightarrow> map_of (lruAddSample n c k v) k = Some v"
  by (cases n) (simp_all add: lruAddSample_def)

lemma lruAddSample_other:
  assumes "j \<noteq> k"
  shows "map_of (lruAddSample n c k v) j \<in> {None, map_of c j}"
proof (cases "map_of (lruAddSample n c k v) j")
  case (Some w)
  then have "map_of ((k, v) # filter (\<lambda>p. fst p \<noteq> k) c) j = Some w"
    unfolding lruAddSample_def by (rule map_of_take)
  with assms Some show ?thesis by (simp add: map_of_filter_neq)
qed simp

lemma lruGetSample_spec:
  "fst (lruGetSample c k) = map_of c k" "map_of (snd (lruGetSample c k)) = map_of c"
  "map fst (snd (lruGetSample c k)) = (if map_of c k = None then map fst c else k # removeAll k (map fst c))"
  by (auto simp: lruGetSample_def map_of_filter_neq keys_filter_neq fun_eq_iff split: option.splits)

lemma sampleLib_ok [simp]:
  "ffmath_ok (sampleLib ti)" "lru_ok (sampleLib ti)" "lru_order (sampleLib ti)" "range_ok (sampleLib ti)"
  "accessors_ok (sampleLib ti)" "packing_ok (sampleLib ti)" "validate_ok (sampleLib ti)"
  using lruAddSample_same lruAddSample_other
  by (simp_all add: sampleLib_def ffmath_ok_def lru_ok_def lru_order_def range_ok_def accessors_ok_def
      validate_ok_def packing_ok_def lruGetSample_spec lruAddSample_def keys_filter_neq flip: take_map)

end
