(* ===== verification/Zk_World.thy ===== *)
theory Zk_World
  imports Zk_Env
begin

text \<open>
  The state of the program: the pending state of the current block
  (src/core/statedb/state_cache.go), the executor at work (src/core/executor/base_executor.go),
  and the blockchain with its state database, caches and tables (src/core/blockchain.go,
  src/core/statedb/statedb.go).

  The Go code keeps \<open>*types.AccountInfo\<close> and \<open>*nft.L2Nft\<close> pointers in the pending maps and in
  the LRU caches at once and mutates accounts through them, so accounts and NFTs live in a store
  indexed by references and the maps hold references.
\<close>

section \<open>StateCache\<close>

record StateCache =
  sc_StateRoot :: string
  sc_PubData :: "byte list"
  sc_PriorityOperations :: int
  sc_PubDataOffset :: "32 word list"
  sc_PendingOnChainOperationsPubData :: "byte list list"
  sc_PendingOnChainOperationsHash :: "byte list"
  sc_Txs :: "Tx list"
  sc_PendingAccountMap :: "nat gomap"
  sc_PendingNftMap :: "nat gomap"
  sc_PendingGasMap :: "int gomap"
  sc_dirtyAccountsAndAssetsMap :: "bool gomap gomap"
  sc_dirtyNftMap :: "bool gomap"

definition NewStateCache :: "Lib \<Rightarrow> string \<Rightarrow> StateCache" where
  "NewStateCache X stateRoot =
     \<lparr>sc_StateRoot = stateRoot, sc_PubData = [], sc_PriorityOperations = 0, sc_PubDataOffset = [],
      sc_PendingOnChainOperationsPubData = [],
      sc_PendingOnChainOperationsHash = x_FromHex X EmptyStringKeccak, sc_Txs = [],
      sc_PendingAccountMap = [], sc_PendingNftMap = [], sc_PendingGasMap = [],
      sc_dirtyAccountsAndAssetsMap = [], sc_dirtyNftMap = []\<rparr>"

text \<open>\<open>make([]byte, n)\<close> panics for a negative size.\<close>

definition AlignPubData :: "Lib \<Rightarrow> int \<Rightarrow> StateCache \<Rightarrow> StateCache option" where
  "AlignPubData X blockSize c =
     (let n = (blockSize - int (length (sc_Txs c))) * 32 * x_PubDataSizePerTx X
      in if n < 0 then None else Some (c\<lparr>sc_PubData := sc_PubData c @ replicate (nat n) 0\<rparr>))"

text \<open>The body shared by \<open>MarkAccountAssetsDirty\<close> of the state cache and of an executor.\<close>

fun markAssets :: "int list \<Rightarrow> bool gomap \<Rightarrow> bool gomap" where
  "markAssets [] m = m"
| "markAssets (a # as) m = markAssets as (if a < 0 then m else mput a True m)"

definition markDirty :: "int \<Rightarrow> int list \<Rightarrow> bool gomap gomap \<Rightarrow> bool gomap gomap" where
  "markDirty accountIndex assets d =
     (if accountIndex < 0 then d
      else mput accountIndex (markAssets assets (case mget d accountIndex of None \<Rightarrow> [] | Some m \<Rightarrow> m)) d)"

definition MarkAccountAssetsDirty :: "int \<Rightarrow> int list \<Rightarrow> StateCache \<Rightarrow> StateCache" where
  "MarkAccountAssetsDirty accountIndex assets c =
     c\<lparr>sc_dirtyAccountsAndAssetsMap := markDirty accountIndex assets (sc_dirtyAccountsAndAssetsMap c)\<rparr>"

definition MarkNftDirty :: "int \<Rightarrow> StateCache \<Rightarrow> StateCache" where
  "MarkNftDirty nftIndex c = c\<lparr>sc_dirtyNftMap := mput nftIndex True (sc_dirtyNftMap c)\<rparr>"

definition GetPendingAccount :: "StateCache \<Rightarrow> int \<Rightarrow> nat option" where
  "GetPendingAccount c accountIndex = mget (sc_PendingAccountMap c) accountIndex"

definition GetPendingNft :: "StateCache \<Rightarrow> int \<Rightarrow> nat option" where
  "GetPendingNft c nftIndex = mget (sc_PendingNftMap c) nftIndex"

definition SetPendingAccount :: "int \<Rightarrow> nat \<Rightarrow> StateCache \<Rightarrow> StateCache" where
  "SetPendingAccount accountIndex account c =
     c\<lparr>sc_PendingAccountMap := mput accountIndex account (sc_PendingAccountMap c)\<rparr>"

definition SetPendingNft :: "int \<Rightarrow> nat \<Rightarrow> StateCache \<Rightarrow> StateCache" where
  "SetPendingNft nftIndex nft c = c\<lparr>sc_PendingNftMap := mput nftIndex nft (sc_PendingNftMap c)\<rparr>"

definition GetPendingGas :: "StateCache \<Rightarrow> int \<Rightarrow> int" where
  "GetPendingGas c assetId = (case mget (sc_PendingGasMap c) assetId of Some delta \<Rightarrow> delta | None \<Rightarrow> 0)"

definition SetPendingGas :: "Lib \<Rightarrow> int \<Rightarrow> int \<Rightarrow> StateCache \<Rightarrow> StateCache" where
  "SetPendingGas X assetId balanceDelta c =
     (let m = (if mget (sc_PendingGasMap c) assetId = None then mput assetId 0 (sc_PendingGasMap c)
               else sc_PendingGasMap c)
      in c\<lparr>sc_PendingGasMap := mput assetId (x_Add X (the (mget m assetId)) balanceDelta) m\<rparr>)"

section \<open>The executor at work\<close>

text \<open>
  \<open>BaseExecutor\<close> with the extra fields of the executors that have any: the offer coordinates of
  \<open>AtomicMatchExecutor\<close>, the NFT of \<open>FullExitNftExecutor\<close>.
\<close>

record BaseExecutor =
  e_tx :: Tx
  e_iTxInfo :: TxInfo
  e_dirtyAccountsAndAssetsMap :: "bool gomap gomap"
  e_dirtyNftMap :: "bool gomap"
  e_buyOfferAssetId :: int
  e_buyOfferIndex :: int
  e_sellOfferAssetId :: int
  e_sellOfferIndex :: int
  e_exitNft :: "nat option"
  e_exitEmpty :: bool

definition NewBaseExecutor :: "Tx \<Rightarrow> TxInfo \<Rightarrow> BaseExecutor" where
  "NewBaseExecutor tx txInfo =
     \<lparr>e_tx = tx, e_iTxInfo = txInfo, e_dirtyAccountsAndAssetsMap = [], e_dirtyNftMap = [],
      e_buyOfferAssetId = 0, e_buyOfferIndex = 0, e_sellOfferAssetId = 0, e_sellOfferIndex = 0,
      e_exitNft = None, e_exitEmpty = False\<rparr>"

section \<open>Tables and the Redis cache\<close>

text \<open>
  The rows the core reads: accounts, NFTs, system configuration, the nonces of the transaction
  pool. \<open>db_down\<close> is a failing database connection. Redis returns an error for a missing key;
  \<open>rd_down\<close> is a failing connection.
\<close>

record ChainDB =
  db_down :: bool
  db_Account :: "Account list"
  db_L2Nft :: "L2Nft list"
  db_SysConfig :: "(string \<times> string) list"
  db_TxPool :: "(int \<times> int) list"

record Redis =
  rd_down :: bool
  rd_account :: "int \<rightharpoonup> Account"
  rd_nft :: "int \<rightharpoonup> L2Nft"
  rd_gasAccount :: "int option"
  rd_gasConfig :: "string option"

section \<open>BlockChain and StateDB\<close>

record World =
  w_accHeap :: "nat \<Rightarrow> AccountInfo"
  w_nftHeap :: "nat \<Rightarrow> L2Nft"
  w_next :: nat
  w_dryRun :: bool
  w_sc :: StateCache
  w_db :: ChainDB
  w_redis :: Redis
  w_AccountCache :: lru
  w_NftCache :: lru
  w_AccountCacheSize :: nat
  w_NftCacheSize :: nat
  w_nextAccountNumber :: int
  w_blockNumber :: int
  w_currentBlock :: Block
  w_now :: int
  w_exec :: BaseExecutor

type_synonym 'a go = "(World, err, 'a) comp"

abbreviation pendingAcc :: "World \<Rightarrow> int \<Rightarrow> nat option" where
  "pendingAcc s i \<equiv> mget (sc_PendingAccountMap (w_sc s)) i"

abbreviation pendingNft :: "World \<Rightarrow> int \<Rightarrow> nat option" where
  "pendingNft s i \<equiv> mget (sc_PendingNftMap (w_sc s)) i"

text \<open>A new object of the store.\<close>

definition newAccount :: "AccountInfo \<Rightarrow> nat go" where
  "newAccount a = bnd (gets w_next) (\<lambda>r.
     thn (modify (\<lambda>s. s\<lparr>w_accHeap := (w_accHeap s)(r := a), w_next := Suc r\<rparr>)) (ret r))"

definition newNft :: "L2Nft \<Rightarrow> nat go" where
  "newNft n = bnd (gets w_next) (\<lambda>r.
     thn (modify (\<lambda>s. s\<lparr>w_nftHeap := (w_nftHeap s)(r := n), w_next := Suc r\<rparr>)) (ret r))"

definition setAcc :: "nat \<Rightarrow> AccountInfo \<Rightarrow> World \<Rightarrow> World" where
  "setAcc r a s = s\<lparr>w_accHeap := (w_accHeap s)(r := a)\<rparr>"

definition setNft :: "nat \<Rightarrow> L2Nft \<Rightarrow> World \<Rightarrow> World" where
  "setNft r n s = s\<lparr>w_nftHeap := (w_nftHeap s)(r := n)\<rparr>"

definition updSc :: "(StateCache \<Rightarrow> StateCache) \<Rightarrow> World \<Rightarrow> World" where
  "updSc f s = s\<lparr>w_sc := f (w_sc s)\<rparr>"

definition updExec :: "(BaseExecutor \<Rightarrow> BaseExecutor) \<Rightarrow> World \<Rightarrow> World" where
  "updExec f s = s\<lparr>w_exec := f (w_exec s)\<rparr>"

definition updTx :: "(Tx \<Rightarrow> Tx) \<Rightarrow> World \<Rightarrow> World" where
  "updTx f = updExec (\<lambda>e. e\<lparr>e_tx := f (e_tx e)\<rparr>)"

section \<open>Reading and writing an account through its pointer\<close>

text \<open>
  \<open>p.AssetInfo[a].Balance = f(p.AssetInfo[a].Balance)\<close> and the same for the offer bits: a missing
  entry of the map is a nil pointer, so the assignment panics.
\<close>

definition updBal :: "int \<Rightarrow> (int \<Rightarrow> int) \<Rightarrow> AccountInfo \<Rightarrow> AccountInfo option" where
  "updBal a f acc = (case ai_AssetInfo acc a of None \<Rightarrow> None
     | Some x \<Rightarrow> Some (acc\<lparr>ai_AssetInfo := (ai_AssetInfo acc)(a \<mapsto> x\<lparr>aa_Balance := f (aa_Balance x)\<rparr>)\<rparr>))"

definition updOffer :: "int \<Rightarrow> int \<Rightarrow> AccountInfo \<Rightarrow> AccountInfo option" where
  "updOffer a v acc = (case ai_AssetInfo acc a of None \<Rightarrow> None
     | Some x \<Rightarrow> Some (acc\<lparr>ai_AssetInfo := (ai_AssetInfo acc)(a \<mapsto> x\<lparr>aa_OfferCanceledOrFinalized := v\<rparr>)\<rparr>))"

definition nilDeref :: string where "nilDeref = ''invalid memory address or nil pointer dereference''"

definition mutAcc :: "nat \<Rightarrow> (AccountInfo \<Rightarrow> AccountInfo option) \<Rightarrow> unit go" where
  "mutAcc r g = bnd (gets (\<lambda>s. g (w_accHeap s r))) (\<lambda>x. bnd (orPanic nilDeref x) (\<lambda>a. modify (setAcc r a)))"

definition assetAt :: "nat \<Rightarrow> int \<Rightarrow> AccountAsset go" where
  "assetAt r a = bnd (gets (\<lambda>s. ai_AssetInfo (w_accHeap s r) a)) (orPanic nilDeref)"

definition incNonce :: "AccountInfo \<Rightarrow> AccountInfo option" where
  "incNonce acc = Some (acc\<lparr>ai_Nonce := wrap64 (ai_Nonce acc + 1)\<rparr>)"

definition incCollectionNonce :: "AccountInfo \<Rightarrow> AccountInfo option" where
  "incCollectionNonce acc = Some (acc\<lparr>ai_CollectionNonce := wrap64 (ai_CollectionNonce acc + 1)\<rparr>)"

definition accountAt :: "nat \<Rightarrow> AccountInfo go" where
  "accountAt r = gets (\<lambda>s. w_accHeap s r)"

definition nftAt :: "nat \<Rightarrow> L2Nft go" where
  "nftAt r = gets (\<lambda>s. w_nftHeap s r)"

lemmas world_ops = newAccount_def newNft_def setAcc_def setNft_def updSc_def updExec_def updTx_def

lemma mutAcc_run [run]:
  "mutAcc r g s = (case g (w_accHeap s r) of None \<Rightarrow> (Panic nilDeref, s) | Some a \<Rightarrow> (Ok (), setAcc r a s))"
  by (simp add: mutAcc_def run split: option.splits)

lemma assetAt_run [run]:
  "assetAt r a s = (case ai_AssetInfo (w_accHeap s r) a of None \<Rightarrow> (Panic nilDeref, s) | Some x \<Rightarrow> (Ok x, s))"
  by (simp add: assetAt_def run split: option.splits)

lemma at_run [run]: "accountAt r s = (Ok (w_accHeap s r), s)" "nftAt r s = (Ok (w_nftHeap s r), s)"
  by (simp_all add: accountAt_def nftAt_def)

lemma markAssets_keys [simp]:
  "set (mkeys (markAssets as m)) = {a \<in> set as. 0 \<le> a} \<union> set (mkeys m)"
  by (induction as m rule: markAssets.induct) auto

lemma mget_markDirty:
  "mget (markDirty i as d) j =
     (if j = i \<and> 0 \<le> i then Some (markAssets as (case mget d i of None \<Rightarrow> [] | Some m \<Rightarrow> m)) else mget d j)"
  by (simp add: markDirty_def)

lemma GetPendingGas_SetPendingGas:
  "GetPendingGas (SetPendingGas X a d c) b = (if b = a then x_Add X (GetPendingGas c a) d else GetPendingGas c b)"
  by (simp add: GetPendingGas_def SetPendingGas_def Let_def split: option.splits)

lemma AlignPubData_length:
  assumes "AlignPubData X n c = Some c'"
    and "int (length (sc_PubData c)) = int (length (sc_Txs c)) * 32 * x_PubDataSizePerTx X"
  shows "int (length (sc_PubData c')) = n * 32 * x_PubDataSizePerTx X"
  using assms by (auto simp: AlignPubData_def Let_def algebra_simps split: if_splits)

end
