(* ===== verification/Zk_StateDB.thy ===== *)
theory Zk_StateDB
  imports Zk_World
begin

text \<open>
  The state database (src/core/statedb/statedb.go) with the table queries it uses
  (src/dao/account/account.go, src/dao/nft/nft.go, src/dao/sysconfig, src/dao/tx/tx_pool.go):
  every read and write of the flat state, in the order of the code. What a read
  shows and the invariant of the database are in Zk_Ledger.
\<close>

section \<open>Table queries\<close>

definition GetAccountByIndex :: "int \<Rightarrow> Account go" where
  "GetAccountByIndex accountIndex = bnd (gets w_db) (\<lambda>d.
     if db_down d then throw DbErrSqlOperation
     else orThrow DbErrNotFound (find (\<lambda>a. ac_AccountIndex a = accountIndex) (db_Account d)))"

definition GetAccountRowByName :: "string \<Rightarrow> Account go" where
  "GetAccountRowByName accountName = bnd (gets w_db) (\<lambda>d.
     if db_down d then throw DbErrSqlOperation
     else orThrow DbErrNotFound (find (\<lambda>a. ac_AccountName a = accountName) (db_Account d)))"

definition GetAccountRowByNameHash :: "string \<Rightarrow> Account go" where
  "GetAccountRowByNameHash accountNameHash = bnd (gets w_db) (\<lambda>d.
     if db_down d then throw DbErrSqlOperation
     else orThrow DbErrNotFound (find (\<lambda>a. ac_AccountNameHash a = accountNameHash) (db_Account d)))"

definition GetNftRow :: "int \<Rightarrow> L2Nft go" where
  "GetNftRow nftIndex = bnd (gets w_db) (\<lambda>d.
     if db_down d then throw DbErrSqlOperation
     else orThrow DbErrNotFound (find (\<lambda>n. nft_NftIndex n = nftIndex) (db_L2Nft d)))"

text \<open>The first row in descending order of the index.\<close>

definition GetLatestNftIndex :: "int go" where
  "GetLatestNftIndex = bnd (gets w_db) (\<lambda>d.
     if db_down d then throw DbErrSqlOperation
     else ret (if db_L2Nft d = [] then -1 else Max (nft_NftIndex ` set (db_L2Nft d))))"

definition GetMaxNonceByAccountIndex :: "int \<Rightarrow> int go" where
  "GetMaxNonceByAccountIndex accountIndex = bnd (gets w_db) (\<lambda>d.
     if db_down d then throw DbErrSqlOperation
     else (let ns = [n. (i, n) \<leftarrow> db_TxPool d, i = accountIndex]
           in if ns = [] then throw DbErrNotFound else ret (Max (set ns))))"

definition GetSysConfigByName :: "string \<Rightarrow> string go" where
  "GetSysConfigByName name = bnd (gets w_db) (\<lambda>d.
     if db_down d then throw DbErrSqlOperation
     else orThrow DbErrNotFound (map_of (db_SysConfig d) name))"

section \<open>The LRU caches\<close>

definition AccountCache_Get :: "Lib \<Rightarrow> int \<Rightarrow> nat option go" where
  "AccountCache_Get X i = (\<lambda>s. let (v, c) = x_lruGet X (w_AccountCache s) i in (Ok v, s\<lparr>w_AccountCache := c\<rparr>))"

definition AccountCache_Add :: "Lib \<Rightarrow> int \<Rightarrow> nat \<Rightarrow> unit go" where
  "AccountCache_Add X i r =
     modify (\<lambda>s. s\<lparr>w_AccountCache := x_lruAdd X (w_AccountCacheSize s) (w_AccountCache s) i r\<rparr>)"

definition NftCache_Get :: "Lib \<Rightarrow> int \<Rightarrow> nat option go" where
  "NftCache_Get X i = (\<lambda>s. let (v, c) = x_lruGet X (w_NftCache s) i in (Ok v, s\<lparr>w_NftCache := c\<rparr>))"

definition NftCache_Add :: "Lib \<Rightarrow> int \<Rightarrow> nat \<Rightarrow> unit go" where
  "NftCache_Add X i r =
     modify (\<lambda>s. s\<lparr>w_NftCache := x_lruAdd X (w_NftCacheSize s) (w_NftCache s) i r\<rparr>)"

section \<open>Reading the state\<close>

definition notFoundTo :: "err \<Rightarrow> err \<Rightarrow> err" where
  "notFoundTo e err = (if err = DbErrNotFound then e else err)"

definition GetFormatAccount :: "Lib \<Rightarrow> int \<Rightarrow> nat go" where
  "GetFormatAccount X accountIndex =
     bnd (gets (\<lambda>s. GetPendingAccount (w_sc s) accountIndex)) (\<lambda>pending. case pending of Some r \<Rightarrow> ret r | None \<Rightarrow>
     bnd (AccountCache_Get X accountIndex) (\<lambda>cached. case cached of Some r \<Rightarrow> ret r | None \<Rightarrow>
     bnd (mapErr (notFoundTo AppErrAccountNotFound) (GetAccountByIndex accountIndex)) (\<lambda>account.
     bnd (ofSum (ToFormatAccountInfo account)) (\<lambda>formatAccount.
     bnd (newAccount formatAccount) (\<lambda>r.
     thn (AccountCache_Add X accountIndex r) (ret r))))))"

text \<open>\<open>FromFormatAccountInfo\<close> has no error case, so a cached account is always returned.\<close>

definition GetAccount :: "Lib \<Rightarrow> int \<Rightarrow> Account go" where
  "GetAccount X accountIndex =
     bnd (gets (\<lambda>s. GetPendingAccount (w_sc s) accountIndex)) (\<lambda>pending. case pending of
       Some r \<Rightarrow> gets (\<lambda>s. FromFormatAccountInfo (w_accHeap s r)) | None \<Rightarrow>
     bnd (AccountCache_Get X accountIndex) (\<lambda>cached. case cached of
       Some r \<Rightarrow> gets (\<lambda>s. FromFormatAccountInfo (w_accHeap s r)) | None \<Rightarrow>
     bnd (GetAccountByIndex accountIndex) (\<lambda>account.
     bnd (ofSum (ToFormatAccountInfo account)) (\<lambda>formatAccount.
     bnd (newAccount formatAccount) (\<lambda>r.
     thn (AccountCache_Add X accountIndex r) (ret account))))))"

text \<open>The first pending account, in the order of the \<open>range\<close> loop, for which the test holds.\<close>

definition findPending :: "Lib \<Rightarrow> (AccountInfo \<Rightarrow> bool) \<Rightarrow> World \<Rightarrow> AccountInfo option" where
  "findPending X P s =
     find P (map (\<lambda>i. w_accHeap s (the (pendingAcc s i))) (x_range X (mkeys (sc_PendingAccountMap (w_sc s)))))"

definition GetAccountByName :: "Lib \<Rightarrow> string \<Rightarrow> Account go" where
  "GetAccountByName X accountName =
     bnd (gets (findPending X (\<lambda>a. ai_AccountName a = accountName))) (\<lambda>p. case p of
       Some a \<Rightarrow> ret (FromFormatAccountInfo a) | None \<Rightarrow> GetAccountRowByName accountName)"

definition GetAccountByNameHash :: "Lib \<Rightarrow> string \<Rightarrow> Account go" where
  "GetAccountByNameHash X accountNameHash =
     bnd (gets (findPending X (\<lambda>a. ai_AccountNameHash a = accountNameHash))) (\<lambda>p. case p of
       Some a \<Rightarrow> ret (FromFormatAccountInfo a) | None \<Rightarrow> GetAccountRowByNameHash accountNameHash)"

definition GetNft :: "Lib \<Rightarrow> int \<Rightarrow> nat go" where
  "GetNft X nftIndex =
     bnd (gets (\<lambda>s. GetPendingNft (w_sc s) nftIndex)) (\<lambda>pending. case pending of Some r \<Rightarrow> ret r | None \<Rightarrow>
     bnd (NftCache_Get X nftIndex) (\<lambda>cached. case cached of Some r \<Rightarrow> ret r | None \<Rightarrow>
     bnd (mapErr (notFoundTo AppErrNftNotFound) (GetNftRow nftIndex)) (\<lambda>nft.
     bnd (newNft nft) (\<lambda>r.
     thn (NftCache_Add X nftIndex r) (ret r)))))"

section \<open>Preparing and writing\<close>

definition MarkGasAccountAsPending :: "Lib \<Rightarrow> unit go" where
  "MarkGasAccountAsPending X =
     bnd (attempt (GetFormatAccount X GasAccount)) (\<lambda>x. case x of
       Inl err \<Rightarrow> (if err \<noteq> AppErrAccountNotFound then throw err else ret ())
     | Inr gasAccount \<Rightarrow> modify (updSc (\<lambda>c. c\<lparr>sc_PendingAccountMap := mput GasAccount gasAccount (sc_PendingAccountMap c)\<rparr>)))"

definition redisFailed :: err where "redisFailed = ErrorsNew ''cache to redis failed''"

definition Redis_SetAccount :: "int \<Rightarrow> Account \<Rightarrow> unit go" where
  "Redis_SetAccount i a = bnd (gets w_redis) (\<lambda>rd. if rd_down rd then throw redisFailed
     else modify (\<lambda>s. s\<lparr>w_redis := rd\<lparr>rd_account := (rd_account rd)(i \<mapsto> a)\<rparr>\<rparr>))"

definition Redis_SetNft :: "int \<Rightarrow> L2Nft \<Rightarrow> unit go" where
  "Redis_SetNft i n = bnd (gets w_redis) (\<lambda>rd. if rd_down rd then throw redisFailed
     else modify (\<lambda>s. s\<lparr>w_redis := rd\<lparr>rd_nft := (rd_nft rd)(i \<mapsto> n)\<rparr>\<rparr>))"

definition syncPendingAccount :: "Lib \<Rightarrow> nat gomap \<Rightarrow> unit go" where
  "syncPendingAccount X pendingAccount =
     forM (x_range X (mkeys pendingAccount)) (\<lambda>index.
       let r = the (mget pendingAccount index) in
       bnd (accountAt r) (\<lambda>formatAccount.
       thn (Redis_SetAccount index (FromFormatAccountInfo formatAccount))
           (AccountCache_Add X index r)))"

definition syncPendingNft :: "Lib \<Rightarrow> nat gomap \<Rightarrow> unit go" where
  "syncPendingNft X pendingNfts =
     forM (x_range X (mkeys pendingNfts)) (\<lambda>index.
       let r = the (mget pendingNfts index) in
       bnd (nftAt r) (\<lambda>nft.
       thn (Redis_SetNft index nft) (NftCache_Add X index r)))"

definition SyncGasAccountToRedis :: "Lib \<Rightarrow> unit go" where
  "SyncGasAccountToRedis X =
     bnd (AccountCache_Get X GasAccount) (\<lambda>cached. case cached of None \<Rightarrow> ret ()
       | Some r \<Rightarrow> bnd (accountAt r) (\<lambda>formatAccount.
           Redis_SetAccount (ai_AccountIndex formatAccount) (FromFormatAccountInfo formatAccount)))"

definition SyncStateCacheToRedis :: "Lib \<Rightarrow> unit go" where
  "SyncStateCacheToRedis X =
     bnd (gets (\<lambda>s. sc_PendingAccountMap (w_sc s))) (\<lambda>pa.
     thn (syncPendingAccount X pa)
     (bnd (gets (\<lambda>s. sc_PendingNftMap (w_sc s))) (\<lambda>pn. syncPendingNft X pn)))"

definition PurgeCache :: "Lib \<Rightarrow> string \<Rightarrow> unit go" where
  "PurgeCache X stateRoot = modify (updSc (\<lambda>_. NewStateCache X stateRoot))"

definition padAsset :: "int \<Rightarrow> AccountInfo \<Rightarrow> AccountInfo" where
  "padAsset assetId account =
     (if ai_AssetInfo account assetId = None
      then account\<lparr>ai_AssetInfo := (ai_AssetInfo account)(assetId \<mapsto> ConstructAccountAsset assetId 0 0)\<rparr>
      else account)"

definition PrepareAccountAndAssets :: "Lib \<Rightarrow> int \<Rightarrow> bool gomap \<Rightarrow> unit go" where
  "PrepareAccountAndAssets X accountIndex assets =
     thn (bnd (gets (\<lambda>s. (w_dryRun s, w_redis s))) (\<lambda>(dryRun, rd).
            if dryRun \<and> \<not> rd_down rd then
              (case rd_account rd accountIndex of None \<Rightarrow> ret ()
               | Some account \<Rightarrow> (case ToFormatAccountInfo account of Inl _ \<Rightarrow> ret ()
                   | Inr formatAccount \<Rightarrow> bnd (newAccount formatAccount) (\<lambda>r. AccountCache_Add X accountIndex r)))
            else ret ()))
     (bnd (GetFormatAccount X accountIndex) (\<lambda>account.
      thn (forM (x_range X (mkeys assets)) (\<lambda>assetId. modify (\<lambda>s. setAcc account (padAsset assetId (w_accHeap s account)) s)))
          (AccountCache_Add X accountIndex account)))"

definition PrepareAccountsAndAssets :: "Lib \<Rightarrow> bool gomap gomap \<Rightarrow> unit go" where
  "PrepareAccountsAndAssets X accountAssetsMap =
     forM (x_range X (mkeys accountAssetsMap)) (\<lambda>accountIndex.
       PrepareAccountAndAssets X accountIndex (the (mget accountAssetsMap accountIndex)))"

definition PrepareNft :: "Lib \<Rightarrow> int \<Rightarrow> nat go" where
  "PrepareNft X nftIndex =
     thn (bnd (gets (\<lambda>s. (w_dryRun s, w_redis s))) (\<lambda>(dryRun, rd).
            if dryRun \<and> \<not> rd_down rd then
              (case rd_nft rd nftIndex of None \<Rightarrow> ret ()
               | Some n \<Rightarrow> bnd (newNft n) (\<lambda>r. NftCache_Add X nftIndex r))
            else ret ()))
     (GetNft X nftIndex)"

text \<open>
  \<open>AccountInfo.DeepCopy\<close> duplicates every asset; as a value the copy is the account itself. The
  result is the map of the copies, which the callers mutate on their own.
\<close>

fun deepCopyLoop :: "Lib \<Rightarrow> int list \<Rightarrow> (int \<rightharpoonup> AccountInfo) \<Rightarrow> (int \<rightharpoonup> AccountInfo) go" where
  "deepCopyLoop X [] accounts = ret accounts"
| "deepCopyLoop X (accountId # ids) accounts =
     (if accounts accountId \<noteq> None then deepCopyLoop X ids accounts
      else bnd (GetFormatAccount X accountId) (\<lambda>r.
           bnd (accountAt r) (\<lambda>account. deepCopyLoop X ids (accounts(accountId \<mapsto> account)))))"

definition DeepCopyAccounts :: "Lib \<Rightarrow> int list \<Rightarrow> (int \<rightharpoonup> AccountInfo) go" where
  "DeepCopyAccounts X accountIds = deepCopyLoop X accountIds (\<lambda>_. None)"

section \<open>The rows a block writes\<close>

record AccountHistory =
  ah_AccountIndex :: int
  ah_Nonce :: int
  ah_CollectionNonce :: int
  ah_AssetInfo :: assetText
  ah_AssetRoot :: string
  ah_L2BlockHeight :: int

record L2NftHistory =
  nh_NftIndex :: int
  nh_CreatorAccountIndex :: int
  nh_OwnerAccountIndex :: int
  nh_NftContentHash :: string
  nh_NftL1Address :: string
  nh_NftL1TokenId :: string
  nh_CreatorTreasuryRate :: int
  nh_CollectionId :: int
  nh_L2BlockHeight :: int

text \<open>
  One step of the loop of \<open>applyGasUpdate\<close>: the balance of a known asset grows by the pending gas;
  an unknown asset gets an entry whose \<open>AssetId\<close> field stays zero.
\<close>

definition applyGasDelta :: "Lib \<Rightarrow> int gomap \<Rightarrow> int \<Rightarrow> AccountInfo \<Rightarrow> AccountInfo" where
  "applyGasDelta X gas assetId acc =
     (let delta = the (mget gas assetId) in
      case ai_AssetInfo acc assetId of
        Some asset \<Rightarrow> acc\<lparr>ai_AssetInfo := (ai_AssetInfo acc)(assetId \<mapsto> asset\<lparr>aa_Balance := x_Add X (aa_Balance asset) delta\<rparr>)\<rparr>
      | None \<Rightarrow> acc\<lparr>ai_AssetInfo := (ai_AssetInfo acc)(assetId \<mapsto> ConstructAccountAsset 0 delta 0)\<rparr>)"

definition applyGasUpdate :: "Lib \<Rightarrow> nat \<Rightarrow> unit go" where
  "applyGasUpdate X r =
     bnd (gets (\<lambda>s. sc_PendingGasMap (w_sc s))) (\<lambda>gas.
     forM (x_range X (mkeys gas)) (\<lambda>assetId.
       modify (\<lambda>s. setAcc r (applyGasDelta X gas assetId (w_accHeap s r)) s)))"

fun pendingAccountLoop :: "Lib \<Rightarrow> int \<Rightarrow> int list \<Rightarrow> (Account list \<times> AccountHistory list) \<Rightarrow>
    (Account list \<times> AccountHistory list) go" where
  "pendingAccountLoop X blockHeight [] acc = ret acc"
| "pendingAccountLoop X blockHeight (i # is) (as, hs) =
     bnd (gets (\<lambda>s. the (pendingAcc s i))) (\<lambda>r.
     bnd (accountAt r) (\<lambda>formatAccount.
     thn (if ai_AccountIndex formatAccount = GasAccount then applyGasUpdate X r else ret ())
     (bnd (accountAt r) (\<lambda>formatAccount.
      let newAccount = FromFormatAccountInfo formatAccount in
      pendingAccountLoop X blockHeight is
        (as @ [newAccount],
         hs @ [\<lparr>ah_AccountIndex = ac_AccountIndex newAccount, ah_Nonce = ac_Nonce newAccount,
                ah_CollectionNonce = ac_CollectionNonce newAccount, ah_AssetInfo = ac_AssetInfo newAccount,
                ah_AssetRoot = ac_AssetRoot newAccount, ah_L2BlockHeight = blockHeight\<rparr>])))))"

definition StateDB_GetPendingAccount :: "Lib \<Rightarrow> int \<Rightarrow> (Account list \<times> AccountHistory list) go" where
  "StateDB_GetPendingAccount X blockHeight =
     bnd (gets (\<lambda>s. mkeys (sc_PendingAccountMap (w_sc s)))) (\<lambda>ks.
       pendingAccountLoop X blockHeight (x_range X ks) ([], []))"

definition nftHistory :: "int \<Rightarrow> L2Nft \<Rightarrow> L2NftHistory" where
  "nftHistory blockHeight n =
     \<lparr>nh_NftIndex = nft_NftIndex n, nh_CreatorAccountIndex = nft_CreatorAccountIndex n,
      nh_OwnerAccountIndex = nft_OwnerAccountIndex n, nh_NftContentHash = nft_NftContentHash n,
      nh_NftL1Address = nft_NftL1Address n, nh_NftL1TokenId = nft_NftL1TokenId n,
      nh_CreatorTreasuryRate = nft_CreatorTreasuryRate n, nh_CollectionId = nft_CollectionId n,
      nh_L2BlockHeight = blockHeight\<rparr>"

definition StateDB_GetPendingNft :: "Lib \<Rightarrow> int \<Rightarrow> (L2Nft list \<times> L2NftHistory list) go" where
  "StateDB_GetPendingNft X blockHeight =
     gets (\<lambda>s. let ns = map (\<lambda>i. w_nftHeap s (the (pendingNft s i))) (x_range X (mkeys (sc_PendingNftMap (w_sc s))))
       in (ns, map (nftHistory blockHeight) ns))"

section \<open>Nonces, next indices, gas configuration\<close>

definition GetCommittedNonce :: "Lib \<Rightarrow> int \<Rightarrow> int go" where
  "GetCommittedNonce X accountIndex =
     bnd (GetFormatAccount X accountIndex) (\<lambda>r. bnd (accountAt r) (\<lambda>a. ret (ai_Nonce a)))"

definition GetPendingNonce :: "int \<Rightarrow> int go" where
  "GetPendingNonce accountIndex =
     bnd (attempt (GetMaxNonceByAccountIndex accountIndex)) (\<lambda>x. case x of
       Inr nonce \<Rightarrow> ret (wrap64 (nonce + 1))
     | Inl _ \<Rightarrow> bnd (gets w_redis) (\<lambda>rd.
         case (if rd_down rd then None else rd_account rd accountIndex) of
           Some account \<Rightarrow> ret (ac_Nonce account)
         | None \<Rightarrow> bnd (GetAccountByIndex accountIndex) (\<lambda>dbAccount. ret (ac_Nonce dbAccount))))"

definition GetNextAccountIndex :: "int go" where
  "GetNextAccountIndex = gets (\<lambda>s. wrap64 (w_nextAccountNumber s + 1))"

text \<open>\<open>AssetTreeCache.UpdateCache\<close>: both counters only grow.\<close>

definition UpdateCache :: "int \<Rightarrow> int \<Rightarrow> unit go" where
  "UpdateCache accountNumber latestBlock =
     modify (\<lambda>s. s\<lparr>w_nextAccountNumber := max (w_nextAccountNumber s) accountNumber,
                  w_blockNumber := max (w_blockNumber s) latestBlock\<rparr>)"

definition GetNextNftIndex :: "int go" where
  "GetNextNftIndex =
     bnd (mustOk ''get latest nft index error'' GetLatestNftIndex) (\<lambda>maxNftIndex.
     gets (\<lambda>s. wrap64 (fold max (mkeys (sc_PendingNftMap (w_sc s))) maxNftIndex + 1)))"

definition GetGasAccountIndex :: "int go" where
  "GetGasAccountIndex =
     bnd (gets w_redis) (\<lambda>rd. case (if rd_down rd then None else rd_gasAccount rd) of
       Some i \<Rightarrow> ret i
     | None \<Rightarrow>
        bnd (mapErr (\<lambda>_. ErrorsNew ''internal error'') (GetSysConfigByName ''GasAccountIndex'')) (\<lambda>cfg.
        bnd (orThrow (ErrorsNew ''internal error'') (parseInt64 cfg)) (\<lambda>i.
        thn (if rd_down rd then ret () else modify (\<lambda>s. s\<lparr>w_redis := rd\<lparr>rd_gasAccount := Some i\<rparr>\<rparr>))
            (ret i))))"

definition GetGasConfig :: "Lib \<Rightarrow> (int \<rightharpoonup> (int \<rightharpoonup> int)) go" where
  "GetGasConfig X =
     bnd (gets w_redis) (\<lambda>rd.
     bnd (case (if rd_down rd then None else rd_gasConfig rd) of
            Some v \<Rightarrow> ret v
          | None \<Rightarrow>
             bnd (mapErr (\<lambda>_. ErrorsNew ''invalid gas fee asset'') (GetSysConfigByName ''SysGasFee'')) (\<lambda>v.
             thn (if rd_down rd then ret () else modify (\<lambda>s. s\<lparr>w_redis := rd\<lparr>rd_gasConfig := Some v\<rparr>\<rparr>))
                 (ret v))) (\<lambda>gasFeeValue.
     mapErr (\<lambda>_. ErrorsNew ''internal error'') (ofSum (x_UnmarshalGasConfig X gasFeeValue))))"

end
