(* ===== verification/Exec_Base.thy ===== *)
theory Exec_Base
  imports Zk_StateDB
begin

text \<open>
  What the executors share: the checks of \<open>BlockChain\<close> they call back (src/core/blockchain.go),
  \<open>BaseExecutor\<close> (src/core/executor/base_executor.go), the writers of the public data
  (src/common/bytes.go) and the rows of the transaction details.
\<close>

section \<open>Checks of the blockchain\<close>

definition VerifyExpiredAt :: "int \<Rightarrow> unit go" where
  "VerifyExpiredAt expiredAt =
     bnd (gets (\<lambda>s. if \<not> w_dryRun s then bk_CreatedAt (w_currentBlock s) else w_now s)) (\<lambda>t.
       failIf (expiredAt < t) AppErrInvalidExpireTime)"

definition VerifyNonce :: "Lib \<Rightarrow> int \<Rightarrow> int \<Rightarrow> unit go" where
  "VerifyNonce X accountIndex nonce =
     bnd (gets w_dryRun) (\<lambda>dryRun.
       if \<not> dryRun then
         bnd (GetCommittedNonce X accountIndex) (\<lambda>expectNonce. failIf (nonce \<noteq> expectNonce) AppErrInvalidNonce)
       else
         bnd (GetPendingNonce accountIndex) (\<lambda>pendingNonce. failIf (pendingNonce \<noteq> nonce) AppErrInvalidNonce))"

text \<open>\<open>uint32(gasFeeAssetId)\<close> keeps the low 32 bits.\<close>

definition VerifyGas :: "Lib \<Rightarrow> int \<Rightarrow> int \<Rightarrow> int \<Rightarrow> int \<Rightarrow> bool \<Rightarrow> unit go" where
  "VerifyGas X gasAccountIndex gasFeeAssetId txType gasFeeAmount skipGasAmtChk =
     bnd GetGasAccountIndex (\<lambda>cfgGasAccountIndex.
     thn (failIf (gasAccountIndex \<noteq> cfgGasAccountIndex) AppErrInvalidGasFeeAccount)
     (bnd (GetGasConfig X) (\<lambda>cfgGasFee.
      bnd (orThrow AppErrInvalidGasFeeAsset (cfgGasFee (uint (word_of_int gasFeeAssetId :: 32 word)))) (\<lambda>gasAsset.
      if skipGasAmtChk then ret ()
      else bnd (orThrow (ErrorsNew ''invalid tx type'') (gasAsset txType)) (\<lambda>gasFee.
           failIf (gasFeeAmount < gasFee) AppErrInvalidGasFeeAmount)))))"

section \<open>BaseExecutor\<close>

definition BaseExecutor_MarkAccountAssetsDirty :: "int \<Rightarrow> int list \<Rightarrow> unit go" where
  "BaseExecutor_MarkAccountAssetsDirty accountIndex assets =
     modify (updExec (\<lambda>e. e\<lparr>e_dirtyAccountsAndAssetsMap := markDirty accountIndex assets (e_dirtyAccountsAndAssetsMap e)\<rparr>))"

definition BaseExecutor_MarkNftDirty :: "int \<Rightarrow> unit go" where
  "BaseExecutor_MarkNftDirty nftIndex =
     modify (updExec (\<lambda>e. e\<lparr>e_dirtyNftMap := mput nftIndex True (e_dirtyNftMap e)\<rparr>))"

definition BaseExecutor_Prepare :: "Lib \<Rightarrow> unit go" where
  "BaseExecutor_Prepare X =
     bnd (gets w_exec) (\<lambda>e.
     let i = e_iTxInfo e; from = x_GetFromAccountIndex X i in
     thn (if from \<noteq> NilAccountIndex \<and> tx_TxHash (e_tx e) = EmptyTxHash then
            bnd (ofSum (x_Hash X i)) (\<lambda>hash.
            modify (updTx (\<lambda>t. t\<lparr>tx_TxHash := x_Bytes2Hex X hash, tx_AccountIndex := x_GetFromAccountIndex X i,
                                tx_Nonce := x_GetNonce X i, tx_ExpiredAt := x_GetExpiredAt X i\<rparr>)))
          else ret ())
         (PrepareAccountsAndAssets X (e_dirtyAccountsAndAssetsMap e)))"

definition BaseExecutor_VerifyInputs :: "Lib \<Rightarrow> bool \<Rightarrow> unit go" where
  "BaseExecutor_VerifyInputs X skipGasAmtChk =
     bnd (gets (\<lambda>s. e_iTxInfo (w_exec s))) (\<lambda>txInfo.
     thn (failOn (x_Validate X txInfo))
     (thn (VerifyExpiredAt (x_GetExpiredAt X txInfo))
     (let from = x_GetFromAccountIndex X txInfo in
      if from \<noteq> NilAccountIndex then
        thn (VerifyNonce X from (x_GetNonce X txInfo))
        (case x_GetGas X txInfo of (gasAccountIndex, gasFeeAssetId, gasFeeAmount) \<Rightarrow>
         thn (VerifyGas X gasAccountIndex gasFeeAssetId (x_GetTxType X txInfo) gasFeeAmount skipGasAmtChk)
         (bnd (GetFormatAccount X from) (\<lambda>r.
          bnd (accountAt r) (\<lambda>fromAccount.
          failOn (x_VerifySignature X txInfo (ai_PublicKey fromAccount))))))
      else ret ())))"

definition SyncDirtyToStateCache :: "Lib \<Rightarrow> unit go" where
  "SyncDirtyToStateCache X =
     bnd (gets w_exec) (\<lambda>e.
     thn (forM (x_range X (mkeys (e_dirtyAccountsAndAssetsMap e))) (\<lambda>accountIndex.
            modify (updSc (MarkAccountAssetsDirty accountIndex
              (x_range X (mkeys (the (mget (e_dirtyAccountsAndAssetsMap e) accountIndex))))))))
         (forM (x_range X (mkeys (e_dirtyNftMap e))) (\<lambda>nftIndex. modify (updSc (MarkNftDirty nftIndex)))))"

definition BaseExecutor_ApplyTransaction :: "Lib \<Rightarrow> unit go" where
  "BaseExecutor_ApplyTransaction X = SyncDirtyToStateCache X"

definition BaseExecutor_GetExecutedTx :: "Tx go" where
  "BaseExecutor_GetExecutedTx =
     thn (modify (\<lambda>s. updTx (\<lambda>t. t\<lparr>tx_TxIndex := int (length (sc_Txs (w_sc s))),
            tx_BlockHeight := bk_BlockHeight (w_currentBlock s), tx_TxStatus := StatusExecuted\<rparr>) s))
         (gets (\<lambda>s. e_tx (w_exec s)))"

text \<open>The step before \<open>BaseExecutor.GetExecutedTx\<close> common to the executors: the payload is marshalled.\<close>

definition marshalTxInfo :: "Lib \<Rightarrow> TxInfo \<Rightarrow> string go" where
  "marshalTxInfo X txInfo = mapErr (\<lambda>_. ErrorsNew ''unmarshal tx failed'') (ofSum (x_MarshalTx X txInfo))"

definition setTxInfo :: "TxInfo \<Rightarrow> unit go" where
  "setTxInfo txInfo = modify (updExec (\<lambda>e. e\<lparr>e_iTxInfo := txInfo\<rparr>))"

definition newExecutor :: "Tx \<Rightarrow> err \<Rightarrow> (err + 'a) \<Rightarrow> ('a \<Rightarrow> TxInfo) \<Rightarrow> unit go" where
  "newExecutor tx failure parsed wrap =
     bnd (mapErr (\<lambda>_. failure) (ofSum parsed)) (\<lambda>txInfo. modify (\<lambda>s. s\<lparr>w_exec := NewBaseExecutor tx (wrap txInfo)\<rparr>))"

section \<open>Public data\<close>

definition AmountToPackedAmountBytes :: "Lib \<Rightarrow> int \<Rightarrow> byte list go" where
  "AmountToPackedAmountBytes X a =
     bnd (ofSum (x_ToPackedAmount X a)) (\<lambda>p. orPanic ''math/big: buffer too small to fit value'' (Uint40ToBytes p))"

definition FeeToPackedFeeBytes :: "Lib \<Rightarrow> int \<Rightarrow> byte list go" where
  "FeeToPackedFeeBytes X a = bnd (ofSum (x_ToPackedFee X a)) (\<lambda>p. ret (Uint16ToBytes (word_of_int p)))"

definition AddressStrToBytes :: "Lib \<Rightarrow> string \<Rightarrow> byte list option" where
  "AddressStrToBytes X addr = FillBytes 20 (SetBytes (x_FromHex X addr))"

text \<open>A write whose fixed-size buffer may be too small.\<close>

definition filled :: "byte list option \<Rightarrow> byte list go" where
  "filled x = orPanic ''math/big: buffer too small to fit value'' x"

definition typeByte :: "int \<Rightarrow> byte list" where "typeByte t = [word_of_int t]"
definition u32 :: "int \<Rightarrow> byte list" where "u32 x = Uint32ToBytes (word_of_int x)"
definition u16 :: "int \<Rightarrow> byte list" where "u16 x = Uint16ToBytes (word_of_int x)"

definition emptyChunk :: "byte list" where "emptyChunk = replicate 32 0"

lemma emptyChunk_padding: "PrefixPaddingBufToChunkSize [] = Some emptyChunk"
  by (simp add: emptyChunk_def PrefixPadding_Nil)

definition ConcatKeccakHash :: "Lib \<Rightarrow> byte list \<Rightarrow> byte list \<Rightarrow> byte list" where
  "ConcatKeccakHash X oldHash paddingValue = x_Keccak256Hash X (oldHash @ paddingValue)"

definition addPriorityOperation :: "StateCache \<Rightarrow> StateCache" where
  "addPriorityOperation c = c\<lparr>sc_PriorityOperations := wrap64 (sc_PriorityOperations c + 1)\<rparr>"

definition addPubDataOffset :: "StateCache \<Rightarrow> StateCache" where
  "addPubDataOffset c = c\<lparr>sc_PubDataOffset := sc_PubDataOffset c @ [of_nat (length (sc_PubData c))]\<rparr>"

definition addPendingOnChain :: "Lib \<Rightarrow> byte list \<Rightarrow> StateCache \<Rightarrow> StateCache" where
  "addPendingOnChain X pubData c =
     c\<lparr>sc_PendingOnChainOperationsPubData := sc_PendingOnChainOperationsPubData c @ [pubData],
       sc_PendingOnChainOperationsHash := ConcatKeccakHash X (sc_PendingOnChainOperationsHash c) pubData\<rparr>"

definition addPubData :: "byte list \<Rightarrow> StateCache \<Rightarrow> StateCache" where
  "addPubData pubData c = c\<lparr>sc_PubData := sc_PubData c @ pubData\<rparr>"

section \<open>Offers\<close>

text \<open>
  \<open>OfferId / OfferPerAsset\<close> and \<open>OfferId % OfferPerAsset\<close>; \<open>big.Int.Bit\<close> and \<open>big.Int.SetBit\<close>
  panic for a negative index.
\<close>

definition offerAssetId :: "int \<Rightarrow> int" where "offerAssetId offerId = go_div offerId OfferPerAsset"
definition offerIndex :: "int \<Rightarrow> int" where "offerIndex offerId = go_mod offerId OfferPerAsset"

definition Bit :: "int \<Rightarrow> int \<Rightarrow> bool go" where
  "Bit x i = (if i < 0 then panic ''negative bit index'' else ret (bit x (nat i)))"

definition SetBit :: "int \<Rightarrow> int \<Rightarrow> int go" where
  "SetBit x i = (if i < 0 then panic ''negative bit index'' else ret (set_bit (nat i) x))"

section \<open>Transaction details\<close>

text \<open>
  The details are computed on deep copies of the accounts, indexed by account, so that two roles of
  one account share the copy.
\<close>

type_synonym copies = "int \<rightharpoonup> AccountInfo"

definition copyOf :: "copies \<Rightarrow> int \<Rightarrow> AccountInfo go" where
  "copyOf cs i = orPanic nilDeref (cs i)"

definition copyMut :: "copies \<Rightarrow> int \<Rightarrow> (AccountInfo \<Rightarrow> AccountInfo option) \<Rightarrow> copies go" where
  "copyMut cs i g = bnd (copyOf cs i) (\<lambda>acc. bnd (orPanic nilDeref (g acc)) (\<lambda>acc'. ret (cs(i \<mapsto> acc'))))"

definition copyAsset :: "copies \<Rightarrow> int \<Rightarrow> int \<Rightarrow> AccountAsset go" where
  "copyAsset cs i a = bnd (copyOf cs i) (\<lambda>acc. orPanic nilDeref (ai_AssetInfo acc a))"

definition fungibleDetail :: "int \<Rightarrow> int \<Rightarrow> AccountInfo \<Rightarrow> AccountAsset \<Rightarrow> int \<Rightarrow> int \<Rightarrow> bool \<Rightarrow> TxDetail" where
  "fungibleDetail assetId accountIndex acc delta order accountOrder isGas =
     \<lparr>td_AssetId = assetId, td_AssetType = FungibleAssetType, td_AccountIndex = accountIndex,
      td_AccountName = ai_AccountName acc, td_Balance = AssetText (ai_AssetInfo acc assetId),
      td_BalanceDelta = AssetText (Some delta), td_Order = order, td_AccountOrder = accountOrder,
      td_Nonce = ai_Nonce acc, td_CollectionNonce = ai_CollectionNonce acc, td_IsGas = isGas\<rparr>"

definition fungibleRow :: "copies \<Rightarrow> int \<Rightarrow> int \<Rightarrow> AccountAsset \<Rightarrow> int \<Rightarrow> int \<Rightarrow> bool \<Rightarrow> TxDetail go" where
  "fungibleRow cs assetId accountIndex delta order accountOrder isGas =
     bnd (copyOf cs accountIndex) (\<lambda>acc. ret (fungibleDetail assetId accountIndex acc delta order accountOrder isGas))"

definition nftInfoOf :: "L2Nft \<Rightarrow> NftInfo" where
  "nftInfoOf n = ConstructNftInfo (nft_NftIndex n) (nft_CreatorAccountIndex n) (nft_OwnerAccountIndex n)
     (nft_NftContentHash n) (nft_NftL1TokenId n) (nft_NftL1Address n) (nft_CreatorTreasuryRate n) (nft_CollectionId n)"

definition nftDetail :: "int \<Rightarrow> int \<Rightarrow> string \<Rightarrow> NftInfo \<Rightarrow> NftInfo \<Rightarrow> int \<Rightarrow> int \<Rightarrow> int \<Rightarrow> TxDetail" where
  "nftDetail nftIndex accountIndex accountName old new order nonce collectionNonce =
     \<lparr>td_AssetId = nftIndex, td_AssetType = NftAssetType, td_AccountIndex = accountIndex,
      td_AccountName = accountName, td_Balance = NftText old, td_BalanceDelta = NftText new,
      td_Order = order, td_AccountOrder = NilAccountOrder, td_Nonce = nonce,
      td_CollectionNonce = collectionNonce, td_IsGas = False\<rparr>"

text \<open>The row the executors write for an NFT that is emptied.\<close>

definition emptyL2Nft :: "int \<Rightarrow> int \<Rightarrow> L2Nft" where
  "emptyL2Nft modelId nftIndex =
     (let i = EmptyNftInfo nftIndex in
      \<lparr>nft_ID = modelId, nft_NftIndex = ni_NftIndex i, nft_CreatorAccountIndex = ni_CreatorAccountIndex i,
       nft_OwnerAccountIndex = ni_OwnerAccountIndex i, nft_NftContentHash = ni_NftContentHash i,
       nft_NftL1Address = ni_NftL1Address i, nft_NftL1TokenId = ni_NftL1TokenId i,
       nft_CreatorTreasuryRate = ni_CreatorTreasuryRate i, nft_CollectionId = ni_CollectionId i\<rparr>)"

section \<open>State steps\<close>

definition setPendingAccount :: "int \<Rightarrow> nat \<Rightarrow> unit go" where
  "setPendingAccount i r = modify (updSc (SetPendingAccount i r))"

text \<open>\<open>stateCache.SetPendingAccount(a.AccountIndex, a)\<close>\<close>

definition setPendingSelf :: "nat \<Rightarrow> unit go" where
  "setPendingSelf r = bnd (accountAt r) (\<lambda>a. setPendingAccount (ai_AccountIndex a) r)"

definition setPendingNft :: "int \<Rightarrow> nat \<Rightarrow> unit go" where
  "setPendingNft i r = modify (updSc (SetPendingNft i r))"

definition setPendingGas :: "Lib \<Rightarrow> int \<Rightarrow> int \<Rightarrow> unit go" where
  "setPendingGas X a d = modify (updSc (SetPendingGas X a d))"

definition setNftOwner :: "nat \<Rightarrow> int \<Rightarrow> unit go" where
  "setNftOwner r owner = modify (\<lambda>s. setNft r ((w_nftHeap s r)\<lparr>nft_OwnerAccountIndex := owner\<rparr>) s)"

definition subBal :: "Lib \<Rightarrow> int \<Rightarrow> int \<Rightarrow> AccountInfo \<Rightarrow> AccountInfo option" where
  "subBal X a d = updBal a (\<lambda>b. x_Sub X b d)"

definition addBal :: "Lib \<Rightarrow> int \<Rightarrow> int \<Rightarrow> AccountInfo \<Rightarrow> AccountInfo option" where
  "addBal X a d = updBal a (\<lambda>b. x_Add X b d)"

end
