(* ===== verification/Zk_Ledger.thy ===== *)
theory Zk_Ledger
  imports Exec_Base
begin

text \<open>
  The abstract ledger of the rollup and the invariant of the state database.

  \<open>ledgerOf\<close> forgets where an account lives (pending map, LRU cache, table) and which zero entries
  its asset map has: what remains is balances, offer bits, nonces, identities, NFTs and the gas
  collected in the block. \<open>wfx D E\<close> is the invariant that ties the three places together, suspended
  for the accounts in \<open>D\<close> and the NFTs in \<open>E\<close>, which were changed through a pointer and are not in
  the pending map yet; \<open>wf\<close> is the invariant between transactions.
\<close>

section \<open>What a read shows\<close>

definition acctRef :: "World \<Rightarrow> int \<Rightarrow> nat option" where
  "acctRef s i = (case pendingAcc s i of Some r \<Rightarrow> Some r | None \<Rightarrow> map_of (w_AccountCache s) i)"

definition nftRef :: "World \<Rightarrow> int \<Rightarrow> nat option" where
  "nftRef s n = (case pendingNft s n of Some r \<Rightarrow> Some r | None \<Rightarrow> map_of (w_NftCache s) n)"

definition dbAcc :: "World \<Rightarrow> int \<Rightarrow> AccountInfo option" where
  "dbAcc s i = (case find (\<lambda>a. ac_AccountIndex a = i) (db_Account (w_db s)) of None \<Rightarrow> None
     | Some a \<Rightarrow> (case ToFormatAccountInfo a of Inl _ \<Rightarrow> None | Inr f \<Rightarrow> Some f))"

text \<open>
  The database id of a row is no part of what a reader sees: an object created in memory has none, and
  keeps none when its row gets one.
\<close>

definition nftCore :: "L2Nft \<Rightarrow> L2Nft" where
  "nftCore x = x\<lparr>nft_ID := 0\<rparr>"

definition dbNft :: "World \<Rightarrow> int \<Rightarrow> L2Nft option" where
  "dbNft s n = map_option nftCore (find (\<lambda>x. nft_NftIndex x = n) (db_L2Nft (w_db s)))"

definition acct :: "World \<Rightarrow> int \<Rightarrow> AccountInfo option" where
  "acct s i = (case acctRef s i of Some r \<Rightarrow> Some (w_accHeap s r) | None \<Rightarrow> dbAcc s i)"

definition nftv :: "World \<Rightarrow> int \<Rightarrow> L2Nft option" where
  "nftv s n = (case nftRef s n of Some r \<Rightarrow> Some (nftCore (w_nftHeap s r)) | None \<Rightarrow> dbNft s n)"

definition assetBal :: "AccountInfo \<Rightarrow> int \<Rightarrow> int" where
  "assetBal acc a = (case ai_AssetInfo acc a of None \<Rightarrow> 0 | Some x \<Rightarrow> aa_Balance x)"

definition assetOffer :: "AccountInfo \<Rightarrow> int \<Rightarrow> int" where
  "assetOffer acc a = (case ai_AssetInfo acc a of None \<Rightarrow> 0 | Some x \<Rightarrow> aa_OfferCanceledOrFinalized x)"

text \<open>
  What an account keeps for good: everything but nonces, assets and their root.
\<close>

definition ident :: "AccountInfo \<Rightarrow> AccountInfo" where
  "ident acc = acc\<lparr>ai_AccountId := 0, ai_AssetRoot := [], ai_Nonce := 0, ai_CollectionNonce := 0, ai_AssetInfo := Map.empty\<rparr>"

section \<open>The ledger\<close>

record Ledger =
  l_bal :: "int \<Rightarrow> int \<Rightarrow> int"
  l_offer :: "int \<Rightarrow> int \<Rightarrow> int"
  l_nonce :: "int \<Rightarrow> int"
  l_cnonce :: "int \<Rightarrow> int"
  l_id :: "int \<rightharpoonup> AccountInfo"
  l_nft :: "int \<rightharpoonup> L2Nft"
  l_gas :: "int \<Rightarrow> int"

definition atAcc :: "'a \<Rightarrow> (AccountInfo \<Rightarrow> 'a) \<Rightarrow> World \<Rightarrow> int \<Rightarrow> 'a" where
  "atAcc d f s i = (case acct s i of None \<Rightarrow> d | Some acc \<Rightarrow> f acc)"

definition ledgerOf :: "World \<Rightarrow> Ledger" where
  "ledgerOf s =
     \<lparr>l_bal = (\<lambda>i a. atAcc 0 (\<lambda>acc. assetBal acc a) s i), l_offer = (\<lambda>i a. atAcc 0 (\<lambda>acc. assetOffer acc a) s i),
      l_nonce = atAcc 0 ai_Nonce s, l_cnonce = atAcc 0 ai_CollectionNonce s,
      l_id = (\<lambda>i. map_option ident (acct s i)), l_nft = nftv s, l_gas = GetPendingGas (w_sc s)\<rparr>"

definition putBal :: "int \<Rightarrow> int \<Rightarrow> int \<Rightarrow> Ledger \<Rightarrow> Ledger" where
  "putBal i a x L = L\<lparr>l_bal := (l_bal L)(i := (l_bal L i)(a := x))\<rparr>"

definition putOffer :: "int \<Rightarrow> int \<Rightarrow> int \<Rightarrow> Ledger \<Rightarrow> Ledger" where
  "putOffer i a x L = L\<lparr>l_offer := (l_offer L)(i := (l_offer L i)(a := x))\<rparr>"

definition creditL :: "int \<Rightarrow> int \<Rightarrow> int \<Rightarrow> Ledger \<Rightarrow> Ledger" where
  "creditL i a d L = putBal i a (l_bal L i a + d) L"

definition putNonce :: "int \<Rightarrow> int \<Rightarrow> Ledger \<Rightarrow> Ledger" where
  "putNonce i n L = L\<lparr>l_nonce := (l_nonce L)(i := n)\<rparr>"

definition putCnonce :: "int \<Rightarrow> int \<Rightarrow> Ledger \<Rightarrow> Ledger" where
  "putCnonce i n L = L\<lparr>l_cnonce := (l_cnonce L)(i := n)\<rparr>"

definition putNft :: "int \<Rightarrow> L2Nft \<Rightarrow> Ledger \<Rightarrow> Ledger" where
  "putNft n x L = L\<lparr>l_nft := (l_nft L)(n \<mapsto> nftCore x)\<rparr>"

definition gasL :: "int \<Rightarrow> int \<Rightarrow> Ledger \<Rightarrow> Ledger" where
  "gasL a d L = L\<lparr>l_gas := (l_gas L)(a := l_gas L a + d)\<rparr>"

definition bumpNonce :: "int \<Rightarrow> Ledger \<Rightarrow> Ledger" where
  "bumpNonce i L = putNonce i (wrap64 (l_nonce L i + 1)) L"

lemmas ledger_defs = putBal_def putOffer_def creditL_def putNonce_def putCnonce_def putNft_def gasL_def bumpNonce_def

section \<open>The invariant\<close>

text \<open>Two accounts a reader cannot tell apart: equal but for entries of value zero.\<close>

definition accEq :: "AccountInfo \<Rightarrow> AccountInfo \<Rightarrow> bool" where
  "accEq f g \<longleftrightarrow> ident f = ident g \<and> ai_Nonce f = ai_Nonce g \<and> ai_CollectionNonce f = ai_CollectionNonce g \<and>
     assetBal f = assetBal g \<and> assetOffer f = assetOffer g"

text \<open>
  The committer's mode; an account cache with room for the five accounts one transaction touches at
  most; references are allocated and lead to the object of their key; the cache holds no other
  object for a pending account; an account or NFT that is cached and not pending reads as its row.
\<close>

definition wfx :: "int set \<Rightarrow> int set \<Rightarrow> World \<Rightarrow> bool" where
  "wfx D E s \<longleftrightarrow> \<not> w_dryRun s \<and> 5 \<le> w_AccountCacheSize s \<and> 0 < w_NftCacheSize s \<and>
     (\<forall>i r. pendingAcc s i = Some r \<longrightarrow> r < w_next s \<and> ai_AccountIndex (w_accHeap s r) = i) \<and>
     (\<forall>i r. map_of (w_AccountCache s) i = Some r \<longrightarrow> r < w_next s \<and> ai_AccountIndex (w_accHeap s r) = i) \<and>
     (\<forall>i r r'. pendingAcc s i = Some r \<longrightarrow> map_of (w_AccountCache s) i = Some r' \<longrightarrow> r' = r) \<and>
     (\<forall>i r. i \<notin> D \<longrightarrow> pendingAcc s i = None \<longrightarrow> map_of (w_AccountCache s) i = Some r \<longrightarrow>
        (\<exists>f. dbAcc s i = Some f \<and> accEq f (w_accHeap s r))) \<and>
     (\<forall>n r. pendingNft s n = Some r \<longrightarrow> r < w_next s \<and> nft_NftIndex (w_nftHeap s r) = n) \<and>
     (\<forall>n r. map_of (w_NftCache s) n = Some r \<longrightarrow> r < w_next s \<and> nft_NftIndex (w_nftHeap s r) = n) \<and>
     (\<forall>n r. n \<notin> E \<longrightarrow> pendingNft s n = None \<longrightarrow> map_of (w_NftCache s) n = Some r \<longrightarrow>
        dbNft s n = Some (nftCore (w_nftHeap s r)))"

abbreviation wf :: "World \<Rightarrow> bool" where "wf s \<equiv> wfx {} {} s"

lemma wfx_mono: "wfx D E s \<Longrightarrow> D \<subseteq> D' \<Longrightarrow> E \<subseteq> E' \<Longrightarrow> wfx D' E' s"
  unfolding wfx_def by blast

lemma accEq_refl [simp]: "accEq f f" by (simp add: accEq_def)

lemma accEq_trans: "accEq f g \<Longrightarrow> accEq g h \<Longrightarrow> accEq f h" by (simp add: accEq_def)

lemma wfx_ref:
  assumes "wfx D E s" "acctRef s i = Some r"
  shows "r < w_next s" "ai_AccountIndex (w_accHeap s r) = i"
  using assms by (auto simp: wfx_def acctRef_def split: option.splits)

lemma wfx_ref_inj: "wfx D E s \<Longrightarrow> acctRef s i = Some r \<Longrightarrow> acctRef s j = Some r \<Longrightarrow> j = i"
  using wfx_ref(2) by metis

lemma wfx_nref:
  assumes "wfx D E s" "nftRef s n = Some r"
  shows "r < w_next s" "nft_NftIndex (w_nftHeap s r) = n"
  using assms by (auto simp: wfx_def nftRef_def split: option.splits)

lemma wfx_nref_inj: "wfx D E s \<Longrightarrow> nftRef s i = Some r \<Longrightarrow> nftRef s j = Some r \<Longrightarrow> j = i"
  using wfx_nref(2) by metis

lemma dbAcc_index: "dbAcc s i = Some f \<Longrightarrow> ai_AccountIndex f = i"
  by (auto simp: dbAcc_def find_Some_iff dest: ToFormat_index split: option.splits sum.splits)

lemma nftCore_sel [simp]:
  "nft_NftIndex (nftCore x) = nft_NftIndex x" "nft_CreatorAccountIndex (nftCore x) = nft_CreatorAccountIndex x"
  "nft_OwnerAccountIndex (nftCore x) = nft_OwnerAccountIndex x" "nft_NftContentHash (nftCore x) = nft_NftContentHash x"
  "nft_NftL1Address (nftCore x) = nft_NftL1Address x" "nft_NftL1TokenId (nftCore x) = nft_NftL1TokenId x"
  "nft_CreatorTreasuryRate (nftCore x) = nft_CreatorTreasuryRate x" "nft_CollectionId (nftCore x) = nft_CollectionId x"
  "nft_ID (nftCore x) = 0" "nftCore (nftCore x) = nftCore x"
  by (simp_all add: nftCore_def)

lemma nftCore_upd [simp]: "nftCore (x\<lparr>nft_OwnerAccountIndex := i\<rparr>) = (nftCore x)\<lparr>nft_OwnerAccountIndex := i\<rparr>"
  by (simp add: nftCore_def)

lemma dbNft_index: "dbNft s n = Some x \<Longrightarrow> nft_NftIndex x = n"
  by (auto simp: dbNft_def find_Some_iff)

lemma acct_index: "wfx D E s \<Longrightarrow> acct s i = Some acc \<Longrightarrow> ai_AccountIndex acc = i"
  by (auto simp: acct_def dest: wfx_ref dbAcc_index split: option.splits)

section \<open>Views\<close>

text \<open>
  All a method can depend on or change: the ledger, which accounts and NFTs are resident and under
  which reference, which asset entries they have, and the rest of the state. The dirty maps, the
  caches and the Redis store are left out.
\<close>

definition hasAsset :: "World \<Rightarrow> int \<Rightarrow> int \<Rightarrow> bool" where
  "hasAsset s i a \<longleftrightarrow> (\<exists>r. acctRef s i = Some r \<and> ai_AssetInfo (w_accHeap s r) a \<noteq> None)"

definition maskSc :: "StateCache \<Rightarrow> StateCache" where
  "maskSc c = c\<lparr>sc_PendingAccountMap := [], sc_PendingNftMap := [], sc_PendingGasMap := [],
     sc_dirtyAccountsAndAssetsMap := [], sc_dirtyNftMap := []\<rparr>"

record View =
  v_led :: Ledger
  v_ref :: "int \<Rightarrow> nat option"
  v_nref :: "int \<Rightarrow> nat option"
  v_has :: "int \<Rightarrow> int \<Rightarrow> bool"
  v_sc :: StateCache
  v_db :: ChainDB
  v_blk :: Block
  v_exec :: BaseExecutor
  v_nextAcc :: int

definition view :: "World \<Rightarrow> View" where
  "view s = \<lparr>v_led = ledgerOf s, v_ref = acctRef s, v_nref = nftRef s, v_has = hasAsset s,
     v_sc = maskSc (w_sc s), v_db = w_db s, v_blk = w_currentBlock s, v_exec = w_exec s,
     v_nextAcc = w_nextAccountNumber s\<rparr>"

definition St :: "int set \<Rightarrow> int set \<Rightarrow> View \<Rightarrow> World \<Rightarrow> bool" where
  "St D E v s \<longleftrightarrow> wfx D E s \<and> view s = v"

lemma view_sel [simp]:
  "v_led (view s) = ledgerOf s" "v_ref (view s) = acctRef s" "v_nref (view s) = nftRef s"
  "v_has (view s) = hasAsset s" "v_sc (view s) = maskSc (w_sc s)" "v_db (view s) = w_db s"
  "v_blk (view s) = w_currentBlock s" "v_exec (view s) = w_exec s" "v_nextAcc (view s) = w_nextAccountNumber s"
  by (simp_all add: view_def)

text \<open>A value read through the reference of account \<open>i\<close>.\<close>

definition accIs :: "View \<Rightarrow> int \<Rightarrow> AccountInfo \<Rightarrow> bool" where
  "accIs v i acc \<longleftrightarrow> ai_AccountIndex acc = i \<and> ai_Nonce acc = l_nonce (v_led v) i \<and>
     ai_CollectionNonce acc = l_cnonce (v_led v) i \<and> assetBal acc = l_bal (v_led v) i \<and>
     assetOffer acc = l_offer (v_led v) i \<and> l_id (v_led v) i = Some (ident acc) \<and>
     (\<forall>a. ai_AssetInfo acc a \<noteq> None \<longleftrightarrow> v_has v i a)"

lemma accIs_ref:
  assumes "wfx D E s" "acctRef s i = Some r"
  shows "accIs (view s) i (w_accHeap s r)"
  using assms by (auto simp: accIs_def ledgerOf_def atAcc_def acct_def hasAsset_def fun_eq_iff dest: wfx_ref(2))

lemma accIs_bal: "accIs v i acc \<Longrightarrow> ai_AssetInfo acc a = Some x \<Longrightarrow> aa_Balance x = l_bal (v_led v) i a"
  unfolding accIs_def assetBal_def fun_eq_iff by (metis option.simps(5))

lemma accIs_offer:
  "accIs v i acc \<Longrightarrow> ai_AssetInfo acc a = Some x \<Longrightarrow> aa_OfferCanceledOrFinalized x = l_offer (v_led v) i a"
  unfolding accIs_def assetOffer_def fun_eq_iff by (metis option.simps(5))

end
