(* ===== verification/Zk_Logic.thy ===== *)
theory Zk_Logic
  imports Zk_Ledger
begin

text \<open>
  How each operation of the state acts on the view, and a small program logic over it.

  \<open>spec P m Q R\<close>: from a state of \<open>P\<close> the computation \<open>m\<close> never panics, ends in \<open>Q\<close> when it returns
  a value and in \<open>R\<close> when it returns an error. The rules for the operations of the state database
  are in continuation style, so a method is verified by following its text.
\<close>

section \<open>Effect of the state operations on the view\<close>

lemma acct_cong:
  "acctRef t = acctRef s \<Longrightarrow> w_accHeap t = w_accHeap s \<Longrightarrow> w_db t = w_db s \<Longrightarrow> acct t = acct s"
  by (simp add: acct_def [abs_def] dbAcc_def [abs_def] cong: option.case_cong)

lemma nftv_cong:
  "nftRef t = nftRef s \<Longrightarrow> w_nftHeap t = w_nftHeap s \<Longrightarrow> w_db t = w_db s \<Longrightarrow> nftv t = nftv s"
  by (simp add: nftv_def [abs_def] dbNft_def [abs_def] cong: option.case_cong)

lemma ledgerOf_cong:
  "acct t = acct s \<Longrightarrow> nftv t = nftv s \<Longrightarrow> GetPendingGas (w_sc t) = GetPendingGas (w_sc s) \<Longrightarrow> ledgerOf t = ledgerOf s"
  by (simp add: ledgerOf_def atAcc_def [abs_def])

lemma hasAsset_cong:
  "acctRef t = acctRef s \<Longrightarrow> w_accHeap t = w_accHeap s \<Longrightarrow> hasAsset t = hasAsset s"
  by (simp add: fun_eq_iff hasAsset_def)

lemma view_gas_sc:
  assumes "acctRef t = acctRef s" "nftRef t = nftRef s" "w_accHeap t = w_accHeap s" "w_nftHeap t = w_nftHeap s"
    and "w_db t = w_db s" "w_currentBlock t = w_currentBlock s"
  shows "view t = (view s)\<lparr>v_led := (ledgerOf s)\<lparr>l_gas := GetPendingGas (w_sc t)\<rparr>, v_sc := maskSc (w_sc t),
    v_exec := w_exec t, v_nextAcc := w_nextAccountNumber t\<rparr>"
proof -
  have a: "acct t = acct s" using assms(1,3,5) by (rule acct_cong)
  have n: "nftv t = nftv s" using assms(2,4,5) by (rule nftv_cong)
  have h: "hasAsset t = hasAsset s" using assms(1,3) by (rule hasAsset_cong)
  have "ledgerOf t = (ledgerOf s)\<lparr>l_gas := GetPendingGas (w_sc t)\<rparr>"
    by (simp add: ledgerOf_def atAcc_def [abs_def] a n)
  with assms h show ?thesis by (simp add: view_def)
qed

lemma l_gas_ledgerOf [simp]: "l_gas (ledgerOf s) = GetPendingGas (w_sc s)"
  by (simp add: ledgerOf_def)

lemma view_eqI:
  assumes "acctRef t = acctRef s" "nftRef t = nftRef s" "w_accHeap t = w_accHeap s" "w_nftHeap t = w_nftHeap s"
    and "w_db t = w_db s" "w_currentBlock t = w_currentBlock s" "GetPendingGas (w_sc t) = GetPendingGas (w_sc s)"
    and "maskSc (w_sc t) = maskSc (w_sc s)" "w_exec t = w_exec s" "w_nextAccountNumber t = w_nextAccountNumber s"
  shows "view t = view s"
proof -
  have "(ledgerOf s)\<lparr>l_gas := GetPendingGas (w_sc s)\<rparr> = ledgerOf s" by (simp add: ledgerOf_def)
  with view_gas_sc [OF assms(1-6)] assms(7-) show ?thesis by (simp add: view_def)
qed

lemma accountCache_same:
  assumes "map_of c = map_of (w_AccountCache s)"
  shows "view (s\<lparr>w_AccountCache := c\<rparr>) = view s" "wfx D E (s\<lparr>w_AccountCache := c\<rparr>) = wfx D E s"
proof -
  show "view (s\<lparr>w_AccountCache := c\<rparr>) = view s"
    by (rule view_eqI) (simp_all add: acctRef_def nftRef_def fun_eq_iff assms cong: option.case_cong)
  show "wfx D E (s\<lparr>w_AccountCache := c\<rparr>) = wfx D E s" by (simp add: wfx_def dbAcc_def dbNft_def assms)
qed

lemma nftCache_same:
  assumes "map_of c = map_of (w_NftCache s)"
  shows "view (s\<lparr>w_NftCache := c\<rparr>) = view s" "wfx D E (s\<lparr>w_NftCache := c\<rparr>) = wfx D E s"
proof -
  show "view (s\<lparr>w_NftCache := c\<rparr>) = view s"
    by (rule view_eqI) (simp_all add: acctRef_def nftRef_def fun_eq_iff assms cong: option.case_cong)
  show "wfx D E (s\<lparr>w_NftCache := c\<rparr>) = wfx D E s" by (simp add: wfx_def dbAcc_def dbNft_def assms)
qed

lemma ledgerOf_acct_upd:
  assumes "acct t = (acct s)(i \<mapsto> a)" "nftv t = nftv s" "GetPendingGas (w_sc t) = GetPendingGas (w_sc s)"
  shows "ledgerOf t = (ledgerOf s)\<lparr>l_bal := (l_bal (ledgerOf s))(i := assetBal a),
    l_offer := (l_offer (ledgerOf s))(i := assetOffer a), l_nonce := (l_nonce (ledgerOf s))(i := ai_Nonce a),
    l_cnonce := (l_cnonce (ledgerOf s))(i := ai_CollectionNonce a), l_id := (l_id (ledgerOf s))(i \<mapsto> ident a)\<rparr>"
  using assms by (simp add: ledgerOf_def atAcc_def fun_eq_iff)

lemma ledgerOf_nft_upd:
  assumes "acct t = acct s" "nftv t = (nftv s)(n \<mapsto> nftCore x)" "GetPendingGas (w_sc t) = GetPendingGas (w_sc s)"
  shows "ledgerOf t = putNft n x (ledgerOf s)"
  using assms by (simp add: ledgerOf_def atAcc_def fun_eq_iff putNft_def)

lemma setAcc_frame [simp]:
  "w_sc (setAcc r a s) = w_sc s" "w_db (setAcc r a s) = w_db s" "w_currentBlock (setAcc r a s) = w_currentBlock s"
  "w_exec (setAcc r a s) = w_exec s" "w_nextAccountNumber (setAcc r a s) = w_nextAccountNumber s"
  "w_accHeap (setAcc r a s) = (w_accHeap s)(r := a)" "w_nftHeap (setAcc r a s) = w_nftHeap s"
  "w_AccountCache (setAcc r a s) = w_AccountCache s" "w_NftCache (setAcc r a s) = w_NftCache s"
  by (simp_all add: setAcc_def)

lemma setAcc_refs [simp]:
  "acctRef (setAcc r a s) = acctRef s" "nftRef (setAcc r a s) = nftRef s" "dbAcc (setAcc r a s) = dbAcc s"
  by (simp_all add: acctRef_def [abs_def] nftRef_def [abs_def] dbAcc_def [abs_def] cong: option.case_cong)

lemma nftv_setAcc [simp]: "nftv (setAcc r a s) = nftv s"
  by (rule nftv_cong) simp_all

lemma acct_setAcc:
  assumes "wfx D E s" "acctRef s i = Some r"
  shows "acct (setAcc r a s) = (acct s)(i \<mapsto> a)"
proof
  fix j
  show "acct (setAcc r a s) j = ((acct s)(i \<mapsto> a)) j"
  proof (cases "j = i")
    case True
    with assms(2) show ?thesis by (simp add: acct_def)
  next
    case False
    with wfx_ref_inj [OF assms, of j] have "acctRef s j \<noteq> Some r" by blast
    with False show ?thesis by (cases "acctRef s j") (auto simp: acct_def)
  qed
qed

lemma wfx_setAcc:
  assumes "wfx D E s" "acctRef s i = Some r" "ai_AccountIndex a = i"
  shows "wfx (insert i D) E (setAcc r a s)"
proof -
  note ind = wfx_ref(2) [OF assms(1,2)]
  have "pendingAcc s j = Some r \<Longrightarrow> j = i" "map_of (w_AccountCache s) j = Some r \<Longrightarrow> j = i" for j
    using assms(1) ind by (auto simp: wfx_def)
  with assms show ?thesis
    by (auto simp: wfx_def setAcc_def dbAcc_def dbNft_def)
qed

lemma hasAsset_setAcc:
  assumes "wfx D E s" "acctRef s i = Some r"
    and "\<And>b. ai_AssetInfo a b \<noteq> None \<longleftrightarrow> ai_AssetInfo (w_accHeap s r) b \<noteq> None"
  shows "hasAsset (setAcc r a s) = hasAsset s"
  using assms(2,3) wfx_ref_inj [OF assms(1,2)] by (auto simp: hasAsset_def fun_eq_iff)

text \<open>A change of an account that keeps its identity and its set of entries.\<close>

lemma view_setAcc:
  assumes "wfx D E s" "acctRef s i = Some r" "ident a = ident (w_accHeap s r)"
    and "\<And>b. ai_AssetInfo a b \<noteq> None \<longleftrightarrow> ai_AssetInfo (w_accHeap s r) b \<noteq> None"
  shows "view (setAcc r a s) = (view s)\<lparr>v_led := (ledgerOf s)\<lparr>l_bal := (l_bal (ledgerOf s))(i := assetBal a),
    l_offer := (l_offer (ledgerOf s))(i := assetOffer a), l_nonce := (l_nonce (ledgerOf s))(i := ai_Nonce a),
    l_cnonce := (l_cnonce (ledgerOf s))(i := ai_CollectionNonce a)\<rparr>\<rparr>"
proof -
  have "l_id (ledgerOf s) i = Some (ident a)"
    using accIs_ref [OF assms(1,2)] assms(3) by (simp add: accIs_def)
  then have "(l_id (ledgerOf s))(i \<mapsto> ident a) = l_id (ledgerOf s)" by (simp add: fun_eq_iff)
  with ledgerOf_acct_upd [of "setAcc r a s" s i a] acct_setAcc [OF assms(1,2)] hasAsset_setAcc [OF assms(1,2,4)]
  show ?thesis by (simp add: view_def)
qed

lemma ident_index: "ident a = ident b \<Longrightarrow> ai_AccountIndex a = ai_AccountIndex b"
  by (cases a; cases b) (simp add: ident_def)

lemma St_setAcc:
  assumes "St D E v s" "v_ref v i = Some r" "ident a = ident (w_accHeap s r)"
    and "\<And>b. ai_AssetInfo a b \<noteq> None \<longleftrightarrow> ai_AssetInfo (w_accHeap s r) b \<noteq> None"
    and "L = (v_led v)\<lparr>l_bal := (l_bal (v_led v))(i := assetBal a),
      l_offer := (l_offer (v_led v))(i := assetOffer a), l_nonce := (l_nonce (v_led v))(i := ai_Nonce a),
      l_cnonce := (l_cnonce (v_led v))(i := ai_CollectionNonce a)\<rparr>"
  shows "St (insert i D) E (v\<lparr>v_led := L\<rparr>) (setAcc r a s)"
proof -
  from assms(1,2) have w: "wfx D E s" "acctRef s i = Some r" and v: "v = view s" by (auto simp: St_def)
  have "ai_AccountIndex a = i" using ident_index [OF assms(3)] wfx_ref(2) [OF w] by simp
  with wfx_setAcc [OF w] view_setAcc [OF w assms(3,4)] assms(5) v show ?thesis by (simp add: St_def)
qed

section \<open>The pending maps\<close>

lemma pendingAcc_upd:
  assumes "acctRef s i = Some r"
  shows "view (updSc (SetPendingAccount i r) s) = view s"
  using assms
  by (intro view_eqI) (auto simp: acctRef_def nftRef_def updSc_def SetPendingAccount_def GetPendingGas_def maskSc_def
      fun_eq_iff cong: option.case_cong)

lemma wfx_pendingAcc_upd:
  assumes "wfx D E s" "acctRef s i = Some r"
  shows "wfx (D - {i}) E (updSc (SetPendingAccount i r) s)"
proof -
  note ri = wfx_ref [OF assms]
  have "map_of (w_AccountCache s) i = Some r' \<Longrightarrow> r' = r" for r'
    using assms by (auto simp: wfx_def acctRef_def split: option.splits)
  with assms(1) ri show ?thesis
    by (auto simp: wfx_def updSc_def SetPendingAccount_def dbAcc_def dbNft_def split: if_splits)
qed

lemma St_setPendingAccount:
  assumes "St D E v s" "v_ref v i = Some r"
  shows "St (D - {i}) E v (updSc (SetPendingAccount i r) s)"
  using assms pendingAcc_upd wfx_pendingAcc_upd by (auto simp: St_def)

text \<open>Changes of the state cache outside the pending accounts and NFTs.\<close>

lemma view_updSc:
  assumes "sc_PendingAccountMap (f (w_sc s)) = sc_PendingAccountMap (w_sc s)"
    and "sc_PendingNftMap (f (w_sc s)) = sc_PendingNftMap (w_sc s)"
  shows "view (updSc f s) = (view s)\<lparr>v_led := (ledgerOf s)\<lparr>l_gas := GetPendingGas (f (w_sc s))\<rparr>, v_sc := maskSc (f (w_sc s))\<rparr>"
    and "wfx D E (updSc f s) = wfx D E s"
proof -
  have "view (updSc f s) = (view s)\<lparr>v_led := (ledgerOf s)\<lparr>l_gas := GetPendingGas (w_sc (updSc f s))\<rparr>,
      v_sc := maskSc (w_sc (updSc f s)), v_exec := w_exec (updSc f s), v_nextAcc := w_nextAccountNumber (updSc f s)\<rparr>"
    using assms by (intro view_gas_sc) (simp_all add: acctRef_def nftRef_def updSc_def fun_eq_iff cong: option.case_cong)
  then show "view (updSc f s) = (view s)\<lparr>v_led := (ledgerOf s)\<lparr>l_gas := GetPendingGas (f (w_sc s))\<rparr>, v_sc := maskSc (f (w_sc s))\<rparr>"
    by (simp add: updSc_def view_def)
  show "wfx D E (updSc f s) = wfx D E s" using assms by (simp add: wfx_def updSc_def dbAcc_def dbNft_def)
qed

lemma St_updSc:
  assumes "St D E v s"
    and "\<And>c. sc_PendingAccountMap (f c) = sc_PendingAccountMap c" "\<And>c. sc_PendingNftMap (f c) = sc_PendingNftMap c"
    and "\<And>c. sc_PendingGasMap (f c) = sc_PendingGasMap c" "maskSc (f (w_sc s)) = w"
  shows "St D E (v\<lparr>v_sc := w\<rparr>) (updSc f s)"
proof -
  have "GetPendingGas (f (w_sc s)) = l_gas (ledgerOf s)"
    using assms(4) by (simp add: GetPendingGas_def fun_eq_iff)
  then have "(ledgerOf s)\<lparr>l_gas := GetPendingGas (f (w_sc s))\<rparr> = ledgerOf s" by simp
  moreover have "(view s)\<lparr>v_led := ledgerOf s, v_sc := w\<rparr> = (view s)\<lparr>v_sc := w\<rparr>" by (simp add: view_def)
  ultimately show ?thesis using assms(1,5) view_updSc [of f s, OF assms(2,3)] by (auto simp: St_def)
qed

lemma St_setPendingGas:
  assumes "St D E v s" "ffmath_ok X"
  shows "St D E (v\<lparr>v_led := gasL a d (v_led v)\<rparr>) (updSc (SetPendingGas X a d) s)"
proof -
  have g: "GetPendingGas (SetPendingGas X a d (w_sc s)) = (GetPendingGas (w_sc s))(a := GetPendingGas (w_sc s) a + d)"
    using assms(2) by (simp add: fun_eq_iff GetPendingGas_SetPendingGas ffmath_ok_def)
  have m: "maskSc (SetPendingGas X a d (w_sc s)) = maskSc (w_sc s)"
    by (simp add: maskSc_def SetPendingGas_def Let_def)
  have "(view s)\<lparr>v_led := L, v_sc := maskSc (w_sc s)\<rparr> = (view s)\<lparr>v_led := L\<rparr>" for L
    by (simp add: view_def)
  with g m assms(1) view_updSc [of "SetPendingGas X a d" s] show ?thesis
    by (auto simp: St_def SetPendingGas_def Let_def gasL_def)
qed

section \<open>NFTs\<close>

lemma setNft_frame [simp]:
  "w_sc (setNft r a s) = w_sc s" "w_db (setNft r a s) = w_db s" "w_currentBlock (setNft r a s) = w_currentBlock s"
  "w_exec (setNft r a s) = w_exec s" "w_nextAccountNumber (setNft r a s) = w_nextAccountNumber s"
  "w_nftHeap (setNft r a s) = (w_nftHeap s)(r := a)" "w_accHeap (setNft r a s) = w_accHeap s"
  "w_AccountCache (setNft r a s) = w_AccountCache s" "w_NftCache (setNft r a s) = w_NftCache s"
  by (simp_all add: setNft_def)

lemma setNft_refs [simp]:
  "acctRef (setNft r a s) = acctRef s" "nftRef (setNft r a s) = nftRef s" "dbNft (setNft r a s) = dbNft s"
  by (simp_all add: acctRef_def [abs_def] nftRef_def [abs_def] dbNft_def [abs_def] cong: option.case_cong)

lemma acct_setNft [simp]: "acct (setNft r a s) = acct s" "hasAsset (setNft r a s) = hasAsset s"
  by (rule acct_cong hasAsset_cong; simp)+

lemma nftv_setNft:
  assumes "wfx D E s" "nftRef s n = Some r"
  shows "nftv (setNft r x s) = (nftv s)(n \<mapsto> nftCore x)"
proof
  fix j
  show "nftv (setNft r x s) j = ((nftv s)(n \<mapsto> nftCore x)) j"
  proof (cases "j = n")
    case True
    with assms(2) show ?thesis by (simp add: nftv_def)
  next
    case False
    with wfx_nref_inj [OF assms, of j] have "nftRef s j \<noteq> Some r" by blast
    with False show ?thesis by (cases "nftRef s j") (auto simp: nftv_def)
  qed
qed

lemma St_setNft:
  assumes "St D E v s" "v_nref v n = Some r" "nft_NftIndex x = n"
  shows "St D (insert n E) (v\<lparr>v_led := putNft n x (v_led v)\<rparr>) (setNft r x s)"
proof -
  from assms(1,2) have w: "wfx D E s" "nftRef s n = Some r" and v: "v = view s" by (auto simp: St_def)
  have "pendingNft s j = Some r \<Longrightarrow> j = n" "map_of (w_NftCache s) j = Some r \<Longrightarrow> j = n" for j
    using w(1) wfx_nref(2) [OF w] by (auto simp: wfx_def)
  with w(1) assms(3) have "wfx D (insert n E) (setNft r x s)"
    by (auto simp: wfx_def setNft_def dbAcc_def dbNft_def)
  moreover have "ledgerOf (setNft r x s) = putNft n x (ledgerOf s)"
    by (rule ledgerOf_nft_upd) (simp_all add: nftv_setNft [OF w])
  ultimately show ?thesis by (simp add: St_def v view_def)
qed

lemma updSc_SetPendingNft_refs:
  "acctRef (updSc (SetPendingNft n r) s) = acctRef s"
  "nftRef (updSc (SetPendingNft n r) s) = (nftRef s)(n \<mapsto> r)"
  by (auto simp: acctRef_def nftRef_def updSc_def SetPendingNft_def fun_eq_iff cong: option.case_cong)

lemma St_setPendingNft:
  assumes "St D E v s" "v_nref v n = Some r"
  shows "St D (E - {n}) v (updSc (SetPendingNft n r) s)"
proof -
  from assms have w: "wfx D E s" "nftRef s n = Some r" and v: "v = view s" by (auto simp: St_def)
  have "nftRef (updSc (SetPendingNft n r) s) = nftRef s" using w(2) by (simp add: updSc_SetPendingNft_refs fun_eq_iff)
  then have "view (updSc (SetPendingNft n r) s) = view s"
    by (intro view_eqI) (simp_all add: updSc_SetPendingNft_refs, simp_all add: updSc_def SetPendingNft_def maskSc_def GetPendingGas_def fun_eq_iff)
  moreover have "wfx D (E - {n}) (updSc (SetPendingNft n r) s)"
    using w(1) wfx_nref [OF w] by (auto simp: wfx_def updSc_def SetPendingNft_def dbAcc_def dbNft_def split: if_splits)
  ultimately show ?thesis by (simp add: St_def v)
qed

section \<open>New objects\<close>

definition allocAcc :: "AccountInfo \<Rightarrow> World \<Rightarrow> World" where
  "allocAcc a s = s\<lparr>w_accHeap := (w_accHeap s)(w_next s := a), w_next := Suc (w_next s)\<rparr>"

definition allocNft :: "L2Nft \<Rightarrow> World \<Rightarrow> World" where
  "allocNft n s = s\<lparr>w_nftHeap := (w_nftHeap s)(w_next s := n), w_next := Suc (w_next s)\<rparr>"

lemma alloc_run [run]:
  "newAccount a s = (Ok (w_next s), allocAcc a s)" "newNft n s = (Ok (w_next s), allocNft n s)"
  by (simp_all add: newAccount_def newNft_def allocAcc_def allocNft_def run)

lemma alloc_frame [simp]:
  "w_sc (allocAcc a s) = w_sc s" "w_db (allocAcc a s) = w_db s" "w_currentBlock (allocAcc a s) = w_currentBlock s"
  "w_exec (allocAcc a s) = w_exec s" "w_nextAccountNumber (allocAcc a s) = w_nextAccountNumber s"
  "w_accHeap (allocAcc a s) = (w_accHeap s)(w_next s := a)" "w_nftHeap (allocAcc a s) = w_nftHeap s"
  "w_AccountCache (allocAcc a s) = w_AccountCache s" "w_NftCache (allocAcc a s) = w_NftCache s"
  "w_sc (allocNft n s) = w_sc s" "w_db (allocNft n s) = w_db s" "w_currentBlock (allocNft n s) = w_currentBlock s"
  "w_exec (allocNft n s) = w_exec s" "w_nextAccountNumber (allocNft n s) = w_nextAccountNumber s"
  "w_nftHeap (allocNft n s) = (w_nftHeap s)(w_next s := n)" "w_accHeap (allocNft n s) = w_accHeap s"
  "w_AccountCache (allocNft n s) = w_AccountCache s" "w_NftCache (allocNft n s) = w_NftCache s"
  by (simp_all add: allocAcc_def allocNft_def)

lemma alloc_refs [simp]:
  "acctRef (allocAcc a s) = acctRef s" "nftRef (allocAcc a s) = nftRef s" "acctRef (allocNft n s) = acctRef s"
  "nftRef (allocNft n s) = nftRef s" "dbAcc (allocAcc a s) = dbAcc s" "dbNft (allocNft n s) = dbNft s"
  by (simp_all add: acctRef_def [abs_def] nftRef_def [abs_def] dbAcc_def [abs_def] dbNft_def [abs_def] cong: option.case_cong)

lemma fresh_ref:
  "wfx D E s \<Longrightarrow> acctRef s i \<noteq> Some (w_next s)" "wfx D E s \<Longrightarrow> nftRef s i \<noteq> Some (w_next s)"
  using wfx_ref(1) wfx_nref(1) by blast+

lemma acct_allocAcc:
  assumes "wfx D E s"
  shows "acct (allocAcc a s) = acct s" "hasAsset (allocAcc a s) = hasAsset s"
proof -
  have "acct (allocAcc a s) i = acct s i" for i
    using fresh_ref(1) [OF assms, of i] by (cases "acctRef s i") (auto simp: acct_def)
  then show "acct (allocAcc a s) = acct s" by blast
  have "hasAsset (allocAcc a s) i b = hasAsset s i b" for i b
    using fresh_ref(1) [OF assms, of i] by (cases "acctRef s i") (auto simp: hasAsset_def)
  then show "hasAsset (allocAcc a s) = hasAsset s" by (simp add: fun_eq_iff)
qed

lemma nftv_allocNft:
  assumes "wfx D E s"
  shows "nftv (allocNft a s) = nftv s"
proof -
  have "nftv (allocNft a s) i = nftv s i" for i
    using fresh_ref(2) [OF assms, of i] by (cases "nftRef s i") (auto simp: nftv_def)
  then show ?thesis by blast
qed

lemma wfx_alloc: "wfx D E s \<Longrightarrow> wfx D E (allocAcc a s)" "wfx D E s \<Longrightarrow> wfx D E (allocNft n s)"
  unfolding wfx_def by (auto simp: dbAcc_def dbNft_def; fastforce simp: allocAcc_def allocNft_def)+

lemma St_allocAcc: "St D E v s \<Longrightarrow> St D E v (allocAcc a s)"
proof -
  assume S: "St D E v s"
  then have w: "wfx D E s" by (simp add: St_def)
  have "nftv (allocAcc a s) = nftv s" by (rule nftv_cong) simp_all
  with acct_allocAcc(1) [OF w] have "ledgerOf (allocAcc a s) = ledgerOf s" by (intro ledgerOf_cong) simp_all
  with acct_allocAcc(2) [OF w] S wfx_alloc(1) [OF w] show ?thesis by (simp add: St_def view_def)
qed

lemma St_allocNft: "St D E v s \<Longrightarrow> St D E v (allocNft a s)"
proof -
  assume S: "St D E v s"
  then have w: "wfx D E s" by (simp add: St_def)
  have "hasAsset (allocNft a s) = hasAsset s" by (rule hasAsset_cong) simp_all
  moreover have "acct (allocNft a s) = acct s" by (rule acct_cong) simp_all
  with nftv_allocNft [OF w] have "ledgerOf (allocNft a s) = ledgerOf s" by (intro ledgerOf_cong) simp_all
  ultimately show ?thesis using S wfx_alloc(2) [OF w] by (simp add: St_def view_def)
qed

lemma wfx_SetPendingNft:
  assumes "wfx D E s" "r < w_next s" "nft_NftIndex (w_nftHeap s r) = n"
  shows "wfx D (E - {n}) (updSc (SetPendingNft n r) s)"
  using assms by (auto simp: wfx_def updSc_def SetPendingNft_def dbAcc_def dbNft_def split: if_splits)

lemma wfx_SetPendingAccount:
  assumes "wfx D E s" "r < w_next s" "ai_AccountIndex (w_accHeap s r) = i" "map_of (w_AccountCache s) i = None"
  shows "wfx (D - {i}) E (updSc (SetPendingAccount i r) s)"
  using assms by (auto simp: wfx_def updSc_def SetPendingAccount_def dbAcc_def dbNft_def split: if_splits)

lemma St_newPendingNft:
  assumes "St D E v s" "nft_NftIndex x = n"
  shows "St D (E - {n}) (v\<lparr>v_led := putNft n x (v_led v), v_nref := (v_nref v)(n \<mapsto> w_next s)\<rparr>)
    (updSc (SetPendingNft n (w_next s)) (allocNft x s))"
proof -
  let ?t = "updSc (SetPendingNft n (w_next s)) (allocNft x s)"
  from assms have w: "wfx D E s" and v: "v = view s" by (auto simp: St_def)
  have r: "acctRef ?t = acctRef s" "nftRef ?t = (nftRef s)(n \<mapsto> w_next s)" by (simp_all add: updSc_SetPendingNft_refs)
  have f: "w_accHeap ?t = w_accHeap s" "w_db ?t = w_db s" "w_nftHeap ?t = (w_nftHeap s)(w_next s := x)"
    by (simp_all add: updSc_def)
  have a: "acct ?t = acct s" "hasAsset ?t = hasAsset s" using r f by (intro acct_cong hasAsset_cong; simp)+
  have "nftv ?t i = ((nftv s)(n \<mapsto> nftCore x)) i" for i
    using fresh_ref(2) [OF w, of i] r f by (cases "nftRef s i") (auto simp: nftv_def dbNft_def)
  then have "nftv ?t = (nftv s)(n \<mapsto> nftCore x)" by blast
  with a have "ledgerOf ?t = putNft n x (ledgerOf s)"
    by (intro ledgerOf_nft_upd) (simp_all add: updSc_def SetPendingNft_def GetPendingGas_def fun_eq_iff)
  with a r have "view ?t = (view s)\<lparr>v_led := putNft n x (ledgerOf s), v_nref := (nftRef s)(n \<mapsto> w_next s)\<rparr>"
    by (simp add: view_def, simp add: updSc_def SetPendingNft_def maskSc_def)
  moreover have "wfx D (E - {n}) ?t"
    using wfx_alloc(2) [OF w] assms(2) by (intro wfx_SetPendingNft) (simp_all, simp add: allocNft_def)
  ultimately show ?thesis by (simp add: St_def v)
qed

definition addAcct :: "int \<Rightarrow> AccountInfo \<Rightarrow> Ledger \<Rightarrow> Ledger" where
  "addAcct i a L = L\<lparr>l_bal := (l_bal L)(i := assetBal a), l_offer := (l_offer L)(i := assetOffer a),
     l_nonce := (l_nonce L)(i := ai_Nonce a), l_cnonce := (l_cnonce L)(i := ai_CollectionNonce a),
     l_id := (l_id L)(i \<mapsto> ident a)\<rparr>"

lemma St_newPendingAcc:
  assumes "St D E v s" "ai_AccountIndex a = i" "l_id (v_led v) i = None"
  shows "St (D - {i}) E (v\<lparr>v_led := addAcct i a (v_led v), v_ref := (v_ref v)(i \<mapsto> w_next s),
      v_has := (v_has v)(i := (\<lambda>b. ai_AssetInfo a b \<noteq> None))\<rparr>)
    (updSc (SetPendingAccount i (w_next s)) (allocAcc a s))"
proof -
  let ?t = "updSc (SetPendingAccount i (w_next s)) (allocAcc a s)"
  from assms have w: "wfx D E s" and v: "v = view s" by (auto simp: St_def)
  from assms(3) v have "acctRef s i = None" by (auto simp: ledgerOf_def acct_def split: option.splits)
  then have c: "map_of (w_AccountCache s) i = None" "pendingAcc s i = None" by (auto simp: acctRef_def split: option.splits)
  have r: "acctRef ?t = (acctRef s)(i \<mapsto> w_next s)" "nftRef ?t = nftRef s"
    by (auto simp: acctRef_def nftRef_def updSc_def SetPendingAccount_def fun_eq_iff cong: option.case_cong)
  have f: "w_nftHeap ?t = w_nftHeap s" "w_db ?t = w_db s" "w_accHeap ?t = (w_accHeap s)(w_next s := a)"
    by (simp_all add: updSc_def)
  have n: "nftv ?t = nftv s" using r f by (intro nftv_cong; simp)
  have "acct ?t j = ((acct s)(i \<mapsto> a)) j" for j
    using fresh_ref(1) [OF w, of j] r f by (cases "acctRef s j") (auto simp: acct_def dbAcc_def)
  then have "acct ?t = (acct s)(i \<mapsto> a)" by blast
  with n have "ledgerOf ?t = addAcct i a (ledgerOf s)" unfolding addAcct_def
    by (intro ledgerOf_acct_upd) (simp_all add: updSc_def SetPendingAccount_def GetPendingGas_def fun_eq_iff)
  moreover have "hasAsset ?t j b = ((hasAsset s)(i := (\<lambda>b. ai_AssetInfo a b \<noteq> None))) j b" for j b
    using fresh_ref(1) [OF w, of j] r f by (cases "acctRef s j") (auto simp: hasAsset_def)
  then have "hasAsset ?t = (hasAsset s)(i := (\<lambda>b. ai_AssetInfo a b \<noteq> None))" by (simp only: fun_eq_iff) blast
  ultimately have "view ?t = (view s)\<lparr>v_led := addAcct i a (ledgerOf s), v_ref := (acctRef s)(i \<mapsto> w_next s),
      v_has := (hasAsset s)(i := (\<lambda>b. ai_AssetInfo a b \<noteq> None))\<rparr>"
    using r by (simp add: view_def, simp add: updSc_def SetPendingAccount_def maskSc_def)
  moreover have "wfx (D - {i}) E ?t"
    using wfx_alloc(1) [OF w] assms(2) c by (intro wfx_SetPendingAccount) (simp_all, simp add: allocAcc_def)
  ultimately show ?thesis by (simp add: St_def v)
qed

section \<open>The executor and the counters\<close>

lemma view_updExec: "view (updExec f s) = (view s)\<lparr>v_exec := f (w_exec s)\<rparr>" "wfx D E (updExec f s) = wfx D E s"
proof -
  have "view (updExec f s) = (view s)\<lparr>v_led := (ledgerOf s)\<lparr>l_gas := GetPendingGas (w_sc (updExec f s))\<rparr>,
      v_sc := maskSc (w_sc (updExec f s)), v_exec := w_exec (updExec f s), v_nextAcc := w_nextAccountNumber (updExec f s)\<rparr>"
    by (intro view_gas_sc) (simp_all add: acctRef_def nftRef_def updExec_def fun_eq_iff cong: option.case_cong)
  then show "view (updExec f s) = (view s)\<lparr>v_exec := f (w_exec s)\<rparr>"
    by (simp add: updExec_def view_def ledgerOf_def)
  show "wfx D E (updExec f s) = wfx D E s" by (simp add: wfx_def updExec_def dbAcc_def dbNft_def)
qed

lemma St_updExec: "St D E v s \<Longrightarrow> St D E (v\<lparr>v_exec := f (v_exec v)\<rparr>) (updExec f s)"
  by (auto simp: St_def view_updExec)

lemma St_mono: "St D E v s \<Longrightarrow> D \<subseteq> D' \<Longrightarrow> E \<subseteq> E' \<Longrightarrow> St D' E' v s"
  using wfx_mono by (auto simp: St_def)

end
