(* ===== verification/Zk_Triples.thy ===== *)
theory Zk_Triples
  imports Zk_Logic
begin

text \<open>
  A program logic over the view of the state. \<open>spec P m Q R\<close>: from a state of \<open>P\<close> the computation
  \<open>m\<close> does not panic, ends in \<open>Q\<close> when it returns a value and in \<open>R\<close> when it returns an error.
  With \<open>R\<close> empty it is total correctness: the computation succeeds. The rules for the operations of
  the state database and of an executor are in continuation style and collected in \<open>triple\<close>, so a
  method is verified by following its text.
\<close>

definition spec :: "('s \<Rightarrow> bool) \<Rightarrow> ('s, 'e, 'a) comp \<Rightarrow> ('a \<Rightarrow> 's \<Rightarrow> bool) \<Rightarrow> ('s \<Rightarrow> bool) \<Rightarrow> bool" where
  "spec P m Q R \<longleftrightarrow> (\<forall>s. P s \<longrightarrow> (case m s of (Ok a, t) \<Rightarrow> Q a t | (Err e, t) \<Rightarrow> R t | (Panic p, t) \<Rightarrow> False))"

named_theorems triple \<open>rules of the program logic in continuation style\<close>

lemma specI: "(\<And>s. P s \<Longrightarrow> case m s of (Ok a, t) \<Rightarrow> Q a t | (Err e, t) \<Rightarrow> R t | (Panic p, t) \<Rightarrow> False) \<Longrightarrow> spec P m Q R"
  by (simp add: spec_def)

lemma specD:
  assumes "spec P m Q R" "P s"
  shows "(\<exists>a t. m s = (Ok a, t) \<and> Q a t) \<or> (\<exists>e t. m s = (Err e, t) \<and> R t)"
  using assms by (cases "m s"; cases "fst (m s)") (auto simp: spec_def)

text \<open>With no error postcondition the computation succeeds.\<close>

lemma spec_Ok:
  assumes "spec P m Q (\<lambda>_. False)" "P s"
  obtains a t where "m s = (Ok a, t)" "Q a t"
  using specD [OF assms] by blast

lemma spec_OkD: "spec P m Q R \<Longrightarrow> P s \<Longrightarrow> m s = (Ok a, t) \<Longrightarrow> Q a t"
  using specD [of P m Q R s] by auto

lemma spec_ErrD: "spec P m Q R \<Longrightarrow> P s \<Longrightarrow> m s = (Err e, t) \<Longrightarrow> R t"
  using specD [of P m Q R s] by auto

lemma spec_no_panic: "spec P m Q R \<Longrightarrow> P s \<Longrightarrow> m s \<noteq> (Panic p, t)"
  using specD [of P m Q R s] by auto

lemma spec_weaken:
  "spec P m Q R \<Longrightarrow> (\<And>s. P' s \<Longrightarrow> P s) \<Longrightarrow> (\<And>a s. Q a s \<Longrightarrow> Q' a s) \<Longrightarrow> (\<And>s. R s \<Longrightarrow> R' s) \<Longrightarrow> spec P' m Q' R'"
  by (fastforce simp: spec_def split: prod.splits res.splits)

lemma spec_bnd: "spec P m Q' R \<Longrightarrow> (\<And>a. spec (Q' a) (f a) Q R) \<Longrightarrow> spec P (bnd m f) Q R"
  by (fastforce simp: spec_def bnd_run split: prod.splits res.splits)

lemma spec_thn: "spec P m Q' R \<Longrightarrow> (\<And>a. spec (Q' a) n Q R) \<Longrightarrow> spec P (thn m n) Q R"
  unfolding thn_def by (rule spec_bnd)

lemma spec_ret: "(\<And>s. P s \<Longrightarrow> Q a s) \<Longrightarrow> spec P (ret a) Q R"
  by (simp add: spec_def)

lemma spec_throw: "(\<And>s. P s \<Longrightarrow> R s) \<Longrightarrow> spec P (throw e) Q R"
  by (simp add: spec_def)

lemma spec_if [triple]: "(b \<Longrightarrow> spec P m Q R) \<Longrightarrow> (\<not> b \<Longrightarrow> spec P n Q R) \<Longrightarrow> spec P (if b then m else n) Q R"
  by simp

lemma spec_thn_if [triple]:
  "(b \<Longrightarrow> spec P (thn m k) Q R) \<Longrightarrow> (\<not> b \<Longrightarrow> spec P (thn n k) Q R) \<Longrightarrow> spec P (thn (if b then m else n) k) Q R"
  by simp

lemma spec_bnd_if [triple]:
  "(b \<Longrightarrow> spec P (bnd m k) Q R) \<Longrightarrow> (\<not> b \<Longrightarrow> spec P (bnd n k) Q R) \<Longrightarrow> spec P (bnd (if b then m else n) k) Q R"
  by simp

lemma spec_thn_ret [triple]: "spec P n Q R \<Longrightarrow> spec P (thn (ret a) n) Q R"
  by (simp add: thn_def)

lemma spec_bnd_ret [triple]: "spec P (f a) Q R \<Longrightarrow> spec P (bnd (ret a) f) Q R"
  by simp

lemma spec_failIf [triple]:
  "(\<And>s. P s \<Longrightarrow> b \<Longrightarrow> R s) \<Longrightarrow> (\<not> b \<Longrightarrow> spec P n Q R) \<Longrightarrow> spec P (thn (failIf b e) n) Q R"
  by (auto simp: spec_def thn_run failIf_run)

lemma spec_failIf_last [triple]:
  "(\<And>s. P s \<Longrightarrow> b \<Longrightarrow> R s) \<Longrightarrow> (\<And>s. P s \<Longrightarrow> \<not> b \<Longrightarrow> Q () s) \<Longrightarrow> spec P (failIf b e) Q R"
  by (auto simp: spec_def failIf_run)

lemma spec_failOn [triple]:
  "(\<And>s. P s \<Longrightarrow> x \<noteq> None \<Longrightarrow> R s) \<Longrightarrow> (x = None \<Longrightarrow> spec P n Q R) \<Longrightarrow> spec P (thn (failOn x) n) Q R"
  by (auto simp: spec_def thn_run failOn_run split: option.splits)

lemma spec_failOn_last [triple]:
  "(\<And>s. P s \<Longrightarrow> x \<noteq> None \<Longrightarrow> R s) \<Longrightarrow> (\<And>s. P s \<Longrightarrow> x = None \<Longrightarrow> Q () s) \<Longrightarrow> spec P (failOn x) Q R"
  by (auto simp: spec_def failOn_run split: option.splits)

text \<open>A step that changes the state without fail.\<close>

lemma spec_modify: "(\<And>s. P s \<Longrightarrow> P' (g s)) \<Longrightarrow> spec P' n Q R \<Longrightarrow> spec P (thn (modify g) n) Q R"
  by (simp add: spec_def thn_run)

lemma spec_modify_last: "(\<And>s. P s \<Longrightarrow> Q () (g s)) \<Longrightarrow> spec P (modify g) Q R"
  by (simp add: spec_def)

text \<open>A read whose value is described by the precondition.\<close>

lemma spec_read:
  assumes "\<And>s. P s \<Longrightarrow> \<exists>a t. m s = (Ok a, t) \<and> P t \<and> C a"
    and "\<And>a. C a \<Longrightarrow> spec P (f a) Q R"
  shows "spec P (bnd m f) Q R"
proof (rule specI)
  fix s assume "P s"
  from assms(1) [OF this] obtain a t where "m s = (Ok a, t)" "P t" "C a" by blast
  with assms(2) [of a] show "case bnd m f s of (Ok a, t) \<Rightarrow> Q a t | (Err e, t) \<Rightarrow> R t | (Panic p, t) \<Rightarrow> False"
    by (simp add: bnd_run spec_def)
qed

section \<open>Operations on resident accounts\<close>

lemma GetFormatAccount_resident:
  assumes "lru_ok X" "acctRef s i = Some r"
  shows "\<exists>c. map_of c = map_of (w_AccountCache s) \<and> GetFormatAccount X i s = (Ok r, s\<lparr>w_AccountCache := c\<rparr>)"
proof (cases "pendingAcc s i")
  case (Some p)
  with assms(2) show ?thesis
    by (intro exI [of _ "w_AccountCache s"]) (simp add: GetFormatAccount_def run GetPendingAccount_def acctRef_def)
next
  case None
  with assms(2) have "map_of (w_AccountCache s) i = Some r" by (simp add: acctRef_def)
  with None lru_getD [OF assms(1), of "w_AccountCache s" i] lru_get_keeps [OF assms(1), of "w_AccountCache s" i]
  show ?thesis by (intro exI [of _ "snd (x_lruGet X (w_AccountCache s) i)"])
      (simp add: GetFormatAccount_def run GetPendingAccount_def AccountCache_Get_def split_beta)
qed

lemma spec_GetFormatAccount [triple]:
  assumes "lru_ok X" "v_ref v i = Some r" "spec (St D E v) (f r) Q R"
  shows "spec (St D E v) (bnd (GetFormatAccount X i) f) Q R"
proof (rule spec_read)
  fix s assume S: "St D E v s"
  with assms(2) have "acctRef s i = Some r" by (auto simp: St_def)
  from GetFormatAccount_resident [OF assms(1) this] S
  show "\<exists>a t. GetFormatAccount X i s = (Ok a, t) \<and> St D E v t \<and> a = r"
    by (auto simp: St_def accountCache_same)
qed (simp add: assms(3))

lemma spec_accountAt [triple]:
  assumes "v_ref v i = Some r" "\<And>acc. accIs v i acc \<Longrightarrow> spec (St D E v) (f acc) Q R"
  shows "spec (St D E v) (bnd (accountAt r) f) Q R"
proof (rule spec_read [where C = "accIs v i"])
  fix s assume S: "St D E v s"
  then show "\<exists>a t. accountAt r s = (Ok a, t) \<and> St D E v t \<and> accIs v i a"
    using assms(1) accIs_ref [of D E s i r] by (auto simp: St_def run)
qed (rule assms(2))

lemma spec_assetAt [triple]:
  assumes "v_ref v i = Some r" "v_has v i a"
    and "\<And>x. aa_Balance x = l_bal (v_led v) i a \<Longrightarrow> aa_OfferCanceledOrFinalized x = l_offer (v_led v) i a \<Longrightarrow>
      spec (St D E v) (f x) Q R"
  shows "spec (St D E v) (bnd (assetAt r a) f) Q R"
proof (rule spec_read [where C = "\<lambda>x. aa_Balance x = l_bal (v_led v) i a \<and> aa_OfferCanceledOrFinalized x = l_offer (v_led v) i a"])
  fix s assume S: "St D E v s"
  then have w: "accIs v i (w_accHeap s r)" using assms(1) accIs_ref [of D E s i r] by (auto simp: St_def)
  with assms(2) obtain x where "ai_AssetInfo (w_accHeap s r) a = Some x" unfolding accIs_def by blast
  with S accIs_bal [OF w this] accIs_offer [OF w this]
  show "\<exists>x t. assetAt r a s = (Ok x, t) \<and> St D E v t \<and>
      aa_Balance x = l_bal (v_led v) i a \<and> aa_OfferCanceledOrFinalized x = l_offer (v_led v) i a"
    by (auto simp: run)
qed (simp add: assms(3))

text \<open>An assignment through the pointer to a resident account.\<close>

lemma spec_mutAcc:
  assumes "v_ref v i = Some r"
    and "\<And>acc. accIs v i acc \<Longrightarrow> \<exists>a. g acc = Some a \<and> ident a = ident acc \<and>
          (\<forall>b. ai_AssetInfo a b \<noteq> None \<longleftrightarrow> ai_AssetInfo acc b \<noteq> None) \<and>
          L = (v_led v)\<lparr>l_bal := (l_bal (v_led v))(i := assetBal a), l_offer := (l_offer (v_led v))(i := assetOffer a),
            l_nonce := (l_nonce (v_led v))(i := ai_Nonce a), l_cnonce := (l_cnonce (v_led v))(i := ai_CollectionNonce a)\<rparr>"
    and "spec (St (insert i D) E (v\<lparr>v_led := L\<rparr>)) n Q R"
  shows "spec (St D E v) (thn (mutAcc r g) n) Q R"
proof (rule specI)
  fix s assume S: "St D E v s"
  then have "accIs v i (w_accHeap s r)" using assms(1) accIs_ref [of D E s i r] by (auto simp: St_def)
  from assms(2) [OF this] obtain a where g: "g (w_accHeap s r) = Some a"
    and a: "ident a = ident (w_accHeap s r)" "\<And>b. ai_AssetInfo a b \<noteq> None \<longleftrightarrow> ai_AssetInfo (w_accHeap s r) b \<noteq> None"
      "L = (v_led v)\<lparr>l_bal := (l_bal (v_led v))(i := assetBal a), l_offer := (l_offer (v_led v))(i := assetOffer a),
        l_nonce := (l_nonce (v_led v))(i := ai_Nonce a), l_cnonce := (l_cnonce (v_led v))(i := ai_CollectionNonce a)\<rparr>"
    by blast
  from St_setAcc [OF S assms(1) a] assms(3) g
  show "case thn (mutAcc r g) n s of (Ok a, t) \<Rightarrow> Q a t | (Err e, t) \<Rightarrow> R t | (Panic p, t) \<Rightarrow> False"
    by (simp add: thn_run mutAcc_run spec_def)
qed

lemma ident_simps [simp]:
  "ident (acc\<lparr>ai_AssetInfo := m\<rparr>) = ident acc" "ident (acc\<lparr>ai_Nonce := n\<rparr>) = ident acc"
  "ident (acc\<lparr>ai_CollectionNonce := n\<rparr>) = ident acc"
  by (simp_all add: ident_def)

lemma spec_updBal:
  assumes "v_ref v i = Some r" "v_has v i a"
    and "spec (St (insert i D) E (v\<lparr>v_led := putBal i a (f (l_bal (v_led v) i a)) (v_led v)\<rparr>)) n Q R"
  shows "spec (St D E v) (thn (mutAcc r (updBal a f)) n) Q R"
proof (rule spec_mutAcc [OF assms(1) _ assms(3)])
  fix acc assume w: "accIs v i acc"
  with assms(2) obtain x where x: "ai_AssetInfo acc a = Some x" unfolding accIs_def by blast
  let ?a = "acc\<lparr>ai_AssetInfo := (ai_AssetInfo acc)(a \<mapsto> x\<lparr>aa_Balance := f (aa_Balance x)\<rparr>)\<rparr>"
  have "assetBal ?a = (l_bal (v_led v) i)(a := f (l_bal (v_led v) i a))" "assetOffer ?a = l_offer (v_led v) i"
    using w x accIs_bal [OF w x] accIs_offer [OF w x] by (auto simp: accIs_def assetBal_def assetOffer_def fun_eq_iff split: if_splits)
  with w x show "\<exists>b. updBal a f acc = Some b \<and> ident b = ident acc \<and>
      (\<forall>c. ai_AssetInfo b c \<noteq> None \<longleftrightarrow> ai_AssetInfo acc c \<noteq> None) \<and>
      putBal i a (f (l_bal (v_led v) i a)) (v_led v) = (v_led v)\<lparr>l_bal := (l_bal (v_led v))(i := assetBal b),
        l_offer := (l_offer (v_led v))(i := assetOffer b), l_nonce := (l_nonce (v_led v))(i := ai_Nonce b),
        l_cnonce := (l_cnonce (v_led v))(i := ai_CollectionNonce b)\<rparr>"
    by (intro exI [of _ ?a]) (auto simp: updBal_def putBal_def accIs_def)
qed

lemma spec_subBal [triple]:
  assumes "ffmath_ok X" "v_ref v i = Some r" "v_has v i a"
    and "spec (St (insert i D) E (v\<lparr>v_led := creditL i a (- d) (v_led v)\<rparr>)) n Q R"
  shows "spec (St D E v) (thn (mutAcc r (subBal X a d)) n) Q R"
  using assms unfolding subBal_def by (intro spec_updBal) (simp_all add: ffmath_ok_def creditL_def)

lemma spec_addBal [triple]:
  assumes "ffmath_ok X" "v_ref v i = Some r" "v_has v i a"
    and "spec (St (insert i D) E (v\<lparr>v_led := creditL i a d (v_led v)\<rparr>)) n Q R"
  shows "spec (St D E v) (thn (mutAcc r (addBal X a d)) n) Q R"
  using assms unfolding addBal_def by (intro spec_updBal) (simp_all add: ffmath_ok_def creditL_def)

lemma spec_updOffer [triple]:
  assumes "v_ref v i = Some r" "v_has v i a"
    and "spec (St (insert i D) E (v\<lparr>v_led := putOffer i a o' (v_led v)\<rparr>)) n Q R"
  shows "spec (St D E v) (thn (mutAcc r (updOffer a o')) n) Q R"
proof (rule spec_mutAcc [OF assms(1) _ assms(3)])
  fix acc assume w: "accIs v i acc"
  with assms(2) obtain x where x: "ai_AssetInfo acc a = Some x" unfolding accIs_def by blast
  let ?a = "acc\<lparr>ai_AssetInfo := (ai_AssetInfo acc)(a \<mapsto> x\<lparr>aa_OfferCanceledOrFinalized := o'\<rparr>)\<rparr>"
  have "assetOffer ?a = (l_offer (v_led v) i)(a := o')" "assetBal ?a = l_bal (v_led v) i"
    using w x accIs_bal [OF w x] accIs_offer [OF w x]
    by (auto simp: accIs_def assetBal_def assetOffer_def fun_eq_iff split: if_splits)
  with w x show "\<exists>b. updOffer a o' acc = Some b \<and> ident b = ident acc \<and>
      (\<forall>c. ai_AssetInfo b c \<noteq> None \<longleftrightarrow> ai_AssetInfo acc c \<noteq> None) \<and>
      putOffer i a o' (v_led v) = (v_led v)\<lparr>l_bal := (l_bal (v_led v))(i := assetBal b),
        l_offer := (l_offer (v_led v))(i := assetOffer b), l_nonce := (l_nonce (v_led v))(i := ai_Nonce b),
        l_cnonce := (l_cnonce (v_led v))(i := ai_CollectionNonce b)\<rparr>"
    by (intro exI [of _ ?a]) (auto simp: updOffer_def putOffer_def accIs_def)
qed

lemma assets_of_nonce [simp]:
  "assetBal (acc\<lparr>ai_Nonce := n\<rparr>) = assetBal acc" "assetOffer (acc\<lparr>ai_Nonce := n\<rparr>) = assetOffer acc"
  "assetBal (acc\<lparr>ai_CollectionNonce := n\<rparr>) = assetBal acc" "assetOffer (acc\<lparr>ai_CollectionNonce := n\<rparr>) = assetOffer acc"
  by (simp_all add: assetBal_def assetOffer_def fun_eq_iff)

lemma spec_incNonce [triple]:
  assumes "v_ref v i = Some r" "spec (St (insert i D) E (v\<lparr>v_led := bumpNonce i (v_led v)\<rparr>)) n Q R"
  shows "spec (St D E v) (thn (mutAcc r incNonce) n) Q R"
  by (rule spec_mutAcc [OF assms(1) _ assms(2)]) (auto simp: incNonce_def bumpNonce_def putNonce_def accIs_def)

lemma spec_incCollectionNonce [triple]:
  assumes "v_ref v i = Some r"
    and "spec (St (insert i D) E (v\<lparr>v_led := putCnonce i (wrap64 (l_cnonce (v_led v) i + 1)) (v_led v)\<rparr>)) n Q R"
  shows "spec (St D E v) (thn (mutAcc r incCollectionNonce) n) Q R"
  by (rule spec_mutAcc [OF assms(1) _ assms(2)]) (auto simp: incCollectionNonce_def putCnonce_def accIs_def)

lemma spec_setPendingAccount [triple]:
  assumes "v_ref v i = Some r" "spec (St (D - {i}) E v) n Q R"
  shows "spec (St D E v) (thn (setPendingAccount i r) n) Q R"
  unfolding setPendingAccount_def by (rule spec_modify [OF _ assms(2)]) (rule St_setPendingAccount [OF _ assms(1)])

lemma spec_setPendingGas [triple]:
  assumes "ffmath_ok X" "spec (St D E (v\<lparr>v_led := gasL a d (v_led v)\<rparr>)) n Q R"
  shows "spec (St D E v) (thn (setPendingGas X a d) n) Q R"
  unfolding setPendingGas_def by (rule spec_modify [OF _ assms(2)]) (rule St_setPendingGas [OF _ assms(1)])

lemma spec_setPendingSelf [triple]:
  assumes "v_ref v i = Some r" "spec (St (D - {i}) E v) n Q R"
  shows "spec (St D E v) (thn (setPendingSelf r) n) Q R"
proof (rule spec_thn [OF _ assms(2)])
  show "spec (St D E v) (setPendingSelf r) (\<lambda>_. St (D - {i}) E v) R"
    unfolding setPendingSelf_def setPendingAccount_def
  proof (rule spec_accountAt [OF assms(1)], rule spec_modify_last)
    fix acc s assume "accIs v i acc" "St D E v s"
    then show "St (D - {i}) E v (updSc (SetPendingAccount (ai_AccountIndex acc) r) s)"
      using St_setPendingAccount [OF _ assms(1)] by (simp add: accIs_def)
  qed
qed

text \<open>Subtracting zero leaves the account as it is.\<close>

lemma spec_subBal_0:
  assumes "ffmath_ok X" "v_ref v i = Some r" "v_has v i a" "spec (St D E v) n Q R"
  shows "spec (St D E v) (thn (mutAcc r (subBal X a 0)) n) Q R"
proof (rule spec_thn [OF _ assms(4)], rule specI)
  fix s assume S: "St D E v s"
  then have "accIs v i (w_accHeap s r)" using assms(2) accIs_ref [of D E s i r] by (auto simp: St_def)
  with assms(3) obtain x where x: "ai_AssetInfo (w_accHeap s r) a = Some x" unfolding accIs_def by blast
  then have "(ai_AssetInfo (w_accHeap s r))(a \<mapsto> x) = ai_AssetInfo (w_accHeap s r)" by auto
  with x assms(1) have "subBal X a 0 (w_accHeap s r) = Some (w_accHeap s r)"
    by (simp add: subBal_def updBal_def ffmath_ok_def)
  then have "mutAcc r (subBal X a 0) s = (Ok (), s)" by (simp add: mutAcc_run setAcc_def)
  with S show "case mutAcc r (subBal X a 0) s of (Ok u, t) \<Rightarrow> St D E v t | (Err e, t) \<Rightarrow> R t | (Panic p, t) \<Rightarrow> False"
    by simp
qed

section \<open>Operations on resident NFTs\<close>

lemma GetNft_resident:
  assumes "lru_ok X" "nftRef s n = Some r"
  shows "\<exists>c. map_of c = map_of (w_NftCache s) \<and> GetNft X n s = (Ok r, s\<lparr>w_NftCache := c\<rparr>)"
proof (cases "pendingNft s n")
  case (Some p)
  with assms(2) show ?thesis
    by (intro exI [of _ "w_NftCache s"]) (simp add: GetNft_def run GetPendingNft_def nftRef_def)
next
  case None
  with assms(2) have "map_of (w_NftCache s) n = Some r" by (simp add: nftRef_def)
  with None lru_getD [OF assms(1), of "w_NftCache s" n] lru_get_keeps [OF assms(1), of "w_NftCache s" n]
  show ?thesis by (intro exI [of _ "snd (x_lruGet X (w_NftCache s) n)"])
      (simp add: GetNft_def run GetPendingNft_def NftCache_Get_def split_beta)
qed

lemma spec_GetNft [triple]:
  assumes "lru_ok X" "v_nref v n = Some r" "spec (St D E v) (f r) Q R"
  shows "spec (St D E v) (bnd (GetNft X n) f) Q R"
proof (rule spec_read)
  fix s assume S: "St D E v s"
  with assms(2) have "nftRef s n = Some r" by (auto simp: St_def)
  from GetNft_resident [OF assms(1) this] S
  show "\<exists>a t. GetNft X n s = (Ok a, t) \<and> St D E v t \<and> a = r"
    by (auto simp: St_def nftCache_same)
qed (simp add: assms(3))

lemma l_nft_ref:
  assumes "St D E v s" "v_nref v n = Some r"
  shows "l_nft (v_led v) n = Some (nftCore (w_nftHeap s r))" "nft_NftIndex (w_nftHeap s r) = n"
  using assms wfx_nref(2) [of D E s n r] by (auto simp: St_def ledgerOf_def nftv_def)

lemma spec_nftAt [triple]:
  assumes "v_nref v n = Some r"
    and "\<And>x. l_nft (v_led v) n = Some (nftCore x) \<Longrightarrow> nft_NftIndex x = n \<Longrightarrow> spec (St D E v) (f x) Q R"
  shows "spec (St D E v) (bnd (nftAt r) f) Q R"
proof (rule spec_read [where C = "\<lambda>x. l_nft (v_led v) n = Some (nftCore x) \<and> nft_NftIndex x = n"])
  fix s assume S: "St D E v s"
  with l_nft_ref [OF S assms(1)]
  show "\<exists>x t. nftAt r s = (Ok x, t) \<and> St D E v t \<and> l_nft (v_led v) n = Some (nftCore x) \<and> nft_NftIndex x = n"
    by (simp add: run)
qed (simp add: assms(2))

lemma spec_setNftOwner [triple]:
  assumes "v_nref v n = Some r" "l_nft (v_led v) n = Some x"
    and "spec (St D (insert n E) (v\<lparr>v_led := putNft n (x\<lparr>nft_OwnerAccountIndex := w\<rparr>) (v_led v)\<rparr>)) m Q R"
  shows "spec (St D E v) (thn (setNftOwner r w) m) Q R"
  unfolding setNftOwner_def
proof (rule spec_modify [OF _ assms(3)])
  fix s assume S: "St D E v s"
  let ?h = "w_nftHeap s r"
  from l_nft_ref [OF S assms(1)] assms(2) have "nftCore ?h = x" "nft_NftIndex ?h = n" by auto
  then show "St D (insert n E) (v\<lparr>v_led := putNft n (x\<lparr>nft_OwnerAccountIndex := w\<rparr>) (v_led v)\<rparr>)
      (setNft r (w_nftHeap s r\<lparr>nft_OwnerAccountIndex := w\<rparr>) s)"
    using St_setNft [OF S assms(1), of "?h\<lparr>nft_OwnerAccountIndex := w\<rparr>"] by (auto simp: putNft_def)
qed

lemma spec_setPendingNft [triple]:
  assumes "v_nref v n = Some r" "spec (St D (E - {n}) v) m Q R"
  shows "spec (St D E v) (thn (setPendingNft n r) m) Q R"
  unfolding setPendingNft_def by (rule spec_modify [OF _ assms(2)]) (rule St_setPendingNft [OF _ assms(1)])

lemma spec_newPendingNft [triple]:
  assumes "nft_NftIndex x = n"
    and "\<And>r. spec (St D (E - {n}) (v\<lparr>v_led := putNft n x (v_led v), v_nref := (v_nref v)(n \<mapsto> r)\<rparr>)) m Q R"
  shows "spec (St D E v) (bnd (newNft x) (\<lambda>r. thn (setPendingNft n r) m)) Q R"
proof (rule specI)
  fix s assume "St D E v s"
  from St_newPendingNft [OF this assms(1)] assms(2)
  show "case bnd (newNft x) (\<lambda>r. thn (setPendingNft n r) m) s of (Ok a, t) \<Rightarrow> Q a t | (Err e, t) \<Rightarrow> R t | (Panic p, t) \<Rightarrow> False"
    by (simp add: bnd_run thn_run alloc_run setPendingNft_def spec_def)
qed

lemma spec_newPendingAccount [triple]:
  assumes "ai_AccountIndex a = i" "l_id (v_led v) i = None"
    and "\<And>r. spec (St (D - {i}) E (v\<lparr>v_led := addAcct i a (v_led v), v_ref := (v_ref v)(i \<mapsto> r),
            v_has := (v_has v)(i := (\<lambda>b. ai_AssetInfo a b \<noteq> None))\<rparr>)) m Q R"
  shows "spec (St D E v) (bnd (newAccount a) (\<lambda>r. thn (setPendingAccount i r) m)) Q R"
proof (rule specI)
  fix s assume "St D E v s"
  from St_newPendingAcc [OF this assms(1,2)] assms(3)
  show "case bnd (newAccount a) (\<lambda>r. thn (setPendingAccount i r) m) s of (Ok a, t) \<Rightarrow> Q a t | (Err e, t) \<Rightarrow> R t | (Panic p, t) \<Rightarrow> False"
    by (simp add: bnd_run thn_run alloc_run setPendingAccount_def spec_def)
qed

section \<open>The executor\<close>

lemma spec_gets_view:
  assumes "\<And>s. St D E v s \<Longrightarrow> g s = a" "spec (St D E v) (f a) Q R"
  shows "spec (St D E v) (bnd (gets g) f) Q R"
  using assms by (auto simp: spec_def bnd_run)

lemma spec_gets_exec [triple]:
  "spec (St D E v) (f (v_exec v)) Q R \<Longrightarrow> spec (St D E v) (bnd (gets w_exec) f) Q R"
  "spec (St D E v) (f2 (e_iTxInfo (v_exec v))) Q R \<Longrightarrow> spec (St D E v) (bnd (gets (\<lambda>s. e_iTxInfo (w_exec s))) f2) Q R"
  "spec (St D E v) (f3 (e_exitEmpty (v_exec v))) Q R \<Longrightarrow> spec (St D E v) (bnd (gets (\<lambda>s. e_exitEmpty (w_exec s))) f3) Q R"
  "spec (St D E v) (f4 (tx_NativeAddress (e_tx (v_exec v)))) Q R \<Longrightarrow>
     spec (St D E v) (bnd (gets (\<lambda>s. tx_NativeAddress (e_tx (w_exec s)))) f4) Q R"
  "spec (St D E v) (f5 (bk_BlockHeight (v_blk v))) Q R \<Longrightarrow>
     spec (St D E v) (bnd (gets (\<lambda>s. bk_BlockHeight (w_currentBlock s))) f5) Q R"
  by (rule spec_gets_view; auto simp: St_def)+

text \<open>\<open>SyncDirtyToStateCache\<close> only writes the dirty maps, which the view leaves out.\<close>

lemma St_dirty:
  "St D E v s \<Longrightarrow> St D E v (updSc (MarkAccountAssetsDirty i as) s)"
  "St D E v s \<Longrightarrow> St D E v (updSc (MarkNftDirty n) s)"
proof -
  have "v\<lparr>v_sc := maskSc (w_sc s)\<rparr> = v" if "St D E v s" using that by (auto simp: St_def view_def)
  then show "St D E v s \<Longrightarrow> St D E v (updSc (MarkAccountAssetsDirty i as) s)"
    and "St D E v s \<Longrightarrow> St D E v (updSc (MarkNftDirty n) s)"
    using St_updSc [of D E v s "MarkAccountAssetsDirty i as"] St_updSc [of D E v s "MarkNftDirty n"]
    by (auto simp: MarkAccountAssetsDirty_def MarkNftDirty_def maskSc_def)
qed

lemma spec_forM: "(\<And>x. x \<in> set xs \<Longrightarrow> spec P (f x) (\<lambda>_. P) R) \<Longrightarrow> spec P (forM xs f) (\<lambda>_. P) R"
  by (induction xs) (auto intro!: spec_ret spec_thn)

lemma spec_SyncDirty: "spec (St D E v) (BaseExecutor_ApplyTransaction X) (\<lambda>_. St D E v) R"
  unfolding BaseExecutor_ApplyTransaction_def SyncDirtyToStateCache_def
  by (rule spec_gets_exec(1), rule spec_thn [where Q' = "\<lambda>_. St D E v"]; rule spec_forM, rule spec_modify_last)
    (simp_all add: St_dirty)

lemma spec_SyncDirty_last [triple]:
  "(\<And>s. St D E v s \<Longrightarrow> Q () s) \<Longrightarrow> spec (St D E v) (BaseExecutor_ApplyTransaction X) Q R"
  by (rule spec_weaken [OF spec_SyncDirty]) auto

end
