(* ===== verification/Zk_Prepare.thy ===== *)
theory Zk_Prepare
  imports Zk_Triples
begin

text \<open>
  Loading accounts and NFTs. Reads, \<open>PrepareAccountsAndAssets\<close> and \<open>PrepareNft\<close> may move objects in
  and out of the caches and add zero entries; they never change what the ledger shows, and after
  \<open>PrepareAccountsAndAssets\<close> every prepared account is resident with the entries asked for, because
  the cache evicts the least recently used account first.
\<close>

section \<open>States with the same ledger\<close>

definition quietS :: "World \<Rightarrow> World \<Rightarrow> bool" where
  "quietS s t \<longleftrightarrow> wf t \<and> ledgerOf t = ledgerOf s \<and> w_sc t = w_sc s \<and> w_db t = w_db s \<and>
     w_currentBlock t = w_currentBlock s \<and> w_exec t = w_exec s \<and> w_nextAccountNumber t = w_nextAccountNumber s \<and>
     w_AccountCacheSize t = w_AccountCacheSize s"

lemma quietS_refl: "wf s \<Longrightarrow> quietS s s" by (simp add: quietS_def)

lemma quietS_trans: "quietS s t \<Longrightarrow> quietS t u \<Longrightarrow> quietS s u" by (simp add: quietS_def)

lemma accEq_sym: "accEq f g \<Longrightarrow> accEq g f" by (simp add: accEq_def)

lemma rel_accEq_trans: "rel_option accEq x y \<Longrightarrow> rel_option accEq y z \<Longrightarrow> rel_option accEq x z"
  by (cases x; cases y; cases z) (auto intro: accEq_trans)

lemma rel_accEq_sym: "rel_option accEq x y \<Longrightarrow> rel_option accEq y x"
  by (cases x; cases y) (auto intro: accEq_sym)

lemma rel_accEq_refl: "rel_option accEq x x" by (cases x) auto

lemma ledgerOf_accEq:
  assumes "\<And>i. rel_option accEq (acct s i) (acct t i)" "nftv t = nftv s" "GetPendingGas (w_sc t) = GetPendingGas (w_sc s)"
  shows "ledgerOf t = ledgerOf s"
proof -
  have "map_option ident (acct t i) = map_option ident (acct s i) \<and> atAcc 0 ai_Nonce t i = atAcc 0 ai_Nonce s i \<and>
      atAcc 0 ai_CollectionNonce t i = atAcc 0 ai_CollectionNonce s i \<and>
      (\<lambda>a. atAcc 0 (\<lambda>acc. assetBal acc a) t i) = (\<lambda>a. atAcc 0 (\<lambda>acc. assetBal acc a) s i) \<and>
      (\<lambda>a. atAcc 0 (\<lambda>acc. assetOffer acc a) t i) = (\<lambda>a. atAcc 0 (\<lambda>acc. assetOffer acc a) s i)" for i
    using assms(1) [of i] by (cases "acct s i"; cases "acct t i") (auto simp: accEq_def atAcc_def)
  then show ?thesis by (simp add: ledgerOf_def fun_eq_iff assms(2,3))
qed

text \<open>An account that is not pending reads as its row.\<close>

lemma acct_dbAcc:
  assumes "wf s" "pendingAcc s i = None"
  shows "rel_option accEq (dbAcc s i) (acct s i)"
proof (cases "map_of (w_AccountCache s) i")
  case None
  with assms(2) show ?thesis by (simp add: acct_def acctRef_def rel_accEq_refl)
next
  case (Some r)
  with assms obtain f where "dbAcc s i = Some f" "accEq f (w_accHeap s r)" unfolding wfx_def by blast
  with Some assms(2) show ?thesis by (simp add: acct_def acctRef_def)
qed

section \<open>The account cache\<close>

text \<open>What an entry of the cache has to satisfy.\<close>

definition cacheable :: "World \<Rightarrow> int \<Rightarrow> nat \<Rightarrow> bool" where
  "cacheable s j r \<longleftrightarrow> r < w_next s \<and> ai_AccountIndex (w_accHeap s r) = j \<and>
    (case pendingAcc s j of Some p \<Rightarrow> p = r | None \<Rightarrow> rel_option accEq (dbAcc s j) (Some (w_accHeap s r)))"

lemma cache_quiet:
  assumes w: "wf s"
    and c: "\<And>j r. map_of c j = Some r \<Longrightarrow> cacheable s j r"
  shows "quietS s (s\<lparr>w_AccountCache := c\<rparr>)"
proof -
  let ?t = "s\<lparr>w_AccountCache := c\<rparr>"
  have p: "pendingAcc ?t = pendingAcc s" "dbAcc ?t = dbAcc s" "dbNft ?t = dbNft s"
    by (simp_all add: dbAcc_def dbNft_def fun_eq_iff)
  have wt: "wf ?t"
    unfolding wfx_def p
  proof (intro conjI allI impI)
    fix i r assume "pendingAcc s i = None" "map_of (w_AccountCache ?t) i = Some r"
    with c [of i r] show "\<exists>f. dbAcc s i = Some f \<and> accEq f (w_accHeap ?t r)" by (auto simp: option_rel_Some2 cacheable_def)
  next
    fix i r r' assume "pendingAcc s i = Some r" "map_of (w_AccountCache ?t) i = Some r'"
    with c [of i r'] show "r' = r" by (simp add: cacheable_def)
  next
    fix i r assume "map_of (w_AccountCache ?t) i = Some r"
    with c [of i r] show "r < w_next ?t" "ai_AccountIndex (w_accHeap ?t r) = i" by (simp_all add: cacheable_def)
  qed (use w in \<open>auto simp: wfx_def\<close>)
  have "rel_option accEq (acct s i) (acct ?t i)" for i
  proof (cases "pendingAcc s i")
    case None
    with acct_dbAcc [OF w None] acct_dbAcc [OF wt] p show ?thesis
      by (simp add: fun_eq_iff) (metis rel_accEq_sym rel_accEq_trans)
  next
    case (Some r)
    then show ?thesis by (simp add: acct_def acctRef_def rel_accEq_refl)
  qed
  moreover have "nftv ?t = nftv s"
    by (rule nftv_cong) (simp_all add: nftRef_def fun_eq_iff cong: option.case_cong)
  ultimately have "ledgerOf ?t = ledgerOf s" by (rule ledgerOf_accEq) simp
  with wt show ?thesis by (simp add: quietS_def)
qed

lemma cached_ok:
  assumes "wf s" "map_of (w_AccountCache s) j = Some r"
  shows "cacheable s j r"
proof (cases "pendingAcc s j")
  case None
  with assms obtain f where "dbAcc s j = Some f" "accEq f (w_accHeap s r)" unfolding wfx_def by blast
  with None assms show ?thesis by (simp add: cacheable_def wfx_def)
next
  case (Some p)
  with assms have "r = p" unfolding wfx_def by blast
  with Some assms show ?thesis by (simp add: cacheable_def wfx_def)
qed

lemma resident_ok:
  assumes "wf s" "acctRef s j = Some r"
  shows "cacheable s j r"
proof (cases "pendingAcc s j")
  case None
  with assms have "map_of (w_AccountCache s) j = Some r" by (simp add: acctRef_def)
  with assms(1) show ?thesis by (rule cached_ok)
next
  case (Some p)
  with assms show ?thesis using wfx_ref [OF assms] by (simp add: acctRef_def cacheable_def)
qed

lemma Add_quiet:
  assumes "lru_ok X" "wf s" "0 < n" "cacheable s i r"
  shows "quietS s (s\<lparr>w_AccountCache := x_lruAdd X n (w_AccountCache s) i r\<rparr>)"
proof (rule cache_quiet [OF assms(2)])
  fix j q assume m: "map_of (x_lruAdd X n (w_AccountCache s) i r) j = Some q"
  show "cacheable s j q"
  proof (cases "j = i")
    case True
    with m lru_add_same [OF assms(1,3)] assms(4) show ?thesis by simp
  next
    case False
    with m lru_add_other [OF assms(1) False, of n "w_AccountCache s" r]
    have "map_of (w_AccountCache s) j = Some q" by auto
    then show ?thesis by (rule cached_ok [OF assms(2)])
  qed
qed

section \<open>Loading an account\<close>

lemma quietS_get:
  assumes "lru_ok X" "wf s"
  shows "quietS s (s\<lparr>w_AccountCache := snd (x_lruGet X (w_AccountCache s) j)\<rparr>)"
  by (rule cache_quiet [OF assms(2)]) (simp add: lru_get_keeps [OF assms(1)] cached_ok [OF assms(2)])

lemma quietS_allocAcc:
  assumes "wf s" shows "quietS s (allocAcc f s)"
proof -
  have "nftv (allocAcc f s) = nftv s" by (rule nftv_cong) simp_all
  then have "ledgerOf (allocAcc f s) = ledgerOf s"
    by (intro ledgerOf_accEq) (simp_all add: acct_allocAcc [OF assms] rel_accEq_refl)
  with wfx_alloc(1) [OF assms] show ?thesis by (simp add: quietS_def allocAcc_def)
qed

lemma quietS_wf: "quietS s t \<Longrightarrow> wf t" by (simp add: quietS_def)

text \<open>The effect of a load on the cache: other entries are dropped, never replaced.\<close>

definition loaded :: "World \<Rightarrow> int \<Rightarrow> World \<Rightarrow> bool" where
  "loaded s j t \<longleftrightarrow> quietS s t \<and> w_NftCache t = w_NftCache s \<and>
     (\<forall>i r. i \<noteq> j \<longrightarrow> map_of (w_AccountCache t) i = Some r \<longrightarrow> map_of (w_AccountCache s) i = Some r) \<and>
     (\<forall>i r. i \<noteq> j \<longrightarrow> acctRef s i = Some r \<longrightarrow> w_accHeap t r = w_accHeap s r)"

lemma loaded_trans: "loaded s j t \<Longrightarrow> loaded t j u \<Longrightarrow>
  (\<And>i r. i \<noteq> j \<Longrightarrow> acctRef s i = Some r \<Longrightarrow> w_accHeap t r = w_accHeap s r \<Longrightarrow> w_accHeap u r = w_accHeap t r) \<Longrightarrow> loaded s j u"
  unfolding loaded_def by (auto intro: quietS_trans)

definition cacheKeys :: "World \<Rightarrow> int list" where "cacheKeys s = map fst (w_AccountCache s)"

abbreviation front :: "World \<Rightarrow> int \<Rightarrow> int list \<Rightarrow> int list" where
  "front s j ks \<equiv> take (w_AccountCacheSize s) (j # removeAll j ks)"

lemma front_front: "0 < n \<Longrightarrow> take n (j # removeAll j (take n (j # removeAll j ks))) = take n (j # removeAll j ks)"
proof -
  have "removeAll j (take m (removeAll j ks)) = take m (removeAll j ks)" for m
    by (rule removeAll_id) (auto dest: in_set_takeD)
  moreover assume "0 < n"
  ultimately show ?thesis by (cases n) simp_all
qed

lemma GetFormatAccount_load:
  assumes X: "lru_ok X" "lru_order X" and w: "wf s"
  shows "case GetFormatAccount X j s of
      (Ok r, t) \<Rightarrow> loaded s j t \<and> acctRef t j = Some r \<and> front s j (cacheKeys t) = front s j (cacheKeys s)
    | (Err e, t) \<Rightarrow> quietS s t \<and> w_NftCache t = w_NftCache s | (Panic p, t) \<Rightarrow> False"
proof (cases "pendingAcc s j")
  case (Some p)
  then show ?thesis using w
    by (simp add: GetFormatAccount_def run GetPendingAccount_def loaded_def quietS_refl acctRef_def)
next
  case None
  let ?c = "snd (x_lruGet X (w_AccountCache s) j)"
  let ?g = "s\<lparr>w_AccountCache := ?c\<rparr>"
  note q = quietS_get [OF X(1) w, of j]
  note mc = lru_get_keeps [OF X(1), of "w_AccountCache s" j]
  show ?thesis
  proof (cases "map_of (w_AccountCache s) j")
    case (Some r)
    then have "map fst ?c = j # removeAll j (map fst (w_AccountCache s))" using X(2) by (simp add: lru_order_def)
    with q Some None mc lru_getD [OF X(1), of "w_AccountCache s" j] show ?thesis
      by (simp add: GetFormatAccount_def run GetPendingAccount_def AccountCache_Get_def split_beta loaded_def
          acctRef_def cacheKeys_def removeAll_id)
  next
    case miss: None
    have run: "GetFormatAccount X j s = (bnd (mapErr (notFoundTo AppErrAccountNotFound) (GetAccountByIndex j)) (\<lambda>account.
        bnd (ofSum (ToFormatAccountInfo account)) (\<lambda>formatAccount.
        bnd (newAccount formatAccount) (\<lambda>r. thn (AccountCache_Add X j r) (ret r))))) ?g"
      using None miss lru_getD [OF X(1), of "w_AccountCache s" j]
      by (simp add: GetFormatAccount_def bnd_run GetPendingAccount_def AccountCache_Get_def split_beta)
    show ?thesis
    proof (cases "db_down (w_db s) \<or> dbAcc s j = None")
      case True
      then show ?thesis unfolding run using q
        by (auto simp: GetAccountByIndex_def bnd_run mapErr_def dbAcc_def orThrow_run ofSum_run split: option.splits sum.splits)
    next
      case False
      then obtain f where f: "dbAcc s j = Some f" by blast
      let ?u = "allocAcc f ?g"
      let ?t = "?u\<lparr>w_AccountCache := x_lruAdd X (w_AccountCacheSize s) ?c j (w_next s)\<rparr>"
      have eq: "GetFormatAccount X j s = (Ok (w_next s), ?t)" unfolding run using False f
        by (auto simp: GetAccountByIndex_def bnd_run thn_run mapErr_def dbAcc_def orThrow_run ofSum_run alloc_run AccountCache_Add_def
              allocAcc_def split: option.splits sum.splits)
      have wu: "wf ?u" by (rule quietS_wf, rule quietS_allocAcc, rule quietS_wf [OF q])
      have n: "0 < w_AccountCacheSize s" using w by (simp add: wfx_def)
      have "dbAcc ?u j = Some f" using f by (simp add: dbAcc_def allocAcc_def)
      then have "cacheable ?u j (w_next s)" using None dbAcc_index [OF f]
        by (simp add: cacheable_def allocAcc_def)
      from Add_quiet [OF X(1) wu n this] have "quietS ?u ?t" by simp
      with quietS_trans [OF q quietS_allocAcc [OF quietS_wf [OF q]]] have qt: "quietS s ?t" by (rule quietS_trans)
      have "map fst ?c = map fst (w_AccountCache s)" using X(2) miss by (simp add: lru_order_def)
      then have "cacheKeys ?t = front s j (cacheKeys s)" using X(2) by (simp add: lru_order_def cacheKeys_def)
      moreover have "acctRef ?t j = Some (w_next s)" using None lru_add_same [OF X(1) n] by (simp add: acctRef_def allocAcc_def)
      moreover have "loaded s j ?t" using qt mc wfx_ref(1) [OF w]
        by (auto simp: loaded_def allocAcc_def dest!: lru_add_other [OF X(1)])
      ultimately show ?thesis unfolding eq using front_front [OF n] by simp
    qed
  qed
qed

section \<open>Preparing an account\<close>

lemma pad_assets [simp]:
  "ai_AssetInfo (padAsset b acc) a = None \<longleftrightarrow> a \<noteq> b \<and> ai_AssetInfo acc a = None"
  by (auto simp: padAsset_def)

lemma accEq_pad: "accEq acc (padAsset b acc)"
  by (auto simp: accEq_def padAsset_def assetBal_def assetOffer_def ConstructAccountAsset_def fun_eq_iff)

lemma accEq_padAll: "accEq acc (fold padAsset ks acc)"
  by (induction ks arbitrary: acc) (auto intro: accEq_trans accEq_pad)

lemma padAll_assets: "ai_AssetInfo (fold padAsset ks acc) a = None \<longleftrightarrow> a \<notin> set ks \<and> ai_AssetInfo acc a = None"
  by (induction ks arbitrary: acc) auto

lemma pad_loop:
  "forM ks (\<lambda>a. modify (\<lambda>s. setAcc r (padAsset a (w_accHeap s r)) s)) s = (Ok (), setAcc r (fold padAsset ks (w_accHeap s r)) s)"
  by (induction ks arbitrary: s) (simp_all add: thn_run setAcc_def)

lemma accEq_index: "accEq f g \<Longrightarrow> ai_AccountIndex g = ai_AccountIndex f"
  by (rule ident_index) (simp add: accEq_def)

lemma wfx_close:
  assumes "wfx (insert i D) E t"
    and "\<And>q. pendingAcc t i = None \<Longrightarrow> map_of (w_AccountCache t) i = Some q \<Longrightarrow>
      \<exists>f. dbAcc t i = Some f \<and> accEq f (w_accHeap t q)"
  shows "wfx D E t"
proof -
  have "\<forall>k r. k \<notin> D \<longrightarrow> pendingAcc t k = None \<longrightarrow> map_of (w_AccountCache t) k = Some r \<longrightarrow>
      (\<exists>f. dbAcc t k = Some f \<and> accEq f (w_accHeap t r))"
  proof (intro allI impI)
    fix k r assume k: "k \<notin> D" "pendingAcc t k = None" "map_of (w_AccountCache t) k = Some r"
    then show "\<exists>f. dbAcc t k = Some f \<and> accEq f (w_accHeap t r)"
      using assms by (cases "k = i") (auto simp: wfx_def)
  qed
  with assms(1) show ?thesis by (simp add: wfx_def)
qed

lemma quietS_setAcc:
  assumes w: "wf s" and i: "acctRef s i = Some r" and e: "accEq (w_accHeap s r) a"
  shows "quietS s (setAcc r a s)"
proof -
  have idx: "ai_AccountIndex a = i" using accEq_index [OF e] wfx_ref(2) [OF w i] by simp
  have wt: "wf (setAcc r a s)"
  proof (rule wfx_close [OF wfx_setAcc [OF w i idx]])
    fix q assume "pendingAcc (setAcc r a s) i = None" "map_of (w_AccountCache (setAcc r a s)) i = Some q"
    then have that: "pendingAcc s i = None" "map_of (w_AccountCache s) i = Some q" by (simp_all add: setAcc_def)
    with i have "q = r" by (simp add: acctRef_def)
    moreover from w that obtain f where "dbAcc s i = Some f" "accEq f (w_accHeap s q)" unfolding wfx_def by blast
    moreover have "dbAcc (setAcc r a s) = dbAcc s" by (simp add: dbAcc_def setAcc_def fun_eq_iff)
    ultimately show "\<exists>f. dbAcc (setAcc r a s) i = Some f \<and> accEq f (w_accHeap (setAcc r a s) q)"
      using e accEq_trans by (auto simp: setAcc_def)
  qed
  have "rel_option accEq (acct s k) (acct (setAcc r a s) k)" for k
    using e i by (simp add: acct_setAcc [OF w i] rel_accEq_refl) (simp add: acct_def)
  then have "ledgerOf (setAcc r a s) = ledgerOf s" by (rule ledgerOf_accEq) simp_all
  with wt show ?thesis by (simp add: quietS_def setAcc_def)
qed

definition covers :: "World \<Rightarrow> int \<Rightarrow> int list \<Rightarrow> bool" where
  "covers s i as \<longleftrightarrow> (\<exists>r. acctRef s i = Some r \<and> (\<forall>a \<in> set as. ai_AssetInfo (w_accHeap s r) a \<noteq> None))"

lemma PrepareAccountAndAssets_load:
  assumes X: "lru_ok X" "lru_order X" "range_ok X" and w: "wf s" and d: "distinct (mkeys assets)"
  shows "case PrepareAccountAndAssets X j assets s of
      (Ok _, t) \<Rightarrow> loaded s j t \<and> covers t j (mkeys assets) \<and> cacheKeys t = front s j (cacheKeys s)
    | (Err e, t) \<Rightarrow> quietS s t \<and> w_NftCache t = w_NftCache s | (Panic p, t) \<Rightarrow> False"
proof (cases "GetFormatAccount X j s")
  case (Pair res t)
  have nd: "\<not> w_dryRun s" using w by (simp add: wfx_def)
  note G = GetFormatAccount_load [OF X(1,2) w, of j]
  show ?thesis
  proof (cases res)
    case (Ok r)
    with Pair G have l: "loaded s j t" and r: "acctRef t j = Some r"
      and f: "front s j (cacheKeys t) = front s j (cacheKeys s)" by auto
    from l have qt: "quietS s t" and wt: "wf t" by (auto simp: loaded_def quietS_def)
    let ?ks = "x_range X (mkeys assets)"
    let ?u = "setAcc r (fold padAsset ?ks (w_accHeap t r)) t"
    let ?z = "?u\<lparr>w_AccountCache := x_lruAdd X (w_AccountCacheSize t) (w_AccountCache t) j r\<rparr>"
    have eq: "PrepareAccountAndAssets X j assets s = (Ok (), ?z)" using Pair Ok nd
      by (simp add: PrepareAccountAndAssets_def thn_run bnd_run pad_loop AccountCache_Add_def) (simp add: setAcc_def)
    have qu: "quietS t ?u" by (rule quietS_setAcc [OF wt r accEq_padAll])
    have ru: "acctRef ?u j = Some r" using r by simp
    have n: "0 < w_AccountCacheSize t" using wt by (simp add: wfx_def)
    have sz: "w_AccountCacheSize t = w_AccountCacheSize s" using qt by (simp add: quietS_def)
    from Add_quiet [OF X(1) quietS_wf [OF qu] n resident_ok [OF quietS_wf [OF qu] ru]]
    have "quietS ?u ?z" by simp
    with qt qu have qz: "quietS s ?z" by (blast intro: quietS_trans)
    have "acctRef ?z j = Some r" using r lru_add_same [OF X(1) n] by (auto simp: acctRef_def setAcc_def split: option.splits)
    moreover have "set ?ks = set (mkeys assets)" using X(3) d by (simp add: range_ok_def)
    ultimately have "covers ?z j (mkeys assets)" by (force simp: covers_def setAcc_def padAll_assets simp del: not_None_eq)
    moreover have "cacheKeys ?z = front s j (cacheKeys s)"
      using X(2) f by (simp add: cacheKeys_def lru_order_def sz)
    moreover have "loaded s j ?z"
      unfolding loaded_def
    proof (intro conjI allI impI)
      fix i q assume i: "i \<noteq> j" "map_of (w_AccountCache ?z) i = Some q"
      then have "map_of (w_AccountCache t) i = Some q" by (auto dest: lru_add_other [OF X(1)])
      with l i(1) show "map_of (w_AccountCache s) i = Some q" by (simp add: loaded_def)
    next
      fix i q assume i: "i \<noteq> j" "acctRef s i = Some q"
      with l have h: "w_accHeap t q = w_accHeap s q" by (auto simp: loaded_def)
      with i wfx_ref(2) [OF w i(2)] wfx_ref(2) [OF wt r] have "q \<noteq> r" by auto
      with h show "w_accHeap ?z q = w_accHeap s q" by (simp add: setAcc_def)
    qed (use l qz in \<open>auto simp: loaded_def setAcc_def\<close>)
    ultimately show ?thesis by (simp add: eq)
  next
    case (Err e)
    with Pair G nd show ?thesis by (simp add: PrepareAccountAndAssets_def thn_run bnd_run)
  next
    case (Panic p)
    with Pair G show ?thesis by simp
  qed
qed

section \<open>Preparing the accounts of a transaction\<close>

lemma loaded_covers:
  assumes l: "loaded s j t" and c: "covers s i as" and "i \<noteq> j" "i \<in> set (cacheKeys t)"
  shows "covers t i as"
proof -
  from c obtain r where r: "acctRef s i = Some r" "\<forall>a \<in> set as. ai_AssetInfo (w_accHeap s r) a \<noteq> None"
    by (auto simp: covers_def)
  from assms(4) obtain q where q: "map_of (w_AccountCache t) i = Some q"
    by (cases "map_of (w_AccountCache t) i") (auto simp: cacheKeys_def map_of_eq_None_iff)
  with l assms(3) have "map_of (w_AccountCache s) i = Some q" by (simp add: loaded_def)
  with q r(1) l have "acctRef t i = Some r" by (auto simp: acctRef_def loaded_def quietS_def split: option.splits)
  with l r assms(3) show ?thesis by (auto simp: covers_def loaded_def)
qed

lemma front_keys:
  assumes "j \<notin> set ds" "length ds < n"
  shows "\<exists>zs'. take n (j # removeAll j (rev ds @ zs)) = rev (ds @ [j]) @ zs'"
  using assms by (cases n) (auto simp: removeAll_id)

lemma PrepareAccounts_loop:
  assumes X: "lru_ok X" "lru_order X" "range_ok X" and d: "\<And>i. i \<in> set ks \<Longrightarrow> distinct (mkeys (A i))"
    and "wf s" "distinct (ds @ ks)" "length (ds @ ks) \<le> w_AccountCacheSize s"
    and "\<And>i. i \<in> set ds \<Longrightarrow> covers s i (mkeys (A i))" "cacheKeys s = rev ds @ zs"
  shows "case forM ks (\<lambda>i. PrepareAccountAndAssets X i (A i)) s of
      (Ok _, t) \<Rightarrow> quietS s t \<and> w_NftCache t = w_NftCache s \<and> (\<forall>i \<in> set (ds @ ks). covers t i (mkeys (A i)))
    | (Err e, t) \<Rightarrow> quietS s t \<and> w_NftCache t = w_NftCache s | (Panic p, t) \<Rightarrow> False"
  using assms(4-9)
proof (induction ks arbitrary: ds s zs)
  case Nil
  then show ?case by (simp add: quietS_refl)
next
  case (Cons j ks)
  note P = PrepareAccountAndAssets_load [OF X Cons.prems(2), of "A j" j]
  have dj: "distinct (mkeys (A j))" using Cons.prems(1) by simp
  show ?case
  proof (cases "PrepareAccountAndAssets X j (A j) s")
    case (Pair res t)
    show ?thesis
    proof (cases res)
      case (Ok u)
      with P dj Pair have l: "loaded s j t" and c: "covers t j (mkeys (A j))"
        and k: "cacheKeys t = front s j (cacheKeys s)" by auto
      then have q: "quietS s t" "w_NftCache t = w_NftCache s" by (simp_all add: loaded_def)
      have sz: "w_AccountCacheSize t = w_AccountCacheSize s" using q(1) by (simp add: quietS_def)
      from Cons.prems(3,4) have "j \<notin> set ds" "length ds < w_AccountCacheSize s" by auto
      from front_keys [OF this, of zs] k Cons.prems(6) obtain zs' where zs': "cacheKeys t = rev (ds @ [j]) @ zs'" by auto
      have "covers t i (mkeys (A i))" if "i \<in> set (ds @ [j])" for i
      proof (cases "i = j")
        case False
        with that Cons.prems(5) zs' show ?thesis by (auto intro!: loaded_covers [OF l])
      qed (simp add: c)
      with Cons.IH [of t "ds @ [j]" zs'] Cons.prems sz zs' quietS_wf [OF q(1)]
      have "case forM ks (\<lambda>i. PrepareAccountAndAssets X i (A i)) t of
          (Ok _, u) \<Rightarrow> quietS t u \<and> w_NftCache u = w_NftCache t \<and> (\<forall>i \<in> set (ds @ j # ks). covers u i (mkeys (A i)))
        | (Err e, u) \<Rightarrow> quietS t u \<and> w_NftCache u = w_NftCache t | (Panic p, u) \<Rightarrow> False"
        by (simp split: prod.splits res.splits)
      with Pair Ok q quietS_trans [OF q(1)] show ?thesis
        by (auto simp: thn_run split: prod.splits res.splits)
    qed (use P dj Pair in \<open>auto simp: thn_run\<close>)
  qed
qed

text \<open>Which accounts and entries the executor asked for. Negative indices are never marked.\<close>

definition marked :: "bool gomap gomap \<Rightarrow> int \<Rightarrow> int list \<Rightarrow> bool" where
  "marked d i as \<longleftrightarrow> 0 \<le> i \<longrightarrow> (\<exists>m. mget d i = Some m \<and> (\<forall>a \<in> set as. 0 \<le> a \<longrightarrow> a \<in> set (mkeys m)))"

lemma marked_same: "marked (markDirty i as d) i as"
  by (auto simp: marked_def mget_markDirty)

lemma marked_other: "marked d i as \<Longrightarrow> marked (markDirty j bs d) i as"
  by (auto simp: marked_def mget_markDirty)

lemmas marked_rules = marked_same marked_other

definition dirtyOk :: "nat \<Rightarrow> bool gomap gomap \<Rightarrow> bool" where
  "dirtyOk k d \<longleftrightarrow> length d \<le> k"

lemma dirtyOk_Nil: "dirtyOk k []" by (simp add: dirtyOk_def)

lemma length_mput: "length (mput k v m) \<le> Suc (length m)"
  unfolding mput_def by (induction m) auto

lemma dirtyOk_markDirty: "dirtyOk k d \<Longrightarrow> dirtyOk (Suc k) (markDirty i as d)"
  by (auto simp: dirtyOk_def markDirty_def intro!: le_trans [OF length_mput])

lemma dirtyOk_mono: "dirtyOk k d \<Longrightarrow> k \<le> l \<Longrightarrow> dirtyOk l d" by (auto simp: dirtyOk_def)

definition resident :: "View \<Rightarrow> int \<Rightarrow> int list \<Rightarrow> bool" where
  "resident v i as \<longleftrightarrow> v_ref v i \<noteq> None \<and> (\<forall>a \<in> set as. v_has v i a)"

definition quietV :: "View \<Rightarrow> View \<Rightarrow> bool" where
  "quietV v w \<longleftrightarrow> v_led w = v_led v \<and> v_sc w = v_sc v \<and> v_db w = v_db v \<and> v_blk w = v_blk v \<and> v_nextAcc w = v_nextAcc v"

lemma quietV_refl [simp]: "quietV v v" by (simp add: quietV_def)

lemma quietV_trans: "quietV u v \<Longrightarrow> quietV v w \<Longrightarrow> quietV u w" by (simp add: quietV_def)

lemma quietV_exec [simp]: "quietV v (w\<lparr>v_exec := e\<rparr>) = quietV v w" "quietV (v\<lparr>v_exec := e\<rparr>) w = quietV v w"
  by (auto simp: quietV_def)

text \<open>The states an unsuccessful transaction may leave.\<close>

definition quiet :: "View \<Rightarrow> World \<Rightarrow> bool" where
  "quiet v s \<longleftrightarrow> (\<exists>w. quietV v w \<and> St {} {} w s)"

lemma quietI: "St {} {} w s \<Longrightarrow> quietV v w \<Longrightarrow> quiet v s" by (auto simp: quiet_def)

lemma quietS_view: "quietS s t \<Longrightarrow> quietV (view s) (view t) \<and> St {} {} (view t) t \<and> v_exec (view t) = v_exec (view s)"
  by (simp add: quietS_def quietV_def St_def)

lemma PrepareAccountsAndAssets_view:
  assumes X: "lru_ok X" "lru_order X" "range_ok X" and d: "dirtyOk 5 d" and S: "St {} {} v s"
  shows "case PrepareAccountsAndAssets X d s of
      (Ok _, t) \<Rightarrow> \<exists>w. St {} {} w t \<and> quietV v w \<and> v_nref w = v_nref v \<and> v_exec w = v_exec v \<and>
        (\<forall>i m. mget d i = Some m \<longrightarrow> resident w i (mkeys m))
    | (Err e, t) \<Rightarrow> quiet v t | (Panic p, t) \<Rightarrow> False"
proof -
  let ?ks = "x_range X (mkeys d)"
  have v: "v = view s" and w: "wf s" using S by (auto simp: St_def)
  have ks: "distinct ?ks" "set ?ks = set (mkeys d)" using X(3) by (auto simp: range_ok_def)
  then have "length ?ks = length (mkeys d)" by (metis distinct_card distinct_mkeys)
  then have len: "length ?ks \<le> w_AccountCacheSize s" using d w length_mkeys [of d] by (simp add: dirtyOk_def wfx_def)
  have dm: "distinct (mkeys (the (mget d i)))" if "i \<in> set ?ks" for i by simp
  from PrepareAccounts_loop [OF X, of ?ks "\<lambda>i. the (mget d i)" s "[]" "cacheKeys s"] w ks len dm
  have L: "case PrepareAccountsAndAssets X d s of
      (Ok _, t) \<Rightarrow> quietS s t \<and> w_NftCache t = w_NftCache s \<and> (\<forall>i \<in> set ?ks. covers t i (mkeys (the (mget d i))))
    | (Err e, t) \<Rightarrow> quietS s t \<and> w_NftCache t = w_NftCache s | (Panic p, t) \<Rightarrow> False"
    by (simp add: PrepareAccountsAndAssets_def split: prod.splits res.splits)
  have n: "nftRef t = nftRef s" if "quietS s t" "w_NftCache t = w_NftCache s" for t
    using that by (simp add: nftRef_def quietS_def fun_eq_iff cong: option.case_cong)
  have res: "resident (view t) i (mkeys m)"
    if "\<forall>i \<in> set ?ks. covers t i (mkeys (the (mget d i)))" "mget d i = Some m" for t i m
    using that ks(2) mkeys_dom [of i d] by (force simp: resident_def covers_def hasAsset_def)
  show ?thesis
  proof (cases "PrepareAccountsAndAssets X d s")
    case (Pair res t)
    show ?thesis
    proof (cases res)
      case (Ok u)
      with Pair L quietS_view [of s t]
      show ?thesis using n res by (auto simp: v intro!: exI [of _ "view t"])
    qed (use Pair L quietS_view [of s t] in \<open>auto simp: v intro!: quietI\<close>)
  qed
qed

section \<open>Loading an NFT\<close>

lemma wfx_NftCache:
  assumes "wf s" "\<And>k r. map_of c k = Some r \<Longrightarrow> r < w_next s \<and> nft_NftIndex (w_nftHeap s r) = k \<and>
      (pendingNft s k = None \<longrightarrow> dbNft s k = Some (nftCore (w_nftHeap s r)))"
  shows "wf (s\<lparr>w_NftCache := c\<rparr>)"
proof -
  have "dbNft (s\<lparr>w_NftCache := c\<rparr>) = dbNft s" "dbAcc (s\<lparr>w_NftCache := c\<rparr>) = dbAcc s"
    by (simp_all add: dbNft_def dbAcc_def fun_eq_iff)
  with assms show ?thesis by (simp add: wfx_def)
qed

lemma nftCache_row:
  assumes "wf s" "map_of (w_NftCache s) k = Some r"
  shows "r < w_next s \<and> nft_NftIndex (w_nftHeap s r) = k \<and> (pendingNft s k = None \<longrightarrow> dbNft s k = Some (nftCore (w_nftHeap s r)))"
  using assms by (simp add: wfx_def)

text \<open>An NFT that is not pending reads as its row, cached or not.\<close>

lemma nftv_dbNft: "wf s \<Longrightarrow> pendingNft s n = None \<Longrightarrow> nftv s n = dbNft s n"
  by (cases "map_of (w_NftCache s) n") (auto simp: nftv_def nftRef_def wfx_def)

lemma nftv_cache:
  assumes "wf s" "wf (s\<lparr>w_NftCache := c\<rparr>)"
  shows "nftv (s\<lparr>w_NftCache := c\<rparr>) = nftv s"
proof
  fix n
  have "dbNft (s\<lparr>w_NftCache := c\<rparr>) = dbNft s" by (simp add: dbNft_def fun_eq_iff)
  then show "nftv (s\<lparr>w_NftCache := c\<rparr>) n = nftv s n"
    using nftv_dbNft [OF assms(1), of n] nftv_dbNft [OF assms(2), of n]
    by (cases "pendingNft s n") (auto simp: nftv_def nftRef_def)
qed

lemma view_NftCache:
  assumes "wf s" "wf (s\<lparr>w_NftCache := c\<rparr>)"
  shows "view (s\<lparr>w_NftCache := c\<rparr>) = (view s)\<lparr>v_nref := nftRef (s\<lparr>w_NftCache := c\<rparr>)\<rparr>"
proof -
  let ?t = "s\<lparr>w_NftCache := c\<rparr>"
  have r: "acctRef ?t = acctRef s" by (simp add: acctRef_def [abs_def] cong: option.case_cong)
  have "ledgerOf ?t = ledgerOf s" by (rule ledgerOf_cong) (simp_all add: acct_cong [of ?t s] r nftv_cache [OF assms])
  moreover have "hasAsset ?t = hasAsset s" by (rule hasAsset_cong) (simp_all add: r)
  ultimately show ?thesis using r by (simp add: view_def)
qed

lemma GetNft_load:
  assumes X: "lru_ok X" and S: "St {} {} v s"
  shows "case GetNft X n s of
      (Ok r, t) \<Rightarrow> \<exists>ns. ns n = Some r \<and> St {} {} (v\<lparr>v_nref := ns\<rparr>) t
    | (Err e, t) \<Rightarrow> St {} {} v t | (Panic p, t) \<Rightarrow> False"
proof (cases "nftRef s n")
  case (Some r)
  from GetNft_resident [OF X Some] obtain c where c: "map_of c = map_of (w_NftCache s)" "GetNft X n s = (Ok r, s\<lparr>w_NftCache := c\<rparr>)"
    by blast
  with S nftCache_same [OF c(1)] have "St {} {} v (s\<lparr>w_NftCache := c\<rparr>)" by (simp add: St_def)
  moreover have "v\<lparr>v_nref := v_nref v\<rparr> = v" "v_nref v n = Some r" using S Some by (auto simp: St_def)
  ultimately show ?thesis using c(2) by (auto intro: exI [of _ "v_nref v"])
next
  case None
  let ?c = "snd (x_lruGet X (w_NftCache s) n)"
  let ?g = "s\<lparr>w_NftCache := ?c\<rparr>"
  have w: "wf s" and v: "v = view s" using S by (auto simp: St_def)
  have p: "pendingNft s n = None" "map_of (w_NftCache s) n = None" using None by (auto simp: nftRef_def split: option.splits)
  note mc = lru_get_keeps [OF X, of "w_NftCache s" n]
  have g: "St {} {} v ?g" using S nftCache_same [OF mc] by (simp add: St_def)
  have run: "GetNft X n s = (bnd (mapErr (notFoundTo AppErrNftNotFound) (GetNftRow n)) (\<lambda>nft.
      bnd (newNft nft) (\<lambda>r. thn (NftCache_Add X n r) (ret r)))) ?g"
    using p lru_getD [OF X, of "w_NftCache s" n]
    by (simp add: GetNft_def bnd_run GetPendingNft_def NftCache_Get_def split_beta)
  show ?thesis
  proof (cases "db_down (w_db s) \<or> dbNft s n = None")
    case True
    then show ?thesis unfolding run using g
      by (auto simp: GetNftRow_def bnd_run mapErr_def dbNft_def orThrow_run split: option.splits)
  next
    case False
    then obtain x where x: "dbNft s n = Some (nftCore x)" "find (\<lambda>x. nft_NftIndex x = n) (db_L2Nft (w_db s)) = Some x"
      by (auto simp: dbNft_def)
    let ?u = "allocNft x ?g"
    let ?d = "x_lruAdd X (w_NftCacheSize s) ?c n (w_next s)"
    have eq: "GetNft X n s = (Ok (w_next s), ?u\<lparr>w_NftCache := ?d\<rparr>)" unfolding run using False x
      by (auto simp: GetNftRow_def bnd_run thn_run mapErr_def dbNft_def orThrow_run alloc_run NftCache_Add_def allocNft_def)
    have u: "St {} {} v ?u" by (rule St_allocNft [OF g])
    then have wu: "wf ?u" by (simp add: St_def)
    have z: "0 < w_NftCacheSize s" using w by (simp add: wfx_def)
    have db: "dbNft ?u = dbNft s" by (simp add: dbNft_def fun_eq_iff)
    have "wf (?u\<lparr>w_NftCache := ?d\<rparr>)"
    proof (rule wfx_NftCache [OF wu])
      fix k r assume k: "map_of ?d k = Some r"
      show "r < w_next ?u \<and> nft_NftIndex (w_nftHeap ?u r) = k \<and> (pendingNft ?u k = None \<longrightarrow> dbNft ?u k = Some (nftCore (w_nftHeap ?u r)))"
      proof (cases "k = n")
        case True
        with k lru_add_same [OF X z] have "r = w_next s" by simp
        with True x(1) dbNft_index [OF x(1)] db show ?thesis by (simp add: allocNft_def)
      next
        case False
        with lru_add_other [OF X False k] mc show ?thesis by (intro nftCache_row [OF wu]) simp
      qed
    qed
    with view_NftCache [OF wu this] u lru_add_same [OF X z] p(1) show ?thesis
      by (auto simp: eq St_def nftRef_def intro!: exI [of _ "nftRef (?u\<lparr>w_NftCache := ?d\<rparr>)"])
  qed
qed

end
