(* ===== verification/Zk_Rules.thy ===== *)
theory Zk_Rules
  imports Zk_Prepare
begin

text \<open>
  Rules of the program logic for the methods the executors share: marking, \<open>BaseExecutor.Prepare\<close>,
  loading accounts and NFTs, \<open>BaseExecutor.VerifyInputs\<close> and the deep copies of the transaction
  details. They extend the collection \<open>triple\<close>.
\<close>

lemma spec_ex:
  assumes "\<And>w. C w \<Longrightarrow> spec (P w) n Q R"
  shows "spec (\<lambda>s. \<exists>w. C w \<and> P w s) n Q R"
proof (rule specI)
  fix s assume "\<exists>w. C w \<and> P w s"
  then obtain w where "C w" "P w s" by blast
  with assms [of w] show "case n s of (Ok a, t) \<Rightarrow> Q a t | (Err e, t) \<Rightarrow> R t | (Panic p, t) \<Rightarrow> False"
    by (simp add: spec_def)
qed

section \<open>Steps of an executor\<close>

lemma spec_updExec [triple]:
  "spec (St D E (v\<lparr>v_exec := f (v_exec v)\<rparr>)) n Q R \<Longrightarrow> spec (St D E v) (thn (modify (updExec f)) n) Q R"
  by (rule spec_modify) (rule St_updExec)

lemma spec_updExec_last [triple]:
  "(\<And>s. St D E (v\<lparr>v_exec := f (v_exec v)\<rparr>) s \<Longrightarrow> Q () s) \<Longrightarrow> spec (St D E v) (modify (updExec f)) Q R"
  by (rule spec_modify_last) (blast intro: St_updExec)

lemma spec_MarkAccount [triple]:
  "spec (St D E (v\<lparr>v_exec := (v_exec v)\<lparr>e_dirtyAccountsAndAssetsMap := markDirty i as (e_dirtyAccountsAndAssetsMap (v_exec v))\<rparr>\<rparr>)) n Q R \<Longrightarrow>
   spec (St D E v) (thn (BaseExecutor_MarkAccountAssetsDirty i as) n) Q R"
  unfolding BaseExecutor_MarkAccountAssetsDirty_def by (rule spec_updExec)

lemma spec_MarkNft [triple]:
  "spec (St D E (v\<lparr>v_exec := (v_exec v)\<lparr>e_dirtyNftMap := mput n True (e_dirtyNftMap (v_exec v))\<rparr>\<rparr>)) m Q R \<Longrightarrow>
   spec (St D E v) (thn (BaseExecutor_MarkNftDirty n) m) Q R"
  unfolding BaseExecutor_MarkNftDirty_def by (rule spec_updExec)

lemma spec_setTxInfo [triple]:
  "spec (St D E (v\<lparr>v_exec := (v_exec v)\<lparr>e_iTxInfo := ti\<rparr>\<rparr>)) m Q R \<Longrightarrow> spec (St D E v) (thn (setTxInfo ti) m) Q R"
  unfolding setTxInfo_def by (rule spec_updExec)

lemma spec_setTxInfo_last [triple]:
  "(\<And>s. St D E (v\<lparr>v_exec := (v_exec v)\<lparr>e_iTxInfo := ti\<rparr>\<rparr>) s \<Longrightarrow> Q () s) \<Longrightarrow> spec (St D E v) (setTxInfo ti) Q R"
  unfolding setTxInfo_def by (rule spec_updExec_last)

lemma spec_MarkAccount_last [triple]:
  "(\<And>s. St D E (v\<lparr>v_exec := (v_exec v)\<lparr>e_dirtyAccountsAndAssetsMap := markDirty i as (e_dirtyAccountsAndAssetsMap (v_exec v))\<rparr>\<rparr>) s \<Longrightarrow> Q () s) \<Longrightarrow>
   spec (St D E v) (BaseExecutor_MarkAccountAssetsDirty i as) Q R"
  unfolding BaseExecutor_MarkAccountAssetsDirty_def by (rule spec_updExec_last)

section \<open>BaseExecutor.Prepare\<close>

text \<open>What no stage changes of the transaction.\<close>

abbreviation txKey :: "Tx \<Rightarrow> string \<times> int" where
  "txKey t \<equiv> (tx_NativeAddress t, tx_TxType t)"

text \<open>
  The state after the accounts were prepared: nothing changed but the executor's transaction, and
  every marked account is resident with its marked entries.
\<close>

definition prepd :: "View \<Rightarrow> View \<Rightarrow> bool" where
  "prepd v w \<longleftrightarrow> quietV v w \<and> v_nref w = v_nref v \<and>
     (\<exists>t. v_exec w = (v_exec v)\<lparr>e_tx := t\<rparr> \<and> txKey t = txKey (e_tx (v_exec v))) \<and>
     (\<forall>i as. marked (e_dirtyAccountsAndAssetsMap (v_exec v)) i as \<longrightarrow> 0 \<le> i \<longrightarrow> (\<forall>a \<in> set as. 0 \<le> a) \<longrightarrow> resident w i as)"

lemma prepd_resident:
  "prepd v w \<Longrightarrow> marked (e_dirtyAccountsAndAssetsMap (v_exec v)) i as \<Longrightarrow> 0 \<le> i \<Longrightarrow> (\<forall>a \<in> set as. 0 \<le> a) \<Longrightarrow> resident w i as"
  by (auto simp: prepd_def)

lemma prepd_quiet: "prepd v w \<Longrightarrow> quietV v w" by (simp add: prepd_def)

lemma prepd_nref: "prepd v w \<Longrightarrow> v_nref w = v_nref v" by (simp add: prepd_def)

lemma prepd_exec:
  assumes "prepd v w"
  obtains t where "v_exec w = (v_exec v)\<lparr>e_tx := t\<rparr>" "txKey t = txKey (e_tx (v_exec v))"
  using assms by (auto simp: prepd_def)

lemma spec_BasePrepare_raw:
  assumes X: "lru_ok X" "lru_order X" "range_ok X" and d: "dirtyOk 5 (e_dirtyAccountsAndAssetsMap (v_exec v))"
  shows "spec (St {} {} v) (BaseExecutor_Prepare X) (\<lambda>_ s. \<exists>w. prepd v w \<and> St {} {} w s) (quiet v)"
proof -
  let ?d = "e_dirtyAccountsAndAssetsMap (v_exec v)"
  have P: "spec (St {} {} u) (PrepareAccountsAndAssets X ?d) (\<lambda>_ s. \<exists>w. prepd v w \<and> St {} {} w s) (quiet v)"
    if u: "u = v\<lparr>v_exec := (v_exec v)\<lparr>e_tx := t\<rparr>\<rparr>" "txKey t = txKey (e_tx (v_exec v))" for u t
  proof (rule specI)
    fix s assume S: "St {} {} u s"
    show "case PrepareAccountsAndAssets X ?d s of (Ok _, t) \<Rightarrow> \<exists>w. prepd v w \<and> St {} {} w t | (Err e, t) \<Rightarrow> quiet v t
        | (Panic p, t) \<Rightarrow> False"
    proof (cases "PrepareAccountsAndAssets X ?d s")
      case (Pair r z)
      note A = PrepareAccountsAndAssets_view [OF X d S, unfolded Pair]
      have q: "quietV u w \<longleftrightarrow> quietV v w" for w using u by simp
      show ?thesis
      proof (cases r)
        case (Ok a)
        with A obtain w where w: "St {} {} w z" "quietV u w" "v_nref w = v_nref u" "v_exec w = v_exec u"
          "\<And>i m. mget ?d i = Some m \<Longrightarrow> resident w i (mkeys m)" by auto
        have "resident w i as" if "marked ?d i as" "0 \<le> i" "\<forall>a \<in> set as. 0 \<le> a" for i as
          using that w(5) [of i] by (auto simp: marked_def resident_def)
        with w u q have "prepd v w" by (auto simp: prepd_def)
        with w(1) show ?thesis using Pair Ok by auto
      qed (use A q Pair in \<open>auto simp: quiet_def\<close>)
    qed
  qed
  show ?thesis unfolding BaseExecutor_Prepare_def Let_def
  proof (rule spec_gets_exec(1), rule spec_thn_if)
    show "spec (St {} {} v) (thn (bnd (ofSum (x_Hash X (e_iTxInfo (v_exec v)))) (\<lambda>hash. modify (updTx (\<lambda>t. t\<lparr>
        tx_TxHash := x_Bytes2Hex X hash, tx_AccountIndex := x_GetFromAccountIndex X (e_iTxInfo (v_exec v)),
        tx_Nonce := x_GetNonce X (e_iTxInfo (v_exec v)), tx_ExpiredAt := x_GetExpiredAt X (e_iTxInfo (v_exec v))\<rparr>))))
        (PrepareAccountsAndAssets X ?d)) (\<lambda>_ s. \<exists>w. prepd v w \<and> St {} {} w s) (quiet v)"
    proof (cases "x_Hash X (e_iTxInfo (v_exec v))")
      case (Inr h)
      show ?thesis unfolding Inr ofSum_def updTx_def sum.case bnd_ret by (rule spec_updExec, rule P [OF refl]) simp
    qed (auto simp: spec_def thn_run bnd_run ofSum_run intro: quietI)
    show "spec (St {} {} v) (thn (ret ()) (PrepareAccountsAndAssets X ?d)) (\<lambda>_ s. \<exists>w. prepd v w \<and> St {} {} w s) (quiet v)"
      by (rule spec_thn_ret, rule P [of _ "e_tx (v_exec v)"]) simp_all
  qed
qed

lemma spec_BasePrepare:
  assumes "lru_ok X" "lru_order X" "range_ok X" "dirtyOk 5 (e_dirtyAccountsAndAssetsMap (v_exec v))"
    and "\<And>s. quiet v s \<Longrightarrow> R s" "\<And>w. prepd v w \<Longrightarrow> spec (St {} {} w) n Q R"
  shows "spec (St {} {} v) (thn (BaseExecutor_Prepare X) n) Q R"
proof (rule spec_thn)
  show "spec (St {} {} v) (BaseExecutor_Prepare X) (\<lambda>_ s. \<exists>w. prepd v w \<and> St {} {} w s) R"
    by (rule spec_weaken [OF spec_BasePrepare_raw [OF assms(1-4)]]) (use assms(5) in auto)
  show "spec (\<lambda>s. \<exists>w. prepd v w \<and> St {} {} w s) n Q R" by (rule spec_ex) (rule assms(6))
qed

lemma spec_BasePrepare_last:
  assumes "lru_ok X" "lru_order X" "range_ok X" "dirtyOk 5 (e_dirtyAccountsAndAssetsMap (v_exec v))"
    and "\<And>s. quiet v s \<Longrightarrow> R s" "\<And>w s. prepd v w \<Longrightarrow> St {} {} w s \<Longrightarrow> Q () s"
  shows "spec (St {} {} v) (BaseExecutor_Prepare X) Q R"
  by (rule spec_weaken [OF spec_BasePrepare_raw [OF assms(1-4)]]) (use assms(5,6) in auto)

section \<open>Loading\<close>

lemma spec_GetFormatAccount_any:
  assumes X: "lru_ok X" "lru_order X" and R: "\<And>s. quiet v s \<Longrightarrow> R s"
    and f: "\<And>r w. quietV v w \<Longrightarrow> v_ref w i = Some r \<Longrightarrow> v_nref w = v_nref v \<Longrightarrow> v_exec w = v_exec v \<Longrightarrow>
      spec (St {} {} w) (f r) Q R"
  shows "spec (St {} {} v) (bnd (GetFormatAccount X i) f) Q R"
proof (rule specI)
  fix s assume "St {} {} v s"
  then have w: "wf s" and v: "v = view s" by (auto simp: St_def)
  note G = GetFormatAccount_load [OF X w, of i]
  show "case bnd (GetFormatAccount X i) f s of (Ok a, t) \<Rightarrow> Q a t | (Err e, t) \<Rightarrow> R t | (Panic p, t) \<Rightarrow> False"
  proof (cases "GetFormatAccount X i s")
    case (Pair res t)
    show ?thesis
    proof (cases res)
      case (Ok r)
      with Pair G have l: "loaded s i t" and r: "acctRef t i = Some r" by auto
      then have "nftRef t = nftRef s" by (simp add: loaded_def quietS_def nftRef_def fun_eq_iff cong: option.case_cong)
      with l quietS_view [of s t] have "spec (St {} {} (view t)) (f r) Q R" "St {} {} (view t) t"
        by (auto simp: loaded_def v r intro!: f)
      with Pair Ok show ?thesis by (simp add: bnd_run spec_def)
    next
      case (Err e)
      with Pair G quietS_view [of s t] have "quiet v t" by (auto simp: v intro: quietI)
      with Pair Err show ?thesis by (simp add: bnd_run R)
    qed (use Pair G in auto)
  qed
qed

text \<open>An account that exists nowhere: the load fails and changes nothing.\<close>

lemma spec_GetFormatAccount_absent:
  assumes X: "lru_ok X" "lru_order X" and i: "l_id (v_led v) i = None" and R: "\<And>s. St {} {} v s \<Longrightarrow> R s"
  shows "spec (St {} {} v) (bnd (GetFormatAccount X i) f) Q R"
proof (rule specI)
  fix s assume S: "St {} {} v s"
  then have "acct s i = None" using i by (auto simp: St_def ledgerOf_def)
  then have n: "pendingAcc s i = None" "map_of (w_AccountCache s) i = None" and d: "dbAcc s i = None"
    by (auto simp: acct_def acctRef_def split: option.splits)
  let ?c = "snd (x_lruGet X (w_AccountCache s) i)"
  have "St {} {} v (s\<lparr>w_AccountCache := ?c\<rparr>)"
    using S accountCache_same [OF lru_get_keeps [OF X(1), of "w_AccountCache s" i]] by (simp add: St_def)
  moreover have "\<exists>e. GetFormatAccount X i s = (Err e, s\<lparr>w_AccountCache := ?c\<rparr>)"
    using n d lru_getD [OF X(1), of "w_AccountCache s" i]
    by (auto simp: GetFormatAccount_def bnd_run GetPendingAccount_def AccountCache_Get_def split_beta GetAccountByIndex_def
        mapErr_def dbAcc_def orThrow_run ofSum_run split: option.splits sum.splits)
  ultimately show "case bnd (GetFormatAccount X i) f s of (Ok a, t) \<Rightarrow> Q a t | (Err e, t) \<Rightarrow> R t | (Panic p, t) \<Rightarrow> False"
    using R by (auto simp: bnd_run)
qed

lemma PrepareNft_GetNft: "\<not> w_dryRun s \<Longrightarrow> PrepareNft X n s = GetNft X n s"
  by (simp add: PrepareNft_def thn_run bnd_run)

lemma St_dryRun: "St D E v s \<Longrightarrow> \<not> w_dryRun s" by (simp add: St_def wfx_def)

lemma spec_GetNft_any:
  assumes X: "lru_ok X" and R: "\<And>s. St {} {} v s \<Longrightarrow> R s"
    and f: "\<And>r ns. ns n = Some r \<Longrightarrow> spec (St {} {} (v\<lparr>v_nref := ns\<rparr>)) (f r) Q R"
  shows "spec (St {} {} v) (bnd (GetNft X n) f) Q R"
proof (rule specI)
  fix s assume S: "St {} {} v s"
  note G = GetNft_load [OF X S, of n]
  show "case bnd (GetNft X n) f s of (Ok a, t) \<Rightarrow> Q a t | (Err e, t) \<Rightarrow> R t | (Panic p, t) \<Rightarrow> False"
  proof (cases "GetNft X n s")
    case (Pair res t)
    show ?thesis
    proof (cases res)
      case (Ok r)
      with G Pair obtain ns where "ns n = Some r" "St {} {} (v\<lparr>v_nref := ns\<rparr>) t" by auto
      with f [of ns r] Ok Pair show ?thesis by (simp add: bnd_run spec_def)
    qed (use G Pair R in \<open>auto simp: bnd_run\<close>)
  qed
qed

lemma spec_PrepareNft [triple]:
  assumes X: "lru_ok X" and R: "\<And>s. St {} {} v s \<Longrightarrow> R s"
    and f: "\<And>r ns. ns n = Some r \<Longrightarrow> spec (St {} {} (v\<lparr>v_nref := ns\<rparr>)) (f r) Q R"
  shows "spec (St {} {} v) (bnd (PrepareNft X n) f) Q R"
    and "spec (St {} {} v) (bnd (mapErr g (PrepareNft X n)) f) Q R"
proof -
  note N = spec_GetNft_any [OF X R f]
  show "spec (St {} {} v) (bnd (PrepareNft X n) f) Q R"
    using N by (simp add: spec_def bnd_run PrepareNft_GetNft [OF St_dryRun])
  show "spec (St {} {} v) (bnd (mapErr g (PrepareNft X n)) f) Q R"
    using N by (fastforce simp: spec_def bnd_run mapErr_def PrepareNft_GetNft [OF St_dryRun] split: prod.splits res.splits)
qed

text \<open>A read that leaves the state alone, when nothing is known of its value.\<close>

lemma spec_pure:
  assumes "\<And>s. St D E v s \<Longrightarrow> snd (m s) = s \<and> (\<forall>p. fst (m s) \<noteq> Panic p)"
    and "\<And>a. spec (St D E v) (f a) Q R" "\<And>s. St D E v s \<Longrightarrow> R s"
  shows "spec (St D E v) (bnd m f) Q R"
proof (rule specI)
  fix s assume S: "St D E v s"
  with assms(1) [OF S] assms(2,3)
  show "case bnd m f s of (Ok a, t) \<Rightarrow> Q a t | (Err e, t) \<Rightarrow> R t | (Panic p, t) \<Rightarrow> False"
    by (cases "m s"; cases "fst (m s)") (auto simp: bnd_run spec_def)
qed

text \<open>
  Every known account has a non-negative index not above the counter of the asset trees, as does
  every row of the account table.
\<close>

definition idsOk :: "View \<Rightarrow> bool" where
  "idsOk v \<longleftrightarrow> (\<forall>i. l_id (v_led v) i \<noteq> None \<longrightarrow> 0 \<le> i \<and> i \<le> v_nextAcc v) \<and>
     (\<forall>a \<in> set (db_Account (v_db v)). 0 \<le> ac_AccountIndex a)"

lemma idsOk_quiet: "quietV v w \<Longrightarrow> idsOk w = idsOk v" by (simp add: idsOk_def quietV_def)

text \<open>The account found under a name hash: a known account with that hash, or a row with that hash.\<close>

definition accountNamed :: "View \<Rightarrow> string \<Rightarrow> int \<Rightarrow> bool" where
  "accountNamed v h i \<longleftrightarrow> 0 \<le> i \<and> ((\<exists>acc. l_id (v_led v) i = Some acc \<and> ai_AccountNameHash acc = h) \<or>
     (\<exists>a \<in> set (db_Account (v_db v)). ac_AccountIndex a = i \<and> ac_AccountNameHash a = h))"

lemma findPending_account:
  assumes "range_ok X" "wfx D E s" "findPending X P s = Some acc"
  shows "P acc \<and> l_id (ledgerOf s) (ai_AccountIndex acc) = Some (ident acc)"
proof -
  let ?ks = "x_range X (mkeys (sc_PendingAccountMap (w_sc s)))"
  from assms(3) obtain i where i: "i \<in> set ?ks" "acc = w_accHeap s (the (pendingAcc s i))" "P acc"
    unfolding findPending_def find_Some_iff by (auto simp: set_conv_nth) metis
  then obtain r where r: "pendingAcc s i = Some r" using assms(1) by (auto simp: range_ok_def mkeys_dom)
  then have "acctRef s i = Some r" by (simp add: acctRef_def)
  with i r wfx_ref(2) [OF assms(2) this] show ?thesis by (simp add: ledgerOf_def acct_def)
qed

lemma spec_GetAccountByNameHash:
  assumes "range_ok X" "idsOk v" "\<And>s. St D E v s \<Longrightarrow> R s"
    and "\<And>a. accountNamed v h (ac_AccountIndex a) \<Longrightarrow> spec (St D E v) (f a) Q R"
  shows "spec (St D E v) (bnd (GetAccountByNameHash X h) f) Q R"
proof (rule specI)
  fix s assume S: "St D E v s"
  let ?goal = "case bnd (GetAccountByNameHash X h) f s of (Ok a, t) \<Rightarrow> Q a t | (Err e, t) \<Rightarrow> R t | (Panic p, t) \<Rightarrow> False"
  show ?goal
  proof (cases "findPending X (\<lambda>a. ai_AccountNameHash a = h) s")
    case (Some acc)
    from findPending_account [OF assms(1) _ Some] S assms(2)
    have "accountNamed v h (ac_AccountIndex (FromFormatAccountInfo acc))"
      by (auto simp: St_def accountNamed_def idsOk_def FromFormatAccountInfo_def ident_def)
    from assms(4) [OF this] S Some show ?thesis by (simp add: GetAccountByNameHash_def bnd_run spec_def)
  next
    case None
    let ?row = "find (\<lambda>a. ac_AccountNameHash a = h) (db_Account (w_db s))"
    show ?thesis
    proof (cases "db_down (w_db s) \<or> ?row = None")
      case True
      with None S assms(3) show ?thesis
        by (auto simp: GetAccountByNameHash_def GetAccountRowByNameHash_def bnd_run orThrow_run)
    next
      case False
      then obtain a where a: "?row = Some a" by blast
      then have "a \<in> set (db_Account (w_db s))" "ac_AccountNameHash a = h" by (auto simp: find_Some_iff)
      with S assms(2) have "accountNamed v h (ac_AccountIndex a)" by (auto simp: St_def accountNamed_def idsOk_def)
      from assms(4) [OF this] S None False a show ?thesis
        by (simp add: GetAccountByNameHash_def GetAccountRowByNameHash_def bnd_run orThrow_run spec_def)
    qed
  qed
qed

text \<open>Next NFT index: above every known NFT, as long as the counter does not wrap.\<close>

definition nftAbove :: "Ledger \<Rightarrow> int \<Rightarrow> bool" where
  "nftAbove L n \<longleftrightarrow> (\<forall>k. l_nft L k \<noteq> None \<longrightarrow> k < n)"

lemma fold_max_ge: "(a :: int) \<le> fold max xs a \<and> (\<forall>x \<in> set xs. x \<le> fold max xs a)"
proof (induction xs arbitrary: a)
  case (Cons x xs)
  from Cons.IH [of "max x a"] show ?case by auto
qed simp

lemma fold_max_in: "fold max xs (a :: int) = a \<or> fold max xs a \<in> set xs"
proof (induction xs arbitrary: a)
  case (Cons x xs)
  from Cons.IH [of "max x a"] show ?case by (auto simp: max_def split: if_splits)
qed simp

lemma nft_row: "k \<in> nft_NftIndex ` set (db_L2Nft (w_db s)) \<Longrightarrow> dbNft s k \<noteq> None"
  by (auto simp: dbNft_def find_None_iff)

lemma nft_known:
  assumes "wf s" "nftv s k \<noteq> None"
  shows "k \<in> set (mkeys (sc_PendingNftMap (w_sc s))) \<or> k \<in> nft_NftIndex ` set (db_L2Nft (w_db s))"
proof (cases "pendingNft s k")
  case None
  with assms nftv_dbNft [OF assms(1) None] obtain x where "dbNft s k = Some x" by auto
  then show ?thesis by (auto simp: dbNft_def find_Some_iff)
qed (simp add: mkeys_dom)

lemma spec_GetNextNftIndex:
  assumes "\<not> db_down (v_db v)"
    and f: "\<And>n. (\<forall>k. l_nft (v_led v) k \<noteq> None \<longrightarrow> k < 2 ^ 63 - 1) \<longrightarrow> nftAbove (v_led v) n \<Longrightarrow> spec (St {} {} v) (f n) Q R"
  shows "spec (St {} {} v) (bnd GetNextNftIndex f) Q R"
proof (rule spec_read [where C = "\<lambda>n. (\<forall>k. l_nft (v_led v) k \<noteq> None \<longrightarrow> k < 2 ^ 63 - 1) \<longrightarrow> nftAbove (v_led v) n"])
  fix s assume S: "St {} {} v s"
  then have w: "wf s" and L: "l_nft (v_led v) = nftv s" by (auto simp: St_def ledgerOf_def)
  define I where "I = nft_NftIndex ` set (db_L2Nft (w_db s))"
  define ks where "ks = mkeys (sc_PendingNftMap (w_sc s))"
  define m where "m = fold max ks (if db_L2Nft (w_db s) = [] then -1 else Max I)"
  have run: "GetNextNftIndex s = (Ok (wrap64 (m + 1)), s)" using S assms(1)
    by (auto simp: GetNextNftIndex_def GetLatestNftIndex_def bnd_run mustOk_def St_def m_def ks_def I_def)
  have I: "finite I" "I = {} \<longleftrightarrow> db_L2Nft (w_db s) = []" by (auto simp: I_def)
  have le: "k \<le> m" if "nftv s k \<noteq> None" for k
    using nft_known [OF w that, folded I_def ks_def] fold_max_ge [of "if db_L2Nft (w_db s) = [] then -1 else Max I" ks] I Max_ge [of I k]
    by (auto simp: m_def split: if_splits)
  have "m = -1 \<or> nftv s m \<noteq> None"
  proof (cases "pendingNft s m")
    case None
    then have "m \<notin> set ks" by (simp add: ks_def mkeys_dom)
    with fold_max_in [of ks "if db_L2Nft (w_db s) = [] then -1 else Max I"] I Max_in [of I]
    have "m = -1 \<or> m \<in> I" by (auto simp: m_def split: if_splits)
    with nft_row [of m s] nftv_dbNft [OF w None] show ?thesis by (auto simp: I_def)
  qed (simp add: nftv_def nftRef_def)
  then have "nftAbove (v_led v) (wrap64 (m + 1))" if "\<forall>k. l_nft (v_led v) k \<noteq> None \<longrightarrow> k < 2 ^ 63 - 1"
  proof -
    from \<open>m = -1 \<or> nftv s m \<noteq> None\<close> that have "m + 1 < 2 ^ 63" by (auto simp: L)
    then have "m < wrap64 (m + 1)" using wrap64_range [of "m + 1"] wrap64_id [of "m + 1"]
      by (cases "- (2 ^ 63) \<le> m + 1") auto
    with le show ?thesis by (fastforce simp: nftAbove_def L)
  qed
  with S run show "\<exists>a t. GetNextNftIndex s = (Ok a, t) \<and> St {} {} v t \<and>
      ((\<forall>k. l_nft (v_led v) k \<noteq> None \<longrightarrow> k < 2 ^ 63 - 1) \<longrightarrow> nftAbove (v_led v) a)" by blast
qed (rule f)

lemma spec_nftAt_any: "(\<And>x. spec (St D E v) (f x) Q R) \<Longrightarrow> spec (St D E v) (bnd (nftAt r) f) Q R"
  by (simp add: spec_def bnd_run at_run)

text \<open>
  \<open>GetNft\<close> reports a missing row as \<open>AppErrNftNotFound\<close>, so a caller never sees \<open>DbErrNotFound\<close>.
\<close>

lemma GetNft_error: "GetNft X n s = (Err e, t) \<Longrightarrow> e \<noteq> DbErrNotFound"
  by (auto simp: GetNft_def bnd_run thn_run NftCache_Get_def split_beta GetNftRow_def mapErr_def orThrow_run alloc_run
      NftCache_Add_def notFoundTo_def AppErrNftNotFound_def split: option.splits if_splits)

lemma spec_attempt_GetNft:
  assumes X: "lru_ok X" and e: "\<And>e. e \<noteq> DbErrNotFound \<Longrightarrow> spec (St {} {} v) (f (Inl e)) Q R"
    and f: "\<And>r ns. ns n = Some r \<Longrightarrow> spec (St {} {} (v\<lparr>v_nref := ns\<rparr>)) (f (Inr r)) Q R"
  shows "spec (St {} {} v) (bnd (attempt (GetNft X n)) f) Q R"
    and "spec (St {} {} v) (bnd (attempt (PrepareNft X n)) f) Q R"
proof -
  show A: "spec (St {} {} v) (bnd (attempt (GetNft X n)) f) Q R"
  proof (rule specI)
    fix s assume S: "St {} {} v s"
    note G = GetNft_load [OF X S, of n]
    show "case bnd (attempt (GetNft X n)) f s of (Ok a, t) \<Rightarrow> Q a t | (Err e, t) \<Rightarrow> R t | (Panic p, t) \<Rightarrow> False"
    proof (cases "GetNft X n s")
      case (Pair res t)
      show ?thesis
      proof (cases res)
        case (Ok r)
        with G Pair obtain ns where "ns n = Some r" "St {} {} (v\<lparr>v_nref := ns\<rparr>) t" by auto
        with f [of ns r] Ok Pair show ?thesis by (simp add: bnd_run attempt_def spec_def)
      next
        case (Err x)
        with G Pair e [of x] GetNft_error [of X n s x t] show ?thesis by (simp add: bnd_run attempt_def spec_def)
      qed (use G Pair in auto)
    qed
  qed
  then show "spec (St {} {} v) (bnd (attempt (PrepareNft X n)) f) Q R"
    by (simp add: spec_def bnd_run attempt_def PrepareNft_GetNft [OF St_dryRun])
qed

section \<open>BaseExecutor.VerifyInputs\<close>

lemma spec_VerifyExpiredAt [triple]:
  assumes "\<And>s. St D E v s \<Longrightarrow> R s" "bk_CreatedAt (v_blk v) \<le> e \<Longrightarrow> spec (St D E v) n Q R"
  shows "spec (St D E v) (thn (VerifyExpiredAt e) n) Q R" "spec (St D E v) (thn (mapErr g (VerifyExpiredAt e)) n) Q R"
proof -
  have run: "VerifyExpiredAt e s = (if e < bk_CreatedAt (v_blk v) then (Err AppErrInvalidExpireTime, s) else (Ok (), s))"
    if "St D E v s" for s
    using that St_dryRun [OF that] by (auto simp: VerifyExpiredAt_def bnd_run failIf_run St_def)
  show "spec (St D E v) (thn (VerifyExpiredAt e) n) Q R" "spec (St D E v) (thn (mapErr g (VerifyExpiredAt e)) n) Q R"
    using assms by (simp_all add: spec_def thn_run run mapErr_def)
qed

lemma spec_VerifyNonce [triple]:
  assumes "lru_ok X" "v_ref v i = Some r" "\<And>s. St D E v s \<Longrightarrow> R s"
    and "nonce = l_nonce (v_led v) i \<Longrightarrow> spec (St D E v) n Q R"
  shows "spec (St D E v) (thn (VerifyNonce X i nonce) n) Q R"
proof (rule specI)
  fix s assume S: "St D E v s"
  then have "acctRef s i = Some r" using assms(2) by (auto simp: St_def)
  from GetFormatAccount_resident [OF assms(1) this] obtain c where
    c: "map_of c = map_of (w_AccountCache s)" "GetFormatAccount X i s = (Ok r, s\<lparr>w_AccountCache := c\<rparr>)" by blast
  have "ai_Nonce (w_accHeap s r) = l_nonce (v_led v) i"
    using S assms(2) accIs_ref [of D E s i r] by (auto simp: St_def accIs_def)
  moreover have "St D E v (s\<lparr>w_AccountCache := c\<rparr>)" using S accountCache_same [OF c(1)] by (simp add: St_def)
  ultimately show "case thn (VerifyNonce X i nonce) n s of (Ok a, t) \<Rightarrow> Q a t | (Err e, t) \<Rightarrow> R t | (Panic p, t) \<Rightarrow> False"
    using c(2) St_dryRun [OF S] assms(3,4)
    by (auto simp: thn_run VerifyNonce_def GetCommittedNonce_def bnd_run at_run failIf_run spec_def)
qed

text \<open>The gas configuration is cached in Redis, which the view leaves out.\<close>

lemma St_redis [simp]: "St D E v (s\<lparr>w_redis := rd\<rparr>) = St D E v s"
proof -
  let ?t = "s\<lparr>w_redis := rd\<rparr>"
  have a: "acctRef ?t = acctRef s" "nftRef ?t = nftRef s" "dbAcc ?t = dbAcc s" "dbNft ?t = dbNft s"
    by (simp_all add: acctRef_def [abs_def] nftRef_def [abs_def] dbAcc_def [abs_def] dbNft_def [abs_def] cong: option.case_cong)
  then have "view ?t = view s" by (intro view_eqI) simp_all
  with a show ?thesis by (simp add: St_def wfx_def)
qed

lemma spec_orThrow: "spec P (orThrow e x) (\<lambda>_. P) P"
  by (auto simp: spec_def orThrow_run split: option.splits)

lemma spec_VerifyGas: "spec (St D E v) (VerifyGas X i a ty fee skip) (\<lambda>_. St D E v) (St D E v)"
proof -
  have "spec (St D E v) GetGasAccountIndex (\<lambda>_. St D E v) (St D E v)"
    by (auto simp: spec_def GetGasAccountIndex_def GetSysConfigByName_def bnd_run thn_run orThrow_run mapErr_def split: option.splits)
  moreover have "spec (St D E v) (GetGasConfig X) (\<lambda>_. St D E v) (St D E v)"
    by (auto simp: spec_def GetGasConfig_def GetSysConfigByName_def bnd_run thn_run orThrow_run mapErr_def ofSum_run
        split: option.splits sum.splits)
  ultimately show ?thesis unfolding VerifyGas_def
    by (auto intro!: spec_bnd [where Q' = "\<lambda>_. St D E v"] spec_thn [where Q' = "\<lambda>_. St D E v"] spec_if spec_ret spec_failIf_last spec_orThrow)
qed

text \<open>What a verified L2 transaction satisfies, of its payload and the ledger.\<close>

definition signed :: "Lib \<Rightarrow> Ledger \<Rightarrow> int \<Rightarrow> TxInfo \<Rightarrow> bool" where
  "signed X L now ti \<longleftrightarrow> x_Validate X ti = None \<and> payloadFrom ti \<noteq> NilAccountIndex \<and> now \<le> payloadExpiredAt ti \<and>
     payloadNonce ti = l_nonce L (payloadFrom ti) \<and>
     (\<exists>acc. l_id L (payloadFrom ti) = Some acc \<and> x_VerifySignature X ti (ai_PublicKey acc) = None)"

lemma spec_BaseVerify:
  assumes X: "lru_ok X" "accessors_ok X" and ti: "e_iTxInfo (v_exec v) = ti"
    and n: "x_Validate X ti = None \<Longrightarrow> payloadFrom ti \<noteq> NilAccountIndex \<and> v_ref v (payloadFrom ti) \<noteq> None"
    and R: "\<And>s. St D E v s \<Longrightarrow> R s" and Q: "signed X (v_led v) (bk_CreatedAt (v_blk v)) ti \<Longrightarrow> spec (St D E v) m Q R"
  shows "spec (St D E v) (thn (BaseExecutor_VerifyInputs X skip) m) Q R"
proof -
  let ?from = "payloadFrom ti"
  have A: "spec (St D E v) (BaseExecutor_VerifyInputs X skip) (\<lambda>_ s. signed X (v_led v) (bk_CreatedAt (v_blk v)) ti \<and> St D E v s) R"
    unfolding BaseExecutor_VerifyInputs_def
  proof (rule spec_gets_exec(2), unfold ti, rule spec_failOn [OF R], assumption)
    assume val: "x_Validate X ti = None"
    with n obtain r where f: "?from \<noteq> NilAccountIndex" "v_ref v ?from = Some r" by auto
    from X(2) f(1) have acc: "x_GetFromAccountIndex X ti = ?from" "x_GetNonce X ti = payloadNonce ti"
      "x_GetExpiredAt X ti = payloadExpiredAt ti" "x_GetGas X ti = payloadGas ti" by (auto simp: accessors_ok_def)
    show "spec (St D E v) (thn (VerifyExpiredAt (x_GetExpiredAt X ti)) (let from = x_GetFromAccountIndex X ti in
        if from \<noteq> NilAccountIndex then thn (VerifyNonce X from (x_GetNonce X ti)) (case x_GetGas X ti of (gasAccountIndex, gasFeeAssetId, gasFeeAmount) \<Rightarrow>
          thn (VerifyGas X gasAccountIndex gasFeeAssetId (x_GetTxType X ti) gasFeeAmount skip)
          (bnd (GetFormatAccount X from) (\<lambda>r. bnd (accountAt r) (\<lambda>fromAccount. failOn (x_VerifySignature X ti (ai_PublicKey fromAccount))))))
        else ret ())) (\<lambda>_ s. signed X (v_led v) (bk_CreatedAt (v_blk v)) ti \<and> St D E v s) R"
      unfolding acc Let_def split_beta
      apply (rule spec_VerifyExpiredAt, erule R)
      apply (rule spec_if, rule spec_VerifyNonce [OF X(1) f(2)], erule R)
       apply (rule spec_thn [where Q' = "\<lambda>_. St D E v"], rule spec_weaken [OF spec_VerifyGas], assumption, assumption, erule R)
       apply (rule spec_GetFormatAccount [OF X(1) f(2)], rule spec_accountAt [OF f(2)], rule spec_failOn_last, erule R)
       apply (auto simp: signed_def val f accIs_def ident_def)
      done
  qed
  show ?thesis by (rule spec_thn [OF A]) (use Q in \<open>auto simp: spec_def\<close>)
qed

section \<open>Deep copies\<close>

text \<open>Which accounts a map of copies has, and which entries they have.\<close>

definition shape :: "copies \<Rightarrow> int \<Rightarrow> (int \<Rightarrow> bool) option" where
  "shape cs i = map_option (\<lambda>acc a. ai_AssetInfo acc a \<noteq> None) (cs i)"

lemma deepCopyLoop_spec:
  assumes X: "lru_ok X" "lru_order X" and R: "\<And>s. St {} {} v s \<Longrightarrow> R s"
    and "\<forall>i \<in> set ids. v_ref v i \<noteq> None \<or> l_id (v_led v) i = None" "\<forall>i acc. cs i = Some acc \<longrightarrow> accIs v i acc \<and> v_ref v i \<noteq> None"
  shows "spec (St {} {} v) (deepCopyLoop X ids cs) (\<lambda>cs' s. St {} {} v s \<and> (\<forall>i acc. cs' i = Some acc \<longrightarrow> accIs v i acc \<and> v_ref v i \<noteq> None) \<and>
    (\<forall>i \<in> set ids \<union> dom cs. cs' i \<noteq> None)) R"
  using assms(4,5)
proof (induction ids arbitrary: cs)
  case Nil
  then show ?case by (auto simp: spec_def)
next
  case (Cons i ids)
  show ?case
  proof (cases "cs i")
    case (Some acc)
    with Cons.IH [of cs] Cons.prems show ?thesis
      by (simp) (erule spec_weaken, auto)
  next
    case None
    show ?thesis
    proof (cases "v_ref v i")
      case (Some r)
      have "spec (St {} {} v) (bnd (GetFormatAccount X i) (\<lambda>r. bnd (accountAt r) (\<lambda>acc. deepCopyLoop X ids (cs(i \<mapsto> acc)))))
          (\<lambda>cs' s. St {} {} v s \<and> (\<forall>i acc. cs' i = Some acc \<longrightarrow> accIs v i acc \<and> v_ref v i \<noteq> None) \<and>
            (\<forall>i \<in> set (i # ids) \<union> dom cs. cs' i \<noteq> None)) R"
      proof (rule spec_GetFormatAccount [OF X(1) Some], rule spec_accountAt [OF Some])
        fix acc assume "accIs v i acc"
        with Cons.prems Some have "\<forall>j ac. (cs(i \<mapsto> acc)) j = Some ac \<longrightarrow> accIs v j ac \<and> v_ref v j \<noteq> None"
          "\<forall>i \<in> set ids. v_ref v i \<noteq> None \<or> l_id (v_led v) i = None" by (auto split: if_splits)
        from Cons.IH [OF this(2,1)]
        show "spec (St {} {} v) (deepCopyLoop X ids (cs(i \<mapsto> acc)))
            (\<lambda>cs' s. St {} {} v s \<and> (\<forall>i acc. cs' i = Some acc \<longrightarrow> accIs v i acc \<and> v_ref v i \<noteq> None) \<and>
              (\<forall>i \<in> set (i # ids) \<union> dom cs. cs' i \<noteq> None)) R"
          by (rule spec_weaken) auto
      qed
      then show ?thesis using None by simp
    next
      case absent: None
      with Cons.prems(1) have "l_id (v_led v) i = None" by simp
      from spec_GetFormatAccount_absent [OF X this R] None show ?thesis by simp
    qed
  qed
qed

lemma spec_DeepCopy [triple]:
  assumes "lru_ok X" "lru_order X" "\<And>s. St {} {} v s \<Longrightarrow> R s"
    and "\<forall>i \<in> set ids. v_ref v i \<noteq> None \<or> l_id (v_led v) i = None"
    and f: "\<And>cs. \<forall>i \<in> set ids. v_ref v i \<noteq> None \<Longrightarrow> \<forall>i \<in> set ids. shape cs i = Some (v_has v i) \<Longrightarrow> spec (St {} {} v) (f cs) Q R"
  shows "spec (St {} {} v) (bnd (DeepCopyAccounts X ids) f) Q R"
  unfolding DeepCopyAccounts_def
proof (rule spec_bnd [OF deepCopyLoop_spec [OF assms(1-4)]])
  fix cs
  let ?C = "(\<forall>i acc. cs i = Some acc \<longrightarrow> accIs v i acc \<and> v_ref v i \<noteq> None) \<and> (\<forall>i \<in> set ids. cs i \<noteq> None)"
  have "spec (St {} {} v) (f cs) Q R" if C: ?C
  proof (rule f)
    show "\<forall>i \<in> set ids. v_ref v i \<noteq> None" using C by fastforce
    show "\<forall>i \<in> set ids. shape cs i = Some (v_has v i)" using C by (fastforce simp: shape_def accIs_def)
  qed
  then show "spec (\<lambda>s. St {} {} v s \<and> (\<forall>i acc. cs i = Some acc \<longrightarrow> accIs v i acc \<and> v_ref v i \<noteq> None) \<and>
      (\<forall>i \<in> set ids \<union> dom (\<lambda>_. None). cs i \<noteq> None)) (f cs) Q R"
    by (auto simp: spec_def)
qed auto

text \<open>The computations on copies do not touch the state.\<close>

lemma spec_value: "(\<And>s. m s = (Ok a, s)) \<Longrightarrow> spec P (f a) Q R \<Longrightarrow> spec P (bnd m f) Q R"
  by (simp add: spec_def bnd_run)

lemma spec_copyOf [triple]:
  "shape cs i = Some h \<Longrightarrow> (\<And>acc. spec P (f acc) Q R) \<Longrightarrow> spec P (bnd (copyOf cs i) f) Q R"
  by (auto simp: copyOf_def shape_def orPanic_def)

lemma spec_fungibleRow [triple]:
  "shape cs i = Some h \<Longrightarrow> (\<And>d. spec P (f d) Q R) \<Longrightarrow> spec P (bnd (fungibleRow cs a i x n m b) f) Q R"
  by (rule spec_value [where a = "fungibleDetail a i (the (cs i)) x n m b"])
    (auto simp: fungibleRow_def copyOf_def shape_def orPanic_run bnd_run)

lemma spec_copyAsset [triple]:
  "shape cs i = Some h \<Longrightarrow> h a \<Longrightarrow> (\<And>x. spec P (f x) Q R) \<Longrightarrow> spec P (bnd (copyAsset cs i a) f) Q R"
  by (rule spec_value [where a = "the (ai_AssetInfo (the (cs i)) a)"])
    (auto simp: copyAsset_def copyOf_def shape_def orPanic_run bnd_run)

lemma spec_copyMut:
  assumes "shape cs i = Some h" "\<And>acc. h = (\<lambda>a. ai_AssetInfo acc a \<noteq> None) \<Longrightarrow>
      \<exists>acc'. g acc = Some acc' \<and> (\<forall>a. ai_AssetInfo acc' a \<noteq> None \<longleftrightarrow> ai_AssetInfo acc a \<noteq> None)"
    and "\<And>cs'. shape cs' = shape cs \<Longrightarrow> spec P (f cs') Q R"
  shows "spec P (bnd (copyMut cs i g) f) Q R"
proof -
  from assms(1) obtain acc where c: "cs i = Some acc" "h = (\<lambda>a. ai_AssetInfo acc a \<noteq> None)" by (auto simp: shape_def)
  from assms(2) [OF c(2)] obtain acc' where a: "g acc = Some acc'" "\<And>a. ai_AssetInfo acc' a \<noteq> None \<longleftrightarrow> ai_AssetInfo acc a \<noteq> None"
    by blast
  have "shape (cs(i \<mapsto> acc')) = shape cs" using a(2) c(1) by (auto simp: shape_def fun_eq_iff)
  with assms(3) [of "cs(i \<mapsto> acc')"] c(1) a(1) show ?thesis by (simp add: copyMut_def copyOf_def orPanic_run bnd_run spec_def)
qed

lemma spec_copyMut_bal [triple]:
  "shape cs i = Some h \<Longrightarrow> h a \<Longrightarrow> (\<And>cs'. shape cs' = shape cs \<Longrightarrow> spec P (f cs') Q R) \<Longrightarrow>
    spec P (bnd (copyMut cs i (subBal X a d)) f) Q R"
  "shape cs i = Some h \<Longrightarrow> h a \<Longrightarrow> (\<And>cs'. shape cs' = shape cs \<Longrightarrow> spec P (f cs') Q R) \<Longrightarrow>
    spec P (bnd (copyMut cs i (addBal X a d)) f) Q R"
  "shape cs i = Some h \<Longrightarrow> h a \<Longrightarrow> (\<And>cs'. shape cs' = shape cs \<Longrightarrow> spec P (f cs') Q R) \<Longrightarrow>
    spec P (bnd (copyMut cs i (updOffer a b)) f) Q R"
  by (erule spec_copyMut; auto simp: subBal_def addBal_def updBal_def updOffer_def)+

lemma spec_copyMut_nonce [triple]:
  "shape cs i = Some h \<Longrightarrow> (\<And>cs'. shape cs' = shape cs \<Longrightarrow> spec P (f cs') Q R) \<Longrightarrow>
    spec P (bnd (copyMut cs i incCollectionNonce) f) Q R"
  by (erule spec_copyMut) (auto simp: incCollectionNonce_def)

lemma spec_Bit [triple]:
  "0 \<le> i \<Longrightarrow> spec P (f (bit x (nat i))) Q R \<Longrightarrow> spec P (bnd (Bit x i) f) Q R"
  "0 \<le> i \<Longrightarrow> spec P (g (set_bit (nat i) x)) Q R \<Longrightarrow> spec P (bnd (SetBit x i) g) Q R"
  by (simp_all add: Bit_def SetBit_def)

end
