(* ===== verification/Exec_Fungible.thy ===== *)
theory Exec_Fungible
  imports Exec_Base
begin

text \<open>
  The executors that move fungible assets or create accounts, one definition per method:
  src/core/executor/register\_zns\_executor.go, deposit\_executor.go, transfer\_executor.go,
  withdraw\_executor.go and full\_exit\_executor.go. The payload argument of a method is the
  executor's \<open>txInfo\<close>; a method that assigns to it writes it back to the executor.
\<close>

section \<open>RegisterZnsExecutor\<close>

definition NewRegisterZnsExecutor :: "Lib \<Rightarrow> Tx \<Rightarrow> unit go" where
  "NewRegisterZnsExecutor X tx =
     newExecutor tx (ErrorsNew ''invalid tx info'') (x_UnmarshalRegisterZns X (tx_TxInfo tx)) RegisterZnsInfo"

definition RegisterZns_Prepare :: "Lib \<Rightarrow> RegisterZnsTxInfo \<Rightarrow> unit go" where
  "RegisterZns_Prepare X txInfo =
     thn (BaseExecutor_Prepare X) (BaseExecutor_MarkAccountAssetsDirty (rz_AccountIndex txInfo) [])"

definition RegisterZns_VerifyInputs :: "Lib \<Rightarrow> RegisterZnsTxInfo \<Rightarrow> bool \<Rightarrow> unit go" where
  "RegisterZns_VerifyInputs X txInfo skipGasAmtChk =
     bnd (attempt (GetAccountByName X (rz_AccountName txInfo))) (\<lambda>x.
     thn (case x of Inr _ \<Rightarrow> throw AppErrAccountNameAlreadyRegistered | Inl _ \<Rightarrow> ret ())
     (bnd GetNextAccountIndex (\<lambda>next. failIf (rz_AccountIndex txInfo \<noteq> next) AppErrInvalidAccountIndex)))"

definition newAccountOf :: "Lib \<Rightarrow> RegisterZnsTxInfo \<Rightarrow> string \<Rightarrow> Account" where
  "newAccountOf X txInfo nativeAddress =
     \<lparr>ac_ID = 0, ac_AccountIndex = rz_AccountIndex txInfo, ac_AccountName = rz_AccountName txInfo,
      ac_PublicKey = rz_PubKey txInfo, ac_AccountNameHash = x_Bytes2Hex X (rz_AccountNameHash txInfo),
      ac_L1Address = nativeAddress, ac_Nonce = EmptyNonce, ac_CollectionNonce = EmptyCollectionNonce,
      ac_AssetInfo = AssetJson Map.empty, ac_AssetRoot = x_Bytes2Hex X (x_NilAccountAssetRoot X),
      ac_Status = AccountStatusConfirmed\<rparr>"

definition RegisterZns_ApplyTransaction :: "Lib \<Rightarrow> RegisterZnsTxInfo \<Rightarrow> unit go" where
  "RegisterZns_ApplyTransaction X txInfo =
     bnd (gets (\<lambda>s. tx_NativeAddress (e_tx (w_exec s)))) (\<lambda>nativeAddress.
     bnd (ofSum (ToFormatAccountInfo (newAccountOf X txInfo nativeAddress))) (\<lambda>formatAccount.
     bnd (gets (\<lambda>s. bk_BlockHeight (w_currentBlock s))) (\<lambda>height.
     thn (UpdateCache (rz_AccountIndex txInfo) height)
     (bnd (newAccount formatAccount) (\<lambda>r.
      thn (setPendingAccount (rz_AccountIndex txInfo) r) (BaseExecutor_ApplyTransaction X))))))"

definition ParsePubKey :: "Lib \<Rightarrow> string \<Rightarrow> err + (byte list \<times> byte list)" where
  "ParsePubKey X pkStr = x_PointSetBytes X (x_FromHex X pkStr)"

definition RegisterZns_pubData :: "Lib \<Rightarrow> RegisterZnsTxInfo \<Rightarrow> byte list go" where
  "RegisterZns_pubData X txInfo =
     (let chunk = SuffixPaddingBufToChunkSize (typeByte TxTypeRegisterZns @ u32 (rz_AccountIndex txInfo)) in
      bnd (filled (PrefixPaddingBufToChunkSize (AccountNameToBytes32 (rz_AccountName txInfo)))) (\<lambda>name.
      bnd (filled (PrefixPaddingBufToChunkSize (rz_AccountNameHash txInfo))) (\<lambda>nameHash.
      bnd (ofSum (ParsePubKey X (rz_PubKey txInfo))) (\<lambda>(pkX, pkY).
      bnd (filled (PrefixPaddingBufToChunkSize pkX)) (\<lambda>x.
      bnd (filled (PrefixPaddingBufToChunkSize pkY)) (\<lambda>y.
      ret (chunk @ name @ nameHash @ x @ y @ emptyChunk)))))))"

definition RegisterZns_GeneratePubData :: "Lib \<Rightarrow> RegisterZnsTxInfo \<Rightarrow> unit go" where
  "RegisterZns_GeneratePubData X txInfo =
     bnd (RegisterZns_pubData X txInfo) (\<lambda>pubData.
     modify (updSc (\<lambda>c. addPubData pubData (addPubDataOffset (addPriorityOperation c)))))"

definition RegisterZns_GetExecutedTx :: "Lib \<Rightarrow> RegisterZnsTxInfo \<Rightarrow> Tx go" where
  "RegisterZns_GetExecutedTx X txInfo =
     bnd (marshalTxInfo X (RegisterZnsInfo txInfo)) (\<lambda>txInfoBytes.
     thn (modify (updTx (\<lambda>t. t\<lparr>tx_TxInfo := txInfoBytes, tx_AccountIndex := rz_AccountIndex txInfo\<rparr>)))
         BaseExecutor_GetExecutedTx)"

definition RegisterZns_GenerateTxDetails :: "Lib \<Rightarrow> RegisterZnsTxInfo \<Rightarrow> TxDetail list go" where
  "RegisterZns_GenerateTxDetails X txInfo = ret []"

section \<open>DepositExecutor\<close>

definition NewDepositExecutor :: "Lib \<Rightarrow> Tx \<Rightarrow> unit go" where
  "NewDepositExecutor X tx =
     newExecutor tx (ErrorsNew ''invalid tx info'') (x_UnmarshalDeposit X (tx_TxInfo tx)) DepositInfo"

definition Deposit_Prepare :: "Lib \<Rightarrow> DepositTxInfo \<Rightarrow> unit go" where
  "Deposit_Prepare X txInfo =
     bnd (GetAccountByNameHash X (x_Bytes2Hex X (dp_AccountNameHash txInfo))) (\<lambda>account.
     let txInfo = txInfo\<lparr>dp_AccountIndex := ac_AccountIndex account\<rparr> in
     thn (setTxInfo (DepositInfo txInfo))
     (thn (BaseExecutor_MarkAccountAssetsDirty (dp_AccountIndex txInfo) [dp_AssetId txInfo])
          (BaseExecutor_Prepare X)))"

definition Deposit_VerifyInputs :: "Lib \<Rightarrow> DepositTxInfo \<Rightarrow> bool \<Rightarrow> unit go" where
  "Deposit_VerifyInputs X txInfo skipGasAmtChk = failIf (dp_AssetAmount txInfo < 0) AppErrInvalidAssetAmount"

definition Deposit_ApplyTransaction :: "Lib \<Rightarrow> DepositTxInfo \<Rightarrow> unit go" where
  "Deposit_ApplyTransaction X txInfo =
     bnd (GetFormatAccount X (dp_AccountIndex txInfo)) (\<lambda>depositAccount.
     thn (mutAcc depositAccount (addBal X (dp_AssetId txInfo) (dp_AssetAmount txInfo)))
     (thn (setPendingSelf depositAccount) (BaseExecutor_ApplyTransaction X)))"

definition Deposit_pubData :: "Lib \<Rightarrow> DepositTxInfo \<Rightarrow> byte list go" where
  "Deposit_pubData X txInfo =
     bnd (filled (Uint128ToBytes (dp_AssetAmount txInfo))) (\<lambda>amount.
     let chunk1 = SuffixPaddingBufToChunkSize
           (typeByte TxTypeDeposit @ u32 (dp_AccountIndex txInfo) @ u16 (dp_AssetId txInfo) @ amount) in
     bnd (filled (PrefixPaddingBufToChunkSize (dp_AccountNameHash txInfo))) (\<lambda>nameHash.
     ret (chunk1 @ nameHash @ emptyChunk @ emptyChunk @ emptyChunk @ emptyChunk)))"

definition Deposit_GeneratePubData :: "Lib \<Rightarrow> DepositTxInfo \<Rightarrow> unit go" where
  "Deposit_GeneratePubData X txInfo =
     bnd (Deposit_pubData X txInfo) (\<lambda>pubData.
     modify (updSc (\<lambda>c. addPubData pubData (addPubDataOffset (addPriorityOperation c)))))"

definition Deposit_GetExecutedTx :: "Lib \<Rightarrow> DepositTxInfo \<Rightarrow> Tx go" where
  "Deposit_GetExecutedTx X txInfo =
     bnd (marshalTxInfo X (DepositInfo txInfo)) (\<lambda>txInfoBytes.
     thn (modify (updTx (\<lambda>t. t\<lparr>tx_TxInfo := txInfoBytes, tx_AssetId := dp_AssetId txInfo,
            tx_TxAmount := showInt (dp_AssetAmount txInfo), tx_AccountIndex := dp_AccountIndex txInfo\<rparr>)))
         BaseExecutor_GetExecutedTx)"

definition Deposit_GenerateTxDetails :: "Lib \<Rightarrow> DepositTxInfo \<Rightarrow> TxDetail list go" where
  "Deposit_GenerateTxDetails X txInfo =
     bnd (GetFormatAccount X (dp_AccountIndex txInfo)) (\<lambda>r.
     bnd (accountAt r) (\<lambda>depositAccount.
     ret [fungibleDetail (dp_AssetId txInfo) (dp_AccountIndex txInfo) depositAccount
            (ConstructAccountAsset (dp_AssetId txInfo) (dp_AssetAmount txInfo) 0) 0 0 False]))"

section \<open>TransferExecutor\<close>

definition NewTransferExecutor :: "Lib \<Rightarrow> Tx \<Rightarrow> unit go" where
  "NewTransferExecutor X tx =
     newExecutor tx (ErrorsNew ''invalid tx info'') (x_UnmarshalTransfer X (tx_TxInfo tx)) TransferInfo"

definition Transfer_Prepare :: "Lib \<Rightarrow> TransferTxInfo \<Rightarrow> unit go" where
  "Transfer_Prepare X txInfo =
     thn (BaseExecutor_MarkAccountAssetsDirty (tr_FromAccountIndex txInfo) [tr_GasFeeAssetId txInfo, tr_AssetId txInfo])
     (thn (BaseExecutor_MarkAccountAssetsDirty (tr_ToAccountIndex txInfo) [tr_AssetId txInfo])
     (thn (BaseExecutor_MarkAccountAssetsDirty (tr_GasAccountIndex txInfo) [tr_GasFeeAssetId txInfo])
          (BaseExecutor_Prepare X)))"

definition Transfer_VerifyInputs :: "Lib \<Rightarrow> TransferTxInfo \<Rightarrow> bool \<Rightarrow> unit go" where
  "Transfer_VerifyInputs X txInfo skipGasAmtChk =
     thn (BaseExecutor_VerifyInputs X skipGasAmtChk)
     (bnd (GetFormatAccount X (tr_FromAccountIndex txInfo)) (\<lambda>fromAccount.
      bnd (GetFormatAccount X (tr_ToAccountIndex txInfo)) (\<lambda>toAccount.
      bnd (accountAt toAccount) (\<lambda>to.
      thn (failIf (tr_ToAccountNameHash txInfo \<noteq> ai_AccountNameHash to) AppErrInvalidToAccountNameHash)
      (if tr_GasFeeAssetId txInfo \<noteq> tr_AssetId txInfo then
         bnd (assetAt fromAccount (tr_GasFeeAssetId txInfo)) (\<lambda>g.
         thn (failIf (aa_Balance g < tr_GasFeeAssetAmount txInfo) AppErrInvalidGasFeeAmount)
         (bnd (assetAt fromAccount (tr_AssetId txInfo)) (\<lambda>a.
          failIf (aa_Balance a < tr_AssetAmount txInfo) AppErrInvalidAssetAmount)))
       else
         bnd (assetAt fromAccount (tr_AssetId txInfo)) (\<lambda>a.
         failIf (aa_Balance a < x_Add X (tr_AssetAmount txInfo) (tr_GasFeeAssetAmount txInfo)) AppErrInvalidAssetAmount))))))"

definition Transfer_ApplyTransaction :: "Lib \<Rightarrow> TransferTxInfo \<Rightarrow> unit go" where
  "Transfer_ApplyTransaction X txInfo =
     bnd (GetFormatAccount X (tr_FromAccountIndex txInfo)) (\<lambda>fromAccount.
     bnd (GetFormatAccount X (tr_ToAccountIndex txInfo)) (\<lambda>toAccount.
     thn (mutAcc fromAccount (subBal X (tr_AssetId txInfo) (tr_AssetAmount txInfo)))
     (thn (mutAcc fromAccount (subBal X (tr_GasFeeAssetId txInfo) (tr_GasFeeAssetAmount txInfo)))
     (thn (mutAcc toAccount (addBal X (tr_AssetId txInfo) (tr_AssetAmount txInfo)))
     (thn (mutAcc fromAccount incNonce)
     (thn (setPendingAccount (tr_FromAccountIndex txInfo) fromAccount)
     (thn (setPendingAccount (tr_ToAccountIndex txInfo) toAccount)
     (thn (setPendingGas X (tr_GasFeeAssetId txInfo) (tr_GasFeeAssetAmount txInfo))
          (BaseExecutor_ApplyTransaction X)))))))))"

definition Transfer_pubData :: "Lib \<Rightarrow> TransferTxInfo \<Rightarrow> byte list go" where
  "Transfer_pubData X txInfo =
     bnd (AmountToPackedAmountBytes X (tr_AssetAmount txInfo)) (\<lambda>packedAmountBytes.
     bnd (FeeToPackedFeeBytes X (tr_GasFeeAssetAmount txInfo)) (\<lambda>packedFeeBytes.
     let chunk = SuffixPaddingBufToChunkSize
           (typeByte TxTypeTransfer @ u32 (tr_FromAccountIndex txInfo) @ u32 (tr_ToAccountIndex txInfo) @
            u16 (tr_AssetId txInfo) @ packedAmountBytes @ u32 (tr_GasAccountIndex txInfo) @
            u16 (tr_GasFeeAssetId txInfo) @ packedFeeBytes) in
     bnd (filled (PrefixPaddingBufToChunkSize (tr_CallDataHash txInfo))) (\<lambda>callDataHash.
     ret (chunk @ callDataHash @ emptyChunk @ emptyChunk @ emptyChunk @ emptyChunk))))"

definition Transfer_GeneratePubData :: "Lib \<Rightarrow> TransferTxInfo \<Rightarrow> unit go" where
  "Transfer_GeneratePubData X txInfo =
     bnd (Transfer_pubData X txInfo) (\<lambda>pubData. modify (updSc (addPubData pubData)))"

definition Transfer_GetExecutedTx :: "Lib \<Rightarrow> TransferTxInfo \<Rightarrow> Tx go" where
  "Transfer_GetExecutedTx X txInfo =
     bnd (marshalTxInfo X (TransferInfo txInfo)) (\<lambda>txInfoBytes.
     thn (modify (updTx (\<lambda>t. t\<lparr>tx_TxInfo := txInfoBytes, tx_GasFeeAssetId := tr_GasFeeAssetId txInfo,
            tx_GasFee := showInt (tr_GasFeeAssetAmount txInfo), tx_AssetId := tr_AssetId txInfo,
            tx_TxAmount := showInt (tr_AssetAmount txInfo)\<rparr>)))
         BaseExecutor_GetExecutedTx)"

definition Transfer_GenerateTxDetails :: "Lib \<Rightarrow> TransferTxInfo \<Rightarrow> TxDetail list go" where
  "Transfer_GenerateTxDetails X txInfo =
     (let from = tr_FromAccountIndex txInfo; to = tr_ToAccountIndex txInfo; gas = tr_GasAccountIndex txInfo;
          a = tr_AssetId txInfo; amount = tr_AssetAmount txInfo;
          g = tr_GasFeeAssetId txInfo; fee = tr_GasFeeAssetAmount txInfo in
      bnd (DeepCopyAccounts X [from, gas, to]) (\<lambda>cs.
      bnd (fungibleRow cs a from (ConstructAccountAsset a (x_Neg X amount) 0) 0 0 False) (\<lambda>d0.
      bnd (copyMut cs from (subBal X a amount)) (\<lambda>cs.
      bnd (fungibleRow cs g from (ConstructAccountAsset g (x_Neg X fee) 0) 1 0 False) (\<lambda>d1.
      bnd (copyMut cs from (subBal X g fee)) (\<lambda>cs.
      bnd (fungibleRow cs a to (ConstructAccountAsset a amount 0) 2 1 False) (\<lambda>d2.
      bnd (copyMut cs to (addBal X a amount)) (\<lambda>cs.
      bnd (fungibleRow cs g gas (ConstructAccountAsset g fee 0) 3 2 True) (\<lambda>d3.
      bnd (copyMut cs gas (addBal X g fee)) (\<lambda>cs.
      ret [d0, d1, d2, d3]))))))))))"

section \<open>WithdrawExecutor\<close>

definition NewWithdrawExecutor :: "Lib \<Rightarrow> Tx \<Rightarrow> unit go" where
  "NewWithdrawExecutor X tx =
     newExecutor tx (ErrorsNew ''invalid tx info'') (x_UnmarshalWithdraw X (tx_TxInfo tx)) WithdrawInfo"

definition Withdraw_Prepare :: "Lib \<Rightarrow> WithdrawTxInfo \<Rightarrow> unit go" where
  "Withdraw_Prepare X txInfo =
     thn (BaseExecutor_MarkAccountAssetsDirty (wd_FromAccountIndex txInfo) [wd_GasFeeAssetId txInfo, wd_AssetId txInfo])
     (thn (BaseExecutor_MarkAccountAssetsDirty (wd_GasAccountIndex txInfo) [wd_GasFeeAssetId txInfo])
          (BaseExecutor_Prepare X))"

definition Withdraw_VerifyInputs :: "Lib \<Rightarrow> WithdrawTxInfo \<Rightarrow> bool \<Rightarrow> unit go" where
  "Withdraw_VerifyInputs X txInfo skipGasAmtChk =
     thn (BaseExecutor_VerifyInputs X skipGasAmtChk)
     (bnd (GetFormatAccount X (wd_FromAccountIndex txInfo)) (\<lambda>fromAccount.
      if wd_GasFeeAssetId txInfo \<noteq> wd_AssetId txInfo then
        bnd (assetAt fromAccount (wd_AssetId txInfo)) (\<lambda>a.
        thn (failIf (aa_Balance a < wd_AssetAmount txInfo) AppErrInvalidGasFeeAccount)
        (bnd (assetAt fromAccount (wd_GasFeeAssetId txInfo)) (\<lambda>g.
         failIf (aa_Balance g < wd_GasFeeAssetAmount txInfo) AppErrInvalidAssetAmount)))
      else
        bnd (assetAt fromAccount (wd_AssetId txInfo)) (\<lambda>a.
        failIf (aa_Balance a < x_Add X (wd_AssetAmount txInfo) (wd_GasFeeAssetAmount txInfo)) AppErrInvalidAssetAmount)))"

definition Withdraw_ApplyTransaction :: "Lib \<Rightarrow> WithdrawTxInfo \<Rightarrow> unit go" where
  "Withdraw_ApplyTransaction X txInfo =
     bnd (GetFormatAccount X (wd_FromAccountIndex txInfo)) (\<lambda>fromAccount.
     thn (mutAcc fromAccount (subBal X (wd_AssetId txInfo) (wd_AssetAmount txInfo)))
     (thn (mutAcc fromAccount (subBal X (wd_GasFeeAssetId txInfo) (wd_GasFeeAssetAmount txInfo)))
     (thn (mutAcc fromAccount incNonce)
     (thn (setPendingAccount (wd_FromAccountIndex txInfo) fromAccount)
     (thn (setPendingGas X (wd_GasFeeAssetId txInfo) (wd_GasFeeAssetAmount txInfo))
          (BaseExecutor_ApplyTransaction X))))))"

definition Withdraw_pubData :: "Lib \<Rightarrow> WithdrawTxInfo \<Rightarrow> byte list go" where
  "Withdraw_pubData X txInfo =
     bnd (filled (AddressStrToBytes X (wd_ToAddress txInfo))) (\<lambda>toAddress.
     let chunk1 = SuffixPaddingBufToChunkSize
           (typeByte TxTypeWithdraw @ u32 (wd_FromAccountIndex txInfo) @ toAddress @ u16 (wd_AssetId txInfo)) in
     bnd (filled (Uint128ToBytes (wd_AssetAmount txInfo))) (\<lambda>amount.
     bnd (FeeToPackedFeeBytes X (wd_GasFeeAssetAmount txInfo)) (\<lambda>packedFeeBytes.
     bnd (filled (PrefixPaddingBufToChunkSize
            (amount @ u32 (wd_GasAccountIndex txInfo) @ u16 (wd_GasFeeAssetId txInfo) @ packedFeeBytes))) (\<lambda>chunk2.
     ret (chunk1 @ chunk2 @ emptyChunk @ emptyChunk @ emptyChunk @ emptyChunk)))))"

definition Withdraw_GeneratePubData :: "Lib \<Rightarrow> WithdrawTxInfo \<Rightarrow> unit go" where
  "Withdraw_GeneratePubData X txInfo =
     bnd (Withdraw_pubData X txInfo) (\<lambda>pubData.
     modify (updSc (\<lambda>c. addPubData pubData (addPendingOnChain X pubData (addPubDataOffset c)))))"

definition Withdraw_GetExecutedTx :: "Lib \<Rightarrow> WithdrawTxInfo \<Rightarrow> Tx go" where
  "Withdraw_GetExecutedTx X txInfo =
     bnd (marshalTxInfo X (WithdrawInfo txInfo)) (\<lambda>txInfoBytes.
     thn (modify (updTx (\<lambda>t. t\<lparr>tx_TxInfo := txInfoBytes, tx_GasFeeAssetId := wd_GasFeeAssetId txInfo,
            tx_GasFee := showInt (wd_GasFeeAssetAmount txInfo), tx_AssetId := wd_AssetId txInfo,
            tx_TxAmount := showInt (wd_AssetAmount txInfo)\<rparr>)))
         BaseExecutor_GetExecutedTx)"

definition Withdraw_GenerateTxDetails :: "Lib \<Rightarrow> WithdrawTxInfo \<Rightarrow> TxDetail list go" where
  "Withdraw_GenerateTxDetails X txInfo =
     (let from = wd_FromAccountIndex txInfo; gas = wd_GasAccountIndex txInfo;
          a = wd_AssetId txInfo; amount = wd_AssetAmount txInfo;
          g = wd_GasFeeAssetId txInfo; fee = wd_GasFeeAssetAmount txInfo in
      bnd (DeepCopyAccounts X [from, gas]) (\<lambda>cs.
      bnd (fungibleRow cs a from (ConstructAccountAsset a (x_Neg X amount) 0) 0 0 False) (\<lambda>d0.
      bnd (copyMut cs from (subBal X a amount)) (\<lambda>cs.
      bnd (copyAsset cs from a) (\<lambda>x.
      thn (failIf (aa_Balance x < 0) (ErrorsNew ''insufficient asset a balance''))
      (bnd (fungibleRow cs g from (ConstructAccountAsset g (x_Neg X fee) 0) 1 0 False) (\<lambda>d1.
      bnd (copyMut cs from (subBal X g fee)) (\<lambda>cs.
      bnd (copyAsset cs from g) (\<lambda>y.
      thn (failIf (aa_Balance y < 0) (ErrorsNew ''insufficient gas balance''))
      (bnd (fungibleRow cs g gas (ConstructAccountAsset g fee 0) 2 1 True) (\<lambda>d2.
      ret [d0, d1, d2])))))))))))"

section \<open>FullExitExecutor\<close>

definition NewFullExitExecutor :: "Lib \<Rightarrow> Tx \<Rightarrow> unit go" where
  "NewFullExitExecutor X tx =
     newExecutor tx AppErrInvalidTxInfo (x_UnmarshalFullExit X (tx_TxInfo tx)) FullExitInfo"

definition FullExit_Prepare :: "Lib \<Rightarrow> FullExitTxInfo \<Rightarrow> unit go" where
  "FullExit_Prepare X txInfo =
     bnd (GetAccountByNameHash X (x_Bytes2Hex X (fe_AccountNameHash txInfo))) (\<lambda>account.
     let txInfo = txInfo\<lparr>fe_AccountIndex := ac_AccountIndex account\<rparr> in
     thn (setTxInfo (FullExitInfo txInfo))
     (thn (BaseExecutor_MarkAccountAssetsDirty (fe_AccountIndex txInfo) [fe_AssetId txInfo])
     (thn (BaseExecutor_Prepare X)
     (bnd (GetFormatAccount X (fe_AccountIndex txInfo)) (\<lambda>formatAccount.
      bnd (assetAt formatAccount (fe_AssetId txInfo)) (\<lambda>asset.
      setTxInfo (FullExitInfo (txInfo\<lparr>fe_AssetAmount := aa_Balance asset\<rparr>))))))))"

definition FullExit_VerifyInputs :: "Lib \<Rightarrow> FullExitTxInfo \<Rightarrow> bool \<Rightarrow> unit go" where
  "FullExit_VerifyInputs X txInfo skipGasAmtChk = ret ()"

definition FullExit_ApplyTransaction :: "Lib \<Rightarrow> FullExitTxInfo \<Rightarrow> unit go" where
  "FullExit_ApplyTransaction X txInfo =
     bnd (GetFormatAccount X (fe_AccountIndex txInfo)) (\<lambda>exitAccount.
     thn (mutAcc exitAccount (subBal X (fe_AssetId txInfo) (fe_AssetAmount txInfo)))
     (thn (if fe_AssetAmount txInfo \<noteq> 0 then setPendingAccount (fe_AccountIndex txInfo) exitAccount else ret ())
          (BaseExecutor_ApplyTransaction X)))"

definition FullExit_pubData :: "Lib \<Rightarrow> FullExitTxInfo \<Rightarrow> byte list go" where
  "FullExit_pubData X txInfo =
     bnd (filled (Uint128ToBytes (fe_AssetAmount txInfo))) (\<lambda>amount.
     let chunk = SuffixPaddingBufToChunkSize
           (typeByte TxTypeFullExit @ u32 (fe_AccountIndex txInfo) @ u16 (fe_AssetId txInfo) @ amount) in
     bnd (filled (PrefixPaddingBufToChunkSize (fe_AccountNameHash txInfo))) (\<lambda>nameHash.
     ret (chunk @ nameHash @ emptyChunk @ emptyChunk @ emptyChunk @ emptyChunk)))"

definition FullExit_GeneratePubData :: "Lib \<Rightarrow> FullExitTxInfo \<Rightarrow> unit go" where
  "FullExit_GeneratePubData X txInfo =
     bnd (FullExit_pubData X txInfo) (\<lambda>pubData.
     modify (updSc (\<lambda>c. addPubData pubData (addPendingOnChain X pubData (addPubDataOffset (addPriorityOperation c))))))"

definition FullExit_GetExecutedTx :: "Lib \<Rightarrow> FullExitTxInfo \<Rightarrow> Tx go" where
  "FullExit_GetExecutedTx X txInfo =
     bnd (marshalTxInfo X (FullExitInfo txInfo)) (\<lambda>txInfoBytes.
     thn (modify (updTx (\<lambda>t. t\<lparr>tx_TxInfo := txInfoBytes, tx_AssetId := fe_AssetId txInfo,
            tx_TxAmount := showInt (fe_AssetAmount txInfo), tx_AccountIndex := fe_AccountIndex txInfo\<rparr>)))
         BaseExecutor_GetExecutedTx)"

definition FullExit_GenerateTxDetails :: "Lib \<Rightarrow> FullExitTxInfo \<Rightarrow> TxDetail list go" where
  "FullExit_GenerateTxDetails X txInfo =
     bnd (GetFormatAccount X (fe_AccountIndex txInfo)) (\<lambda>r.
     bnd (accountAt r) (\<lambda>exitAccount.
     ret [fungibleDetail (fe_AssetId txInfo) (fe_AccountIndex txInfo) exitAccount
            (ConstructAccountAsset (fe_AssetId txInfo) (x_Neg X (fe_AssetAmount txInfo)) 0) 0 0 False]))"

end
