(* ===== verification/Exec_Nft.thy ===== *)
theory Exec_Nft
  imports Exec_Base
begin

text \<open>
  The executors of collections and NFTs: src/core/executor/create\_collection\_executor.go,
  mint\_nft\_executor.go, transfer\_nft\_executor.go, withdraw\_nft\_executor.go,
  deposit\_nft\_executor.go and full\_exit\_nft\_executor.go.
\<close>

section \<open>CreateCollectionExecutor\<close>

definition NewCreateCollectionExecutor :: "Lib \<Rightarrow> Tx \<Rightarrow> unit go" where
  "NewCreateCollectionExecutor X tx =
     newExecutor tx (ErrorsNew ''invalid tx info'') (x_UnmarshalCreateCollection X (tx_TxInfo tx)) CreateCollectionInfo"

definition CreateCollection_Prepare :: "Lib \<Rightarrow> CreateCollectionTxInfo \<Rightarrow> unit go" where
  "CreateCollection_Prepare X txInfo =
     thn (BaseExecutor_MarkAccountAssetsDirty (cc_AccountIndex txInfo) [cc_GasFeeAssetId txInfo])
     (thn (BaseExecutor_MarkAccountAssetsDirty (cc_GasAccountIndex txInfo) [cc_GasFeeAssetId txInfo])
     (thn (BaseExecutor_Prepare X)
     (bnd (GetFormatAccount X (cc_AccountIndex txInfo)) (\<lambda>r.
      bnd (accountAt r) (\<lambda>account.
      setTxInfo (CreateCollectionInfo (txInfo\<lparr>cc_CollectionId := ai_CollectionNonce account\<rparr>)))))))"

definition CreateCollection_VerifyInputs :: "Lib \<Rightarrow> CreateCollectionTxInfo \<Rightarrow> bool \<Rightarrow> unit go" where
  "CreateCollection_VerifyInputs X txInfo skipGasAmtChk =
     thn (BaseExecutor_VerifyInputs X skipGasAmtChk)
     (bnd (GetFormatAccount X (cc_AccountIndex txInfo)) (\<lambda>fromAccount.
      bnd (assetAt fromAccount (cc_GasFeeAssetId txInfo)) (\<lambda>g.
      failIf (aa_Balance g < cc_GasFeeAssetAmount txInfo) AppErrBalanceNotEnough)))"

definition CreateCollection_ApplyTransaction :: "Lib \<Rightarrow> CreateCollectionTxInfo \<Rightarrow> unit go" where
  "CreateCollection_ApplyTransaction X txInfo =
     bnd (GetFormatAccount X (cc_AccountIndex txInfo)) (\<lambda>fromAccount.
     thn (mutAcc fromAccount (subBal X (cc_GasFeeAssetId txInfo) (cc_GasFeeAssetAmount txInfo)))
     (thn (mutAcc fromAccount incNonce)
     (thn (mutAcc fromAccount incCollectionNonce)
     (thn (setPendingSelf fromAccount)
     (thn (setPendingGas X (cc_GasFeeAssetId txInfo) (cc_GasFeeAssetAmount txInfo))
          (BaseExecutor_ApplyTransaction X))))))"

definition CreateCollection_pubData :: "Lib \<Rightarrow> CreateCollectionTxInfo \<Rightarrow> byte list go" where
  "CreateCollection_pubData X txInfo =
     bnd (FeeToPackedFeeBytes X (cc_GasFeeAssetAmount txInfo)) (\<lambda>packedFeeBytes.
     let chunk = SuffixPaddingBufToChunkSize
           (typeByte TxTypeCreateCollection @ u32 (cc_AccountIndex txInfo) @ u16 (cc_CollectionId txInfo) @
            u32 (cc_GasAccountIndex txInfo) @ u16 (cc_GasFeeAssetId txInfo) @ packedFeeBytes) in
     ret (chunk @ emptyChunk @ emptyChunk @ emptyChunk @ emptyChunk @ emptyChunk))"

definition CreateCollection_GeneratePubData :: "Lib \<Rightarrow> CreateCollectionTxInfo \<Rightarrow> unit go" where
  "CreateCollection_GeneratePubData X txInfo =
     bnd (CreateCollection_pubData X txInfo) (\<lambda>pubData. modify (updSc (addPubData pubData)))"

definition CreateCollection_GetExecutedTx :: "Lib \<Rightarrow> CreateCollectionTxInfo \<Rightarrow> Tx go" where
  "CreateCollection_GetExecutedTx X txInfo =
     bnd (marshalTxInfo X (CreateCollectionInfo txInfo)) (\<lambda>txInfoBytes.
     thn (modify (updTx (\<lambda>t. t\<lparr>tx_TxInfo := txInfoBytes, tx_GasFeeAssetId := cc_GasFeeAssetId txInfo,
            tx_GasFee := showInt (cc_GasFeeAssetAmount txInfo), tx_CollectionId := cc_CollectionId txInfo\<rparr>)))
         BaseExecutor_GetExecutedTx)"

text \<open>The detail of the gas account leaves \<open>CollectionNonce\<close> at zero.\<close>

definition CreateCollection_GenerateTxDetails :: "Lib \<Rightarrow> CreateCollectionTxInfo \<Rightarrow> TxDetail list go" where
  "CreateCollection_GenerateTxDetails X txInfo =
     (let from = cc_AccountIndex txInfo; gas = cc_GasAccountIndex txInfo;
          g = cc_GasFeeAssetId txInfo; fee = cc_GasFeeAssetAmount txInfo in
      bnd (DeepCopyAccounts X [from, gas]) (\<lambda>cs.
      bnd (copyOf cs from) (\<lambda>fromAccount.
      let d0 = \<lparr>td_AssetId = NilAssetId, td_AssetType = CollectionNonceAssetType, td_AccountIndex = from,
                td_AccountName = ai_AccountName fromAccount, td_Balance = NumText (ai_CollectionNonce fromAccount),
                td_BalanceDelta = NumText (wrap64 (ai_CollectionNonce fromAccount + 1)), td_Order = 0,
                td_AccountOrder = 0, td_Nonce = ai_Nonce fromAccount,
                td_CollectionNonce = ai_CollectionNonce fromAccount, td_IsGas = False\<rparr> in
      bnd (copyMut cs from incCollectionNonce) (\<lambda>cs.
      bnd (fungibleRow cs g from (ConstructAccountAsset g (x_Neg X fee) 0) 1 0 False) (\<lambda>d1.
      bnd (copyMut cs from (subBal X g fee)) (\<lambda>cs.
      bnd (copyAsset cs from g) (\<lambda>y.
      thn (failIf (aa_Balance y < 0) (ErrorsNew ''insufficient gas fee balance''))
      (bnd (fungibleRow cs g gas (ConstructAccountAsset g fee 0) 2 1 True) (\<lambda>d2.
      ret [d0, d1, d2\<lparr>td_CollectionNonce := 0\<rparr>])))))))))"

section \<open>MintNftExecutor\<close>

definition NewMintNftExecutor :: "Lib \<Rightarrow> Tx \<Rightarrow> unit go" where
  "NewMintNftExecutor X tx =
     newExecutor tx (ErrorsNew ''invalid tx info'') (x_UnmarshalMintNft X (tx_TxInfo tx)) MintNftInfo"

definition MintNft_Prepare :: "Lib \<Rightarrow> MintNftTxInfo \<Rightarrow> unit go" where
  "MintNft_Prepare X txInfo =
     bnd GetNextNftIndex (\<lambda>nextNftIndex.
     let txInfo = txInfo\<lparr>mn_NftIndex := nextNftIndex\<rparr> in
     thn (setTxInfo (MintNftInfo txInfo))
     (thn (BaseExecutor_MarkNftDirty (mn_NftIndex txInfo))
     (thn (BaseExecutor_MarkAccountAssetsDirty (mn_CreatorAccountIndex txInfo) [mn_GasFeeAssetId txInfo])
     (thn (BaseExecutor_MarkAccountAssetsDirty (mn_GasAccountIndex txInfo) [mn_GasFeeAssetId txInfo])
     (thn (BaseExecutor_MarkAccountAssetsDirty (mn_ToAccountIndex txInfo) [])
          (BaseExecutor_Prepare X))))))"

definition MintNft_VerifyInputs :: "Lib \<Rightarrow> MintNftTxInfo \<Rightarrow> bool \<Rightarrow> unit go" where
  "MintNft_VerifyInputs X txInfo skipGasAmtChk =
     thn (BaseExecutor_VerifyInputs X skipGasAmtChk)
     (bnd (GetFormatAccount X (mn_CreatorAccountIndex txInfo)) (\<lambda>creatorAccount.
      bnd (accountAt creatorAccount) (\<lambda>creator.
      thn (failIf (ai_CollectionNonce creator \<le> mn_NftCollectionId txInfo) AppErrInvalidCollectionId)
      (bnd (assetAt creatorAccount (mn_GasFeeAssetId txInfo)) (\<lambda>g.
       thn (failIf (aa_Balance g < mn_GasFeeAssetAmount txInfo) AppErrBalanceNotEnough)
       (bnd (GetFormatAccount X (mn_ToAccountIndex txInfo)) (\<lambda>toAccount.
        bnd (accountAt toAccount) (\<lambda>to.
        failIf (mn_ToAccountNameHash txInfo \<noteq> ai_AccountNameHash to) AppErrInvalidToAccountNameHash))))))))"

definition mintedNft :: "MintNftTxInfo \<Rightarrow> L2Nft" where
  "mintedNft txInfo =
     \<lparr>nft_ID = 0, nft_NftIndex = mn_NftIndex txInfo, nft_CreatorAccountIndex = mn_CreatorAccountIndex txInfo,
      nft_OwnerAccountIndex = mn_ToAccountIndex txInfo, nft_NftContentHash = mn_NftContentHash txInfo,
      nft_NftL1Address = EmptyL1Address, nft_NftL1TokenId = EmptyL1TokenId,
      nft_CreatorTreasuryRate = mn_CreatorTreasuryRate txInfo, nft_CollectionId = mn_NftCollectionId txInfo\<rparr>"

definition MintNft_ApplyTransaction :: "Lib \<Rightarrow> MintNftTxInfo \<Rightarrow> unit go" where
  "MintNft_ApplyTransaction X txInfo =
     bnd (GetFormatAccount X (mn_CreatorAccountIndex txInfo)) (\<lambda>creatorAccount.
     thn (mutAcc creatorAccount (subBal X (mn_GasFeeAssetId txInfo) (mn_GasFeeAssetAmount txInfo)))
     (thn (mutAcc creatorAccount incNonce)
     (thn (setPendingAccount (mn_CreatorAccountIndex txInfo) creatorAccount)
     (bnd (newNft (mintedNft txInfo)) (\<lambda>nft.
      thn (setPendingNft (mn_NftIndex txInfo) nft)
      (thn (setPendingGas X (mn_GasFeeAssetId txInfo) (mn_GasFeeAssetAmount txInfo))
           (BaseExecutor_ApplyTransaction X)))))))"

definition MintNft_pubData :: "Lib \<Rightarrow> MintNftTxInfo \<Rightarrow> byte list go" where
  "MintNft_pubData X txInfo =
     bnd (filled (Uint40ToBytes (mn_NftIndex txInfo))) (\<lambda>nftIndex.
     bnd (FeeToPackedFeeBytes X (mn_GasFeeAssetAmount txInfo)) (\<lambda>packedFeeBytes.
     let chunk = SuffixPaddingBufToChunkSize
           (typeByte TxTypeMintNft @ u32 (mn_CreatorAccountIndex txInfo) @ u32 (mn_ToAccountIndex txInfo) @ nftIndex @
            u32 (mn_GasAccountIndex txInfo) @ u16 (mn_GasFeeAssetId txInfo) @ packedFeeBytes @
            u16 (mn_CreatorTreasuryRate txInfo) @ u16 (mn_NftCollectionId txInfo)) in
     bnd (filled (PrefixPaddingBufToChunkSize (x_FromHex X (mn_NftContentHash txInfo)))) (\<lambda>contentHash.
     ret (chunk @ contentHash @ emptyChunk @ emptyChunk @ emptyChunk @ emptyChunk))))"

definition MintNft_GeneratePubData :: "Lib \<Rightarrow> MintNftTxInfo \<Rightarrow> unit go" where
  "MintNft_GeneratePubData X txInfo =
     bnd (MintNft_pubData X txInfo) (\<lambda>pubData. modify (updSc (addPubData pubData)))"

definition MintNft_GetExecutedTx :: "Lib \<Rightarrow> MintNftTxInfo \<Rightarrow> Tx go" where
  "MintNft_GetExecutedTx X txInfo =
     bnd (marshalTxInfo X (MintNftInfo txInfo)) (\<lambda>txInfoBytes.
     thn (modify (updTx (\<lambda>t. t\<lparr>tx_TxInfo := txInfoBytes, tx_GasFeeAssetId := mn_GasFeeAssetId txInfo,
            tx_GasFee := showInt (mn_GasFeeAssetAmount txInfo), tx_NftIndex := mn_NftIndex txInfo\<rparr>)))
         BaseExecutor_GetExecutedTx)"

definition MintNft_GenerateTxDetails :: "Lib \<Rightarrow> MintNftTxInfo \<Rightarrow> TxDetail list go" where
  "MintNft_GenerateTxDetails X txInfo =
     (let from = mn_CreatorAccountIndex txInfo; to = mn_ToAccountIndex txInfo; gas = mn_GasAccountIndex txInfo;
          g = mn_GasFeeAssetId txInfo; fee = mn_GasFeeAssetAmount txInfo in
      bnd (DeepCopyAccounts X [from, to, gas]) (\<lambda>cs.
      bnd (fungibleRow cs g from (ConstructAccountAsset g (x_Neg X fee) 0) 0 0 False) (\<lambda>d0.
      bnd (copyMut cs from (subBal X g fee)) (\<lambda>cs.
      bnd (copyAsset cs from g) (\<lambda>y.
      thn (failIf (aa_Balance y < 0) (ErrorsNew ''insufficient gas fee balance''))
      (bnd (fungibleRow cs g to (ConstructAccountAsset g 0 0) 1 1 False) (\<lambda>d1.
      bnd (copyOf cs to) (\<lambda>toAccount.
      let newNftInfo = ConstructNftInfo (mn_NftIndex txInfo) from to (mn_NftContentHash txInfo)
            EmptyL1TokenId EmptyL1Address (mn_CreatorTreasuryRate txInfo) (mn_NftCollectionId txInfo);
          d2 = nftDetail (mn_NftIndex txInfo) to (ai_AccountName toAccount) (EmptyNftInfo (mn_NftIndex txInfo))
            newNftInfo 2 (ai_Nonce toAccount) (ai_CollectionNonce toAccount) in
      bnd (fungibleRow cs g gas (ConstructAccountAsset g fee 0) 3 2 True) (\<lambda>d3.
      ret [d0, d1, d2, d3])))))))))"

section \<open>TransferNftExecutor\<close>

definition NewTransferNftExecutor :: "Lib \<Rightarrow> Tx \<Rightarrow> unit go" where
  "NewTransferNftExecutor X tx =
     newExecutor tx (ErrorsNew ''invalid tx info'') (x_UnmarshalTransferNft X (tx_TxInfo tx)) TransferNftInfo"

definition TransferNft_Prepare :: "Lib \<Rightarrow> TransferNftTxInfo \<Rightarrow> unit go" where
  "TransferNft_Prepare X txInfo =
     bnd (PrepareNft X (tn_NftIndex txInfo)) (\<lambda>_.
     thn (BaseExecutor_MarkNftDirty (tn_NftIndex txInfo))
     (thn (BaseExecutor_MarkAccountAssetsDirty (tn_FromAccountIndex txInfo) [tn_GasFeeAssetId txInfo])
     (thn (BaseExecutor_MarkAccountAssetsDirty (tn_ToAccountIndex txInfo) [EmptyAccountAssetId])
     (thn (BaseExecutor_MarkAccountAssetsDirty (tn_GasAccountIndex txInfo) [tn_GasFeeAssetId txInfo])
          (BaseExecutor_Prepare X)))))"

definition TransferNft_VerifyInputs :: "Lib \<Rightarrow> TransferNftTxInfo \<Rightarrow> bool \<Rightarrow> unit go" where
  "TransferNft_VerifyInputs X txInfo skipGasAmtChk =
     thn (BaseExecutor_VerifyInputs X skipGasAmtChk)
     (bnd (GetFormatAccount X (tn_FromAccountIndex txInfo)) (\<lambda>fromAccount.
      bnd (assetAt fromAccount (tn_GasFeeAssetId txInfo)) (\<lambda>g.
      thn (failIf (aa_Balance g < tn_GasFeeAssetAmount txInfo) AppErrBalanceNotEnough)
      (bnd (GetFormatAccount X (tn_ToAccountIndex txInfo)) (\<lambda>toAccount.
       bnd (accountAt toAccount) (\<lambda>to.
       thn (failIf (tn_ToAccountNameHash txInfo \<noteq> ai_AccountNameHash to) AppErrInvalidToAccountNameHash)
       (bnd (GetNft X (tn_NftIndex txInfo)) (\<lambda>r.
        bnd (nftAt r) (\<lambda>nft.
        failIf (nft_OwnerAccountIndex nft \<noteq> tn_FromAccountIndex txInfo)
          (ErrorsNew ''account is not owner of the nft''))))))))))"

definition TransferNft_ApplyTransaction :: "Lib \<Rightarrow> TransferNftTxInfo \<Rightarrow> unit go" where
  "TransferNft_ApplyTransaction X txInfo =
     bnd (GetFormatAccount X (tn_FromAccountIndex txInfo)) (\<lambda>fromAccount.
     bnd (GetNft X (tn_NftIndex txInfo)) (\<lambda>nft.
     thn (mutAcc fromAccount (subBal X (tn_GasFeeAssetId txInfo) (tn_GasFeeAssetAmount txInfo)))
     (thn (mutAcc fromAccount incNonce)
     (thn (setNftOwner nft (tn_ToAccountIndex txInfo))
     (thn (setPendingAccount (tn_FromAccountIndex txInfo) fromAccount)
     (thn (setPendingNft (tn_NftIndex txInfo) nft)
     (thn (setPendingGas X (tn_GasFeeAssetId txInfo) (tn_GasFeeAssetAmount txInfo))
          (BaseExecutor_ApplyTransaction X))))))))"

definition TransferNft_pubData :: "Lib \<Rightarrow> TransferNftTxInfo \<Rightarrow> byte list go" where
  "TransferNft_pubData X txInfo =
     bnd (filled (Uint40ToBytes (tn_NftIndex txInfo))) (\<lambda>nftIndex.
     bnd (FeeToPackedFeeBytes X (tn_GasFeeAssetAmount txInfo)) (\<lambda>packedFeeBytes.
     let chunk = SuffixPaddingBufToChunkSize
           (typeByte TxTypeTransferNft @ u32 (tn_FromAccountIndex txInfo) @ u32 (tn_ToAccountIndex txInfo) @ nftIndex @
            u32 (tn_GasAccountIndex txInfo) @ u16 (tn_GasFeeAssetId txInfo) @ packedFeeBytes) in
     bnd (filled (PrefixPaddingBufToChunkSize (tn_CallDataHash txInfo))) (\<lambda>callDataHash.
     ret (chunk @ callDataHash @ emptyChunk @ emptyChunk @ emptyChunk @ emptyChunk))))"

definition TransferNft_GeneratePubData :: "Lib \<Rightarrow> TransferNftTxInfo \<Rightarrow> unit go" where
  "TransferNft_GeneratePubData X txInfo =
     bnd (TransferNft_pubData X txInfo) (\<lambda>pubData. modify (updSc (addPubData pubData)))"

definition TransferNft_GetExecutedTx :: "Lib \<Rightarrow> TransferNftTxInfo \<Rightarrow> Tx go" where
  "TransferNft_GetExecutedTx X txInfo =
     bnd (marshalTxInfo X (TransferNftInfo txInfo)) (\<lambda>txInfoBytes.
     thn (modify (updTx (\<lambda>t. t\<lparr>tx_TxInfo := txInfoBytes, tx_GasFeeAssetId := tn_GasFeeAssetId txInfo,
            tx_GasFee := showInt (tn_GasFeeAssetAmount txInfo), tx_NftIndex := tn_NftIndex txInfo\<rparr>)))
         BaseExecutor_GetExecutedTx)"

definition TransferNft_GenerateTxDetails :: "Lib \<Rightarrow> TransferNftTxInfo \<Rightarrow> TxDetail list go" where
  "TransferNft_GenerateTxDetails X txInfo =
     (let from = tn_FromAccountIndex txInfo; to = tn_ToAccountIndex txInfo; gas = tn_GasAccountIndex txInfo;
          g = tn_GasFeeAssetId txInfo; fee = tn_GasFeeAssetAmount txInfo in
      bnd (GetNft X (tn_NftIndex txInfo)) (\<lambda>r.
      bnd (nftAt r) (\<lambda>nftModel.
      bnd (DeepCopyAccounts X [from, to, gas]) (\<lambda>cs.
      bnd (fungibleRow cs g from (ConstructAccountAsset g (x_Neg X fee) 0) 0 0 False) (\<lambda>d0.
      bnd (copyMut cs from (subBal X g fee)) (\<lambda>cs.
      bnd (copyAsset cs from g) (\<lambda>y.
      thn (failIf (aa_Balance y < 0) (ErrorsNew ''insufficient gas fee balance''))
      (bnd (fungibleRow cs EmptyAccountAssetId to (ConstructAccountAsset EmptyAccountAssetId 0 0) 1 1 False) (\<lambda>d1.
      bnd (copyOf cs to) (\<lambda>toAccount.
      let d2 = nftDetail (tn_NftIndex txInfo) to (ai_AccountName toAccount) (nftInfoOf nftModel)
            ((nftInfoOf nftModel)\<lparr>ni_OwnerAccountIndex := to\<rparr>) 2 (ai_Nonce toAccount) (ai_CollectionNonce toAccount) in
      bnd (fungibleRow cs g gas (ConstructAccountAsset g fee 0) 3 2 True) (\<lambda>d3.
      ret [d0, d1, d2, d3])))))))))))"

section \<open>WithdrawNftExecutor\<close>

definition NewWithdrawNftExecutor :: "Lib \<Rightarrow> Tx \<Rightarrow> unit go" where
  "NewWithdrawNftExecutor X tx =
     newExecutor tx (ErrorsNew ''invalid tx info'') (x_UnmarshalWithdrawNft X (tx_TxInfo tx)) WithdrawNftInfo"

definition WithdrawNft_Prepare :: "Lib \<Rightarrow> WithdrawNftTxInfo \<Rightarrow> unit go" where
  "WithdrawNft_Prepare X txInfo =
     bnd (mapErr (\<lambda>_. ErrorsNew ''internal error'') (PrepareNft X (wn_NftIndex txInfo))) (\<lambda>r.
     bnd (nftAt r) (\<lambda>nftInfo.
     thn (BaseExecutor_MarkNftDirty (wn_NftIndex txInfo))
     (thn (BaseExecutor_MarkAccountAssetsDirty (wn_AccountIndex txInfo) [wn_GasFeeAssetId txInfo])
     (thn (BaseExecutor_MarkAccountAssetsDirty (wn_GasAccountIndex txInfo) [wn_GasFeeAssetId txInfo])
     (thn (if nft_CreatorAccountIndex nftInfo \<noteq> NilAccountIndex
           then BaseExecutor_MarkAccountAssetsDirty (nft_CreatorAccountIndex nftInfo) [EmptyAccountAssetId] else ret ())
     (thn (BaseExecutor_Prepare X)
     (bnd (if nft_CreatorAccountIndex nftInfo \<noteq> NilAccountIndex
           then bnd (GetFormatAccount X (nft_CreatorAccountIndex nftInfo)) (\<lambda>c.
                bnd (accountAt c) (\<lambda>creatorAccount. ret (x_FromHex X (ai_AccountNameHash creatorAccount))))
           else ret (x_FromHex X EmptyAccountNameHash)) (\<lambda>creatorNameHash.
      setTxInfo (WithdrawNftInfo (txInfo\<lparr>wn_CreatorAccountIndex := nft_CreatorAccountIndex nftInfo,
        wn_CreatorAccountNameHash := creatorNameHash, wn_CreatorTreasuryRate := nft_CreatorTreasuryRate nftInfo,
        wn_NftContentHash := x_FromHex X (nft_NftContentHash nftInfo), wn_NftL1Address := nft_NftL1Address nftInfo,
        wn_NftL1TokenId := parseBig (nft_NftL1TokenId nftInfo), wn_CollectionId := nft_CollectionId nftInfo\<rparr>))))))))))"

definition WithdrawNft_VerifyInputs :: "Lib \<Rightarrow> WithdrawNftTxInfo \<Rightarrow> bool \<Rightarrow> unit go" where
  "WithdrawNft_VerifyInputs X txInfo skipGasAmtChk =
     thn (BaseExecutor_VerifyInputs X skipGasAmtChk)
     (bnd (GetFormatAccount X (wn_AccountIndex txInfo)) (\<lambda>fromAccount.
      bnd (assetAt fromAccount (wn_GasFeeAssetId txInfo)) (\<lambda>g.
      thn (failIf (aa_Balance g < wn_GasFeeAssetAmount txInfo) AppErrBalanceNotEnough)
      (bnd (GetNft X (wn_NftIndex txInfo)) (\<lambda>r.
       bnd (nftAt r) (\<lambda>nftInfo.
       failIf (nft_OwnerAccountIndex nftInfo \<noteq> wn_AccountIndex txInfo) AppErrNotNftOwner))))))"

definition WithdrawNft_ApplyTransaction :: "Lib \<Rightarrow> WithdrawNftTxInfo \<Rightarrow> unit go" where
  "WithdrawNft_ApplyTransaction X txInfo =
     bnd (GetNft X (wn_NftIndex txInfo)) (\<lambda>r.
     bnd (GetFormatAccount X (wn_AccountIndex txInfo)) (\<lambda>fromAccount.
     thn (mutAcc fromAccount (subBal X (wn_GasFeeAssetId txInfo) (wn_GasFeeAssetAmount txInfo)))
     (thn (mutAcc fromAccount incNonce)
     (thn (setPendingAccount (wn_AccountIndex txInfo) fromAccount)
     (bnd (nftAt r) (\<lambda>oldNft.
      bnd (newNft (emptyL2Nft (nft_ID oldNft) (wn_NftIndex txInfo))) (\<lambda>nft.
      thn (setPendingNft (wn_NftIndex txInfo) nft)
      (thn (setPendingGas X (wn_GasFeeAssetId txInfo) (wn_GasFeeAssetAmount txInfo))
           (BaseExecutor_ApplyTransaction X)))))))))"

definition WithdrawNft_pubData :: "Lib \<Rightarrow> WithdrawNftTxInfo \<Rightarrow> byte list go" where
  "WithdrawNft_pubData X txInfo =
     bnd (filled (Uint40ToBytes (wn_NftIndex txInfo))) (\<lambda>nftIndex.
     let chunk1 = SuffixPaddingBufToChunkSize
           (typeByte TxTypeWithdrawNft @ u32 (wn_AccountIndex txInfo) @ u32 (wn_CreatorAccountIndex txInfo) @
            u16 (wn_CreatorTreasuryRate txInfo) @ nftIndex @ u16 (wn_CollectionId txInfo)) in
     bnd (filled (AddressStrToBytes X (wn_NftL1Address txInfo))) (\<lambda>l1Address.
     bnd (filled (PrefixPaddingBufToChunkSize l1Address)) (\<lambda>chunk2.
     bnd (filled (AddressStrToBytes X (wn_ToAddress txInfo))) (\<lambda>toAddress.
     bnd (FeeToPackedFeeBytes X (wn_GasFeeAssetAmount txInfo)) (\<lambda>packedFeeBytes.
     bnd (filled (PrefixPaddingBufToChunkSize
            (toAddress @ u32 (wn_GasAccountIndex txInfo) @ u16 (wn_GasFeeAssetId txInfo) @ packedFeeBytes))) (\<lambda>chunk3.
     bnd (filled (PrefixPaddingBufToChunkSize (wn_NftContentHash txInfo))) (\<lambda>contentHash.
     bnd (orPanic nilDeref (wn_NftL1TokenId txInfo)) (\<lambda>tokenId.
     bnd (filled (Uint256ToBytes tokenId)) (\<lambda>tokenBytes.
     bnd (filled (PrefixPaddingBufToChunkSize (wn_CreatorAccountNameHash txInfo))) (\<lambda>creatorNameHash.
     ret (chunk1 @ chunk2 @ chunk3 @ contentHash @ tokenBytes @ creatorNameHash)))))))))))"

definition WithdrawNft_GeneratePubData :: "Lib \<Rightarrow> WithdrawNftTxInfo \<Rightarrow> unit go" where
  "WithdrawNft_GeneratePubData X txInfo =
     bnd (WithdrawNft_pubData X txInfo) (\<lambda>pubData.
     modify (updSc (\<lambda>c. addPubData pubData (addPendingOnChain X pubData (addPubDataOffset c)))))"

definition WithdrawNft_GetExecutedTx :: "Lib \<Rightarrow> WithdrawNftTxInfo \<Rightarrow> Tx go" where
  "WithdrawNft_GetExecutedTx X txInfo =
     bnd (marshalTxInfo X (WithdrawNftInfo txInfo)) (\<lambda>txInfoBytes.
     thn (modify (updTx (\<lambda>t. t\<lparr>tx_TxInfo := txInfoBytes, tx_GasFeeAssetId := wn_GasFeeAssetId txInfo,
            tx_GasFee := showInt (wn_GasFeeAssetAmount txInfo), tx_NftIndex := wn_NftIndex txInfo\<rparr>)))
         BaseExecutor_GetExecutedTx)"

definition WithdrawNft_GenerateTxDetails :: "Lib \<Rightarrow> WithdrawNftTxInfo \<Rightarrow> TxDetail list go" where
  "WithdrawNft_GenerateTxDetails X txInfo =
     (let from = wn_AccountIndex txInfo; creator = wn_CreatorAccountIndex txInfo; gas = wn_GasAccountIndex txInfo;
          g = wn_GasFeeAssetId txInfo; fee = wn_GasFeeAssetAmount txInfo in
      bnd (GetNft X (wn_NftIndex txInfo)) (\<lambda>r.
      bnd (nftAt r) (\<lambda>nftModel.
      bnd (DeepCopyAccounts X [from, creator, gas]) (\<lambda>cs.
      bnd (fungibleRow cs g from (ConstructAccountAsset g (x_Neg X fee) 0) 0 0 False) (\<lambda>d0.
      bnd (copyMut cs from (subBal X g fee)) (\<lambda>cs.
      bnd (copyAsset cs from g) (\<lambda>y.
      thn (failIf (aa_Balance y < 0) (ErrorsNew ''insufficient gas fee balance''))
      (bnd (copyOf cs from) (\<lambda>fromAccount.
      let d1 = nftDetail (wn_NftIndex txInfo) NilAccountIndex NilAccountName (nftInfoOf nftModel)
            (EmptyNftInfo (wn_NftIndex txInfo)) 1 (ai_Nonce fromAccount) (ai_CollectionNonce fromAccount) in
      bnd (fungibleRow cs EmptyAccountAssetId creator (ConstructAccountAsset EmptyAccountAssetId 0 0) 2 1 False) (\<lambda>d2.
      bnd (fungibleRow cs g gas (ConstructAccountAsset g fee 0) 3 2 True) (\<lambda>d3.
      ret [d0, d1, d2, d3])))))))))))"

section \<open>DepositNftExecutor\<close>

definition NewDepositNftExecutor :: "Lib \<Rightarrow> Tx \<Rightarrow> unit go" where
  "NewDepositNftExecutor X tx =
     newExecutor tx (ErrorsNew ''invalid tx info'') (x_UnmarshalDepositNft X (tx_TxInfo tx)) DepositNftInfo"

definition DepositNft_Prepare :: "Lib \<Rightarrow> DepositNftTxInfo \<Rightarrow> unit go" where
  "DepositNft_Prepare X txInfo =
     bnd (GetAccountByNameHash X (x_Bytes2Hex X (dn_AccountNameHash txInfo))) (\<lambda>account.
     let txInfo = txInfo\<lparr>dn_AccountIndex := ac_AccountIndex account\<rparr> in
     thn (setTxInfo (DepositNftInfo txInfo))
     (bnd (PrepareNft X (dn_NftIndex txInfo)) (\<lambda>_.
      thn (BaseExecutor_MarkNftDirty (dn_NftIndex txInfo))
      (thn (BaseExecutor_MarkAccountAssetsDirty (dn_AccountIndex txInfo) [EmptyAccountAssetId])
           (BaseExecutor_Prepare X)))))"

definition DepositNft_VerifyInputs :: "Lib \<Rightarrow> DepositNftTxInfo \<Rightarrow> bool \<Rightarrow> unit go" where
  "DepositNft_VerifyInputs X txInfo skipGasAmtChk =
     bnd (GetNft X (dn_NftIndex txInfo)) (\<lambda>r.
     bnd (nftAt r) (\<lambda>nft.
     failIf (nft_NftContentHash nft \<noteq> EmptyNftContentHash) AppErrNftAlreadyExist))"

definition depositedNft :: "Lib \<Rightarrow> DepositNftTxInfo \<Rightarrow> L2Nft" where
  "depositedNft X txInfo =
     \<lparr>nft_ID = 0, nft_NftIndex = dn_NftIndex txInfo, nft_CreatorAccountIndex = dn_CreatorAccountIndex txInfo,
      nft_OwnerAccountIndex = dn_AccountIndex txInfo, nft_NftContentHash = x_Bytes2Hex X (dn_NftContentHash txInfo),
      nft_NftL1Address = dn_NftL1Address txInfo, nft_NftL1TokenId = showInt (dn_NftL1TokenId txInfo),
      nft_CreatorTreasuryRate = dn_CreatorTreasuryRate txInfo, nft_CollectionId = dn_CollectionId txInfo\<rparr>"

definition DepositNft_ApplyTransaction :: "Lib \<Rightarrow> DepositNftTxInfo \<Rightarrow> unit go" where
  "DepositNft_ApplyTransaction X txInfo =
     bnd (newNft (depositedNft X txInfo)) (\<lambda>nft.
     thn (setPendingNft (dn_NftIndex txInfo) nft) (BaseExecutor_ApplyTransaction X))"

definition DepositNft_pubData :: "Lib \<Rightarrow> DepositNftTxInfo \<Rightarrow> byte list go" where
  "DepositNft_pubData X txInfo =
     bnd (filled (Uint40ToBytes (dn_NftIndex txInfo))) (\<lambda>nftIndex.
     bnd (filled (AddressStrToBytes X (dn_NftL1Address txInfo))) (\<lambda>l1Address.
     let chunk1 = SuffixPaddingBufToChunkSize
           (typeByte TxTypeDepositNft @ u32 (dn_AccountIndex txInfo) @ nftIndex @ l1Address) in
     bnd (filled (PrefixPaddingBufToChunkSize
            (u32 (dn_CreatorAccountIndex txInfo) @ u16 (dn_CreatorTreasuryRate txInfo) @ u16 (dn_CollectionId txInfo)))) (\<lambda>chunk2.
     bnd (filled (PrefixPaddingBufToChunkSize (dn_NftContentHash txInfo))) (\<lambda>contentHash.
     bnd (filled (Uint256ToBytes (dn_NftL1TokenId txInfo))) (\<lambda>tokenBytes.
     bnd (filled (PrefixPaddingBufToChunkSize (dn_AccountNameHash txInfo))) (\<lambda>nameHash.
     ret (chunk1 @ chunk2 @ contentHash @ tokenBytes @ nameHash @ emptyChunk)))))))"

definition DepositNft_GeneratePubData :: "Lib \<Rightarrow> DepositNftTxInfo \<Rightarrow> unit go" where
  "DepositNft_GeneratePubData X txInfo =
     bnd (DepositNft_pubData X txInfo) (\<lambda>pubData.
     modify (updSc (\<lambda>c. addPubData pubData (addPubDataOffset (addPriorityOperation c)))))"

definition DepositNft_GetExecutedTx :: "Lib \<Rightarrow> DepositNftTxInfo \<Rightarrow> Tx go" where
  "DepositNft_GetExecutedTx X txInfo =
     bnd (marshalTxInfo X (DepositNftInfo txInfo)) (\<lambda>txInfoBytes.
     thn (modify (updTx (\<lambda>t. t\<lparr>tx_TxInfo := txInfoBytes, tx_NftIndex := dn_NftIndex txInfo,
            tx_AccountIndex := dn_AccountIndex txInfo\<rparr>)))
         BaseExecutor_GetExecutedTx)"

definition DepositNft_GenerateTxDetails :: "Lib \<Rightarrow> DepositNftTxInfo \<Rightarrow> TxDetail list go" where
  "DepositNft_GenerateTxDetails X txInfo =
     bnd (GetFormatAccount X (dn_AccountIndex txInfo)) (\<lambda>r.
     bnd (accountAt r) (\<lambda>depositAccount.
     let newNftInfo = ConstructNftInfo (dn_NftIndex txInfo) (dn_CreatorAccountIndex txInfo) (dn_AccountIndex txInfo)
           (x_Bytes2Hex X (dn_NftContentHash txInfo)) (showInt (dn_NftL1TokenId txInfo)) (dn_NftL1Address txInfo)
           (dn_CreatorTreasuryRate txInfo) (dn_CollectionId txInfo) in
     ret [fungibleDetail EmptyAccountAssetId (dn_AccountIndex txInfo) depositAccount
            (ConstructAccountAsset EmptyAccountAssetId 0 0) 0 0 False,
          nftDetail (dn_NftIndex txInfo) (dn_AccountIndex txInfo) (ai_AccountName depositAccount)
            (EmptyNftInfo (dn_NftIndex txInfo)) newNftInfo 1 (ai_Nonce depositAccount) (ai_CollectionNonce depositAccount)]))"

section \<open>FullExitNftExecutor\<close>

definition NewFullExitNftExecutor :: "Lib \<Rightarrow> Tx \<Rightarrow> unit go" where
  "NewFullExitNftExecutor X tx =
     newExecutor tx (ErrorsNew ''invalid tx info'') (x_UnmarshalFullExitNft X (tx_TxInfo tx)) FullExitNftInfo"

definition FullExitNft_Prepare :: "Lib \<Rightarrow> FullExitNftTxInfo \<Rightarrow> unit go" where
  "FullExitNft_Prepare X txInfo =
     bnd (GetAccountByNameHash X (x_Bytes2Hex X (fn_AccountNameHash txInfo))) (\<lambda>account.
     let txInfo = txInfo\<lparr>fn_AccountIndex := ac_AccountIndex account\<rparr> in
     thn (setTxInfo (FullExitNftInfo txInfo))
     (bnd (newNft (emptyL2Nft 0 (fn_NftIndex txInfo))) (\<lambda>emptyRef.
      bnd (attempt (PrepareNft X (fn_NftIndex txInfo))) (\<lambda>x.
      bnd (case x of
             Inl err \<Rightarrow> if err \<noteq> DbErrNotFound then throw err else ret (emptyRef, True)
           | Inr r \<Rightarrow> bnd (nftAt r) (\<lambda>nft.
               ret (if nft_OwnerAccountIndex nft = ac_AccountIndex account then (r, False) else (emptyRef, True))))
        (\<lambda>(exitRef, isExitEmptyNft).
      thn (BaseExecutor_MarkNftDirty (fn_NftIndex txInfo))
      (thn (BaseExecutor_MarkAccountAssetsDirty (fn_AccountIndex txInfo) [EmptyAccountAssetId])
      (thn (BaseExecutor_Prepare X)
      (bnd (nftAt exitRef) (\<lambda>exitNft.
       bnd (if \<not> isExitEmptyNft
            then bnd (GetFormatAccount X (nft_CreatorAccountIndex exitNft)) (\<lambda>c.
                 bnd (accountAt c) (\<lambda>creator. ret (x_FromHex X (ai_AccountNameHash creator))))
            else ret (x_FromHex X EmptyAccountNameHash)) (\<lambda>creatorNameHash.
       thn (setTxInfo (FullExitNftInfo (txInfo\<lparr>fn_CreatorAccountIndex := nft_CreatorAccountIndex exitNft,
              fn_CreatorTreasuryRate := nft_CreatorTreasuryRate exitNft, fn_CreatorAccountNameHash := creatorNameHash,
              fn_NftL1Address := nft_NftL1Address exitNft, fn_NftL1TokenId := parseBig (nft_NftL1TokenId exitNft),
              fn_NftContentHash := x_FromHex X (nft_NftContentHash exitNft), fn_CollectionId := nft_CollectionId exitNft\<rparr>)))
           (modify (updExec (\<lambda>e. e\<lparr>e_exitNft := Some exitRef, e_exitEmpty := isExitEmptyNft\<rparr>)))))))))))))"

definition FullExitNft_VerifyInputs :: "Lib \<Rightarrow> FullExitNftTxInfo \<Rightarrow> bool \<Rightarrow> unit go" where
  "FullExitNft_VerifyInputs X txInfo skipGasAmtChk = ret ()"

definition FullExitNft_ApplyTransaction :: "Lib \<Rightarrow> FullExitNftTxInfo \<Rightarrow> unit go" where
  "FullExitNft_ApplyTransaction X txInfo =
     bnd (gets (\<lambda>s. e_exitEmpty (w_exec s))) (\<lambda>exitEmpty.
     if exitEmpty then ret ()
     else bnd (newNft (emptyL2Nft 0 (fn_NftIndex txInfo))) (\<lambda>emptyNft.
          thn (setPendingNft (fn_NftIndex txInfo) emptyNft) (BaseExecutor_ApplyTransaction X)))"

definition FullExitNft_pubData :: "Lib \<Rightarrow> FullExitNftTxInfo \<Rightarrow> byte list go" where
  "FullExitNft_pubData X txInfo =
     bnd (filled (Uint40ToBytes (fn_NftIndex txInfo))) (\<lambda>nftIndex.
     let chunk1 = SuffixPaddingBufToChunkSize
           (typeByte TxTypeFullExitNft @ u32 (fn_AccountIndex txInfo) @ u32 (fn_CreatorAccountIndex txInfo) @
            u16 (fn_CreatorTreasuryRate txInfo) @ nftIndex @ u16 (fn_CollectionId txInfo)) in
     bnd (filled (AddressStrToBytes X (fn_NftL1Address txInfo))) (\<lambda>l1Address.
     bnd (filled (PrefixPaddingBufToChunkSize l1Address)) (\<lambda>chunk2.
     bnd (filled (PrefixPaddingBufToChunkSize (fn_AccountNameHash txInfo))) (\<lambda>nameHash.
     bnd (filled (PrefixPaddingBufToChunkSize (fn_CreatorAccountNameHash txInfo))) (\<lambda>creatorNameHash.
     bnd (filled (PrefixPaddingBufToChunkSize (fn_NftContentHash txInfo))) (\<lambda>contentHash.
     bnd (orPanic nilDeref (fn_NftL1TokenId txInfo)) (\<lambda>tokenId.
     bnd (filled (Uint256ToBytes tokenId)) (\<lambda>tokenBytes.
     ret (chunk1 @ chunk2 @ nameHash @ creatorNameHash @ contentHash @ tokenBytes)))))))))"

definition FullExitNft_GeneratePubData :: "Lib \<Rightarrow> FullExitNftTxInfo \<Rightarrow> unit go" where
  "FullExitNft_GeneratePubData X txInfo =
     bnd (FullExitNft_pubData X txInfo) (\<lambda>pubData.
     modify (updSc (\<lambda>c. addPubData pubData (addPendingOnChain X pubData (addPubDataOffset (addPriorityOperation c))))))"

definition FullExitNft_GetExecutedTx :: "Lib \<Rightarrow> FullExitNftTxInfo \<Rightarrow> Tx go" where
  "FullExitNft_GetExecutedTx X txInfo =
     bnd (marshalTxInfo X (FullExitNftInfo txInfo)) (\<lambda>txInfoBytes.
     thn (modify (updTx (\<lambda>t. t\<lparr>tx_TxInfo := txInfoBytes, tx_NftIndex := fn_NftIndex txInfo,
            tx_AccountIndex := fn_AccountIndex txInfo\<rparr>)))
         BaseExecutor_GetExecutedTx)"

definition FullExitNft_GenerateTxDetails :: "Lib \<Rightarrow> FullExitNftTxInfo \<Rightarrow> TxDetail list go" where
  "FullExitNft_GenerateTxDetails X txInfo =
     bnd (GetFormatAccount X (fn_AccountIndex txInfo)) (\<lambda>r.
     bnd (accountAt r) (\<lambda>exitAccount.
     bnd (attempt (GetNft X (fn_NftIndex txInfo))) (\<lambda>x.
     bnd (case x of
            Inl _ \<Rightarrow> ret (EmptyNftInfo (fn_NftIndex txInfo), EmptyNftInfo (fn_NftIndex txInfo))
          | Inr n \<Rightarrow> bnd (nftAt n) (\<lambda>oldNft.
              ret (nftInfoOf oldNft, if fn_AccountIndex txInfo \<noteq> nft_OwnerAccountIndex oldNft then nftInfoOf oldNft
                                     else EmptyNftInfo (fn_NftIndex txInfo))))
       (\<lambda>(baseNft, newNft).
     ret [fungibleDetail EmptyAccountAssetId (fn_AccountIndex txInfo) exitAccount
            (ConstructAccountAsset EmptyAccountAssetId 0 0) 0 0 False,
          nftDetail (fn_NftIndex txInfo) (fn_AccountIndex txInfo) (ai_AccountName exitAccount)
            baseNft newNft 1 (ai_Nonce exitAccount) (ai_CollectionNonce exitAccount)]))))"

end
