(* ===== verification/Exec_Market.thy ===== *)
theory Exec_Market
  imports Exec_Base
begin

text \<open>
  The executors of the marketplace: src/core/executor/atomic\_match\_executor.go and
  cancel\_offer\_executor.go. An offer of an account is a bit of
  \<open>AssetInfo[offerId / 128].OfferCanceledOrFinalized\<close>.
\<close>

section \<open>AtomicMatchExecutor\<close>

definition NewAtomicMatchExecutor :: "Lib \<Rightarrow> Tx \<Rightarrow> unit go" where
  "NewAtomicMatchExecutor X tx =
     newExecutor tx (ErrorsNew ''invalid tx info'') (x_UnmarshalAtomicMatch X (tx_TxInfo tx)) AtomicMatchInfo"

definition AtomicMatch_Prepare :: "Lib \<Rightarrow> AtomicMatchTxInfo \<Rightarrow> unit go" where
  "AtomicMatch_Prepare X txInfo =
     (let buy = am_BuyOffer txInfo; sell = am_SellOffer txInfo;
          buyOfferAssetId = offerAssetId (of_OfferId buy); sellOfferAssetId = offerAssetId (of_OfferId sell) in
      thn (modify (updExec (\<lambda>e. e\<lparr>e_buyOfferAssetId := buyOfferAssetId, e_buyOfferIndex := offerIndex (of_OfferId buy),
             e_sellOfferAssetId := sellOfferAssetId, e_sellOfferIndex := offerIndex (of_OfferId sell)\<rparr>)))
      (bnd (PrepareNft X (of_NftIndex sell)) (\<lambda>r.
       bnd (nftAt r) (\<lambda>matchNft.
       thn (setTxInfo (AtomicMatchInfo (txInfo\<lparr>
              am_TreasuryAmount := x_Div X (x_Multiply X (of_AssetAmount sell) (of_TreasuryRate sell)) TenThousand,
              am_CreatorAmount := x_Div X (x_Multiply X (of_AssetAmount sell) (nft_CreatorTreasuryRate matchNft)) TenThousand\<rparr>)))
       (thn (BaseExecutor_MarkNftDirty (of_NftIndex sell))
       (thn (BaseExecutor_MarkAccountAssetsDirty (am_AccountIndex txInfo) [am_GasFeeAssetId txInfo])
       (thn (BaseExecutor_MarkAccountAssetsDirty (of_AccountIndex buy) [of_AssetId buy, buyOfferAssetId])
       (thn (BaseExecutor_MarkAccountAssetsDirty (of_AccountIndex sell) [of_AssetId sell, sellOfferAssetId])
       (thn (BaseExecutor_MarkAccountAssetsDirty (nft_CreatorAccountIndex matchNft) [of_AssetId buy])
       (thn (BaseExecutor_MarkAccountAssetsDirty (am_GasAccountIndex txInfo) [of_AssetId buy, am_GasFeeAssetId txInfo])
            (BaseExecutor_Prepare X)))))))))))"

text \<open>The checks on the two offers that read nothing of the state.\<close>

definition offersMatch :: "AtomicMatchTxInfo \<Rightarrow> unit go" where
  "offersMatch txInfo =
     (let buy = am_BuyOffer txInfo; sell = am_SellOffer txInfo in
      thn (failIf (of_Type buy \<noteq> BuyOfferType \<or> of_Type sell \<noteq> SellOfferType) AppErrInvalidOfferType)
      (thn (failIf (of_AccountIndex buy = of_AccountIndex sell) AppErrSameBuyerAndSeller)
      (thn (failIf (of_NftIndex sell \<noteq> of_NftIndex buy \<or> of_AssetId sell \<noteq> of_AssetId buy \<or>
              showInt (of_AssetAmount sell) \<noteq> showInt (of_AssetAmount buy) \<or> of_TreasuryRate sell \<noteq> of_TreasuryRate buy)
             AppErrBuyOfferMismatchSellOffer)
           (failIf (of_AssetId sell \<notin> set GasAssets) AppErrInvalidAssetOfOffer))))"

definition AtomicMatch_VerifyInputs :: "Lib \<Rightarrow> AtomicMatchTxInfo \<Rightarrow> bool \<Rightarrow> unit go" where
  "AtomicMatch_VerifyInputs X txInfo skipGasAmtChk =
     (let buy = am_BuyOffer txInfo; sell = am_SellOffer txInfo in
      thn (BaseExecutor_VerifyInputs X skipGasAmtChk)
      (thn (offersMatch txInfo)
      (thn (mapErr (\<lambda>_. AppErrInvalidBuyOfferExpireTime) (VerifyExpiredAt (of_ExpiredAt buy)))
      (thn (mapErr (\<lambda>_. AppErrInvalidSellOfferExpireTime) (VerifyExpiredAt (of_ExpiredAt sell)))
      (bnd (GetFormatAccount X (am_AccountIndex txInfo)) (\<lambda>fromAccount.
       bnd (GetFormatAccount X (of_AccountIndex buy)) (\<lambda>buyAccount.
       bnd (GetFormatAccount X (of_AccountIndex sell)) (\<lambda>sellAccount.
       thn (if am_AccountIndex txInfo = of_AccountIndex buy \<and> am_GasFeeAssetId txInfo = of_AssetId sell then
              bnd (assetAt fromAccount (am_GasFeeAssetId txInfo)) (\<lambda>g.
              failIf (aa_Balance g < x_Add X (am_GasFeeAssetAmount txInfo) (of_AssetAmount buy)) AppErrSellerBalanceNotEnough)
            else
              bnd (assetAt fromAccount (am_GasFeeAssetId txInfo)) (\<lambda>g.
              thn (failIf (aa_Balance g < am_GasFeeAssetAmount txInfo) AppErrSellerBalanceNotEnough)
              (bnd (assetAt buyAccount (of_AssetId buy)) (\<lambda>a.
               failIf (aa_Balance a < of_AssetAmount buy) AppErrBuyerBalanceNotEnough))))
       (bnd (gets w_exec) (\<lambda>e.
        bnd (assetAt sellAccount (e_sellOfferAssetId e)) (\<lambda>sellOffer.
        bnd (Bit (aa_OfferCanceledOrFinalized sellOffer) (e_sellOfferIndex e)) (\<lambda>sellBit.
        thn (failIf sellBit AppErrInvalidSellOfferState)
        (bnd (assetAt buyAccount (e_buyOfferAssetId e)) (\<lambda>buyOffer.
         bnd (Bit (aa_OfferCanceledOrFinalized buyOffer) (e_buyOfferIndex e)) (\<lambda>buyBit.
         thn (failIf buyBit AppErrInvalidBuyOfferState)
         (bnd (GetNft X (of_NftIndex sell)) (\<lambda>r.
          bnd (nftAt r) (\<lambda>nft.
          thn (failIf (nft_OwnerAccountIndex nft \<noteq> of_AccountIndex sell) AppErrSellerNotOwner)
          (bnd (accountAt buyAccount) (\<lambda>buyer.
           bnd (accountAt sellAccount) (\<lambda>seller.
           thn (failOn (x_OfferVerifySignature X buy (ai_PublicKey buyer)))
               (failOn (x_OfferVerifySignature X sell (ai_PublicKey seller))))))))))))))))))))))))"

text \<open>\<open>AssetInfo[a].OfferCanceledOrFinalized\<close> with the bit of the offer set.\<close>

definition setOfferBit :: "nat \<Rightarrow> int \<Rightarrow> int \<Rightarrow> unit go" where
  "setOfferBit r a i =
     bnd (assetAt r a) (\<lambda>x.
     bnd (SetBit (aa_OfferCanceledOrFinalized x) i) (\<lambda>offer. mutAcc r (updOffer a offer)))"

definition AtomicMatch_ApplyTransaction :: "Lib \<Rightarrow> AtomicMatchTxInfo \<Rightarrow> unit go" where
  "AtomicMatch_ApplyTransaction X txInfo =
     (let buy = am_BuyOffer txInfo; sell = am_SellOffer txInfo in
      bnd (GetNft X (of_NftIndex sell)) (\<lambda>nftRef.
      bnd (nftAt nftRef) (\<lambda>matchNft.
      bnd (GetFormatAccount X (am_AccountIndex txInfo)) (\<lambda>fromAccount.
      bnd (GetFormatAccount X (of_AccountIndex buy)) (\<lambda>buyAccount.
      bnd (GetFormatAccount X (of_AccountIndex sell)) (\<lambda>sellAccount.
      bnd (GetFormatAccount X (nft_CreatorAccountIndex matchNft)) (\<lambda>creatorAccount.
      bnd (gets w_exec) (\<lambda>e.
      thn (mutAcc fromAccount (subBal X (am_GasFeeAssetId txInfo) (am_GasFeeAssetAmount txInfo)))
      (thn (mutAcc buyAccount (subBal X (of_AssetId buy) (of_AssetAmount buy)))
      (thn (mutAcc sellAccount (addBal X (of_AssetId sell)
             (x_Sub X (of_AssetAmount buy) (x_Add X (am_TreasuryAmount txInfo) (am_CreatorAmount txInfo)))))
      (thn (mutAcc creatorAccount (addBal X (of_AssetId buy) (am_CreatorAmount txInfo)))
      (thn (mutAcc fromAccount incNonce)
      (thn (setOfferBit sellAccount (e_sellOfferAssetId e) (e_sellOfferIndex e))
      (thn (setOfferBit buyAccount (e_buyOfferAssetId e) (e_buyOfferIndex e))
      (thn (setNftOwner nftRef (of_AccountIndex buy))
      (thn (setPendingSelf fromAccount)
      (thn (setPendingSelf buyAccount)
      (thn (setPendingSelf sellAccount)
      (thn (setPendingSelf creatorAccount)
      (thn (setPendingNft (nft_NftIndex matchNft) nftRef)
      (thn (setPendingGas X (of_AssetId buy) (am_TreasuryAmount txInfo))
      (thn (setPendingGas X (am_GasFeeAssetId txInfo) (am_GasFeeAssetAmount txInfo))
           (BaseExecutor_ApplyTransaction X)))))))))))))))))))))))"

definition AtomicMatch_pubData :: "Lib \<Rightarrow> AtomicMatchTxInfo \<Rightarrow> byte list go" where
  "AtomicMatch_pubData X txInfo =
     (let buy = am_BuyOffer txInfo; sell = am_SellOffer txInfo in
      bnd (filled (Uint24ToBytes (of_OfferId buy))) (\<lambda>buyOfferId.
      bnd (filled (Uint24ToBytes (of_OfferId sell))) (\<lambda>sellOfferId.
      bnd (filled (Uint40ToBytes (of_NftIndex buy))) (\<lambda>nftIndex.
      let chunk1 = SuffixPaddingBufToChunkSize
            (typeByte TxTypeAtomicMatch @ u32 (am_AccountIndex txInfo) @ u32 (of_AccountIndex buy) @ buyOfferId @
             u32 (of_AccountIndex sell) @ sellOfferId @ nftIndex @ u16 (of_AssetId sell)) in
      bnd (AmountToPackedAmountBytes X (of_AssetAmount buy)) (\<lambda>packedAmountBytes.
      bnd (AmountToPackedAmountBytes X (am_CreatorAmount txInfo)) (\<lambda>creatorAmountBytes.
      bnd (AmountToPackedAmountBytes X (am_TreasuryAmount txInfo)) (\<lambda>treasuryAmountBytes.
      bnd (FeeToPackedFeeBytes X (am_GasFeeAssetAmount txInfo)) (\<lambda>packedFeeBytes.
      bnd (filled (PrefixPaddingBufToChunkSize
             (packedAmountBytes @ creatorAmountBytes @ treasuryAmountBytes @ u32 (am_GasAccountIndex txInfo) @
              u16 (am_GasFeeAssetId txInfo) @ packedFeeBytes))) (\<lambda>chunk2.
      ret (chunk1 @ chunk2 @ emptyChunk @ emptyChunk @ emptyChunk @ emptyChunk))))))))))"

definition AtomicMatch_GeneratePubData :: "Lib \<Rightarrow> AtomicMatchTxInfo \<Rightarrow> unit go" where
  "AtomicMatch_GeneratePubData X txInfo =
     bnd (AtomicMatch_pubData X txInfo) (\<lambda>pubData. modify (updSc (addPubData pubData)))"

definition AtomicMatch_GetExecutedTx :: "Lib \<Rightarrow> AtomicMatchTxInfo \<Rightarrow> Tx go" where
  "AtomicMatch_GetExecutedTx X txInfo =
     bnd (marshalTxInfo X (AtomicMatchInfo txInfo)) (\<lambda>txInfoBytes.
     thn (modify (updTx (\<lambda>t. t\<lparr>tx_TxInfo := txInfoBytes, tx_GasFeeAssetId := am_GasFeeAssetId txInfo,
            tx_GasFee := showInt (am_GasFeeAssetAmount txInfo), tx_NftIndex := of_NftIndex (am_SellOffer txInfo),
            tx_AssetId := of_AssetId (am_BuyOffer txInfo), tx_TxAmount := showInt (of_AssetAmount (am_BuyOffer txInfo))\<rparr>)))
         BaseExecutor_GetExecutedTx)"

text \<open>
  The rows of the buyer, the seller, the creator and the gas account in the order of the code. The
  offer rows carry the new offer bits as the delta.
\<close>

definition copyOfferBit :: "copies \<Rightarrow> int \<Rightarrow> int \<Rightarrow> int \<Rightarrow> int go" where
  "copyOfferBit cs i a idx = bnd (copyAsset cs i a) (\<lambda>x. SetBit (aa_OfferCanceledOrFinalized x) idx)"

definition AtomicMatch_GenerateTxDetails :: "Lib \<Rightarrow> AtomicMatchTxInfo \<Rightarrow> TxDetail list go" where
  "AtomicMatch_GenerateTxDetails X txInfo =
     (let buyOffer = am_BuyOffer txInfo; sellOffer = am_SellOffer txInfo;
          from = am_AccountIndex txInfo; gas = am_GasAccountIndex txInfo;
          buy = of_AccountIndex buyOffer; sell = of_AccountIndex sellOffer;
          g = am_GasFeeAssetId txInfo; fee = am_GasFeeAssetAmount txInfo;
          a = of_AssetId buyOffer; amount = of_AssetAmount buyOffer in
      bnd (GetNft X (of_NftIndex sellOffer)) (\<lambda>r.
      bnd (nftAt r) (\<lambda>matchNft.
      let creator = nft_CreatorAccountIndex matchNft in
      bnd (gets w_exec) (\<lambda>e.
      bnd (DeepCopyAccounts X [from, gas, sell, buy, creator]) (\<lambda>cs.
      bnd (fungibleRow cs g from (ConstructAccountAsset g (x_Neg X fee) 0) 0 0 False) (\<lambda>d0.
      bnd (copyMut cs from (subBal X g fee)) (\<lambda>cs.
      bnd (fungibleRow cs a buy (ConstructAccountAsset a (x_Neg X amount) 0) 1 1 False) (\<lambda>d1.
      bnd (copyMut cs buy (subBal X a amount)) (\<lambda>cs.
      bnd (copyOfferBit cs buy (e_buyOfferAssetId e) (e_buyOfferIndex e)) (\<lambda>buyBits.
      bnd (fungibleRow cs (e_buyOfferAssetId e) buy (ConstructAccountAsset (e_buyOfferAssetId e) 0 buyBits) 2 1 False) (\<lambda>d2.
      bnd (copyMut cs buy (updOffer (e_buyOfferAssetId e) buyBits)) (\<lambda>cs.
      let sellDelta = x_Sub X (of_AssetAmount sellOffer) (x_Add X (am_TreasuryAmount txInfo) (am_CreatorAmount txInfo)) in
      bnd (fungibleRow cs (of_AssetId sellOffer) sell (ConstructAccountAsset (of_AssetId sellOffer) sellDelta 0) 3 2 False) (\<lambda>d3.
      bnd (copyMut cs sell (addBal X (of_AssetId sellOffer) sellDelta)) (\<lambda>cs.
      bnd (copyOfferBit cs sell (e_sellOfferAssetId e) (e_sellOfferIndex e)) (\<lambda>sellBits.
      bnd (fungibleRow cs (e_sellOfferAssetId e) sell (ConstructAccountAsset (e_sellOfferAssetId e) 0 sellBits) 4 2 False) (\<lambda>d4.
      bnd (copyMut cs sell (updOffer (e_sellOfferAssetId e) sellBits)) (\<lambda>cs.
      bnd (fungibleRow cs a creator (ConstructAccountAsset a (am_CreatorAmount txInfo) 0) 5 3 False) (\<lambda>d5.
      bnd (copyMut cs creator (addBal X a (am_CreatorAmount txInfo))) (\<lambda>cs.
      let d6 = nftDetail (nft_NftIndex matchNft) NilAccountIndex NilAccountName (nftInfoOf matchNft)
            ((nftInfoOf matchNft)\<lparr>ni_OwnerAccountIndex := buy\<rparr>) 6 0 0 in
      bnd (fungibleRow cs a gas (ConstructAccountAsset a (am_TreasuryAmount txInfo) 0) 7 4 True) (\<lambda>d7.
      bnd (copyMut cs gas (addBal X a (am_TreasuryAmount txInfo))) (\<lambda>cs.
      bnd (fungibleRow cs g gas (ConstructAccountAsset g fee 0) 8 4 True) (\<lambda>d8.
      bnd (copyMut cs gas (addBal X g fee)) (\<lambda>cs.
      ret [d0, d1, d2, d3, d4, d5, d6, d7, d8])))))))))))))))))))))))"

section \<open>CancelOfferExecutor\<close>

definition NewCancelOfferExecutor :: "Lib \<Rightarrow> Tx \<Rightarrow> unit go" where
  "NewCancelOfferExecutor X tx =
     newExecutor tx (ErrorsNew ''invalid tx info'') (x_UnmarshalCancelOffer X (tx_TxInfo tx)) CancelOfferInfo"

definition CancelOffer_Prepare :: "Lib \<Rightarrow> CancelOfferTxInfo \<Rightarrow> unit go" where
  "CancelOffer_Prepare X txInfo =
     thn (BaseExecutor_MarkAccountAssetsDirty (co_AccountIndex txInfo)
            [co_GasFeeAssetId txInfo, offerAssetId (co_OfferId txInfo)])
     (thn (BaseExecutor_MarkAccountAssetsDirty (co_GasAccountIndex txInfo) [co_GasFeeAssetId txInfo])
          (BaseExecutor_Prepare X))"

definition CancelOffer_VerifyInputs :: "Lib \<Rightarrow> CancelOfferTxInfo \<Rightarrow> bool \<Rightarrow> unit go" where
  "CancelOffer_VerifyInputs X txInfo skipGasAmtChk =
     thn (BaseExecutor_VerifyInputs X skipGasAmtChk)
     (bnd (GetFormatAccount X (co_AccountIndex txInfo)) (\<lambda>fromAccount.
      bnd (assetAt fromAccount (co_GasFeeAssetId txInfo)) (\<lambda>g.
      thn (failIf (aa_Balance g < co_GasFeeAssetAmount txInfo) AppErrBalanceNotEnough)
      (bnd (accountAt fromAccount) (\<lambda>from.
       case ai_AssetInfo from (offerAssetId (co_OfferId txInfo)) of
         None \<Rightarrow> ret ()
       | Some offerAsset \<Rightarrow>
           bnd (Bit (aa_OfferCanceledOrFinalized offerAsset) (offerIndex (co_OfferId txInfo))) (\<lambda>xBit.
           failIf xBit AppErrInvalidOfferState))))))"

definition CancelOffer_ApplyTransaction :: "Lib \<Rightarrow> CancelOfferTxInfo \<Rightarrow> unit go" where
  "CancelOffer_ApplyTransaction X txInfo =
     bnd (GetFormatAccount X (co_AccountIndex txInfo)) (\<lambda>fromAccount.
     thn (mutAcc fromAccount (subBal X (co_GasFeeAssetId txInfo) (co_GasFeeAssetAmount txInfo)))
     (thn (mutAcc fromAccount incNonce)
     (thn (setOfferBit fromAccount (offerAssetId (co_OfferId txInfo)) (offerIndex (co_OfferId txInfo)))
     (thn (setPendingSelf fromAccount)
     (thn (setPendingGas X (co_GasFeeAssetId txInfo) (co_GasFeeAssetAmount txInfo))
          (BaseExecutor_ApplyTransaction X))))))"

definition CancelOffer_pubData :: "Lib \<Rightarrow> CancelOfferTxInfo \<Rightarrow> byte list go" where
  "CancelOffer_pubData X txInfo =
     bnd (filled (Uint24ToBytes (co_OfferId txInfo))) (\<lambda>offerId.
     bnd (FeeToPackedFeeBytes X (co_GasFeeAssetAmount txInfo)) (\<lambda>packedFeeBytes.
     let chunk = SuffixPaddingBufToChunkSize
           (typeByte TxTypeCancelOffer @ u32 (co_AccountIndex txInfo) @ offerId @
            u32 (co_GasAccountIndex txInfo) @ u16 (co_GasFeeAssetId txInfo) @ packedFeeBytes) in
     ret (chunk @ emptyChunk @ emptyChunk @ emptyChunk @ emptyChunk @ emptyChunk)))"

definition CancelOffer_GeneratePubData :: "Lib \<Rightarrow> CancelOfferTxInfo \<Rightarrow> unit go" where
  "CancelOffer_GeneratePubData X txInfo =
     bnd (CancelOffer_pubData X txInfo) (\<lambda>pubData. modify (updSc (addPubData pubData)))"

definition CancelOffer_GetExecutedTx :: "Lib \<Rightarrow> CancelOfferTxInfo \<Rightarrow> Tx go" where
  "CancelOffer_GetExecutedTx X txInfo =
     bnd (marshalTxInfo X (CancelOfferInfo txInfo)) (\<lambda>txInfoBytes.
     thn (modify (updTx (\<lambda>t. t\<lparr>tx_TxInfo := txInfoBytes, tx_GasFeeAssetId := co_GasFeeAssetId txInfo,
            tx_GasFee := showInt (co_GasFeeAssetAmount txInfo)\<rparr>)))
         BaseExecutor_GetExecutedTx)"

definition CancelOffer_GenerateTxDetails :: "Lib \<Rightarrow> CancelOfferTxInfo \<Rightarrow> TxDetail list go" where
  "CancelOffer_GenerateTxDetails X txInfo =
     (let from = co_AccountIndex txInfo; gas = co_GasAccountIndex txInfo;
          g = co_GasFeeAssetId txInfo; fee = co_GasFeeAssetAmount txInfo;
          o_a = offerAssetId (co_OfferId txInfo); o_i = offerIndex (co_OfferId txInfo) in
      bnd (DeepCopyAccounts X [from, gas]) (\<lambda>cs.
      bnd (fungibleRow cs g from (ConstructAccountAsset g (x_Neg X fee) 0) 0 0 False) (\<lambda>d0.
      bnd (copyMut cs from (subBal X g fee)) (\<lambda>cs.
      bnd (copyAsset cs from g) (\<lambda>y.
      thn (failIf (aa_Balance y < 0) (ErrorsNew ''insufficient gas fee balance''))
      (bnd (copyAsset cs from o_a) (\<lambda>x.
       bnd (Bit (aa_OfferCanceledOrFinalized x) o_i) (\<lambda>used.
       thn (failIf used (ErrorsNew ''unexpected err''))
       (bnd (SetBit (aa_OfferCanceledOrFinalized x) o_i) (\<lambda>nOffer.
        bnd (fungibleRow cs o_a from (ConstructAccountAsset o_a 0 nOffer) 1 0 False) (\<lambda>d1.
        bnd (copyMut cs from (updOffer o_a nOffer)) (\<lambda>cs.
        bnd (fungibleRow cs g gas (ConstructAccountAsset g fee 0) 2 1 True) (\<lambda>d2.
        ret [d0, d1, d2])))))))))))))"

end
