(* ===== verification/Zk_Processor.thy ===== *)
theory Zk_Processor
  imports Exec_Fungible Exec_Nft Exec_Market
begin

text \<open>
  The executor interface and its dispatch (src/core/executor/executor.go), the two processors that
  drive an executor (src/core/block\_processor.go), and the block bookkeeping of
  src/core/blockchain.go they rely on.
\<close>

section \<open>TxExecutor\<close>

definition NewTxExecutor :: "Lib \<Rightarrow> Tx \<Rightarrow> unit go" where
  "NewTxExecutor X tx =
     (let t = tx_TxType tx in
      if t = TxTypeRegisterZns then NewRegisterZnsExecutor X tx
      else if t = TxTypeDeposit then NewDepositExecutor X tx
      else if t = TxTypeDepositNft then NewDepositNftExecutor X tx
      else if t = TxTypeTransfer then NewTransferExecutor X tx
      else if t = TxTypeWithdraw then NewWithdrawExecutor X tx
      else if t = TxTypeCreateCollection then NewCreateCollectionExecutor X tx
      else if t = TxTypeMintNft then NewMintNftExecutor X tx
      else if t = TxTypeTransferNft then NewTransferNftExecutor X tx
      else if t = TxTypeAtomicMatch then NewAtomicMatchExecutor X tx
      else if t = TxTypeCancelOffer then NewCancelOfferExecutor X tx
      else if t = TxTypeWithdrawNft then NewWithdrawNftExecutor X tx
      else if t = TxTypeFullExit then NewFullExitExecutor X tx
      else if t = TxTypeFullExitNft then NewFullExitNftExecutor X tx
      else throw (ErrorsNew ''unsupported tx type''))"

text \<open>A call of an interface method runs the method of the executor's own type.\<close>

fun executor_Prepare :: "Lib \<Rightarrow> TxInfo \<Rightarrow> unit go" where
  "executor_Prepare X (RegisterZnsInfo i) = RegisterZns_Prepare X i"
| "executor_Prepare X (DepositInfo i) = Deposit_Prepare X i"
| "executor_Prepare X (DepositNftInfo i) = DepositNft_Prepare X i"
| "executor_Prepare X (TransferInfo i) = Transfer_Prepare X i"
| "executor_Prepare X (WithdrawInfo i) = Withdraw_Prepare X i"
| "executor_Prepare X (CreateCollectionInfo i) = CreateCollection_Prepare X i"
| "executor_Prepare X (MintNftInfo i) = MintNft_Prepare X i"
| "executor_Prepare X (TransferNftInfo i) = TransferNft_Prepare X i"
| "executor_Prepare X (AtomicMatchInfo i) = AtomicMatch_Prepare X i"
| "executor_Prepare X (CancelOfferInfo i) = CancelOffer_Prepare X i"
| "executor_Prepare X (WithdrawNftInfo i) = WithdrawNft_Prepare X i"
| "executor_Prepare X (FullExitInfo i) = FullExit_Prepare X i"
| "executor_Prepare X (FullExitNftInfo i) = FullExitNft_Prepare X i"

fun executor_VerifyInputs :: "Lib \<Rightarrow> bool \<Rightarrow> TxInfo \<Rightarrow> unit go" where
  "executor_VerifyInputs X skip (RegisterZnsInfo i) = RegisterZns_VerifyInputs X i skip"
| "executor_VerifyInputs X skip (DepositInfo i) = Deposit_VerifyInputs X i skip"
| "executor_VerifyInputs X skip (DepositNftInfo i) = DepositNft_VerifyInputs X i skip"
| "executor_VerifyInputs X skip (TransferInfo i) = Transfer_VerifyInputs X i skip"
| "executor_VerifyInputs X skip (WithdrawInfo i) = Withdraw_VerifyInputs X i skip"
| "executor_VerifyInputs X skip (CreateCollectionInfo i) = CreateCollection_VerifyInputs X i skip"
| "executor_VerifyInputs X skip (MintNftInfo i) = MintNft_VerifyInputs X i skip"
| "executor_VerifyInputs X skip (TransferNftInfo i) = TransferNft_VerifyInputs X i skip"
| "executor_VerifyInputs X skip (AtomicMatchInfo i) = AtomicMatch_VerifyInputs X i skip"
| "executor_VerifyInputs X skip (CancelOfferInfo i) = CancelOffer_VerifyInputs X i skip"
| "executor_VerifyInputs X skip (WithdrawNftInfo i) = WithdrawNft_VerifyInputs X i skip"
| "executor_VerifyInputs X skip (FullExitInfo i) = FullExit_VerifyInputs X i skip"
| "executor_VerifyInputs X skip (FullExitNftInfo i) = FullExitNft_VerifyInputs X i skip"

fun executor_ApplyTransaction :: "Lib \<Rightarrow> TxInfo \<Rightarrow> unit go" where
  "executor_ApplyTransaction X (RegisterZnsInfo i) = RegisterZns_ApplyTransaction X i"
| "executor_ApplyTransaction X (DepositInfo i) = Deposit_ApplyTransaction X i"
| "executor_ApplyTransaction X (DepositNftInfo i) = DepositNft_ApplyTransaction X i"
| "executor_ApplyTransaction X (TransferInfo i) = Transfer_ApplyTransaction X i"
| "executor_ApplyTransaction X (WithdrawInfo i) = Withdraw_ApplyTransaction X i"
| "executor_ApplyTransaction X (CreateCollectionInfo i) = CreateCollection_ApplyTransaction X i"
| "executor_ApplyTransaction X (MintNftInfo i) = MintNft_ApplyTransaction X i"
| "executor_ApplyTransaction X (TransferNftInfo i) = TransferNft_ApplyTransaction X i"
| "executor_ApplyTransaction X (AtomicMatchInfo i) = AtomicMatch_ApplyTransaction X i"
| "executor_ApplyTransaction X (CancelOfferInfo i) = CancelOffer_ApplyTransaction X i"
| "executor_ApplyTransaction X (WithdrawNftInfo i) = WithdrawNft_ApplyTransaction X i"
| "executor_ApplyTransaction X (FullExitInfo i) = FullExit_ApplyTransaction X i"
| "executor_ApplyTransaction X (FullExitNftInfo i) = FullExitNft_ApplyTransaction X i"

fun executor_GeneratePubData :: "Lib \<Rightarrow> TxInfo \<Rightarrow> unit go" where
  "executor_GeneratePubData X (RegisterZnsInfo i) = RegisterZns_GeneratePubData X i"
| "executor_GeneratePubData X (DepositInfo i) = Deposit_GeneratePubData X i"
| "executor_GeneratePubData X (DepositNftInfo i) = DepositNft_GeneratePubData X i"
| "executor_GeneratePubData X (TransferInfo i) = Transfer_GeneratePubData X i"
| "executor_GeneratePubData X (WithdrawInfo i) = Withdraw_GeneratePubData X i"
| "executor_GeneratePubData X (CreateCollectionInfo i) = CreateCollection_GeneratePubData X i"
| "executor_GeneratePubData X (MintNftInfo i) = MintNft_GeneratePubData X i"
| "executor_GeneratePubData X (TransferNftInfo i) = TransferNft_GeneratePubData X i"
| "executor_GeneratePubData X (AtomicMatchInfo i) = AtomicMatch_GeneratePubData X i"
| "executor_GeneratePubData X (CancelOfferInfo i) = CancelOffer_GeneratePubData X i"
| "executor_GeneratePubData X (WithdrawNftInfo i) = WithdrawNft_GeneratePubData X i"
| "executor_GeneratePubData X (FullExitInfo i) = FullExit_GeneratePubData X i"
| "executor_GeneratePubData X (FullExitNftInfo i) = FullExitNft_GeneratePubData X i"

fun executor_GetExecutedTx :: "Lib \<Rightarrow> TxInfo \<Rightarrow> Tx go" where
  "executor_GetExecutedTx X (RegisterZnsInfo i) = RegisterZns_GetExecutedTx X i"
| "executor_GetExecutedTx X (DepositInfo i) = Deposit_GetExecutedTx X i"
| "executor_GetExecutedTx X (DepositNftInfo i) = DepositNft_GetExecutedTx X i"
| "executor_GetExecutedTx X (TransferInfo i) = Transfer_GetExecutedTx X i"
| "executor_GetExecutedTx X (WithdrawInfo i) = Withdraw_GetExecutedTx X i"
| "executor_GetExecutedTx X (CreateCollectionInfo i) = CreateCollection_GetExecutedTx X i"
| "executor_GetExecutedTx X (MintNftInfo i) = MintNft_GetExecutedTx X i"
| "executor_GetExecutedTx X (TransferNftInfo i) = TransferNft_GetExecutedTx X i"
| "executor_GetExecutedTx X (AtomicMatchInfo i) = AtomicMatch_GetExecutedTx X i"
| "executor_GetExecutedTx X (CancelOfferInfo i) = CancelOffer_GetExecutedTx X i"
| "executor_GetExecutedTx X (WithdrawNftInfo i) = WithdrawNft_GetExecutedTx X i"
| "executor_GetExecutedTx X (FullExitInfo i) = FullExit_GetExecutedTx X i"
| "executor_GetExecutedTx X (FullExitNftInfo i) = FullExitNft_GetExecutedTx X i"

fun executor_GenerateTxDetails :: "Lib \<Rightarrow> TxInfo \<Rightarrow> TxDetail list go" where
  "executor_GenerateTxDetails X (RegisterZnsInfo i) = RegisterZns_GenerateTxDetails X i"
| "executor_GenerateTxDetails X (DepositInfo i) = Deposit_GenerateTxDetails X i"
| "executor_GenerateTxDetails X (DepositNftInfo i) = DepositNft_GenerateTxDetails X i"
| "executor_GenerateTxDetails X (TransferInfo i) = Transfer_GenerateTxDetails X i"
| "executor_GenerateTxDetails X (WithdrawInfo i) = Withdraw_GenerateTxDetails X i"
| "executor_GenerateTxDetails X (CreateCollectionInfo i) = CreateCollection_GenerateTxDetails X i"
| "executor_GenerateTxDetails X (MintNftInfo i) = MintNft_GenerateTxDetails X i"
| "executor_GenerateTxDetails X (TransferNftInfo i) = TransferNft_GenerateTxDetails X i"
| "executor_GenerateTxDetails X (AtomicMatchInfo i) = AtomicMatch_GenerateTxDetails X i"
| "executor_GenerateTxDetails X (CancelOfferInfo i) = CancelOffer_GenerateTxDetails X i"
| "executor_GenerateTxDetails X (WithdrawNftInfo i) = WithdrawNft_GenerateTxDetails X i"
| "executor_GenerateTxDetails X (FullExitInfo i) = FullExit_GenerateTxDetails X i"
| "executor_GenerateTxDetails X (FullExitNftInfo i) = FullExitNft_GenerateTxDetails X i"

text \<open>A method call on the executor held by the processor.\<close>

definition onExec :: "(TxInfo \<Rightarrow> 'a go) \<Rightarrow> 'a go" where
  "onExec f = bnd (gets (\<lambda>s. e_iTxInfo (w_exec s))) f"

section \<open>Block bookkeeping\<close>

definition setCurrentBlockTimeStamp :: "unit go" where
  "setCurrentBlockTimeStamp = modify (\<lambda>s.
     if bk_CreatedAt (w_currentBlock s) = zeroTimeMilli \<and> sc_Txs (w_sc s) = []
     then s\<lparr>w_currentBlock := (w_currentBlock s)\<lparr>bk_CreatedAt := w_now s\<rparr>\<rparr> else s)"

definition resetCurrentBlockTimeStamp :: "unit go" where
  "resetCurrentBlockTimeStamp = modify (\<lambda>s.
     if sc_Txs (w_sc s) \<noteq> [] then s
     else s\<lparr>w_currentBlock := (w_currentBlock s)\<lparr>bk_CreatedAt := zeroTimeMilli\<rparr>\<rparr>)"

definition InitNewBlock :: "Lib \<Rightarrow> Block go" where
  "InitNewBlock X =
     bnd (gets w_currentBlock) (\<lambda>cur.
     let newBlock = \<lparr>bk_BlockHeight = wrap64 (bk_BlockHeight cur + 1), bk_StateRoot = bk_StateRoot cur,
           bk_BlockStatus = StatusProposing, bk_CreatedAt = zeroTimeMilli, bk_BlockSize = 0,
           bk_BlockCommitment = [], bk_PriorityOperations = 0, bk_PendingOnChainOperationsHash = [],
           bk_PendingOnChainOperationsPubData = [], bk_Txs = []\<rparr> in
     thn (modify (\<lambda>s. s\<lparr>w_currentBlock := newBlock\<rparr>))
     (thn (PurgeCache X (bk_StateRoot newBlock))
     (thn (MarkGasAccountAsPending X) (ret newBlock))))"

section \<open>Processors\<close>

text \<open>\<open>defer d()\<close>: run on every way out, a panic included.\<close>

definition deferred :: "'a go \<Rightarrow> unit go \<Rightarrow> 'a go" where
  "deferred m d = (\<lambda>s. case m s of (r, t) \<Rightarrow> (r, snd (d t)))"

definition commitSteps :: "Lib \<Rightarrow> Tx \<Rightarrow> unit go" where
  "commitSteps X tx =
     thn (mapErr (\<lambda>_. ErrorsNew ''new tx executor failed'') (NewTxExecutor X tx))
     (thn (onExec (executor_Prepare X))
     (thn (onExec (executor_VerifyInputs X True))
     (bnd (onExec (executor_GenerateTxDetails X)) (\<lambda>txDetails.
      thn (modify (updTx (\<lambda>t. t\<lparr>tx_TxDetails := txDetails\<rparr>)))
      (thn (mustOk ''apply transaction'' (onExec (executor_ApplyTransaction X)))
      (thn (mustOk ''generate pub data'' (onExec (executor_GeneratePubData X)))
      (bnd (mustOk ''get executed tx'' (onExec (executor_GetExecutedTx X))) (\<lambda>tx.
       modify (updSc (\<lambda>c. c\<lparr>sc_Txs := sc_Txs c @ [tx]\<rparr>))))))))))"

definition CommitProcessor_Process :: "Lib \<Rightarrow> Tx \<Rightarrow> unit go" where
  "CommitProcessor_Process X tx =
     thn setCurrentBlockTimeStamp (deferred (commitSteps X tx) resetCurrentBlockTimeStamp)"

definition mappingPrepareErrors :: "err \<Rightarrow> err" where
  "mappingPrepareErrors e = (case e of AppErr c m \<Rightarrow> AppErr c m | _ \<Rightarrow> AppErrInternal)"

text \<open>
  \<open>err.Error()\<close> of the errors that reach the default case of the mapping below; the named sentinels
  of txtypes never do.
\<close>

fun errText :: "err \<Rightarrow> string" where
  "errText (AppErr c m) = showInt c @ '': '' @ m"
| "errText DbErrNotFound = ''sql: no rows in result set''"
| "errText DbErrSqlOperation = ''unknown sql operation error''"
| "errText JsonErrUnmarshal = ''json.Unmarshal err''"
| "errText JsonErrMarshal = ''json.Marshal err''"
| "errText (ErrorsNew m) = m"
| "errText (TxtypesErr (ErrOther m)) = m"
| "errText (TxtypesErr _) = []"

definition mappingVerifyInputsErrors :: "err \<Rightarrow> err" where
  "mappingVerifyInputsErrors err =
     (case err of
        TxtypesErr e \<Rightarrow>
          (if e \<in> {ErrAccountIndexTooLow, ErrAccountIndexTooHigh, ErrCreatorAccountIndexTooLow, ErrCreatorAccountIndexTooHigh,
                   ErrFromAccountIndexTooLow, ErrFromAccountIndexTooHigh, ErrToAccountIndexTooLow, ErrToAccountIndexTooHigh}
           then AppErrInvalidAccountIndex
           else if e \<in> {ErrGasAccountIndexTooLow, ErrGasAccountIndexTooHigh} then AppErrInvalidGasFeeAccount
           else if e \<in> {ErrGasFeeAssetIdTooLow, ErrGasFeeAssetIdTooHigh} then AppErrInvalidGasFeeAsset
           else if e \<in> {ErrGasFeeAssetAmountTooLow, ErrGasFeeAssetAmountTooHigh} then AppErrInvalidGasFeeAmount
           else if e = ErrNonceTooLow then AppErrInvalidNonce
           else if e = ErrOfferTypeInvalid then AppErrInvalidOfferType
           else if e = ErrOfferIdTooLow then AppErrInvalidOfferId
           else if e = ErrNftIndexTooLow then AppErrInvalidNftIndex
           else if e \<in> {ErrAssetIdTooLow, ErrAssetIdTooHigh} then AppErrInvalidAssetId
           else if e \<in> {ErrAssetAmountTooLow, ErrAssetAmountTooHigh} then AppErrInvalidAssetAmount
           else if e = ErrListedAtTooLow then AppErrInvalidListTime
           else if e \<in> {ErrTreasuryRateTooLow, ErrTreasuryRateTooHigh, ErrCreatorTreasuryRateTooLow, ErrCreatorTreasuryRateTooHigh}
           then AppErrInvalidTreasuryRate
           else if e \<in> {ErrCollectionNameTooShort, ErrCollectionNameTooLong} then AppErrInvalidCollectionName
           else if e = ErrIntroductionTooLong then AppErrInvalidIntroduction
           else if e = ErrNftContentHashInvalid then AppErrInvalidNftContenthash
           else if e \<in> {ErrNftCollectionIdTooLow, ErrNftCollectionIdTooHigh} then AppErrInvalidCollectionId
           else if e = ErrCallDataHashInvalid then AppErrInvalidCallDataHash
           else if e = ErrToAccountNameHashInvalid then AppErrInvalidToAccountNameHash
           else if e = ErrToAddressInvalid then AppErrInvalidToAddress
           else if e = ErrBuyOfferInvalid then AppErrInvalidBuyOffer
           else if e = ErrSellOfferInvalid then AppErrInvalidSellOffer
           else RefineError AppErrInvalidTxField (errText err))
      | _ \<Rightarrow> RefineError AppErrInvalidTxField (errText err))"

definition APIProcessor_Process :: "Lib \<Rightarrow> Tx \<Rightarrow> unit go" where
  "APIProcessor_Process X tx =
     thn (mapErr (\<lambda>_. ErrorsNew ''new tx executor failed'') (NewTxExecutor X tx))
     (thn (mapErr mappingPrepareErrors (onExec (executor_Prepare X)))
          (mapErr mappingVerifyInputsErrors (onExec (executor_VerifyInputs X False))))"

end
