(* ===== verification/Ref_Apply.thy ===== *)
theory Ref_Apply
  imports Zk_Prepare Zk_Processor
begin

text \<open>
  The abstract effect of each transaction on the ledger, and that \<open>ApplyTransaction\<close> of each
  executor has exactly that effect: the sequence of pointer assignments of the code, with any
  aliasing between its roles, refines the ledger operation, always succeeds on prepared accounts and
  leaves the state well formed.
\<close>

section \<open>Effects on the ledger\<close>

definition registerL :: "Lib \<Rightarrow> RegisterZnsTxInfo \<Rightarrow> string \<Rightarrow> Ledger \<Rightarrow> Ledger" where
  "registerL X ti nativeAddress L =
     (case ToFormatAccountInfo (newAccountOf X ti nativeAddress) of Inl _ \<Rightarrow> L | Inr a \<Rightarrow> addAcct (rz_AccountIndex ti) a L)"

definition depositL :: "DepositTxInfo \<Rightarrow> Ledger \<Rightarrow> Ledger" where
  "depositL ti L = creditL (dp_AccountIndex ti) (dp_AssetId ti) (dp_AssetAmount ti) L"

definition fullExitL :: "FullExitTxInfo \<Rightarrow> Ledger \<Rightarrow> Ledger" where
  "fullExitL ti L = creditL (fe_AccountIndex ti) (fe_AssetId ti) (- fe_AssetAmount ti) L"

definition payGasL :: "int \<Rightarrow> int \<Rightarrow> int \<Rightarrow> Ledger \<Rightarrow> Ledger" where
  "payGasL i a fee L = gasL a fee (bumpNonce i (creditL i a (- fee) L))"

definition transferL :: "TransferTxInfo \<Rightarrow> Ledger \<Rightarrow> Ledger" where
  "transferL ti L = payGasL (tr_FromAccountIndex ti) (tr_GasFeeAssetId ti) (tr_GasFeeAssetAmount ti)
     (creditL (tr_ToAccountIndex ti) (tr_AssetId ti) (tr_AssetAmount ti)
     (creditL (tr_FromAccountIndex ti) (tr_AssetId ti) (- tr_AssetAmount ti) L))"

definition withdrawL :: "WithdrawTxInfo \<Rightarrow> Ledger \<Rightarrow> Ledger" where
  "withdrawL ti L = payGasL (wd_FromAccountIndex ti) (wd_GasFeeAssetId ti) (wd_GasFeeAssetAmount ti)
     (creditL (wd_FromAccountIndex ti) (wd_AssetId ti) (- wd_AssetAmount ti) L)"

definition createCollectionL :: "CreateCollectionTxInfo \<Rightarrow> Ledger \<Rightarrow> Ledger" where
  "createCollectionL ti L = payGasL (cc_AccountIndex ti) (cc_GasFeeAssetId ti) (cc_GasFeeAssetAmount ti)
     (putCnonce (cc_AccountIndex ti) (wrap64 (l_cnonce L (cc_AccountIndex ti) + 1)) L)"

definition mintNftL :: "MintNftTxInfo \<Rightarrow> Ledger \<Rightarrow> Ledger" where
  "mintNftL ti L = payGasL (mn_CreatorAccountIndex ti) (mn_GasFeeAssetId ti) (mn_GasFeeAssetAmount ti)
     (putNft (mn_NftIndex ti) (mintedNft ti) L)"

definition setOwnerL :: "int \<Rightarrow> int \<Rightarrow> Ledger \<Rightarrow> Ledger" where
  "setOwnerL n owner L = (case l_nft L n of None \<Rightarrow> L | Some x \<Rightarrow> putNft n (x\<lparr>nft_OwnerAccountIndex := owner\<rparr>) L)"

definition transferNftL :: "TransferNftTxInfo \<Rightarrow> Ledger \<Rightarrow> Ledger" where
  "transferNftL ti L = payGasL (tn_FromAccountIndex ti) (tn_GasFeeAssetId ti) (tn_GasFeeAssetAmount ti)
     (setOwnerL (tn_NftIndex ti) (tn_ToAccountIndex ti) L)"

definition withdrawNftL :: "WithdrawNftTxInfo \<Rightarrow> Ledger \<Rightarrow> Ledger" where
  "withdrawNftL ti L = payGasL (wn_AccountIndex ti) (wn_GasFeeAssetId ti) (wn_GasFeeAssetAmount ti)
     (case l_nft L (wn_NftIndex ti) of None \<Rightarrow> L
      | Some _ \<Rightarrow> putNft (wn_NftIndex ti) (emptyL2Nft 0 (wn_NftIndex ti)) L)"

definition depositNftL :: "Lib \<Rightarrow> DepositNftTxInfo \<Rightarrow> Ledger \<Rightarrow> Ledger" where
  "depositNftL X ti L = putNft (dn_NftIndex ti) (depositedNft X ti) L"

definition fullExitNftL :: "bool \<Rightarrow> FullExitNftTxInfo \<Rightarrow> Ledger \<Rightarrow> Ledger" where
  "fullExitNftL exitEmpty ti L = (if exitEmpty then L else putNft (fn_NftIndex ti) (emptyL2Nft 0 (fn_NftIndex ti)) L)"

definition setOfferL :: "int \<Rightarrow> int \<Rightarrow> Ledger \<Rightarrow> Ledger" where
  "setOfferL i offerId L = putOffer i (offerAssetId offerId)
     (set_bit (nat (offerIndex offerId)) (l_offer L i (offerAssetId offerId))) L"

definition cancelOfferL :: "CancelOfferTxInfo \<Rightarrow> Ledger \<Rightarrow> Ledger" where
  "cancelOfferL ti L = payGasL (co_AccountIndex ti) (co_GasFeeAssetId ti) (co_GasFeeAssetAmount ti)
     (setOfferL (co_AccountIndex ti) (co_OfferId ti) L)"

definition atomicMatchL :: "AtomicMatchTxInfo \<Rightarrow> Ledger \<Rightarrow> Ledger" where
  "atomicMatchL ti L =
     (let buy = am_BuyOffer ti; sell = am_SellOffer ti;
          creator = (case l_nft L (of_NftIndex sell) of None \<Rightarrow> 0 | Some n \<Rightarrow> nft_CreatorAccountIndex n) in
      gasL (am_GasFeeAssetId ti) (am_GasFeeAssetAmount ti)
     (gasL (of_AssetId buy) (am_TreasuryAmount ti)
     (setOwnerL (of_NftIndex sell) (of_AccountIndex buy)
     (setOfferL (of_AccountIndex buy) (of_OfferId buy)
     (setOfferL (of_AccountIndex sell) (of_OfferId sell)
     (bumpNonce (am_AccountIndex ti)
     (creditL creator (of_AssetId buy) (am_CreatorAmount ti)
     (creditL (of_AccountIndex sell) (of_AssetId sell) (of_AssetAmount buy - (am_TreasuryAmount ti + am_CreatorAmount ti))
     (creditL (of_AccountIndex buy) (of_AssetId buy) (- of_AssetAmount buy)
     (creditL (am_AccountIndex ti) (am_GasFeeAssetId ti) (- am_GasFeeAssetAmount ti) L))))))))))"

section \<open>Ledger operations commute\<close>

lemma creditL_creditL: "creditL i a d (creditL j b e L) = creditL j b e (creditL i a d L)"
  by (auto simp: creditL_def putBal_def fun_eq_iff)

lemma ledger_sel [simp]:
  "l_bal (creditL i a d L) = (\<lambda>j b. l_bal L j b + (if j = i \<and> b = a then d else 0))"
  "l_offer (creditL i a d L) = l_offer L" "l_nonce (creditL i a d L) = l_nonce L" "l_cnonce (creditL i a d L) = l_cnonce L"
  "l_id (creditL i a d L) = l_id L" "l_nft (creditL i a d L) = l_nft L" "l_gas (creditL i a d L) = l_gas L"
  "l_bal (gasL a d L) = l_bal L" "l_offer (gasL a d L) = l_offer L" "l_nonce (gasL a d L) = l_nonce L"
  "l_cnonce (gasL a d L) = l_cnonce L" "l_id (gasL a d L) = l_id L" "l_nft (gasL a d L) = l_nft L"
  "l_gas (gasL a d L) = (\<lambda>b. l_gas L b + (if b = a then d else 0))"
  "l_bal (bumpNonce i L) = l_bal L" "l_offer (bumpNonce i L) = l_offer L" "l_cnonce (bumpNonce i L) = l_cnonce L"
  "l_id (bumpNonce i L) = l_id L" "l_nft (bumpNonce i L) = l_nft L" "l_gas (bumpNonce i L) = l_gas L"
  "l_nonce (bumpNonce i L) = (l_nonce L)(i := wrap64 (l_nonce L i + 1))"
  by (auto simp: ledger_defs fun_eq_iff)

lemma put_sel [simp]:
  "l_bal (putNft n x L) = l_bal L" "l_offer (putNft n x L) = l_offer L" "l_nonce (putNft n x L) = l_nonce L"
  "l_cnonce (putNft n x L) = l_cnonce L" "l_id (putNft n x L) = l_id L" "l_gas (putNft n x L) = l_gas L"
  "l_nft (putNft n x L) = (l_nft L)(n \<mapsto> nftCore x)"
  "l_bal (putCnonce i c L) = l_bal L" "l_offer (putCnonce i c L) = l_offer L" "l_nonce (putCnonce i c L) = l_nonce L"
  "l_id (putCnonce i c L) = l_id L" "l_gas (putCnonce i c L) = l_gas L" "l_nft (putCnonce i c L) = l_nft L"
  "l_cnonce (putCnonce i c L) = (l_cnonce L)(i := c)"
  "l_bal (putOffer i a w L) = l_bal L" "l_nonce (putOffer i a w L) = l_nonce L" "l_cnonce (putOffer i a w L) = l_cnonce L"
  "l_id (putOffer i a w L) = l_id L" "l_gas (putOffer i a w L) = l_gas L" "l_nft (putOffer i a w L) = l_nft L"
  "l_offer (putOffer i a w L) = (l_offer L)(i := (l_offer L i)(a := w))"
  by (auto simp: ledger_defs fun_eq_iff)

lemma Ledger_eqI:
  fixes L M :: Ledger
  shows "l_bal L = l_bal M \<Longrightarrow> l_offer L = l_offer M \<Longrightarrow> l_nonce L = l_nonce M \<Longrightarrow> l_cnonce L = l_cnonce M \<Longrightarrow>
   l_id L = l_id M \<Longrightarrow> l_nft L = l_nft M \<Longrightarrow> l_gas L = l_gas M \<Longrightarrow> L = M"
  by (cases L; cases M) simp

text \<open>The state after a transaction was applied: the new ledger, and nothing else changed.\<close>

definition ledgerNow :: "View \<Rightarrow> Ledger \<Rightarrow> World \<Rightarrow> bool" where
  "ledgerNow v L s \<longleftrightarrow> wf s \<and> ledgerOf s = L \<and> maskSc (w_sc s) = v_sc v \<and> w_db s = v_db v \<and>
     w_currentBlock s = v_blk v \<and> w_exec s = v_exec v \<and> v_nextAcc v \<le> w_nextAccountNumber s \<and>
     (\<forall>i. l_id L i \<noteq> None \<longrightarrow> l_id (v_led v) i \<noteq> None \<or> i \<le> w_nextAccountNumber s)"

lemma ledgerNowI:
  assumes "St D E w s" "D \<subseteq> {}" "E \<subseteq> {}" "v_led w = L" "v_sc w = v_sc v" "v_db w = v_db v" "v_blk w = v_blk v" "v_exec w = v_exec v"
    and "v_nextAcc v \<le> v_nextAcc w" "\<And>i. i \<le> v_nextAcc w \<or> l_id (v_led w) i = l_id (v_led v) i"
  shows "ledgerNow v L s"
proof -
  have "\<forall>i. l_id L i \<noteq> None \<longrightarrow> l_id (v_led v) i \<noteq> None \<or> i \<le> v_nextAcc w"
  proof
    fix i from assms(4) assms(10) [of i] show "l_id L i \<noteq> None \<longrightarrow> l_id (v_led v) i \<noteq> None \<or> i \<le> v_nextAcc w"
      by auto
  qed
  with assms(1-9) show ?thesis by (auto simp: ledgerNow_def St_def)
qed

section \<open>Refinement\<close>

abbreviation applies :: "View \<Rightarrow> unit go \<Rightarrow> (Ledger \<Rightarrow> Ledger) \<Rightarrow> bool" where
  "applies v m g \<equiv> spec (St {} {} v) m (\<lambda>_. ledgerNow v (g (v_led v))) (\<lambda>_. False)"

lemma Deposit_apply:
  assumes X: "lru_ok X" "ffmath_ok X"
    and d: "resident v (dp_AccountIndex ti) [dp_AssetId ti]"
  shows "applies v (Deposit_ApplyTransaction X ti) (depositL ti)"
proof -
  from d obtain rd where vd: "v_ref v (dp_AccountIndex ti) = Some rd" "v_has v (dp_AccountIndex ti) (dp_AssetId ti)" by (auto simp: resident_def)
  show ?thesis
    unfolding Deposit_ApplyTransaction_def depositL_def
    by (rule X vd | rule triple | erule ledgerNowI | simp | blast
      | rule Ledger_eqI; force simp: fun_eq_iff)+
qed

lemma Transfer_apply:
  assumes X: "lru_ok X" "ffmath_ok X"
    and f: "resident v (tr_FromAccountIndex ti) [tr_GasFeeAssetId ti, tr_AssetId ti]"
    and t: "resident v (tr_ToAccountIndex ti) [tr_AssetId ti]"
  shows "applies v (Transfer_ApplyTransaction X ti) (transferL ti)"
proof -
  from f obtain rf where vf: "v_ref v (tr_FromAccountIndex ti) = Some rf" "v_has v (tr_FromAccountIndex ti) (tr_GasFeeAssetId ti)" "v_has v (tr_FromAccountIndex ti) (tr_AssetId ti)" by (auto simp: resident_def)
  from t obtain rt where vt: "v_ref v (tr_ToAccountIndex ti) = Some rt" "v_has v (tr_ToAccountIndex ti) (tr_AssetId ti)" by (auto simp: resident_def)
  show ?thesis
    unfolding Transfer_ApplyTransaction_def transferL_def payGasL_def
    by (rule X vf vt | rule triple | erule ledgerNowI | simp | blast
      | rule Ledger_eqI; force simp: fun_eq_iff)+
qed

lemma Withdraw_apply:
  assumes X: "lru_ok X" "ffmath_ok X"
    and f: "resident v (wd_FromAccountIndex ti) [wd_GasFeeAssetId ti, wd_AssetId ti]"
  shows "applies v (Withdraw_ApplyTransaction X ti) (withdrawL ti)"
proof -
  from f obtain rf where vf: "v_ref v (wd_FromAccountIndex ti) = Some rf" "v_has v (wd_FromAccountIndex ti) (wd_GasFeeAssetId ti)" "v_has v (wd_FromAccountIndex ti) (wd_AssetId ti)" by (auto simp: resident_def)
  show ?thesis
    unfolding Withdraw_ApplyTransaction_def withdrawL_def payGasL_def
    by (rule X vf | rule triple | erule ledgerNowI | simp | blast
      | rule Ledger_eqI; force simp: fun_eq_iff)+
qed

lemma FullExit_apply:
  assumes X: "lru_ok X" "ffmath_ok X" and e: "resident v (fe_AccountIndex ti) [fe_AssetId ti]"
  shows "applies v (FullExit_ApplyTransaction X ti) (fullExitL ti)"
proof -
  from e obtain r where v: "v_ref v (fe_AccountIndex ti) = Some r" "v_has v (fe_AccountIndex ti) (fe_AssetId ti)"
    by (auto simp: resident_def)
  show ?thesis
  proof (cases "fe_AssetAmount ti = 0")
    case True
    then have "fullExitL ti (v_led v) = v_led v" by (simp add: fullExitL_def creditL_def putBal_def)
    with True show ?thesis unfolding FullExit_ApplyTransaction_def
      by (auto intro!: spec_GetFormatAccount [OF X(1) v(1)] spec_subBal_0 [OF X(2) v] spec_thn_ret spec_SyncDirty_last
          elim!: ledgerNowI)
  next
    case False
    show ?thesis unfolding FullExit_ApplyTransaction_def fullExitL_def
      by (rule X v | rule triple | erule ledgerNowI | simp add: False)+
  qed
qed

lemma CreateCollection_apply:
  assumes X: "lru_ok X" "ffmath_ok X"
    and f: "resident v (cc_AccountIndex ti) [cc_GasFeeAssetId ti]"
  shows "applies v (CreateCollection_ApplyTransaction X ti) (createCollectionL ti)"
proof -
  from f obtain rf where vf: "v_ref v (cc_AccountIndex ti) = Some rf" "v_has v (cc_AccountIndex ti) (cc_GasFeeAssetId ti)" by (auto simp: resident_def)
  show ?thesis
    unfolding CreateCollection_ApplyTransaction_def createCollectionL_def payGasL_def
    by (rule X vf | rule triple | erule ledgerNowI | simp | blast
      | rule Ledger_eqI; force simp: fun_eq_iff)+
qed

lemma MintNft_apply:
  assumes X: "lru_ok X" "ffmath_ok X"
    and f: "resident v (mn_CreatorAccountIndex ti) [mn_GasFeeAssetId ti]"
  shows "applies v (MintNft_ApplyTransaction X ti) (mintNftL ti)"
proof -
  from f obtain rf where vf: "v_ref v (mn_CreatorAccountIndex ti) = Some rf" "v_has v (mn_CreatorAccountIndex ti) (mn_GasFeeAssetId ti)" by (auto simp: resident_def)
  show ?thesis
    unfolding MintNft_ApplyTransaction_def mintNftL_def payGasL_def
    by (rule X vf | rule triple | erule ledgerNowI | simp add: mintedNft_def | blast
      | rule Ledger_eqI; force simp: fun_eq_iff)+
qed

lemma TransferNft_apply:
  assumes X: "lru_ok X" "ffmath_ok X"
    and f: "resident v (tn_FromAccountIndex ti) [tn_GasFeeAssetId ti]"
    and n: "v_nref v (tn_NftIndex ti) = Some rn"
    and x: "l_nft (v_led v) (tn_NftIndex ti) = Some x"
  shows "applies v (TransferNft_ApplyTransaction X ti) (transferNftL ti)"
proof -
  from f obtain rf where vf: "v_ref v (tn_FromAccountIndex ti) = Some rf" "v_has v (tn_FromAccountIndex ti) (tn_GasFeeAssetId ti)" by (auto simp: resident_def)
  show ?thesis
    unfolding TransferNft_ApplyTransaction_def transferNftL_def payGasL_def
    by (rule X vf n x | rule triple | erule ledgerNowI | simp add: setOwnerL_def x | blast
      | rule Ledger_eqI; force simp: fun_eq_iff x)+
qed

lemma emptyL2Nft_core [simp]: "nft_NftIndex (emptyL2Nft i n) = n" "nftCore (emptyL2Nft i n) = emptyL2Nft 0 n"
  by (simp_all add: emptyL2Nft_def EmptyNftInfo_def nftCore_def)

lemma nftInfoOf_core [simp]: "nftInfoOf (nftCore x) = nftInfoOf x"
  by (simp add: nftInfoOf_def)

lemma WithdrawNft_apply:
  assumes X: "lru_ok X" "ffmath_ok X"
    and f: "resident v (wn_AccountIndex ti) [wn_GasFeeAssetId ti]"
    and n: "v_nref v (wn_NftIndex ti) = Some rn"
  shows "applies v (WithdrawNft_ApplyTransaction X ti) (withdrawNftL ti)"
proof -
  from f obtain rf where vf: "v_ref v (wn_AccountIndex ti) = Some rf" "v_has v (wn_AccountIndex ti) (wn_GasFeeAssetId ti)" by (auto simp: resident_def)
  show ?thesis
    unfolding WithdrawNft_ApplyTransaction_def withdrawNftL_def payGasL_def
    by (rule X vf n | rule triple | erule ledgerNowI | simp | blast
      | rule Ledger_eqI; force simp: fun_eq_iff)+
qed

lemma DepositNft_apply: "applies v (DepositNft_ApplyTransaction X ti) (depositNftL X ti)"
  unfolding DepositNft_ApplyTransaction_def depositNftL_def
  by (rule triple | erule ledgerNowI | simp add: depositedNft_def)+

lemma FullExitNft_apply: "applies v (FullExitNft_ApplyTransaction X ti) (fullExitNftL (e_exitEmpty (v_exec v)) ti)"
  unfolding FullExitNft_ApplyTransaction_def fullExitNftL_def
  by (rule triple | rule spec_ret | erule ledgerNowI | simp)+

lemma spec_setOfferBit [triple]:
  assumes "v_ref v i = Some r" "v_has v i a" "0 \<le> k"
    and "spec (St (insert i D) E (v\<lparr>v_led := putOffer i a (set_bit (nat k) (l_offer (v_led v) i a)) (v_led v)\<rparr>)) n Q R"
  shows "spec (St D E v) (thn (setOfferBit r a k) n) Q R"
proof -
  have "thn (setOfferBit r a k) n =
      bnd (assetAt r a) (\<lambda>x. thn (mutAcc r (updOffer a (set_bit (nat k) (aa_OfferCanceledOrFinalized x)))) n)"
    using assms(3) by (simp add: setOfferBit_def thn_def bnd_assoc SetBit_def)
  with assms show ?thesis by (auto intro!: spec_assetAt [OF assms(1,2)] spec_updOffer [OF assms(1,2)])
qed

lemma spec_UpdateCache [triple]:
  assumes "spec (St D E (v\<lparr>v_nextAcc := max (v_nextAcc v) k\<rparr>)) n Q R"
  shows "spec (St D E v) (thn (UpdateCache k h) n) Q R"
  unfolding UpdateCache_def
proof (rule spec_modify [OF _ assms])
  fix s assume S: "St D E v s"
  let ?t = "s\<lparr>w_nextAccountNumber := max (w_nextAccountNumber s) k, w_blockNumber := max (w_blockNumber s) h\<rparr>"
  have "view ?t = (view s)\<lparr>v_led := (ledgerOf s)\<lparr>l_gas := GetPendingGas (w_sc ?t)\<rparr>, v_sc := maskSc (w_sc ?t),
      v_exec := w_exec ?t, v_nextAcc := w_nextAccountNumber ?t\<rparr>"
    by (rule view_gas_sc) (simp_all add: acctRef_def nftRef_def fun_eq_iff cong: option.case_cong)
  then have "view ?t = (view s)\<lparr>v_nextAcc := max (w_nextAccountNumber s) k\<rparr>" by (simp add: view_def ledgerOf_def)
  moreover have "wfx D E ?t = wfx D E s" by (simp add: wfx_def dbAcc_def dbNft_def)
  ultimately show "St D E (v\<lparr>v_nextAcc := max (v_nextAcc v) k\<rparr>) ?t" using S by (auto simp: St_def)
qed

lemma RegisterZns_apply:
  assumes "l_id (v_led v) (rz_AccountIndex ti) = None"
  shows "applies v (RegisterZns_ApplyTransaction X ti) (registerL X ti (tx_NativeAddress (e_tx (v_exec v))))"
proof -
  let ?n = "newAccountOf X ti (tx_NativeAddress (e_tx (v_exec v)))"
  obtain a where a: "ToFormatAccountInfo ?n = Inr a"
    by (simp add: ToFormatAccountInfo_def newAccountOf_def)
  then have "ai_AccountIndex a = rz_AccountIndex ti" using ToFormat_index [OF a] by (simp add: newAccountOf_def)
  with a assms show ?thesis
    unfolding RegisterZns_ApplyTransaction_def registerL_def
    by (auto simp: ofSum_def intro!: triple elim!: ledgerNowI) (simp add: addAcct_def split: if_splits)
qed

lemma CancelOffer_apply:
  assumes X: "lru_ok X" "ffmath_ok X"
    and f: "resident v (co_AccountIndex ti) [co_GasFeeAssetId ti, offerAssetId (co_OfferId ti)]"
    and o: "0 \<le> offerIndex (co_OfferId ti)"
  shows "applies v (CancelOffer_ApplyTransaction X ti) (cancelOfferL ti)"
proof -
  from f obtain r where v: "v_ref v (co_AccountIndex ti) = Some r" "v_has v (co_AccountIndex ti) (co_GasFeeAssetId ti)"
    "v_has v (co_AccountIndex ti) (offerAssetId (co_OfferId ti))" by (auto simp: resident_def)
  show ?thesis
    unfolding CancelOffer_ApplyTransaction_def cancelOfferL_def payGasL_def setOfferL_def
    by (rule X v o | rule triple | erule ledgerNowI | simp | blast | rule Ledger_eqI; force simp: fun_eq_iff)+
qed

lemma spec_nftAt_known:
  assumes "v_nref v n = Some r" "l_nft (v_led v) n = Some x" "\<And>y. f y = f (nftCore y)"
    and "nft_NftIndex x = n \<Longrightarrow> spec (St D E v) (f x) Q R"
  shows "spec (St D E v) (bnd (nftAt r) f) Q R"
proof (rule spec_nftAt [OF assms(1)])
  fix y assume "l_nft (v_led v) n = Some (nftCore y)" "nft_NftIndex y = n"
  with assms(2,4) have "spec (St D E v) (f (nftCore y)) Q R" by auto
  then show "spec (St D E v) (f y) Q R" using assms(3) [of y] by simp
qed

text \<open>
  A match moves the price from the buyer to the seller, the creator and the treasury, for any
  coincidence between sender, buyer, seller and creator.
\<close>

definition matchReady :: "View \<Rightarrow> AtomicMatchTxInfo \<Rightarrow> bool" where
  "matchReady v ti \<longleftrightarrow>
     (let buy = am_BuyOffer ti; sell = am_SellOffer ti in
      resident v (am_AccountIndex ti) [am_GasFeeAssetId ti] \<and>
      resident v (of_AccountIndex buy) [of_AssetId buy, offerAssetId (of_OfferId buy)] \<and>
      resident v (of_AccountIndex sell) [of_AssetId sell, offerAssetId (of_OfferId sell)] \<and>
      (\<exists>r x. v_nref v (of_NftIndex sell) = Some r \<and> l_nft (v_led v) (of_NftIndex sell) = Some x \<and>
         resident v (nft_CreatorAccountIndex x) [of_AssetId buy]) \<and>
      e_buyOfferAssetId (v_exec v) = offerAssetId (of_OfferId buy) \<and>
      e_buyOfferIndex (v_exec v) = offerIndex (of_OfferId buy) \<and>
      e_sellOfferAssetId (v_exec v) = offerAssetId (of_OfferId sell) \<and>
      e_sellOfferIndex (v_exec v) = offerIndex (of_OfferId sell))"

lemma AtomicMatch_apply:
  assumes X: "lru_ok X" "ffmath_ok X" and m: "matchReady v ti"
    and b: "0 \<le> offerIndex (of_OfferId (am_BuyOffer ti))" and s: "0 \<le> offerIndex (of_OfferId (am_SellOffer ti))"
  shows "applies v (AtomicMatch_ApplyTransaction X ti) (atomicMatchL ti)"
proof -
  define buy sell where "buy = am_BuyOffer ti" and "sell = am_SellOffer ti"
  note def = buy_def [symmetric] sell_def [symmetric]
  from m obtain rf rb rs rc rn x where
    vf: "v_ref v (am_AccountIndex ti) = Some rf" "v_has v (am_AccountIndex ti) (am_GasFeeAssetId ti)" and
    vb: "v_ref v (of_AccountIndex buy) = Some rb" "v_has v (of_AccountIndex buy) (of_AssetId buy)"
      "v_has v (of_AccountIndex buy) (offerAssetId (of_OfferId buy))" and
    vs: "v_ref v (of_AccountIndex sell) = Some rs" "v_has v (of_AccountIndex sell) (of_AssetId sell)"
      "v_has v (of_AccountIndex sell) (offerAssetId (of_OfferId sell))" and
    vn: "v_nref v (of_NftIndex sell) = Some rn" "l_nft (v_led v) (of_NftIndex sell) = Some x" and
    vc: "v_ref v (nft_CreatorAccountIndex x) = Some rc" "v_has v (nft_CreatorAccountIndex x) (of_AssetId buy)" and
    e: "e_buyOfferAssetId (v_exec v) = offerAssetId (of_OfferId buy)" "e_buyOfferIndex (v_exec v) = offerIndex (of_OfferId buy)"
      "e_sellOfferAssetId (v_exec v) = offerAssetId (of_OfferId sell)" "e_sellOfferIndex (v_exec v) = offerIndex (of_OfferId sell)"
    by (auto simp: matchReady_def Let_def resident_def def)
  have f: "x_Sub X = (-)" "x_Add X = (+)" using X(2) by (simp_all add: ffmath_ok_def)
  show ?thesis
    unfolding AtomicMatch_ApplyTransaction_def atomicMatchL_def Let_def setOfferL_def setOwnerL_def def f
    by (rule spec_GetNft [OF X(1) vn(1)], rule spec_nftAt_known [OF vn], simp,
      (rule X vf vb vs vc vn b [unfolded def] s [unfolded def] | rule triple | erule ledgerNowI
      | simp add: vn e del: insert_Diff_if | blast)+)
qed

end
