(* ===== verification/Ref_Stages.thy ===== *)
theory Ref_Stages
  imports Zk_Rules Ref_Apply
begin

text \<open>
  The contract of the stages of a transaction, per transaction type and over the ledger only:
  \<open>adapted\<close> is how \<open>Prepare\<close> completes the payload, \<open>ready\<close> what it makes resident, \<open>guard\<close> what a
  successful \<open>VerifyInputs\<close> has checked, \<open>detailed\<close> what \<open>GenerateTxDetails\<close> adds, \<open>effect\<close> what
  \<open>ApplyTransaction\<close> does. The lemmas show that every executor keeps the contract: no stage panics,
  the stages before \<open>ApplyTransaction\<close> leave the ledger alone on success and on error, and
  \<open>ApplyTransaction\<close> succeeds with exactly the effect.
\<close>

definition libOk :: "Lib \<Rightarrow> bool" where
  "libOk X \<longleftrightarrow> lru_ok X \<and> lru_order X \<and> range_ok X \<and> ffmath_ok X \<and> accessors_ok X \<and> validate_ok X"

lemma libOkD:
  assumes "libOk X"
  shows "lru_ok X" "lru_order X" "range_ok X" "ffmath_ok X" "accessors_ok X" "validate_ok X"
  using assms by (simp_all add: libOk_def)

section \<open>The contract\<close>

text \<open>The payload \<open>Prepare\<close> leaves in the executor.\<close>

fun adapted :: "Lib \<Rightarrow> View \<Rightarrow> TxInfo \<Rightarrow> TxInfo \<Rightarrow> bool" where
  "adapted X v (DepositInfo t) u \<longleftrightarrow>
     (\<exists>i. accountNamed v (x_Bytes2Hex X (dp_AccountNameHash t)) i \<and> u = DepositInfo (t\<lparr>dp_AccountIndex := i\<rparr>))"
| "adapted X v (FullExitInfo t) u \<longleftrightarrow>
     (\<exists>i. accountNamed v (x_Bytes2Hex X (fe_AccountNameHash t)) i \<and>
        u = FullExitInfo (t\<lparr>fe_AccountIndex := i, fe_AssetAmount := l_bal (v_led v) i (fe_AssetId t)\<rparr>))"
| "adapted X v (DepositNftInfo t) u \<longleftrightarrow>
     (\<exists>i. accountNamed v (x_Bytes2Hex X (dn_AccountNameHash t)) i \<and> u = DepositNftInfo (t\<lparr>dn_AccountIndex := i\<rparr>))"
| "adapted X v (FullExitNftInfo t) u \<longleftrightarrow>
     (\<exists>i t'. accountNamed v (x_Bytes2Hex X (fn_AccountNameHash t)) i \<and> u = FullExitNftInfo t' \<and>
        fn_AccountIndex t' = i \<and> fn_NftIndex t' = fn_NftIndex t)"
| "adapted X v (CreateCollectionInfo t) u \<longleftrightarrow>
     u = CreateCollectionInfo (t\<lparr>cc_CollectionId := l_cnonce (v_led v) (cc_AccountIndex t)\<rparr>)"
| "adapted X v (MintNftInfo t) u \<longleftrightarrow>
     (\<exists>n. ((\<forall>k. l_nft (v_led v) k \<noteq> None \<longrightarrow> k < 2 ^ 63 - 1) \<longrightarrow> nftAbove (v_led v) n) \<and> u = MintNftInfo (t\<lparr>mn_NftIndex := n\<rparr>))"
| "adapted X v (WithdrawNftInfo t) u \<longleftrightarrow>
     (\<exists>x h. l_nft (v_led v) (wn_NftIndex t) = Some x \<and>
        u = WithdrawNftInfo (t\<lparr>wn_CreatorAccountIndex := nft_CreatorAccountIndex x,
          wn_CreatorAccountNameHash := h, wn_CreatorTreasuryRate := nft_CreatorTreasuryRate x,
          wn_NftContentHash := x_FromHex X (nft_NftContentHash x), wn_NftL1Address := nft_NftL1Address x,
          wn_NftL1TokenId := parseBig (nft_NftL1TokenId x), wn_CollectionId := nft_CollectionId x\<rparr>))"
| "adapted X v (AtomicMatchInfo t) u \<longleftrightarrow>
     (\<exists>x. l_nft (v_led v) (of_NftIndex (am_SellOffer t)) = Some x \<and>
        u = AtomicMatchInfo (t\<lparr>
          am_TreasuryAmount := x_Div X (of_AssetAmount (am_SellOffer t) * of_TreasuryRate (am_SellOffer t)) TenThousand,
          am_CreatorAmount := x_Div X (of_AssetAmount (am_SellOffer t) * nft_CreatorTreasuryRate x) TenThousand\<rparr>))"
| "adapted X v ti u \<longleftrightarrow> u = ti"

text \<open>What is resident after \<open>Prepare\<close>, for a payload with valid indices.\<close>

fun ready :: "View \<Rightarrow> TxInfo \<Rightarrow> bool" where
  "ready v (RegisterZnsInfo t) \<longleftrightarrow> True"
| "ready v (DepositInfo t) \<longleftrightarrow> (0 \<le> dp_AssetId t \<longrightarrow> resident v (dp_AccountIndex t) [dp_AssetId t])"
| "ready v (FullExitInfo t) \<longleftrightarrow> (0 \<le> fe_AssetId t \<longrightarrow> resident v (fe_AccountIndex t) [fe_AssetId t])"
| "ready v (DepositNftInfo t) \<longleftrightarrow> v_nref v (dn_NftIndex t) \<noteq> None \<and> resident v (dn_AccountIndex t) []"
| "ready v (FullExitNftInfo t) \<longleftrightarrow>
     (e_exitEmpty (v_exec v) \<longleftrightarrow> \<not> (\<exists>x. l_nft (v_led v) (fn_NftIndex t) = Some x \<and> nft_OwnerAccountIndex x = fn_AccountIndex t))"
| "ready v (TransferInfo t) \<longleftrightarrow> (payloadOk (TransferInfo t) \<longrightarrow>
     resident v (tr_FromAccountIndex t) [tr_GasFeeAssetId t, tr_AssetId t] \<and> resident v (tr_ToAccountIndex t) [tr_AssetId t] \<and>
     resident v (tr_GasAccountIndex t) [tr_GasFeeAssetId t])"
| "ready v (WithdrawInfo t) \<longleftrightarrow> (payloadOk (WithdrawInfo t) \<longrightarrow>
     resident v (wd_FromAccountIndex t) [wd_GasFeeAssetId t, wd_AssetId t] \<and> resident v (wd_GasAccountIndex t) [wd_GasFeeAssetId t])"
| "ready v (CreateCollectionInfo t) \<longleftrightarrow> (payloadOk (CreateCollectionInfo t) \<longrightarrow>
     resident v (cc_AccountIndex t) [cc_GasFeeAssetId t] \<and> resident v (cc_GasAccountIndex t) [cc_GasFeeAssetId t])"
| "ready v (MintNftInfo t) \<longleftrightarrow> (payloadOk (MintNftInfo t) \<longrightarrow>
     resident v (mn_CreatorAccountIndex t) [mn_GasFeeAssetId t] \<and> resident v (mn_GasAccountIndex t) [mn_GasFeeAssetId t] \<and>
     resident v (mn_ToAccountIndex t) [])"
| "ready v (TransferNftInfo t) \<longleftrightarrow> v_nref v (tn_NftIndex t) \<noteq> None \<and> (payloadOk (TransferNftInfo t) \<longrightarrow>
     resident v (tn_FromAccountIndex t) [tn_GasFeeAssetId t] \<and> resident v (tn_ToAccountIndex t) [] \<and>
     resident v (tn_GasAccountIndex t) [tn_GasFeeAssetId t])"
| "ready v (WithdrawNftInfo t) \<longleftrightarrow> v_nref v (wn_NftIndex t) \<noteq> None \<and>
     (0 \<le> wn_CreatorAccountIndex t \<longrightarrow> resident v (wn_CreatorAccountIndex t) []) \<and>
     (payloadOk (WithdrawNftInfo t) \<longrightarrow>
     resident v (wn_AccountIndex t) [wn_GasFeeAssetId t] \<and> resident v (wn_GasAccountIndex t) [wn_GasFeeAssetId t])"
| "ready v (CancelOfferInfo t) \<longleftrightarrow> (payloadOk (CancelOfferInfo t) \<longrightarrow>
     resident v (co_AccountIndex t) [co_GasFeeAssetId t, offerAssetId (co_OfferId t)] \<and>
     resident v (co_GasAccountIndex t) [co_GasFeeAssetId t])"
| "ready v (AtomicMatchInfo t) \<longleftrightarrow>
     (let buy = am_BuyOffer t; sell = am_SellOffer t in
      v_nref v (of_NftIndex sell) \<noteq> None \<and>
      e_buyOfferAssetId (v_exec v) = offerAssetId (of_OfferId buy) \<and> e_buyOfferIndex (v_exec v) = offerIndex (of_OfferId buy) \<and>
      e_sellOfferAssetId (v_exec v) = offerAssetId (of_OfferId sell) \<and> e_sellOfferIndex (v_exec v) = offerIndex (of_OfferId sell) \<and>
      (payloadOk (AtomicMatchInfo t) \<longrightarrow>
        resident v (am_AccountIndex t) [am_GasFeeAssetId t] \<and>
        resident v (of_AccountIndex buy) [of_AssetId buy, offerAssetId (of_OfferId buy)] \<and>
        resident v (of_AccountIndex sell) [of_AssetId sell, offerAssetId (of_OfferId sell)] \<and>
        resident v (am_GasAccountIndex t) [of_AssetId buy, am_GasFeeAssetId t] \<and>
        (\<forall>x. l_nft (v_led v) (of_NftIndex sell) = Some x \<longrightarrow> 0 \<le> nft_CreatorAccountIndex x \<longrightarrow>
           resident v (nft_CreatorAccountIndex x) [of_AssetId buy])))"

text \<open>What \<open>VerifyInputs\<close> checks: for an L2 transaction always also \<open>signed\<close>.\<close>

definition nameHashIs :: "Ledger \<Rightarrow> int \<Rightarrow> string \<Rightarrow> bool" where
  "nameHashIs L i h \<longleftrightarrow> (\<exists>acc. l_id L i = Some acc \<and> ai_AccountNameHash acc = h)"

definition affords :: "Ledger \<Rightarrow> int \<Rightarrow> int \<Rightarrow> int \<Rightarrow> int \<Rightarrow> int \<Rightarrow> bool" where
  "affords L i a x g fee \<longleftrightarrow>
     (if g \<noteq> a then x \<le> l_bal L i a \<and> fee \<le> l_bal L i g else x + fee \<le> l_bal L i a)"

definition ownerIs :: "Ledger \<Rightarrow> int \<Rightarrow> int \<Rightarrow> bool" where
  "ownerIs L n i \<longleftrightarrow> (\<exists>x. l_nft L n = Some x \<and> nft_OwnerAccountIndex x = i)"

definition offerOpen :: "Ledger \<Rightarrow> int \<Rightarrow> int \<Rightarrow> bool" where
  "offerOpen L i offerId \<longleftrightarrow> \<not> bit (l_offer L i (offerAssetId offerId)) (nat (offerIndex offerId))"

definition matchable :: "OfferTxInfo \<Rightarrow> OfferTxInfo \<Rightarrow> bool" where
  "matchable buy sell \<longleftrightarrow> of_Type buy = BuyOfferType \<and> of_Type sell = SellOfferType \<and>
     of_AccountIndex buy \<noteq> of_AccountIndex sell \<and> of_NftIndex sell = of_NftIndex buy \<and> of_AssetId sell = of_AssetId buy \<and>
     of_AssetAmount sell = of_AssetAmount buy \<and> of_TreasuryRate sell = of_TreasuryRate buy \<and> of_AssetId sell \<in> set GasAssets"

fun guard :: "Lib \<Rightarrow> View \<Rightarrow> TxInfo \<Rightarrow> bool" where
  "guard X v (RegisterZnsInfo t) \<longleftrightarrow> rz_AccountIndex t = wrap64 (v_nextAcc v + 1)"
| "guard X v (DepositInfo t) \<longleftrightarrow> 0 \<le> dp_AssetAmount t"
| "guard X v (FullExitInfo t) \<longleftrightarrow> True"
| "guard X v (DepositNftInfo t) \<longleftrightarrow> (\<exists>x. l_nft (v_led v) (dn_NftIndex t) = Some x \<and> nft_NftContentHash x = EmptyNftContentHash)"
| "guard X v (FullExitNftInfo t) \<longleftrightarrow> True"
| "guard X v (TransferInfo t) \<longleftrightarrow> signed X (v_led v) (bk_CreatedAt (v_blk v)) (TransferInfo t) \<and>
     nameHashIs (v_led v) (tr_ToAccountIndex t) (tr_ToAccountNameHash t) \<and>
     affords (v_led v) (tr_FromAccountIndex t) (tr_AssetId t) (tr_AssetAmount t) (tr_GasFeeAssetId t) (tr_GasFeeAssetAmount t)"
| "guard X v (WithdrawInfo t) \<longleftrightarrow> signed X (v_led v) (bk_CreatedAt (v_blk v)) (WithdrawInfo t) \<and>
     affords (v_led v) (wd_FromAccountIndex t) (wd_AssetId t) (wd_AssetAmount t) (wd_GasFeeAssetId t) (wd_GasFeeAssetAmount t)"
| "guard X v (CreateCollectionInfo t) \<longleftrightarrow> signed X (v_led v) (bk_CreatedAt (v_blk v)) (CreateCollectionInfo t) \<and>
     cc_GasFeeAssetAmount t \<le> l_bal (v_led v) (cc_AccountIndex t) (cc_GasFeeAssetId t)"
| "guard X v (MintNftInfo t) \<longleftrightarrow> signed X (v_led v) (bk_CreatedAt (v_blk v)) (MintNftInfo t) \<and>
     mn_GasFeeAssetAmount t \<le> l_bal (v_led v) (mn_CreatorAccountIndex t) (mn_GasFeeAssetId t) \<and>
     mn_NftCollectionId t < l_cnonce (v_led v) (mn_CreatorAccountIndex t) \<and>
     nameHashIs (v_led v) (mn_ToAccountIndex t) (mn_ToAccountNameHash t)"
| "guard X v (TransferNftInfo t) \<longleftrightarrow> signed X (v_led v) (bk_CreatedAt (v_blk v)) (TransferNftInfo t) \<and>
     tn_GasFeeAssetAmount t \<le> l_bal (v_led v) (tn_FromAccountIndex t) (tn_GasFeeAssetId t) \<and>
     nameHashIs (v_led v) (tn_ToAccountIndex t) (tn_ToAccountNameHash t) \<and>
     ownerIs (v_led v) (tn_NftIndex t) (tn_FromAccountIndex t)"
| "guard X v (WithdrawNftInfo t) \<longleftrightarrow> signed X (v_led v) (bk_CreatedAt (v_blk v)) (WithdrawNftInfo t) \<and>
     wn_GasFeeAssetAmount t \<le> l_bal (v_led v) (wn_AccountIndex t) (wn_GasFeeAssetId t) \<and>
     ownerIs (v_led v) (wn_NftIndex t) (wn_AccountIndex t)"
| "guard X v (CancelOfferInfo t) \<longleftrightarrow> signed X (v_led v) (bk_CreatedAt (v_blk v)) (CancelOfferInfo t) \<and>
     co_GasFeeAssetAmount t \<le> l_bal (v_led v) (co_AccountIndex t) (co_GasFeeAssetId t) \<and>
     offerOpen (v_led v) (co_AccountIndex t) (co_OfferId t)"
| "guard X v (AtomicMatchInfo t) \<longleftrightarrow>
     (let buy = am_BuyOffer t; sell = am_SellOffer t; L = v_led v; now = bk_CreatedAt (v_blk v) in
      signed X L now (AtomicMatchInfo t) \<and> matchable buy sell \<and> now \<le> of_ExpiredAt buy \<and> now \<le> of_ExpiredAt sell \<and>
      (if am_AccountIndex t = of_AccountIndex buy \<and> am_GasFeeAssetId t = of_AssetId sell
       then am_GasFeeAssetAmount t + of_AssetAmount buy \<le> l_bal L (am_AccountIndex t) (am_GasFeeAssetId t)
       else am_GasFeeAssetAmount t \<le> l_bal L (am_AccountIndex t) (am_GasFeeAssetId t) \<and>
            of_AssetAmount buy \<le> l_bal L (of_AccountIndex buy) (of_AssetId buy)) \<and>
      offerOpen L (of_AccountIndex sell) (of_OfferId sell) \<and> offerOpen L (of_AccountIndex buy) (of_OfferId buy) \<and>
      ownerIs L (of_NftIndex sell) (of_AccountIndex sell) \<and>
      (\<exists>acc. l_id L (of_AccountIndex buy) = Some acc \<and> x_OfferVerifySignature X buy (ai_PublicKey acc) = None) \<and>
      (\<exists>acc. l_id L (of_AccountIndex sell) = Some acc \<and> x_OfferVerifySignature X sell (ai_PublicKey acc) = None))"

fun detailed :: "View \<Rightarrow> TxInfo \<Rightarrow> bool" where
  "detailed v (AtomicMatchInfo t) \<longleftrightarrow>
     (\<exists>x. l_nft (v_led v) (of_NftIndex (am_SellOffer t)) = Some x \<and> v_ref v (nft_CreatorAccountIndex x) \<noteq> None)"
| "detailed v ti \<longleftrightarrow> True"

text \<open>The effect on the ledger, for the native address of the transaction.\<close>

fun effect :: "Lib \<Rightarrow> string \<Rightarrow> TxInfo \<Rightarrow> Ledger \<Rightarrow> Ledger" where
  "effect X na (RegisterZnsInfo t) L = registerL X t na L"
| "effect X na (DepositInfo t) L = depositL t L"
| "effect X na (FullExitInfo t) L = fullExitL t L"
| "effect X na (DepositNftInfo t) L = depositNftL X t L"
| "effect X na (FullExitNftInfo t) L = fullExitNftL (\<not> ownerIs L (fn_NftIndex t) (fn_AccountIndex t)) t L"
| "effect X na (TransferInfo t) L = transferL t L"
| "effect X na (WithdrawInfo t) L = withdrawL t L"
| "effect X na (CreateCollectionInfo t) L = createCollectionL t L"
| "effect X na (MintNftInfo t) L = mintNftL t L"
| "effect X na (TransferNftInfo t) L = transferNftL t L"
| "effect X na (WithdrawNftInfo t) L = withdrawNftL t L"
| "effect X na (CancelOfferInfo t) L = cancelOfferL t L"
| "effect X na (AtomicMatchInfo t) L = atomicMatchL t L"

text \<open>
  What is asked of the state and of a payload that comes from L1, where no signature or range is
  checked: asset ids are \<open>uint16\<close> there. \<open>GetNextNftIndex\<close> panics without a database.
\<close>

fun admissible :: "View \<Rightarrow> TxInfo \<Rightarrow> bool" where
  "admissible v (DepositInfo t) \<longleftrightarrow> 0 \<le> dp_AssetId t"
| "admissible v (FullExitInfo t) \<longleftrightarrow> 0 \<le> fe_AssetId t"
| "admissible v (RegisterZnsInfo t) \<longleftrightarrow> v_nextAcc v < 2 ^ 63 - 1 \<and> -1 \<le> v_nextAcc v"
| "admissible v (MintNftInfo t) \<longleftrightarrow> \<not> db_down (v_db v)"
| "admissible v ti \<longleftrightarrow> True"

text \<open>The state after a successful \<open>Prepare\<close>.\<close>

definition preparedAs :: "Lib \<Rightarrow> View \<Rightarrow> TxInfo \<Rightarrow> World \<Rightarrow> bool" where
  "preparedAs X v ti s \<longleftrightarrow> (\<exists>w u. quietV v w \<and> St {} {} w s \<and> e_iTxInfo (v_exec w) = u \<and>
     txKey (e_tx (v_exec w)) = txKey (e_tx (v_exec v)) \<and> adapted X v ti u \<and> ready w u)"

lemma preparedAsI:
  "St {} {} w s \<Longrightarrow> quietV v w \<Longrightarrow> txKey (e_tx (v_exec w)) = txKey (e_tx (v_exec v)) \<Longrightarrow>
   adapted X v ti (e_iTxInfo (v_exec w)) \<Longrightarrow> ready w (e_iTxInfo (v_exec w)) \<Longrightarrow> preparedAs X v ti s"
  by (auto simp: preparedAs_def)

end
