(* ===== verification/Ref_Prepare.thy ===== *)
theory Ref_Prepare
  imports Ref_Stages
begin

text \<open>
  \<open>Prepare\<close> of every executor keeps the contract of \<open>Ref_Stages\<close>: it completes the payload as
  \<open>adapted\<close> says, makes the accounts of the transaction resident, and leaves the ledger alone, also
  when it fails.
\<close>

lemma dirtyOk_step: "0 < k \<Longrightarrow> dirtyOk (k - 1) d \<Longrightarrow> dirtyOk k (markDirty i as d)"
  using dirtyOk_markDirty [of "k - 1" d i as] by simp

lemma quiet_exec [simp]: "quiet (v\<lparr>v_exec := e\<rparr>) s = quiet v s" "quiet (v\<lparr>v_nref := n\<rparr>) s = quiet v s"
  by (simp_all add: quiet_def quietV_def)

lemma quietV_nref [simp]: "quietV (v\<lparr>v_nref := n\<rparr>) w = quietV v w" "quietV v (w\<lparr>v_nref := n\<rparr>) = quietV v w"
  by (simp_all add: quietV_def)

lemma quiet_St: "St {} {} v s \<Longrightarrow> quiet v s" by (auto intro: quietI)

lemma NewBase_sel [simp]:
  "e_tx (NewBaseExecutor tx ti) = tx" "e_iTxInfo (NewBaseExecutor tx ti) = ti"
  "e_dirtyAccountsAndAssetsMap (NewBaseExecutor tx ti) = []"
  by (simp_all add: NewBaseExecutor_def)

abbreviation prepares :: "Lib \<Rightarrow> View \<Rightarrow> TxInfo \<Rightarrow> unit go \<Rightarrow> bool" where
  "prepares X v ti m \<equiv> spec (St {} {} v) m (\<lambda>_. preparedAs X v ti) (quiet v)"

lemma prepd_prepared:
  assumes p: "prepd u w" and S: "St {} {} w s" and u: "quietV v u" "txKey (e_tx (v_exec u)) = txKey (e_tx (v_exec v))"
    "adapted X v ti (e_iTxInfo (v_exec u))" and r: "prepd u w \<Longrightarrow> ready w (e_iTxInfo (v_exec u))"
  shows "preparedAs X v ti s"
proof -
  from p obtain t where t: "v_exec w = (v_exec u)\<lparr>e_tx := t\<rparr>" "txKey t = txKey (e_tx (v_exec u))"
    by (rule prepd_exec)
  show ?thesis
    by (rule preparedAsI [OF S quietV_trans [OF u(1) prepd_quiet [OF p]]]) (use t u r [OF p] in simp_all)
qed

lemma offer_nonneg [simp]: "0 \<le> i \<Longrightarrow> 0 \<le> offerAssetId i" "0 \<le> i \<Longrightarrow> 0 \<le> offerIndex i"
  by (simp_all add: offerAssetId_def offerIndex_def OfferPerAsset_def go_div_nonneg go_mod_nonneg pos_imp_zdiv_nonneg_iff)

lemma marked_subset: "set bs \<subseteq> set as \<Longrightarrow> marked (markDirty i as d) i bs"
  by (auto simp: marked_def mget_markDirty)

lemma accountNamed_nonneg: "accountNamed v h i \<Longrightarrow> 0 \<le> i" by (simp add: accountNamed_def)

lemmas prep_simps = dirtyOk_step dirtyOk_Nil marked_subset marked_other quiet_St prepd_nref prepd_resident prepd_quiet
  accountNamed_nonneg

lemma Transfer_prepares:
  assumes L: "libOk X" and e: "v_exec v = NewBaseExecutor tx (TransferInfo t)"
  shows "prepares X v (TransferInfo t) (Transfer_Prepare X t)"
  unfolding Transfer_Prepare_def Let_def
  by (rule triple libOkD(1) [OF L] | rule spec_BasePrepare_last [OF libOkD(1-3) [OF L]] | erule (1) prepd_prepared
      | (erule quietI, simp) | (simp add: e prep_simps; blast?))+

lemma Withdraw_prepares:
  assumes L: "libOk X" and e: "v_exec v = NewBaseExecutor tx (WithdrawInfo t)"
  shows "prepares X v (WithdrawInfo t) (Withdraw_Prepare X t)"
  unfolding Withdraw_Prepare_def Let_def
  by (rule triple libOkD(1) [OF L] | rule spec_BasePrepare_last [OF libOkD(1-3) [OF L]] | erule (1) prepd_prepared
      | (erule quietI, simp) | (simp add: e prep_simps; blast?))+

lemma CancelOffer_prepares:
  assumes L: "libOk X" and e: "v_exec v = NewBaseExecutor tx (CancelOfferInfo t)"
  shows "prepares X v (CancelOfferInfo t) (CancelOffer_Prepare X t)"
  unfolding CancelOffer_Prepare_def Let_def
  by (rule triple libOkD(1) [OF L] | rule spec_BasePrepare_last [OF libOkD(1-3) [OF L]] | erule (1) prepd_prepared
      | (erule quietI, simp) | (simp add: e prep_simps; blast?))+

lemma MintNft_prepares:
  assumes L: "libOk X" and e: "v_exec v = NewBaseExecutor tx (MintNftInfo t)" and a: "admissible v (MintNftInfo t)"
  shows "prepares X v (MintNftInfo t) (MintNft_Prepare X t)"
  unfolding MintNft_Prepare_def Let_def
  by (rule spec_GetNextNftIndex | rule triple libOkD(1) [OF L] | rule spec_BasePrepare_last [OF libOkD(1-3) [OF L]] | erule (1) prepd_prepared
      | (erule quietI, simp) | (simp add: e prep_simps a [simplified]; blast?))+

lemma Deposit_prepares:
  assumes L: "libOk X" and e: "v_exec v = NewBaseExecutor tx (DepositInfo t)" and i: "idsOk v"
  shows "prepares X v (DepositInfo t) (Deposit_Prepare X t)"
  unfolding Deposit_Prepare_def Let_def
  by (rule spec_GetAccountByNameHash [OF libOkD(3) [OF L] i] | rule triple libOkD(1) [OF L] | rule spec_BasePrepare_last [OF libOkD(1-3) [OF L]] | erule (1) prepd_prepared
      | (erule quietI, simp) | (simp add: e prep_simps; blast?))+

lemma DepositNft_prepares:
  assumes L: "libOk X" and e: "v_exec v = NewBaseExecutor tx (DepositNftInfo t)" and i: "idsOk v"
  shows "prepares X v (DepositNftInfo t) (DepositNft_Prepare X t)"
  unfolding DepositNft_Prepare_def Let_def
  by (rule spec_GetAccountByNameHash [OF libOkD(3) [OF L] i] | rule triple libOkD(1) [OF L] | rule spec_BasePrepare_last [OF libOkD(1-3) [OF L]] | erule (1) prepd_prepared
      | (erule quietI, simp) | (simp add: e prep_simps; blast?))+

lemma TransferNft_prepares:
  assumes L: "libOk X" and e: "v_exec v = NewBaseExecutor tx (TransferNftInfo t)"
  shows "prepares X v (TransferNftInfo t) (TransferNft_Prepare X t)"
  unfolding TransferNft_Prepare_def Let_def
  by (rule triple libOkD(1) [OF L] | rule spec_BasePrepare_last [OF libOkD(1-3) [OF L]] | erule (1) prepd_prepared
      | (erule quietI, simp) | (simp add: e prep_simps; blast?))+

lemma RegisterZns_prepares:
  assumes L: "libOk X" and e: "v_exec v = NewBaseExecutor tx (RegisterZnsInfo t)"
  shows "prepares X v (RegisterZnsInfo t) (RegisterZns_Prepare X t)"
  unfolding RegisterZns_Prepare_def
  by (rule triple | rule spec_BasePrepare [OF libOkD(1-3) [OF L]] | erule preparedAsI
      | simp add: e prep_simps prepd_quiet | (erule prepd_exec, simp add: e))+

lemma resident_ref: "resident v i as \<Longrightarrow> \<exists>r. v_ref v i = Some r" by (auto simp: resident_def)

lemma resident_has: "resident v i as \<Longrightarrow> a \<in> set as \<Longrightarrow> v_has v i a" by (auto simp: resident_def)

lemma quietV_led: "quietV v w \<Longrightarrow> v_led w = v_led v" by (simp add: quietV_def)

lemma resident_exec [simp]: "resident (v\<lparr>v_exec := e\<rparr>) i as = resident v i as" by (simp add: resident_def)

lemma idsOk_upd [simp]: "idsOk (v\<lparr>v_exec := e\<rparr>) = idsOk v" "idsOk (v\<lparr>v_nref := n\<rparr>) = idsOk v"
  by (simp_all add: idsOk_def)

lemma prepd_ids: "prepd u w \<Longrightarrow> idsOk w = idsOk u" using idsOk_quiet prepd_quiet by blast

text \<open>Reading an account that is resident or does not exist.\<close>

lemma spec_GetFormatAccount_known:
  assumes "libOk X" "0 \<le> i \<Longrightarrow> resident v i as" "idsOk v" "\<And>s. St {} {} v s \<Longrightarrow> R s"
    and "\<And>r. v_ref v i = Some r \<Longrightarrow> spec (St {} {} v) (f r) Q R"
  shows "spec (St {} {} v) (bnd (GetFormatAccount X i) f) Q R"
proof (cases "v_ref v i")
  case (Some r)
  show ?thesis by (rule spec_GetFormatAccount, rule libOkD(1) [OF assms(1)], rule Some, rule assms(5) [OF Some])
next
  case None
  with assms(2) have "\<not> 0 \<le> i" by (auto simp: resident_def)
  with assms(3) have "l_id (v_led v) i = None" unfolding idsOk_def by blast
  from spec_GetFormatAccount_absent [OF libOkD(1,2) [OF assms(1)] this assms(4)] show ?thesis .
qed

text \<open>Steps between \<open>BaseExecutor.Prepare\<close> and the end of \<open>Prepare\<close>.\<close>

lemma prepd_quietI: "prepd u w \<Longrightarrow> St {} {} w s \<Longrightarrow> quietV v u \<Longrightarrow> quiet v s"
  using prepd_quiet quietV_trans quietI by metis

lemma prepd_preparedI:
  assumes p: "prepd u w" and S: "St {} {} (w\<lparr>v_exec := (v_exec w)\<lparr>e_iTxInfo := ti'\<rparr>\<rparr>) s"
    and u: "quietV v u" "txKey (e_tx (v_exec u)) = txKey (e_tx (v_exec v))"
    and a: "prepd u w \<Longrightarrow> adapted X v ti ti'" "prepd u w \<Longrightarrow> ready (w\<lparr>v_exec := (v_exec w)\<lparr>e_iTxInfo := ti'\<rparr>\<rparr>) ti'"
  shows "preparedAs X v ti s"
proof -
  from p obtain t where t: "v_exec w = (v_exec u)\<lparr>e_tx := t\<rparr>" "txKey t = txKey (e_tx (v_exec u))"
    by (rule prepd_exec)
  show ?thesis
    by (rule preparedAsI [OF S]) (use t u a [OF p] quietV_trans [OF u(1) prepd_quiet [OF p]] in simp_all)
qed

lemma prepd_led: "prepd u w \<Longrightarrow> v_led w = v_led u" by (rule quietV_led [OF prepd_quiet])

lemma CreateCollection_prepares:
  assumes L: "libOk X" and e: "v_exec v = NewBaseExecutor tx (CreateCollectionInfo t)" and i: "idsOk v"
  shows "prepares X v (CreateCollectionInfo t) (CreateCollection_Prepare X t)"
  unfolding CreateCollection_Prepare_def
  by (rule spec_GetFormatAccount_known [OF L, where as = "[]"] | assumption | rule triple | rule spec_BasePrepare [OF libOkD(1-3) [OF L]]
      | erule (1) prepd_preparedI | (erule (1) prepd_quietI, simp)
      | (simp add: e i prep_simps prepd_ids accIs_def prepd_led))+

lemma prepd_has: "prepd u w \<Longrightarrow> marked (e_dirtyAccountsAndAssetsMap (v_exec u)) i [a] \<Longrightarrow> 0 \<le> i \<Longrightarrow> 0 \<le> a \<Longrightarrow> v_has w i a"
  using prepd_resident [of u w i "[a]"] by (simp add: resident_def)

lemma FullExit_prepares:
  assumes L: "libOk X" and e: "v_exec v = NewBaseExecutor tx (FullExitInfo t)" and i: "idsOk v" and a: "admissible v (FullExitInfo t)"
  shows "prepares X v (FullExitInfo t) (FullExit_Prepare X t)"
  unfolding FullExit_Prepare_def Let_def
  by (rule spec_GetAccountByNameHash [OF libOkD(3) [OF L] i] | rule spec_GetFormatAccount_known [OF L, where as = "[fe_AssetId t]"] | assumption
      | rule triple | rule spec_BasePrepare [OF libOkD(1-3) [OF L]]
      | erule (1) prepd_preparedI | (erule (1) prepd_quietI, simp) | (erule quietI, simp) 
      | (simp add: e i a [simplified] prep_simps prepd_ids prepd_led prepd_has; blast?))+

lemma spec_assoc: "spec P (bnd m (\<lambda>x. bnd (g x) f)) Q R \<Longrightarrow> spec P (bnd (bnd m g) f) Q R"
  by (simp add: bnd_assoc)

text \<open>The NFT just loaded.\<close>

lemma spec_nftAt_loaded:
  "ns n = Some r \<Longrightarrow> (\<And>x. l_nft (v_led v) n = Some (nftCore x) \<Longrightarrow> nft_NftIndex x = n \<Longrightarrow> spec (St D E (v\<lparr>v_nref := ns\<rparr>)) (f x) Q R) \<Longrightarrow>
   spec (St D E (v\<lparr>v_nref := ns\<rparr>)) (bnd (nftAt r) f) Q R"
  by (rule spec_nftAt [where n = n]) simp_all

lemma prepd_sel:
  assumes "prepd u w"
  shows "e_buyOfferAssetId (v_exec w) = e_buyOfferAssetId (v_exec u)" "e_buyOfferIndex (v_exec w) = e_buyOfferIndex (v_exec u)"
    "e_sellOfferAssetId (v_exec w) = e_sellOfferAssetId (v_exec u)" "e_sellOfferIndex (v_exec w) = e_sellOfferIndex (v_exec u)"
  using assms by (auto elim: prepd_exec)

lemma AtomicMatch_prepares:
  assumes L: "libOk X" and e: "v_exec v = NewBaseExecutor tx (AtomicMatchInfo t)"
  shows "prepares X v (AtomicMatchInfo t) (AtomicMatch_Prepare X t)"
proof -
  have m: "x_Multiply X = (*)" using libOkD(4) [OF L] by (simp add: ffmath_ok_def)
  show ?thesis unfolding AtomicMatch_Prepare_def Let_def
    by (rule triple libOkD(1) [OF L] | erule (1) spec_nftAt_loaded | rule spec_BasePrepare_last [OF libOkD(1-3) [OF L]] | erule (1) prepd_prepared
      | (erule quietI, simp) | (simp add: e m prep_simps prepd_led prepd_sel Let_def offerOk_def; blast?))+
qed

lemma Nil_negative [simp]: "NilAccountIndex < 0" "\<not> 0 \<le> NilAccountIndex" by (simp_all add: NilAccountIndex_def)

lemma WithdrawNft_prepares:
  assumes L: "libOk X" and e: "v_exec v = NewBaseExecutor tx (WithdrawNftInfo t)" and i: "idsOk v"
  shows "prepares X v (WithdrawNftInfo t) (WithdrawNft_Prepare X t)"
  unfolding WithdrawNft_Prepare_def
  by (rule spec_GetFormatAccount_known [OF L, where as = "[]"] | rule triple libOkD(1) [OF L] | erule (1) spec_nftAt_loaded | rule spec_assoc | assumption
      | rule spec_BasePrepare [OF libOkD(1-3) [OF L]]
      | erule (1) prepd_preparedI | (erule (1) prepd_quietI, simp)
      | (erule quietI, simp) | (simp add: e i prep_simps prepd_led prepd_ids; blast?))+

lemma spec_newNft [triple]: "(\<And>r. spec (St D E v) (f r) Q R) \<Longrightarrow> spec (St D E v) (bnd (newNft n) f) Q R"
  by (rule spec_read [where C = "\<lambda>_. True"]) (auto simp: alloc_run intro: St_allocNft)

lemma quiet_trans: "quietV v u \<Longrightarrow> quiet u s \<Longrightarrow> quiet v s"
  by (auto simp: quiet_def intro: quietV_trans)

text \<open>
  The end of \<open>FullExitNftExecutor.Prepare\<close>, from a state in which the NFT to exit and whether the
  exit is empty are known.
\<close>

lemma FullExitNft_prepares_end:
  assumes L: "libOk X" and u: "quietV v u" "e_tx (v_exec u) = e_tx (v_exec v)" "e_dirtyAccountsAndAssetsMap (v_exec u) = []"
    and n: "accountNamed v (x_Bytes2Hex X (fn_AccountNameHash t)) i"
    and t1: "fn_AccountIndex t1 = i" "fn_NftIndex t1 = fn_NftIndex t"
    and ee: "ee \<longleftrightarrow> \<not> (\<exists>x. l_nft (v_led v) (fn_NftIndex t) = Some x \<and> nft_OwnerAccountIndex x = i)"
  shows "spec (St {} {} u) (thn (BaseExecutor_MarkNftDirty (fn_NftIndex t1))
      (thn (BaseExecutor_MarkAccountAssetsDirty (fn_AccountIndex t1) [EmptyAccountAssetId])
      (thn (BaseExecutor_Prepare X)
      (bnd (nftAt exitRef) (\<lambda>exitNft.
       bnd (if \<not> ee
            then bnd (GetFormatAccount X (nft_CreatorAccountIndex exitNft)) (\<lambda>c.
                 bnd (accountAt c) (\<lambda>creator. ret (x_FromHex X (ai_AccountNameHash creator))))
            else ret (x_FromHex X EmptyAccountNameHash)) (\<lambda>creatorNameHash.
       thn (setTxInfo (FullExitNftInfo (t1\<lparr>fn_CreatorAccountIndex := nft_CreatorAccountIndex exitNft,
              fn_CreatorTreasuryRate := nft_CreatorTreasuryRate exitNft, fn_CreatorAccountNameHash := creatorNameHash,
              fn_NftL1Address := nft_NftL1Address exitNft, fn_NftL1TokenId := parseBig (nft_NftL1TokenId exitNft),
              fn_NftContentHash := x_FromHex X (nft_NftContentHash exitNft), fn_CollectionId := nft_CollectionId exitNft\<rparr>)))
           (modify (updExec (\<lambda>e. e\<lparr>e_exitNft := Some exitRef, e_exitEmpty := ee\<rparr>)))))))))
      (\<lambda>_. preparedAs X v (FullExitNftInfo t)) (quiet v)"
proof -
  have Q: "preparedAs X v (FullExitNftInfo t) s" if "quietV v w" "txKey (e_tx (v_exec w)) = txKey (e_tx (v_exec v))"
    "St {} {} (w\<lparr>v_exec := e\<rparr>) s" "e = (v_exec w)\<lparr>e_iTxInfo := FullExitNftInfo t', e_exitNft := z, e_exitEmpty := ee\<rparr>"
    "fn_AccountIndex t' = i" "fn_NftIndex t' = fn_NftIndex t" for w e s t' z
    by (rule preparedAsI [OF that(3)]) (use that n ee in \<open>auto simp: quietV_def\<close>)
  show ?thesis
    apply (rule spec_MarkNft, rule spec_MarkAccount, rule spec_BasePrepare [OF libOkD(1-3) [OF L]])
      apply (simp add: u prep_simps)
     apply (simp add: quiet_trans [OF u(1)])
    subgoal premises p for w
    proof -
      from p have q: "quietV v w" using u(1) prepd_quiet quietV_trans by fastforce
      from p have na: "txKey (e_tx (v_exec w)) = txKey (e_tx (v_exec v))" by (rule prepd_exec) (simp add: u)
      show ?thesis
        by (rule spec_GetFormatAccount_any [OF libOkD(1,2) [OF L]] | rule spec_nftAt_any | rule spec_assoc | assumption
          | erule quiet_trans [OF q] | (rule quietI, assumption, rule q) | rule triple
          | (rule Q [OF _ _ _ refl], rule q, rule na, simp, simp add: t1, simp add: t1)
          | (rule Q [OF _ _ _ refl], erule quietV_trans [OF q], simp add: na, simp, simp add: t1, simp add: t1))+
    qed
    done
qed

lemma if_pair: "(if c then (a, False) else (b, True)) = (if c then a else b, \<not> c)" by simp

lemma FullExitNft_prepares:
  assumes L: "libOk X" and e: "v_exec v = NewBaseExecutor tx (FullExitNftInfo t)" and i: "idsOk v"
  shows "prepares X v (FullExitNftInfo t) (FullExitNft_Prepare X t)"
  unfolding FullExitNft_Prepare_def Let_def
proof (rule spec_GetAccountByNameHash [OF libOkD(3) [OF L] i quiet_St], assumption, rule spec_setTxInfo, rule spec_newNft,
    rule spec_attempt_GetNft(2) [OF libOkD(1) [OF L]], goal_cases)
  case (1 a emptyRef err)
  then show ?case by (auto simp: spec_def bnd_run intro!: quietI)
next
  case (2 a emptyRef r ns)
  show ?case unfolding sum.case
  proof (rule spec_assoc, rule spec_nftAt_loaded, rule 2(2), rule spec_bnd_ret, goal_cases)
    case (1 x)
    then show ?case unfolding if_pair prod.case
      by (intro FullExitNft_prepares_end [OF L _ _ _ 2(1)]) (auto simp: e)
  qed
qed

end
