(* ===== verification/Ref_Verify.thy ===== *)
theory Ref_Verify
  imports Ref_Prepare
begin

text \<open>
  \<open>VerifyInputs\<close> and \<open>GenerateTxDetails\<close> of every executor keep the contract of \<open>Ref_Stages\<close>: on a
  prepared state they do not panic and change nothing; a successful \<open>VerifyInputs\<close> establishes the
  guard of the transaction.
\<close>

section \<open>VerifyInputs\<close>

abbreviation verifies :: "Lib \<Rightarrow> View \<Rightarrow> TxInfo \<Rightarrow> unit go \<Rightarrow> bool" where
  "verifies X v ti m \<equiv> spec (St {} {} v) m (\<lambda>_ s. St {} {} v s \<and> guard X v ti) (St {} {} v)"

text \<open>The sender of a validated payload is resident.\<close>

lemma signed_payload: "libOk X \<Longrightarrow> signed X L now ti \<Longrightarrow> payloadOk ti"
  by (auto simp: signed_def libOk_def validate_ok_def)

lemma validated_payload: "libOk X \<Longrightarrow> x_Validate X ti = None \<Longrightarrow> payloadOk ti"
  by (simp add: libOk_def validate_ok_def)

lemma nonneg_not_Nil: "0 \<le> i \<Longrightarrow> i \<noteq> NilAccountIndex" by (simp add: NilAccountIndex_def)

lemma resident_not_None: "resident v i as \<Longrightarrow> v_ref v i \<noteq> None" by (simp add: resident_def)

lemma spec_signed:
  assumes L: "libOk X" and ti: "e_iTxInfo (v_exec v) = ti"
    and r: "payloadOk ti \<Longrightarrow> 0 \<le> payloadFrom ti \<and> resident v (payloadFrom ti) as"
    and R: "\<And>s. St D E v s \<Longrightarrow> R s"
    and Q: "signed X (v_led v) (bk_CreatedAt (v_blk v)) ti \<Longrightarrow> payloadOk ti \<Longrightarrow> spec (St D E v) m Q R"
  shows "spec (St D E v) (thn (BaseExecutor_VerifyInputs X skip) m) Q R"
proof (rule spec_BaseVerify [OF libOkD(1,5) [OF L] ti _ R])
  show "payloadFrom ti \<noteq> NilAccountIndex \<and> v_ref v (payloadFrom ti) \<noteq> None" if "x_Validate X ti = None"
    using r [OF validated_payload [OF L that]] nonneg_not_Nil resident_not_None by blast
qed (use Q signed_payload [OF L] in auto)

lemma spec_signed_invalid:
  assumes "libOk X" "e_iTxInfo (v_exec v) = ti" "\<not> payloadOk ti" "\<And>s. St D E v s \<Longrightarrow> R s"
  shows "spec (St D E v) (thn (BaseExecutor_VerifyInputs X skip) m) Q R"
  by (rule spec_signed [OF assms(1,2)]) (use assms(3,4) in auto)

lemma Transfer_verifies:
  assumes L: "libOk X" and e: "e_iTxInfo (v_exec v) = TransferInfo t" and r: "ready v (TransferInfo t)"
  shows "verifies X v (TransferInfo t) (Transfer_VerifyInputs X t b)"
proof (cases "payloadOk (TransferInfo t)")
  case True
  with r obtain rf rt where
    f: "v_ref v (tr_FromAccountIndex t) = Some rf" "v_has v (tr_FromAccountIndex t) (tr_GasFeeAssetId t)" "v_has v (tr_FromAccountIndex t) (tr_AssetId t)"
    and t: "v_ref v (tr_ToAccountIndex t) = Some rt"
    by (auto simp: resident_def)
  have a: "x_Add X = (+)" using libOkD(4) [OF L] by (simp add: ffmath_ok_def)
  show ?thesis unfolding Transfer_VerifyInputs_def
    by (rule spec_signed [OF L e, where as = "[]"] | rule f t libOkD(1) [OF L] | rule triple | assumption
      | (use True in \<open>simp add: resident_def f t a accIs_def nameHashIs_def affords_def ident_def\<close>))+
next
  case False
  show ?thesis unfolding Transfer_VerifyInputs_def by (rule spec_signed_invalid [OF L e False])
qed

lemma Withdraw_verifies:
  assumes L: "libOk X" and e: "e_iTxInfo (v_exec v) = WithdrawInfo t" and r: "ready v (WithdrawInfo t)"
  shows "verifies X v (WithdrawInfo t) (Withdraw_VerifyInputs X t b)"
proof (cases "payloadOk (WithdrawInfo t)")
  case True
  with r obtain rf where
    f: "v_ref v (wd_FromAccountIndex t) = Some rf" "v_has v (wd_FromAccountIndex t) (wd_GasFeeAssetId t)" "v_has v (wd_FromAccountIndex t) (wd_AssetId t)"
    by (auto simp: resident_def)
  have a: "x_Add X = (+)" using libOkD(4) [OF L] by (simp add: ffmath_ok_def)
  show ?thesis unfolding Withdraw_VerifyInputs_def
    by (rule spec_signed [OF L e, where as = "[]"] | rule f libOkD(1) [OF L] | rule triple | assumption
      | (use True in \<open>simp add: resident_def f a accIs_def nameHashIs_def affords_def ident_def ownerIs_def offerOpen_def\<close>))+
next
  case False
  show ?thesis unfolding Withdraw_VerifyInputs_def by (rule spec_signed_invalid [OF L e False])
qed

lemma CreateCollection_verifies:
  assumes L: "libOk X" and e: "e_iTxInfo (v_exec v) = CreateCollectionInfo t" and r: "ready v (CreateCollectionInfo t)"
  shows "verifies X v (CreateCollectionInfo t) (CreateCollection_VerifyInputs X t b)"
proof (cases "payloadOk (CreateCollectionInfo t)")
  case True
  with r obtain rf where
    f: "v_ref v (cc_AccountIndex t) = Some rf" "v_has v (cc_AccountIndex t) (cc_GasFeeAssetId t)"
    by (auto simp: resident_def)
  have a: "x_Add X = (+)" using libOkD(4) [OF L] by (simp add: ffmath_ok_def)
  show ?thesis unfolding CreateCollection_VerifyInputs_def
    by (rule spec_signed [OF L e, where as = "[]"] | rule f libOkD(1) [OF L] | rule triple | assumption
      | (use True in \<open>simp add: resident_def f a accIs_def nameHashIs_def affords_def ident_def ownerIs_def offerOpen_def\<close>))+
next
  case False
  show ?thesis unfolding CreateCollection_VerifyInputs_def by (rule spec_signed_invalid [OF L e False])
qed

lemma MintNft_verifies:
  assumes L: "libOk X" and e: "e_iTxInfo (v_exec v) = MintNftInfo t" and r: "ready v (MintNftInfo t)"
  shows "verifies X v (MintNftInfo t) (MintNft_VerifyInputs X t b)"
proof (cases "payloadOk (MintNftInfo t)")
  case True
  with r obtain rf rt where
    f: "v_ref v (mn_CreatorAccountIndex t) = Some rf" "v_has v (mn_CreatorAccountIndex t) (mn_GasFeeAssetId t)" and
    t: "v_ref v (mn_ToAccountIndex t) = Some rt"
    by (auto simp: resident_def)
  have a: "x_Add X = (+)" using libOkD(4) [OF L] by (simp add: ffmath_ok_def)
  show ?thesis unfolding MintNft_VerifyInputs_def
    by (rule spec_signed [OF L e, where as = "[]"] | rule f t libOkD(1) [OF L] | rule triple | assumption
      | (use True in \<open>simp add: resident_def f t a accIs_def nameHashIs_def affords_def ident_def ownerIs_def offerOpen_def\<close>))+
next
  case False
  show ?thesis unfolding MintNft_VerifyInputs_def by (rule spec_signed_invalid [OF L e False])
qed

lemma TransferNft_verifies:
  assumes L: "libOk X" and e: "e_iTxInfo (v_exec v) = TransferNftInfo t" and r: "ready v (TransferNftInfo t)"
  shows "verifies X v (TransferNftInfo t) (TransferNft_VerifyInputs X t b)"
proof (cases "payloadOk (TransferNftInfo t)")
  case True
  with r obtain rf rt rn where
    f: "v_ref v (tn_FromAccountIndex t) = Some rf" "v_has v (tn_FromAccountIndex t) (tn_GasFeeAssetId t)" and
    t: "v_ref v (tn_ToAccountIndex t) = Some rt" and
    n: "v_nref v (tn_NftIndex t) = Some rn"
    by (auto simp: resident_def)
  have a: "x_Add X = (+)" using libOkD(4) [OF L] by (simp add: ffmath_ok_def)
  show ?thesis unfolding TransferNft_VerifyInputs_def
    by (rule spec_signed [OF L e, where as = "[]"] | rule f t n libOkD(1) [OF L] | rule triple | assumption
      | (use True in \<open>simp add: resident_def f t n a accIs_def nameHashIs_def affords_def ident_def ownerIs_def offerOpen_def\<close>))+
next
  case False
  show ?thesis unfolding TransferNft_VerifyInputs_def by (rule spec_signed_invalid [OF L e False])
qed

lemma WithdrawNft_verifies:
  assumes L: "libOk X" and e: "e_iTxInfo (v_exec v) = WithdrawNftInfo t" and r: "ready v (WithdrawNftInfo t)"
  shows "verifies X v (WithdrawNftInfo t) (WithdrawNft_VerifyInputs X t b)"
proof (cases "payloadOk (WithdrawNftInfo t)")
  case True
  with r obtain rf rn where
    f: "v_ref v (wn_AccountIndex t) = Some rf" "v_has v (wn_AccountIndex t) (wn_GasFeeAssetId t)" and
    n: "v_nref v (wn_NftIndex t) = Some rn"
    by (auto simp: resident_def)
  have a: "x_Add X = (+)" using libOkD(4) [OF L] by (simp add: ffmath_ok_def)
  show ?thesis unfolding WithdrawNft_VerifyInputs_def
    by (rule spec_signed [OF L e, where as = "[]"] | rule f n libOkD(1) [OF L] | rule triple | assumption
      | (use True in \<open>simp add: resident_def f n a accIs_def nameHashIs_def affords_def ident_def ownerIs_def offerOpen_def\<close>))+
next
  case False
  show ?thesis unfolding WithdrawNft_VerifyInputs_def by (rule spec_signed_invalid [OF L e False])
qed

lemma spec_offerCase:
  assumes "accIs v i acc" "v_has v i a"
    and "\<And>x. aa_OfferCanceledOrFinalized x = l_offer (v_led v) i a \<Longrightarrow> spec P (f x) Q R"
  shows "spec P (case ai_AssetInfo acc a of None \<Rightarrow> m | Some x \<Rightarrow> f x) Q R"
proof -
  from assms(1,2) obtain x where x: "ai_AssetInfo acc a = Some x" unfolding accIs_def by blast
  from assms(3) [OF accIs_offer [OF assms(1) x]] x show ?thesis by simp
qed

lemma CancelOffer_verifies:
  assumes L: "libOk X" and e: "e_iTxInfo (v_exec v) = CancelOfferInfo t" and r: "ready v (CancelOfferInfo t)"
  shows "verifies X v (CancelOfferInfo t) (CancelOffer_VerifyInputs X t b)"
proof (cases "payloadOk (CancelOfferInfo t)")
  case True
  let ?i = "co_AccountIndex t" and ?a = "offerAssetId (co_OfferId t)"
  from r True obtain rf where
    f: "v_ref v ?i = Some rf" "v_has v ?i (co_GasFeeAssetId t)" "v_has v ?i ?a"
    by (auto simp: resident_def)
  show ?thesis unfolding CancelOffer_VerifyInputs_def
    by (rule spec_signed [OF L e, where as = "[]"] | rule f(1,2) libOkD(1) [OF L] | rule triple | (erule spec_offerCase [OF _ f(3)]) | assumption
      | (use True in \<open>simp add: resident_def f offerOpen_def\<close>))+
next
  case False
  show ?thesis unfolding CancelOffer_VerifyInputs_def by (rule spec_signed_invalid [OF L e False])
qed

text \<open>The priority operations check less, or nothing.\<close>

lemma Deposit_verifies: "verifies X v (DepositInfo t) (Deposit_VerifyInputs X t b)"
  unfolding Deposit_VerifyInputs_def by (rule spec_failIf_last) simp_all

lemma FullExit_verifies:
  "verifies X v (FullExitInfo t) (FullExit_VerifyInputs X t b)" "verifies X v (FullExitNftInfo u) (FullExitNft_VerifyInputs X u b)"
  unfolding FullExit_VerifyInputs_def FullExitNft_VerifyInputs_def by (rule spec_ret, simp)+

lemma DepositNft_verifies:
  assumes L: "libOk X" and r: "ready v (DepositNftInfo t)"
  shows "verifies X v (DepositNftInfo t) (DepositNft_VerifyInputs X t b)"
proof -
  from r obtain rn where n: "v_nref v (dn_NftIndex t) = Some rn" by auto
  show ?thesis unfolding DepositNft_VerifyInputs_def
    by (rule n libOkD(1) [OF L] | rule triple | assumption | simp)+
qed

lemma RegisterZns_verifies: "verifies X v (RegisterZnsInfo t) (RegisterZns_VerifyInputs X t b)"
  unfolding RegisterZns_VerifyInputs_def GetAccountByName_def GetAccountRowByName_def GetNextAccountIndex_def
  by (auto simp: spec_def bnd_run thn_run attempt_def orThrow_run failIf_run St_def split: option.splits)

section \<open>VerifyInputs of a match\<close>

lemma showInt_inj: "showInt x = showInt y \<longleftrightarrow> x = y"
  using parseBig_showInt by (metis option.inject)

lemma spec_thn_assoc:
  "spec P (bnd m (\<lambda>x. thn (f x) n)) Q R \<Longrightarrow> spec P (thn (bnd m f) n) Q R"
  "spec P (thn k (thn l n)) Q R \<Longrightarrow> spec P (thn (thn k l) n) Q R"
  by (simp_all add: thn_def bnd_assoc)

lemma spec_offersMatch:
  assumes "\<And>s. P s \<Longrightarrow> R s" "matchable (am_BuyOffer t) (am_SellOffer t) \<Longrightarrow> spec P n Q R"
  shows "spec P (thn (offersMatch t) n) Q R"
proof -
  have "spec P (offersMatch t) (\<lambda>_ s. P s \<and> matchable (am_BuyOffer t) (am_SellOffer t)) R"
    unfolding offersMatch_def Let_def using assms(1)
    by (auto intro!: spec_failIf spec_failIf_last simp: matchable_def showInt_inj)
  then show ?thesis by (rule spec_thn) (use assms(2) in \<open>auto simp: spec_def\<close>)
qed

lemma AtomicMatch_verifies:
  assumes L: "libOk X" and e: "e_iTxInfo (v_exec v) = AtomicMatchInfo t" and r: "ready v (AtomicMatchInfo t)"
  shows "verifies X v (AtomicMatchInfo t) (AtomicMatch_VerifyInputs X t b)"
proof (cases "payloadOk (AtomicMatchInfo t)")
  case True
  define buy sell where "buy = am_BuyOffer t" and "sell = am_SellOffer t"
  note def = buy_def [symmetric] sell_def [symmetric]
  from r True obtain rf rb rs rn where
    f: "v_ref v (am_AccountIndex t) = Some rf" "v_has v (am_AccountIndex t) (am_GasFeeAssetId t)" and
    bb: "v_ref v (of_AccountIndex buy) = Some rb" "v_has v (of_AccountIndex buy) (of_AssetId buy)"
      "v_has v (of_AccountIndex buy) (offerAssetId (of_OfferId buy))" and
    ss: "v_ref v (of_AccountIndex sell) = Some rs" "v_has v (of_AccountIndex sell) (offerAssetId (of_OfferId sell))" and
    n: "v_nref v (of_NftIndex sell) = Some rn" and
    x: "e_buyOfferAssetId (v_exec v) = offerAssetId (of_OfferId buy)" "e_buyOfferIndex (v_exec v) = offerIndex (of_OfferId buy)"
      "e_sellOfferAssetId (v_exec v) = offerAssetId (of_OfferId sell)" "e_sellOfferIndex (v_exec v) = offerIndex (of_OfferId sell)"
    by (auto simp: resident_def Let_def def)
  have o: "0 \<le> offerIndex (of_OfferId buy)" "0 \<le> offerIndex (of_OfferId sell)" using True by (simp_all add: offerOk_def def)
  have a: "x_Add X = (+)" using libOkD(4) [OF L] by (simp add: ffmath_ok_def)
  show ?thesis unfolding AtomicMatch_VerifyInputs_def Let_def def a
    apply (rule spec_signed [OF L e, where as = "[]"])
    subgoal using True f by (simp add: resident_def)
    subgoal .
    apply (rule spec_offersMatch, assumption)
    apply (unfold def)
    apply (rule spec_VerifyExpiredAt(2), assumption)
    apply (rule spec_VerifyExpiredAt(2), assumption)
    apply (rule spec_GetFormatAccount [OF libOkD(1) [OF L] f(1)] spec_GetFormatAccount [OF libOkD(1) [OF L] bb(1)]
        spec_GetFormatAccount [OF libOkD(1) [OF L] ss(1)])+
    apply ((rule f bb(1,2) ss(1) n o libOkD(1) [OF L] | rule triple spec_thn_assoc | assumption | rule bb(3) ss(2)
       | (unfold x)
       | simp add: Let_def def offerOpen_def ownerIs_def accIs_def ident_def | blast)+)
    done
next
  case False
  show ?thesis unfolding AtomicMatch_VerifyInputs_def Let_def by (rule spec_signed_invalid [OF L e False])
qed

end
