(* ===== verification/Ref_Details.thy ===== *)
theory Ref_Details
  imports Ref_Verify
begin

text \<open>
  \<open>GenerateTxDetails\<close> of every executor runs on deep copies: on a prepared and verified state it does
  not panic and leaves the ledger and the executor alone.
\<close>

definition detailedAs :: "View \<Rightarrow> TxInfo \<Rightarrow> World \<Rightarrow> bool" where
  "detailedAs v ti s \<longleftrightarrow> (\<exists>w. quietV v w \<and> v_exec w = v_exec v \<and> St {} {} w s \<and> ready w ti \<and> detailed w ti)"

lemma detailedI: "St {} {} v s \<Longrightarrow> ready v ti \<Longrightarrow> detailed v ti \<Longrightarrow> detailedAs v ti s"
  unfolding detailedAs_def by (rule exI [of _ v]) simp

abbreviation details :: "View \<Rightarrow> TxInfo \<Rightarrow> TxDetail list go \<Rightarrow> bool" where
  "details v ti m \<equiv> spec (St {} {} v) m (\<lambda>_. detailedAs v ti) (quiet v)"

lemma guard_payload: "libOk X \<Longrightarrow> guard X v ti \<Longrightarrow> payloadOk ti"
  by (cases ti; hypsubst; (rule signed_payload [of X "v_led v" "bk_CreatedAt (v_blk v)"], assumption, simp add: Let_def; fail | simp))

lemma spec_copyOfferBit [triple]:
  "shape cs i = Some h \<Longrightarrow> h a \<Longrightarrow> 0 \<le> idx \<Longrightarrow> (\<And>x. spec P (f x) Q R) \<Longrightarrow> spec P (bnd (copyOfferBit cs i a idx) f) Q R"
  unfolding copyOfferBit_def by (rule spec_assoc, rule spec_copyAsset, assumption, assumption, rule spec_Bit(2)) auto

lemma Transfer_details:
  assumes L: "libOk X" and r: "ready v (TransferInfo t)" and g: "guard X v (TransferInfo t)"
  shows "details v (TransferInfo t) (Transfer_GenerateTxDetails X t)"
proof -
  from guard_payload [OF L g] r obtain r0 r1 r2 where
    f: "v_ref v (tr_FromAccountIndex t) = Some r0" "v_has v (tr_FromAccountIndex t) (tr_GasFeeAssetId t)" "v_has v (tr_FromAccountIndex t) (tr_AssetId t)" "v_ref v (tr_ToAccountIndex t) = Some r1" "v_has v (tr_ToAccountIndex t) (tr_AssetId t)" "v_ref v (tr_GasAccountIndex t) = Some r2" "v_has v (tr_GasAccountIndex t) (tr_GasFeeAssetId t)"
    by (auto simp: resident_def)
  show ?thesis unfolding Transfer_GenerateTxDetails_def Let_def
    by (rule spec_DeepCopy [OF libOkD(1,2) [OF L]] | rule triple | rule spec_ret | rule detailedI | rule r | erule quiet_St | assumption
      | (simp add: f; fail))+
qed

lemma Withdraw_details:
  assumes L: "libOk X" and r: "ready v (WithdrawInfo t)" and g: "guard X v (WithdrawInfo t)"
  shows "details v (WithdrawInfo t) (Withdraw_GenerateTxDetails X t)"
proof -
  from guard_payload [OF L g] r obtain r0 r1 where
    f: "v_ref v (wd_FromAccountIndex t) = Some r0" "v_has v (wd_FromAccountIndex t) (wd_GasFeeAssetId t)" "v_has v (wd_FromAccountIndex t) (wd_AssetId t)" "v_ref v (wd_GasAccountIndex t) = Some r1" "v_has v (wd_GasAccountIndex t) (wd_GasFeeAssetId t)"
    by (auto simp: resident_def)
  show ?thesis unfolding Withdraw_GenerateTxDetails_def Let_def
    by (rule spec_DeepCopy [OF libOkD(1,2) [OF L]] | rule triple | rule spec_ret | rule detailedI | rule r | erule quiet_St | assumption
      | (simp add: f; fail))+
qed

lemma CreateCollection_details:
  assumes L: "libOk X" and r: "ready v (CreateCollectionInfo t)" and g: "guard X v (CreateCollectionInfo t)"
  shows "details v (CreateCollectionInfo t) (CreateCollection_GenerateTxDetails X t)"
proof -
  from guard_payload [OF L g] r obtain r0 r1 where
    f: "v_ref v (cc_AccountIndex t) = Some r0" "v_has v (cc_AccountIndex t) (cc_GasFeeAssetId t)" "v_ref v (cc_GasAccountIndex t) = Some r1" "v_has v (cc_GasAccountIndex t) (cc_GasFeeAssetId t)"
    by (auto simp: resident_def)
  show ?thesis unfolding CreateCollection_GenerateTxDetails_def Let_def
    by (rule spec_DeepCopy [OF libOkD(1,2) [OF L]] | rule triple | rule spec_ret | rule detailedI | rule r | erule quiet_St | assumption
      | (simp add: f; fail))+
qed

lemma MintNft_details:
  assumes L: "libOk X" and r: "ready v (MintNftInfo t)" and g: "guard X v (MintNftInfo t)"
  shows "details v (MintNftInfo t) (MintNft_GenerateTxDetails X t)"
proof -
  from guard_payload [OF L g] r obtain r0 r1 r2 where
    f: "v_ref v (mn_CreatorAccountIndex t) = Some r0" "v_has v (mn_CreatorAccountIndex t) (mn_GasFeeAssetId t)" "v_ref v (mn_ToAccountIndex t) = Some r1" "v_ref v (mn_GasAccountIndex t) = Some r2" "v_has v (mn_GasAccountIndex t) (mn_GasFeeAssetId t)"
    by (auto simp: resident_def)
  show ?thesis unfolding MintNft_GenerateTxDetails_def Let_def
    by (rule spec_DeepCopy [OF libOkD(1,2) [OF L]] | rule triple | rule spec_ret | rule detailedI | rule r | erule quiet_St | assumption
      | (simp add: f; fail))+
qed

lemma CancelOffer_details:
  assumes L: "libOk X" and r: "ready v (CancelOfferInfo t)" and g: "guard X v (CancelOfferInfo t)"
  shows "details v (CancelOfferInfo t) (CancelOffer_GenerateTxDetails X t)"
proof -
  from guard_payload [OF L g] r obtain r0 r1 where
    f: "v_ref v (co_AccountIndex t) = Some r0" "v_has v (co_AccountIndex t) (co_GasFeeAssetId t)" "v_has v (co_AccountIndex t) (offerAssetId (co_OfferId t))" "v_ref v (co_GasAccountIndex t) = Some r1" "v_has v (co_GasAccountIndex t) (co_GasFeeAssetId t)"
    by (auto simp: resident_def)
  have p: "0 \<le> offerIndex (co_OfferId t)" using guard_payload [OF L g] by simp
  show ?thesis unfolding CancelOffer_GenerateTxDetails_def Let_def
    by (rule spec_DeepCopy [OF libOkD(1,2) [OF L]] | rule triple | rule spec_ret | rule detailedI | rule r | erule quiet_St | assumption
      | (simp add: f p; fail))+
qed

lemma TransferNft_details:
  assumes L: "libOk X" and r: "ready v (TransferNftInfo t)" and g: "guard X v (TransferNftInfo t)"
  shows "details v (TransferNftInfo t) (TransferNft_GenerateTxDetails X t)"
proof -
  from guard_payload [OF L g] r obtain r0 r1 r2 rn where
    f: "v_ref v (tn_FromAccountIndex t) = Some r0" "v_has v (tn_FromAccountIndex t) (tn_GasFeeAssetId t)"
      "v_ref v (tn_ToAccountIndex t) = Some r1" "v_ref v (tn_GasAccountIndex t) = Some r2"
      "v_has v (tn_GasAccountIndex t) (tn_GasFeeAssetId t)" and n: "v_nref v (tn_NftIndex t) = Some rn"
    by (auto simp: resident_def)
  show ?thesis unfolding TransferNft_GenerateTxDetails_def Let_def
    by (rule spec_DeepCopy [OF libOkD(1,2) [OF L]] | rule n libOkD(1) [OF L] | rule triple | rule spec_ret | rule detailedI | rule r
      | erule quiet_St | assumption | (simp add: f; fail))+
qed

text \<open>A resident account is known; the creator of an NFT is resident, or there is no such account.\<close>

lemma St_ref_id: "St D E v s \<Longrightarrow> v_ref v i = Some r \<Longrightarrow> l_id (v_led v) i \<noteq> None"
  by (auto simp: St_def ledgerOf_def acct_def)

lemma spec_St: "(\<And>s. St D E v s \<Longrightarrow> spec (St D E v) m Q R) \<Longrightarrow> spec (St D E v) m Q R"
  by (rule specI) (auto simp: spec_def)

lemma creator_known:
  assumes "idsOk v" "0 \<le> c \<longrightarrow> resident v c as"
  shows "v_ref v c \<noteq> None \<or> l_id (v_led v) c = None"
  using assms by (auto simp: resident_def idsOk_def)

lemma WithdrawNft_details:
  assumes L: "libOk X" and i: "idsOk v" and r: "ready v (WithdrawNftInfo t)" and g: "guard X v (WithdrawNftInfo t)"
  shows "details v (WithdrawNftInfo t) (WithdrawNft_GenerateTxDetails X t)"
proof -
  from guard_payload [OF L g] r obtain r0 r2 rn where
    f: "v_ref v (wn_AccountIndex t) = Some r0" "v_has v (wn_AccountIndex t) (wn_GasFeeAssetId t)"
      "v_ref v (wn_GasAccountIndex t) = Some r2"
      "v_has v (wn_GasAccountIndex t) (wn_GasFeeAssetId t)" and n: "v_nref v (wn_NftIndex t) = Some rn"
    by (auto simp: resident_def)
  have c: "v_ref v (wn_CreatorAccountIndex t) \<noteq> None \<or> l_id (v_led v) (wn_CreatorAccountIndex t) = None"
    using r by (intro creator_known [OF i]) auto
  have ids: "\<forall>i \<in> set [wn_AccountIndex t, wn_CreatorAccountIndex t, wn_GasAccountIndex t]. v_ref v i \<noteq> None \<or> l_id (v_led v) i = None"
    using c by (simp add: f)
  show ?thesis unfolding WithdrawNft_GenerateTxDetails_def Let_def
    by (rule spec_DeepCopy [OF libOkD(1,2) [OF L]] | rule n ids libOkD(1) [OF L] | rule triple | rule spec_ret | rule detailedI | rule r
      | erule quiet_St | assumption | (simp add: f; fail))+
qed

lemma AtomicMatch_details:
  assumes L: "libOk X" and i: "idsOk v" and r: "ready v (AtomicMatchInfo t)" and g: "guard X v (AtomicMatchInfo t)"
  shows "details v (AtomicMatchInfo t) (AtomicMatch_GenerateTxDetails X t)"
proof (rule spec_St)
  fix s assume S: "St {} {} v s"
  define buy sell where "buy = am_BuyOffer t" and "sell = am_SellOffer t"
  note def = buy_def [symmetric] sell_def [symmetric]
  have p: "payloadOk (AtomicMatchInfo t)" by (rule guard_payload [OF L g])
  from p r obtain rf rb rs rg rn where
    f: "v_ref v (am_AccountIndex t) = Some rf" "v_has v (am_AccountIndex t) (am_GasFeeAssetId t)"
      "v_ref v (of_AccountIndex buy) = Some rb" "v_has v (of_AccountIndex buy) (of_AssetId buy)"
      "v_has v (of_AccountIndex buy) (offerAssetId (of_OfferId buy))"
      "v_ref v (of_AccountIndex sell) = Some rs" "v_has v (of_AccountIndex sell) (of_AssetId sell)"
      "v_has v (of_AccountIndex sell) (offerAssetId (of_OfferId sell))"
      "v_ref v (am_GasAccountIndex t) = Some rg" "v_has v (am_GasAccountIndex t) (of_AssetId buy)"
      "v_has v (am_GasAccountIndex t) (am_GasFeeAssetId t)" and
    n: "v_nref v (of_NftIndex sell) = Some rn" and
    x: "e_buyOfferAssetId (v_exec v) = offerAssetId (of_OfferId buy)" "e_buyOfferIndex (v_exec v) = offerIndex (of_OfferId buy)"
      "e_sellOfferAssetId (v_exec v) = offerAssetId (of_OfferId sell)" "e_sellOfferIndex (v_exec v) = offerIndex (of_OfferId sell)"
    by (auto simp: resident_def Let_def def)
  from g obtain y where y: "l_nft (v_led v) (of_NftIndex sell) = Some y" by (auto simp: ownerIs_def Let_def def)
  have o: "0 \<le> offerIndex (of_OfferId buy)" "0 \<le> offerIndex (of_OfferId sell)" using p by (simp_all add: offerOk_def def)
  let ?c = "nft_CreatorAccountIndex y"
  have cr: "0 \<le> ?c \<longrightarrow> resident v ?c [of_AssetId buy]" using r p y by (simp add: Let_def def)
  have c: "v_ref v ?c \<noteq> None \<or> l_id (v_led v) ?c = None" by (rule creator_known [OF i cr])
  have ids: "\<forall>i \<in> set [am_AccountIndex t, am_GasAccountIndex t, of_AccountIndex sell, of_AccountIndex buy, ?c].
      v_ref v i \<noteq> None \<or> l_id (v_led v) i = None"
    using c by (simp add: f)
  show "details v (AtomicMatchInfo t) (AtomicMatch_GenerateTxDetails X t)"
  proof (cases "v_ref v ?c")
    case None
    show ?thesis unfolding AtomicMatch_GenerateTxDetails_def Let_def def
      by (rule spec_GetNft [OF libOkD(1) [OF L] n], rule spec_nftAt_known [OF n y], simp, rule spec_gets_exec,
        rule spec_DeepCopy [OF libOkD(1,2) [OF L] _ ids], erule quiet_St) (simp add: None)
  next
    case (Some rc)
    from St_ref_id [OF S Some] i cr have h: "v_has v ?c (of_AssetId buy)" by (auto simp: idsOk_def resident_def)
    have d: "detailed v (AtomicMatchInfo t)" using Some y by (simp add: def)
    show ?thesis unfolding AtomicMatch_GenerateTxDetails_def Let_def def
      by (rule spec_GetNft [OF libOkD(1) [OF L] n], rule spec_nftAt_known [OF n y], simp, rule spec_gets_exec, unfold x,
        (rule spec_DeepCopy [OF libOkD(1,2) [OF L]] | rule ids d | rule triple | rule spec_ret | rule detailedI | rule r
        | erule quiet_St | assumption | (simp add: f h o; fail))+)
  qed
qed

lemma Deposit_details:
  assumes L: "libOk X" and r: "ready v (DepositInfo t)" and a: "admissible v (DepositInfo t)"
  shows "details v (DepositInfo t) (Deposit_GenerateTxDetails X t)"
proof -
  from r a obtain r0 where f: "v_ref v (dp_AccountIndex t) = Some r0" by (auto simp: resident_def)
  show ?thesis unfolding Deposit_GenerateTxDetails_def
    by (rule spec_GetFormatAccount [OF libOkD(1) [OF L] f], rule spec_accountAt [OF f], rule spec_ret, erule detailedI [OF _ r]) simp
qed

lemma FullExit_details:
  assumes L: "libOk X" and r: "ready v (FullExitInfo t)" and a: "admissible v (FullExitInfo t)"
  shows "details v (FullExitInfo t) (FullExit_GenerateTxDetails X t)"
proof -
  from r a obtain r0 where f: "v_ref v (fe_AccountIndex t) = Some r0" by (auto simp: resident_def)
  show ?thesis unfolding FullExit_GenerateTxDetails_def
    by (rule spec_GetFormatAccount [OF libOkD(1) [OF L] f], rule spec_accountAt [OF f], rule spec_ret, erule detailedI [OF _ r]) simp
qed

lemma DepositNft_details:
  assumes L: "libOk X" and r: "ready v (DepositNftInfo t)"
  shows "details v (DepositNftInfo t) (DepositNft_GenerateTxDetails X t)"
proof -
  from r obtain r0 where f: "v_ref v (dn_AccountIndex t) = Some r0" by (auto simp: resident_def)
  show ?thesis unfolding DepositNft_GenerateTxDetails_def Let_def
    by (rule spec_GetFormatAccount [OF libOkD(1) [OF L] f], rule spec_accountAt [OF f], rule spec_ret, erule detailedI [OF _ r]) simp
qed

lemma RegisterZns_details: "details v (RegisterZnsInfo t) (RegisterZns_GenerateTxDetails X t)"
  unfolding RegisterZns_GenerateTxDetails_def by (rule spec_ret, erule detailedI) simp_all

lemma detailedAsI:
  "St {} {} w s \<Longrightarrow> quietV v w \<Longrightarrow> v_exec w = v_exec v \<Longrightarrow> ready w ti \<Longrightarrow> detailed w ti \<Longrightarrow> detailedAs v ti s"
  by (auto simp: detailedAs_def)

lemma quietV_nref_right [simp]: "quietV v (w\<lparr>v_nref := n\<rparr>) = quietV v w" by (simp add: quietV_def)

lemma FullExitNft_details:
  assumes L: "libOk X" and r: "ready v (FullExitNftInfo t)"
  shows "details v (FullExitNftInfo t) (FullExitNft_GenerateTxDetails X t)"
  unfolding FullExitNft_GenerateTxDetails_def
proof (rule spec_GetFormatAccount_any [OF libOkD(1,2) [OF L]])
  fix r0 w assume w: "quietV v w" "v_ref w (fn_AccountIndex t) = Some r0" "v_exec w = v_exec v"
  then have rw: "ready (w\<lparr>v_nref := n\<rparr>) (FullExitNftInfo t)" "ready w (FullExitNftInfo t)" for n
    using r by (simp_all add: quietV_def)
  have F: "spec (St {} {} w) (ret a) (\<lambda>_. detailedAs v (FullExitNftInfo t)) (quiet v)"
    "spec (St {} {} (w\<lparr>v_nref := n\<rparr>)) (ret a) (\<lambda>_. detailedAs v (FullExitNftInfo t)) (quiet v)" for a :: "TxDetail list" and n
    using w rw by (auto intro!: spec_ret elim!: detailedAsI simp del: ready.simps)
  show "spec (St {} {} w) (bnd (accountAt r0) (\<lambda>exitAccount. bnd (attempt (GetNft X (fn_NftIndex t))) (\<lambda>x.
     bnd (case x of
            Inl _ \<Rightarrow> ret (EmptyNftInfo (fn_NftIndex t), EmptyNftInfo (fn_NftIndex t))
          | Inr n \<Rightarrow> bnd (nftAt n) (\<lambda>oldNft.
              ret (nftInfoOf oldNft, if fn_AccountIndex t \<noteq> nft_OwnerAccountIndex oldNft then nftInfoOf oldNft
                                     else EmptyNftInfo (fn_NftIndex t))))
       (\<lambda>(baseNft, newNft).
     ret [fungibleDetail EmptyAccountAssetId (fn_AccountIndex t) exitAccount
            (ConstructAccountAsset EmptyAccountAssetId 0 0) 0 0 False,
          nftDetail (fn_NftIndex t) (fn_AccountIndex t) (ai_AccountName exitAccount)
            baseNft newNft 1 (ai_Nonce exitAccount) (ai_CollectionNonce exitAccount)]))))
     (\<lambda>_. detailedAs v (FullExitNftInfo t)) (quiet v)"
    by (rule spec_accountAt [OF w(2)], rule spec_attempt_GetNft(1) [OF libOkD(1) [OF L]])
      (simp_all only: sum.case prod.case bnd_ret bnd_assoc F spec_nftAt_any)
qed

end
