(* ===== verification/Ref_PubData.thy ===== *)
theory Ref_PubData
  imports Zk_Processor
begin

text \<open>
  \<open>GeneratePubData\<close> and \<open>GetExecutedTx\<close>, the stages after \<open>ApplyTransaction\<close>: the public data of every
  transaction is six chunks of 32 bytes and depends on the payload alone; what is recorded with it in
  the state cache depends on whether the transaction is a priority operation, is executed on chain, or
  neither.
\<close>

section \<open>Public data per transaction type\<close>

fun pubDataOf :: "Lib \<Rightarrow> TxInfo \<Rightarrow> byte list go" where
  "pubDataOf X (RegisterZnsInfo i) = RegisterZns_pubData X i"
| "pubDataOf X (DepositInfo i) = Deposit_pubData X i"
| "pubDataOf X (DepositNftInfo i) = DepositNft_pubData X i"
| "pubDataOf X (TransferInfo i) = Transfer_pubData X i"
| "pubDataOf X (WithdrawInfo i) = Withdraw_pubData X i"
| "pubDataOf X (CreateCollectionInfo i) = CreateCollection_pubData X i"
| "pubDataOf X (MintNftInfo i) = MintNft_pubData X i"
| "pubDataOf X (TransferNftInfo i) = TransferNft_pubData X i"
| "pubDataOf X (AtomicMatchInfo i) = AtomicMatch_pubData X i"
| "pubDataOf X (CancelOfferInfo i) = CancelOffer_pubData X i"
| "pubDataOf X (WithdrawNftInfo i) = WithdrawNft_pubData X i"
| "pubDataOf X (FullExitInfo i) = FullExit_pubData X i"
| "pubDataOf X (FullExitNftInfo i) = FullExitNft_pubData X i"

text \<open>The operations L1 requests, and those it executes after the block is verified.\<close>

fun isPriority :: "TxInfo \<Rightarrow> bool" where
  "isPriority (RegisterZnsInfo _) = True"
| "isPriority (DepositInfo _) = True"
| "isPriority (DepositNftInfo _) = True"
| "isPriority (FullExitInfo _) = True"
| "isPriority (FullExitNftInfo _) = True"
| "isPriority _ = False"

fun isOnChain :: "TxInfo \<Rightarrow> bool" where
  "isOnChain (WithdrawInfo _) = True"
| "isOnChain (WithdrawNftInfo _) = True"
| "isOnChain (FullExitInfo _) = True"
| "isOnChain (FullExitNftInfo _) = True"
| "isOnChain _ = False"

definition recordPub :: "Lib \<Rightarrow> TxInfo \<Rightarrow> byte list \<Rightarrow> StateCache \<Rightarrow> StateCache" where
  "recordPub X ti p c =
     (let c1 = (if isPriority ti then addPriorityOperation c else c);
          c2 = (if isPriority ti \<or> isOnChain ti then addPubDataOffset c1 else c1);
          c3 = (if isOnChain ti then addPendingOnChain X p c2 else c2)
      in addPubData p c3)"

lemmas pubData_defs = RegisterZns_pubData_def Deposit_pubData_def DepositNft_pubData_def Transfer_pubData_def
  Withdraw_pubData_def CreateCollection_pubData_def MintNft_pubData_def TransferNft_pubData_def AtomicMatch_pubData_def
  CancelOffer_pubData_def WithdrawNft_pubData_def FullExit_pubData_def FullExitNft_pubData_def

lemmas generate_defs = RegisterZns_GeneratePubData_def Deposit_GeneratePubData_def DepositNft_GeneratePubData_def
  Transfer_GeneratePubData_def Withdraw_GeneratePubData_def CreateCollection_GeneratePubData_def
  MintNft_GeneratePubData_def TransferNft_GeneratePubData_def AtomicMatch_GeneratePubData_def
  CancelOffer_GeneratePubData_def WithdrawNft_GeneratePubData_def FullExit_GeneratePubData_def
  FullExitNft_GeneratePubData_def

lemma GeneratePubData_eq:
  "executor_GeneratePubData X ti = bnd (pubDataOf X ti) (\<lambda>p. modify (updSc (recordPub X ti p)))"
  by (cases ti) (simp_all add: generate_defs recordPub_def [abs_def] Let_def)

text \<open>A computation that neither reads nor changes the state.\<close>

definition stateless :: "('s, 'e, 'a) comp \<Rightarrow> bool" where
  "stateless m \<longleftrightarrow> (\<exists>r. \<forall>s. m s = (r, s))"

lemma stateless_basic:
  "stateless (ret a)" "stateless (ofSum x)" "stateless (orPanic msg y)" "stateless (filled z)"
  by (simp add: stateless_def) ((cases x; simp add: stateless_def run), (cases y; simp add: stateless_def run),
    (cases z; simp add: stateless_def filled_def run))

lemma stateless_bnd:
  assumes "stateless m" "\<And>a. stateless (f a)"
  shows "stateless (bnd m f)"
proof -
  from assms(1) obtain r where r: "m s = (r, s)" for s by (auto simp: stateless_def)
  show ?thesis
  proof (cases r)
    case (Ok a)
    with r assms(2) [of a] show ?thesis by (auto simp: stateless_def bnd_run)
  qed (use r in \<open>auto simp: stateless_def bnd_run\<close>)
qed

lemma stateless_case_prod: "(\<And>a b. stateless (f a b)) \<Longrightarrow> stateless (case x of (a, b) \<Rightarrow> f a b)"
  by (cases x) simp

lemma stateless_writers: "stateless (AmountToPackedAmountBytes X a)" "stateless (FeeToPackedFeeBytes X a)"
  by (auto simp: AmountToPackedAmountBytes_def FeeToPackedFeeBytes_def intro!: stateless_bnd stateless_basic)

lemma stateless_pubDataOf: "stateless (pubDataOf X ti)"
  by (cases ti; simp only: pubDataOf.simps pubData_defs Let_def;
      intro stateless_bnd stateless_case_prod stateless_basic stateless_writers)

lemma pubDataOf_state: "pubDataOf X ti s = (r, t) \<Longrightarrow> t = s"
  using stateless_pubDataOf [of X ti] by (auto simp: stateless_def)

lemma pubDataOf_any: "pubDataOf X ti s = (r, t) \<Longrightarrow> pubDataOf X ti s' = (r, s')"
  using stateless_pubDataOf [of X ti] by (auto simp: stateless_def)

section \<open>Six chunks\<close>

definition gives :: "('a \<Rightarrow> bool) \<Rightarrow> ('s, 'e, 'a) comp \<Rightarrow> bool" where
  "gives C m \<longleftrightarrow> (\<forall>s a t. m s = (Ok a, t) \<longrightarrow> C a)"

named_theorems give \<open>what a computation returns\<close>

lemma gives_ret [give]: "C a \<Longrightarrow> gives C (ret a)" by (simp add: gives_def)

lemma gives_bnd: "gives C m \<Longrightarrow> (\<And>a. C a \<Longrightarrow> gives D (f a)) \<Longrightarrow> gives D (bnd m f)"
  unfolding gives_def by (blast elim: bnd_OkE)

lemma gives_filled: "(\<And>a. x = Some a \<Longrightarrow> gives D (f a)) \<Longrightarrow> gives D (bnd (filled x) f)"
  unfolding gives_def filled_def by (fastforce elim: bnd_OkE)

lemma gives_any: "(\<And>a. gives D (f a)) \<Longrightarrow> gives D (bnd m f)"
  unfolding gives_def by (blast elim: bnd_OkE)

lemma gives_case_prod: "(\<And>a b. gives C (f a b)) \<Longrightarrow> gives C (case x of (a, b) \<Rightarrow> f a b)"
  by (cases x) simp

lemma length_emptyChunk [simp]: "length emptyChunk = 32" by (simp add: emptyChunk_def)

lemma pubDataOf_length: "gives (\<lambda>p. length p = 192) (pubDataOf X ti)"
  by (cases ti; simp only: pubDataOf.simps pubData_defs Let_def;
      (rule gives_filled gives_case_prod | rule gives_any | rule gives_ret)+; simp add: length_writers_opt)

section \<open>What can be written\<close>

text \<open>
  The ranges in which the public data can be written: the packed amounts exist, offers have 24 bits,
  NFT indices 40, amounts 128, hashes and addresses their length. The writer panics or fails outside.
\<close>

definition packs :: "Lib \<Rightarrow> int \<Rightarrow> bool" where "packs X a \<longleftrightarrow> (\<exists>p. x_ToPackedAmount X a = Inr p)"
definition packsFee :: "Lib \<Rightarrow> int \<Rightarrow> bool" where "packsFee X a \<longleftrightarrow> (\<exists>p. x_ToPackedFee X a = Inr p)"
definition bits :: "nat \<Rightarrow> int \<Rightarrow> bool" where "bits n a \<longleftrightarrow> 0 \<le> a \<and> a < 256 ^ n"
definition address :: "Lib \<Rightarrow> string \<Rightarrow> bool" where "address X h \<longleftrightarrow> length (x_FromHex X h) \<le> 20"
definition hash32 :: "byte list \<Rightarrow> bool" where "hash32 b \<longleftrightarrow> length b \<le> 32"

fun fits :: "Lib \<Rightarrow> TxInfo \<Rightarrow> bool" where
  "fits X (RegisterZnsInfo t) \<longleftrightarrow> hash32 (rz_AccountNameHash t) \<and>
     (\<exists>x y. ParsePubKey X (rz_PubKey t) = Inr (x, y) \<and> hash32 x \<and> hash32 y)"
| "fits X (DepositInfo t) \<longleftrightarrow> bits 16 (dp_AssetAmount t) \<and> hash32 (dp_AccountNameHash t)"
| "fits X (FullExitInfo t) \<longleftrightarrow> bits 16 (fe_AssetAmount t) \<and> hash32 (fe_AccountNameHash t)"
| "fits X (DepositNftInfo t) \<longleftrightarrow> bits 5 (dn_NftIndex t) \<and> address X (dn_NftL1Address t) \<and> hash32 (dn_NftContentHash t) \<and>
     bits 32 (dn_NftL1TokenId t) \<and> hash32 (dn_AccountNameHash t)"
| "fits X (FullExitNftInfo t) \<longleftrightarrow> bits 5 (fn_NftIndex t) \<and> address X (fn_NftL1Address t) \<and> hash32 (fn_AccountNameHash t) \<and>
     hash32 (fn_CreatorAccountNameHash t) \<and> hash32 (fn_NftContentHash t) \<and> (\<exists>i. fn_NftL1TokenId t = Some i \<and> bits 32 i)"
| "fits X (TransferInfo t) \<longleftrightarrow> packs X (tr_AssetAmount t) \<and> packsFee X (tr_GasFeeAssetAmount t) \<and> hash32 (tr_CallDataHash t)"
| "fits X (WithdrawInfo t) \<longleftrightarrow> address X (wd_ToAddress t) \<and> bits 16 (wd_AssetAmount t) \<and> packsFee X (wd_GasFeeAssetAmount t)"
| "fits X (CreateCollectionInfo t) \<longleftrightarrow> packsFee X (cc_GasFeeAssetAmount t)"
| "fits X (MintNftInfo t) \<longleftrightarrow> bits 5 (mn_NftIndex t) \<and> packsFee X (mn_GasFeeAssetAmount t) \<and> hash32 (x_FromHex X (mn_NftContentHash t))"
| "fits X (TransferNftInfo t) \<longleftrightarrow> bits 5 (tn_NftIndex t) \<and> packsFee X (tn_GasFeeAssetAmount t) \<and> hash32 (tn_CallDataHash t)"
| "fits X (WithdrawNftInfo t) \<longleftrightarrow> bits 5 (wn_NftIndex t) \<and> address X (wn_NftL1Address t) \<and> address X (wn_ToAddress t) \<and>
     packsFee X (wn_GasFeeAssetAmount t) \<and> hash32 (wn_NftContentHash t) \<and> (\<exists>i. wn_NftL1TokenId t = Some i \<and> bits 32 i) \<and>
     hash32 (wn_CreatorAccountNameHash t)"
| "fits X (CancelOfferInfo t) \<longleftrightarrow> bits 3 (co_OfferId t) \<and> packsFee X (co_GasFeeAssetAmount t)"
| "fits X (AtomicMatchInfo t) \<longleftrightarrow> bits 3 (of_OfferId (am_BuyOffer t)) \<and> bits 3 (of_OfferId (am_SellOffer t)) \<and>
     bits 5 (of_NftIndex (am_BuyOffer t)) \<and> packs X (of_AssetAmount (am_BuyOffer t)) \<and> packs X (am_CreatorAmount t) \<and>
     packs X (am_TreasuryAmount t) \<and> packsFee X (am_GasFeeAssetAmount t)"

definition succeeds :: "('s, 'e, 'a) comp \<Rightarrow> bool" where
  "succeeds m \<longleftrightarrow> (\<exists>a. \<forall>s. m s = (Ok a, s))"

lemma succeeds_ret: "succeeds (ret a)" by (simp add: succeeds_def)

lemma succeeds_filled: "x = Some b \<Longrightarrow> succeeds (f b) \<Longrightarrow> succeeds (bnd (filled x) f)"
  by (simp add: succeeds_def filled_def run)

lemma succeeds_FillBytes:
  "bits n a \<Longrightarrow> (\<And>b. length b = n \<Longrightarrow> succeeds (f b)) \<Longrightarrow> succeeds (bnd (filled (FillBytes n a)) f)"
  by (rule succeeds_filled) (auto simp: bits_def intro: FillBytes_Some)

lemma bits_SetBytes: "length b \<le> n \<Longrightarrow> bits n (SetBytes b)"
  using SetBytes_bound [of b] power_increasing [of "length b" n "256 :: int"] by (auto simp: bits_def elim: less_le_trans)

lemma succeeds_padding:
  "length b \<le> 32 \<Longrightarrow> (\<And>c. length c = 32 \<Longrightarrow> succeeds (f c)) \<Longrightarrow> succeeds (bnd (filled (PrefixPaddingBufToChunkSize b)) f)"
  unfolding PrefixPaddingBufToChunkSize_def by (rule succeeds_FillBytes) (rule bits_SetBytes)

lemma succeeds_address:
  "address X h \<Longrightarrow> (\<And>c. length c = 20 \<Longrightarrow> succeeds (f c)) \<Longrightarrow> succeeds (bnd (filled (AddressStrToBytes X h)) f)"
  unfolding AddressStrToBytes_def by (rule succeeds_FillBytes) (simp_all add: address_def bits_SetBytes)

lemma succeeds_amount:
  assumes "packing_ok X" "packs X a" "\<And>c. length c = 5 \<Longrightarrow> succeeds (f c)"
  shows "succeeds (bnd (AmountToPackedAmountBytes X a) f)"
proof -
  from assms(1,2) obtain p where p: "x_ToPackedAmount X a = Inr p" "0 \<le> p" "p < 2 ^ 40" by (auto simp: packs_def packing_ok_def)
  then have "FillBytes 5 p = Some (beBytes 5 (nat p))" by (intro FillBytes_Some) simp_all
  with p assms(3) [of "beBytes 5 (nat p)"] show ?thesis
    by (simp add: AmountToPackedAmountBytes_def Uint40ToBytes_def succeeds_def run)
qed

lemma succeeds_fee:
  assumes "packsFee X a" "\<And>c. length c = 2 \<Longrightarrow> succeeds (f c)"
  shows "succeeds (bnd (FeeToPackedFeeBytes X a) f)"
proof -
  from assms(1) obtain p where p: "x_ToPackedFee X a = Inr p" by (auto simp: packsFee_def)
  with assms(2) [of "Uint16ToBytes (word_of_int p)"] show ?thesis by (simp add: FeeToPackedFeeBytes_def succeeds_def run)
qed

lemma succeeds_ofSum: "x = Inr a \<Longrightarrow> succeeds (f a) \<Longrightarrow> succeeds (bnd (ofSum x) f)"
  by (simp add: succeeds_def run)

lemma succeeds_orPanic: "x = Some a \<Longrightarrow> succeeds (f a) \<Longrightarrow> succeeds (bnd (orPanic msg x) f)"
  by (simp add: succeeds_def run)

lemma fits_succeeds:
  assumes "packing_ok X" "fits X u"
  shows "succeeds (pubDataOf X u)"
proof -
  note rules = succeeds_address succeeds_amount [OF assms(1)] succeeds_fee succeeds_padding succeeds_FillBytes succeeds_ret
  note widths = Uint24ToBytes_def Uint40ToBytes_def Uint128ToBytes_def Uint256ToBytes_def
  show ?thesis
  proof (cases u)
    case (RegisterZnsInfo t)
    with assms(2) obtain x y where k: "ParsePubKey X (rz_PubKey t) = Inr (x, y)" "length x \<le> 32" "length y \<le> 32"
      "length (rz_AccountNameHash t) \<le> 32" by (auto simp: hash32_def)
    show ?thesis unfolding RegisterZnsInfo pubDataOf.simps RegisterZns_pubData_def Let_def
      by (rule succeeds_ofSum [OF k(1)] | rule rules | simp add: k)+
  next
    case (FullExitNftInfo t)
    with assms(2) obtain i where i: "fn_NftL1TokenId t = Some i" "bits 32 i" by auto
    show ?thesis using assms(2) unfolding FullExitNftInfo pubDataOf.simps FullExitNft_pubData_def Let_def widths fits.simps
      by (elim conjE) (rule succeeds_orPanic [OF i(1)] | rule rules | assumption | rule i | simp add: hash32_def)+
  next
    case (WithdrawNftInfo t)
    with assms(2) obtain i where i: "wn_NftL1TokenId t = Some i" "bits 32 i" by auto
    show ?thesis using assms(2) unfolding WithdrawNftInfo pubDataOf.simps WithdrawNft_pubData_def Let_def widths fits.simps
      by (elim conjE) (rule succeeds_orPanic [OF i(1)] | rule rules | assumption | rule i | simp add: hash32_def u32_def u16_def)+
  qed ((insert assms(2), hypsubst, simp only: pubDataOf.simps pubData_defs Let_def widths fits.simps, (elim conjE)?,
      ((rule rules | assumption | simp add: hash32_def u32_def u16_def)+)) [1])+
qed

section \<open>The executed transaction\<close>

text \<open>What every \<open>GetExecutedTx\<close> sets last.\<close>

definition stamped :: "World \<Rightarrow> Tx \<Rightarrow> bool" where
  "stamped s tx \<longleftrightarrow> tx_TxIndex tx = int (length (sc_Txs (w_sc s))) \<and>
     tx_BlockHeight tx = bk_BlockHeight (w_currentBlock s) \<and> tx_TxStatus tx = StatusExecuted \<and>
     tx_TxHash tx = tx_TxHash (e_tx (w_exec s)) \<and> tx_TxType tx = tx_TxType (e_tx (w_exec s)) \<and> tx_TxDetails tx = tx_TxDetails (e_tx (w_exec s))"

lemmas executed_defs = RegisterZns_GetExecutedTx_def Deposit_GetExecutedTx_def DepositNft_GetExecutedTx_def
  Transfer_GetExecutedTx_def Withdraw_GetExecutedTx_def CreateCollection_GetExecutedTx_def
  MintNft_GetExecutedTx_def TransferNft_GetExecutedTx_def AtomicMatch_GetExecutedTx_def
  CancelOffer_GetExecutedTx_def WithdrawNft_GetExecutedTx_def FullExit_GetExecutedTx_def FullExitNft_GetExecutedTx_def

lemma GetExecutedTx_ok:
  assumes "executor_GetExecutedTx X ti s = (Ok tx, t)"
  shows "stamped s tx \<and> (\<exists>e. t = s\<lparr>w_exec := e\<rparr> \<and> e_tx e = tx) \<and> x_MarshalTx X ti = Inr (tx_TxInfo tx)"
  using assms
  by (cases ti) (auto simp: executed_defs run marshalTxInfo_def mapErr_def BaseExecutor_GetExecutedTx_def
      updTx_def updExec_def stamped_def split: sum.splits)

end
