(* ===== verification/Ref_Commit.thy ===== *)
theory Ref_Commit
  imports Ref_Details Ref_PubData
begin

text \<open>
  The interface \<open>TxExecutor\<close> as a contract, that the thirteen executors keep it, and what the commit
  processor of src/core/block\_processor.go makes of it.
\<close>

lemma quiet_contract:
  assumes "quietV v w"
  shows "guard X w u = guard X v u"
  using assms by (cases u) (simp_all add: quietV_def)

lemma adapted_admissible:
  assumes "quietV v w" "adapted X v ti u" "admissible v ti"
  shows "admissible w u"
  using assms by (cases ti) (auto simp: quietV_def)

section \<open>The interface\<close>

text \<open>
  \<open>prepare_ok\<close>: the payload is completed and the accounts and NFTs of the transaction are resident.
  \<open>verify_ok\<close>: the checks have passed on success. \<open>details_ok\<close>: the details are computed on copies.
  \<open>apply_ok\<close>: a transaction that passed the other stages is applied, without fail, with its effect.
  The first three leave the ledger as it is, whether they succeed or not.
\<close>

locale tx_executor =
  fixes prepare :: "Lib \<Rightarrow> TxInfo \<Rightarrow> unit go"
    and verify :: "Lib \<Rightarrow> bool \<Rightarrow> TxInfo \<Rightarrow> unit go"
    and generate :: "Lib \<Rightarrow> TxInfo \<Rightarrow> TxDetail list go"
    and run_tx :: "Lib \<Rightarrow> TxInfo \<Rightarrow> unit go"
  assumes prepare_ok: "libOk X \<Longrightarrow> idsOk v \<Longrightarrow> admissible v ti \<Longrightarrow> v_exec v = NewBaseExecutor tx ti \<Longrightarrow>
      prepares X v ti (prepare X ti)"
    and verify_ok: "libOk X \<Longrightarrow> e_iTxInfo (v_exec v) = ti \<Longrightarrow> ready v ti \<Longrightarrow> verifies X v ti (verify X b ti)"
    and details_ok: "libOk X \<Longrightarrow> idsOk v \<Longrightarrow> admissible v ti \<Longrightarrow> ready v ti \<Longrightarrow> guard X v ti \<Longrightarrow>
      details v ti (generate X ti)"
    and apply_ok: "libOk X \<Longrightarrow> idsOk v \<Longrightarrow> admissible v ti \<Longrightarrow> ready v ti \<Longrightarrow> guard X v ti \<Longrightarrow> detailed v ti \<Longrightarrow>
      applies v (run_tx X ti) (effect X (tx_NativeAddress (e_tx (v_exec v))) ti)"

text \<open>The state after the four stages: the completed payload, its guard and its effect.\<close>

definition executed :: "Lib \<Rightarrow> View \<Rightarrow> TxInfo \<Rightarrow> World \<Rightarrow> bool" where
  "executed X v ti s \<longleftrightarrow> (\<exists>u. adapted X v ti u \<and> guard X v u \<and> e_iTxInfo (w_exec s) = u \<and> wf s \<and>
     tx_TxType (e_tx (w_exec s)) = tx_TxType (e_tx (v_exec v)) \<and>
     ledgerOf s = effect X (tx_NativeAddress (e_tx (v_exec v))) u (v_led v) \<and>
     maskSc (w_sc s) = v_sc v \<and> w_db s = v_db v \<and> w_currentBlock s = v_blk v \<and>
     v_nextAcc v \<le> w_nextAccountNumber s \<and>
     (\<forall>i. l_id (ledgerOf s) i \<noteq> None \<longrightarrow> l_id (v_led v) i \<noteq> None \<or> i \<le> w_nextAccountNumber s))"

lemma spec_onExec: "spec (St D E v) (f (e_iTxInfo (v_exec v))) Q R \<Longrightarrow> spec (St D E v) (onExec f) Q R"
  unfolding onExec_def by (rule spec_gets_exec(2))

lemma spec_mustOk: "spec P m Q (\<lambda>_. False) \<Longrightarrow> spec P (mustOk msg m) Q R"
  unfolding spec_def mustOk_def by (fastforce split: prod.splits res.splits)

lemma setTx_contract [simp]:
  "ready (v\<lparr>v_exec := (v_exec v)\<lparr>e_tx := t\<rparr>\<rparr>) u = ready v u" "detailed (v\<lparr>v_exec := e\<rparr>) u = detailed v u"
  "admissible (v\<lparr>v_exec := e\<rparr>) u = admissible v u" "idsOk (v\<lparr>v_exec := e\<rparr>) = idsOk v"
  "guard X (v\<lparr>v_exec := e\<rparr>) u = guard X v u"
  by (cases u; simp add: resident_def idsOk_def Let_def)+

lemma ledgerNow_executed:
  assumes "ledgerNow w L s" "quietV v w" "L = effect X (tx_NativeAddress (e_tx (v_exec v))) u (v_led v)" "adapted X v ti u"
    and "guard X v u" "e_iTxInfo (v_exec w) = u" "txKey (e_tx (v_exec w)) = txKey (e_tx (v_exec v))"
  shows "executed X v ti s"
  using assms by (auto simp: ledgerNow_def executed_def quietV_def)

lemma spec_from:
  assumes "\<And>s. A s \<Longrightarrow> \<exists>P. P s \<and> spec P m Q R"
  shows "spec A m Q R"
proof (rule specI)
  fix s assume "A s"
  from assms [OF this] obtain P where "P s" "spec P m Q R" by blast
  then show "case m s of (Ok a, t) \<Rightarrow> Q a t | (Err e, t) \<Rightarrow> R t | (Panic p, t) \<Rightarrow> False" by (simp add: spec_def)
qed

context tx_executor
begin

definition stages :: "Lib \<Rightarrow> unit go" where
  "stages X =
     thn (onExec (prepare X)) (thn (onExec (verify X True)) (bnd (onExec (generate X)) (\<lambda>txDetails.
       thn (modify (updTx (\<lambda>t. t\<lparr>tx_TxDetails := txDetails\<rparr>))) (mustOk ''apply transaction'' (onExec (run_tx X))))))"

lemma apply_stage:
  assumes L: "libOk X" and i: "idsOk v" and q: "quietV v w" and a: "adapted X v ti u" and u: "admissible w u"
    and e: "e_iTxInfo (v_exec w) = u" "txKey (e_tx (v_exec w)) = txKey (e_tx (v_exec v))"
    and r: "ready w u" and g: "guard X w u" and d: "detailed w u"
  shows "spec (St {} {} w) (thn (modify (updTx (\<lambda>t. t\<lparr>tx_TxDetails := ds\<rparr>))) (mustOk msg (onExec (run_tx X))))
    (\<lambda>_. executed X v ti) R"
  unfolding updTx_def
proof (rule spec_updExec, rule spec_mustOk, rule spec_onExec)
  let ?z = "w\<lparr>v_exec := (v_exec w)\<lparr>e_tx := (e_tx (v_exec w))\<lparr>tx_TxDetails := ds\<rparr>\<rparr>\<rparr>"
  have iw: "idsOk w" using i q by (simp add: idsOk_quiet)
  have gv: "guard X v u" using g q by (simp add: quiet_contract)
  have "applies ?z (run_tx X u) (effect X (tx_NativeAddress (e_tx (v_exec ?z))) u)"
    by (rule apply_ok [OF L]) (simp_all add: iw u r g d)
  then show "spec (St {} {} ?z) (run_tx X (e_iTxInfo (v_exec ?z))) (\<lambda>_. executed X v ti) (\<lambda>_. False)"
    using q a gv e by (auto elim!: spec_weaken ledgerNow_executed simp: quietV_def)
qed

lemma generate_stage:
  assumes L: "libOk X" and i: "idsOk v" and q: "quietV v w" and a: "adapted X v ti u" and u: "admissible w u"
    and e: "e_iTxInfo (v_exec w) = u" "txKey (e_tx (v_exec w)) = txKey (e_tx (v_exec v))"
    and r: "ready w u" and g: "guard X w u"
  shows "spec (St {} {} w) (bnd (onExec (generate X)) (\<lambda>d.
      thn (modify (updTx (\<lambda>t. t\<lparr>tx_TxDetails := d\<rparr>))) (mustOk msg (onExec (run_tx X))))) (\<lambda>_. executed X v ti) (quiet v)"
proof (rule spec_bnd)
  have iw: "idsOk w" using i q by (simp add: idsOk_quiet)
  have "details w u (generate X u)" by (rule details_ok [OF L iw u r g])
  then show "spec (St {} {} w) (onExec (generate X))
      (\<lambda>_ s. \<exists>y. (quietV w y \<and> v_exec y = v_exec w \<and> ready y u \<and> detailed y u) \<and> St {} {} y s) (quiet v)"
    by (intro spec_onExec) (auto simp: e detailedAs_def elim!: spec_weaken intro: quiet_trans [OF q])
  fix d
  show "spec (\<lambda>s. \<exists>y. (quietV w y \<and> v_exec y = v_exec w \<and> ready y u \<and> detailed y u) \<and> St {} {} y s)
      (thn (modify (updTx (\<lambda>t. t\<lparr>tx_TxDetails := d\<rparr>))) (mustOk msg (onExec (run_tx X)))) (\<lambda>_. executed X v ti) (quiet v)"
  proof (rule spec_ex, elim conjE)
    fix y assume y: "quietV w y" "v_exec y = v_exec w" "ready y u" "detailed y u"
    have "admissible y u" using u y(1) by (cases u) (simp_all add: quietV_def)
    with y show "spec (St {} {} y) (thn (modify (updTx (\<lambda>t. t\<lparr>tx_TxDetails := d\<rparr>))) (mustOk msg (onExec (run_tx X))))
        (\<lambda>_. executed X v ti) (quiet v)"
      using quietV_trans [OF q y(1)] e g by (intro apply_stage [OF L i _ a]) (simp_all add: quiet_contract)
  qed
qed

lemma verify_stage:
  assumes L: "libOk X" and i: "idsOk v" and q: "quietV v w" and a: "adapted X v ti u" and u: "admissible w u"
    and e: "e_iTxInfo (v_exec w) = u" "txKey (e_tx (v_exec w)) = txKey (e_tx (v_exec v))"
    and r: "ready w u"
  shows "spec (St {} {} w) (thn (onExec (verify X True)) (bnd (onExec (generate X)) (\<lambda>d.
      thn (modify (updTx (\<lambda>t. t\<lparr>tx_TxDetails := d\<rparr>))) (mustOk msg (onExec (run_tx X)))))) (\<lambda>_. executed X v ti) (quiet v)"
proof (rule spec_thn)
  have "verifies X w u (verify X True u)" by (rule verify_ok [OF L e(1) r])
  then show "spec (St {} {} w) (onExec (verify X True)) (\<lambda>_ s. guard X w u \<and> St {} {} w s) (quiet v)"
    by (intro spec_onExec) (auto simp: e elim!: spec_weaken intro: quietI [OF _ q])
  show "spec (\<lambda>s. guard X w u \<and> St {} {} w s) (bnd (onExec (generate X)) (\<lambda>d.
      thn (modify (updTx (\<lambda>t. t\<lparr>tx_TxDetails := d\<rparr>))) (mustOk msg (onExec (run_tx X))))) (\<lambda>_. executed X v ti) (quiet v)"
    using generate_stage [OF L i q a u e r] by (auto simp: spec_def)
qed

theorem stages_ok:
  assumes L: "libOk X" and i: "idsOk v" and a: "admissible v ti" and e: "v_exec v = NewBaseExecutor tx ti"
  shows "spec (St {} {} v) (stages X) (\<lambda>_. executed X v ti) (quiet v)"
  unfolding stages_def
proof (rule spec_thn)
  have "e_iTxInfo (v_exec v) = ti" by (simp add: e NewBaseExecutor_def)
  then show "spec (St {} {} v) (onExec (prepare X)) (\<lambda>_. preparedAs X v ti) (quiet v)"
    using prepare_ok [OF L i a e] by (intro spec_onExec) simp
  let ?rest = "thn (onExec (verify X True)) (bnd (onExec (generate X)) (\<lambda>d.
      thn (modify (updTx (\<lambda>t. t\<lparr>tx_TxDetails := d\<rparr>))) (mustOk ''apply transaction'' (onExec (run_tx X)))))"
  have rest: "spec (St {} {} w) ?rest (\<lambda>_. executed X v ti) (quiet v)"
    if "quietV v w" "e_iTxInfo (v_exec w) = u" "txKey (e_tx (v_exec w)) = txKey (e_tx (v_exec v))"
      "adapted X v ti u" "ready w u" for w u
    using that adapted_admissible [OF _ _ a] by (intro verify_stage [OF L i]) auto
  show "spec (preparedAs X v ti) ?rest (\<lambda>_. executed X v ti) (quiet v)"
  proof (rule spec_from)
    fix s assume "preparedAs X v ti s"
    then obtain w u where w: "St {} {} w s" and "spec (St {} {} w) ?rest (\<lambda>_. executed X v ti) (quiet v)"
      unfolding preparedAs_def using rest by metis
    then show "\<exists>P. P s \<and> spec P ?rest (\<lambda>_. executed X v ti) (quiet v)" by (intro exI conjI)
  qed
qed

end

section \<open>The executors keep the contract\<close>

lemmas executor_prepares = RegisterZns_prepares Deposit_prepares DepositNft_prepares Transfer_prepares Withdraw_prepares
  CreateCollection_prepares MintNft_prepares TransferNft_prepares AtomicMatch_prepares CancelOffer_prepares
  WithdrawNft_prepares FullExit_prepares FullExitNft_prepares

lemmas executor_verifies = RegisterZns_verifies Deposit_verifies DepositNft_verifies Transfer_verifies Withdraw_verifies
  CreateCollection_verifies MintNft_verifies TransferNft_verifies AtomicMatch_verifies CancelOffer_verifies
  WithdrawNft_verifies FullExit_verifies

lemmas executor_details = RegisterZns_details Deposit_details DepositNft_details Transfer_details Withdraw_details
  CreateCollection_details MintNft_details TransferNft_details AtomicMatch_details CancelOffer_details
  WithdrawNft_details FullExit_details FullExitNft_details

lemma executor_Prepare_ok:
  assumes "libOk X" "idsOk v" "admissible v ti" "v_exec v = NewBaseExecutor tx ti"
  shows "prepares X v ti (executor_Prepare X ti)"
  using assms by (cases ti; hypsubst; simp only: executor_Prepare.simps) (rule executor_prepares; assumption)+

lemma executor_VerifyInputs_ok:
  assumes "libOk X" "e_iTxInfo (v_exec v) = ti" "ready v ti"
  shows "verifies X v ti (executor_VerifyInputs X b ti)"
  using assms by (cases ti; simp only: executor_VerifyInputs.simps) (rule executor_verifies; assumption)+

lemma executor_GenerateTxDetails_ok:
  assumes "libOk X" "idsOk v" "admissible v ti" "ready v ti" "guard X v ti"
  shows "details v ti (executor_GenerateTxDetails X ti)"
  using assms by (cases ti; hypsubst; simp only: executor_GenerateTxDetails.simps) (rule executor_details; assumption)+

lemma executor_ApplyTransaction_ok:
  assumes "libOk X" "idsOk v" "admissible v ti" "ready v ti" "guard X v ti" "detailed v ti"
  shows "applies v (executor_ApplyTransaction X ti) (effect X (tx_NativeAddress (e_tx (v_exec v))) ti)"
proof (rule spec_St)
  fix s assume S: "St {} {} v s"
  note L = libOkD [OF assms(1)] and p = guard_payload [OF assms(1,5)]
  show "applies v (executor_ApplyTransaction X ti) (effect X (tx_NativeAddress (e_tx (v_exec v))) ti)"
  proof (cases ti)
    case (RegisterZnsInfo t)
    with assms have "rz_AccountIndex t = v_nextAcc v + 1" by (simp add: wrap64_id)
    with assms(2) have "l_id (v_led v) (rz_AccountIndex t) = None" by (force simp: idsOk_def)
    then show ?thesis using RegisterZns_apply RegisterZnsInfo by simp
  next
    case (AtomicMatchInfo t)
    with assms(6) obtain x r where x: "l_nft (v_led v) (of_NftIndex (am_SellOffer t)) = Some x" "v_ref v (nft_CreatorAccountIndex x) = Some r"
      by auto
    then have "0 \<le> nft_CreatorAccountIndex x" using St_ref_id [OF S] assms(2) by (auto simp: idsOk_def)
    with x assms(4) p have "matchReady v t" by (simp add: AtomicMatchInfo matchReady_def Let_def)
    with p show ?thesis using AtomicMatch_apply [OF L(1,4)] AtomicMatchInfo by (auto simp: offerOk_def)
  next
    case (FullExitNftInfo t)
    then have "e_exitEmpty (v_exec v) = (\<not> ownerIs (v_led v) (fn_NftIndex t) (fn_AccountIndex t))" using assms by (auto simp: ownerIs_def)
    with FullExitNft_apply [of v X t] show ?thesis by (simp add: FullExitNftInfo)
  qed (use assms p in \<open>auto simp: ownerIs_def intro!: Deposit_apply Transfer_apply Withdraw_apply FullExit_apply CreateCollection_apply
      MintNft_apply TransferNft_apply WithdrawNft_apply DepositNft_apply CancelOffer_apply L\<close>)
qed
interpretation ex: tx_executor executor_Prepare executor_VerifyInputs executor_GenerateTxDetails executor_ApplyTransaction
  by unfold_locales (rule executor_Prepare_ok executor_VerifyInputs_ok executor_GenerateTxDetails_ok executor_ApplyTransaction_ok; assumption)+

section \<open>The commit processor\<close>

text \<open>What follows the stages: public data, the executed transaction, and its entry in the block.\<close>

definition commitTail :: "Lib \<Rightarrow> unit go" where
  "commitTail X =
     thn (mustOk ''generate pub data'' (onExec (executor_GeneratePubData X)))
     (bnd (mustOk ''get executed tx'' (onExec (executor_GetExecutedTx X))) (\<lambda>tx.
      modify (updSc (\<lambda>c. c\<lparr>sc_Txs := sc_Txs c @ [tx]\<rparr>))))"

lemma commitSteps_eq:
  "commitSteps X tx = thn (mapErr (\<lambda>_. ErrorsNew ''new tx executor failed'') (NewTxExecutor X tx)) (thn (ex.stages X) (commitTail X))"
  by (simp add: commitSteps_def ex.stages_def commitTail_def thn_def bnd_assoc)

definition creates :: "Tx \<Rightarrow> unit go \<Rightarrow> bool" where
  "creates tx m \<longleftrightarrow> (\<exists>e. \<forall>s. m s = (Err e, s)) \<or> (\<exists>ti. \<forall>s. m s = (Ok (), s\<lparr>w_exec := NewBaseExecutor tx ti\<rparr>))"

lemma creates_newExecutor: "creates tx (newExecutor tx e x w)"
  by (cases x) (auto simp: creates_def newExecutor_def run mapErr_def)

lemma creates_throw: "creates tx (throw e)" by (simp add: creates_def)

lemma creates_if: "creates tx m \<Longrightarrow> creates tx n \<Longrightarrow> creates tx (if b then m else n)" by simp

lemmas new_defs = NewRegisterZnsExecutor_def NewDepositExecutor_def NewDepositNftExecutor_def NewTransferExecutor_def
  NewWithdrawExecutor_def NewCreateCollectionExecutor_def NewMintNftExecutor_def NewTransferNftExecutor_def
  NewAtomicMatchExecutor_def NewCancelOfferExecutor_def NewWithdrawNftExecutor_def NewFullExitExecutor_def NewFullExitNftExecutor_def

lemma NewTxExecutor_creates: "creates tx (NewTxExecutor X tx)"
  unfolding NewTxExecutor_def Let_def new_defs by (intro creates_if creates_newExecutor creates_throw)

text \<open>The payload of a transaction as the executor's constructor reads it.\<close>

definition parsesTo :: "Lib \<Rightarrow> Tx \<Rightarrow> TxInfo \<Rightarrow> bool" where
  "parsesTo X tx ti \<longleftrightarrow> (\<forall>s. NewTxExecutor X tx s = (Ok (), s\<lparr>w_exec := NewBaseExecutor tx ti\<rparr>))"

lemma NewTxExecutor_cases:
  obtains e where "\<And>s. NewTxExecutor X tx s = (Err e, s)"
  | ti where "parsesTo X tx ti"
  using NewTxExecutor_creates [of tx X] unfolding creates_def parsesTo_def by blast

section \<open>What a commit leaves behind\<close>

text \<open>A transaction that did not go through.\<close>

definition untouched :: "World \<Rightarrow> World \<Rightarrow> bool" where
  "untouched s t \<longleftrightarrow> wf t \<and> ledgerOf t = ledgerOf s \<and> maskSc (w_sc t) = maskSc (w_sc s) \<and> w_db t = w_db s \<and>
     w_currentBlock t = w_currentBlock s \<and> w_nextAccountNumber t = w_nextAccountNumber s"

text \<open>The entry of the block for a transaction that went through.\<close>

definition entered :: "World \<Rightarrow> Tx \<Rightarrow> bool" where
  "entered s tx \<longleftrightarrow> tx_TxIndex tx = int (length (sc_Txs (w_sc s))) \<and>
     tx_BlockHeight tx = bk_BlockHeight (w_currentBlock s) \<and> tx_TxStatus tx = StatusExecuted"

text \<open>A transaction that went through, with completed payload \<open>u\<close>.\<close>

definition committed :: "Lib \<Rightarrow> World \<Rightarrow> Tx \<Rightarrow> TxInfo \<Rightarrow> World \<Rightarrow> bool" where
  "committed X s tx u t \<longleftrightarrow> guard X (view s) u \<and> wf t \<and> idsOk (view t) \<and>
     ledgerOf t = effect X (tx_NativeAddress tx) u (ledgerOf s) \<and>
     (\<exists>p tx'. length p = 192 \<and> entered s tx' \<and> tx_TxType tx' = tx_TxType tx \<and> x_MarshalTx X u = Inr (tx_TxInfo tx') \<and>
        maskSc (w_sc t) = (recordPub X u p (maskSc (w_sc s)))\<lparr>sc_Txs := sc_Txs (w_sc s) @ [tx']\<rparr>) \<and>
     w_db t = w_db s \<and> w_currentBlock t = w_currentBlock s"

text \<open>The transaction cannot be written down: its public data or its JSON.\<close>

definition unwritable :: "Lib \<Rightarrow> TxInfo \<Rightarrow> bool" where
  "unwritable X u \<longleftrightarrow> (\<forall>p s t. pubDataOf X u s \<noteq> (Ok p, t)) \<or> (\<exists>e. x_MarshalTx X u = Inl e)"

lemma maskSc_recordPub:
  "maskSc (recordPub X u p c) = recordPub X u p (maskSc c)"
  "sc_PendingAccountMap (recordPub X u p c) = sc_PendingAccountMap c" "sc_PendingNftMap (recordPub X u p c) = sc_PendingNftMap c"
  "sc_PendingGasMap (recordPub X u p c) = sc_PendingGasMap c" "sc_Txs (recordPub X u p c) = sc_Txs c"
  by (simp_all add: maskSc_def recordPub_def Let_def addPubData_def addPendingOnChain_def addPubDataOffset_def addPriorityOperation_def)

lemma GetExecutedTx_no_panic: "executor_GetExecutedTx X ti s \<noteq> (Panic p, t)"
  by (cases ti) (auto simp: executed_defs run marshalTxInfo_def mapErr_def BaseExecutor_GetExecutedTx_def split: sum.splits)

lemma GetExecutedTx_err: "executor_GetExecutedTx X ti s = (Err e, t) \<Longrightarrow> \<exists>e. x_MarshalTx X ti = Inl e"
  by (cases ti) (auto simp: executed_defs run marshalTxInfo_def mapErr_def BaseExecutor_GetExecutedTx_def split: sum.splits)

lemma commitTail_run:
  "commitTail X s =
     (let u = e_iTxInfo (w_exec s) in
      case pubDataOf X u s of
        (Ok p, _) \<Rightarrow>
          (case executor_GetExecutedTx X u (updSc (recordPub X u p) s) of
             (Ok tx', t) \<Rightarrow> (Ok (), updSc (\<lambda>c. c\<lparr>sc_Txs := sc_Txs c @ [tx']\<rparr>) t)
           | (Err e, t) \<Rightarrow> (Panic ''get executed tx'', t)
           | (Panic q, t) \<Rightarrow> (Panic q, t))
      | (Err e, _) \<Rightarrow> (Panic ''generate pub data'', s)
      | (Panic q, _) \<Rightarrow> (Panic q, s))"
  by (auto simp: commitTail_def run onExec_def mustOk_def GeneratePubData_eq Let_def updSc_def
      dest: pubDataOf_state split: prod.splits res.splits)

lemma commitTail_Panic: "commitTail X s = (Panic q, t) \<Longrightarrow> unwritable X (e_iTxInfo (w_exec s))"
  unfolding unwritable_def
  by (auto simp: commitTail_run Let_def GetExecutedTx_no_panic dest: GetExecutedTx_err pubDataOf_any [where s' = s] split: prod.splits res.splits)

lemma commitTail_no_Err: "commitTail X s \<noteq> (Err e, t)"
  by (auto simp: commitTail_run Let_def split: prod.splits res.splits)

lemma commitTail_Ok:
  assumes "commitTail X s = (Ok r, t)" "wf s"
  shows "\<exists>p tx'. length p = 192 \<and> entered s tx' \<and> tx_TxType tx' = tx_TxType (e_tx (w_exec s)) \<and>
     x_MarshalTx X (e_iTxInfo (w_exec s)) = Inr (tx_TxInfo tx') \<and> wf t \<and>
     ledgerOf t = ledgerOf s \<and> w_db t = w_db s \<and> w_currentBlock t = w_currentBlock s \<and>
     w_nextAccountNumber t = w_nextAccountNumber s \<and>
     maskSc (w_sc t) = (recordPub X (e_iTxInfo (w_exec s)) p (maskSc (w_sc s)))\<lparr>sc_Txs := sc_Txs (w_sc s) @ [tx']\<rparr>"
proof -
  let ?u = "e_iTxInfo (w_exec s)"
  from assms(1) obtain p tx' t0 where p: "pubDataOf X ?u s = (Ok p, s)"
    and g: "executor_GetExecutedTx X ?u (updSc (recordPub X ?u p) s) = (Ok tx', t0)"
    and t: "t = updSc (\<lambda>c. c\<lparr>sc_Txs := sc_Txs c @ [tx']\<rparr>) t0"
    by (auto simp: commitTail_run Let_def dest: pubDataOf_state split: prod.splits res.splits)
  let ?s1 = "updSc (recordPub X ?u p) s"
  from GetExecutedTx_ok [OF g] obtain e where st: "stamped ?s1 tx'" "x_MarshalTx X ?u = Inr (tx_TxInfo tx')"
    and t0: "t0 = updExec (\<lambda>_. e) ?s1" by (auto simp: updExec_def)
  have l: "length p = 192" using pubDataOf_length [of X ?u] p by (auto simp: gives_def)
  have en: "entered s tx'" "tx_TxType tx' = tx_TxType (e_tx (w_exec s))" using st(1) by (simp_all add: entered_def stamped_def updSc_def maskSc_recordPub)
  have S: "St {} {} (view s) s" using assms(2) by (simp add: St_def)
  let ?c = "recordPub X ?u p (maskSc (w_sc s))"
  note S1 = St_updSc [OF S, of "recordPub X ?u p", OF maskSc_recordPub(2,3,4) maskSc_recordPub(1)]
  note S2 = St_updExec [OF S1, of "\<lambda>_. e", folded t0]
  have m: "maskSc (w_sc t0) = ?c" using S2 by (auto simp: St_def view_def)
  have "maskSc ((w_sc t0)\<lparr>sc_Txs := sc_Txs (w_sc t0) @ [tx']\<rparr>) = ?c\<lparr>sc_Txs := sc_Txs (w_sc s) @ [tx']\<rparr>"
    unfolding m [symmetric] by (simp add: maskSc_def t0 updExec_def updSc_def maskSc_recordPub)
  note S3 = St_updSc [OF S2, of "\<lambda>c. c\<lparr>sc_Txs := sc_Txs c @ [tx']\<rparr>", OF _ _ _ this, folded t]
  from S3 have "wf t" "ledgerOf t = ledgerOf s" "maskSc (w_sc t) = ?c\<lparr>sc_Txs := sc_Txs (w_sc s) @ [tx']\<rparr>"
    "w_db t = w_db s" "w_currentBlock t = w_currentBlock s" "w_nextAccountNumber t = w_nextAccountNumber s"
    by (auto simp: St_def view_def)
  with l en st(2) show ?thesis by blast
qed

section \<open>The outcome of a commit\<close>

lemma adapted_exec [simp]: "adapted X (v\<lparr>v_exec := e\<rparr>) ti u = adapted X v ti u"
  by (cases ti) (simp_all add: accountNamed_def)

lemma newExec_St: "wf s \<Longrightarrow> St {} {} ((view s)\<lparr>v_exec := e\<rparr>) (s\<lparr>w_exec := e\<rparr>)"
  using St_updExec [of "{}" "{}" "view s" s "\<lambda>_. e"] by (simp add: St_def updExec_def)

lemma quiet_untouched: "quiet ((view s)\<lparr>v_exec := e\<rparr>) t \<Longrightarrow> untouched s t"
  by (auto simp: quiet_def quietV_def untouched_def St_def view_def)

lemma untouched_ids: "untouched s t \<Longrightarrow> idsOk (view t) = idsOk (view s)"
  by (simp add: untouched_def idsOk_def)

lemma effect_id:
  "l_id (effect X na u L) i \<noteq> None \<Longrightarrow> l_id L i \<noteq> None \<or> (\<exists>t. u = RegisterZnsInfo t \<and> i = rz_AccountIndex t)"
  by (cases u) (auto simp: registerL_def addAcct_def depositL_def fullExitL_def depositNftL_def fullExitNftL_def transferL_def
      withdrawL_def createCollectionL_def mintNftL_def transferNftL_def withdrawNftL_def cancelOfferL_def atomicMatchL_def
      payGasL_def setOwnerL_def setOfferL_def Let_def split: sum.splits option.splits if_splits)

lemma committed_ids:
  assumes "idsOk v" "admissible v ti" "adapted X v ti u" "guard X v u" "L = effect X na u (v_led v)"
    and "\<forall>i. l_id L i \<noteq> None \<longrightarrow> l_id (v_led v) i \<noteq> None \<or> i \<le> n" "v_nextAcc v \<le> n"
    and "v_led w = L" "v_db w = v_db v" "v_nextAcc w = n"
  shows "idsOk w"
proof -
  have "0 \<le> i \<and> i \<le> n" if i: "l_id L i \<noteq> None" for i
  proof (cases "l_id (v_led v) i = None")
    case True
    with effect_id [of X na u "v_led v" i] i assms(5) obtain t where t: "u = RegisterZnsInfo t" "i = rz_AccountIndex t" by auto
    with assms(3) have "ti = u" by (cases ti) auto
    with t assms(2,4) have "0 \<le> i" by (simp add: wrap64_id)
    with True i assms(6) show ?thesis by auto
  next
    case False
    with assms(1,7) show ?thesis by (force simp: idsOk_def)
  qed
  with assms(1,8-) show ?thesis by (simp add: idsOk_def)
qed

theorem commitSteps_outcome:
  assumes L: "libOk X" and w: "wf s" and i: "idsOk (view s)"
    and a: "\<And>ti. parsesTo X tx ti \<Longrightarrow> admissible (view s) ti"
  shows "case commitSteps X tx s of
      (Ok _, t) \<Rightarrow> \<exists>ti u. parsesTo X tx ti \<and> adapted X (view s) ti u \<and> committed X s tx u t
    | (Err _, t) \<Rightarrow> untouched s t
    | (Panic _, t) \<Rightarrow> \<exists>ti u. parsesTo X tx ti \<and> adapted X (view s) ti u \<and>
        guard X (view s) u \<and> unwritable X u"
proof (cases rule: NewTxExecutor_cases [of X tx])
  case (1 e)
  then show ?thesis using w by (simp add: commitSteps_eq thn_run mapErr_def untouched_def)
next
  case (2 ti)
  then have n: "NewTxExecutor X tx s = (Ok (), s\<lparr>w_exec := NewBaseExecutor tx ti\<rparr>)" by (simp add: parsesTo_def)
  let ?e = "NewBaseExecutor tx ti"
  let ?v = "(view s)\<lparr>v_exec := ?e\<rparr>"
  have "spec (St {} {} ?v) (ex.stages X) (\<lambda>_. executed X ?v ti) (quiet ?v)"
    using i a [OF 2] by (intro ex.stages_ok [OF L]) simp_all
  from specD [OF this newExec_St [OF w]] show ?thesis
  proof (elim disjE exE conjE)
    fix e t assume "ex.stages X (s\<lparr>w_exec := ?e\<rparr>) = (Err e, t)" "quiet ?v t"
    with n quiet_untouched show ?thesis by (simp add: commitSteps_eq thn_run mapErr_def)
  next
    fix r t assume st: "ex.stages X (s\<lparr>w_exec := ?e\<rparr>) = (Ok r, t)" and x: "executed X ?v ti t"
    have c: "commitSteps X tx s = commitTail X t" using n st by (simp add: commitSteps_eq thn_run mapErr_def)
    let ?u = "e_iTxInfo (w_exec t)"
    from x have ty: "tx_TxType (e_tx (w_exec t)) = tx_TxType tx" and ad: "adapted X (view s) ti ?u" and g: "guard X (view s) ?u" and wt: "wf t"
      and l: "ledgerOf t = effect X (tx_NativeAddress tx) ?u (ledgerOf s)"
      and f: "maskSc (w_sc t) = maskSc (w_sc s)" "w_db t = w_db s" "w_currentBlock t = w_currentBlock s"
      and m: "w_nextAccountNumber s \<le> w_nextAccountNumber t"
        "\<forall>i. l_id (ledgerOf t) i \<noteq> None \<longrightarrow> l_id (ledgerOf s) i \<noteq> None \<or> i \<le> w_nextAccountNumber t"
      by (auto simp: executed_def NewBaseExecutor_def)
    show ?thesis
    proof (cases "commitTail X t")
      case (Pair res t')
      show ?thesis
      proof (cases res)
        case (Ok y)
        with Pair have T: "commitTail X t = (Ok y, t')" by simp
        from commitTail_Ok [OF T wt] obtain p tx' where
          p: "length p = 192" "entered t tx'" "tx_TxType tx' = tx_TxType (e_tx (w_exec t))" "x_MarshalTx X ?u = Inr (tx_TxInfo tx')"
          and t': "wf t'" "ledgerOf t' = ledgerOf t" "w_db t' = w_db t" "w_currentBlock t' = w_currentBlock t"
            "w_nextAccountNumber t' = w_nextAccountNumber t"
            "maskSc (w_sc t') = (recordPub X ?u p (maskSc (w_sc t)))\<lparr>sc_Txs := sc_Txs (w_sc t) @ [tx']\<rparr>"
          by blast
        have txs: "sc_Txs (w_sc t) = sc_Txs (w_sc s)" using arg_cong [OF f(1), of sc_Txs] by (simp add: maskSc_def)
        have "idsOk (view t')" using t' f m l
          by (intro committed_ids [OF i a [OF 2] ad, of "ledgerOf t" "tx_NativeAddress tx" "w_nextAccountNumber t"]) (simp_all add: g)
        moreover have "entered s tx'" using p(2) f txs by (simp add: entered_def)
        ultimately have "committed X s tx ?u t'"
          using g p t' f txs l ty unfolding committed_def by (intro conjI exI [of _ p] exI [of _ tx']) simp_all
        with 2 ad T c show ?thesis by auto
      next
        case (Err e)
        with Pair commitTail_no_Err show ?thesis by blast
      next
        case (Panic q)
        with Pair commitTail_Panic [of X t q t'] 2 ad g c show ?thesis by auto
      qed
    qed
  qed
qed

end
