(* ===== verification/Led_Laws.thy ===== *)
theory Led_Laws
  imports Ref_Details
begin

text \<open>
  The laws of the ledger: what the effects of the thirteen transactions have in common. Assets are
  conserved up to what enters and leaves the rollup, balances stay non-negative under the checks of
  \<open>VerifyInputs\<close>, nonces count, offers close for good, and NFTs move only for their owner.
\<close>

section \<open>Conservation\<close>

text \<open>The amount of an asset held by the accounts of a finite set and by the gas pool of the block.\<close>

definition assetTotal :: "int set \<Rightarrow> int \<Rightarrow> Ledger \<Rightarrow> int" where
  "assetTotal S a L = (\<Sum>i\<in>S. l_bal L i a) + l_gas L a"

lemma total_creditL:
  assumes "finite S" "i \<in> S"
  shows "assetTotal S b (creditL i a d L) = assetTotal S b L + (if b = a then d else 0)"
  using assms by (simp add: assetTotal_def sum.distrib)

lemma total_gasL: "assetTotal S b (gasL a d L) = assetTotal S b L + (if b = a then d else 0)"
  by (simp add: assetTotal_def)

lemma total_other [simp]:
  "assetTotal S b (putNft n x L) = assetTotal S b L" "assetTotal S b (putCnonce i c L) = assetTotal S b L"
  "assetTotal S b (putOffer i a w L) = assetTotal S b L" "assetTotal S b (bumpNonce i L) = assetTotal S b L"
  by (simp_all add: assetTotal_def)

lemma total_setOwnerL [simp]: "assetTotal S b (setOwnerL n i L) = assetTotal S b L"
  by (simp add: setOwnerL_def split: option.splits)

lemma total_setOfferL [simp]: "assetTotal S b (setOfferL i k L) = assetTotal S b L"
  by (simp add: setOfferL_def)

text \<open>The accounts whose balances a transaction may change.\<close>

fun parties :: "Ledger \<Rightarrow> TxInfo \<Rightarrow> int set" where
  "parties L (RegisterZnsInfo t) = {rz_AccountIndex t}"
| "parties L (DepositInfo t) = {dp_AccountIndex t}"
| "parties L (FullExitInfo t) = {fe_AccountIndex t}"
| "parties L (DepositNftInfo t) = {}"
| "parties L (FullExitNftInfo t) = {}"
| "parties L (TransferInfo t) = {tr_FromAccountIndex t, tr_ToAccountIndex t}"
| "parties L (WithdrawInfo t) = {wd_FromAccountIndex t}"
| "parties L (CreateCollectionInfo t) = {cc_AccountIndex t}"
| "parties L (MintNftInfo t) = {mn_CreatorAccountIndex t}"
| "parties L (TransferNftInfo t) = {tn_FromAccountIndex t}"
| "parties L (WithdrawNftInfo t) = {wn_AccountIndex t}"
| "parties L (CancelOfferInfo t) = {co_AccountIndex t}"
| "parties L (AtomicMatchInfo t) = {am_AccountIndex t, of_AccountIndex (am_BuyOffer t), of_AccountIndex (am_SellOffer t)} \<union>
     {case l_nft L (of_NftIndex (am_SellOffer t)) of None \<Rightarrow> 0 | Some n \<Rightarrow> nft_CreatorAccountIndex n}"

text \<open>What enters the rollup from L1, less what leaves it.\<close>

fun inflow :: "TxInfo \<Rightarrow> int \<Rightarrow> int" where
  "inflow (DepositInfo t) a = (if a = dp_AssetId t then dp_AssetAmount t else 0)"
| "inflow (FullExitInfo t) a = (if a = fe_AssetId t then - fe_AssetAmount t else 0)"
| "inflow (WithdrawInfo t) a = (if a = wd_AssetId t then - wd_AssetAmount t else 0)"
| "inflow _ a = 0"

text \<open>An unknown account has nothing.\<close>

definition blank :: "Ledger \<Rightarrow> bool" where
  "blank L \<longleftrightarrow> (\<forall>i. l_id L i = None \<longrightarrow> (\<forall>a. l_bal L i a = 0 \<and> l_offer L i a = 0) \<and> l_nonce L i = 0)"

lemma ledgerOf_blank [simp]: "blank (ledgerOf s)"
  by (auto simp: blank_def ledgerOf_def atAcc_def split: option.splits)

lemma newAccount_empty:
  assumes "ToFormatAccountInfo (newAccountOf X t na) = Inr acc"
  shows "assetBal acc a = 0" "assetOffer acc a = 0"
  using assms by (auto simp: ToFormatAccountInfo_def newAccountOf_def assetBal_def assetOffer_def)

text \<open>The transaction does not create an account that exists.\<close>

fun freshFor :: "Ledger \<Rightarrow> TxInfo \<Rightarrow> bool" where
  "freshFor L (RegisterZnsInfo t) \<longleftrightarrow> l_id L (rz_AccountIndex t) = None"
| "freshFor L _ \<longleftrightarrow> True"

lemma register_bal:
  assumes "blank L" "l_id L (rz_AccountIndex t) = None"
  shows "l_bal (registerL X t na L) = l_bal L" "l_offer (registerL X t na L) = l_offer L"
  using assms newAccount_empty [of X t na]
  by (auto simp: registerL_def addAcct_def blank_def fun_eq_iff split: sum.splits)

lemma matchable_asset: "matchable buy sell \<Longrightarrow> of_AssetId sell = of_AssetId buy"
  by (simp add: matchable_def)

fun sameAsset :: "TxInfo \<Rightarrow> bool" where
  "sameAsset (AtomicMatchInfo t) \<longleftrightarrow> of_AssetId (am_SellOffer t) = of_AssetId (am_BuyOffer t)"
| "sameAsset _ \<longleftrightarrow> True"

lemma effect_total:
  assumes "finite S" "parties L u \<subseteq> S" "blank L" "freshFor L u" "sameAsset u"
  shows "assetTotal S a (effect X na u L) = assetTotal S a L + inflow u a"
proof (cases u)
  case (RegisterZnsInfo t)
  then show ?thesis using assms register_bal(1) [of L t X na] by (simp add: assetTotal_def) (simp add: registerL_def addAcct_def split: sum.splits)
qed (use assms in \<open>simp_all add: depositL_def fullExitL_def depositNftL_def fullExitNftL_def transferL_def withdrawL_def
    createCollectionL_def mintNftL_def transferNftL_def withdrawNftL_def cancelOfferL_def atomicMatchL_def payGasL_def
    Let_def total_creditL total_gasL split: option.splits\<close>)

section \<open>Balances stay non-negative\<close>

definition solvent :: "Ledger \<Rightarrow> bool" where
  "solvent L \<longleftrightarrow> (\<forall>i a. 0 \<le> l_bal L i a) \<and> (\<forall>a. 0 \<le> l_gas L a)"

text \<open>
  What \<open>VerifyInputs\<close> does not check itself: the fees of a match are not more than the price, and an
  exit takes no more than the balance.
\<close>

fun covered :: "Ledger \<Rightarrow> TxInfo \<Rightarrow> bool" where
  "covered L (AtomicMatchInfo t) \<longleftrightarrow> 0 \<le> am_TreasuryAmount t \<and> 0 \<le> am_CreatorAmount t \<and>
     am_TreasuryAmount t + am_CreatorAmount t \<le> of_AssetAmount (am_BuyOffer t)"
| "covered L (FullExitInfo t) \<longleftrightarrow> fe_AssetAmount t \<le> l_bal L (fe_AccountIndex t) (fe_AssetId t)"
| "covered L _ \<longleftrightarrow> True"

lemma solvent_ops:
  "solvent L \<Longrightarrow> 0 \<le> l_bal L i a + d \<Longrightarrow> solvent (creditL i a d L)"
  "solvent L \<Longrightarrow> 0 \<le> d \<Longrightarrow> solvent (gasL a d L)"
  "solvent (putNft n x L) = solvent L" "solvent (putCnonce i c L) = solvent L"
  "solvent (putOffer i a w L) = solvent L" "solvent (bumpNonce i L) = solvent L"
  by (auto simp: solvent_def)

lemma solvent_set [simp]: "solvent (setOwnerL n i L) = solvent L" "solvent (setOfferL i k L) = solvent L"
  by (simp_all add: setOwnerL_def setOfferL_def solvent_ops split: option.splits)

lemma solventD [simp]: "solvent L \<Longrightarrow> 0 \<le> l_bal L i a" by (simp add: solvent_def)

lemma set_bal [simp]:
  "l_bal (setOwnerL n i L) = l_bal L" "l_bal (setOfferL j k L) = l_bal L"
  by (simp_all add: setOwnerL_def setOfferL_def split: option.splits)

lemma solvent_payGasL:
  assumes "solvent L" "fee \<le> l_bal L i a" "0 \<le> fee"
  shows "solvent (payGasL i a fee L)"
  using assms by (simp add: payGasL_def solvent_ops)

lemma solvent_receive: "solvent L \<Longrightarrow> 0 \<le> d \<Longrightarrow> solvent (creditL i a d L)"
  by (simp add: solvent_ops)

lemma affordsD:
  assumes "affords L i a x g fee" "0 \<le> fee"
  shows "x \<le> l_bal L i a" "fee \<le> l_bal L i g - (if g = a then x else 0)"
  using assms by (auto simp: affords_def split: if_splits)

lemma solvent_transferL:
  assumes "solvent L" "affords L (tr_FromAccountIndex t) (tr_AssetId t) (tr_AssetAmount t) (tr_GasFeeAssetId t) (tr_GasFeeAssetAmount t)"
    and p: "payloadOk (TransferInfo t)"
  shows "solvent (transferL t L)"
proof -
  have f: "0 \<le> tr_GasFeeAssetAmount t" using p by simp
  from assms affordsD [OF assms(2) f] show ?thesis
    unfolding transferL_def by (intro solvent_payGasL solvent_receive solvent_ops(1)) (auto split: if_splits)
qed

lemma solvent_withdrawL:
  assumes "solvent L" "affords L (wd_FromAccountIndex t) (wd_AssetId t) (wd_AssetAmount t) (wd_GasFeeAssetId t) (wd_GasFeeAssetAmount t)"
    and p: "payloadOk (WithdrawInfo t)"
  shows "solvent (withdrawL t L)"
proof -
  have f: "0 \<le> wd_GasFeeAssetAmount t" using p by simp
  from assms affordsD [OF assms(2) f] show ?thesis
    unfolding withdrawL_def by (intro solvent_payGasL solvent_ops(1)) (auto split: if_splits)
qed

lemma solvent_atomicMatchL:
  assumes "solvent L" "covered L (AtomicMatchInfo t)" "payloadOk (AtomicMatchInfo t)" "guard X v (AtomicMatchInfo t)" "v_led v = L"
  shows "solvent (atomicMatchL t L)"
proof -
  let ?f = "am_AccountIndex t" and ?g = "am_GasFeeAssetId t" and ?fee = "am_GasFeeAssetAmount t"
  let ?b = "of_AccountIndex (am_BuyOffer t)" and ?a = "of_AssetId (am_BuyOffer t)" and ?x = "of_AssetAmount (am_BuyOffer t)"
  have a: "of_AssetId (am_SellOffer t) = ?a" and c: "if ?f = ?b \<and> ?g = of_AssetId (am_SellOffer t)
      then ?fee + ?x \<le> l_bal L ?f ?g else ?fee \<le> l_bal L ?f ?g \<and> ?x \<le> l_bal L ?b ?a"
    using assms(4) matchable_asset unfolding guard.simps Let_def assms(5) by blast+
  have p: "0 \<le> ?x" "0 \<le> ?fee" using assms(3) by (simp_all add: offerOk_def)
  have g: "?fee \<le> l_bal L ?f ?g" "?x \<le> l_bal L ?b ?a - (if ?b = ?f \<and> ?a = ?g then ?fee else 0)"
    using c p unfolding a by (auto split: if_splits)
  have "solvent (creditL ?b ?a (- ?x) (creditL ?f ?g (- ?fee) L))"
    using assms(1) g by (intro solvent_ops(1)) auto
  with assms(2) p show ?thesis
    unfolding atomicMatchL_def Let_def by (simp add: solvent_ops solvent_receive)
qed

lemma effect_solvent:
  assumes "libOk X" "solvent (v_led v)" "guard X v u" "covered (v_led v) u" "blank (v_led v)" "freshFor (v_led v) u"
  shows "solvent (effect X na u (v_led v))"
proof -
  note p = guard_payload [OF assms(1,3)]
  show ?thesis
  proof (cases u)
    case (RegisterZnsInfo t)
    then show ?thesis using assms register_bal(1) [of "v_led v" t X na]
      by (simp add: solvent_def) (simp add: registerL_def addAcct_def split: sum.splits)
  next
    case (AtomicMatchInfo t)
    with assms p solvent_atomicMatchL [of "v_led v" t X v] show ?thesis by simp
  qed (use assms p in \<open>auto simp: depositL_def fullExitL_def depositNftL_def fullExitNftL_def createCollectionL_def
      mintNftL_def transferNftL_def withdrawNftL_def cancelOfferL_def solvent_ops
      intro!: solvent_payGasL solvent_transferL solvent_withdrawL split: option.splits\<close>)
qed

section \<open>Nonces\<close>

text \<open>A transaction signed on L2.\<close>

fun isL2 :: "TxInfo \<Rightarrow> bool" where
  "isL2 (TransferInfo _) = True"
| "isL2 (WithdrawInfo _) = True"
| "isL2 (CreateCollectionInfo _) = True"
| "isL2 (MintNftInfo _) = True"
| "isL2 (TransferNftInfo _) = True"
| "isL2 (WithdrawNftInfo _) = True"
| "isL2 (CancelOfferInfo _) = True"
| "isL2 (AtomicMatchInfo _) = True"
| "isL2 _ = False"

lemmas effect_defs = registerL_def addAcct_def depositL_def fullExitL_def depositNftL_def fullExitNftL_def transferL_def
  withdrawL_def createCollectionL_def mintNftL_def transferNftL_def withdrawNftL_def cancelOfferL_def atomicMatchL_def
  payGasL_def setOwnerL_def setOfferL_def

lemma effect_nonce:
  assumes "isL2 u"
  shows "l_nonce (effect X na u L) = (l_nonce L)(payloadFrom u := wrap64 (l_nonce L (payloadFrom u) + 1))"
  using assms by (cases u) (simp_all add: effect_defs Let_def split: option.splits)

lemma effect_nonce_L1:
  assumes "\<not> isL2 u" "blank L" "freshFor L u"
  shows "l_nonce (effect X na u L) = l_nonce L"
  using assms by (cases u) (auto simp: effect_defs blank_def ToFormatAccountInfo_def newAccountOf_def EmptyNonce_def fun_eq_iff split: sum.splits)

lemma guard_signed:
  assumes "guard X v u" "isL2 u"
  shows "signed X (v_led v) (bk_CreatedAt (v_blk v)) u"
  using assms by (cases u) (simp_all add: Let_def)

lemma no_replay:
  assumes "signed X L now u" "isL2 u" "payloadFrom u' = payloadFrom u" "payloadNonce u' = payloadNonce u"
  shows "\<not> signed X (effect X na u L) now' u'"
  using assms wrap64_Suc_neq [of "l_nonce L (payloadFrom u)"] by (auto simp: signed_def effect_nonce)

section \<open>Offers\<close>

lemma offer_closed:
  "\<not> offerOpen (setOfferL i k L) i k"
  "\<not> offerOpen L j m \<Longrightarrow> \<not> offerOpen (setOfferL i k L) j m"
  by (auto simp: offerOpen_def setOfferL_def bit_set_bit_iff)

lemma offerOpen_cong: "l_offer L = l_offer M \<Longrightarrow> offerOpen L i k = offerOpen M i k"
  by (simp add: offerOpen_def)

lemma effect_offer_closed:
  assumes "blank L" "freshFor L u" "\<not> offerOpen L i k"
  shows "\<not> offerOpen (effect X na u L) i k"
proof (cases u)
  case (RegisterZnsInfo t)
  with assms show ?thesis using register_bal(2) [of L t X na] by (simp add: offerOpen_def)
next
  case (CancelOfferInfo t)
  with offer_closed(2) [OF assms(3), of "co_AccountIndex t" "co_OfferId t"] show ?thesis
    by (simp add: cancelOfferL_def payGasL_def offerOpen_def)
next
  case (AtomicMatchInfo t)
  with assms(3) show ?thesis
    by (auto simp: atomicMatchL_def Let_def offerOpen_def setOwnerL_def setOfferL_def bit_set_bit_iff split: option.splits)
qed (use assms(3) in \<open>simp_all add: effect_defs offerOpen_def split: option.splits\<close>)

lemma match_closes:
  "\<not> offerOpen (effect X na (AtomicMatchInfo t) L) (of_AccountIndex (am_BuyOffer t)) (of_OfferId (am_BuyOffer t))"
  "\<not> offerOpen (effect X na (AtomicMatchInfo t) L) (of_AccountIndex (am_SellOffer t)) (of_OfferId (am_SellOffer t))"
  by (auto simp: atomicMatchL_def Let_def offerOpen_def setOwnerL_def setOfferL_def bit_set_bit_iff split: option.splits)

lemma cancel_closes:
  "\<not> offerOpen (effect X na (CancelOfferInfo t) L) (co_AccountIndex t) (co_OfferId t)"
  by (simp add: cancelOfferL_def payGasL_def offerOpen_def setOfferL_def bit_set_bit_iff)

section \<open>NFTs\<close>

text \<open>The transactions that may change NFT \<open>n\<close>, now \<open>x\<close>: those of its owner, a deposit into an empty slot, its mint.\<close>

fun disposes :: "int \<Rightarrow> L2Nft \<Rightarrow> TxInfo \<Rightarrow> bool" where
  "disposes n x (TransferNftInfo t) \<longleftrightarrow> tn_NftIndex t = n \<and> tn_FromAccountIndex t = nft_OwnerAccountIndex x"
| "disposes n x (WithdrawNftInfo t) \<longleftrightarrow> wn_NftIndex t = n \<and> wn_AccountIndex t = nft_OwnerAccountIndex x"
| "disposes n x (FullExitNftInfo t) \<longleftrightarrow> fn_NftIndex t = n \<and> fn_AccountIndex t = nft_OwnerAccountIndex x"
| "disposes n x (AtomicMatchInfo t) \<longleftrightarrow> of_NftIndex (am_SellOffer t) = n \<and> of_AccountIndex (am_SellOffer t) = nft_OwnerAccountIndex x"
| "disposes n x (DepositNftInfo t) \<longleftrightarrow> dn_NftIndex t = n \<and> nft_NftContentHash x = EmptyNftContentHash"
| "disposes n x (MintNftInfo t) \<longleftrightarrow> mn_NftIndex t = n"
| "disposes n x _ \<longleftrightarrow> False"

lemma effect_nft:
  assumes "guard X v u" "l_nft (v_led v) n = Some x" "l_nft (effect X na u (v_led v)) n \<noteq> Some x"
  shows "disposes n x u"
  using assms by (cases u) (auto simp: effect_defs ownerIs_def Let_def split: option.splits sum.splits if_splits)

lemma effect_nft_kept:
  assumes "l_nft L n \<noteq> None"
  shows "l_nft (effect X na u L) n \<noteq> None"
  using assms by (cases u) (auto simp: effect_defs Let_def split: option.splits sum.splits if_splits)

end
