(* ===== verification/Ref_Chain.thy ===== *)
theory Ref_Chain
  imports Ref_Commit Led_Laws
begin

text \<open>
  The chain as a state machine: \<open>CommitProcessor.Process\<close> with the time stamp of the block around the
  stages, the steps of a block being filled, what is invariant along them, and the committer's batch as
  a sequence of such steps.
\<close>

section \<open>Process\<close>

text \<open>The state \<open>commitSteps\<close> starts from: the first transaction of a block stamps it.\<close>

definition stampBlock :: "World \<Rightarrow> World" where
  "stampBlock s = snd (setCurrentBlockTimeStamp s)"

definition stampTime :: "World \<Rightarrow> int" where
  "stampTime s = (if bk_CreatedAt (w_currentBlock s) = zeroTimeMilli \<and> sc_Txs (w_sc s) = [] then w_now s
     else bk_CreatedAt (w_currentBlock s))"

lemma stampBlock_eq: "stampBlock s = s\<lparr>w_currentBlock := (w_currentBlock s)\<lparr>bk_CreatedAt := stampTime s\<rparr>\<rparr>"
  by (simp add: stampBlock_def setCurrentBlockTimeStamp_def stampTime_def)

lemma state_frame:
  assumes "w_sc t = w_sc s" "w_accHeap t = w_accHeap s" "w_nftHeap t = w_nftHeap s" "w_next t = w_next s"
    and "w_dryRun t = w_dryRun s" "w_db t = w_db s" "w_AccountCache t = w_AccountCache s" "w_NftCache t = w_NftCache s"
    and "w_AccountCacheSize t = w_AccountCacheSize s" "w_NftCacheSize t = w_NftCacheSize s"
    and "w_nextAccountNumber t = w_nextAccountNumber s" "w_exec t = w_exec s"
  shows "wfx D E t = wfx D E s" "ledgerOf t = ledgerOf s" "view t = (view s)\<lparr>v_blk := w_currentBlock t\<rparr>"
proof -
  have r: "acctRef t = acctRef s" "nftRef t = nftRef s"
    using assms by (simp_all add: acctRef_def nftRef_def fun_eq_iff cong: option.case_cong)
  have a: "acct t = acct s" "nftv t = nftv s" "hasAsset t = hasAsset s"
    by (rule acct_cong nftv_cong hasAsset_cong; simp add: r assms)+
  show "wfx D E t = wfx D E s" using assms by (simp add: wfx_def dbAcc_def dbNft_def)
  show l: "ledgerOf t = ledgerOf s" by (rule ledgerOf_cong) (simp_all add: a assms)
  show "view t = (view s)\<lparr>v_blk := w_currentBlock t\<rparr>" by (simp add: view_def l r a assms)
qed

lemma block_frame:
  "wfx D E (s\<lparr>w_currentBlock := b\<rparr>) = wfx D E s" "ledgerOf (s\<lparr>w_currentBlock := b\<rparr>) = ledgerOf s"
  "view (s\<lparr>w_currentBlock := b\<rparr>) = (view s)\<lparr>v_blk := b\<rparr>"
  using state_frame [of "s\<lparr>w_currentBlock := b\<rparr>" s] by simp_all

lemma view_same_block [simp]: "(view s)\<lparr>v_blk := w_currentBlock s\<rparr> = view s" by (simp add: view_def)

lemma now_frame:
  "wfx D E (s\<lparr>w_now := n\<rparr>) = wfx D E s" "ledgerOf (s\<lparr>w_now := n\<rparr>) = ledgerOf s" "view (s\<lparr>w_now := n\<rparr>) = view s"
  using state_frame [of "s\<lparr>w_now := n\<rparr>" s] by simp_all

lemma blk_contract [simp]:
  "idsOk (v\<lparr>v_blk := b\<rparr>) = idsOk v" "admissible (v\<lparr>v_blk := b\<rparr>) ti = admissible v ti"
  "adapted X (v\<lparr>v_blk := b\<rparr>) ti u = adapted X v ti u"
  by (cases ti; simp add: idsOk_def accountNamed_def)+

text \<open>The block keeps its time stamp once it has a transaction, and loses it while it has none.\<close>

definition restamped :: "World \<Rightarrow> Block" where
  "restamped s = (w_currentBlock s)\<lparr>bk_CreatedAt := (if sc_Txs (w_sc s) = [] then zeroTimeMilli else stampTime s)\<rparr>"

definition unchanged :: "World \<Rightarrow> World \<Rightarrow> bool" where
  "unchanged s t \<longleftrightarrow> wf t \<and> ledgerOf t = ledgerOf s \<and> maskSc (w_sc t) = maskSc (w_sc s) \<and> w_db t = w_db s \<and>
     w_currentBlock t = restamped s \<and> w_nextAccountNumber t = w_nextAccountNumber s"

lemma Txs_maskSc: "maskSc c = maskSc d \<Longrightarrow> sc_Txs c = sc_Txs d"
  by (drule arg_cong [of _ _ sc_Txs]) (simp add: maskSc_def)

lemma Process_run:
  "CommitProcessor_Process X tx s =
     (case commitSteps X tx (stampBlock s) of (r, t) \<Rightarrow> (r, snd (resetCurrentBlockTimeStamp t)))"
  by (simp add: CommitProcessor_Process_def thn_run stampBlock_def deferred_def setCurrentBlockTimeStamp_def)

lemma committed_txs:
  assumes "committed X s tx u t"
  obtains p tx' where "sc_Txs (w_sc t) = sc_Txs (w_sc s) @ [tx']" "length p = 192" "entered s tx'"
    "maskSc (w_sc t) = (recordPub X u p (maskSc (w_sc s)))\<lparr>sc_Txs := sc_Txs (w_sc s) @ [tx']\<rparr>"
    "x_MarshalTx X u = Inr (tx_TxInfo tx')" "tx_TxType tx' = tx_TxType tx"
proof -
  from assms obtain p tx' where p: "length p = 192" "entered s tx'" "x_MarshalTx X u = Inr (tx_TxInfo tx')"
    "tx_TxType tx' = tx_TxType tx"
    "maskSc (w_sc t) = (recordPub X u p (maskSc (w_sc s)))\<lparr>sc_Txs := sc_Txs (w_sc s) @ [tx']\<rparr>"
    by (auto simp: committed_def)
  from arg_cong [OF p(5), of sc_Txs] have "sc_Txs (w_sc t) = sc_Txs (w_sc s) @ [tx']" by (simp add: maskSc_def)
  with p that show ?thesis by blast
qed

lemma adapted_stamp: "adapted X (view (stampBlock s)) ti u = adapted X (view s) ti u"
  by (simp add: stampBlock_eq block_frame)

lemma reset_committed: "committed X s tx u t \<Longrightarrow> snd (resetCurrentBlockTimeStamp t) = t"
  by (erule committed_txs) (simp add: resetCurrentBlockTimeStamp_def)

lemma reset_unchanged: "untouched (stampBlock s) t \<Longrightarrow> unchanged s (snd (resetCurrentBlockTimeStamp t))"
  using Txs_maskSc [of "w_sc t" "w_sc s"]
  by (auto simp: untouched_def unchanged_def resetCurrentBlockTimeStamp_def stampBlock_eq block_frame restamped_def)

theorem Process_outcome:
  assumes L: "libOk X" and w: "wf s" and i: "idsOk (view s)"
    and a: "\<And>ti. parsesTo X tx ti \<Longrightarrow> admissible (view s) ti"
  shows "case CommitProcessor_Process X tx s of
      (Ok _, t) \<Rightarrow> \<exists>ti u. parsesTo X tx ti \<and> adapted X (view s) ti u \<and> committed X (stampBlock s) tx u t
    | (Err _, t) \<Rightarrow> unchanged s t
    | (Panic _, _) \<Rightarrow> \<exists>ti u. parsesTo X tx ti \<and> adapted X (view s) ti u \<and> guard X (view (stampBlock s)) u \<and> unwritable X u"
proof -
  have "case commitSteps X tx (stampBlock s) of
      (Ok _, t) \<Rightarrow> \<exists>ti u. parsesTo X tx ti \<and> adapted X (view (stampBlock s)) ti u \<and> committed X (stampBlock s) tx u t
    | (Err _, t) \<Rightarrow> untouched (stampBlock s) t
    | (Panic _, t) \<Rightarrow> \<exists>ti u. parsesTo X tx ti \<and> adapted X (view (stampBlock s)) ti u \<and>
        guard X (view (stampBlock s)) u \<and> unwritable X u"
    using w i a by (intro commitSteps_outcome [OF L]) (simp_all add: stampBlock_eq block_frame)
  then show ?thesis
    unfolding adapted_stamp Process_run
    by (auto simp: reset_unchanged reset_committed split: prod.splits res.splits) blast
qed

lemma fits_writable:
  assumes "packing_ok X" "fits X u" "x_MarshalTx X u = Inr m"
  shows "\<not> unwritable X u"
  using fits_succeeds [OF assms(1,2)] assms(3) by (auto simp: unwritable_def succeeds_def)

section \<open>Filling a block\<close>

text \<open>
  One step: the clock moves, a transaction is committed, or it is rejected. A panic stops the process
  and is no step.
\<close>

inductive chainStep :: "Lib \<Rightarrow> World \<Rightarrow> World \<Rightarrow> bool" for X where
  tick: "chainStep X s (s\<lparr>w_now := n\<rparr>)"
| commit: "CommitProcessor_Process X tx s = (Ok r, t) \<Longrightarrow> \<forall>ti. parsesTo X tx ti \<longrightarrow> admissible (view s) ti \<Longrightarrow> chainStep X s t"
| reject: "CommitProcessor_Process X tx s = (Err e, t) \<Longrightarrow> \<forall>ti. parsesTo X tx ti \<longrightarrow> admissible (view s) ti \<Longrightarrow> chainStep X s t"

abbreviation reaches :: "Lib \<Rightarrow> World \<Rightarrow> World \<Rightarrow> bool" where
  "reaches X \<equiv> (chainStep X)\<^sup>*\<^sup>*"

definition healthy :: "World \<Rightarrow> bool" where
  "healthy s \<longleftrightarrow> wf s \<and> idsOk (view s)"

text \<open>What a step does to a healthy state.\<close>

lemma unchanged_ids: "unchanged s t \<Longrightarrow> idsOk (view t) = idsOk (view s)"
  by (simp add: unchanged_def idsOk_def)

lemma chainStep_cases:
  assumes "chainStep X s t" "libOk X" "healthy s"
  obtains (tick) n where "t = s\<lparr>w_now := n\<rparr>"
  | (commit) tx ti u where "parsesTo X tx ti" "admissible (view s) ti" "adapted X (view s) ti u" "committed X (stampBlock s) tx u t"
  | (reject) "unchanged s t"
  using assms(1)
proof cases
  case (commit tx r)
  from commit Process_outcome [OF assms(2), of s tx] assms(3) that(2) show ?thesis by (auto simp: healthy_def)
next
  case (reject tx e)
  from reject Process_outcome [OF assms(2), of s tx] assms(3) that(3) show ?thesis by (auto simp: healthy_def)
qed (use that in blast)

lemma chainStep_healthy:
  assumes "chainStep X s t" "libOk X" "healthy s"
  shows "healthy t"
  using assms
proof (cases rule: chainStep_cases)
  case (commit tx ti u)
  then show ?thesis by (simp add: healthy_def committed_def)
next
  case reject
  with assms(3) show ?thesis using unchanged_ids by (auto simp: healthy_def unchanged_def)
qed (use assms(3) in \<open>simp add: healthy_def now_frame\<close>)

text \<open>An invariant of the steps between healthy states holds in every reachable state.\<close>

lemma reaches_induct:
  assumes "reaches X s t" "libOk X" "healthy s" "I s"
    and "\<And>u v. healthy u \<Longrightarrow> I u \<Longrightarrow> chainStep X u v \<Longrightarrow> I v"
  shows "healthy t \<and> I t"
  using assms(1) by (induction rule: rtranclp_induct) (use assms in \<open>auto intro: chainStep_healthy\<close>)

section \<open>The books of a block\<close>

definition isOnChainType :: "int \<Rightarrow> bool" where
  "isOnChainType t \<longleftrightarrow> t = TxTypeWithdraw \<or> t = TxTypeWithdrawNft \<or> t = TxTypeFullExit \<or> t = TxTypeFullExitNft"

text \<open>The kind of a payload is that of its transaction type.\<close>

definition makes :: "(TxInfo \<Rightarrow> bool) \<Rightarrow> Tx \<Rightarrow> unit go \<Rightarrow> bool" where
  "makes C tx m \<longleftrightarrow> (\<forall>s ti. m s = (Ok (), s\<lparr>w_exec := NewBaseExecutor tx ti\<rparr>) \<longrightarrow> C ti)"

lemma exec_inj: "s\<lparr>w_exec := e\<rparr> = s\<lparr>w_exec := f\<rparr> \<Longrightarrow> e = f"
  by (drule arg_cong [of _ _ w_exec]) simp

lemma makes_newExecutor: "(\<And>i. C (f i)) \<Longrightarrow> makes C tx (newExecutor tx e x f)"
  by (cases x) (auto simp: makes_def newExecutor_def run mapErr_def NewBaseExecutor_def dest!: exec_inj)

lemma makes_throw: "makes C tx (throw e)" by (simp add: makes_def)

lemma makes_if: "(b \<Longrightarrow> makes C tx m) \<Longrightarrow> (\<not> b \<Longrightarrow> makes C tx n) \<Longrightarrow> makes C tx (if b then m else n)" by simp

lemma parsesTo_kind:
  assumes "parsesTo X tx ti"
  shows "isPriority ti = IsPriorityOperationTx (tx_TxType tx) \<and> isOnChain ti = isOnChainType (tx_TxType tx)"
proof -
  have "makes (\<lambda>ti. isPriority ti = IsPriorityOperationTx (tx_TxType tx) \<and> isOnChain ti = isOnChainType (tx_TxType tx)) tx (NewTxExecutor X tx)"
    unfolding NewTxExecutor_def Let_def new_defs
    by (intro makes_if makes_newExecutor makes_throw; simp add: IsPriorityOperationTx_def isOnChainType_def txtype_defs)
  with assms show ?thesis by (simp add: makes_def parsesTo_def)
qed

lemma adapted_kind: "adapted X v ti u \<Longrightarrow> isPriority u = isPriority ti \<and> isOnChain u = isOnChain ti"
  by (cases ti) auto

text \<open>
  The books: six chunks of public data per transaction, the counter of priority operations, the
  offsets of the transactions L1 handles, the rolling hash of the operations executed on chain, and
  the numbering of the transactions.
\<close>

definition positions :: "(int \<Rightarrow> bool) \<Rightarrow> Tx list \<Rightarrow> nat list" where
  "positions P ts = filter (\<lambda>k. P (tx_TxType (ts ! k))) [0..<length ts]"

definition bookOk :: "Lib \<Rightarrow> World \<Rightarrow> bool" where
  "bookOk X s \<longleftrightarrow>
     (let c = w_sc s; ts = sc_Txs c in
      length (sc_PubData c) = 192 * length ts \<and>
      sc_PriorityOperations c = wrap64 (int (length (positions IsPriorityOperationTx ts))) \<and>
      sc_PubDataOffset c = map (\<lambda>k. of_nat (192 * k)) (positions (\<lambda>t. IsPriorityOperationTx t \<or> isOnChainType t) ts) \<and>
      sc_PendingOnChainOperationsPubData c = map (\<lambda>k. take 192 (drop (192 * k) (sc_PubData c))) (positions isOnChainType ts) \<and>
      sc_PendingOnChainOperationsHash c =
        foldl (ConcatKeccakHash X) (x_FromHex X EmptyStringKeccak) (sc_PendingOnChainOperationsPubData c) \<and>
      (\<forall>k < length ts. tx_TxIndex (ts ! k) = int k \<and> tx_TxStatus (ts ! k) = StatusExecuted \<and>
         tx_BlockHeight (ts ! k) = bk_BlockHeight (w_currentBlock s)))"

lemma positions_Nil [simp]: "positions P [] = []" by (simp add: positions_def)

lemma positions_snoc: "positions P (ts @ [x]) = positions P ts @ (if P (tx_TxType x) then [length ts] else [])"
  by (auto simp: positions_def nth_append intro: filter_cong)

lemma positions_less: "k \<in> set (positions P ts) \<Longrightarrow> k < length ts" by (simp add: positions_def)

lemma bookOk_empty:
  assumes "w_sc s = NewStateCache X root"
  shows "bookOk X s"
  by (simp add: bookOk_def assms NewStateCache_def wrap64_def)

lemma wrap64_wrap: "wrap64 (1 + wrap64 n) = wrap64 (1 + n)"
proof -
  have "((n + 2 ^ 63) mod 2 ^ 64 + 1) mod 2 ^ 64 = (n + 2 ^ 63 + 1) mod (2 :: int) ^ 64" by (rule mod_add_left_eq)
  then show ?thesis by (simp add: wrap64_def algebra_simps)
qed

text \<open>The fields of the state cache after a commit.\<close>

lemma committed_fields:
  assumes "maskSc c' = (recordPub X u p (maskSc c))\<lparr>sc_Txs := ts\<rparr>"
  shows "sc_PubData c' = sc_PubData c @ p"
    and "sc_PriorityOperations c' = (if isPriority u then wrap64 (sc_PriorityOperations c + 1) else sc_PriorityOperations c)"
    and "sc_PubDataOffset c' = sc_PubDataOffset c @ (if isPriority u \<or> isOnChain u then [of_nat (length (sc_PubData c))] else [])"
    and "sc_PendingOnChainOperationsPubData c' = sc_PendingOnChainOperationsPubData c @ (if isOnChain u then [p] else [])"
    and "sc_PendingOnChainOperationsHash c' =
      (if isOnChain u then ConcatKeccakHash X (sc_PendingOnChainOperationsHash c) p else sc_PendingOnChainOperationsHash c)"
    and "sc_Txs c' = ts" "sc_StateRoot c' = sc_StateRoot c"
  using assms [THEN arg_cong, of sc_PubData] assms [THEN arg_cong, of sc_PriorityOperations]
    assms [THEN arg_cong, of sc_PubDataOffset] assms [THEN arg_cong, of sc_PendingOnChainOperationsPubData]
    assms [THEN arg_cong, of sc_PendingOnChainOperationsHash] assms [THEN arg_cong, of sc_Txs] assms [THEN arg_cong, of sc_StateRoot]
  by (simp_all add: maskSc_def recordPub_def Let_def addPubData_def addPendingOnChain_def addPubDataOffset_def addPriorityOperation_def)

lemma maskSc_fields:
  assumes "maskSc c' = maskSc c"
  shows "sc_PubData c' = sc_PubData c" "sc_PriorityOperations c' = sc_PriorityOperations c" "sc_PubDataOffset c' = sc_PubDataOffset c"
    "sc_PendingOnChainOperationsPubData c' = sc_PendingOnChainOperationsPubData c"
    "sc_PendingOnChainOperationsHash c' = sc_PendingOnChainOperationsHash c" "sc_Txs c' = sc_Txs c"
  using assms [THEN arg_cong, of sc_PubData] assms [THEN arg_cong, of sc_PriorityOperations]
    assms [THEN arg_cong, of sc_PubDataOffset] assms [THEN arg_cong, of sc_PendingOnChainOperationsPubData]
    assms [THEN arg_cong, of sc_PendingOnChainOperationsHash] assms [THEN arg_cong, of sc_Txs]
  by (simp_all add: maskSc_def)

lemma bookOk_commit:
  assumes b: "bookOk X s" and c: "committed X (stampBlock s) tx u t"
    and k: "isPriority u = IsPriorityOperationTx (tx_TxType tx)" "isOnChain u = isOnChainType (tx_TxType tx)"
  shows "bookOk X t"
proof -
  from c obtain p tx' where tx': "length p = 192" "entered (stampBlock s) tx'" "tx_TxType tx' = tx_TxType tx"
    and m: "maskSc (w_sc t) = (recordPub X u p (maskSc (w_sc (stampBlock s))))\<lparr>sc_Txs := sc_Txs (w_sc (stampBlock s)) @ [tx']\<rparr>"
    by (rule committed_txs)
  have sc: "w_sc (stampBlock s) = w_sc s" by (simp add: stampBlock_eq)
  have h: "bk_BlockHeight (w_currentBlock t) = bk_BlockHeight (w_currentBlock s)"
    using c by (simp add: committed_def stampBlock_eq)
  have e: "tx_TxIndex tx' = int (length (sc_Txs (w_sc s)))" "tx_TxStatus tx' = StatusExecuted"
    "tx_BlockHeight tx' = bk_BlockHeight (w_currentBlock s)"
    using tx'(2) by (simp_all add: entered_def stampBlock_eq)
  note f = committed_fields [OF m [unfolded sc]]
  let ?ts = "sc_Txs (w_sc s)"
  have len: "length (sc_PubData (w_sc s)) = 192 * length ?ts" using b by (simp add: bookOk_def Let_def)
  have cut: "map (\<lambda>k. take 192 (drop (192 * k) (sc_PubData (w_sc s) @ p))) (positions P ?ts) =
      map (\<lambda>k. take 192 (drop (192 * k) (sc_PubData (w_sc s)))) (positions P ?ts)" for P
    using len by (auto dest: positions_less)
  show ?thesis
    using b tx' k e h len cut unfolding bookOk_def Let_def f
    by (simp add: positions_snoc wrap64_wrap nth_append less_Suc_eq add.commute)
qed

lemma bookOk_step:
  assumes "chainStep X s t" "libOk X" "healthy s" "bookOk X s"
  shows "bookOk X t"
  using assms(1-3)
proof (cases rule: chainStep_cases)
  case (commit tx ti u)
  from parsesTo_kind [OF commit(1)] adapted_kind [OF commit(3)] show ?thesis
    by (intro bookOk_commit [OF assms(4) commit(4)]) simp_all
next
  case reject
  then have "maskSc (w_sc t) = maskSc (w_sc s)" "bk_BlockHeight (w_currentBlock t) = bk_BlockHeight (w_currentBlock s)"
    by (simp_all add: unchanged_def restamped_def)
  with assms(4) show ?thesis by (simp add: bookOk_def Let_def maskSc_fields [of "w_sc t" "w_sc s"])
qed (use assms(4) in \<open>simp add: bookOk_def Let_def\<close>)

section \<open>The laws of the ledger along the chain\<close>

lemma committed_fresh:
  assumes "idsOk v" "admissible v ti" "adapted X v ti u" "guard X w u" "v_nextAcc w = v_nextAcc v"
  shows "freshFor (v_led v) u"
proof (cases u)
  case (RegisterZnsInfo t)
  with assms(3) have "ti = u" by (cases ti) auto
  with assms RegisterZnsInfo have "rz_AccountIndex t = v_nextAcc v + 1" by (simp add: wrap64_id)
  with assms(1) RegisterZnsInfo show ?thesis by (force simp: idsOk_def)
qed simp_all

lemma guard_sameAsset: "guard X v u \<Longrightarrow> sameAsset u"
  by (cases u) (auto simp: Let_def matchable_def)

text \<open>The fees of a match do not exceed the price when the two rates do not exceed one together.\<close>

fun ratesOk :: "Ledger \<Rightarrow> TxInfo \<Rightarrow> bool" where
  "ratesOk L (AtomicMatchInfo t) \<longleftrightarrow> (\<forall>x. l_nft L (of_NftIndex (am_SellOffer t)) = Some x \<longrightarrow>
     0 \<le> nft_CreatorTreasuryRate x \<and> of_TreasuryRate (am_SellOffer t) + nft_CreatorTreasuryRate x \<le> TenThousand)"
| "ratesOk L _ \<longleftrightarrow> True"

lemma fees_within:
  fixes x a b :: int
  assumes "0 \<le> x" "0 \<le> a" "0 \<le> b" "a + b \<le> 10000"
  shows "x * a div 10000 + x * b div 10000 \<le> x"
proof -
  have "x * a div 10000 + x * b div 10000 \<le> (x * a + x * b) div 10000"
    by (simp add: div_add1_eq [of "x * a" "x * b"])
  also have "\<dots> \<le> (x * 10000) div 10000"
    using mult_left_mono [OF assms(4,1)] by (intro zdiv_mono1) (simp_all add: distrib_left)
  finally show ?thesis by simp
qed

lemma adapted_covered:
  assumes "libOk X" "adapted X v ti u" "guard X w u" "ratesOk (v_led v) ti"
  shows "covered (v_led v) u"
proof (cases ti)
  case (AtomicMatchInfo t)
  with assms(2) obtain x where x: "l_nft (v_led v) (of_NftIndex (am_SellOffer t)) = Some x"
    and u: "u = AtomicMatchInfo (t\<lparr>
          am_TreasuryAmount := x_Div X (of_AssetAmount (am_SellOffer t) * of_TreasuryRate (am_SellOffer t)) TenThousand,
          am_CreatorAmount := x_Div X (of_AssetAmount (am_SellOffer t) * nft_CreatorTreasuryRate x) TenThousand\<rparr>)" by auto
  from guard_payload [OF assms(1,3)] have p: "0 \<le> of_AssetAmount (am_SellOffer t)" "0 \<le> of_TreasuryRate (am_SellOffer t)"
    by (simp_all add: u offerOk_def)
  from assms(3) have e: "of_AssetAmount (am_SellOffer t) = of_AssetAmount (am_BuyOffer t)" by (simp add: u Let_def matchable_def)
  from assms(4) x AtomicMatchInfo have r: "0 \<le> nft_CreatorTreasuryRate x"
    "of_TreasuryRate (am_SellOffer t) + nft_CreatorTreasuryRate x \<le> 10000" by (simp_all add: TenThousand_def)
  have d: "x_Div X a 10000 = a div 10000" if "0 \<le> a" for a using libOkD(4) [OF assms(1)] that by (simp add: ffmath_ok_def)
  from fees_within [OF p r] p r show ?thesis
    by (simp add: u d TenThousand_def e [symmetric] pos_imp_zdiv_nonneg_iff)
next
  case (FullExitInfo t)
  with assms(2) show ?thesis by auto
qed (use assms(2) in auto)

lemma stamp_ledger [simp]: "ledgerOf (stampBlock s) = ledgerOf s" "w_nextAccountNumber (stampBlock s) = w_nextAccountNumber s"
  "w_db (stampBlock s) = w_db s"
  by (simp_all add: stampBlock_eq block_frame)

lemma commit_laws:
  assumes L: "libOk X" and h: "healthy s" and a: "admissible (view s) ti" and u: "adapted X (view s) ti u"
    and c: "committed X (stampBlock s) tx u t"
  shows "finite S \<Longrightarrow> parties (ledgerOf s) u \<subseteq> S \<Longrightarrow> assetTotal S b (ledgerOf t) = assetTotal S b (ledgerOf s) + inflow u b"
    and "solvent (ledgerOf s) \<Longrightarrow> ratesOk (ledgerOf s) ti \<Longrightarrow> solvent (ledgerOf t)"
    and "isL2 u \<Longrightarrow> l_nonce (ledgerOf t) = (l_nonce (ledgerOf s))(payloadFrom u := wrap64 (l_nonce (ledgerOf s) (payloadFrom u) + 1))"
    and "\<not> isL2 u \<Longrightarrow> l_nonce (ledgerOf t) = l_nonce (ledgerOf s)"
    and "\<not> offerOpen (ledgerOf s) i k \<Longrightarrow> \<not> offerOpen (ledgerOf t) i k"
    and "l_nft (ledgerOf s) n = Some x \<Longrightarrow> l_nft (ledgerOf t) n \<noteq> Some x \<Longrightarrow> disposes n x u"
proof -
  from c have g: "guard X (view (stampBlock s)) u" and l: "ledgerOf t = effect X (tx_NativeAddress tx) u (ledgerOf s)"
    by (simp_all add: committed_def)
  have f: "freshFor (ledgerOf s) u"
    using committed_fresh [of "view s" ti X u "view (stampBlock s)"] h a u g by (simp add: healthy_def)
  show "assetTotal S b (ledgerOf t) = assetTotal S b (ledgerOf s) + inflow u b" if "finite S" "parties (ledgerOf s) u \<subseteq> S"
    unfolding l by (rule effect_total [OF that _ f guard_sameAsset [OF g]]) simp
  show "solvent (ledgerOf t)" if "solvent (ledgerOf s)" "ratesOk (ledgerOf s) ti"
    unfolding l using effect_solvent [OF L _ g, of "tx_NativeAddress tx"] that f adapted_covered [OF L u g] by simp
  show "l_nonce (ledgerOf t) = (l_nonce (ledgerOf s))(payloadFrom u := wrap64 (l_nonce (ledgerOf s) (payloadFrom u) + 1))" if "isL2 u"
    unfolding l by (rule effect_nonce [OF that])
  show "l_nonce (ledgerOf t) = l_nonce (ledgerOf s)" if "\<not> isL2 u"
    unfolding l by (rule effect_nonce_L1 [OF that _ f]) simp
  show "\<not> offerOpen (ledgerOf t) i k" if "\<not> offerOpen (ledgerOf s) i k"
    unfolding l by (rule effect_offer_closed [OF _ f that]) simp
  show "disposes n x u" if "l_nft (ledgerOf s) n = Some x" "l_nft (ledgerOf t) n \<noteq> Some x"
    using effect_nft [OF g, of n x "tx_NativeAddress tx"] that unfolding l by simp
qed

section \<open>Consequences\<close>

lemma chainStep_txs:
  assumes "chainStep X s t" "libOk X" "healthy s"
  shows "length (sc_Txs (w_sc t)) \<le> Suc (length (sc_Txs (w_sc s)))"
  using assms
proof (cases rule: chainStep_cases)
  case (commit tx ti u)
  then show ?thesis by (auto elim!: committed_txs simp: stampBlock_eq)
next
  case reject
  then show ?thesis by (simp add: unchanged_def Txs_maskSc [of "w_sc t" "w_sc s"])
qed simp

lemma adapted_sender:
  assumes "adapted X v ti u"
  shows "payloadFrom u = payloadFrom ti" "payloadNonce u = payloadNonce ti" "isL2 u = isL2 ti"
  using assms by (cases ti; auto)+

lemma parsesTo_unique: "parsesTo X tx ti \<Longrightarrow> parsesTo X tx ti' \<Longrightarrow> ti' = ti"
  by (auto simp: parsesTo_def NewBaseExecutor_def dest!: spec [of _ undefined] exec_inj)

lemma Process_committed:
  assumes "libOk X" "healthy s" "parsesTo X tx ti" "admissible (view s) ti" "CommitProcessor_Process X tx s = (Ok r, t)"
  shows "\<exists>u. adapted X (view s) ti u \<and> committed X (stampBlock s) tx u t"
proof -
  have one: "parsesTo X tx ti' \<longleftrightarrow> ti' = ti" for ti' using parsesTo_unique [OF assms(3)] assms(3) by blast
  show ?thesis using assms Process_outcome [OF assms(1), of s tx] by (auto simp: healthy_def one)
qed

lemma step_laws:
  assumes "chainStep X s t" "libOk X" "healthy s"
  shows "\<not> offerOpen (ledgerOf s) i k \<Longrightarrow> \<not> offerOpen (ledgerOf t) i k"
    and "l_id (ledgerOf s) j = Some b \<Longrightarrow> l_id (ledgerOf t) j = Some b"
    and "l_nft (ledgerOf s) n \<noteq> None \<Longrightarrow> l_nft (ledgerOf t) n \<noteq> None"
proof -
  have "(\<not> offerOpen (ledgerOf s) i k \<longrightarrow> \<not> offerOpen (ledgerOf t) i k) \<and>
    (l_id (ledgerOf s) j = Some b \<longrightarrow> l_id (ledgerOf t) j = Some b) \<and> (l_nft (ledgerOf s) n \<noteq> None \<longrightarrow> l_nft (ledgerOf t) n \<noteq> None)"
    using assms
  proof (cases rule: chainStep_cases)
    case (commit tx ti u)
    then have g: "guard X (view (stampBlock s)) u" and l: "ledgerOf t = effect X (tx_NativeAddress tx) u (ledgerOf s)"
      by (simp_all add: committed_def)
    have "freshFor (ledgerOf s) u"
      using committed_fresh [of "view s" ti X u "view (stampBlock s)"] assms(3) commit g by (simp add: healthy_def)
    then have "l_id (ledgerOf s) j = Some b \<longrightarrow> l_id (ledgerOf t) j = Some b"
      unfolding l by (cases u) (auto simp: effect_defs Let_def split: option.splits sum.splits if_splits)
    with commit_laws(5) [OF assms(2,3) commit(2,3,4)] effect_nft_kept [of "ledgerOf s" n] show ?thesis unfolding l by blast
  qed (simp_all add: unchanged_def now_frame)
  then show "\<not> offerOpen (ledgerOf s) i k \<Longrightarrow> \<not> offerOpen (ledgerOf t) i k"
    "l_id (ledgerOf s) j = Some b \<Longrightarrow> l_id (ledgerOf t) j = Some b"
    "l_nft (ledgerOf s) n \<noteq> None \<Longrightarrow> l_nft (ledgerOf t) n \<noteq> None" by blast+
qed

lemma keeps_AccountCache_Get: "(\<And>s c. I s \<Longrightarrow> I (s\<lparr>w_AccountCache := c\<rparr>)) \<Longrightarrow> keeps I (AccountCache_Get X i)"
  by (simp add: keeps_def AccountCache_Get_def Let_def split: prod.splits)

lemma bookOk_init:
  assumes "InitNewBlock X s = (Ok b, t)"
  shows "bookOk X t \<and> w_currentBlock t = b \<and> bk_BlockHeight b = wrap64 (bk_BlockHeight (w_currentBlock s) + 1) \<and>
     bk_BlockStatus b = StatusProposing \<and> sc_Txs (w_sc t) = []"
proof -
  let ?cur = "w_currentBlock s"
  let ?I = "\<lambda>t. maskSc (w_sc t) = maskSc (NewStateCache X (bk_StateRoot ?cur)) \<and> w_currentBlock t = b"
  have k: "keeps ?I (MarkGasAccountAsPending X)"
    unfolding MarkGasAccountAsPending_def GetFormatAccount_def AccountCache_Add_def GetAccountByIndex_def newAccount_def
    by (rule keep keeps_modify keeps_AccountCache_Get | simp add: maskSc_def updSc_def split: option.splits prod.splits)+
  let ?s1 = "s\<lparr>w_currentBlock := b, w_sc := NewStateCache X (bk_StateRoot ?cur)\<rparr>"
  have m: "MarkGasAccountAsPending X ?s1 = (Ok (), t)"
    and b: "bk_BlockHeight b = wrap64 (bk_BlockHeight ?cur + 1)" "bk_BlockStatus b = StatusProposing"
    using assms by (auto simp: InitNewBlock_def run Let_def PurgeCache_def updSc_def split: prod.splits res.splits)
  have I: "?I t" by (rule keepsD [OF k _ m]) simp
  have "bookOk X (t\<lparr>w_sc := NewStateCache X (bk_StateRoot ?cur)\<rparr>)" by (rule bookOk_empty) simp
  with I b show ?thesis
    by (simp add: bookOk_def Let_def maskSc_fields [of "w_sc t" "NewStateCache X (bk_StateRoot ?cur)"]) (simp add: NewStateCache_def)
qed

end
