(* ===== verification/Zk_Committer.thy ===== *)
theory Zk_Committer
  imports Zk_Processor
begin

text \<open>
  The committer service (src/service/committer/committer/committer.go): its configuration, when a
  block is full, how large it becomes, and the loop that feeds the pending transactions of the pool
  to \<open>BlockChain.ApplyTransaction\<close>.
\<close>

record Committer =
  cm_maxTxsPerBlock :: int
  cm_optionalBlockSizes :: "int list"

definition MaxCommitterInterval :: int where "MaxCommitterInterval = 60"

definition NewCommitter :: "int list \<Rightarrow> err + Committer" where
  "NewCommitter optionalBlockSizes =
     (if optionalBlockSizes = [] then Inl (ErrorsNew ''nil optional block sizes'')
      else Inr \<lparr>cm_maxTxsPerBlock = last optionalBlockSizes, cm_optionalBlockSizes = optionalBlockSizes\<rparr>)"

text \<open>Times are \<open>UnixMilli\<close> values; \<open>Unix\<close> is their second.\<close>

definition unixOf :: "int \<Rightarrow> int" where "unixOf t = t div 1000"

definition shouldCommit :: "Committer \<Rightarrow> World \<Rightarrow> bool" where
  "shouldCommit c s \<longleftrightarrow>
     0 < length (sc_Txs (w_sc s)) \<and> MaxCommitterInterval \<le> unixOf (w_now s) - unixOf (bk_CreatedAt (w_currentBlock s)) \<or>
     cm_maxTxsPerBlock c \<le> int (length (sc_Txs (w_sc s)))"

fun firstFit :: "int \<Rightarrow> int list \<Rightarrow> int" where
  "firstFit n [] = 0"
| "firstFit n (sz # sizes) = (if n \<le> sz then sz else firstFit n sizes)"

definition computeCurrentBlockSize :: "Committer \<Rightarrow> World \<Rightarrow> int" where
  "computeCurrentBlockSize c s = firstFit (int (length (sc_Txs (w_sc s)))) (cm_optionalBlockSizes c)"

section \<open>The batch\<close>

text \<open>
  One pass over the pending transactions. \<open>requests\<close> is the table of priority requests by L2 hash and
  \<open>createNewBlock\<close> the database transaction that stores the first executed transaction with its
  block. The clock is read for every transaction. The block of the loop is the current block of the
  chain: they are one object, or two copies of one row.
\<close>

record Batch =
  b_world :: World
  b_latestRequestId :: int
  b_update :: "Tx list"
  b_delete :: "Tx list"

datatype batchEnd = Finished | Returned | Panicked string

text \<open>\<open>None\<close>: the loop logs the invalid request id and returns.\<close>

definition nextRequestId :: "(string \<Rightarrow> err + int) \<Rightarrow> Tx \<Rightarrow> int \<Rightarrow> int option" where
  "nextRequestId requests poolTx latest =
     (if IsPriorityOperationTx (tx_TxType poolTx) then
        (case requests (tx_TxHash poolTx) of
           Inl _ \<Rightarrow> Some latest
         | Inr requestId \<Rightarrow> if latest \<noteq> -1 \<and> requestId \<noteq> wrap64 (latest + 1) then None else Some requestId)
      else Some latest)"

text \<open>The pool transaction after a failed \<open>ApplyTransaction\<close>: the executor works on it in place.\<close>

definition failedTx :: "Lib \<Rightarrow> Tx \<Rightarrow> World \<Rightarrow> World \<Rightarrow> Tx" where
  "failedTx X poolTx s t =
     (case NewTxExecutor X poolTx s of (Ok _, _) \<Rightarrow> e_tx (w_exec t) | _ \<Rightarrow> poolTx)\<lparr>tx_TxStatus := StatusFailed\<rparr>"

fun applyPending :: "Lib \<Rightarrow> Committer \<Rightarrow> (string \<Rightarrow> err + int) \<Rightarrow> (Block \<Rightarrow> Tx \<Rightarrow> err option) \<Rightarrow> (int \<times> Tx) list \<Rightarrow>
    Batch \<Rightarrow> batchEnd \<times> Batch" where
  "applyPending X c requests createNewBlock [] b = (Finished, b)"
| "applyPending X c requests createNewBlock ((now, poolTx) # rest) b =
     (let s = (b_world b)\<lparr>w_now := now\<rparr> in
      if shouldCommit c s then (Finished, b\<lparr>b_world := s\<rparr>)
      else case CommitProcessor_Process X poolTx s of
        (Panic m, t) \<Rightarrow> (Panicked m, b\<lparr>b_world := t\<rparr>)
      | (Err e, t) \<Rightarrow>
          applyPending X c requests createNewBlock rest
            (b\<lparr>b_world := t, b_delete := b_delete b @ [failedTx X poolTx s t]\<rparr>)
      | (Ok _, t) \<Rightarrow>
          (let executed = last (sc_Txs (w_sc t)) in
           case nextRequestId requests executed (b_latestRequestId b) of
             None \<Rightarrow> (Returned, b\<lparr>b_world := t\<rparr>)
           | Some latest \<Rightarrow>
               if length (sc_Txs (w_sc t)) = 1 then
                 (case createNewBlock (w_currentBlock t) executed of
                    Some e \<Rightarrow> (Panicked ''create new block failed'', b\<lparr>b_world := t, b_latestRequestId := latest\<rparr>)
                  | None \<Rightarrow> applyPending X c requests createNewBlock rest (b\<lparr>b_world := t, b_latestRequestId := latest\<rparr>))
               else applyPending X c requests createNewBlock rest
                 (b\<lparr>b_world := t, b_latestRequestId := latest, b_update := b_update b @ [executed]\<rparr>)))"

section \<open>Lemmas\<close>

lemma firstFit_fits: "n \<le> last sizes \<Longrightarrow> sizes \<noteq> [] \<Longrightarrow> n \<le> firstFit n sizes \<and> firstFit n sizes \<in> set sizes"
  by (induction n sizes rule: firstFit.induct) (auto split: if_splits)

lemma firstFit_least: "sorted sizes \<Longrightarrow> m \<in> set sizes \<Longrightarrow> n \<le> m \<Longrightarrow> firstFit n sizes \<le> m"
  by (induction n sizes rule: firstFit.induct) auto

end
