(* ===== verification/Ref_Committer.thy ===== *)
theory Ref_Committer
  imports Ref_Chain Zk_Committer
begin

text \<open>
  The committer over the chain: a batch of pending transactions is a sequence of steps, it does not
  panic when the payloads can be written, every pending transaction is either executed or failed, and
  the block does not outgrow the largest size of the circuit.
\<close>

section \<open>The batch of the committer\<close>

text \<open>A pending transaction is well typed in every state the batch may meet.\<close>

definition pendingOk :: "Lib \<Rightarrow> World \<Rightarrow> Tx \<Rightarrow> bool" where
  "pendingOk X s tx \<longleftrightarrow> (\<forall>ti t. parsesTo X tx ti \<longrightarrow> reaches X s t \<longrightarrow> admissible (view t) ti)"

lemma pendingOk_reaches: "pendingOk X s tx \<Longrightarrow> reaches X s t \<Longrightarrow> pendingOk X t tx"
  by (auto simp: pendingOk_def intro: rtranclp_trans)

text \<open>Unless it panics, a batch is a sequence of steps, and it stops in time for the largest block.\<close>

lemma applyPending_steps:
  assumes L: "libOk X"
  shows "healthy (b_world b) \<Longrightarrow> \<forall>tx \<in> snd ` set pending. pendingOk X (b_world b) tx \<Longrightarrow>
    applyPending X c requests createNewBlock pending b = (e, b') \<Longrightarrow> \<forall>m. e \<noteq> Panicked m \<Longrightarrow>
    int (length (sc_Txs (w_sc (b_world b)))) \<le> cm_maxTxsPerBlock c \<Longrightarrow>
    reaches X (b_world b) (b_world b') \<and> int (length (sc_Txs (w_sc (b_world b')))) \<le> cm_maxTxsPerBlock c"
proof (induction pending arbitrary: b)
  case Nil
  then show ?case by simp
next
  case (Cons p rest)
  obtain now tx where p: "p = (now, tx)" by (cases p)
  define s where "s = (b_world b)\<lparr>w_now := now\<rparr>"
  have s: "chainStep X (b_world b) s" unfolding s_def by (rule chainStep.tick)
  have hs: "healthy s" by (rule chainStep_healthy [OF s L Cons.prems(1)])
  have ok: "\<forall>tx \<in> insert tx (snd ` set rest). pendingOk X s tx"
    using Cons.prems(2) pendingOk_reaches [of X "b_world b" _ s] s by (auto simp: p)
  then have adm: "\<forall>ti. parsesTo X tx ti \<longrightarrow> admissible (view s) ti" by (auto simp: pendingOk_def)
  have next_ok: "reaches X (b_world b) (b_world b') \<and> int (length (sc_Txs (w_sc (b_world b')))) \<le> cm_maxTxsPerBlock c"
    if t: "chainStep X s t" and n: "\<not> shouldCommit c s" and b2: "b_world b2 = t"
      and r: "applyPending X c requests createNewBlock rest b2 = (e, b')" for t b2
  proof -
    have "int (length (sc_Txs (w_sc t))) \<le> cm_maxTxsPerBlock c"
      using n chainStep_txs [OF t L hs] by (simp add: shouldCommit_def)
    moreover have "\<forall>tx \<in> snd ` set rest. pendingOk X t tx" using ok pendingOk_reaches [of X s _ t] t by auto
    ultimately have "reaches X t (b_world b') \<and> int (length (sc_Txs (w_sc (b_world b')))) \<le> cm_maxTxsPerBlock c"
      using Cons.IH [of b2] chainStep_healthy [OF t L hs] r Cons.prems(4) b2 by simp
    then show ?thesis using s t by (meson converse_rtranclp_into_rtranclp)
  qed
  have stop: "reaches X (b_world b) t \<and> int (length (sc_Txs (w_sc t))) \<le> cm_maxTxsPerBlock c"
    if "chainStep X s t" "\<not> shouldCommit c s" for t
    using that s chainStep_txs [OF that(1) L hs] by (auto simp: shouldCommit_def)
  show ?case
  proof (cases "shouldCommit c s")
    case True
    with Cons.prems(3,5) s show ?thesis by (auto simp: p s_def [symmetric] Let_def) (simp_all add: s_def)
  next
    case False
    show ?thesis
    proof (cases "CommitProcessor_Process X tx s")
      case (Pair res t)
      show ?thesis
      proof (cases res)
        case (Ok y)
        with Pair have st: "chainStep X s t" using adm by (auto intro: chainStep.commit)
        from Cons.prems(3,4) stop [OF st False] show ?thesis
          by (auto simp: p s_def [symmetric] Let_def False Pair Ok split: option.splits if_splits
              dest!: next_ok [OF st False, rotated])
      next
        case (Err y)
        with Pair have st: "chainStep X s t" using adm by (auto intro: chainStep.reject)
        from Cons.prems(3) show ?thesis
          by (auto simp: p s_def [symmetric] Let_def False Pair Err
              dest!: next_ok [OF st False, rotated])
      next
        case (Panic y)
        with Cons.prems(3,4) Pair show ?thesis by (auto simp: p s_def [symmetric] Let_def False)
      qed
    qed
  qed
qed

text \<open>Every transaction the loop looks at is executed or failed, and it stops early only for a full block.\<close>

lemma commit_Txs:
  assumes "libOk X" "healthy s" "\<forall>ti. parsesTo X tx ti \<longrightarrow> admissible (view s) ti"
    and "CommitProcessor_Process X tx s = (Ok r, t)"
  shows "length (sc_Txs (w_sc t)) = Suc (length (sc_Txs (w_sc s)))"
proof -
  from Process_outcome [OF assms(1), of s tx] assms obtain u where "committed X (stampBlock s) tx u t" by (auto simp: healthy_def)
  then show ?thesis by (auto elim!: committed_txs simp: stampBlock_eq)
qed

lemma reject_Txs:
  assumes "libOk X" "healthy s" "\<forall>ti. parsesTo X tx ti \<longrightarrow> admissible (view s) ti"
    and "CommitProcessor_Process X tx s = (Err e, t)"
  shows "sc_Txs (w_sc t) = sc_Txs (w_sc s)"
proof -
  from Process_outcome [OF assms(1), of s tx] assms have "unchanged s t" by (auto simp: healthy_def)
  then show ?thesis by (simp add: unchanged_def Txs_maskSc [of "w_sc t" "w_sc s"])
qed

definition tally :: "Batch \<Rightarrow> nat" where
  "tally b = length (sc_Txs (w_sc (b_world b))) + length (b_delete b)"

lemma applyPending_tally:
  assumes L: "libOk X"
  shows "healthy (b_world b) \<Longrightarrow> \<forall>tx \<in> snd ` set pending. pendingOk X (b_world b) tx \<Longrightarrow>
    applyPending X c requests createNewBlock pending b = (Finished, b') \<Longrightarrow>
    \<exists>k \<le> length pending. tally b' = tally b + k \<and> (k < length pending \<longrightarrow> shouldCommit c (b_world b'))"
proof (induction pending arbitrary: b)
  case (Cons p rest)
  obtain now tx where p: "p = (now, tx)" by (cases p)
  define s where "s = (b_world b)\<lparr>w_now := now\<rparr>"
  have s: "chainStep X (b_world b) s" unfolding s_def by (rule chainStep.tick)
  have hs: "healthy s" by (rule chainStep_healthy [OF s L Cons.prems(1)])
  have ok: "\<forall>tx \<in> insert tx (snd ` set rest). pendingOk X s tx"
    using Cons.prems(2) pendingOk_reaches [of X "b_world b" _ s] s by (auto simp: p)
  then have adm: "\<forall>ti. parsesTo X tx ti \<longrightarrow> admissible (view s) ti" by (auto simp: pendingOk_def)
  have go: "\<exists>k \<le> Suc (length rest). tally b' = tally b + k \<and> (k < Suc (length rest) \<longrightarrow> shouldCommit c (b_world b'))"
    if r: "applyPending X c requests createNewBlock rest b2 = (Finished, b')"
    and b2: "b_world b2 = t" "tally b2 = Suc (tally b)" and t: "chainStep X s t" for t b2
  proof -
    have "\<forall>tx \<in> snd ` set rest. pendingOk X (b_world b2) tx" using ok pendingOk_reaches [of X s _ t] t b2(1) by auto
    with Cons.IH [of b2] chainStep_healthy [OF t L hs] r b2 obtain k where
      "k \<le> length rest" "tally b' = Suc (tally b) + k" "k < length rest \<longrightarrow> shouldCommit c (b_world b')" by auto
    then show ?thesis by (intro exI [of _ "Suc k"]) simp
  qed
  show ?case
  proof (cases "shouldCommit c s")
    case True
    with Cons.prems(3) show ?thesis
      by (intro exI [of _ 0]) (auto simp: p s_def [symmetric] Let_def tally_def, simp_all add: s_def)
  next
    case False
    note run = Cons.prems(3) [unfolded p applyPending.simps Let_def, folded s_def]
    show ?thesis
    proof (cases "CommitProcessor_Process X tx s")
      case (Pair res t)
      show ?thesis
      proof (cases res)
        case (Ok y)
        with Pair have st: "chainStep X s t" using adm by (auto intro: chainStep.commit)
        have "length (sc_Txs (w_sc t)) = Suc (length (sc_Txs (w_sc (b_world b))))"
          using commit_Txs [OF L hs adm] Pair Ok by (simp add: s_def)
        then have "tally b2 = Suc (tally b)" if "b_world b2 = t" "b_delete b2 = b_delete b" for b2
          using that by (simp add: tally_def)
        with run show ?thesis
          by (auto simp: False Pair Ok simp del: Suc_le_eq split: option.splits if_splits intro!: go [OF _ _ _ st])
      next
        case (Err y)
        with Pair have st: "chainStep X s t" using adm by (auto intro: chainStep.reject)
        have "sc_Txs (w_sc t) = sc_Txs (w_sc (b_world b))" using reject_Txs [OF L hs adm] Pair Err by (simp add: s_def)
        then have "tally (b\<lparr>b_world := t, b_delete := b_delete b @ [x]\<rparr>) = Suc (tally b)" for x by (simp add: tally_def)
        with run show ?thesis by (auto simp: False Pair Err intro!: go [OF _ _ _ st])
      qed (use run Pair in \<open>simp add: False\<close>)
    qed
  qed
qed simp

text \<open>The batch panics only if the block cannot be stored.\<close>

definition writableIn :: "Lib \<Rightarrow> World \<Rightarrow> Tx \<Rightarrow> bool" where
  "writableIn X s tx \<longleftrightarrow> (\<forall>ti u t. parsesTo X tx ti \<longrightarrow> reaches X s t \<longrightarrow> adapted X (view t) ti u \<longrightarrow> \<not> unwritable X u)"

lemma writableIn_reaches: "writableIn X s tx \<Longrightarrow> reaches X s t \<Longrightarrow> writableIn X t tx"
  unfolding writableIn_def by (meson rtranclp_trans)

lemma applyPending_no_panic:
  assumes L: "libOk X" and c: "\<forall>blk tx. createNewBlock blk tx = None"
  shows "healthy (b_world b) \<Longrightarrow> \<forall>tx \<in> snd ` set pending. pendingOk X (b_world b) tx \<and> writableIn X (b_world b) tx \<Longrightarrow>
    fst (applyPending X cm requests createNewBlock pending b) \<noteq> Panicked m"
proof (induction pending arbitrary: b)
  case (Cons p rest)
  obtain now tx where p: "p = (now, tx)" by (cases p)
  define s where "s = (b_world b)\<lparr>w_now := now\<rparr>"
  have s: "chainStep X (b_world b) s" unfolding s_def by (rule chainStep.tick)
  have hs: "healthy s" by (rule chainStep_healthy [OF s L Cons.prems(1)])
  have ok: "\<forall>tx \<in> insert tx (snd ` set rest). pendingOk X s tx \<and> writableIn X s tx"
    using Cons.prems(2) pendingOk_reaches [of X "b_world b" _ s] writableIn_reaches [of X "b_world b" _ s] s by (auto simp: p)
  then have adm: "\<forall>ti. parsesTo X tx ti \<longrightarrow> admissible (view s) ti" by (auto simp: pendingOk_def)
  have go: "fst (applyPending X cm requests createNewBlock rest b2) \<noteq> Panicked m"
    if t: "chainStep X s t" and b2: "b_world b2 = t" for t b2
    using Cons.IH [of b2] chainStep_healthy [OF t L hs] ok t b2
      pendingOk_reaches [of X s _ t] writableIn_reaches [of X s _ t] by auto
  have np: "CommitProcessor_Process X tx s \<noteq> (Panic y, t)" for y t
    using Process_outcome [OF L, of s tx] hs adm ok
    by (fastforce simp: healthy_def writableIn_def)
  have "chainStep X s t" if "CommitProcessor_Process X tx s = (res, t)" for res t
    using that np adm by (cases res) (auto intro: chainStep.commit chainStep.reject)
  note st = this
  have none: "createNewBlock = (\<lambda>_ _. None)" using c by auto
  show ?case
    by (auto simp: p s_def [symmetric] Let_def none np go [unfolded none, OF st] split: prod.splits res.splits option.splits)
qed simp

end
