(* ===== verification/Zk_Sample.thy ===== *)
theory Zk_Sample
  imports Ref_Committer
begin

text \<open>
  A small concrete chain on which the model is evaluated: two accounts with one asset each, the second
  collecting gas, one NFT, and one transaction of each of several types. It shows that the hypotheses
  of the theorems can be met.
\<close>

definition sampleAccount :: "int \<Rightarrow> int \<Rightarrow> AccountInfo" where
  "sampleAccount i b =
     \<lparr>ai_AccountId = 1, ai_AccountIndex = i, ai_AccountName = ''a'', ai_PublicKey = ''k'', ai_AccountNameHash = ''h'',
      ai_L1Address = [], ai_Nonce = 0, ai_CollectionNonce = 0,
      ai_AssetInfo = [0 \<mapsto> \<lparr>aa_AssetId = 0, aa_Balance = b, aa_OfferCanceledOrFinalized = 0\<rparr>],
      ai_AssetRoot = [], ai_Status = AccountStatusConfirmed\<rparr>"

definition sampleNft :: L2Nft where
  "sampleNft = \<lparr>nft_ID = 1, nft_NftIndex = 0, nft_CreatorAccountIndex = 0, nft_OwnerAccountIndex = 0,
     nft_NftContentHash = ''c'', nft_NftL1Address = ''0'', nft_NftL1TokenId = ''0'', nft_CreatorTreasuryRate = 0,
     nft_CollectionId = 0\<rparr>"

definition sampleBlock :: Block where
  "sampleBlock = \<lparr>bk_BlockHeight = 3, bk_StateRoot = [], bk_BlockStatus = StatusProposing, bk_CreatedAt = zeroTimeMilli,
     bk_BlockSize = 0, bk_BlockCommitment = [], bk_PriorityOperations = 0, bk_PendingOnChainOperationsHash = [],
     bk_PendingOnChainOperationsPubData = [], bk_Txs = []\<rparr>"

definition sampleTx :: "int \<Rightarrow> Tx" where
  "sampleTx ty = \<lparr>tx_ID = 1, tx_TxHash = ''h'', tx_TxType = ty, tx_TxInfo = [], tx_AccountIndex = 0, tx_Nonce = 0,
     tx_ExpiredAt = 0, tx_GasFee = [], tx_GasFeeAssetId = 0, tx_NftIndex = 0, tx_CollectionId = 0, tx_AssetId = 0,
     tx_TxAmount = [], tx_NativeAddress = [], tx_TxDetails = [], tx_TxIndex = 0, tx_BlockHeight = 0, tx_TxStatus = StatusPending\<rparr>"

definition sampleTransfer :: TransferTxInfo where
  "sampleTransfer = \<lparr>tr_FromAccountIndex = 0, tr_ToAccountIndex = 1, tr_ToAccountNameHash = ''h'', tr_AssetId = 0,
     tr_AssetAmount = 30, tr_GasAccountIndex = 1, tr_GasFeeAssetId = 0, tr_GasFeeAssetAmount = 2, tr_CallDataHash = [],
     tr_ExpiredAt = 5000, tr_Nonce = 0\<rparr>"

abbreviation sampleX :: Lib where "sampleX \<equiv> sampleLib (TransferInfo sampleTransfer)"

definition sampleWorld :: World where
  "sampleWorld =
     \<lparr>w_accHeap = (\<lambda>r. if r = 0 then sampleAccount 0 100 else sampleAccount 1 7), w_nftHeap = (\<lambda>_. sampleNft), w_next = 3,
      w_dryRun = False,
      w_sc = (NewStateCache sampleX [])
        \<lparr>sc_PendingAccountMap := [(0, 0), (1, 1)], sc_PendingNftMap := [(0, 2)]\<rparr>,
      w_db = \<lparr>db_down = False, db_Account = [], db_L2Nft = [], db_SysConfig = [], db_TxPool = []\<rparr>,
      w_redis = \<lparr>rd_down = False, rd_account = Map.empty, rd_nft = Map.empty, rd_gasAccount = Some 1, rd_gasConfig = Some []\<rparr>,
      w_AccountCache = [], w_NftCache = [], w_AccountCacheSize = 8, w_NftCacheSize = 8,
      w_nextAccountNumber = 1, w_blockNumber = 3, w_currentBlock = sampleBlock, w_now = 1000,
      w_exec = NewBaseExecutor (sampleTx 0) (TransferInfo sampleTransfer)\<rparr>"

lemma sample_lib [simp]: "libOk (sampleLib ti)" by (simp add: libOk_def)

lemma sample_refs:
  "pendingAcc sampleWorld i = (if i = 0 then Some 0 else if i = 1 then Some 1 else None)"
  "pendingNft sampleWorld n = (if n = 0 then Some 2 else None)"
  by (simp_all add: sampleWorld_def mget_def)

lemma sample_acct:
  "acct sampleWorld i = (if i = 0 then Some (sampleAccount 0 100) else if i = 1 then Some (sampleAccount 1 7) else None)"
  by (simp add: acct_def acctRef_def sample_refs) (simp add: sampleWorld_def dbAcc_def)

lemma sample_nft: "nftv sampleWorld n = (if n = 0 then Some (nftCore sampleNft) else None)"
  by (simp add: nftv_def nftRef_def sample_refs) (simp add: sampleWorld_def dbNft_def)

lemma sample_wf: "wf sampleWorld"
  by (auto simp: wfx_def sample_refs) (auto simp: sampleWorld_def sampleAccount_def sampleNft_def dbAcc_def)

lemma sample_ids: "idsOk (view sampleWorld)"
  by (auto simp: idsOk_def ledgerOf_def sample_acct split: if_splits) (simp_all add: sampleWorld_def)

lemma sample_healthy: "healthy sampleWorld" by (simp add: healthy_def sample_wf sample_ids)

lemma sample_parses: "parsesTo sampleX (sampleTx TxTypeTransfer) ti \<longleftrightarrow> ti = TransferInfo sampleTransfer"
  by (auto simp: parsesTo_def NewTxExecutor_def new_defs newExecutor_def run mapErr_def sampleTx_def txtype_defs sampleLib_def
      NewBaseExecutor_def dest!: spec [of _ sampleWorld] exec_inj)

lemma sample_parsed: "parsesTo sampleX (sampleTx TxTypeTransfer) (TransferInfo sampleTransfer)" by (simp add: sample_parses)

lemma sample_payload [simp]:
  "tr_Nonce sampleTransfer = 0" "tr_FromAccountIndex sampleTransfer = 0" "tr_ToAccountIndex sampleTransfer = 1"
  "tr_AssetId sampleTransfer = 0" "tr_AssetAmount sampleTransfer = 30" "tr_GasFeeAssetId sampleTransfer = 0"
  "tr_GasFeeAssetAmount sampleTransfer = 2" "tr_GasAccountIndex sampleTransfer = 1" "tr_ExpiredAt sampleTransfer = 5000"
  by (simp_all add: sampleTransfer_def)

lemma sample_fits: "fits sampleX (TransferInfo sampleTransfer) \<and> (\<exists>m. x_MarshalTx sampleX (TransferInfo sampleTransfer) = Inr m)"
  by (simp add: packs_def packsFee_def hash32_def sampleTransfer_def) (simp add: sampleLib_def)

text \<open>The stages succeed on the sample, and its public data can be written.\<close>

lemma sample_stages:
  "fst (thn (onExec (executor_Prepare sampleX)) (thn (onExec (executor_VerifyInputs sampleX True))
     (bnd (onExec (executor_GenerateTxDetails sampleX)) (\<lambda>txDetails.
       thn (modify (updTx (\<lambda>t. t\<lparr>tx_TxDetails := txDetails\<rparr>)))
         (mustOk ''apply transaction'' (onExec (executor_ApplyTransaction sampleX))))))
     ((stampBlock sampleWorld)\<lparr>w_exec := NewBaseExecutor (sampleTx TxTypeTransfer) (TransferInfo sampleTransfer)\<rparr>)) = Ok ()"
  by code_simp

lemma sample_commit: "\<exists>t. CommitProcessor_Process sampleX (sampleTx TxTypeTransfer) sampleWorld = (Ok (), t)"
proof -
  let ?u = "TransferInfo sampleTransfer" and ?tx = "sampleTx TxTypeTransfer"
  have n: "NewTxExecutor sampleX ?tx s = (Ok (), s\<lparr>w_exec := NewBaseExecutor ?tx ?u\<rparr>)" for s
    using sample_parses by (auto simp: parsesTo_def)
  have w: "\<not> unwritable sampleX ?u"
    by (rule fits_writable [where m = "''payload''"])
      (simp_all add: packs_def packsFee_def hash32_def sampleTransfer_def, simp_all add: sampleLib_def)
  have "\<not> (\<exists>e t. commitSteps sampleX ?tx (stampBlock sampleWorld) = (Err e, t))"
    using sample_stages commitTail_no_Err
    by (auto simp: commitSteps_eq ex.stages_def thn_run mapErr_def n split: prod.splits res.splits)
  moreover have "case CommitProcessor_Process sampleX ?tx sampleWorld of
      (Ok _, t) \<Rightarrow> \<exists>ti u. parsesTo sampleX ?tx ti \<and> adapted sampleX (view sampleWorld) ti u \<and> committed sampleX (stampBlock sampleWorld) ?tx u t
    | (Err _, t) \<Rightarrow> unchanged sampleWorld t
    | (Panic _, _) \<Rightarrow> \<exists>ti u. parsesTo sampleX ?tx ti \<and> adapted sampleX (view sampleWorld) ti u \<and>
        guard sampleX (view (stampBlock sampleWorld)) u \<and> unwritable sampleX u"
    by (rule Process_outcome) (simp_all add: sample_wf sample_ids sample_parses)
  ultimately show ?thesis using w
    by (auto simp: Process_run sample_parses split: prod.splits res.splits)
qed

lemma sample_step: "\<exists>t. chainStep sampleX sampleWorld t \<and> CommitProcessor_Process sampleX (sampleTx TxTypeTransfer) sampleWorld = (Ok (), t)"
  using sample_commit by (auto intro!: chainStep.commit simp: sample_parses)

lemma sample_books: "bookOk sampleX sampleWorld"
  by (simp add: bookOk_def sampleWorld_def NewStateCache_def wrap64_def)

lemma sample_solvent: "solvent (ledgerOf sampleWorld)"
  by (auto simp: solvent_def ledgerOf_def atAcc_def sample_acct sampleAccount_def assetBal_def)
    (simp add: sampleWorld_def GetPendingGas_def NewStateCache_def mget_def)

text \<open>A batch of one pending transfer.\<close>

definition sampleCommitter :: Committer where
  "sampleCommitter = \<lparr>cm_maxTxsPerBlock = 8, cm_optionalBlockSizes = [1, 8]\<rparr>"

definition sampleBatch :: Batch where
  "sampleBatch = \<lparr>b_world = sampleWorld, b_latestRequestId = -1, b_update = [], b_delete = []\<rparr>"

lemma sample_batch [simp]:
  "b_world sampleBatch = sampleWorld" "b_delete sampleBatch = []" "sc_Txs (w_sc sampleWorld) = []"
  "cm_maxTxsPerBlock sampleCommitter = 8"
  by (simp_all add: sampleBatch_def sampleWorld_def NewStateCache_def sampleCommitter_def)

lemma sample_pending:
  "pendingOk sampleX sampleWorld (sampleTx TxTypeTransfer) \<and> writableIn sampleX sampleWorld (sampleTx TxTypeTransfer)"
  using sample_fits fits_writable [of sampleX "TransferInfo sampleTransfer"]
  by (auto simp: pendingOk_def writableIn_def sample_parses)

end
