(* ===== verification/Zk_Tree.thy ===== *)
theory Zk_Tree
  imports Exec_Fungible
begin

text \<open>
  The Merkle trees of the state (src/tree): the hashes of the leaves (util.go), the cache of asset
  trees (asset_tree_cache.go), committing and rolling back the trees, and the writers they use
  (src/common/buffer.go). The sparse Merkle tree, its database and the MiMC hash are libraries: they
  are the fields of the record \<open>Smt\<close>, over an arbitrary type of trees and of tree databases.
\<close>

record ('t, 'd) Smt =
  k_Mimc :: "byte list \<Rightarrow> byte list"
  k_Modulus :: int
  k_Mod :: "int \<Rightarrow> int \<Rightarrow> int"
  k_PointSize :: nat
  k_MultiSet :: "(64 word \<times> byte list) list \<Rightarrow> 't \<Rightarrow> err option \<times> 't"
  k_Root :: "'t \<Rightarrow> byte list"
  k_LatestVersion :: "'t \<Rightarrow> 64 word"
  k_RecentVersion :: "'t \<Rightarrow> 64 word"
  k_IsEmpty :: "'t \<Rightarrow> bool"
  k_Commit :: "64 word \<Rightarrow> 't \<Rightarrow> 'd \<Rightarrow> err option \<times> 't \<times> 'd"
  k_Rollback :: "64 word \<Rightarrow> 't \<Rightarrow> 'd \<Rightarrow> err option \<times> 't \<times> 'd"
  k_Open :: "'d \<Rightarrow> int \<Rightarrow> int \<Rightarrow> 't"

section \<open>Writers (src/common/buffer.go)\<close>

text \<open>\<open>hex.DecodeString\<close>\<close>

definition hexVal :: "char \<Rightarrow> nat option" where
  "hexVal c = (let n = of_char c in
     if 48 \<le> n \<and> n \<le> 57 then Some (n - 48)
     else if 97 \<le> n \<and> n \<le> 102 then Some (n - 87)
     else if 65 \<le> n \<and> n \<le> 70 then Some (n - 55) else None)"

fun hexDecode :: "string \<Rightarrow> byte list option" where
  "hexDecode [] = Some []"
| "hexDecode [c] = None"
| "hexDecode (c # d # cs) =
     (case (hexVal c, hexVal d, hexDecode cs) of
        (Some x, Some y, Some bs) \<Rightarrow> Some (of_nat (16 * x + y) # bs)
      | _ \<Rightarrow> None)"

definition tooSmall :: string where "tooSmall = ''math/big: buffer too small to fit value''"

definition PaddingStringBigIntIntoBuf :: "('t, 'd) Smt \<Rightarrow> byte list \<Rightarrow> string \<Rightarrow> ('s, err, byte list) comp" where
  "PaddingStringBigIntIntoBuf T buf aStr =
     bnd (orThrow (ErrorsNew ''[PaddingStringBigIntIntoBuf] invalid string'') (parseBig aStr)) (\<lambda>a.
     bnd (orPanic tooSmall (FillBytes (k_PointSize T) a)) (\<lambda>b. ret (buf @ b)))"

definition AddressSize :: nat where "AddressSize = 20"

definition DecodeAddress :: "string \<Rightarrow> err + byte list" where
  "DecodeAddress addr =
     (if length addr \<noteq> 42 then Inl (ErrorsNew ''[DecodeAddress] invalid address'')
      else case hexDecode (drop 2 addr) of
        None \<Rightarrow> Inl (ErrorsNew ''encoding/hex: invalid byte'')
      | Some addrBytes \<Rightarrow>
          if length addrBytes \<noteq> AddressSize then Inl (ErrorsNew ''[DecodeAddress] invalid address'') else Inr addrBytes)"

definition PaddingAddressIntoBuf :: "('t, 'd) Smt \<Rightarrow> byte list \<Rightarrow> string \<Rightarrow> ('s, err, byte list) comp" where
  "PaddingAddressIntoBuf T buf address =
     (if address = EmptyL1Address then bnd (orPanic tooSmall (FillBytes 32 0)) (\<lambda>b. ret (buf @ b))
      else bnd (ofSum (DecodeAddress address)) (\<lambda>addrBytes.
           bnd (orPanic tooSmall (FillBytes (k_PointSize T) (SetBytes addrBytes))) (\<lambda>b. ret (buf @ b))))"

definition PaddingInt64IntoBuf :: "('t, 'd) Smt \<Rightarrow> byte list \<Rightarrow> int \<Rightarrow> ('s, err, byte list) comp" where
  "PaddingInt64IntoBuf T buf a = bnd (orPanic tooSmall (FillBytes (k_PointSize T) a)) (\<lambda>b. ret (buf @ b))"

text \<open>\<open>ParsePubKey\<close> decompresses the point; its coordinates marshal to 32 bytes each.\<close>

definition PaddingPkIntoBuf :: "Lib \<Rightarrow> byte list \<Rightarrow> string \<Rightarrow> ('s, err, byte list) comp" where
  "PaddingPkIntoBuf X buf pkStr = bnd (ofSum (ParsePubKey X pkStr)) (\<lambda>(x, y). ret (buf @ x @ y))"

section \<open>Leaves (src/tree/util.go)\<close>

definition ComputeAccountLeafHash ::
  "('t, 'd) Smt \<Rightarrow> Lib \<Rightarrow> string \<Rightarrow> string \<Rightarrow> int \<Rightarrow> int \<Rightarrow> byte list \<Rightarrow> ('s, err, byte list) comp" where
  "ComputeAccountLeafHash T X accountNameHash pk nonce collectionNonce assetRoot =
     (let buf = x_FromHex X accountNameHash in
      bnd (PaddingPkIntoBuf X buf pk) (\<lambda>buf.
      bnd (PaddingInt64IntoBuf T buf nonce) (\<lambda>buf.
      bnd (PaddingInt64IntoBuf T buf collectionNonce) (\<lambda>buf.
      ret (k_Mimc T (buf @ assetRoot))))))"

definition ComputeAccountAssetLeafHash :: "('t, 'd) Smt \<Rightarrow> string \<Rightarrow> string \<Rightarrow> ('s, err, byte list) comp" where
  "ComputeAccountAssetLeafHash T balance offerCanceledOrFinalized =
     bnd (PaddingStringBigIntIntoBuf T [] balance) (\<lambda>buf.
     bnd (PaddingStringBigIntIntoBuf T buf offerCanceledOrFinalized) (\<lambda>buf.
     ret (k_Mimc T buf)))"

definition ComputeNftAssetLeafHash ::
  "('t, 'd) Smt \<Rightarrow> Lib \<Rightarrow> int \<Rightarrow> int \<Rightarrow> string \<Rightarrow> string \<Rightarrow> string \<Rightarrow> int \<Rightarrow> int \<Rightarrow> ('s, err, byte list) comp" where
  "ComputeNftAssetLeafHash T X creator owner contentHash l1Address l1TokenId rate collectionId =
     bnd (PaddingInt64IntoBuf T [] creator) (\<lambda>buf.
     bnd (PaddingInt64IntoBuf T buf owner) (\<lambda>buf.
     bnd (orPanic tooSmall (FillBytes 32 (k_Mod T (SetBytes (x_FromHex X contentHash)) (k_Modulus T)))) (\<lambda>h.
     bnd (PaddingAddressIntoBuf T (buf @ h) l1Address) (\<lambda>buf.
     bnd (PaddingStringBigIntIntoBuf T buf l1TokenId) (\<lambda>buf.
     bnd (PaddingInt64IntoBuf T buf rate) (\<lambda>buf.
     bnd (PaddingInt64IntoBuf T buf collectionId) (\<lambda>buf.
     ret (k_Mimc T buf))))))))"

definition ComputeStateRootHash :: "('t, 'd) Smt \<Rightarrow> byte list \<Rightarrow> byte list \<Rightarrow> byte list" where
  "ComputeStateRootHash T accountRoot nftRoot = k_Mimc T (accountRoot @ nftRoot)"

text \<open>The leaves of an empty account, asset and NFT, and the roots of the empty trees (types.go).\<close>

definition zeroElem :: "byte list" where "zeroElem = replicate 32 0"

definition EmptyAccountAssetNodeHash :: "('t, 'd) Smt \<Rightarrow> byte list" where
  "EmptyAccountAssetNodeHash T = k_Mimc T (zeroElem @ zeroElem)"

definition EmptyNftNodeHash :: "('t, 'd) Smt \<Rightarrow> byte list" where
  "EmptyNftNodeHash T = k_Mimc T (concat (replicate 7 zeroElem))"

fun hashUp :: "('t, 'd) Smt \<Rightarrow> nat \<Rightarrow> byte list \<Rightarrow> byte list" where
  "hashUp T 0 h = h"
| "hashUp T (Suc n) h = hashUp T n (k_Mimc T (h @ h))"

definition AccountTreeHeight :: nat where "AccountTreeHeight = 32"
definition AssetTreeHeight :: nat where "AssetTreeHeight = 16"
definition NftTreeHeight :: nat where "NftTreeHeight = 40"

definition NilAccountAssetRoot :: "('t, 'd) Smt \<Rightarrow> byte list" where
  "NilAccountAssetRoot T = hashUp T AssetTreeHeight (EmptyAccountAssetNodeHash T)"

definition EmptyAccountNodeHash :: "('t, 'd) Smt \<Rightarrow> byte list" where
  "EmptyAccountNodeHash T = k_Mimc T (concat (replicate 5 zeroElem) @ NilAccountAssetRoot T)"

definition NilAccountRoot :: "('t, 'd) Smt \<Rightarrow> byte list" where
  "NilAccountRoot T = hashUp T AccountTreeHeight (EmptyAccountNodeHash T)"

definition NilNftRoot :: "('t, 'd) Smt \<Rightarrow> byte list" where
  "NilNftRoot T = hashUp T NftTreeHeight (EmptyNftNodeHash T)"

definition NilStateRoot :: "('t, 'd) Smt \<Rightarrow> byte list" where
  "NilStateRoot T = k_Mimc T (NilAccountRoot T @ NilNftRoot T)"

section \<open>A node: the state database with its trees\<close>

text \<open>
  The asset trees are objects the cache refers to; an evicted tree is opened again from the tree
  database. \<open>changes\<close> are the accounts whose evicted trees had changes to commit. A tree that the
  cache does not return is nil.
\<close>

record ('t, 'd) Node =
  n_world :: World
  n_AccountTree :: 't
  n_NftTree :: 't
  n_treeHeap :: "nat \<Rightarrow> 't"
  n_treeNext :: nat
  n_treeCache :: lru
  n_treeCacheSize :: nat
  n_changes :: "int list"
  n_disk :: 'd

type_synonym ('t, 'd, 'a) nodeM = "(('t, 'd) Node, err, 'a) comp"

definition onWorld :: "'a go \<Rightarrow> ('t, 'd, 'a) nodeM" where
  "onWorld m = (\<lambda>n. case m (n_world n) of (r, w) \<Rightarrow> (r, n\<lparr>n_world := w\<rparr>))"

definition hasChanges :: "('t, 'd) Smt \<Rightarrow> 't \<Rightarrow> bool" where
  "hasChanges T t \<longleftrightarrow> 1 < k_LatestVersion T t - k_RecentVersion T t"

definition onDelete :: "('t, 'd) Smt \<Rightarrow> int \<Rightarrow> 't \<Rightarrow> int list \<Rightarrow> int list" where
  "onDelete T k t changes = (if hasChanges T t then List.insert k changes else changes)"

definition evicted :: "lru \<Rightarrow> lru \<Rightarrow> lru" where
  "evicted c c' = filter (\<lambda>(k, r). map_of c' k = None) c"

definition ContainsOrAdd :: "('t, 'd) Smt \<Rightarrow> Lib \<Rightarrow> int \<Rightarrow> 't \<Rightarrow> ('t, 'd) Node \<Rightarrow> ('t, 'd) Node" where
  "ContainsOrAdd T X i t n =
     (if map_of (n_treeCache n) i \<noteq> None then n
      else let r = n_treeNext n; c = x_lruAdd X (n_treeCacheSize n) (n_treeCache n) i r in
        n\<lparr>n_treeHeap := (n_treeHeap n)(r := t), n_treeNext := Suc r, n_treeCache := c,
          n_changes := fold (\<lambda>(k, q). onDelete T k (n_treeHeap n q)) (evicted (n_treeCache n) c) (n_changes n)\<rparr>)"

definition AssetTreeCache_Get :: "('t, 'd) Smt \<Rightarrow> Lib \<Rightarrow> int \<Rightarrow> ('t, 'd, nat option) nodeM" where
  "AssetTreeCache_Get T X i =
     thn (modify (\<lambda>n. ContainsOrAdd T X i (k_Open T (n_disk n) i (w_blockNumber (n_world n))) n))
     (\<lambda>n. let (r, c) = x_lruGet X (n_treeCache n) i in (Ok r, n\<lparr>n_treeCache := c\<rparr>))"

definition treeAt :: "nat option \<Rightarrow> ('t, 'd, 't) nodeM" where
  "treeAt x = bnd (orPanic nilDeref x) (\<lambda>r. gets (\<lambda>n. n_treeHeap n r))"

definition setTree :: "nat option \<Rightarrow> 't \<Rightarrow> ('t, 'd, unit) nodeM" where
  "setTree x t = bnd (orPanic nilDeref x) (\<lambda>r. modify (\<lambda>n. n\<lparr>n_treeHeap := (n_treeHeap n)(r := t)\<rparr>))"

definition GetChanges :: "('t, 'd) Smt \<Rightarrow> ('t, 'd) Node \<Rightarrow> int list" where
  "GetChanges T n = fold (\<lambda>(k, r). onDelete T k (n_treeHeap n r)) (n_treeCache n) (n_changes n)"

definition CleanChanges :: "('t, 'd) Node \<Rightarrow> ('t, 'd) Node" where
  "CleanChanges n = n\<lparr>n_changes := []\<rparr>"

section \<open>Committing and rolling back (src/tree/util.go)\<close>

text \<open>
  The tasks of the goroutine pool are run one after the other, each to its end; all run, and the first
  error received is returned.
\<close>

definition commitOne :: "('t, 'd) Smt \<Rightarrow> 64 word \<Rightarrow> 't \<Rightarrow> ('t, 'd, 't) nodeM" where
  "commitOne T version t = (\<lambda>n. case k_Commit T version t (n_disk n) of
     (None, t', d) \<Rightarrow> (Ok t', n\<lparr>n_disk := d\<rparr>) | (Some e, _, d) \<Rightarrow> (Err e, n\<lparr>n_disk := d\<rparr>))"

definition commitAsset :: "('t, 'd) Smt \<Rightarrow> Lib \<Rightarrow> int \<Rightarrow> ('t, 'd, unit) nodeM" where
  "commitAsset T X i =
     bnd (AssetTreeCache_Get T X i) (\<lambda>x. bnd (treeAt x) (\<lambda>asset.
     bnd (commitOne T (k_LatestVersion T asset) asset) (setTree x)))"

definition commitAccountTree :: "('t, 'd) Smt \<Rightarrow> 64 word \<Rightarrow> ('t, 'd, unit) nodeM" where
  "commitAccountTree T version =
     bnd (gets n_AccountTree) (\<lambda>t. bnd (commitOne T (min (k_LatestVersion T t) version) t)
       (\<lambda>t'. modify (\<lambda>n. n\<lparr>n_AccountTree := t'\<rparr>)))"

definition commitNftTree :: "('t, 'd) Smt \<Rightarrow> 64 word \<Rightarrow> ('t, 'd, unit) nodeM" where
  "commitNftTree T version =
     bnd (gets n_NftTree) (\<lambda>t. bnd (commitOne T (min (k_LatestVersion T t) version) t)
       (\<lambda>t'. modify (\<lambda>n. n\<lparr>n_NftTree := t'\<rparr>)))"

fun runAll :: "('s, err, unit) comp list \<Rightarrow> ('s, err, err list) comp" where
  "runAll [] = ret []"
| "runAll (m # ms) = bnd (attempt m) (\<lambda>x. bnd (runAll ms) (\<lambda>es. ret (case x of Inl e \<Rightarrow> e # es | Inr _ \<Rightarrow> es)))"

definition firstError :: "err list \<Rightarrow> ('s, err, unit) comp" where
  "firstError es = (case es of [] \<Rightarrow> ret () | e # _ \<Rightarrow> throw e)"

definition CommitTrees :: "('t, 'd) Smt \<Rightarrow> Lib \<Rightarrow> 64 word \<Rightarrow> ('t, 'd, unit) nodeM" where
  "CommitTrees T X version =
     bnd (gets (GetChanges T)) (\<lambda>changes.
     bnd (runAll (commitAccountTree T version # map (commitAsset T X) (x_range X changes) @ [commitNftTree T version])) (\<lambda>es.
     thn (modify CleanChanges) (firstError es)))"

text \<open>
  \<open>RollBackTrees\<close> waits for three results more than there are asset trees and starts two tasks more:
  unless one of the first results is an error, it waits for ever.
\<close>

definition rollOne :: "('t, 'd) Smt \<Rightarrow> 64 word \<Rightarrow> 't \<Rightarrow> ('t, 'd, 't) nodeM" where
  "rollOne T version t = (\<lambda>n. case k_Rollback T version t (n_disk n) of
     (None, t', d) \<Rightarrow> (Ok t', n\<lparr>n_disk := d\<rparr>) | (Some e, _, d) \<Rightarrow> (Err e, n\<lparr>n_disk := d\<rparr>))"

definition rollAsset :: "('t, 'd) Smt \<Rightarrow> Lib \<Rightarrow> int \<Rightarrow> ('t, 'd, unit) nodeM" where
  "rollAsset T X i =
     bnd (AssetTreeCache_Get T X i) (\<lambda>x. bnd (treeAt x) (\<lambda>asset.
     bnd (rollOne T (k_RecentVersion T asset) asset) (setTree x)))"

definition rollAccountTree :: "('t, 'd) Smt \<Rightarrow> 64 word \<Rightarrow> ('t, 'd, unit) nodeM" where
  "rollAccountTree T version =
     bnd (gets n_AccountTree) (\<lambda>t. if version < k_LatestVersion T t \<and> \<not> k_IsEmpty T t
       then bnd (rollOne T version t) (\<lambda>t'. modify (\<lambda>n. n\<lparr>n_AccountTree := t'\<rparr>)) else ret ())"

definition rollNftTree :: "('t, 'd) Smt \<Rightarrow> 64 word \<Rightarrow> ('t, 'd, unit) nodeM" where
  "rollNftTree T version =
     bnd (gets n_NftTree) (\<lambda>t. if version < k_LatestVersion T t \<and> \<not> k_IsEmpty T t
       then bnd (rollOne T version t) (\<lambda>t'. modify (\<lambda>n. n\<lparr>n_NftTree := t'\<rparr>)) else ret ())"

text \<open>Receiving \<open>k\<close> results from the tasks that were started: \<open>None\<close> is waiting for ever.\<close>

fun receive :: "nat \<Rightarrow> (err option) list \<Rightarrow> err option option" where
  "receive 0 rs = Some None"
| "receive (Suc k) [] = None"
| "receive (Suc k) (r # rs) = (case r of Some e \<Rightarrow> Some (Some e) | None \<Rightarrow> receive k rs)"

fun results :: "('s, err, unit) comp list \<Rightarrow> ('s, err, err option list) comp" where
  "results [] = ret []"
| "results (m # ms) = bnd (attempt m) (\<lambda>x. bnd (results ms) (\<lambda>rs. ret ((case x of Inl e \<Rightarrow> Some e | Inr _ \<Rightarrow> None) # rs)))"

definition RollBackTrees :: "('t, 'd) Smt \<Rightarrow> Lib \<Rightarrow> 64 word \<Rightarrow> ('t, 'd, err option option) nodeM" where
  "RollBackTrees T X version =
     bnd (gets (GetChanges T)) (\<lambda>changes.
     let totalTask = length changes + 3 in
     bnd (results (rollAccountTree T version # map (rollAsset T X) (x_range X changes) @ [rollNftTree T version])) (\<lambda>rs.
     case receive totalTask rs of None \<Rightarrow> ret None | Some r \<Rightarrow> thn (modify CleanChanges) (ret (Some r))))"

end
