(* ===== verification/Zk_Block.thy ===== *)
theory Zk_Block
  imports Zk_Tree
begin

text \<open>
  Sealing a block: the intermediate state root (src/core/statedb/statedb.go), the commitment of a
  block (src/common/chain/block_helper.go) and \<open>CommitNewBlock\<close> (src/core/blockchain.go).
\<close>

section \<open>The intermediate root\<close>

definition isGasAsset :: "int \<Rightarrow> int \<Rightarrow> bool" where
  "isGasAsset accountIndex assetId \<longleftrightarrow> accountIndex = GasAccount \<and> assetId \<in> set GasAssets"

text \<open>A nil entry of the asset map is a nil dereference.\<close>

fun assetItems :: "('t, 'd) Smt \<Rightarrow> Lib \<Rightarrow> nat \<Rightarrow> int \<Rightarrow> int list \<Rightarrow> ('t, 'd, (64 word \<times> byte list) list) nodeM" where
  "assetItems T X account accountIndex [] = ret []"
| "assetItems T X account accountIndex (assetId # assets) =
     bnd (onWorld (assetAt account assetId)) (\<lambda>asset.
     bnd (gets (\<lambda>n. GetPendingGas (w_sc (n_world n)) assetId)) (\<lambda>gas.
     let balance = (if isGasAsset accountIndex assetId then x_Add X (aa_Balance asset) gas else aa_Balance asset) in
     bnd (mapErr (\<lambda>_. ErrorsNew ''compute new account asset leaf failed'')
       (ComputeAccountAssetLeafHash T (showInt balance) (showInt (aa_OfferCanceledOrFinalized asset)))) (\<lambda>assetLeaf.
     bnd (assetItems T X account accountIndex assets) (\<lambda>items. ret ((word_of_int assetId, assetLeaf) # items)))))"

definition multiSetAsset :: "('t, 'd) Smt \<Rightarrow> Lib \<Rightarrow> int \<Rightarrow> (64 word \<times> byte list) list \<Rightarrow> ('t, 'd, unit) nodeM" where
  "multiSetAsset T X accountIndex items =
     bnd (AssetTreeCache_Get T X accountIndex) (\<lambda>x. bnd (treeAt x) (\<lambda>t.
       case k_MultiSet T items t of (e, t') \<Rightarrow>
         thn (setTree x t') (case e of None \<Rightarrow> ret () | Some _ \<Rightarrow> throw (ErrorsNew ''update asset tree failed''))))"

definition assetRoot :: "('t, 'd) Smt \<Rightarrow> Lib \<Rightarrow> int \<Rightarrow> ('t, 'd, byte list) nodeM" where
  "assetRoot T X accountIndex =
     bnd (AssetTreeCache_Get T X accountIndex) (\<lambda>x. bnd (treeAt x) (\<lambda>t. ret (k_Root T t)))"

definition updateAccountTree :: "('t, 'd) Smt \<Rightarrow> Lib \<Rightarrow> int \<Rightarrow> int list \<Rightarrow> ('t, 'd, int \<times> byte list) nodeM" where
  "updateAccountTree T X accountIndex assets =
     bnd (onWorld (GetFormatAccount X accountIndex)) (\<lambda>account.
     bnd (assetItems T X account accountIndex assets) (\<lambda>items.
     thn (multiSetAsset T X accountIndex items)
     (bnd (assetRoot T X accountIndex) (\<lambda>root1.
      thn (onWorld (mutAcc account (\<lambda>acc. Some (acc\<lparr>ai_AssetRoot := x_Bytes2Hex X root1\<rparr>))))
      (bnd (assetRoot T X accountIndex) (\<lambda>root2.
       bnd (onWorld (accountAt account)) (\<lambda>acc.
       bnd (mapErr (\<lambda>_. ErrorsNew ''unable to compute account leaf'')
         (ComputeAccountLeafHash T X (ai_AccountNameHash acc) (ai_PublicKey acc) (ai_Nonce acc) (ai_CollectionNonce acc) root2)) (\<lambda>leaf.
       ret (accountIndex, leaf)))))))))"

definition updateNftTree :: "('t, 'd) Smt \<Rightarrow> Lib \<Rightarrow> int \<Rightarrow> ('t, 'd, int \<times> byte list) nodeM" where
  "updateNftTree T X nftIndex =
     bnd (onWorld (GetNft X nftIndex)) (\<lambda>r. bnd (onWorld (nftAt r)) (\<lambda>nft.
     bnd (mapErr (\<lambda>_. ErrorsNew ''unable to compute nft leaf'')
       (ComputeNftAssetLeafHash T X (nft_CreatorAccountIndex nft) (nft_OwnerAccountIndex nft) (nft_NftContentHash nft)
         (nft_NftL1Address nft) (nft_NftL1TokenId nft) (nft_CreatorTreasuryRate nft) (nft_CollectionId nft))) (\<lambda>leaf.
     ret (nftIndex, leaf))))"

text \<open>The items of one kind of task, in the order in which the results arrive.\<close>

fun collect :: "('k \<Rightarrow> ('s, err, int \<times> byte list) comp) \<Rightarrow> 'k list \<Rightarrow> ('s, err, (64 word \<times> byte list) list) comp" where
  "collect f [] = ret []"
| "collect f (k # ks) = bnd (f k) (\<lambda>(i, leaf). bnd (collect f ks) (\<lambda>items. ret ((word_of_int i, leaf) # items)))"

definition dirtyKeys :: "bool gomap \<Rightarrow> int list" where
  "dirtyKeys m = filter (\<lambda>k. mget m k = Some True) (mkeys m)"

definition IntermediateRoot :: "('t, 'd) Smt \<Rightarrow> Lib \<Rightarrow> bool \<Rightarrow> ('t, 'd, unit) nodeM" where
  "IntermediateRoot T X cleanDirty =
     bnd (gets (\<lambda>n. sc_dirtyAccountsAndAssetsMap (w_sc (n_world n)))) (\<lambda>dirty.
     bnd (gets (\<lambda>n. sc_dirtyNftMap (w_sc (n_world n)))) (\<lambda>dirtyNft.
     thn (if cleanDirty then onWorld (modify (updSc (\<lambda>c. c\<lparr>sc_dirtyAccountsAndAssetsMap := [], sc_dirtyNftMap := []\<rparr>))) else ret ())
     (bnd (collect (\<lambda>i. updateAccountTree T X i (x_range X (dirtyKeys (the (mget dirty i))))) (x_range X (mkeys dirty))) (\<lambda>accountItems.
      bnd (collect (updateNftTree T X) (x_range X (dirtyKeys dirtyNft))) (\<lambda>nftItems.
      bnd (\<lambda>n. case k_MultiSet T accountItems (n_AccountTree n) of (e, t) \<Rightarrow> (Ok e, n\<lparr>n_AccountTree := t\<rparr>)) (\<lambda>e1.
      bnd (\<lambda>n. case k_MultiSet T nftItems (n_NftTree n) of (e, t) \<Rightarrow> (Ok e, n\<lparr>n_NftTree := t\<rparr>)) (\<lambda>e2.
      thn (failIf (e1 \<noteq> None) (ErrorsNew ''update account tree failed''))
      (thn (failIf (e2 \<noteq> None) (ErrorsNew ''update nft tree failed''))
      (modify (\<lambda>n. n\<lparr>n_world := updSc (\<lambda>c. c\<lparr>sc_StateRoot :=
         x_Bytes2Hex X (k_Mimc T (k_Root T (n_AccountTree n) @ k_Root T (n_NftTree n)))\<rparr>) (n_world n)\<rparr>))))))))))"

section \<open>The commitment of a block (src/common/chain/block_helper.go)\<close>

definition reduced :: "('t, 'd) Smt \<Rightarrow> byte list \<Rightarrow> byte list option" where
  "reduced T buf = FillBytes 32 (k_Mod T (SetBytes buf) (k_Modulus T))"

text \<open>Whole chunks of 32 bytes; a rest is dropped.\<close>

fun cleanChunks :: "('t, 'd) Smt \<Rightarrow> byte list \<Rightarrow> byte list option" where
  "cleanChunks T buf =
     (if length buf < 32 then Some []
      else case reduced T (take 32 buf) of None \<Rightarrow> None
        | Some c \<Rightarrow> map_option (\<lambda>r. c @ r) (cleanChunks T (drop 32 buf)))"

declare cleanChunks.simps [simp del]

definition CleanAndPaddingByteByModulus :: "('t, 'd) Smt \<Rightarrow> byte list \<Rightarrow> byte list option" where
  "CleanAndPaddingByteByModulus T buf = (if length buf \<le> 32 then reduced T buf else cleanChunks T buf)"

definition CreateBlockCommitment ::
  "('t, 'd) Smt \<Rightarrow> Lib \<Rightarrow> int \<Rightarrow> int \<Rightarrow> byte list \<Rightarrow> byte list \<Rightarrow> byte list \<Rightarrow> int \<Rightarrow> ('s, err, string) comp" where
  "CreateBlockCommitment T X height createdAt oldStateRoot newStateRoot pubData onChainOpsCount =
     bnd (PaddingInt64IntoBuf T [] height) (\<lambda>buf.
     bnd (PaddingInt64IntoBuf T buf createdAt) (\<lambda>buf.
     bnd (orPanic tooSmall (CleanAndPaddingByteByModulus T oldStateRoot)) (\<lambda>a.
     bnd (orPanic tooSmall (CleanAndPaddingByteByModulus T newStateRoot)) (\<lambda>b.
     bnd (orPanic tooSmall (CleanAndPaddingByteByModulus T pubData)) (\<lambda>c.
     bnd (PaddingInt64IntoBuf T (buf @ a @ b @ c) onChainOpsCount) (\<lambda>buf.
     ret (x_Bytes2Hex X (x_Keccak256Hash X buf))))))))"

text \<open>\<open>copy\<close> into an array of 32 zero bytes.\<close>

definition array32 :: "byte list \<Rightarrow> byte list" where
  "array32 bs = take 32 bs @ replicate (32 - length bs) 0"

record StorageStoredBlockInfo =
  sb_BlockNumber :: "32 word"
  sb_PriorityOperations :: "64 word"
  sb_PendingOnchainOperationsHash :: "byte list"
  sb_Timestamp :: int
  sb_StateRoot :: "byte list"
  sb_Commitment :: "byte list"
  sb_BlockSize :: "16 word"

definition ConstructStoredBlockInfo :: "Lib \<Rightarrow> Block \<Rightarrow> StorageStoredBlockInfo" where
  "ConstructStoredBlockInfo X b =
     \<lparr>sb_BlockNumber = word_of_int (bk_BlockHeight b), sb_PriorityOperations = word_of_int (bk_PriorityOperations b),
      sb_PendingOnchainOperationsHash = array32 (x_FromHex X (bk_PendingOnChainOperationsHash b)),
      sb_Timestamp = bk_CreatedAt b, sb_StateRoot = array32 (x_FromHex X (bk_StateRoot b)),
      sb_Commitment = array32 (x_FromHex X (bk_BlockCommitment b)), sb_BlockSize = bk_BlockSize b\<rparr>"

section \<open>Committing a block (src/core/blockchain.go)\<close>

text \<open>The texts of JSON columns are the values they encode.\<close>

record CompressedBlock =
  cb_BlockSize :: "16 word"
  cb_BlockHeight :: int
  cb_StateRoot :: string
  cb_PublicData :: string
  cb_Timestamp :: int
  cb_PublicDataOffsets :: "32 word list"

definition freshBlock :: "int \<Rightarrow> Block \<Rightarrow> Block" where
  "freshBlock createdAt cur =
     \<lparr>bk_BlockHeight = wrap64 (bk_BlockHeight cur + 1), bk_StateRoot = bk_StateRoot cur, bk_BlockStatus = StatusProposing,
      bk_CreatedAt = createdAt, bk_BlockSize = 0, bk_BlockCommitment = [], bk_PriorityOperations = 0,
      bk_PendingOnChainOperationsHash = [], bk_PendingOnChainOperationsPubData = [], bk_Txs = []\<rparr>"

definition sealBlock :: "Lib \<Rightarrow> int \<Rightarrow> string \<Rightarrow> StateCache \<Rightarrow> Block \<Rightarrow> Block" where
  "sealBlock X blockSize commitment c b =
     b\<lparr>bk_BlockSize := word_of_int blockSize, bk_BlockCommitment := commitment, bk_StateRoot := sc_StateRoot c,
       bk_PriorityOperations := sc_PriorityOperations c,
       bk_PendingOnChainOperationsHash := x_Bytes2Hex X (sc_PendingOnChainOperationsHash c),
       bk_Txs := map (\<lambda>t. t\<lparr>tx_TxStatus := StatusPacked\<rparr>) (sc_Txs c), bk_BlockStatus := BlockPending,
       bk_PendingOnChainOperationsPubData :=
         (if sc_PendingOnChainOperationsPubData c \<noteq> [] then sc_PendingOnChainOperationsPubData c
          else bk_PendingOnChainOperationsPubData b)\<rparr>"

text \<open>The transactions of the state cache and of the block are the same objects.\<close>

definition packTxs :: "StateCache \<Rightarrow> StateCache" where
  "packTxs c = c\<lparr>sc_Txs := map (\<lambda>t. t\<lparr>tx_TxStatus := StatusPacked\<rparr>) (sc_Txs c)\<rparr>"

definition commitNewBlock :: "('t, 'd) Smt \<Rightarrow> Lib \<Rightarrow> int \<Rightarrow> int \<Rightarrow> ('t, 'd, Block \<times> CompressedBlock) nodeM" where
  "commitNewBlock T X blockSize createdAt =
     bnd (gets n_world) (\<lambda>w.
     thn (failIf (blockSize < int (length (sc_Txs (w_sc w)))) (ErrorsNew ''block size too small''))
     (let cur = w_currentBlock w;
          newBlock = (if bk_BlockStatus cur \<noteq> StatusProposing then freshBlock createdAt cur else cur) in
      thn (IntermediateRoot T X False)
      (bnd (gets (\<lambda>n. AlignPubData X blockSize (w_sc (n_world n)))) (\<lambda>aligned.
       bnd (orPanic ''makeslice: len out of range'' aligned) (\<lambda>c.
       thn (onWorld (modify (updSc (\<lambda>_. c))))
       (bnd (CreateBlockCommitment T X (bk_BlockHeight newBlock) (bk_CreatedAt newBlock) (x_FromHex X (bk_StateRoot newBlock))
          (x_FromHex X (sc_StateRoot c)) (sc_PubData c) (int (length (sc_PubDataOffset c)))) (\<lambda>commitment.
        let b = sealBlock X blockSize commitment c newBlock in
        thn (onWorld (modify (\<lambda>s. updSc packTxs (s\<lparr>w_currentBlock := b\<rparr>))))
        (ret (b, \<lparr>cb_BlockSize = word_of_int blockSize, cb_BlockHeight = bk_BlockHeight b, cb_StateRoot = bk_StateRoot b,
                  cb_PublicData = x_Bytes2Hex X (sc_PubData c), cb_Timestamp = bk_CreatedAt b,
                  cb_PublicDataOffsets = sc_PubDataOffset c\<rparr>)))))))))"

record BlockStates =
  bs_Block :: Block
  bs_CompressedBlock :: CompressedBlock
  bs_PendingAccount :: "Account list"
  bs_PendingAccountHistory :: "AccountHistory list"
  bs_PendingNft :: "L2Nft list"
  bs_PendingNftHistory :: "L2NftHistory list"

definition CommitNewBlock :: "('t, 'd) Smt \<Rightarrow> Lib \<Rightarrow> int \<Rightarrow> int \<Rightarrow> ('t, 'd, BlockStates) nodeM" where
  "CommitNewBlock T X blockSize createdAt =
     bnd (commitNewBlock T X blockSize createdAt) (\<lambda>(newBlock, compressedBlock).
     bnd (gets (\<lambda>n. bk_BlockHeight (w_currentBlock (n_world n)))) (\<lambda>currentHeight.
     thn (CommitTrees T X (word_of_int currentHeight))
     (bnd (onWorld (StateDB_GetPendingAccount X currentHeight)) (\<lambda>(pendingAccount, pendingAccountHistory).
      bnd (onWorld (StateDB_GetPendingNft X currentHeight)) (\<lambda>(pendingNft, pendingNftHistory).
      ret \<lparr>bs_Block = newBlock, bs_CompressedBlock = compressedBlock, bs_PendingAccount = pendingAccount,
           bs_PendingAccountHistory = pendingAccountHistory, bs_PendingNft = pendingNft,
           bs_PendingNftHistory = pendingNftHistory\<rparr>)))))"

end
