(* ===== verification/Ref_Root.thy ===== *)
theory Ref_Root
  imports Zk_Block Ref_Commit
begin

text \<open>
  The intermediate root: \<open>IntermediateRoot\<close> writes the leaf of every dirty account and NFT, and the
  state root it leaves is a function of the accounts and NFTs alone, whatever the order in which maps
  are ranged over and results arrive, and wherever the objects were cached.
\<close>

section \<open>What is relied on\<close>

text \<open>
  zkbnb-smt: a tree is its leaves; \<open>MultiSet\<close> writes the given leaves, \<open>Root\<close> is a function of the
  leaves.
\<close>

definition smt_ok :: "('t, 'd) Smt \<Rightarrow> ('t \<Rightarrow> 64 word \<Rightarrow> byte list) \<Rightarrow> ((64 word \<Rightarrow> byte list) \<Rightarrow> byte list) \<Rightarrow> bool" where
  "smt_ok T leaf rootOf \<longleftrightarrow>
     (\<forall>items t. distinct (map fst items) \<longrightarrow> (\<exists>t'. k_MultiSet T items t = (None, t') \<and>
        leaf t' = (\<lambda>k. case map_of items k of Some v \<Rightarrow> v | None \<Rightarrow> leaf t k))) \<and>
     (\<forall>t. k_Root T t = rootOf (leaf t))"

lemma smt_MultiSet:
  assumes "smt_ok T leaf rootOf" "distinct (map fst items)"
  obtains t' where "k_MultiSet T items t = (None, t')" "leaf t' = (\<lambda>k. case map_of items k of Some v \<Rightarrow> v | None \<Rightarrow> leaf t k)"
  using assms unfolding smt_ok_def by blast

section \<open>Reading an account or an NFT\<close>

text \<open>
  \<open>looks A acc g\<close>: the object \<open>g\<close> shows what the tree needs of \<open>acc\<close>, its name hash, key and nonces and
  the assets \<open>A\<close>. \<open>readable\<close>: whichever object \<open>GetFormatAccount\<close> finds or loads, it shows that.
\<close>

definition looks :: "int set \<Rightarrow> AccountInfo \<Rightarrow> AccountInfo \<Rightarrow> bool" where
  "looks A acc g \<longleftrightarrow> ai_AccountNameHash g = ai_AccountNameHash acc \<and> ai_PublicKey g = ai_PublicKey acc \<and>
     ai_Nonce g = ai_Nonce acc \<and> ai_CollectionNonce g = ai_CollectionNonce acc \<and>
     (\<forall>a \<in> A. ai_AssetInfo g a \<noteq> None \<and> assetBal g a = assetBal acc a \<and> assetOffer g a = assetOffer acc a)"

definition readable :: "int set \<Rightarrow> AccountInfo \<Rightarrow> World \<Rightarrow> int \<Rightarrow> bool" where
  "readable A acc w i \<longleftrightarrow>
     (case pendingAcc w i of
        Some r \<Rightarrow> r < w_next w \<and> looks A acc (w_accHeap w r)
      | None \<Rightarrow> (\<forall>r. map_of (w_AccountCache w) i = Some r \<longrightarrow> r < w_next w \<and> looks A acc (w_accHeap w r)) \<and>
          (\<exists>f. dbAcc w i = Some f \<and> looks A acc f))"

definition readableNft :: "L2Nft \<Rightarrow> World \<Rightarrow> int \<Rightarrow> bool" where
  "readableNft x w i \<longleftrightarrow>
     (case pendingNft w i of
        Some r \<Rightarrow> r < w_next w \<and> nftCore (w_nftHeap w r) = nftCore x
      | None \<Rightarrow> (\<forall>r. map_of (w_NftCache w) i = Some r \<longrightarrow> r < w_next w \<and> nftCore (w_nftHeap w r) = nftCore x) \<and> dbNft w i = Some (nftCore x))"

text \<open>A step that loads objects into the caches, or rewrites asset roots.\<close>

definition bare :: "AccountInfo \<Rightarrow> AccountInfo" where "bare g = g\<lparr>ai_AssetRoot := []\<rparr>"

definition loads :: "World \<Rightarrow> World \<Rightarrow> bool" where
  "loads w w' \<longleftrightarrow> w_sc w' = w_sc w \<and> w_db w' = w_db w \<and> w_currentBlock w' = w_currentBlock w \<and>
     w_blockNumber w' = w_blockNumber w \<and> w_AccountCacheSize w' = w_AccountCacheSize w \<and> w_NftCacheSize w' = w_NftCacheSize w \<and>
     w_next w \<le> w_next w' \<and>
     (\<forall>r < w_next w. bare (w_accHeap w' r) = bare (w_accHeap w r)) \<and>
     (\<forall>r < w_next w. w_nftHeap w' r = w_nftHeap w r) \<and>
     (\<forall>j r. map_of (w_AccountCache w') j = Some r \<longrightarrow> map_of (w_AccountCache w) j = Some r \<or>
        (r < w_next w' \<and> map_option bare (dbAcc w j) = Some (bare (w_accHeap w' r)))) \<and>
     (\<forall>j r. map_of (w_NftCache w') j = Some r \<longrightarrow> map_of (w_NftCache w) j = Some r \<or>
        (r < w_next w' \<and> dbNft w j = Some (nftCore (w_nftHeap w' r))))"

lemma looks_bare: "looks A acc (bare g) = looks A acc g"
  by (simp add: looks_def bare_def assetBal_def assetOffer_def)

lemma looks_eq: "bare g = bare h \<Longrightarrow> looks A acc g = looks A acc h"
  using looks_bare [of A acc g] looks_bare [of A acc h] by simp

lemma loads_sel:
  assumes "loads w w'"
  shows "w_sc w' = w_sc w" "w_db w' = w_db w" "w_next w \<le> w_next w'" "dbAcc w' = dbAcc w" "dbNft w' = dbNft w"
    "w_blockNumber w' = w_blockNumber w" "w_currentBlock w' = w_currentBlock w"
    "w_AccountCacheSize w' = w_AccountCacheSize w" "w_NftCacheSize w' = w_NftCacheSize w"
  using assms by (simp_all add: loads_def dbAcc_def [abs_def] dbNft_def [abs_def])

lemma loads_heap: "loads w w' \<Longrightarrow> r < w_next w \<Longrightarrow> bare (w_accHeap w' r) = bare (w_accHeap w r)"
  "loads w w' \<Longrightarrow> r < w_next w \<Longrightarrow> w_nftHeap w' r = w_nftHeap w r"
  by (simp_all add: loads_def)

lemma loads_cache:
  assumes "loads w w'"
  shows "map_of (w_AccountCache w') j = Some r \<Longrightarrow>
      map_of (w_AccountCache w) j = Some r \<or> (r < w_next w' \<and> map_option bare (dbAcc w j) = Some (bare (w_accHeap w' r)))"
    and "map_of (w_NftCache w') j = Some r \<Longrightarrow> map_of (w_NftCache w) j = Some r \<or> (r < w_next w' \<and> dbNft w j = Some (nftCore (w_nftHeap w' r)))"
  using assms unfolding loads_def by blast+

lemma loads_readable:
  assumes l: "loads w w'" and r: "readable A acc w i"
  shows "readable A acc w' i"
proof -
  have c: "r < w_next w' \<and> looks A acc (w_accHeap w' r)" if "r < w_next w" "looks A acc (w_accHeap w r)" for r
    using that loads_sel(3) [OF l] looks_eq [OF loads_heap(1) [OF l that(1)]] by simp
  show ?thesis
  proof (cases "pendingAcc w i")
    case (Some q)
    with r c [of q] show ?thesis by (simp add: readable_def loads_sel(1) [OF l])
  next
    case None
    with r obtain f where f: "dbAcc w i = Some f" "looks A acc f"
      and h: "\<And>r. map_of (w_AccountCache w) i = Some r \<Longrightarrow> r < w_next w \<and> looks A acc (w_accHeap w r)" by (auto simp: readable_def)
    have "r < w_next w' \<and> looks A acc (w_accHeap w' r)" if "map_of (w_AccountCache w') i = Some r" for r
      using loads_cache(1) [OF l that] h [of r] c [of r] f looks_eq [of f "w_accHeap w' r"] by auto
    with None f show ?thesis by (simp add: readable_def loads_sel(1,4) [OF l])
  qed
qed

lemma loads_readableNft:
  assumes l: "loads w w'" and r: "readableNft x w i"
  shows "readableNft x w' i"
proof -
  have c: "r < w_next w' \<and> nftCore (w_nftHeap w' r) = nftCore x" if "r < w_next w" "nftCore (w_nftHeap w r) = nftCore x" for r
    using that loads_sel(3) [OF l] loads_heap(2) [OF l that(1)] by simp
  show ?thesis
  proof (cases "pendingNft w i")
    case (Some q)
    with r c [of q] show ?thesis by (simp add: readableNft_def loads_sel(1) [OF l])
  next
    case None
    with r have f: "dbNft w i = Some (nftCore x)"
      and h: "\<And>r. map_of (w_NftCache w) i = Some r \<Longrightarrow> r < w_next w \<and> nftCore (w_nftHeap w r) = nftCore x" by (auto simp: readableNft_def)
    have "r < w_next w' \<and> nftCore (w_nftHeap w' r) = nftCore x" if "map_of (w_NftCache w') i = Some r" for r
      using loads_cache(2) [OF l that] h [of r] c [of r] f by auto
    with None f show ?thesis by (simp add: readableNft_def loads_sel(1,5) [OF l])
  qed
qed

lemma loads_refl: "loads w w" by (simp add: loads_def)

lemma loads_trans:
  assumes l: "loads u v" "loads v w"
  shows "loads u w"
proof -
  note s = loads_sel [OF l(1)] loads_sel [OF l(2)]
  have c: "map_of (w_AccountCache u) j = Some r \<or> (r < w_next w \<and> map_option bare (dbAcc u j) = Some (bare (w_accHeap w r)))"
    if "map_of (w_AccountCache w) j = Some r" for j r
    using loads_cache(1) [OF l(2) that] loads_cache(1) [OF l(1), of j r] loads_heap(1) [OF l(2), of r] s(4,12) by fastforce
  have n: "map_of (w_NftCache u) j = Some r \<or> (r < w_next w \<and> dbNft u j = Some (nftCore (w_nftHeap w r)))"
    if "map_of (w_NftCache w) j = Some r" for j r
    using loads_cache(2) [OF l(2) that] loads_cache(2) [OF l(1), of j r] loads_heap(2) [OF l(2), of r] s(5,12) by fastforce
  have h: "bare (w_accHeap w r) = bare (w_accHeap u r) \<and> w_nftHeap w r = w_nftHeap u r" if "r < w_next u" for r
    using that s(3) loads_heap [OF l(1) that] loads_heap [OF l(2), of r] by simp
  show ?thesis unfolding loads_def using h c n s by simp
qed

lemma GetFormatAccount_reads:
  assumes X: "lru_ok X" and d: "\<not> db_down (w_db w)" and z: "0 < w_AccountCacheSize w" and r: "readable A acc w i"
  shows "\<exists>q w'. GetFormatAccount X i w = (Ok q, w') \<and> q < w_next w' \<and> looks A acc (w_accHeap w' q) \<and> loads w w'"
proof (cases "acctRef w i")
  case (Some q)
  from GetFormatAccount_resident [OF X Some] obtain c where c: "map_of c = map_of (w_AccountCache w)"
    "GetFormatAccount X i w = (Ok q, w\<lparr>w_AccountCache := c\<rparr>)" by blast
  have "loads w (w\<lparr>w_AccountCache := c\<rparr>)"
    by (simp add: loads_def c(1))
  moreover have "q < w_next w \<and> looks A acc (w_accHeap w q)"
    using r Some by (auto simp: readable_def acctRef_def split: option.splits)
  ultimately show ?thesis using c(2) by auto
next
  case None
  let ?c = "snd (x_lruGet X (w_AccountCache w) i)"
  have p: "pendingAcc w i = None" "map_of (w_AccountCache w) i = None" using None by (auto simp: acctRef_def split: option.splits)
  with r obtain f where f: "dbAcc w i = Some f" "looks A acc f" by (auto simp: readable_def)
  let ?t = "allocAcc f (w\<lparr>w_AccountCache := ?c\<rparr>)"
  let ?u = "?t\<lparr>w_AccountCache := x_lruAdd X (w_AccountCacheSize w) ?c i (w_next w)\<rparr>"
  have eq: "GetFormatAccount X i w = (Ok (w_next w), ?u)"
    using d f p lru_getD [OF X, of "w_AccountCache w" i]
    by (auto simp: GetFormatAccount_def GetPendingAccount_def AccountCache_Get_def split_beta GetAccountByIndex_def bnd_run thn_run
        mapErr_def dbAcc_def orThrow_run ofSum_run alloc_run AccountCache_Add_def allocAcc_def split: option.splits sum.splits)
  have "loads w ?u"
    unfolding loads_def
  proof (intro conjI allI impI)
    fix j r assume m: "map_of (w_AccountCache ?u) j = Some r"
    show "map_of (w_AccountCache w) j = Some r \<or> r < w_next ?u \<and> map_option bare (dbAcc w j) = Some (bare (w_accHeap ?u r))"
    proof (cases "j = i")
      case True
      with m lru_add_same [OF X z] have "r = w_next w" by simp
      with True f show ?thesis by (simp add: allocAcc_def)
    next
      case False
      from m have "map_of (x_lruAdd X (w_AccountCacheSize w) ?c i (w_next w)) j = Some r" by simp
      from lru_add_other [OF X False this] show ?thesis by (simp add: lru_get_keeps [OF X])
    qed
  qed (simp_all add: allocAcc_def)
  then show ?thesis using eq f by (auto simp: allocAcc_def)
qed

lemma GetNft_reads:
  assumes X: "lru_ok X" and d: "\<not> db_down (w_db w)" and z: "0 < w_NftCacheSize w" and r: "readableNft x w i"
  shows "\<exists>q w'. GetNft X i w = (Ok q, w') \<and> nftCore (w_nftHeap w' q) = nftCore x \<and> loads w w'"
proof (cases "nftRef w i")
  case (Some q)
  from GetNft_resident [OF X Some] obtain c where c: "map_of c = map_of (w_NftCache w)" "GetNft X i w = (Ok q, w\<lparr>w_NftCache := c\<rparr>)"
    by blast
  have "loads w (w\<lparr>w_NftCache := c\<rparr>)" by (simp add: loads_def c(1))
  moreover have "nftCore (w_nftHeap w q) = nftCore x" using r Some by (auto simp: readableNft_def nftRef_def split: option.splits)
  ultimately show ?thesis using c(2) by auto
next
  case None
  let ?c = "snd (x_lruGet X (w_NftCache w) i)"
  have p: "pendingNft w i = None" "map_of (w_NftCache w) i = None" using None by (auto simp: nftRef_def split: option.splits)
  with r obtain y where f: "dbNft w i = Some (nftCore y)" "find (\<lambda>x. nft_NftIndex x = i) (db_L2Nft (w_db w)) = Some y"
    and y: "nftCore y = nftCore x" by (auto simp: readableNft_def dbNft_def)
  let ?t = "allocNft y (w\<lparr>w_NftCache := ?c\<rparr>)"
  let ?u = "?t\<lparr>w_NftCache := x_lruAdd X (w_NftCacheSize w) ?c i (w_next w)\<rparr>"
  have eq: "GetNft X i w = (Ok (w_next w), ?u)"
    using d f p lru_getD [OF X, of "w_NftCache w" i]
    by (auto simp: GetNft_def GetPendingNft_def NftCache_Get_def split_beta GetNftRow_def bnd_run thn_run
        mapErr_def dbNft_def orThrow_run alloc_run NftCache_Add_def allocNft_def split: option.splits)
  have "loads w ?u"
    unfolding loads_def
  proof (intro conjI allI impI)
    fix j r assume m: "map_of (w_NftCache ?u) j = Some r"
    show "map_of (w_NftCache w) j = Some r \<or> r < w_next ?u \<and> dbNft w j = Some (nftCore (w_nftHeap ?u r))"
    proof (cases "j = i")
      case True
      with m lru_add_same [OF X z] have "r = w_next w" by simp
      with True f(1) show ?thesis by (simp add: allocNft_def)
    next
      case False
      from m have "map_of (x_lruAdd X (w_NftCacheSize w) ?c i (w_next w)) j = Some r" by simp
      from lru_add_other [OF X False this] show ?thesis by (simp add: lru_get_keeps [OF X])
    qed
  qed (simp_all add: allocNft_def)
  then show ?thesis using eq y by (auto simp: allocNft_def)
qed

lemma loads_root: "loads w (setAcc q ((w_accHeap w q)\<lparr>ai_AssetRoot := h\<rparr>) w)"
  by (simp add: loads_def setAcc_def bare_def)

section \<open>The cache of asset trees\<close>

text \<open>The leaves of the asset tree of an account, cached or opened from the database.\<close>

definition assetsOf :: "('t, 'd) Smt \<Rightarrow> ('t \<Rightarrow> 64 word \<Rightarrow> byte list) \<Rightarrow> ('t, 'd) Node \<Rightarrow> int \<Rightarrow> 64 word \<Rightarrow> byte list" where
  "assetsOf T leaf n i = leaf (case map_of (n_treeCache n) i of Some r \<Rightarrow> n_treeHeap n r
     | None \<Rightarrow> k_Open T (n_disk n) i (w_blockNumber (n_world n)))"

text \<open>The cache refers to distinct objects and has room for the accounts \<open>K\<close>.\<close>

definition treesOk :: "int set \<Rightarrow> ('t, 'd) Node \<Rightarrow> bool" where
  "treesOk K n \<longleftrightarrow> finite K \<and> card K \<le> n_treeCacheSize n \<and> set (map fst (n_treeCache n)) \<subseteq> K \<and> distinct (map fst (n_treeCache n)) \<and>
     (\<forall>i r. map_of (n_treeCache n) i = Some r \<longrightarrow> r < n_treeNext n) \<and>
     (\<forall>i j r. map_of (n_treeCache n) i = Some r \<longrightarrow> map_of (n_treeCache n) j = Some r \<longrightarrow> j = i)"

text \<open>Only the asset trees differ.\<close>

definition sameRest :: "('t, 'd) Node \<Rightarrow> ('t, 'd) Node \<Rightarrow> bool" where
  "sameRest n n' \<longleftrightarrow> n_world n' = n_world n \<and> n_AccountTree n' = n_AccountTree n \<and> n_NftTree n' = n_NftTree n \<and>
     n_disk n' = n_disk n \<and> n_treeCacheSize n' = n_treeCacheSize n"

lemma assetsOf_cong:
  "map_of (n_treeCache m) = map_of (n_treeCache n) \<Longrightarrow> n_treeHeap m = n_treeHeap n \<Longrightarrow> n_disk m = n_disk n \<Longrightarrow>
    w_blockNumber (n_world m) = w_blockNumber (n_world n) \<Longrightarrow> assetsOf T leaf m = assetsOf T leaf n"
  by (rule ext) (simp add: assetsOf_def split: option.split)

lemma sameRest_refl: "sameRest n n" by (simp add: sameRest_def)

lemma sameRest_trans: "sameRest n m \<Longrightarrow> sameRest m k \<Longrightarrow> sameRest n k" by (simp add: sameRest_def)

lemma ContainsOrAdd_ok:
  fixes T :: "('t, 'd) Smt" and leaf :: "'t \<Rightarrow> 64 word \<Rightarrow> byte list"
  assumes X: "lru_ok X" "lru_order X" and ok: "treesOk K n" and i: "i \<in> K"
  defines "m \<equiv> ContainsOrAdd T X i (k_Open T (n_disk n) i (w_blockNumber (n_world n))) n"
  shows "treesOk K m \<and> sameRest n m \<and> assetsOf T leaf m = assetsOf T leaf n \<and> map_of (n_treeCache m) i \<noteq> None"
proof (cases "map_of (n_treeCache n) i")
  case (Some r)
  then show ?thesis using ok by (simp add: m_def ContainsOrAdd_def sameRest_def)
next
  case None
  let ?c = "n_treeCache n" and ?r = "n_treeNext n"
  let ?d = "x_lruAdd X (n_treeCacheSize n) ?c i ?r"
  have m: "n_treeCache m = ?d" "n_treeHeap m = (n_treeHeap n)(?r := k_Open T (n_disk n) i (w_blockNumber (n_world n)))" "n_treeNext m = Suc ?r"
    "sameRest n m" by (simp_all add: m_def ContainsOrAdd_def None Let_def sameRest_def)
  from None have out: "i \<notin> set (map fst ?c)" by (simp add: map_of_eq_None_iff)
  have "distinct (i # map fst ?c)" using ok out by (simp add: treesOk_def)
  from distinct_card [OF this] have "length (i # map fst ?c) = card (insert i (set (map fst ?c)))" by simp
  also have "\<dots> \<le> n_treeCacheSize n"
    using ok i by (auto simp: treesOk_def intro: order_trans [OF card_mono])
  finally have len: "length (i # map fst ?c) \<le> n_treeCacheSize n" .
  have keys: "map fst ?d = i # map fst ?c" using X(2) len out by (simp add: lru_order_def removeAll_id)
  have "0 < n_treeCacheSize n" using len by simp
  then have same: "map_of ?d i = Some ?r" by (rule lru_add_same [OF X(1)])
  have other: "map_of ?d j = map_of ?c j" if "j \<noteq> i" for j
  proof (cases "map_of ?d j")
    case N: None
    then have "j \<notin> set (map fst ?d)" by (simp add: map_of_eq_None_iff)
    with keys have "j \<notin> set (map fst ?c)" by simp
    with N show ?thesis by (metis map_of_eq_None_iff set_map)
  next
    case (Some q)
    from lru_add_other [OF X(1) that Some] Some show ?thesis by simp
  qed
  have get: "map_of ?d j = (if j = i then Some ?r else map_of ?c j)" for j using same other by simp
  have "treesOk K m" unfolding treesOk_def m get keys
    using ok i m(4) out by (auto simp: treesOk_def sameRest_def less_Suc_eq split: if_splits) (metis less_irrefl)+
  moreover have "assetsOf T leaf m j = assetsOf T leaf n j" for j
    using None ok m(4) by (auto simp: assetsOf_def m get sameRest_def treesOk_def split: option.splits) (metis less_irrefl)
  ultimately show ?thesis using m same by auto
qed

lemma AssetTreeCache_Get_ok:
  assumes X: "lru_ok X" "lru_order X" and ok: "treesOk K n" and i: "i \<in> K"
  shows "\<exists>r n'. AssetTreeCache_Get T X i n = (Ok (Some r), n') \<and> treesOk K n' \<and> sameRest n n' \<and>
    assetsOf T leaf n' = assetsOf T leaf n \<and> map_of (n_treeCache n') i = Some r"
proof -
  let ?m = "ContainsOrAdd T X i (k_Open T (n_disk n) i (w_blockNumber (n_world n))) n"
  let ?c = "snd (x_lruGet X (n_treeCache ?m) i)"
  note a = ContainsOrAdd_ok [OF X ok i, of T leaf]
  then obtain r where r: "map_of (n_treeCache ?m) i = Some r" by blast
  have g: "map_of ?c = map_of (n_treeCache ?m)" by (rule lru_get_keeps [OF X(1)])
  have k: "map fst ?c = i # removeAll i (map fst (n_treeCache ?m))" using X(2) r by (simp add: lru_order_def)
  have i': "i \<in> set (map fst (n_treeCache ?m))" using r by (metis map_of_eq_None_iff option.distinct(1) set_map)
  have "treesOk K (?m\<lparr>n_treeCache := ?c\<rparr>)"
    using a i' unfolding treesOk_def by (simp add: g k distinct_removeAll del: set_map) (auto)
  moreover have "sameRest n (?m\<lparr>n_treeCache := ?c\<rparr>)" using a by (simp add: sameRest_def)
  moreover have "assetsOf T leaf (?m\<lparr>n_treeCache := ?c\<rparr>) = assetsOf T leaf ?m" by (rule assetsOf_cong) (simp_all add: g)
  moreover have "AssetTreeCache_Get T X i n = (Ok (Some r), ?m\<lparr>n_treeCache := ?c\<rparr>)"
    using lru_getD [OF X(1), of "n_treeCache ?m" i] r
    by (simp add: AssetTreeCache_Get_def thn_run Let_def split_beta)
  ultimately show ?thesis using g r a by (intro exI [of _ r] exI [of _ "?m\<lparr>n_treeCache := ?c\<rparr>"]) simp
qed

lemma multiSetAsset_ok:
  assumes X: "lru_ok X" "lru_order X" and T: "smt_ok T leaf rootOf" and ok: "treesOk K n" and i: "i \<in> K"
    and d: "distinct (map fst items)"
  shows "\<exists>n'. multiSetAsset T X i items n = (Ok (), n') \<and> treesOk K n' \<and> sameRest n n' \<and>
    assetsOf T leaf n' = (assetsOf T leaf n)(i := (\<lambda>k. case map_of items k of Some v \<Rightarrow> v | None \<Rightarrow> assetsOf T leaf n i k))"
proof -
  from AssetTreeCache_Get_ok [OF X ok i, of T leaf] obtain r m where
    g: "AssetTreeCache_Get T X i n = (Ok (Some r), m)" and m: "treesOk K m" "sameRest n m" "assetsOf T leaf m = assetsOf T leaf n"
    and r: "map_of (n_treeCache m) i = Some r" by blast
  from smt_MultiSet [OF T d, of "n_treeHeap m r"] obtain t' where t: "k_MultiSet T items (n_treeHeap m r) = (None, t')"
    "leaf t' = (\<lambda>k. case map_of items k of Some v \<Rightarrow> v | None \<Rightarrow> leaf (n_treeHeap m r) k)" by blast
  let ?n = "m\<lparr>n_treeHeap := (n_treeHeap m)(r := t')\<rparr>"
  have "multiSetAsset T X i items n = (Ok (), ?n)"
    by (simp add: multiSetAsset_def bnd_run thn_run g treeAt_def orPanic_run t setTree_def)
  moreover have "treesOk K ?n" using m(1) by (simp add: treesOk_def)
  moreover have "sameRest n ?n" using m(2) by (simp add: sameRest_def)
  moreover
  have "assetsOf T leaf ?n j = ((assetsOf T leaf m)(i := (\<lambda>k. case map_of items k of Some v \<Rightarrow> v | None \<Rightarrow> assetsOf T leaf m i k))) j" for j
    using m(1) r t(2) by (auto simp: assetsOf_def treesOk_def split: option.splits)
  then have "assetsOf T leaf ?n = (assetsOf T leaf n)(i := (\<lambda>k. case map_of items k of Some v \<Rightarrow> v | None \<Rightarrow> assetsOf T leaf n i k))"
    unfolding m(3) by (rule ext)
  ultimately show ?thesis by blast
qed

lemma assetRoot_ok:
  assumes X: "lru_ok X" "lru_order X" and T: "smt_ok T leaf rootOf" and ok: "treesOk K n" and i: "i \<in> K"
  shows "\<exists>n'. assetRoot T X i n = (Ok (rootOf (assetsOf T leaf n i)), n') \<and> treesOk K n' \<and> sameRest n n' \<and>
    assetsOf T leaf n' = assetsOf T leaf n"
proof -
  from AssetTreeCache_Get_ok [OF X ok i, of T leaf] obtain r m where
    g: "AssetTreeCache_Get T X i n = (Ok (Some r), m)" and m: "treesOk K m" "sameRest n m" "assetsOf T leaf m = assetsOf T leaf n"
    and r: "map_of (n_treeCache m) i = Some r" by blast
  have "k_Root T (n_treeHeap m r) = rootOf (assetsOf T leaf m i)" using T r by (simp add: smt_ok_def assetsOf_def)
  then show ?thesis using m by (simp add: assetRoot_def bnd_run g treeAt_def orPanic_run)
qed

section \<open>Leaves\<close>

text \<open>The field element of an integer, and the leaves as functions of the values they hash.\<close>

definition elem :: "('t, 'd) Smt \<Rightarrow> int \<Rightarrow> byte list" where "elem T x = beBytes (k_PointSize T) (nat \<bar>x\<bar>)"

definition inField :: "('t, 'd) Smt \<Rightarrow> int \<Rightarrow> bool" where "inField T x \<longleftrightarrow> nat \<bar>x\<bar> < 256 ^ k_PointSize T"

definition assetLeafOf :: "('t, 'd) Smt \<Rightarrow> int \<Rightarrow> int \<Rightarrow> byte list" where
  "assetLeafOf T balance offers = k_Mimc T (elem T balance @ elem T offers)"

definition keyBytes :: "Lib \<Rightarrow> string \<Rightarrow> byte list" where
  "keyBytes X pk = (case ParsePubKey X pk of Inr (x, y) \<Rightarrow> x @ y | Inl _ \<Rightarrow> [])"

definition accountLeafOf :: "('t, 'd) Smt \<Rightarrow> Lib \<Rightarrow> AccountInfo \<Rightarrow> byte list \<Rightarrow> byte list" where
  "accountLeafOf T X acc root = k_Mimc T (x_FromHex X (ai_AccountNameHash acc) @ keyBytes X (ai_PublicKey acc) @
     elem T (ai_Nonce acc) @ elem T (ai_CollectionNonce acc) @ root)"

definition addressElem :: "('t, 'd) Smt \<Rightarrow> string \<Rightarrow> byte list" where
  "addressElem T a = (if a = EmptyL1Address then replicate 32 0
     else case DecodeAddress a of Inr b \<Rightarrow> elem T (SetBytes b) | Inl _ \<Rightarrow> [])"

definition nftLeafOf :: "('t, 'd) Smt \<Rightarrow> Lib \<Rightarrow> L2Nft \<Rightarrow> byte list" where
  "nftLeafOf T X x = k_Mimc T (elem T (nft_CreatorAccountIndex x) @ elem T (nft_OwnerAccountIndex x) @
     beBytes 32 (nat \<bar>k_Mod T (SetBytes (x_FromHex X (nft_NftContentHash x))) (k_Modulus T)\<bar>) @ addressElem T (nft_NftL1Address x) @
     elem T (the (parseBig (nft_NftL1TokenId x))) @ elem T (nft_CreatorTreasuryRate x) @ elem T (nft_CollectionId x))"

text \<open>What can be hashed: numbers in range, a key that decodes.\<close>

definition accountHashes :: "('t, 'd) Smt \<Rightarrow> Lib \<Rightarrow> AccountInfo \<Rightarrow> bool" where
  "accountHashes T X acc \<longleftrightarrow> (\<exists>k. ParsePubKey X (ai_PublicKey acc) = Inr k) \<and> inField T (ai_Nonce acc) \<and> inField T (ai_CollectionNonce acc)"

definition nftHashes :: "('t, 'd) Smt \<Rightarrow> Lib \<Rightarrow> L2Nft \<Rightarrow> bool" where
  "nftHashes T X x \<longleftrightarrow> inField T (nft_CreatorAccountIndex x) \<and> inField T (nft_OwnerAccountIndex x) \<and>
     nat \<bar>k_Mod T (SetBytes (x_FromHex X (nft_NftContentHash x))) (k_Modulus T)\<bar> < 256 ^ 32 \<and>
     (nft_NftL1Address x = EmptyL1Address \<or> (\<exists>b. DecodeAddress (nft_NftL1Address x) = Inr b \<and> inField T (SetBytes b))) \<and>
     (\<exists>t. parseBig (nft_NftL1TokenId x) = Some t \<and> inField T t) \<and> inField T (nft_CreatorTreasuryRate x) \<and> inField T (nft_CollectionId x)"

lemma fill_elem: "inField T x \<Longrightarrow> FillBytes (k_PointSize T) x = Some (elem T x)"
  by (simp add: inField_def FillBytes_def elem_def)

lemma assetLeaf_run:
  assumes "inField T b" "inField T f"
  shows "ComputeAccountAssetLeafHash T (showInt b) (showInt f) s = (Ok (assetLeafOf T b f), s)"
  by (simp add: ComputeAccountAssetLeafHash_def PaddingStringBigIntIntoBuf_def bnd_run orThrow_run orPanic_run parseBig_showInt
      fill_elem assms assetLeafOf_def)

lemma accountLeaf_run:
  assumes "accountHashes T X acc"
  shows "ComputeAccountLeafHash T X (ai_AccountNameHash acc) (ai_PublicKey acc) (ai_Nonce acc) (ai_CollectionNonce acc) root s =
    (Ok (accountLeafOf T X acc root), s)"
  using assms by (auto simp: accountHashes_def ComputeAccountLeafHash_def PaddingPkIntoBuf_def PaddingInt64IntoBuf_def Let_def bnd_run
      ofSum_run orPanic_run fill_elem accountLeafOf_def keyBytes_def)

lemma nft_core: "nftLeafOf T X (nftCore x) = nftLeafOf T X x" "nftHashes T X (nftCore x) = nftHashes T X x"
  by (simp_all add: nftLeafOf_def nftHashes_def)

lemma nftLeaf_run:
  assumes "nftHashes T X x"
  shows "ComputeNftAssetLeafHash T X (nft_CreatorAccountIndex x) (nft_OwnerAccountIndex x) (nft_NftContentHash x)
    (nft_NftL1Address x) (nft_NftL1TokenId x) (nft_CreatorTreasuryRate x) (nft_CollectionId x) s = (Ok (nftLeafOf T X x), s)"
proof -
  have z: "FillBytes 32 0 = Some (replicate 32 0)" using PrefixPadding_Nil by (simp add: PrefixPaddingBufToChunkSize_def)
  have a: "PaddingAddressIntoBuf T buf (nft_NftL1Address x) s = (Ok (buf @ addressElem T (nft_NftL1Address x)), s)" for buf and s :: 's
    using assms by (auto simp: nftHashes_def PaddingAddressIntoBuf_def addressElem_def bnd_run orPanic_run ofSum_run z fill_elem)
  show ?thesis using assms
    by (auto simp: nftHashes_def ComputeNftAssetLeafHash_def PaddingInt64IntoBuf_def PaddingStringBigIntIntoBuf_def bnd_run orPanic_run
        orThrow_run a fill_elem nftLeafOf_def FillBytes_def [of 32])
qed

section \<open>One account\<close>

lemma word_inj:
  assumes "(word_of_int a :: 'w :: len word) = word_of_int b" "0 \<le> a" "a < 2 ^ LENGTH('w)" "0 \<le> b" "b < 2 ^ LENGTH('w)"
  shows "a = b"
  using assms by (simp add: word_of_int_eq_iff take_bit_int_eq_self)

lemma key_inj:
  assumes "(word_of_int a :: 64 word) = word_of_int b" "0 \<le> a" "a < 2 ^ 64" "0 \<le> b" "b < 2 ^ 64"
  shows "a = b"
  by (rule word_inj [where 'w = 64]) (use assms in simp_all)

definition gasPart :: "StateCache \<Rightarrow> int \<Rightarrow> int \<Rightarrow> int" where
  "gasPart c i a = (if isGasAsset i a then GetPendingGas c a else 0)"

text \<open>The leaf of an asset as the tree has it: with the gas collected in the block.\<close>

definition assetLeaf :: "('t, 'd) Smt \<Rightarrow> StateCache \<Rightarrow> int \<Rightarrow> AccountInfo \<Rightarrow> int \<Rightarrow> byte list" where
  "assetLeaf T c i acc a = assetLeafOf T (assetBal acc a + gasPart c i a) (assetOffer acc a)"

definition assetsHash :: "('t, 'd) Smt \<Rightarrow> StateCache \<Rightarrow> int \<Rightarrow> AccountInfo \<Rightarrow> int list \<Rightarrow> bool" where
  "assetsHash T c i acc as \<longleftrightarrow> (\<forall>a \<in> set as. inField T (assetBal acc a + gasPart c i a) \<and> inField T (assetOffer acc a))"

definition assetWrites :: "('t, 'd) Smt \<Rightarrow> StateCache \<Rightarrow> int \<Rightarrow> AccountInfo \<Rightarrow> int list \<Rightarrow> (64 word \<times> byte list) list" where
  "assetWrites T c i acc as = map (\<lambda>a. (word_of_int a, assetLeaf T c i acc a)) as"

lemma onWorld_run [run]: "onWorld m n = (case m (n_world n) of (r, w) \<Rightarrow> (r, n\<lparr>n_world := w\<rparr>))"
  by (simp add: onWorld_def)

lemma assetItems_ok:
  assumes "ffmath_ok X" "looks (set as) acc (w_accHeap (n_world n) q)" "assetsHash T (w_sc (n_world n)) i acc as"
  shows "assetItems T X q i as n = (Ok (assetWrites T (w_sc (n_world n)) i acc as), n)"
  using assms(2,3)
proof (induction as)
  case (Cons a as)
  from Cons.prems obtain x where x: "ai_AssetInfo (w_accHeap (n_world n) q) a = Some x"
    "aa_Balance x = assetBal acc a" "aa_OfferCanceledOrFinalized x = assetOffer acc a"
    by (auto simp: looks_def assetBal_def assetOffer_def)
  from Cons have ih: "assetItems T X q i as n = (Ok (assetWrites T (w_sc (n_world n)) i acc as), n)"
    by (simp add: looks_def assetsHash_def)
  have "x_Add X = (+)" using assms(1) by (simp add: ffmath_ok_def)
  with Cons.prems(2) show ?case
    by (cases "isGasAsset i a")
      (simp_all add: bnd_run onWorld_run assetAt_run x mapErr_def Let_def assetLeaf_run assetsHash_def ih assetWrites_def assetLeaf_def gasPart_def)
qed (simp add: assetWrites_def)

text \<open>The new leaves of the asset tree, and the leaf of the account with them.\<close>

definition writes :: "(64 word \<times> byte list) list \<Rightarrow> (64 word \<Rightarrow> byte list) \<Rightarrow> 64 word \<Rightarrow> byte list" where
  "writes items f = (\<lambda>k. case map_of items k of Some v \<Rightarrow> v | None \<Rightarrow> f k)"

text \<open>What is left of a node by the tasks: trees with room, a world that differs in cached objects.\<close>

definition nodeStep :: "int set \<Rightarrow> ('t, 'd) Node \<Rightarrow> ('t, 'd) Node \<Rightarrow> bool" where
  "nodeStep K n n' \<longleftrightarrow> treesOk K n' \<and> loads (n_world n) (n_world n') \<and> n_AccountTree n' = n_AccountTree n \<and>
     n_NftTree n' = n_NftTree n \<and> n_disk n' = n_disk n"

lemma treesOk_world: "treesOk K (n\<lparr>n_world := w\<rparr>) = treesOk K n"
  by (simp add: treesOk_def)

lemma nodeStep_trees: "treesOk K m \<Longrightarrow> sameRest n m \<Longrightarrow> nodeStep K n m"
  by (simp add: nodeStep_def sameRest_def loads_refl)

lemma nodeStep_trans: "nodeStep K n m \<Longrightarrow> nodeStep K m k \<Longrightarrow> nodeStep K n k"
  unfolding nodeStep_def by (auto intro: loads_trans)

lemma assetsOf_world:
  "w_blockNumber w = w_blockNumber (n_world n) \<Longrightarrow> assetsOf T leaf (n\<lparr>n_world := w\<rparr>) = assetsOf T leaf n"
  by (rule assetsOf_cong) simp_all

lemma updateAccountTree_ok:
  fixes T :: "('t, 'd) Smt"
  assumes X: "lru_ok X" "lru_order X" "ffmath_ok X" and T: "smt_ok T leaf rootOf" and ok: "treesOk K n" and i: "i \<in> K"
    and w: "\<not> db_down (w_db (n_world n))" "0 < w_AccountCacheSize (n_world n)" "readable (set as) acc (n_world n) i"
    and h: "accountHashes T X acc" "assetsHash T (w_sc (n_world n)) i acc as"
    and d: "distinct as" "\<forall>a \<in> set as. 0 \<le> a \<and> a < 2 ^ 64"
  defines "new \<equiv> writes (assetWrites T (w_sc (n_world n)) i acc as) (assetsOf T leaf n i)"
  shows "\<exists>n'. updateAccountTree T X i as n = (Ok (i, accountLeafOf T X acc (rootOf new)), n') \<and> nodeStep K n n' \<and>
    assetsOf T leaf n' = (assetsOf T leaf n)(i := new)"
proof -
  from GetFormatAccount_reads [OF X(1) w] obtain q w1 where g: "GetFormatAccount X i (n_world n) = (Ok q, w1)"
    and q: "looks (set as) acc (w_accHeap w1 q)" and l: "loads (n_world n) w1" by blast
  let ?n1 = "n\<lparr>n_world := w1\<rparr>"
  note ls = loads_sel [OF l]
  have items: "assetItems T X q i as ?n1 = (Ok (assetWrites T (w_sc (n_world n)) i acc as), ?n1)"
    using assetItems_ok [OF X(3), of as acc ?n1 q T i] q h(2) ls(1) by simp
  have dd: "distinct (map fst (assetWrites T (w_sc (n_world n)) i acc as))"
    using d by (auto simp: assetWrites_def distinct_map comp_def intro!: inj_onI dest: key_inj)
  from multiSetAsset_ok [OF X(1,2) T _ i dd, of ?n1] ok obtain n2 where
    m: "multiSetAsset T X i (assetWrites T (w_sc (n_world n)) i acc as) ?n1 = (Ok (), n2)" "treesOk K n2" "sameRest ?n1 n2"
      "assetsOf T leaf n2 = (assetsOf T leaf ?n1)(i := writes (assetWrites T (w_sc (n_world n)) i acc as) (assetsOf T leaf ?n1 i))"
    by (auto simp: treesOk_world writes_def)
  have a1: "assetsOf T leaf ?n1 = assetsOf T leaf n" by (rule assetsOf_world) (rule ls(6))
  have a2: "assetsOf T leaf n2 = (assetsOf T leaf n)(i := new)" using m(4) by (simp add: a1 new_def)
  from assetRoot_ok [OF X(1,2) T m(2) i] obtain n3 where r1: "assetRoot T X i n2 = (Ok (rootOf new), n3)" "treesOk K n3"
    "sameRest n2 n3" "assetsOf T leaf n3 = assetsOf T leaf n2" by (auto simp: a2)
  have w3: "n_world n3 = w1" using m(3) r1(3) by (simp add: sameRest_def)
  let ?w4 = "setAcc q ((w_accHeap w1 q)\<lparr>ai_AssetRoot := x_Bytes2Hex X (rootOf new)\<rparr>) w1"
  let ?n4 = "n3\<lparr>n_world := ?w4\<rparr>"
  have mut: "onWorld (mutAcc q (\<lambda>acc. Some (acc\<lparr>ai_AssetRoot := x_Bytes2Hex X (rootOf new)\<rparr>))) n3 = (Ok (), ?n4)"
    by (simp add: onWorld_run mutAcc_run w3)
  have a4: "assetsOf T leaf ?n4 = (assetsOf T leaf n)(i := new)"
    using assetsOf_world [of ?w4 n3 T leaf] w3 r1(4) a2 by (simp add: setAcc_def)
  from assetRoot_ok [OF X(1,2) T _ i, of ?n4] r1(2) obtain n5 where r2: "assetRoot T X i ?n4 = (Ok (rootOf new), n5)" "treesOk K n5"
    "sameRest ?n4 n5" "assetsOf T leaf n5 = assetsOf T leaf ?n4" by (auto simp: a4 treesOk_world)
  have w5: "n_world n5 = ?w4" using r2(3) by (simp add: sameRest_def)
  let ?acc = "w_accHeap ?w4 q"
  have lk: "looks (set as) acc ?acc" using q looks_bare [of "set as" acc ?acc] looks_bare [of "set as" acc "w_accHeap w1 q"]
    by (simp add: setAcc_def bare_def)
  then have leaf: "ComputeAccountLeafHash T X (ai_AccountNameHash ?acc) (ai_PublicKey ?acc) (ai_Nonce ?acc) (ai_CollectionNonce ?acc) (rootOf new) n5 =
      (Ok (accountLeafOf T X acc (rootOf new)), n5)"
    using accountLeaf_run [OF h(1)] by (simp add: looks_def)
  have self: "n5\<lparr>n_world := n_world n5\<rparr> = n5" by simp
  have at: "onWorld (accountAt q) n5 = (Ok ?acc, n5)"
    using self by (simp add: onWorld_run accountAt_def w5)
  have "updateAccountTree T X i as n = (Ok (i, accountLeafOf T X acc (rootOf new)), n5)"
    unfolding updateAccountTree_def
    by (simp only: bnd_run thn_run onWorld_run [of "GetFormatAccount X i"] g items m(1) r1(1) mut r2(1) at mapErr_def leaf
        prod.case res.case ret_run)
  moreover have "nodeStep K n n5"
  proof -
    have "loads (n_world n) ?w4" using loads_trans [OF l loads_root] .
    with m(3) r1(3) r2(2,3) show ?thesis by (simp add: nodeStep_def sameRest_def)
  qed
  moreover have "assetsOf T leaf n5 = (assetsOf T leaf n)(i := new)" using r2(4) a4 by simp
  ultimately show ?thesis by blast
qed

end
