(* ===== verification/Ref_Block.thy ===== *)
theory Ref_Block
  imports Ref_Root
begin

text \<open>
  The root of the trees and the block that is sealed with it. \<open>rootSpec\<close> says which leaves
  \<open>IntermediateRoot\<close> has to write, with no mention of caches, tasks or the order in which Go ranges over
  the dirty maps; \<open>IntermediateRoot_ok\<close> is the refinement. The lemmas on \<open>commitNewBlock\<close> say what the
  sealed block holds.
\<close>

section \<open>The tasks\<close>

lemma writes_map:
  assumes "distinct as" "\<forall>a \<in> set as. 0 \<le> a \<and> a < 2 ^ 64"
  shows "writes (map (\<lambda>a. (word_of_int a, g a)) as) f = (\<lambda>k. if uint k \<in> set as then g (uint k) else f k)"
proof
  fix k :: "64 word"
  have inv: "uint (word_of_int a :: 64 word) = a" if "a \<in> set as" for a
    using assms(2) that by (intro word_of_int_inverse [OF refl]) simp_all
  have "map_of (map (\<lambda>a. (word_of_int a, g a)) as) k = (if uint k \<in> set as then Some (g (uint k)) else None)"
  proof (cases "uint k \<in> set as")
    case True
    have "distinct (map fst (map (\<lambda>a. (word_of_int a :: 64 word, g a)) as))"
      using assms by (auto simp: distinct_map comp_def intro!: inj_onI dest: key_inj)
    moreover have "(k, g (uint k)) \<in> set (map (\<lambda>a. (word_of_int a, g a)) as)"
      using True by (auto intro: rev_image_eqI)
    ultimately show ?thesis using True by simp
  next
    case False
    then have "k \<notin> fst ` set (map (\<lambda>a. (word_of_int a, g a)) as)" using inv by auto
    with False show ?thesis by (simp add: map_of_eq_None_iff)
  qed
  then show "writes (map (\<lambda>a. (word_of_int a, g a)) as) f k = (if uint k \<in> set as then g (uint k) else f k)"
    by (simp add: writes_def)
qed

text \<open>A family of tasks whose invariant knows which of them are done.\<close>

lemma collect_ok:
  assumes "\<And>k D n. k \<in> set ks \<Longrightarrow> k \<notin> D \<Longrightarrow> I D n \<Longrightarrow> \<exists>n'. f k n = (Ok (k, g k), n') \<and> I (insert k D) n'"
    and "distinct ks" "I D n" "set ks \<inter> D = {}"
  shows "\<exists>n'. collect f ks n = (Ok (map (\<lambda>k. (word_of_int k, g k)) ks), n') \<and> I (D \<union> set ks) n'"
  using assms
proof (induction ks arbitrary: D n)
  case (Cons k ks)
  from Cons.prems(1) [of k D n] Cons.prems(3,4) obtain n1 where 1: "f k n = (Ok (k, g k), n1)" "I (insert k D) n1" by auto
  have d: "set ks \<inter> insert k D = {}" using Cons.prems(2,4) by auto
  have "\<exists>n'. collect f ks n1 = (Ok (map (\<lambda>k. (word_of_int k, g k)) ks), n') \<and> I (insert k D \<union> set ks) n'"
    by (rule Cons.IH) (use Cons.prems 1(2) d in simp_all)
  with 1(1) show ?case by (auto simp: bnd_run)
qed simp

section \<open>The specification of the root\<close>

definition dirtyAccounts :: "World \<Rightarrow> int list" where
  "dirtyAccounts w = mkeys (sc_dirtyAccountsAndAssetsMap (w_sc w))"

definition dirtyAssets :: "World \<Rightarrow> int \<Rightarrow> int list" where
  "dirtyAssets w i = dirtyKeys (the (mget (sc_dirtyAccountsAndAssetsMap (w_sc w)) i))"

definition dirtyNfts :: "World \<Rightarrow> int list" where
  "dirtyNfts w = dirtyKeys (sc_dirtyNftMap (w_sc w))"

text \<open>The leaves of the asset tree of account \<open>i\<close>, of the account tree and of the NFT tree.\<close>

definition assetSpec ::
  "('t, 'd) Smt \<Rightarrow> ('t \<Rightarrow> 64 word \<Rightarrow> byte list) \<Rightarrow> ('t, 'd) Node \<Rightarrow> (int \<Rightarrow> AccountInfo) \<Rightarrow> int \<Rightarrow> 64 word \<Rightarrow> byte list" where
  "assetSpec T leaf n accs i k =
     (if uint k \<in> set (dirtyAssets (n_world n) i) then assetLeaf T (w_sc (n_world n)) i (accs i) (uint k) else assetsOf T leaf n i k)"

definition accountSpec ::
  "('t, 'd) Smt \<Rightarrow> Lib \<Rightarrow> ('t \<Rightarrow> 64 word \<Rightarrow> byte list) \<Rightarrow> ((64 word \<Rightarrow> byte list) \<Rightarrow> byte list) \<Rightarrow> ('t, 'd) Node \<Rightarrow>
     (int \<Rightarrow> AccountInfo) \<Rightarrow> 64 word \<Rightarrow> byte list" where
  "accountSpec T X leaf rootOf n accs k =
     (if uint k \<in> set (dirtyAccounts (n_world n))
      then accountLeafOf T X (accs (uint k)) (rootOf (assetSpec T leaf n accs (uint k))) else leaf (n_AccountTree n) k)"

definition nftSpec ::
  "('t, 'd) Smt \<Rightarrow> Lib \<Rightarrow> ('t \<Rightarrow> 64 word \<Rightarrow> byte list) \<Rightarrow> ('t, 'd) Node \<Rightarrow> (int \<Rightarrow> L2Nft) \<Rightarrow> 64 word \<Rightarrow> byte list" where
  "nftSpec T X leaf n nfts k =
     (if uint k \<in> set (dirtyNfts (n_world n)) then nftLeafOf T X (nfts (uint k)) else leaf (n_NftTree n) k)"

definition rootSpec ::
  "('t, 'd) Smt \<Rightarrow> Lib \<Rightarrow> ('t \<Rightarrow> 64 word \<Rightarrow> byte list) \<Rightarrow> ((64 word \<Rightarrow> byte list) \<Rightarrow> byte list) \<Rightarrow> ('t, 'd) Node \<Rightarrow>
     (int \<Rightarrow> AccountInfo) \<Rightarrow> (int \<Rightarrow> L2Nft) \<Rightarrow> string" where
  "rootSpec T X leaf rootOf n accs nfts =
     x_Bytes2Hex X (k_Mimc T (rootOf (accountSpec T X leaf rootOf n accs) @ rootOf (nftSpec T X leaf n nfts)))"

text \<open>
  When the trees can be updated: the database answers, the caches have room, every dirty account and NFT
  is found with the dirty assets loaded, and what is hashed fits into a field element.
\<close>

definition accountReady :: "('t, 'd) Smt \<Rightarrow> Lib \<Rightarrow> World \<Rightarrow> (int \<Rightarrow> AccountInfo) \<Rightarrow> int \<Rightarrow> bool" where
  "accountReady T X w accs i \<longleftrightarrow> 0 \<le> i \<and> i < 2 ^ 64 \<and> distinct (dirtyAssets w i) \<and> (\<forall>a \<in> set (dirtyAssets w i). 0 \<le> a \<and> a < 2 ^ 64) \<and>
     readable (set (dirtyAssets w i)) (accs i) w i \<and> accountHashes T X (accs i) \<and> assetsHash T (w_sc w) i (accs i) (dirtyAssets w i)"

definition nftReady :: "('t, 'd) Smt \<Rightarrow> Lib \<Rightarrow> World \<Rightarrow> (int \<Rightarrow> L2Nft) \<Rightarrow> int \<Rightarrow> bool" where
  "nftReady T X w nfts i \<longleftrightarrow> 0 \<le> i \<and> i < 2 ^ 64 \<and> readableNft (nfts i) w i \<and> nftHashes T X (nfts i)"

definition rootReady ::
  "('t, 'd) Smt \<Rightarrow> Lib \<Rightarrow> int set \<Rightarrow> ('t, 'd) Node \<Rightarrow> (int \<Rightarrow> AccountInfo) \<Rightarrow> (int \<Rightarrow> L2Nft) \<Rightarrow> bool" where
  "rootReady T X K n accs nfts \<longleftrightarrow> treesOk K n \<and> set (dirtyAccounts (n_world n)) \<subseteq> K \<and>
     \<not> db_down (w_db (n_world n)) \<and> 0 < w_AccountCacheSize (n_world n) \<and> 0 < w_NftCacheSize (n_world n) \<and>
     distinct (dirtyAccounts (n_world n)) \<and> distinct (dirtyNfts (n_world n)) \<and>
     (\<forall>i \<in> set (dirtyAccounts (n_world n)). accountReady T X (n_world n) accs i) \<and>
     (\<forall>i \<in> set (dirtyNfts (n_world n)). nftReady T X (n_world n) nfts i)"

text \<open>The node while the tasks run: the accounts \<open>D\<close> have their new asset trees.\<close>

definition during ::
  "('t, 'd) Smt \<Rightarrow> ('t \<Rightarrow> 64 word \<Rightarrow> byte list) \<Rightarrow> int set \<Rightarrow> ('t, 'd) Node \<Rightarrow> (int \<Rightarrow> 64 word \<Rightarrow> byte list) \<Rightarrow> int set \<Rightarrow> ('t, 'd) Node \<Rightarrow> bool" where
  "during T leaf K n new D m \<longleftrightarrow> nodeStep K n m \<and> assetsOf T leaf m = (\<lambda>i. if i \<in> D then new i else assetsOf T leaf n i)"

lemma accountTask:
  assumes X: "lru_ok X" "lru_order X" "ffmath_ok X" and T: "smt_ok T leaf rootOf" and i: "i \<in> K" "i \<notin> D"
    and w: "\<not> db_down (w_db (n_world n))" "0 < w_AccountCacheSize (n_world n)" "readable (set as) acc (n_world n) i"
    and h: "accountHashes T X acc" "assetsHash T (w_sc (n_world n)) i acc as"
    and d: "distinct as" "\<forall>a \<in> set as. 0 \<le> a \<and> a < 2 ^ 64"
    and new: "new i = (\<lambda>k. if uint k \<in> set as then assetLeaf T (w_sc (n_world n)) i acc (uint k) else assetsOf T leaf n i k)"
    and m: "during T leaf K n new D m"
  shows "\<exists>m'. updateAccountTree T X i as m = (Ok (i, accountLeafOf T X acc (rootOf (new i))), m') \<and> during T leaf K n new (insert i D) m'"
proof -
  from m have s: "nodeStep K n m" and a: "assetsOf T leaf m = (\<lambda>i. if i \<in> D then new i else assetsOf T leaf n i)"
    by (simp_all add: during_def)
  from s have l: "loads (n_world n) (n_world m)" and t: "treesOk K m" by (simp_all add: nodeStep_def)
  note e = loads_sel [OF l]
  have new': "writes (assetWrites T (w_sc (n_world n)) i acc as) (assetsOf T leaf m i) = new i"
    using i(2) unfolding assetWrites_def by (simp add: writes_map [OF d] e(1) a new)
  from updateAccountTree_ok [OF X T t i(1) _ _ loads_readable [OF l w(3)] h(1) _ d] w(1,2) h(2) obtain m' where
    "updateAccountTree T X i as m = (Ok (i, accountLeafOf T X acc (rootOf (new i))), m')" "nodeStep K m m'"
    "assetsOf T leaf m' = (assetsOf T leaf m)(i := new i)"
    by (auto simp: e new')
  with nodeStep_trans [OF s] show ?thesis by (auto simp: during_def a)
qed

lemma nftTask:
  assumes X: "lru_ok X" and w: "\<not> db_down (w_db (n_world n))" "0 < w_NftCacheSize (n_world n)" "readableNft x (n_world n) i"
    and h: "nftHashes T X x" and m: "during T leaf K n new D m"
  shows "\<exists>m'. updateNftTree T X i m = (Ok (i, nftLeafOf T X x), m') \<and> during T leaf K n new D m'"
proof -
  from m have s: "nodeStep K n m" and a: "assetsOf T leaf m = (\<lambda>i. if i \<in> D then new i else assetsOf T leaf n i)"
    by (simp_all add: during_def)
  from s have l: "loads (n_world n) (n_world m)" by (simp add: nodeStep_def)
  note e = loads_sel [OF l]
  from GetNft_reads [OF X _ _ loads_readableNft [OF l w(3)]] w(1,2) obtain q w' where
    g: "GetNft X i (n_world m) = (Ok q, w')" "nftCore (w_nftHeap w' q) = nftCore x" "loads (n_world m) w'" by (auto simp: e)
  from g(2) nft_core [of T X] h have x: "nftHashes T X (w_nftHeap w' q)" "nftLeafOf T X (w_nftHeap w' q) = nftLeafOf T X x" by metis+
  let ?m = "m\<lparr>n_world := w'\<rparr>"
  have "updateNftTree T X i m = (Ok (i, nftLeafOf T X x), ?m)"
    by (simp add: updateNftTree_def bnd_run onWorld_run g(1) nftAt_def mapErr_def nftLeaf_run [OF x(1)] x(2))
  moreover have "nodeStep K n ?m"
    using s loads_trans [OF l g(3)] by (simp add: nodeStep_def treesOk_world)
  moreover have "assetsOf T leaf ?m = assetsOf T leaf m"
    by (rule assetsOf_world) (use loads_sel [OF g(3)] in simp)
  ultimately show ?thesis by (auto simp: during_def a)
qed

text \<open>Forgetting what is dirty changes nothing the tasks read.\<close>

definition cleaned :: "bool \<Rightarrow> ('t, 'd) Node \<Rightarrow> ('t, 'd) Node" where
  "cleaned b n = (if b then n\<lparr>n_world := updSc (\<lambda>c. c\<lparr>sc_dirtyAccountsAndAssetsMap := [], sc_dirtyNftMap := []\<rparr>) (n_world n)\<rparr> else n)"

lemma cleaned_sel [simp]:
  "w_db (n_world (cleaned b n)) = w_db (n_world n)" "w_AccountCacheSize (n_world (cleaned b n)) = w_AccountCacheSize (n_world n)"
  "w_NftCacheSize (n_world (cleaned b n)) = w_NftCacheSize (n_world n)"
  "n_AccountTree (cleaned b n) = n_AccountTree n" "n_NftTree (cleaned b n) = n_NftTree n" "n_disk (cleaned b n) = n_disk n"
  "treesOk K (cleaned b n) = treesOk K n" "assetsOf T leaf (cleaned b n) = assetsOf T leaf n"
  "w_blockNumber (n_world (cleaned b n)) = w_blockNumber (n_world n)"
  "readable A acc (n_world (cleaned b n)) i = readable A acc (n_world n) i"
  "readableNft x (n_world (cleaned b n)) i = readableNft x (n_world n) i"
  "assetLeaf T (w_sc (n_world (cleaned b n))) = assetLeaf T (w_sc (n_world n))"
  "assetsHash T (w_sc (n_world (cleaned b n))) = assetsHash T (w_sc (n_world n))"
  by (simp_all add: cleaned_def treesOk_world assetsOf_world updSc_def readable_def readableNft_def dbAcc_def dbNft_def
      assetLeaf_def assetsHash_def gasPart_def GetPendingGas_def fun_eq_iff cong: option.case_cong)

text \<open>All tasks, in whatever order.\<close>

lemma accountTasks:
  fixes leaf :: "'t \<Rightarrow> 64 word \<Rightarrow> byte list" and b :: bool
  assumes X: "libOk X" and T: "smt_ok T leaf rootOf" and r: "rootReady T X K n accs nfts"
  defines "n0 \<equiv> cleaned b n" and "ks \<equiv> x_range X (dirtyAccounts (n_world n))" and "new \<equiv> assetSpec T leaf n accs"
  shows "\<exists>m. collect (\<lambda>i. updateAccountTree T X i (x_range X (dirtyAssets (n_world n) i))) ks n0 =
      (Ok (map (\<lambda>i. (word_of_int i, accountLeafOf T X (accs i) (rootOf (new i)))) ks), m) \<and> during T leaf K n0 new ({} \<union> set ks) m"
proof (rule collect_ok)
  note L = libOkD [OF X]
  have ks: "set ks = set (dirtyAccounts (n_world n))" "distinct ks" using L(3) r by (auto simp: ks_def range_ok_def rootReady_def)
  then show "distinct ks" by simp
  have w: "\<not> db_down (w_db (n_world n0))" "0 < w_AccountCacheSize (n_world n0)" "treesOk K n0"
    using r by (simp_all add: rootReady_def n0_def)
  then show "during T leaf K n0 new {} n0" by (simp add: during_def nodeStep_def loads_refl)
  fix i D m assume i: "i \<in> set ks" "i \<notin> D" and m: "during T leaf K n0 new D m"
  have acc: "accountReady T X (n_world n) accs i" "i \<in> K" using r i ks(1) by (auto simp: rootReady_def)
  let ?as = "x_range X (dirtyAssets (n_world n) i)"
  have as: "set ?as = set (dirtyAssets (n_world n) i)" "distinct ?as"
    using L(3) acc(1) by (auto simp: range_ok_def accountReady_def)
  show "\<exists>m'. updateAccountTree T X i ?as m = (Ok (i, accountLeafOf T X (accs i) (rootOf (new i))), m') \<and> during T leaf K n0 new (insert i D) m'"
    by (rule accountTask [OF L(1,2,4) T acc(2) i(2) w(1,2) _ _ _ as(2) _ _ m])
      (use acc(1) as in \<open>auto simp: accountReady_def n0_def new_def assetSpec_def assetsHash_def\<close>)
qed simp

lemma nftTasks:
  fixes leaf :: "'t \<Rightarrow> 64 word \<Rightarrow> byte list" and b :: bool
  assumes X: "libOk X" and r: "rootReady T X K n accs nfts" and m: "during T leaf K (cleaned b n) new D m"
  defines "js \<equiv> x_range X (dirtyNfts (n_world n))"
  shows "\<exists>m'. collect (updateNftTree T X) js m = (Ok (map (\<lambda>i. (word_of_int i, nftLeafOf T X (nfts i))) js), m') \<and>
      during T leaf K (cleaned b n) new D m'"
proof (rule collect_ok [where I = "\<lambda>_. during T leaf K (cleaned b n) new D" and D = "{}"])
  note L = libOkD [OF X]
  have js: "set js = set (dirtyNfts (n_world n))" "distinct js" using L(3) r by (auto simp: js_def range_ok_def rootReady_def)
  then show "distinct js" by simp
  fix i E m assume i: "i \<in> set js" and m: "during T leaf K (cleaned b n) new D m"
  then show "\<exists>m'. updateNftTree T X i m = (Ok (i, nftLeafOf T X (nfts i)), m') \<and> during T leaf K (cleaned b n) new D m'"
    by (intro nftTask [OF L(1) _ _ _ _ m]) (use r js(1) in \<open>simp_all add: rootReady_def nftReady_def\<close>)
qed (simp_all add: m)

text \<open>Writing the leaves of the tasks gives the specified trees.\<close>

lemma spec_writes:
  fixes leaf :: "'t \<Rightarrow> 64 word \<Rightarrow> byte list"
  assumes X: "libOk X" and r: "rootReady T X K n accs nfts"
  shows "writes (map (\<lambda>i. (word_of_int i, accountLeafOf T X (accs i) (rootOf (assetSpec T leaf n accs i)))) (x_range X (dirtyAccounts (n_world n))))
        (leaf (n_AccountTree n)) = accountSpec T X leaf rootOf n accs" (is ?A)
    and "writes (map (\<lambda>i. (word_of_int i, nftLeafOf T X (nfts i))) (x_range X (dirtyNfts (n_world n)))) (leaf (n_NftTree n)) =
        nftSpec T X leaf n nfts" (is ?N)
    and "distinct (map (word_of_int :: int \<Rightarrow> 64 word) (x_range X (dirtyAccounts (n_world n))))" (is ?D)
    and "distinct (map (word_of_int :: int \<Rightarrow> 64 word) (x_range X (dirtyNfts (n_world n))))" (is ?E)
proof -
  have ks: "set (x_range X (dirtyAccounts (n_world n))) = set (dirtyAccounts (n_world n))" "distinct (x_range X (dirtyAccounts (n_world n)))"
    "\<forall>i \<in> set (x_range X (dirtyAccounts (n_world n))). 0 \<le> i \<and> i < 2 ^ 64"
    and js: "set (x_range X (dirtyNfts (n_world n))) = set (dirtyNfts (n_world n))" "distinct (x_range X (dirtyNfts (n_world n)))"
    "\<forall>i \<in> set (x_range X (dirtyNfts (n_world n))). 0 \<le> i \<and> i < 2 ^ 64"
    using libOkD(3) [OF X] r by (auto simp: range_ok_def rootReady_def accountReady_def nftReady_def)
  show ?A by (rule ext) (simp add: writes_map [OF ks(2,3)] ks(1) accountSpec_def)
  show ?N by (rule ext) (simp add: writes_map [OF js(2,3)] js(1) nftSpec_def)
  show ?D ?E using ks(2,3) js(2,3) by (auto simp: distinct_map intro!: inj_onI dest: key_inj)
qed

lemma IntermediateRoot_ok:
  fixes leaf :: "'t \<Rightarrow> 64 word \<Rightarrow> byte list"
  assumes X: "libOk X" and T: "smt_ok T leaf rootOf" and r: "rootReady T X K n accs nfts"
  shows "\<exists>m. IntermediateRoot T X b n = (Ok (), m) \<and>
      leaf (n_AccountTree m) = accountSpec T X leaf rootOf n accs \<and> leaf (n_NftTree m) = nftSpec T X leaf n nfts \<and>
      (\<forall>i \<in> set (dirtyAccounts (n_world n)). assetsOf T leaf m i = assetSpec T leaf n accs i) \<and>
      treesOk K m \<and> w_sc (n_world m) = (w_sc (n_world (cleaned b n)))\<lparr>sc_StateRoot := rootSpec T X leaf rootOf n accs nfts\<rparr> \<and>
      w_currentBlock (n_world m) = w_currentBlock (n_world n) \<and> w_db (n_world m) = w_db (n_world n)"
proof -
  let ?ks = "x_range X (dirtyAccounts (n_world n))" and ?js = "x_range X (dirtyNfts (n_world n))" and ?new = "assetSpec T leaf n accs"
  let ?I = "map (\<lambda>i. (word_of_int i :: 64 word, accountLeafOf T X (accs i) (rootOf (?new i)))) ?ks"
  let ?J = "map (\<lambda>i. (word_of_int i :: 64 word, nftLeafOf T X (nfts i))) ?js"
  from accountTasks [OF X T r, of b] obtain n1 where
    1: "collect (\<lambda>i. updateAccountTree T X i (x_range X (dirtyAssets (n_world n) i))) ?ks (cleaned b n) = (Ok ?I, n1)"
      "during T leaf K (cleaned b n) ?new (set ?ks) n1" by auto
  from nftTasks [OF X r 1(2)] obtain n2 where
    2: "collect (updateNftTree T X) ?js n1 = (Ok ?J, n2)" "during T leaf K (cleaned b n) ?new (set ?ks) n2" by auto
  then have s: "nodeStep K (cleaned b n) n2" by (simp add: during_def)
  then have tr: "n_AccountTree n2 = n_AccountTree n" "n_NftTree n2 = n_NftTree n" "treesOk K n2" "loads (n_world (cleaned b n)) (n_world n2)"
    by (simp_all add: nodeStep_def)
  note W = spec_writes [OF X r]
  have "distinct (map fst ?I)" "distinct (map fst ?J)" using W(3,4) by (simp_all add: comp_def)
  from smt_MultiSet [OF T this(1), of "n_AccountTree n"] smt_MultiSet [OF T this(2), of "n_NftTree n"] obtain t u where
    tu: "k_MultiSet T ?I (n_AccountTree n) = (None, t)" "leaf t = accountSpec T X leaf rootOf n accs"
        "k_MultiSet T ?J (n_NftTree n) = (None, u)" "leaf u = nftSpec T X leaf n nfts"
    using W(1,2) unfolding writes_def by (metis (no_types, lifting))
  have root: "k_Root T x = rootOf (leaf x)" for x using T by (simp add: smt_ok_def)
  let ?m = "n2\<lparr>n_AccountTree := t, n_NftTree := u,
    n_world := updSc (\<lambda>c. c\<lparr>sc_StateRoot := rootSpec T X leaf rootOf n accs nfts\<rparr>) (n_world n2)\<rparr>"
  have c: "(if b then onWorld (modify (updSc (\<lambda>c. c\<lparr>sc_dirtyAccountsAndAssetsMap := [], sc_dirtyNftMap := []\<rparr>))) else ret ()) n = (Ok (), cleaned b n)"
    by (simp add: onWorld_run cleaned_def)
  have run: "IntermediateRoot T X b n = (Ok (), ?m)"
    unfolding IntermediateRoot_def dirtyAssets_def [symmetric] dirtyNfts_def [symmetric] dirtyAccounts_def [symmetric]
    by (simp add: bnd_run thn_run c 1(1) 2(1) tr tu failIf_run dirtyAccounts_def [symmetric] dirtyAssets_def [symmetric]
        dirtyNfts_def [symmetric] root rootSpec_def)
  have "assetsOf T leaf ?m = assetsOf T leaf n2" by (rule assetsOf_cong) (simp_all add: updSc_def)
  with 2(2) libOkD(3) [OF X] have a: "\<forall>i \<in> set (dirtyAccounts (n_world n)). assetsOf T leaf ?m i = ?new i"
    by (simp add: during_def range_ok_def)
  have "treesOk K ?m" using tr(3) by (simp add: treesOk_def)
  moreover have "w_currentBlock (n_world ?m) = w_currentBlock (n_world n)" "w_db (n_world ?m) = w_db (n_world n)"
    "w_sc (n_world ?m) = (w_sc (n_world (cleaned b n)))\<lparr>sc_StateRoot := rootSpec T X leaf rootOf n accs nfts\<rparr>"
    using loads_sel [OF tr(4)] by (simp_all add: cleaned_def updSc_def)
  ultimately show ?thesis using run a tu by (intro exI [of _ ?m]) simp
qed

section \<open>The commitment\<close>

text \<open>
  zkbnb-crypto: the modulus of the curve has 254 bits, and \<open>ffmath.Mod\<close> is the Euclidean remainder.
\<close>

definition field_ok :: "('t, 'd) Smt \<Rightarrow> bool" where
  "field_ok T \<longleftrightarrow> 0 < k_Modulus T \<and> k_Modulus T \<le> 256 ^ 32 \<and> k_Mod T = (\<lambda>x m. x mod m)"

definition chunkOf :: "('t, 'd) Smt \<Rightarrow> byte list \<Rightarrow> byte list" where
  "chunkOf T buf = beBytes 32 (nat (SetBytes buf mod k_Modulus T))"

fun chunksOf :: "('t, 'd) Smt \<Rightarrow> nat \<Rightarrow> byte list \<Rightarrow> byte list" where
  "chunksOf T 0 buf = []"
| "chunksOf T (Suc n) buf = chunkOf T (take 32 buf) @ chunksOf T n (drop 32 buf)"

definition cleanOf :: "('t, 'd) Smt \<Rightarrow> byte list \<Rightarrow> byte list" where
  "cleanOf T buf = (if length buf \<le> 32 then chunkOf T buf else chunksOf T (length buf div 32) buf)"

lemma reduced_run:
  assumes "field_ok T"
  shows "reduced T buf = Some (chunkOf T buf)"
proof -
  from assms have m: "0 < k_Modulus T" "k_Modulus T \<le> 256 ^ 32" unfolding field_ok_def by blast+
  have "0 \<le> SetBytes buf mod k_Modulus T" "SetBytes buf mod k_Modulus T < 256 ^ 32"
    using pos_mod_sign [OF m(1)] less_le_trans [OF pos_mod_bound [OF m(1)] m(2)] by blast+
  then show ?thesis using assms by (simp add: reduced_def field_ok_def FillBytes_Some chunkOf_def)
qed

lemma cleanChunks_run: "field_ok T \<Longrightarrow> length buf div 32 = n \<Longrightarrow> cleanChunks T buf = Some (chunksOf T n buf)"
proof (induction n arbitrary: buf)
  case 0
  then have "length buf < 32" by (simp add: div_eq_0_iff)
  then show ?case by (simp add: cleanChunks.simps [of T buf])
next
  case (Suc n)
  then have l: "32 \<le> length buf" by (metis Suc_neq_Zero div_less not_le)
  with Suc.prems(2) have "length (drop 32 buf) div 32 = n" by (simp add: le_div_geq)
  from Suc.IH [OF Suc.prems(1) this] l show ?case
    by (simp add: cleanChunks.simps [of T buf] reduced_run [OF Suc.prems(1)])
qed

lemma CleanAndPadding_run: "field_ok T \<Longrightarrow> CleanAndPaddingByteByModulus T buf = Some (cleanOf T buf)"
  by (simp add: CleanAndPaddingByteByModulus_def cleanOf_def reduced_run cleanChunks_run)

lemma length_chunksOf [simp]: "length (chunksOf T n buf) = 32 * n"
  by (induction n arbitrary: buf) (simp_all add: chunkOf_def)

text \<open>Whole chunks below the modulus are kept as they are.\<close>

lemma chunkOf_id: "length buf = 32 \<Longrightarrow> SetBytes buf < k_Modulus T \<Longrightarrow> chunkOf T buf = buf"
  using beBytes_SetBytes [of buf] SetBytes_bound [of buf] by (simp add: chunkOf_def)

lemma chunksOf_id:
  "length buf = 32 * n \<Longrightarrow> (\<forall>k < n. SetBytes (take 32 (drop (32 * k) buf)) < k_Modulus T) \<Longrightarrow> chunksOf T n buf = buf"
proof (induction n arbitrary: buf)
  case (Suc n)
  have a: "SetBytes (take 32 buf) < k_Modulus T" using Suc.prems(2) by (auto dest: spec [of _ 0])
  have "SetBytes (take 32 (drop (32 * k) (drop 32 buf))) < k_Modulus T" if "k < n" for k
    using Suc.prems(2) that by (auto dest: spec [of _ "Suc k"] simp: add.commute)
  with Suc.IH [of "drop 32 buf"] Suc.prems(1) have b: "chunksOf T n (drop 32 buf) = drop 32 buf" by simp
  have "chunkOf T (take 32 buf) = take 32 buf" by (rule chunkOf_id) (use Suc.prems(1) a in simp_all)
  then show ?case by (simp add: b)
qed simp

definition commitmentOf ::
  "('t, 'd) Smt \<Rightarrow> Lib \<Rightarrow> int \<Rightarrow> int \<Rightarrow> byte list \<Rightarrow> byte list \<Rightarrow> byte list \<Rightarrow> int \<Rightarrow> string" where
  "commitmentOf T X height createdAt old new pub ops =
     x_Bytes2Hex X (x_Keccak256Hash X (elem T height @ elem T createdAt @ cleanOf T old @ cleanOf T new @ cleanOf T pub @ elem T ops))"

lemma CreateBlockCommitment_run:
  assumes "field_ok T" "inField T height" "inField T createdAt" "inField T ops"
  shows "CreateBlockCommitment T X height createdAt old new pub ops s = (Ok (commitmentOf T X height createdAt old new pub ops), s)"
  using assms by (simp add: CreateBlockCommitment_def PaddingInt64IntoBuf_def bnd_run orPanic_run fill_elem CleanAndPadding_run commitmentOf_def)

section \<open>The sealed block\<close>

lemma commitNewBlock_small:
  "sz < int (length (sc_Txs (w_sc (n_world n)))) \<Longrightarrow> commitNewBlock T X sz t0 n = (Err (ErrorsNew ''block size too small''), n)"
  by (simp add: commitNewBlock_def bnd_run thn_run failIf_run)

text \<open>The block that is sealed: the proposing block, or a new one after a restart.\<close>

definition openBlock :: "int \<Rightarrow> World \<Rightarrow> Block" where
  "openBlock createdAt w =
     (if bk_BlockStatus (w_currentBlock w) \<noteq> StatusProposing then freshBlock createdAt (w_currentBlock w) else w_currentBlock w)"

definition paddedPubData :: "Lib \<Rightarrow> int \<Rightarrow> StateCache \<Rightarrow> byte list" where
  "paddedPubData X sz c = sc_PubData c @ replicate (nat ((sz - int (length (sc_Txs c))) * 32 * x_PubDataSizePerTx X)) 0"

lemma commitNewBlock_ok:
  fixes leaf :: "'t \<Rightarrow> 64 word \<Rightarrow> byte list"
  assumes X: "libOk X" and T: "smt_ok T leaf rootOf" "field_ok T" and r: "rootReady T X K n accs nfts"
    and sz: "int (length (sc_Txs (w_sc (n_world n)))) \<le> sz" "0 \<le> x_PubDataSizePerTx X"
    and f: "inField T (bk_BlockHeight (openBlock t0 (n_world n)))" "inField T (bk_CreatedAt (openBlock t0 (n_world n)))"
      "inField T (int (length (sc_PubDataOffset (w_sc (n_world n)))))"
  defines "c \<equiv> w_sc (n_world n)" and "b0 \<equiv> openBlock t0 (n_world n)" and "root \<equiv> rootSpec T X leaf rootOf n accs nfts"
  defines "pub \<equiv> paddedPubData X sz c"
  defines "b \<equiv> sealBlock X sz (commitmentOf T X (bk_BlockHeight b0) (bk_CreatedAt b0) (x_FromHex X (bk_StateRoot b0))
    (x_FromHex X root) pub (int (length (sc_PubDataOffset c)))) (c\<lparr>sc_StateRoot := root\<rparr>) b0"
  shows "\<exists>m. commitNewBlock T X sz t0 n = (Ok (b, \<lparr>cb_BlockSize = word_of_int sz, cb_BlockHeight = bk_BlockHeight b0, cb_StateRoot = root,
        cb_PublicData = x_Bytes2Hex X pub, cb_Timestamp = bk_CreatedAt b0, cb_PublicDataOffsets = sc_PubDataOffset c\<rparr>), m) \<and>
      leaf (n_AccountTree m) = accountSpec T X leaf rootOf n accs \<and> leaf (n_NftTree m) = nftSpec T X leaf n nfts \<and>
      w_currentBlock (n_world m) = b \<and> w_sc (n_world m) = packTxs (c\<lparr>sc_StateRoot := root, sc_PubData := pub\<rparr>)"
proof -
  from IntermediateRoot_ok [OF X T(1) r, of False] obtain m where
    m: "IntermediateRoot T X False n = (Ok (), m)" "leaf (n_AccountTree m) = accountSpec T X leaf rootOf n accs"
      "leaf (n_NftTree m) = nftSpec T X leaf n nfts" "w_sc (n_world m) = c\<lparr>sc_StateRoot := root\<rparr>"
    by (auto simp: cleaned_def c_def root_def)
  have al: "AlignPubData X sz (w_sc (n_world m)) = Some (c\<lparr>sc_StateRoot := root, sc_PubData := pub\<rparr>)"
  proof -
    have "0 \<le> (sz - int (length (sc_Txs c))) * 32 * x_PubDataSizePerTx X" using sz by (simp add: c_def)
    then show ?thesis unfolding AlignPubData_def m(4) pub_def paddedPubData_def Let_def by simp
  qed
  let ?c = "c\<lparr>sc_StateRoot := root, sc_PubData := pub\<rparr>"
  have b: "b = sealBlock X sz (commitmentOf T X (bk_BlockHeight b0) (bk_CreatedAt b0) (x_FromHex X (bk_StateRoot b0))
      (x_FromHex X root) pub (int (length (sc_PubDataOffset c)))) ?c b0" by (simp add: b_def sealBlock_def)
  have sel: "bk_BlockHeight b = bk_BlockHeight b0" "bk_CreatedAt b = bk_CreatedAt b0" "bk_StateRoot b = root"
    by (simp_all add: b_def sealBlock_def)
  show ?thesis using f sz(1) unfolding commitNewBlock_def
    by (simp add: bnd_run thn_run failIf_run Let_def openBlock_def [symmetric] b0_def [symmetric] m al [unfolded m(4)] orPanic_run onWorld_run updSc_def
        CreateBlockCommitment_run [OF T(2)] c_def [symmetric] b [symmetric] sel)
qed

end
