(* ===== verification/Zk_PubData.thy ===== *)
theory Zk_PubData
  imports Zk_Env
begin

text \<open>
  The public data of priority requests (src/common/chain/pubdata_helper.go): the parsers of the five
  requests L1 can make, with the sizes of src/types/tx.go. The layouts the contract writes, given in
  the comments of the parsers, are the encoders below; each parser inverts its encoder, and every
  string of the right size is the encoding of what is parsed from it.
\<close>

section \<open>Sizes (src/types/tx.go)\<close>

definition TxTypeBytesSize :: nat where "TxTypeBytesSize = 1"
definition AddressBytesSize :: nat where "AddressBytesSize = 20"
definition AccountIndexBytesSize :: nat where "AccountIndexBytesSize = 4"
definition AccountNameBytesSize :: nat where "AccountNameBytesSize = 32"
definition AccountNameHashBytesSize :: nat where "AccountNameHashBytesSize = 32"
definition PubkeyBytesSize :: nat where "PubkeyBytesSize = 32"
definition AssetIdBytesSize :: nat where "AssetIdBytesSize = 2"
definition StateAmountBytesSize :: nat where "StateAmountBytesSize = 16"
definition NftIndexBytesSize :: nat where "NftIndexBytesSize = 5"
definition NftTokenIdBytesSize :: nat where "NftTokenIdBytesSize = 32"
definition NftContentHashBytesSize :: nat where "NftContentHashBytesSize = 32"
definition FeeRateBytesSize :: nat where "FeeRateBytesSize = 2"
definition CollectionIdBytesSize :: nat where "CollectionIdBytesSize = 2"

lemmas field_sizes = TxTypeBytesSize_def AddressBytesSize_def AccountIndexBytesSize_def AccountNameBytesSize_def
  AccountNameHashBytesSize_def PubkeyBytesSize_def AssetIdBytesSize_def StateAmountBytesSize_def NftIndexBytesSize_def
  NftTokenIdBytesSize_def NftContentHashBytesSize_def FeeRateBytesSize_def CollectionIdBytesSize_def

definition RegisterZnsPubDataSize :: nat where
  "RegisterZnsPubDataSize = TxTypeBytesSize + AccountIndexBytesSize + AccountNameBytesSize +
     AccountNameHashBytesSize + PubkeyBytesSize + PubkeyBytesSize"

definition DepositPubDataSize :: nat where
  "DepositPubDataSize = TxTypeBytesSize + AccountIndexBytesSize + AccountNameHashBytesSize + AssetIdBytesSize +
     StateAmountBytesSize"

definition DepositNftPubDataSize :: nat where
  "DepositNftPubDataSize = TxTypeBytesSize + AccountIndexBytesSize + NftIndexBytesSize + AddressBytesSize +
     AccountIndexBytesSize + FeeRateBytesSize + NftContentHashBytesSize + NftTokenIdBytesSize +
     AccountNameHashBytesSize + CollectionIdBytesSize"

definition FullExitPubDataSize :: nat where
  "FullExitPubDataSize = TxTypeBytesSize + AccountIndexBytesSize + AccountNameHashBytesSize + AssetIdBytesSize +
     StateAmountBytesSize"

definition FullExitNftPubDataSize :: nat where
  "FullExitNftPubDataSize = TxTypeBytesSize + AccountIndexBytesSize + AccountIndexBytesSize + FeeRateBytesSize +
     NftIndexBytesSize + CollectionIdBytesSize + AddressBytesSize + AccountNameHashBytesSize +
     AccountNameHashBytesSize + NftContentHashBytesSize + NftTokenIdBytesSize"

lemmas pubdata_sizes = RegisterZnsPubDataSize_def DepositPubDataSize_def DepositNftPubDataSize_def
  FullExitPubDataSize_def FullExitNftPubDataSize_def

section \<open>Parsers\<close>

text \<open>A read out of the bounds of the slice panics.\<close>

definition slice :: "'a option \<Rightarrow> ('s, err, 'a) comp" where
  "slice x = orPanic ''slice bounds out of range'' x"

definition ParseRegisterZnsPubData :: "Lib \<Rightarrow> byte list \<Rightarrow> ('s, err, RegisterZnsTxInfo) comp" where
  "ParseRegisterZnsPubData X pubData =
     thn (failIf (length pubData \<noteq> RegisterZnsPubDataSize) (ErrorsNew ''[ParseRegisterZnsPubData] invalid size''))
     (bnd (slice (ReadUint8 pubData 0)) (\<lambda>(offset, txType).
      bnd (slice (ReadUint32 pubData offset)) (\<lambda>(offset, accountIndex).
      bnd (slice (ReadBytes32 pubData offset)) (\<lambda>(offset, accountName).
      bnd (slice (ReadBytes32 pubData offset)) (\<lambda>(offset, accountNameHash).
      bnd (slice (ReadBytes32 pubData offset)) (\<lambda>(offset, pubKeyX).
      bnd (slice (ReadBytes32 pubData offset)) (\<lambda>(_, pubKeyY).
      ret \<lparr>rz_TxType = txType, rz_AccountIndex = accountIndex,
           rz_AccountName = CleanAccountName (SerializeAccountName accountName),
           rz_AccountNameHash = accountNameHash, rz_PubKey = x_Bytes2Hex X (x_PubKeyBytes X pubKeyX pubKeyY)\<rparr>)))))))"

definition ParseDepositPubData :: "byte list \<Rightarrow> ('s, err, DepositTxInfo) comp" where
  "ParseDepositPubData pubData =
     thn (failIf (length pubData \<noteq> DepositPubDataSize) (ErrorsNew ''[ParseDepositPubData] invalid size''))
     (bnd (slice (ReadUint8 pubData 0)) (\<lambda>(offset, txType).
      bnd (slice (ReadUint32 pubData offset)) (\<lambda>(offset, accountIndex).
      bnd (slice (ReadBytes32 pubData offset)) (\<lambda>(offset, accountNameHash).
      bnd (slice (ReadUint16 pubData offset)) (\<lambda>(offset, assetId).
      bnd (slice (ReadUint128 pubData offset)) (\<lambda>(_, amount).
      ret \<lparr>dp_TxType = txType, dp_AccountIndex = accountIndex, dp_AccountNameHash = accountNameHash,
           dp_AssetId = assetId, dp_AssetAmount = amount\<rparr>))))))"

definition ParseDepositNftPubData :: "Lib \<Rightarrow> byte list \<Rightarrow> ('s, err, DepositNftTxInfo) comp" where
  "ParseDepositNftPubData X pubData =
     thn (failIf (length pubData \<noteq> DepositNftPubDataSize) (ErrorsNew ''[ParseDepositNftPubData] invalid size''))
     (bnd (slice (ReadUint8 pubData 0)) (\<lambda>(offset, txType).
      bnd (slice (ReadUint32 pubData offset)) (\<lambda>(offset, accountIndex).
      bnd (slice (ReadUint40 pubData offset)) (\<lambda>(offset, nftIndex).
      bnd (slice (ReadAddress (x_AddressHex X) pubData offset)) (\<lambda>(offset, nftL1Address).
      bnd (slice (ReadUint32 pubData offset)) (\<lambda>(offset, creatorAccountIndex).
      bnd (slice (ReadUint16 pubData offset)) (\<lambda>(offset, creatorTreasuryRate).
      bnd (slice (ReadBytes32 pubData offset)) (\<lambda>(offset, nftContentHash).
      bnd (slice (ReadUint256 pubData offset)) (\<lambda>(offset, nftL1TokenId).
      bnd (slice (ReadBytes32 pubData offset)) (\<lambda>(offset, accountNameHash).
      bnd (slice (ReadUint16 pubData offset)) (\<lambda>(_, collectionId).
      ret \<lparr>dn_TxType = txType, dn_AccountIndex = accountIndex, dn_NftIndex = nftIndex, dn_NftL1Address = nftL1Address,
           dn_CreatorAccountIndex = creatorAccountIndex, dn_CreatorTreasuryRate = creatorTreasuryRate,
           dn_NftContentHash = nftContentHash, dn_NftL1TokenId = nftL1TokenId, dn_AccountNameHash = accountNameHash,
           dn_CollectionId = collectionId\<rparr>)))))))))))"

definition ParseFullExitPubData :: "byte list \<Rightarrow> ('s, err, FullExitTxInfo) comp" where
  "ParseFullExitPubData pubData =
     thn (failIf (length pubData \<noteq> FullExitPubDataSize) (ErrorsNew ''[ParseFullExitPubData] invalid size''))
     (bnd (slice (ReadUint8 pubData 0)) (\<lambda>(offset, txType).
      bnd (slice (ReadUint32 pubData offset)) (\<lambda>(offset, accountIndex).
      bnd (slice (ReadUint16 pubData offset)) (\<lambda>(offset, assetId).
      bnd (slice (ReadUint128 pubData offset)) (\<lambda>(offset, assetAmount).
      bnd (slice (ReadBytes32 pubData offset)) (\<lambda>(_, accountNameHash).
      ret \<lparr>fe_TxType = txType, fe_AccountIndex = accountIndex, fe_AccountNameHash = accountNameHash,
           fe_AssetId = assetId, fe_AssetAmount = assetAmount\<rparr>))))))"

definition ParseFullExitNftPubData :: "Lib \<Rightarrow> byte list \<Rightarrow> ('s, err, FullExitNftTxInfo) comp" where
  "ParseFullExitNftPubData X pubData =
     thn (failIf (length pubData \<noteq> FullExitNftPubDataSize) (ErrorsNew ''[ParseFullExitNftPubData] invalid size''))
     (bnd (slice (ReadUint8 pubData 0)) (\<lambda>(offset, txType).
      bnd (slice (ReadUint32 pubData offset)) (\<lambda>(offset, accountIndex).
      bnd (slice (ReadUint32 pubData offset)) (\<lambda>(offset, creatorAccountIndex).
      bnd (slice (ReadUint16 pubData offset)) (\<lambda>(offset, creatorTreasuryRate).
      bnd (slice (ReadUint40 pubData offset)) (\<lambda>(offset, nftIndex).
      bnd (slice (ReadUint16 pubData offset)) (\<lambda>(offset, collectionId).
      bnd (slice (ReadAddress (x_AddressHex X) pubData offset)) (\<lambda>(offset, nftL1Address).
      bnd (slice (ReadBytes32 pubData offset)) (\<lambda>(offset, accountNameHash).
      bnd (slice (ReadBytes32 pubData offset)) (\<lambda>(offset, creatorAccountNameHash).
      bnd (slice (ReadBytes32 pubData offset)) (\<lambda>(offset, nftContentHash).
      bnd (slice (ReadUint256 pubData offset)) (\<lambda>(_, nftL1TokenId).
      ret \<lparr>fn_TxType = txType, fn_AccountIndex = accountIndex, fn_CreatorAccountIndex = creatorAccountIndex,
           fn_CreatorTreasuryRate = creatorTreasuryRate, fn_NftIndex = nftIndex, fn_CollectionId = collectionId,
           fn_NftL1Address = nftL1Address, fn_AccountNameHash = accountNameHash,
           fn_CreatorAccountNameHash = creatorAccountNameHash, fn_NftContentHash = nftContentHash,
           fn_NftL1TokenId = Some nftL1TokenId\<rparr>))))))))))))"

section \<open>Layouts\<close>

text \<open>
  A layout is a list of byte fields; the parsers read the fields of a layout in order. \<open>fieldsAt\<close>
  cuts a buffer at the widths of a layout.
\<close>

fun fieldsAt :: "nat list \<Rightarrow> byte list \<Rightarrow> byte list list" where
  "fieldsAt [] bs = []"
| "fieldsAt (w # ws) bs = take w bs # fieldsAt ws (drop w bs)"

lemma concat_fieldsAt: "length bs = sum_list ws \<Longrightarrow> concat (fieldsAt ws bs) = bs"
  by (induction ws bs rule: fieldsAt.induct) auto

lemma fieldsAt_concat: "map length fs = ws \<Longrightarrow> fieldsAt ws (concat fs) = fs"
  by (induction fs arbitrary: ws) auto

lemma length_fieldsAt: "sum_list ws \<le> length bs \<Longrightarrow> map length (fieldsAt ws bs) = ws"
  by (induction ws bs rule: fieldsAt.induct) auto

definition depositLayout :: "nat list" where "depositLayout = [1, 4, 32, 2, 16]"
definition depositNftLayout :: "nat list" where "depositNftLayout = [1, 4, 5, 20, 4, 2, 32, 32, 32, 2]"
definition fullExitLayout :: "nat list" where "fullExitLayout = [1, 4, 2, 16, 32]"
definition fullExitNftLayout :: "nat list" where "fullExitNftLayout = [1, 4, 4, 2, 5, 2, 20, 32, 32, 32, 32]"
definition registerZnsLayout :: "nat list" where "registerZnsLayout = [1, 4, 32, 32, 32, 32]"

lemmas layout_defs = depositLayout_def depositNftLayout_def fullExitLayout_def fullExitNftLayout_def registerZnsLayout_def

text \<open>What the contract writes for a deposit and a full exit.\<close>

definition encodeDeposit :: "DepositTxInfo \<Rightarrow> byte list" where
  "encodeDeposit t = concat [beBytes 1 (nat (dp_TxType t)), beBytes 4 (nat (dp_AccountIndex t)), dp_AccountNameHash t,
     beBytes 2 (nat (dp_AssetId t)), beBytes 16 (nat (dp_AssetAmount t))]"

definition depositFits :: "DepositTxInfo \<Rightarrow> bool" where
  "depositFits t \<longleftrightarrow> 0 \<le> dp_TxType t \<and> dp_TxType t < 256 \<and> 0 \<le> dp_AccountIndex t \<and> dp_AccountIndex t < 2 ^ 32 \<and>
     length (dp_AccountNameHash t) = 32 \<and> 0 \<le> dp_AssetId t \<and> dp_AssetId t < 2 ^ 16 \<and>
     0 \<le> dp_AssetAmount t \<and> dp_AssetAmount t < 2 ^ 128"

definition encodeFullExit :: "FullExitTxInfo \<Rightarrow> byte list" where
  "encodeFullExit t = concat [beBytes 1 (nat (fe_TxType t)), beBytes 4 (nat (fe_AccountIndex t)),
     beBytes 2 (nat (fe_AssetId t)), beBytes 16 (nat (fe_AssetAmount t)), fe_AccountNameHash t]"

definition fullExitFits :: "FullExitTxInfo \<Rightarrow> bool" where
  "fullExitFits t \<longleftrightarrow> 0 \<le> fe_TxType t \<and> fe_TxType t < 256 \<and> 0 \<le> fe_AccountIndex t \<and> fe_AccountIndex t < 2 ^ 32 \<and>
     length (fe_AccountNameHash t) = 32 \<and> 0 \<le> fe_AssetId t \<and> fe_AssetId t < 2 ^ 16 \<and>
     0 \<le> fe_AssetAmount t \<and> fe_AssetAmount t < 2 ^ 128"

section \<open>Lemmas\<close>

lemma slice_run [run]: "slice x s = (case x of None \<Rightarrow> (Panic ''slice bounds out of range'', s) | Some a \<Rightarrow> (Ok a, s))"
  by (simp add: slice_def run)

lemma read_uint8: "xs \<noteq> [] \<Longrightarrow> SetBytes (take 1 xs) = uint (hd xs)"
  by (cases xs) (simp_all add: SetBytes_def)

lemma SetBytes_single: "SetBytes [b] = uint b" by (simp add: SetBytes_def)

text \<open>Reading inside the buffer.\<close>

lemma reads [run]:
  "off < length bs \<Longrightarrow> ReadUint8 bs off = Some (off + 1, SetBytes (take 1 (drop off bs)))"
  "off + 2 \<le> length bs \<Longrightarrow> ReadUint16 bs off = Some (off + 2, SetBytes (take 2 (drop off bs)))"
  "off + 4 \<le> length bs \<Longrightarrow> ReadUint32 bs off = Some (off + 4, SetBytes (take 4 (drop off bs)))"
  "off + 5 \<le> length bs \<Longrightarrow> ReadUint40 bs off = Some (off + 5, SetBytes (take 5 (drop off bs)))"
  "off + 16 \<le> length bs \<Longrightarrow> ReadUint128 bs off = Some (off + 16, SetBytes (take 16 (drop off bs)))"
  "off + 32 \<le> length bs \<Longrightarrow> ReadUint256 bs off = Some (off + 32, SetBytes (take 32 (drop off bs)))"
  "off + 32 \<le> length bs \<Longrightarrow> ReadBytes32 bs off = Some (off + 32, take 32 (drop off bs))"
  "off + 20 \<le> length bs \<Longrightarrow> ReadAddress h bs off = Some (off + 20, h (take 20 (drop off bs)))"
  by (simp_all add: ReadUint8_def ReadUint16_def ReadUint32_def ReadUint40_def ReadUint128_def ReadUint256_def
      ReadBytes32_def ReadAddress_def sliceAt_def take_Suc_conv_app_nth hd_drop_conv_nth read_uint8 drop_eq_Nil2 del: One_nat_def)

text \<open>A parser reads exactly the fields of its layout.\<close>

lemma ParseDeposit_eq:
  "ParseDepositPubData bs s =
     (if length bs = 55 then
        (case fieldsAt depositLayout bs of [ty, ai, h, a, m] \<Rightarrow>
           (Ok \<lparr>dp_TxType = SetBytes ty, dp_AccountIndex = SetBytes ai, dp_AccountNameHash = h,
                dp_AssetId = SetBytes a, dp_AssetAmount = SetBytes m\<rparr>, s))
      else (Err (ErrorsNew ''[ParseDepositPubData] invalid size''), s))"
  by (simp add: ParseDepositPubData_def pubdata_sizes field_sizes run layout_defs add.commute)

lemma ParseFullExit_eq:
  "ParseFullExitPubData bs s =
     (if length bs = 55 then
        (case fieldsAt fullExitLayout bs of [ty, ai, a, m, h] \<Rightarrow>
           (Ok \<lparr>fe_TxType = SetBytes ty, fe_AccountIndex = SetBytes ai, fe_AccountNameHash = h,
                fe_AssetId = SetBytes a, fe_AssetAmount = SetBytes m\<rparr>, s))
      else (Err (ErrorsNew ''[ParseFullExitPubData] invalid size''), s))"
  by (simp add: ParseFullExitPubData_def pubdata_sizes field_sizes run layout_defs add.commute)

lemma ParseRegisterZns_eq:
  "ParseRegisterZnsPubData X bs s =
     (if length bs = 133 then
        (case fieldsAt registerZnsLayout bs of [ty, ai, n, h, x, y] \<Rightarrow>
           (Ok \<lparr>rz_TxType = SetBytes ty, rz_AccountIndex = SetBytes ai,
                rz_AccountName = CleanAccountName (SerializeAccountName n), rz_AccountNameHash = h,
                rz_PubKey = x_Bytes2Hex X (x_PubKeyBytes X x y)\<rparr>, s))
      else (Err (ErrorsNew ''[ParseRegisterZnsPubData] invalid size''), s))"
  by (simp add: ParseRegisterZnsPubData_def pubdata_sizes field_sizes run layout_defs add.commute)

lemma ParseDepositNft_eq:
  "ParseDepositNftPubData X bs s =
     (if length bs = 134 then
        (case fieldsAt depositNftLayout bs of [ty, ai, n, l1, c, r, h, tid, nh, col] \<Rightarrow>
           (Ok \<lparr>dn_TxType = SetBytes ty, dn_AccountIndex = SetBytes ai, dn_NftIndex = SetBytes n,
                dn_NftL1Address = x_AddressHex X l1, dn_CreatorAccountIndex = SetBytes c,
                dn_CreatorTreasuryRate = SetBytes r, dn_NftContentHash = h, dn_NftL1TokenId = SetBytes tid,
                dn_AccountNameHash = nh, dn_CollectionId = SetBytes col\<rparr>, s))
      else (Err (ErrorsNew ''[ParseDepositNftPubData] invalid size''), s))"
  by (simp add: ParseDepositNftPubData_def pubdata_sizes field_sizes run layout_defs add.commute)

lemma ParseFullExitNft_eq:
  "ParseFullExitNftPubData X bs s =
     (if length bs = 166 then
        (case fieldsAt fullExitNftLayout bs of [ty, ai, c, r, n, col, l1, h, ch, nh, tid] \<Rightarrow>
           (Ok \<lparr>fn_TxType = SetBytes ty, fn_AccountIndex = SetBytes ai, fn_CreatorAccountIndex = SetBytes c,
                fn_CreatorTreasuryRate = SetBytes r, fn_NftIndex = SetBytes n, fn_CollectionId = SetBytes col,
                fn_NftL1Address = x_AddressHex X l1, fn_AccountNameHash = h, fn_CreatorAccountNameHash = ch,
                fn_NftContentHash = nh, fn_NftL1TokenId = Some (SetBytes tid)\<rparr>, s))
      else (Err (ErrorsNew ''[ParseFullExitNftPubData] invalid size''), s))"
  by (simp add: ParseFullExitNftPubData_def pubdata_sizes field_sizes run layout_defs add.commute)

lemmas parse_eqs = ParseDeposit_eq ParseFullExit_eq ParseRegisterZns_eq ParseDepositNft_eq ParseFullExitNft_eq

text \<open>Reading and writing one unsigned field.\<close>

lemma field_id: "length bs = n \<Longrightarrow> beBytes n (nat (SetBytes bs)) = bs"
  using beBytes_SetBytes [of bs] by simp

lemma field_bound: "length bs = n \<Longrightarrow> 0 \<le> SetBytes bs \<and> SetBytes bs < 256 ^ n"
  using SetBytes_bound [of bs] by simp

lemma field_read: "0 \<le> x \<Longrightarrow> x < 256 ^ n \<Longrightarrow> SetBytes (beBytes n (nat x)) = x"
  by (simp add: SetBytes_beBytes nat_less_iff)

lemma powers_256: "(256 :: int) ^ 1 = 256" "(256 :: int) ^ 4 = 2 ^ 32" "(256 :: int) ^ 2 = 2 ^ 16" "(256 :: int) ^ 16 = 2 ^ 128"
  by simp_all

lemmas field_reads = field_read [of _ 1, unfolded powers_256] field_read [of _ 4, unfolded powers_256]
  field_read [of _ 2, unfolded powers_256] field_read [of _ 16, unfolded powers_256]

lemmas field_bounds = field_bound [of _ 1, unfolded powers_256] field_bound [of _ 4, unfolded powers_256]
  field_bound [of _ 2, unfolded powers_256] field_bound [of _ 16, unfolded powers_256]

lemma encodeDeposit_length: "depositFits d \<Longrightarrow> length (encodeDeposit d) = 55"
  unfolding depositFits_def encodeDeposit_def by simp

lemma encodeFullExit_length: "fullExitFits d \<Longrightarrow> length (encodeFullExit d) = 55"
  unfolding fullExitFits_def encodeFullExit_def by simp

lemma five_fields:
  assumes "length bs = sum_list [p, q, r, u, v]"
  obtains a b c d e where "fieldsAt [p, q, r, u, v] bs = [a, b, c, d, e]" "bs = concat [a, b, c, d, e]"
    "length a = p" "length b = q" "length c = r" "length d = u" "length e = v"
proof -
  have "map length (fieldsAt [p, q, r, u, v] bs) = [p, q, r, u, v]" by (rule length_fieldsAt) (simp add: assms)
  moreover have "bs = concat (fieldsAt [p, q, r, u, v] bs)" by (rule concat_fieldsAt [OF assms, symmetric])
  ultimately show thesis
    by (intro that [of "take p bs" "take q (drop p bs)" "take r (drop q (drop p bs))" "take u (drop r (drop q (drop p bs)))"
        "take v (drop u (drop r (drop q (drop p bs))))"]) (simp_all only: fieldsAt.simps list.map list.inject simp_thms)
qed

lemma ParseDeposit_encode:
  assumes "depositFits d"
  shows "ParseDepositPubData (encodeDeposit d) s = (Ok d, s)"
proof -
  from assms have f: "fieldsAt depositLayout (encodeDeposit d) = [beBytes 1 (nat (dp_TxType d)), beBytes 4 (nat (dp_AccountIndex d)), dp_AccountNameHash d,
     beBytes 2 (nat (dp_AssetId d)), beBytes 16 (nat (dp_AssetAmount d))]"
    unfolding encodeDeposit_def depositFits_def by (simp only: fieldsAt_concat depositLayout_def list.map length_beBytes)
  from assms f show ?thesis
    unfolding ParseDeposit_eq encodeDeposit_length [OF assms] depositFits_def by (simp only: if_True list.case field_reads simp_thms) simp
qed

section \<open>Properties\<close>

text \<open>
  C13. \<open>ParseDepositPubData\<close> is the inverse of the contract's encoding of a deposit: it accepts exactly the
  encodings of deposits whose fields fit their widths, and returns the deposit that was encoded. No two
  deposits share an encoding and no encoding is read in two ways.
\<close>

theorem deposit_pubdata_roundtrip:
  "ParseDepositPubData bs s = (Ok d, t) \<longleftrightarrow> depositFits d \<and> bs = encodeDeposit d \<and> t = s"
proof
  assume p: "ParseDepositPubData bs s = (Ok d, t)"
  then have l: "length bs = 55" by (auto simp: ParseDeposit_eq split: if_splits)
  then have "length bs = sum_list [1, 4, 32, 2, 16]" by simp
  then obtain a b c m e where f: "fieldsAt depositLayout bs = [a, b, c, m, e]" "bs = concat [a, b, c, m, e]"
    "length a = 1" "length b = 4" "length c = 32" "length m = 2" "length e = 16" unfolding depositLayout_def by (rule five_fields)
  have d: "d = \<lparr>dp_TxType = SetBytes a, dp_AccountIndex = SetBytes b, dp_AccountNameHash = c, dp_AssetId = SetBytes m,
      dp_AssetAmount = SetBytes e\<rparr>" "t = s" using p by (simp_all add: ParseDeposit_eq l f(1))
  have "depositFits d" unfolding depositFits_def d
    using field_bounds(1) [OF f(3)] field_bounds(2) [OF f(4)] field_bounds(3) [OF f(6)] field_bounds(4) [OF f(7)] f(5)
    by (simp only: DepositTxInfo.select_convs simp_thms)
  moreover have "bs = encodeDeposit d" unfolding encodeDeposit_def d
    by (simp only: DepositTxInfo.select_convs field_id [OF f(3)] field_id [OF f(4)] field_id [OF f(6)] field_id [OF f(7)] f(2))
  ultimately show "depositFits d \<and> bs = encodeDeposit d \<and> t = s" using d(2) by blast
next
  assume "depositFits d \<and> bs = encodeDeposit d \<and> t = s"
  then show "ParseDepositPubData bs s = (Ok d, t)" by (elim conjE) (simp only: ParseDeposit_encode)
qed

text \<open>C14. The same of \<open>ParseFullExitPubData\<close> and the contract's encoding of a full exit.\<close>

theorem full_exit_pubdata_roundtrip:
  "ParseFullExitPubData bs s = (Ok d, t) \<longleftrightarrow> fullExitFits d \<and> bs = encodeFullExit d \<and> t = s"
proof
  assume p: "ParseFullExitPubData bs s = (Ok d, t)"
  then have l: "length bs = 55" by (auto simp: ParseFullExit_eq split: if_splits)
  then have "length bs = sum_list [1, 4, 2, 16, 32]" by simp
  then obtain a b c m e where f: "fieldsAt fullExitLayout bs = [a, b, c, m, e]" "bs = concat [a, b, c, m, e]"
    "length a = 1" "length b = 4" "length c = 2" "length m = 16" "length e = 32" unfolding fullExitLayout_def by (rule five_fields)
  have d: "d = \<lparr>fe_TxType = SetBytes a, fe_AccountIndex = SetBytes b, fe_AccountNameHash = e, fe_AssetId = SetBytes c,
      fe_AssetAmount = SetBytes m\<rparr>" "t = s" using p by (simp_all add: ParseFullExit_eq l f(1))
  have "fullExitFits d" unfolding fullExitFits_def d
    using field_bounds(1) [OF f(3)] field_bounds(2) [OF f(4)] field_bounds(3) [OF f(5)] field_bounds(4) [OF f(6)] f(7)
    by (simp only: FullExitTxInfo.select_convs simp_thms)
  moreover have "bs = encodeFullExit d" unfolding encodeFullExit_def d
    by (simp only: FullExitTxInfo.select_convs field_id [OF f(3)] field_id [OF f(4)] field_id [OF f(5)] field_id [OF f(6)] f(2))
  ultimately show "fullExitFits d \<and> bs = encodeFullExit d \<and> t = s" using d(2) by blast
next
  assume a: "fullExitFits d \<and> bs = encodeFullExit d \<and> t = s"
  then have f: "fieldsAt fullExitLayout bs = [beBytes 1 (nat (fe_TxType d)), beBytes 4 (nat (fe_AccountIndex d)),
     beBytes 2 (nat (fe_AssetId d)), beBytes 16 (nat (fe_AssetAmount d)), fe_AccountNameHash d]"
    unfolding encodeFullExit_def fullExitFits_def by (simp only: fieldsAt_concat fullExitLayout_def list.map length_beBytes)
  from a have "length bs = 55" by (simp add: encodeFullExit_length)
  with a f show "ParseFullExitPubData bs s = (Ok d, t)"
    unfolding ParseFullExit_eq fullExitFits_def by (simp only: if_True list.case field_reads simp_thms) simp
qed

text \<open>
  C15. No parser of the public data of a priority operation panics or has an effect, on any buffer: a
  buffer of the size of the operation is parsed, every other one is an error.
\<close>

theorem parsers_total:
  "(case ParseRegisterZnsPubData X bs s of (Ok _, t) \<Rightarrow> length bs = 133 \<and> t = s | (Err _, t) \<Rightarrow> length bs \<noteq> 133 \<and> t = s | (Panic _, _) \<Rightarrow> False) \<and>
   (case ParseDepositPubData bs s of (Ok _, t) \<Rightarrow> length bs = 55 \<and> t = s | (Err _, t) \<Rightarrow> length bs \<noteq> 55 \<and> t = s | (Panic _, _) \<Rightarrow> False) \<and>
   (case ParseDepositNftPubData X bs s of (Ok _, t) \<Rightarrow> length bs = 134 \<and> t = s | (Err _, t) \<Rightarrow> length bs \<noteq> 134 \<and> t = s | (Panic _, _) \<Rightarrow> False) \<and>
   (case ParseFullExitPubData bs s of (Ok _, t) \<Rightarrow> length bs = 55 \<and> t = s | (Err _, t) \<Rightarrow> length bs \<noteq> 55 \<and> t = s | (Panic _, _) \<Rightarrow> False) \<and>
   (case ParseFullExitNftPubData X bs s of (Ok _, t) \<Rightarrow> length bs = 166 \<and> t = s | (Err _, t) \<Rightarrow> length bs \<noteq> 166 \<and> t = s | (Panic _, _) \<Rightarrow> False)"
  by (simp add: parse_eqs layout_defs)

end
