(* ===== verification/Zk_Rollup.thy ===== *)
theory Zk_Rollup
  imports Zk_Block Zk_PubData
begin

text \<open>
  The tables the services facing L1 share (src/dao/block, compressedblock, l1rolluptx, proof,
  priorityrequest, l1syncedblock, tx) and their queries. A table is the list of its visible rows; rows
  an \<open>ORDER BY\<close> does not separate come in the order of the table. The database answers or not for the
  whole of a call (\<open>ru_down\<close>), and may refuse writes alone (\<open>ru_readOnly\<close>). \<open>ru_sent\<close> is the trace of
  the transactions sent to L1.
\<close>

section \<open>Rows\<close>

record BlockRow = Block +
  bk_ID :: int
  bk_CommittedTxHash :: string
  bk_CommittedAt :: int
  bk_VerifiedTxHash :: string
  bk_VerifiedAt :: int

datatype rollupStatus = RollupPending | RollupHandled
datatype rollupType = TxTypeCommit | TxTypeVerifyAndExecute

record L1RollupTx =
  rt_ID :: int
  rt_UpdatedAt :: int
  rt_L1TxHash :: string
  rt_TxStatus :: rollupStatus
  rt_TxType :: rollupType
  rt_L2BlockHeight :: int

datatype proofStatus = NotSent | NotConfirmed | Confirmed

record Proof =
  pf_ID :: int
  pf_ProofInfo :: string
  pf_BlockNumber :: int
  pf_Status :: proofStatus

datatype requestStatus = RequestPending | RequestHandled

record PriorityRequest =
  pr_ID :: int
  pr_L1TxHash :: string
  pr_L1BlockHeight :: int
  pr_SenderAddress :: string
  pr_RequestId :: int
  pr_TxType :: int
  pr_Pubdata :: string
  pr_ExpirationBlock :: int
  pr_Status :: requestStatus
  pr_L2TxHash :: string

datatype syncType = TypeGeneric | TypeGovernance

text \<open>The text of \<open>BlockInfo\<close> is the list of events it encodes.\<close>

record L1Event =
  ev_EventType :: int
  ev_TxHash :: string

record L1SyncedBlock =
  sy_L1BlockHeight :: int
  sy_BlockInfo :: "L1Event list"
  sy_Type :: syncType

record Asset =
  as_ID :: int
  as_AssetId :: "32 word"
  as_AssetName :: string
  as_AssetSymbol :: string
  as_L1Address :: string
  as_Decimals :: "32 word"
  as_Status :: "32 word"
  as_IsGasAsset :: "32 word"

record SysConfig =
  cf_ID :: int
  cf_Name :: string
  cf_Value :: string
  cf_ValueType :: string
  cf_Comment :: string

text \<open>Calls of the rollup contract (zkbnb-eth-rpc).\<close>

record CommitBlockInfo =
  ci_NewStateRoot :: "byte list"
  ci_PublicData :: "byte list"
  ci_Timestamp :: int
  ci_PublicDataOffsets :: "32 word list"
  ci_BlockNumber :: "32 word"
  ci_BlockSize :: "16 word"

record VerifyBlockInfo =
  vi_BlockHeader :: StorageStoredBlockInfo
  vi_PendingOnchainOpsPubData :: "byte list list"

datatype l1Call =
    CommitCall StorageStoredBlockInfo "CommitBlockInfo list" int "64 word"
  | VerifyCall "VerifyBlockInfo list" "int list" int "64 word"

text \<open>Unique indexes keep the hashes of deleted pool rows and the ids of deleted assets; rows are numbered
  from one counter.\<close>

record Rollup =
  ru_down :: bool
  ru_readOnly :: bool
  ru_nextId :: int
  ru_now :: int
  ru_Block :: "BlockRow list"
  ru_CompressedBlock :: "CompressedBlock list"
  ru_L1RollupTx :: "L1RollupTx list"
  ru_Proof :: "Proof list"
  ru_PriorityRequest :: "PriorityRequest list"
  ru_L1SyncedBlock :: "L1SyncedBlock list"
  ru_TxPool :: "Tx list"
  ru_poolHashes :: "string list"
  ru_Tx :: "Tx list"
  ru_Asset :: "Asset list"
  ru_assetIds :: "32 word list"
  ru_SysConfig :: "SysConfig list"
  ru_sent :: "l1Call list"

type_synonym 'a rollupM = "(Rollup, err, 'a) comp"

section \<open>Queries\<close>

definition sqlErr :: err where "sqlErr = ErrorsNew ''sql''"

definition query :: "(Rollup \<Rightarrow> 'a) \<Rightarrow> 'a rollupM" where
  "query f = (\<lambda>s. if ru_down s then (Err DbErrSqlOperation, s) else (Ok (f s), s))"

text \<open>\<open>RowsAffected == 0\<close> is \<open>DbErrNotFound\<close>.\<close>

definition queryRows :: "(Rollup \<Rightarrow> 'a list) \<Rightarrow> 'a list rollupM" where
  "queryRows f = bnd (query f) (\<lambda>rows. if rows = [] then throw DbErrNotFound else ret rows)"

definition queryRow :: "(Rollup \<Rightarrow> 'a list) \<Rightarrow> 'a rollupM" where
  "queryRow f = bnd (queryRows f) (\<lambda>rows. ret (hd rows))"

definition update :: "(Rollup \<Rightarrow> Rollup) \<Rightarrow> unit rollupM" where
  "update f = (\<lambda>s. if ru_down s \<or> ru_readOnly s then (Err sqlErr, s) else (Ok (), f s))"

text \<open>\<open>db.Transaction\<close>: an error or a panic undoes the writes of the body.\<close>

definition transaction :: "'a rollupM \<Rightarrow> 'a rollupM" where
  "transaction m = (\<lambda>s. case m s of (Ok a, t) \<Rightarrow> (Ok a, t) | (Err e, _) \<Rightarrow> (Err e, s) | (Panic p, _) \<Rightarrow> (Panic p, s))"

subsection \<open>src/dao/l1rolluptx\<close>

definition CreateL1RollupTx :: "string \<Rightarrow> rollupStatus \<Rightarrow> rollupType \<Rightarrow> int \<Rightarrow> unit rollupM" where
  "CreateL1RollupTx l1TxHash status ty height =
     update (\<lambda>s. s\<lparr>ru_nextId := ru_nextId s + 1, ru_L1RollupTx := ru_L1RollupTx s @
       [\<lparr>rt_ID = ru_nextId s, rt_UpdatedAt = ru_now s, rt_L1TxHash = l1TxHash, rt_TxStatus = status, rt_TxType = ty,
         rt_L2BlockHeight = height\<rparr>]\<rparr>)"

definition GetLatestPendingTx :: "rollupType \<Rightarrow> L1RollupTx rollupM" where
  "GetLatestPendingTx ty = queryRow (\<lambda>s. filter (\<lambda>r. rt_TxType r = ty \<and> rt_TxStatus r = RollupPending) (ru_L1RollupTx s))"

definition GetLatestHandledTx :: "rollupType \<Rightarrow> L1RollupTx rollupM" where
  "GetLatestHandledTx ty = queryRow (\<lambda>s. sort_key (\<lambda>r. - rt_L2BlockHeight r)
     (filter (\<lambda>r. rt_TxType r = ty \<and> rt_TxStatus r = RollupHandled) (ru_L1RollupTx s)))"

definition typeNo :: "rollupType \<Rightarrow> int" where
  "typeNo ty = (case ty of TxTypeCommit \<Rightarrow> 1 | TxTypeVerifyAndExecute \<Rightarrow> 2)"

definition GetL1RollupTxsByStatus :: "rollupStatus \<Rightarrow> L1RollupTx list rollupM" where
  "GetL1RollupTxsByStatus st = queryRows (\<lambda>s. sort_key rt_L2BlockHeight (sort_key (\<lambda>r. typeNo (rt_TxType r))
     (filter (\<lambda>r. rt_TxStatus r = st) (ru_L1RollupTx s))))"

definition GetL1RollupTxsByHash :: "string \<Rightarrow> L1RollupTx list rollupM" where
  "GetL1RollupTxsByHash h = queryRows (\<lambda>s. filter (\<lambda>r. rt_L1TxHash r = h) (ru_L1RollupTx s))"

definition DeleteL1RollupTx :: "L1RollupTx \<Rightarrow> unit rollupM" where
  "DeleteL1RollupTx r = transaction (bnd (gets (\<lambda>s. \<exists>x \<in> set (ru_L1RollupTx s). rt_ID x = rt_ID r)) (\<lambda>found.
     thn (update (\<lambda>s. s\<lparr>ru_L1RollupTx := filter (\<lambda>x. rt_ID x \<noteq> rt_ID r) (ru_L1RollupTx s)\<rparr>))
       (failIf (\<not> found) (ErrorsNew ''fail to delete l1 rollup tx''))))"

definition updateRow :: "('a \<Rightarrow> int) \<Rightarrow> 'a \<Rightarrow> 'a list \<Rightarrow> 'a list" where
  "updateRow key r = map (\<lambda>x. if key x = key r then r else x)"

text \<open>\<open>Updates\<close> sets \<open>updated_at\<close>.\<close>

definition UpdateL1RollupTxsInTransact :: "L1RollupTx list \<Rightarrow> unit rollupM" where
  "UpdateL1RollupTxsInTransact rows = forM rows (\<lambda>r.
     bnd (gets (\<lambda>s. \<exists>x \<in> set (ru_L1RollupTx s). rt_ID x = rt_ID r)) (\<lambda>found.
     thn (update (\<lambda>s. s\<lparr>ru_L1RollupTx := updateRow rt_ID (r\<lparr>rt_UpdatedAt := ru_now s\<rparr>) (ru_L1RollupTx s)\<rparr>))
       (failIf (\<not> found) (ErrorsNew ''invalid rollup tx''))))"

subsection \<open>src/dao/compressedblock, src/dao/block\<close>

definition GetCompressedBlocksBetween :: "int \<Rightarrow> int \<Rightarrow> CompressedBlock list rollupM" where
  "GetCompressedBlocksBetween start end' = queryRows (\<lambda>s. sort_key cb_BlockHeight
     (filter (\<lambda>b. start \<le> cb_BlockHeight b \<and> cb_BlockHeight b \<le> end') (ru_CompressedBlock s)))"

definition GetCommittedBlocksBetween :: "int \<Rightarrow> int \<Rightarrow> BlockRow list rollupM" where
  "GetCommittedBlocksBetween start end' = queryRows (\<lambda>s. sort_key bk_BlockHeight
     (filter (\<lambda>b. bk_BlockStatus b = BlockCommitted \<and> start \<le> bk_BlockHeight b \<and> bk_BlockHeight b \<le> end') (ru_Block s)))"

definition GetBlockByHeightWithoutTx :: "int \<Rightarrow> BlockRow rollupM" where
  "GetBlockByHeightWithoutTx h = queryRow (\<lambda>s. filter (\<lambda>b. bk_BlockHeight b = h) (ru_Block s))"

definition GetBlockByHeight :: "int \<Rightarrow> BlockRow rollupM" where
  "GetBlockByHeight h = bnd (GetBlockByHeightWithoutTx h) (\<lambda>b.
     ret (b\<lparr>bk_Txs := sort_key tx_TxIndex (bk_Txs b)\<rparr>))"

definition UpdateBlocksWithoutTxsInTransact :: "BlockRow list \<Rightarrow> unit rollupM" where
  "UpdateBlocksWithoutTxsInTransact rows = forM rows (\<lambda>r.
     bnd (gets (\<lambda>s. \<exists>x \<in> set (ru_Block s). bk_ID x = bk_ID r)) (\<lambda>found.
     thn (update (\<lambda>s. s\<lparr>ru_Block := map (\<lambda>x. if bk_ID x = bk_ID r then r\<lparr>bk_Txs := bk_Txs x\<rparr> else x) (ru_Block s)\<rparr>))
       (failIf (\<not> found) (ErrorsNew ''fail to update block''))))"

subsection \<open>src/dao/proof\<close>

definition GetProofsBetween :: "int \<Rightarrow> int \<Rightarrow> Proof list rollupM" where
  "GetProofsBetween start end' = queryRows (\<lambda>s. sort_key pf_BlockNumber
     (filter (\<lambda>p. start \<le> pf_BlockNumber p \<and> pf_BlockNumber p \<le> end' \<and> pf_Status p = NotSent) (ru_Proof s)))"

text \<open>A Go map from heights to statuses; \<open>range\<close> visits the heights in the order of the parameter.\<close>

definition UpdateProofsInTransact :: "Lib \<Rightarrow> proofStatus gomap \<Rightarrow> unit rollupM" where
  "UpdateProofsInTransact X m = forM (x_range X (mkeys m)) (\<lambda>h.
     bnd (gets (\<lambda>s. \<exists>p \<in> set (ru_Proof s). pf_BlockNumber p = h)) (\<lambda>found.
     thn (thn (query (\<lambda>_. ())) (failIf (\<not> found) (ErrorsNew ''no such proof'')))
       (update (\<lambda>s. s\<lparr>ru_Proof := map (\<lambda>p. if pf_BlockNumber p = h then p\<lparr>pf_Status := the (mget m h)\<rparr> else p) (ru_Proof s)\<rparr>))))"

subsection \<open>src/dao/priorityrequest, src/dao/l1syncedblock, src/dao/tx\<close>

definition GetPriorityRequestsByStatus :: "requestStatus \<Rightarrow> PriorityRequest list rollupM" where
  "GetPriorityRequestsByStatus st = queryRows (\<lambda>s. sort_key pr_RequestId (filter (\<lambda>r. pr_Status r = st) (ru_PriorityRequest s)))"

definition GetLatestHandledRequestId :: "int rollupM" where
  "GetLatestHandledRequestId = bnd (mapErr (\<lambda>_. sqlErr) (query (\<lambda>s. sort_key (\<lambda>r. - pr_RequestId r)
     (filter (\<lambda>r. pr_Status r = RequestHandled) (ru_PriorityRequest s))))) (\<lambda>rows.
       case rows of [] \<Rightarrow> ret (-1) | r # _ \<Rightarrow> ret (pr_RequestId r))"

definition UpdateHandledPriorityRequestsInTransact :: "PriorityRequest list \<Rightarrow> unit rollupM" where
  "UpdateHandledPriorityRequestsInTransact rows = forM rows (\<lambda>r.
     bnd (gets (\<lambda>s. length (filter (\<lambda>x. pr_ID x = pr_ID r) (ru_PriorityRequest s)))) (\<lambda>n.
     thn (update (\<lambda>s. s\<lparr>ru_PriorityRequest :=
         map (\<lambda>x. if pr_ID x = pr_ID r then x\<lparr>pr_Status := RequestHandled, pr_L2TxHash := pr_L2TxHash r\<rparr> else x) (ru_PriorityRequest s)\<rparr>))
       (failIf (n \<noteq> 1) (ErrorsNew ''fail to update priority request''))))"

definition CreatePriorityRequestsInTransact :: "PriorityRequest list \<Rightarrow> unit rollupM" where
  "CreatePriorityRequestsInTransact rows = (if rows = [] then ret () else
     update (\<lambda>s. s\<lparr>ru_nextId := ru_nextId s + int (length rows), ru_PriorityRequest := ru_PriorityRequest s @
       map (\<lambda>(k, r). r\<lparr>pr_ID := ru_nextId s + int k\<rparr>) (enumerate 0 rows)\<rparr>))"

definition GetPriorityRequestsByL2TxHash :: "string \<Rightarrow> PriorityRequest rollupM" where
  "GetPriorityRequestsByL2TxHash h = queryRow (\<lambda>s. filter (\<lambda>r. pr_L2TxHash r = h) (ru_PriorityRequest s))"

definition GetLatestL1SyncedBlockByType :: "syncType \<Rightarrow> L1SyncedBlock rollupM" where
  "GetLatestL1SyncedBlockByType ty = queryRow (\<lambda>s. sort_key (\<lambda>b. - sy_L1BlockHeight b)
     (filter (\<lambda>b. sy_Type b = ty) (ru_L1SyncedBlock s)))"

definition CreateL1SyncedBlockInTransact :: "L1SyncedBlock \<Rightarrow> unit rollupM" where
  "CreateL1SyncedBlockInTransact b = update (\<lambda>s. s\<lparr>ru_L1SyncedBlock := ru_L1SyncedBlock s @ [b]\<rparr>)"

definition DeleteL1SyncedBlocksForHeightLessThan :: "int \<Rightarrow> unit rollupM" where
  "DeleteL1SyncedBlocksForHeightLessThan h = mapErr (\<lambda>_. DbErrSqlOperation)
     (update (\<lambda>s. s\<lparr>ru_L1SyncedBlock := filter (\<lambda>b. \<not> sy_L1BlockHeight b < h) (ru_L1SyncedBlock s)\<rparr>))"

text \<open>The hash of a pool transaction is unique, also among the deleted ones.\<close>

definition CreateTxsInTransact :: "Tx list \<Rightarrow> unit rollupM" where
  "CreateTxsInTransact txs =
     bnd (gets (\<lambda>s. distinct (map tx_TxHash txs) \<and> set (map tx_TxHash txs) \<inter> set (ru_poolHashes s) = {})) (\<lambda>fresh.
     thn (failIf (\<not> fresh) sqlErr)
     (thn (update (\<lambda>s. s\<lparr>ru_nextId := ru_nextId s + int (length txs), ru_poolHashes := ru_poolHashes s @ map tx_TxHash txs,
         ru_TxPool := ru_TxPool s @ map (\<lambda>(k, t). t\<lparr>tx_ID := ru_nextId s + int k\<rparr>) (enumerate 0 txs)\<rparr>))
       (failIf (txs = []) (ErrorsNew ''fail to create pool tx''))))"

definition UpdateTxsStatusInTransact :: "Lib \<Rightarrow> txStatus gomap \<Rightarrow> unit rollupM" where
  "UpdateTxsStatusInTransact X m = forM (x_range X (mkeys m)) (\<lambda>h.
     bnd (gets (\<lambda>s. \<exists>t \<in> set (ru_Tx s). tx_BlockHeight t = h)) (\<lambda>found.
     thn (update (\<lambda>s. s\<lparr>ru_Tx := map (\<lambda>t. if tx_BlockHeight t = h then t\<lparr>tx_TxStatus := the (mget m h)\<rparr> else t) (ru_Tx s)\<rparr>))
       (failIf (\<not> found) (ErrorsNew ''fail to update tx''))))"

section \<open>Lemmas\<close>

lemma query_run [run]: "query f s = (if ru_down s then (Err DbErrSqlOperation, s) else (Ok (f s), s))"
  by (simp add: query_def)

lemma queryRows_run [run]:
  "queryRows f s = (if ru_down s then (Err DbErrSqlOperation, s) else if f s = [] then (Err DbErrNotFound, s) else (Ok (f s), s))"
  by (simp add: queryRows_def run)

lemma queryRow_run [run]:
  "queryRow f s = (if ru_down s then (Err DbErrSqlOperation, s) else if f s = [] then (Err DbErrNotFound, s) else (Ok (hd (f s)), s))"
  by (simp add: queryRow_def run)

lemma update_run [run]: "update f s = (if ru_down s \<or> ru_readOnly s then (Err sqlErr, s) else (Ok (), f s))"
  by (simp add: update_def)

text \<open>The first row in descending order of a key has the largest key.\<close>

lemma hd_sort_key_desc:
  fixes f :: "'a \<Rightarrow> int"
  assumes "xs \<noteq> []"
  shows "hd (sort_key (\<lambda>x. - f x) xs) \<in> set xs \<and> (\<forall>x \<in> set xs. f x \<le> f (hd (sort_key (\<lambda>x. - f x) xs)))"
proof -
  let ?ys = "sort_key (\<lambda>x. - f x) xs"
  have ne: "?ys \<noteq> []" using assms by (metis set_empty set_sort)
  then obtain y ys where y: "?ys = y # ys" by (cases ?ys) auto
  have "sorted (map (\<lambda>x. - f x) ?ys)" by (rule sorted_sort_key)
  then have "\<forall>x \<in> set ys. f x \<le> f y" by (simp add: y)
  moreover have "set xs = insert y (set ys)" by (metis list.simps(15) set_sort y)
  ultimately show ?thesis by (simp add: y)
qed

end
