(* ===== verification/Zk_Sender.thy ===== *)
theory Zk_Sender
  imports Zk_Rollup
begin

text \<open>
  The sender service (src/service/sender/sender): it commits sealed blocks to the rollup contract,
  verifies them with their proofs, and follows its transactions on L1. The L1 client and the contract
  binding are the parameter \<open>L1\<close>; what is sent is appended to \<open>ru_sent\<close>.
\<close>

record SenderConfig =
  sd_MaxWaitingTime :: int
  sd_MaxBlockCount :: int
  sd_ConfirmBlocksCount :: "64 word"
  sd_GasLimit :: "64 word"
  sd_GasPrice :: "64 word"

text \<open>A log of L1: its topics and data; a receipt. Hashes are their texts.\<close>

record Log =
  lg_TxHash :: string
  lg_BlockNumber :: "64 word"
  lg_Topics :: "string list"
  lg_Data :: "byte list"

record Receipt =
  rc_Status :: "64 word"
  rc_BlockNumber :: "64 word"
  rc_Logs :: "Log list"

text \<open>The proof of a block (src/common/prove/proof_keys.go): eight field elements and the public inputs.\<close>

record FormattedProof =
  fp_A :: "int list"
  fp_B :: "int list list"
  fp_C :: "int list"
  fp_Inputs :: "int list"

record L1 =
  l1_GetHeight :: "err + 64 word"
  l1_GetTransactionReceipt :: "string \<Rightarrow> err + Receipt"
  l1_SuggestGasPrice :: "err + int"
  l1_Send :: "l1Call \<Rightarrow> err + string"
  l1_CommitSigHash :: string
  l1_VerificationSigHash :: string
  l1_UnpackBlockCommit :: "byte list \<Rightarrow> err + 32 word"
  l1_UnpackBlockVerification :: "byte list \<Rightarrow> err + 32 word"
  l1_UnmarshalProof :: "string \<Rightarrow> err + FormattedProof"

section \<open>Conversions (types.go)\<close>

definition defaultBlockHeader :: "('t, 'd) Smt \<Rightarrow> Lib \<Rightarrow> StorageStoredBlockInfo" where
  "defaultBlockHeader T X =
     \<lparr>sb_BlockNumber = 0, sb_PriorityOperations = 0, sb_PendingOnchainOperationsHash = array32 (x_FromHex X EmptyStringKeccak),
      sb_Timestamp = 0, sb_StateRoot = array32 (NilStateRoot T), sb_Commitment = replicate 32 0, sb_BlockSize = 0\<rparr>"

definition commitInfo :: "Lib \<Rightarrow> CompressedBlock \<Rightarrow> CommitBlockInfo" where
  "commitInfo X b =
     \<lparr>ci_NewStateRoot = array32 (x_FromHex X (cb_StateRoot b)), ci_PublicData = x_FromHex X (cb_PublicData b),
      ci_Timestamp = cb_Timestamp b, ci_PublicDataOffsets = cb_PublicDataOffsets b,
      ci_BlockNumber = word_of_int (cb_BlockHeight b), ci_BlockSize = cb_BlockSize b\<rparr>"

definition ConvertBlocksForCommitToCommitBlockInfos :: "Lib \<Rightarrow> CompressedBlock list \<Rightarrow> CommitBlockInfo list" where
  "ConvertBlocksForCommitToCommitBlockInfos X bs = map (commitInfo X) bs"

definition verifyInfo :: "Lib \<Rightarrow> BlockRow \<Rightarrow> VerifyBlockInfo" where
  "verifyInfo X b =
     \<lparr>vi_BlockHeader = ConstructStoredBlockInfo X (Block.truncate b),
      vi_PendingOnchainOpsPubData = bk_PendingOnChainOperationsPubData b\<rparr>"

definition ConvertBlocksToVerifyAndExecuteBlockInfos :: "Lib \<Rightarrow> BlockRow list \<Rightarrow> VerifyBlockInfo list" where
  "ConvertBlocksToVerifyAndExecuteBlockInfos X bs = map (verifyInfo X) bs"

section \<open>Operations (sender.go)\<close>

text \<open>A query whose \<open>DbErrNotFound\<close> stands for no row.\<close>

definition optional :: "'a rollupM \<Rightarrow> 'a option rollupM" where
  "optional m = (\<lambda>s. case m s of (Ok a, t) \<Rightarrow> (Ok (Some a), t)
     | (Err e, t) \<Rightarrow> if e = DbErrNotFound then (Ok None, t) else (Err e, t) | (Panic p, t) \<Rightarrow> (Panic p, t))"

definition gasPriceOf :: "SenderConfig \<Rightarrow> L1 \<Rightarrow> int rollupM" where
  "gasPriceOf c L = (if 0 < sd_GasPrice c then ret (sint (sd_GasPrice c)) else ofSum (l1_SuggestGasPrice L))"

text \<open>What the call does on L1 is up to L1; the sender learns a transaction hash or an error.\<close>

definition sendL1 :: "L1 \<Rightarrow> string \<Rightarrow> l1Call \<Rightarrow> string rollupM" where
  "sendL1 L msg call = (case l1_Send L call of Inl e \<Rightarrow> throw (ErrorsNew msg)
     | Inr h \<Rightarrow> thn (modify (\<lambda>s. s\<lparr>ru_sent := ru_sent s @ [call]\<rparr>)) (ret h))"

definition startHeight :: "L1RollupTx option \<Rightarrow> int" where
  "startHeight r = (case r of None \<Rightarrow> 1 | Some t \<Rightarrow> wrap64 (rt_L2BlockHeight t + 1))"

definition CommitBlocks :: "('t, 'd) Smt \<Rightarrow> Lib \<Rightarrow> SenderConfig \<Rightarrow> L1 \<Rightarrow> unit rollupM" where
  "CommitBlocks T X c L =
     bnd (optional (GetLatestPendingTx TxTypeCommit)) (\<lambda>pendingTx.
     if pendingTx \<noteq> None then ret () else
     bnd (optional (GetLatestHandledTx TxTypeCommit)) (\<lambda>lastHandledTx.
     let start = startHeight lastHandledTx in
     bnd (mapErr (\<lambda>_. ErrorsNew ''failed to get compress block'')
       (optional (GetCompressedBlocksBetween start (wrap64 (start + sd_MaxBlockCount c))))) (\<lambda>blocks.
     case blocks of None \<Rightarrow> ret () | Some bs \<Rightarrow>
       let infos = ConvertBlocksForCommitToCommitBlockInfos X bs in
       bnd (case lastHandledTx of None \<Rightarrow> ret (defaultBlockHeader T X)
          | Some t \<Rightarrow> bnd (mapErr (\<lambda>_. ErrorsNew ''failed to get block info'') (GetBlockByHeight (rt_L2BlockHeight t)))
              (\<lambda>b. ret (ConstructStoredBlockInfo X (Block.truncate b)))) (\<lambda>header.
       bnd (gasPriceOf c L) (\<lambda>gasPrice.
       bnd (sendL1 L ''failed to send commit tx'' (CommitCall header infos gasPrice (sd_GasLimit c))) (\<lambda>txHash.
       mapErr (\<lambda>_. ErrorsNew ''failed to create tx in database'')
         (CreateL1RollupTx txHash RollupPending TxTypeCommit (uint (ci_BlockNumber (last infos)))))))))) "

text \<open>
  The proofs of the blocks: as many as blocks, with the same numbers. \<open>A[:]\<close>, the four elements of
  \<open>B\<close> and \<open>C[:]\<close> are arrays of two.
\<close>

fun proofElements :: "L1 \<Rightarrow> Proof list \<Rightarrow> int list rollupM" where
  "proofElements L [] = ret []"
| "proofElements L (p # ps) = bnd (ofSum (l1_UnmarshalProof L (pf_ProofInfo p))) (\<lambda>f.
     bnd (proofElements L ps) (\<lambda>rest.
     ret (fp_A f @ [fp_B f ! 0 ! 0, fp_B f ! 0 ! 1, fp_B f ! 1 ! 0, fp_B f ! 1 ! 1] @ fp_C f @ rest)))"

definition VerifyAndExecuteBlocks :: "Lib \<Rightarrow> SenderConfig \<Rightarrow> L1 \<Rightarrow> unit rollupM" where
  "VerifyAndExecuteBlocks X c L =
     bnd (optional (GetLatestPendingTx TxTypeVerifyAndExecute)) (\<lambda>pendingTx.
     if pendingTx \<noteq> None then ret () else
     bnd (optional (GetLatestHandledTx TxTypeVerifyAndExecute)) (\<lambda>lastHandledTx.
     let start = startHeight lastHandledTx in
     bnd (mapErr (\<lambda>_. ErrorsNew ''unable to get blocks to prove'')
       (optional (GetCommittedBlocksBetween start (wrap64 (start + sd_MaxBlockCount c))))) (\<lambda>blocks.
     case blocks of None \<Rightarrow> ret () | Some bs \<Rightarrow>
       let infos = ConvertBlocksToVerifyAndExecuteBlockInfos X bs in
       bnd (mapErr (\<lambda>_. ErrorsNew ''unable to get proofs'')
         (GetProofsBetween start (wrap64 (start + int (length bs) - 1)))) (\<lambda>blockProofs.
       thn (failIf (length blockProofs \<noteq> length bs) (ErrorsNew ''related proofs not ready''))
       (thn (failIf (map pf_BlockNumber blockProofs \<noteq> map bk_BlockHeight bs) (ErrorsNew ''proof number not match''))
       (bnd (proofElements L blockProofs) (\<lambda>proofs.
        bnd (gasPriceOf c L) (\<lambda>gasPrice.
        bnd (sendL1 L ''failed to send verify tx'' (VerifyCall infos proofs gasPrice (sd_GasLimit c))) (\<lambda>txHash.
        mapErr (\<lambda>_. ErrorsNew ''failed to create rollup tx in db'')
          (CreateL1RollupTx txHash RollupPending TxTypeVerifyAndExecute
            (uint (sb_BlockNumber (vi_BlockHeader (last infos))))))))))))))"

subsection \<open>Following the sent transactions\<close>

text \<open>The logs of a receipt: whether the transaction did what it was sent for, and the verified heights.\<close>

fun scanLogs :: "L1 \<Rightarrow> int \<Rightarrow> Log list \<Rightarrow> bool \<Rightarrow> proofStatus gomap \<Rightarrow> (bool \<times> proofStatus gomap) rollupM" where
  "scanLogs L height [] valid m = ret (valid, m)"
| "scanLogs L height (g # gs) valid m = (case lg_Topics g of [] \<Rightarrow> panic ''index out of range''
     | topic # _ \<Rightarrow>
         if topic = l1_CommitSigHash L then
           bnd (ofSum (l1_UnpackBlockCommit L (lg_Data g))) (\<lambda>n. scanLogs L height gs (uint n = height) m)
         else if topic = l1_VerificationSigHash L then
           bnd (ofSum (l1_UnpackBlockVerification L (lg_Data g))) (\<lambda>n.
             scanLogs L height gs (uint n = height) (mput (uint n) Confirmed m))
         else scanLogs L height gs valid m)"

fun followSent :: "SenderConfig \<Rightarrow> L1 \<Rightarrow> 64 word \<Rightarrow> L1RollupTx list \<Rightarrow> L1RollupTx list \<Rightarrow> proofStatus gomap \<Rightarrow>
    (L1RollupTx list \<times> proofStatus gomap) rollupM" where
  "followSent c L height [] done m = ret (done, m)"
| "followSent c L height (r # rs) done m = (case l1_GetTransactionReceipt L (rt_L1TxHash r) of
     Inl _ \<Rightarrow> bnd (gets ru_now) (\<lambda>now.
       thn (if rt_UpdatedAt r + sd_MaxWaitingTime c * 1000 < now then bnd (attempt (DeleteL1RollupTx r)) (\<lambda>_. ret ()) else ret ())
       (followSent c L height rs done m))
   | Inr receipt \<Rightarrow>
       if rc_Status receipt = 0 then
         bnd (attempt (DeleteL1RollupTx r)) (\<lambda>_. panic ''unexpected failed tx'')
       else if height < rc_BlockNumber receipt + sd_ConfirmBlocksCount c then followSent c L height rs done m
       else bnd (scanLogs L (rt_L2BlockHeight r) (rc_Logs receipt) False m) (\<lambda>(valid, m').
         followSent c L height rs (if valid then done @ [r\<lparr>rt_TxStatus := RollupHandled\<rparr>] else done) m'))"

definition UpdateSentTxs :: "Lib \<Rightarrow> SenderConfig \<Rightarrow> L1 \<Rightarrow> unit rollupM" where
  "UpdateSentTxs X c L =
     bnd (mapErr (\<lambda>_. ErrorsNew ''failed to get pending txs'') (optional (GetL1RollupTxsByStatus RollupPending))) (\<lambda>pending.
     case pending of None \<Rightarrow> ret () | Some rows \<Rightarrow>
       bnd (mapErr (\<lambda>_. ErrorsNew ''failed to get l1 block height'') (ofSum (l1_GetHeight L))) (\<lambda>height.
       bnd (followSent c L height rows [] []) (\<lambda>(handled, proofs).
       mapErr (\<lambda>_. ErrorsNew ''failed to update rollup txs'')
         (transaction (thn (UpdateL1RollupTxsInTransact handled) (UpdateProofsInTransact X proofs))))))"

end
