(* ===== verification/Zk_Monitor.thy ===== *)
theory Zk_Monitor
  imports Zk_Sender
begin

text \<open>
  The monitor service (src/service/monitor/monitor): which L1 blocks it reads next, what it stores of
  the events of the rollup contract, and how a priority request becomes a transaction of the pool.
\<close>

record MonitorConfig =
  mc_StartL1BlockHeight :: int
  mc_ConfirmBlocksCount :: "64 word"
  mc_MaxHandledBlocksCount :: int
  mc_KeptHistoryBlocksCount :: int

record NewPriorityRequest =
  np_Sender :: string
  np_SerialId :: "64 word"
  np_TxType :: "8 word"
  np_PubData :: "byte list"
  np_ExpirationBlock :: int

text \<open>The further calls of the L1 client.\<close>

record Monitored = L1 +
  mo_FilterLogs :: "int \<Rightarrow> int \<Rightarrow> err + Log list"
  mo_CountRequests :: "64 word \<Rightarrow> 64 word \<Rightarrow> err + int"
  mo_HeaderTime :: "int \<Rightarrow> err + 64 word"
  mo_NewPriorityRequestSigHash :: string
  mo_WithdrawalSigHash :: string
  mo_WithdrawalPendingSigHash :: string
  mo_BlocksRevertSigHash :: string
  mo_UnpackNewPriorityRequest :: "byte list \<Rightarrow> err + NewPriorityRequest"

definition MinInt64 :: "int \<Rightarrow> int \<Rightarrow> int" where "MinInt64 x y = (if x < y then x else y)"

section \<open>The range to read (monitor.go)\<close>

definition getBlockRangeToSync :: "MonitorConfig \<Rightarrow> 'x L1_scheme \<Rightarrow> syncType \<Rightarrow> (int \<times> int) rollupM" where
  "getBlockRangeToSync c L ty =
     bnd (mapErr (\<lambda>_. ErrorsNew ''failed to get latest l1 monitor block'') (optional (GetLatestL1SyncedBlockByType ty))) (\<lambda>latest.
     let handledHeight = (case latest of None \<Rightarrow> mc_StartL1BlockHeight c | Some b \<Rightarrow> sy_L1BlockHeight b) in
     bnd (mapErr (\<lambda>_. ErrorsNew ''failed to get l1 height'') (ofSum (l1_GetHeight L))) (\<lambda>latestHeight.
     let safeHeight = latestHeight - mc_ConfirmBlocksCount c;
         safeHeight' = (word_of_int (MinInt64 (sint safeHeight) (wrap64 (handledHeight + mc_MaxHandledBlocksCount c))) :: 64 word) in
     ret (wrap64 (handledHeight + 1), sint safeHeight')))"

definition CleanHistoryBlocks :: "MonitorConfig \<Rightarrow> unit rollupM" where
  "CleanHistoryBlocks c =
     bnd (GetLatestL1SyncedBlockByType TypeGeneric) (\<lambda>latestGenericBlock.
     bnd (GetLatestL1SyncedBlockByType TypeGovernance) (\<lambda>latestGovBlock.
     let minHeight = MinInt64 (sy_L1BlockHeight latestGenericBlock) (sy_L1BlockHeight latestGovBlock);
         keepHeight = wrap64 (minHeight - mc_KeptHistoryBlocksCount c) in
     if keepHeight \<le> 0 then ret () else DeleteL1SyncedBlocksForHeightLessThan keepHeight))"

section \<open>Events of the rollup contract (monitor\_generic\_blocks.go)\<close>

definition convertLogToNewPriorityRequestEvent :: "Lib \<Rightarrow> 'x Monitored_scheme \<Rightarrow> Log \<Rightarrow> err + PriorityRequest" where
  "convertLogToNewPriorityRequestEvent X L g = (case mo_UnpackNewPriorityRequest L (lg_Data g) of Inl e \<Rightarrow> Inl e
     | Inr ev \<Rightarrow> Inr \<lparr>pr_ID = 0, pr_L1TxHash = lg_TxHash g, pr_L1BlockHeight = sint (lg_BlockNumber g), pr_SenderAddress = np_Sender ev,
         pr_RequestId = sint (np_SerialId ev), pr_TxType = uint (np_TxType ev), pr_Pubdata = x_Bytes2Hex X (np_PubData ev),
         pr_ExpirationBlock = wrap64 (np_ExpirationBlock ev), pr_Status = RequestPending, pr_L2TxHash = []\<rparr>)"

record Seen =
  se_events :: "L1Event list"
  se_requests :: "PriorityRequest list"
  se_blocks :: "BlockRow gomap"
  se_txStatus :: "txStatus gomap"

definition event :: "int \<Rightarrow> Log \<Rightarrow> L1Event" where
  "event ty g = \<lparr>ev_EventType = ty, ev_TxHash = lg_TxHash g\<rparr>"

definition noted :: "L1Event \<Rightarrow> Seen \<Rightarrow> Seen" where
  "noted e a = a\<lparr>se_events := se_events a @ [e]\<rparr>"

text \<open>\<open>relatedBlocks[h]\<close>, read from the database the first time.\<close>

definition relatedBlock :: "Seen \<Rightarrow> int \<Rightarrow> BlockRow rollupM" where
  "relatedBlock a h = (case mget (se_blocks a) h of Some b \<Rightarrow> ret b
     | None \<Rightarrow> mapErr (\<lambda>_. ErrorsNew ''GetBlockByHeightWithoutTx err'') (GetBlockByHeightWithoutTx h))"

definition committedRow :: "Log \<Rightarrow> 64 word \<Rightarrow> BlockRow \<Rightarrow> BlockRow" where
  "committedRow g time b =
     b\<lparr>bk_CommittedTxHash := lg_TxHash g, bk_CommittedAt := sint time, bk_BlockStatus := BlockCommitted\<rparr>"

definition verifiedRow :: "Log \<Rightarrow> 64 word \<Rightarrow> BlockRow \<Rightarrow> BlockRow" where
  "verifiedRow g time b =
     b\<lparr>bk_VerifiedTxHash := lg_TxHash g, bk_VerifiedAt := sint time, bk_BlockStatus := StatusVerifiedAndExecuted\<rparr>"

definition touch :: "int \<Rightarrow> BlockRow \<Rightarrow> txStatus \<Rightarrow> Seen \<Rightarrow> Seen" where
  "touch h b st a = a\<lparr>se_blocks := mput h b (se_blocks a), se_txStatus := mput h st (se_txStatus a)\<rparr>"

definition genericLog :: "Lib \<Rightarrow> 'x Monitored_scheme \<Rightarrow> Log \<Rightarrow> Seen \<Rightarrow> Seen rollupM" where
  "genericLog X L g a =
     bnd (mapErr (\<lambda>_. ErrorsNew ''failed to get block header'') (ofSum (mo_HeaderTime L (sint (lg_BlockNumber g))))) (\<lambda>time.
     case lg_Topics g of [] \<Rightarrow> panic ''index out of range''
     | topic # _ \<Rightarrow>
         if topic = mo_NewPriorityRequestSigHash L then
           bnd (mapErr (\<lambda>_. ErrorsNew ''failed to convert NewPriorityRequest log'')
             (ofSum (convertLogToNewPriorityRequestEvent X L g))) (\<lambda>r.
           ret (noted (event 0 g) (a\<lparr>se_requests := se_requests a @ [r]\<rparr>)))
         else if topic = mo_WithdrawalSigHash L \<or> topic = mo_WithdrawalPendingSigHash L then ret (noted (event 0 g) a)
         else if topic = l1_CommitSigHash L then
           bnd (mapErr (\<lambda>_. ErrorsNew ''failed to unpack ZkBNBBlockCommit event'') (ofSum (l1_UnpackBlockCommit L (lg_Data g)))) (\<lambda>n.
           bnd (relatedBlock a (uint n)) (\<lambda>b.
           ret (noted (event 1 g) (touch (uint n) (committedRow g time b) StatusCommitted a))))
         else if topic = l1_VerificationSigHash L then
           bnd (mapErr (\<lambda>_. ErrorsNew ''failed to unpack ZkBNBBlockVerification'') (ofSum (l1_UnpackBlockVerification L (lg_Data g)))) (\<lambda>n.
           bnd (relatedBlock a (uint n)) (\<lambda>b.
           ret (noted (event 2 g) (touch (uint n) (verifiedRow g time b) StatusVerified a))))
         else if topic = mo_BlocksRevertSigHash L then ret (noted (event 3 g) a)
         else ret (noted (event 0 g) a))"

fun genericLogs :: "Lib \<Rightarrow> 'x Monitored_scheme \<Rightarrow> Log list \<Rightarrow> Seen \<Rightarrow> Seen rollupM" where
  "genericLogs X L [] a = ret a"
| "genericLogs X L (g # gs) a = bnd (genericLog X L g a) (genericLogs X L gs)"

text \<open>The highest block of every L1 transaction: \<open>pendingUpdateCommittedBlocks\<close> and \<open>-VerifiedBlocks\<close>.\<close>

definition highest :: "(BlockRow \<Rightarrow> string) \<Rightarrow> BlockRow list \<Rightarrow> (string \<times> BlockRow) list" where
  "highest hash bs = fold (\<lambda>b m. if hash b = [] then m else case map_of m (hash b) of
      Some b' \<Rightarrow> if bk_BlockHeight b' < bk_BlockHeight b then AList.update (hash b) b m else m
    | None \<Rightarrow> AList.update (hash b) b m) bs []"

text \<open>
  The rows of \<open>l1_rollup_tx\<close> are created outside the transaction they are created in: its failure does
  not undo them.
\<close>

definition transactionKeepingRollupTxs :: "'a rollupM \<Rightarrow> 'a rollupM" where
  "transactionKeepingRollupTxs m = (\<lambda>s.
     let back = (\<lambda>t. s\<lparr>ru_L1RollupTx := ru_L1RollupTx t, ru_nextId := ru_nextId t\<rparr>) in
     case m s of (Ok a, t) \<Rightarrow> (Ok a, t) | (Err e, t) \<Rightarrow> (Err e, back t) | (Panic p, t) \<Rightarrow> (Panic p, back t))"

definition ensureRollupTx :: "rollupType \<Rightarrow> string \<Rightarrow> int \<Rightarrow> unit rollupM" where
  "ensureRollupTx ty h height = bnd (optional (GetL1RollupTxsByHash h)) (\<lambda>found.
     case found of Some _ \<Rightarrow> ret () | None \<Rightarrow> CreateL1RollupTx h RollupHandled ty height)"

text \<open>Go ranges over the maps keyed by transaction hashes in any order; here it is the order of insertion.\<close>

definition storeGeneric :: "Lib \<Rightarrow> int \<Rightarrow> Seen \<Rightarrow> unit rollupM" where
  "storeGeneric X endHeight a =
     (let rows = map (\<lambda>h. the (mget (se_blocks a) h)) (x_range X (mkeys (se_blocks a)));
          committed = highest bk_CommittedTxHash rows;
          verified = highest bk_VerifiedTxHash rows in
      thn (CreateL1SyncedBlockInTransact \<lparr>sy_L1BlockHeight = endHeight, sy_BlockInfo = se_events a, sy_Type = TypeGeneric\<rparr>)
      (thn (CreatePriorityRequestsInTransact (se_requests a))
      (thn (UpdateBlocksWithoutTxsInTransact rows)
      (thn (forM committed (\<lambda>(h, b). ensureRollupTx TxTypeCommit h (bk_BlockHeight b)))
      (thn (forM verified (\<lambda>(h, b). ensureRollupTx TxTypeVerifyAndExecute h (bk_BlockHeight b)))
      (thn (if verified = [] then ret ()
            else UpdateProofsInTransact X (fold (\<lambda>(h, b). mput (bk_BlockHeight b) Confirmed) verified []))
      (UpdateTxsStatusInTransact X (se_txStatus a))))))))"

definition MonitorGenericBlocks :: "Lib \<Rightarrow> MonitorConfig \<Rightarrow> 'x Monitored_scheme \<Rightarrow> unit rollupM" where
  "MonitorGenericBlocks X c L =
     bnd (getBlockRangeToSync c L TypeGeneric) (\<lambda>(startHeight, endHeight).
     if endHeight < startHeight then ret () else
     bnd (mapErr (\<lambda>_. ErrorsNew ''failed to get priority request count'')
       (ofSum (mo_CountRequests L (word_of_int startHeight) (word_of_int endHeight)))) (\<lambda>priorityRequestCount.
     bnd (mapErr (\<lambda>_. ErrorsNew ''failed to get contract logs'') (ofSum (mo_FilterLogs L startHeight endHeight))) (\<lambda>logs.
     bnd (genericLogs X L logs \<lparr>se_events = [], se_requests = [], se_blocks = [], se_txStatus = []\<rparr>) (\<lambda>a.
     thn (failIf (priorityRequestCount \<noteq> int (length (se_requests a))) (ErrorsNew ''new priority requests events not match, try it again''))
     (mapErr (\<lambda>_. ErrorsNew ''failed to store monitor info'') (transactionKeepingRollupTxs (storeGeneric X endHeight a)))))))"

section \<open>Priority requests (monitor\_priority\_requests.go)\<close>

definition ComputeL1TxTxHash :: "('t, 'd) Smt \<Rightarrow> Lib \<Rightarrow> int \<Rightarrow> string \<Rightarrow> string" where
  "ComputeL1TxTxHash T X requestId txHash = x_Bytes2Hex X (k_Mimc T (map byteOfChar (showInt requestId) @ x_FromHex X txHash))"

text \<open>The payload of a request with the transaction type of its public data.\<close>

definition requestPayload :: "Lib \<Rightarrow> PriorityRequest \<Rightarrow> (int \<times> TxInfo) rollupM" where
  "requestPayload X r =
     (let pubData = x_FromHex X (pr_Pubdata r); ty = pr_TxType r in
      if ty = TxTypeRegisterZns then
        bnd (mapErr (\<lambda>_. ErrorsNew ''unable to parse registerZNS pub data'') (ParseRegisterZnsPubData X pubData))
          (\<lambda>t. ret (rz_TxType t, RegisterZnsInfo t))
      else if ty = TxTypeDeposit then
        bnd (mapErr (\<lambda>_. ErrorsNew ''unable to parse deposit pub data'') (ParseDepositPubData pubData))
          (\<lambda>t. ret (dp_TxType t, DepositInfo t))
      else if ty = TxTypeDepositNft then
        bnd (mapErr (\<lambda>_. ErrorsNew ''unable to parse deposit nft pub data'') (ParseDepositNftPubData X pubData))
          (\<lambda>t. ret (dn_TxType t, DepositNftInfo t))
      else if ty = TxTypeFullExit then
        bnd (mapErr (\<lambda>_. ErrorsNew ''unable to parse deposit pub data'') (ParseFullExitPubData pubData))
          (\<lambda>t. ret (fe_TxType t, FullExitInfo t))
      else if ty = TxTypeFullExitNft then
        bnd (mapErr (\<lambda>_. ErrorsNew ''unable to parse deposit nft pub data'') (ParseFullExitNftPubData X pubData))
          (\<lambda>t. ret (fn_TxType t, FullExitNftInfo t))
      else throw (ErrorsNew ''invalid request type''))"

definition requestTx :: "string \<Rightarrow> string \<Rightarrow> int \<Rightarrow> string \<Rightarrow> Tx" where
  "requestTx txHash sender ty info =
     \<lparr>tx_ID = 0, tx_TxHash = txHash, tx_TxType = ty, tx_TxInfo = info, tx_AccountIndex = NilAccountIndex, tx_Nonce = -1,
      tx_ExpiredAt = 2 ^ 63 - 1, tx_GasFee = ''0'', tx_GasFeeAssetId = NilAssetId, tx_NftIndex = -1, tx_CollectionId = -1,
      tx_AssetId = NilAssetId, tx_TxAmount = ''0'', tx_NativeAddress = sender, tx_TxDetails = [], tx_TxIndex = 0,
      tx_BlockHeight = -1, tx_TxStatus = StatusPending\<rparr>"

fun poolTxs :: "('t, 'd) Smt \<Rightarrow> Lib \<Rightarrow> int \<Rightarrow> PriorityRequest list \<Rightarrow> (PriorityRequest \<times> Tx) list rollupM" where
  "poolTxs T X current [] = ret []"
| "poolTxs T X current (r # rs) =
     thn (failIf (pr_RequestId r \<noteq> wrap64 (current + 1)) (ErrorsNew ''invalid request id''))
     (let txHash = ComputeL1TxTxHash T X (pr_RequestId r) (pr_L1TxHash r) in
      bnd (requestPayload X r) (\<lambda>(ty, payload).
      bnd (mapErr (\<lambda>_. ErrorsNew ''unable to serialize request info'') (ofSum (x_MarshalTx X payload))) (\<lambda>info.
      bnd (poolTxs T X (wrap64 (current + 1)) rs) (\<lambda>rest.
      ret ((r\<lparr>pr_L2TxHash := txHash\<rparr>, requestTx txHash (pr_SenderAddress r) ty info) # rest)))))"

definition MonitorPriorityRequests :: "('t, 'd) Smt \<Rightarrow> Lib \<Rightarrow> unit rollupM" where
  "MonitorPriorityRequests T X =
     bnd (optional (GetPriorityRequestsByStatus RequestPending)) (\<lambda>pending.
     case pending of None \<Rightarrow> ret () | Some rows \<Rightarrow>
       bnd (mapErr (\<lambda>_. ErrorsNew ''unable to get last handled request id'') GetLatestHandledRequestId) (\<lambda>current.
       bnd (poolTxs T X current rows) (\<lambda>new.
       mapErr (\<lambda>_. ErrorsNew ''unable to create pool tx and update priority requests'')
         (transaction (thn (CreateTxsInTransact (map snd new)) (UpdateHandledPriorityRequestsInTransact (map fst new)))))))"

end
