(* ===== verification/Zk_Governance.thy ===== *)
theory Zk_Governance
  imports Zk_Monitor
begin

text \<open>
  The events of the governance contract (src/service/monitor/monitor/monitor\_governance\_blocks.go)
  with the tables of assets and system configurations (src/dao/asset, src/dao/sysconfig). Maps keyed by
  texts are association lists, in which Go ranges in any order and the model in the order of insertion.
\<close>

section \<open>Tables\<close>

definition StatusActive :: "32 word" where "StatusActive = 0"
definition StatusInactive :: "32 word" where "StatusInactive = 1"

text \<open>The query names a column \<open>asset_address\<close>, which the table does not have: it is an SQL error.\<close>

definition GetAssetByAddress :: "string \<Rightarrow> Asset rollupM" where
  "GetAssetByAddress address = throw DbErrSqlOperation"

text \<open>Asset ids are unique, also among deleted rows.\<close>

definition CreateAssetsInTransact :: "Asset list \<Rightarrow> unit rollupM" where
  "CreateAssetsInTransact rows =
     bnd (gets (\<lambda>s. distinct (map as_AssetId rows) \<and> set (map as_AssetId rows) \<inter> set (ru_assetIds s) = {})) (\<lambda>fresh.
     thn (failIf (\<not> fresh) sqlErr)
     (thn (update (\<lambda>s. s\<lparr>ru_nextId := ru_nextId s + int (length rows), ru_assetIds := ru_assetIds s @ map as_AssetId rows,
         ru_Asset := ru_Asset s @ map (\<lambda>(k, r). r\<lparr>as_ID := ru_nextId s + int k\<rparr>) (enumerate 0 rows)\<rparr>))
       (failIf (rows = []) (ErrorsNew ''fail to create asset''))))"

text \<open>The statement the code runs is \<open>Delete\<close>.\<close>

definition UpdateAssetsInTransact :: "Asset list \<Rightarrow> unit rollupM" where
  "UpdateAssetsInTransact rows = forM rows (\<lambda>r.
     bnd (gets (\<lambda>s. \<exists>x \<in> set (ru_Asset s). as_ID x = as_ID r)) (\<lambda>found.
     thn (update (\<lambda>s. s\<lparr>ru_Asset := filter (\<lambda>x. as_ID x \<noteq> as_ID r) (ru_Asset s)\<rparr>))
       (failIf (\<not> found) (ErrorsNew ''fail to update asset''))))"

definition sysConfigByName :: "string \<Rightarrow> SysConfig rollupM" where
  "sysConfigByName name = queryRow (\<lambda>s. filter (\<lambda>c. cf_Name c = name) (ru_SysConfig s))"

definition CreateSysConfigsInTransact :: "SysConfig list \<Rightarrow> unit rollupM" where
  "CreateSysConfigsInTransact rows =
     thn (update (\<lambda>s. s\<lparr>ru_nextId := ru_nextId s + int (length rows),
         ru_SysConfig := ru_SysConfig s @ map (\<lambda>(k, r). r\<lparr>cf_ID := ru_nextId s + int k\<rparr>) (enumerate 0 rows)\<rparr>))
       (failIf (rows = []) (ErrorsNew ''fail to create system config''))"

definition UpdateSysConfigsInTransact :: "SysConfig list \<Rightarrow> unit rollupM" where
  "UpdateSysConfigsInTransact rows = forM rows (\<lambda>r.
     bnd (gets (\<lambda>s. \<exists>x \<in> set (ru_SysConfig s). cf_ID x = cf_ID r)) (\<lambda>found.
     thn (update (\<lambda>s. s\<lparr>ru_SysConfig := updateRow cf_ID r (ru_SysConfig s)\<rparr>))
       (failIf (\<not> found) (ErrorsNew ''fail to update system config''))))"

section \<open>Events\<close>

text \<open>The calls of the governance contract and of the token contracts; validators are coded as JSON.\<close>

type_synonym validators = "(string \<times> bool) list"

record Governed = L1 +
  go_FilterLogs :: "int \<Rightarrow> int \<Rightarrow> err + Log list"
  go_NewAssetSigHash :: string
  go_NewGovernorSigHash :: string
  go_NewAssetGovernanceSigHash :: string
  go_ValidatorStatusUpdateSigHash :: string
  go_AssetPausedUpdateSigHash :: string
  go_UnpackNewAsset :: "byte list \<Rightarrow> err + (string \<times> 16 word)"
  go_UnpackNewGovernor :: "byte list \<Rightarrow> err + string"
  go_UnpackNewAssetGovernance :: "byte list \<Rightarrow> err + string"
  go_UnpackValidatorStatusUpdate :: "byte list \<Rightarrow> err + (string \<times> bool)"
  go_UnpackAssetPausedUpdate :: "byte list \<Rightarrow> err + (string \<times> bool)"
  go_Erc20 :: "string \<Rightarrow> err + (string \<times> string \<times> 8 word)"
  go_ToUpper :: "string \<Rightarrow> string"
  go_UnmarshalValidators :: "string \<Rightarrow> err + validators"
  go_MarshalValidators :: "validators \<Rightarrow> err + string"

record GovernancePendingChanges =
  gp_l2AssetMap :: "(string \<times> Asset) list"
  gp_pendingUpdateL2AssetMap :: "(string \<times> Asset) list"
  gp_pendingNewSysConfigMap :: "(string \<times> SysConfig) list"
  gp_pendingUpdateSysConfigMap :: "(string \<times> SysConfig) list"

definition NewGovernancePendingChanges :: GovernancePendingChanges where
  "NewGovernancePendingChanges =
     \<lparr>gp_l2AssetMap = [], gp_pendingUpdateL2AssetMap = [], gp_pendingNewSysConfigMap = [], gp_pendingUpdateSysConfigMap = []\<rparr>"

definition getNewL2Asset :: "Governed \<Rightarrow> string \<Rightarrow> 16 word \<Rightarrow> Asset rollupM" where
  "getNewL2Asset L address assetId = bnd (ofSum (go_Erc20 L address)) (\<lambda>(name, symbol, decimals).
     ret \<lparr>as_ID = 0, as_AssetId = ucast assetId, as_AssetName = name, as_AssetSymbol = go_ToUpper L symbol,
          as_L1Address = address, as_Decimals = ucast decimals, as_Status = StatusActive, as_IsGasAsset = 0\<rparr>)"

definition Validators :: string where "Validators = ''Validators''"
definition Governor :: string where "Governor = ''Governor''"
definition AssetGovernanceContract :: string where "AssetGovernanceContract = ''AssetGovernanceContract''"

definition setValidator :: "string \<Rightarrow> bool \<Rightarrow> validators \<Rightarrow> validators" where
  "setValidator address active vs = AList.update address active vs"

text \<open>
  A new row is kept in the map of new rows; a row of the table is read again for every event, also when
  the map of updates already has it.
\<close>

definition processValidatorUpdate :: "Governed \<Rightarrow> string \<Rightarrow> bool \<Rightarrow> GovernancePendingChanges \<Rightarrow> GovernancePendingChanges rollupM" where
  "processValidatorUpdate L address active p =
     (case map_of (gp_pendingNewSysConfigMap p) Validators of
        Some configInfo \<Rightarrow>
          bnd (ofSum (go_UnmarshalValidators L (cf_Value configInfo))) (\<lambda>vs.
          bnd (ofSum (go_MarshalValidators L (setValidator address active vs))) (\<lambda>text.
          ret (p\<lparr>gp_pendingNewSysConfigMap := AList.update Validators (configInfo\<lparr>cf_Value := text\<rparr>) (gp_pendingNewSysConfigMap p)\<rparr>)))
      | None \<Rightarrow>
          bnd (mapErr (\<lambda>_. ErrorsNew ''unable to get sys config by name'') (optional (sysConfigByName Validators))) (\<lambda>found.
          case found of
            None \<Rightarrow>
              bnd (mapErr (\<lambda>_. ErrorsNew ''unable to marshal validators'') (ofSum (go_MarshalValidators L (setValidator address active [])))) (\<lambda>text.
              ret (p\<lparr>gp_pendingNewSysConfigMap := AList.update Validators \<lparr>cf_ID = 0, cf_Name = Validators, cf_Value = text,
                cf_ValueType = ''map[string]*ValidatorInfo'', cf_Comment = ''validator info''\<rparr> (gp_pendingNewSysConfigMap p)\<rparr>))
          | Some configInfo \<Rightarrow>
              bnd (ofSum (go_UnmarshalValidators L (cf_Value configInfo))) (\<lambda>vs.
              bnd (ofSum (go_MarshalValidators L (setValidator address active vs))) (\<lambda>text.
              let row = (case map_of (gp_pendingUpdateSysConfigMap p) Validators of None \<Rightarrow> configInfo | Some r \<Rightarrow> r) in
              ret (p\<lparr>gp_pendingUpdateSysConfigMap :=
                AList.update Validators (row\<lparr>cf_Value := text\<rparr>) (gp_pendingUpdateSysConfigMap p)\<rparr>)))))"

text \<open>
  In the branch that reads the table, \<open>assetInfo, err :=\<close> declares a variable of its own; the outer one
  stays nil and is dereferenced.
\<close>

definition processAssetPausedUpdate :: "string \<Rightarrow> bool \<Rightarrow> GovernancePendingChanges \<Rightarrow> GovernancePendingChanges rollupM" where
  "processAssetPausedUpdate token paused p =
     (case map_of (gp_l2AssetMap p) token of
        Some assetInfo \<Rightarrow>
          ret (p\<lparr>gp_l2AssetMap := AList.update token (assetInfo\<lparr>as_Status := if paused then StatusInactive else StatusActive\<rparr>) (gp_l2AssetMap p)\<rparr>)
      | None \<Rightarrow>
          bnd (mapErr (\<lambda>_. ErrorsNew ''unable to get l2 asset by address'') (GetAssetByAddress token)) (\<lambda>assetInfo.
          panic nilDeref))"

definition storeChanges :: "L1SyncedBlock \<Rightarrow> GovernancePendingChanges \<Rightarrow> unit rollupM" where
  "storeChanges syncedBlock p =
     (let newAssets = map snd (gp_l2AssetMap p); updateAssets = map snd (gp_pendingUpdateL2AssetMap p);
          newConfigs = map snd (gp_pendingNewSysConfigMap p); updateConfigs = map snd (gp_pendingUpdateSysConfigMap p) in
      mapErr (\<lambda>_. ErrorsNew ''store governance monitor info error'') (transaction
        (thn (CreateL1SyncedBlockInTransact syncedBlock)
        (thn (if newAssets \<noteq> [] then CreateAssetsInTransact newAssets else ret ())
        (thn (if updateAssets \<noteq> [] then UpdateAssetsInTransact updateAssets else ret ())
        (thn (if newConfigs \<noteq> [] then CreateSysConfigsInTransact newConfigs else ret ())
        (if updateConfigs \<noteq> [] then UpdateSysConfigsInTransact updateConfigs else ret ())))))))"

definition newConfig :: "string \<Rightarrow> string \<Rightarrow> string \<Rightarrow> SysConfig" where
  "newConfig name value' comment' = \<lparr>cf_ID = 0, cf_Name = name, cf_Value = value', cf_ValueType = ''string'', cf_Comment = comment'\<rparr>"

definition governanceLog :: "Governed \<Rightarrow> Log \<Rightarrow> L1Event list \<times> GovernancePendingChanges \<Rightarrow> (L1Event list \<times> GovernancePendingChanges) rollupM" where
  "governanceLog L g = (\<lambda>(events, p). case lg_Topics g of [] \<Rightarrow> panic ''index out of range''
     | topic # _ \<Rightarrow>
         if topic = go_NewAssetSigHash L then
           bnd (mapErr (\<lambda>_. ErrorsNew ''unpackIntoInterface err'') (ofSum (go_UnpackNewAsset L (lg_Data g)))) (\<lambda>(address, assetId).
           bnd (getNewL2Asset L address assetId) (\<lambda>a.
           ret (events @ [event 4 g], p\<lparr>gp_l2AssetMap := AList.update address a (gp_l2AssetMap p)\<rparr>)))
         else if topic = go_NewGovernorSigHash L then
           bnd (mapErr (\<lambda>_. ErrorsNew ''unpackIntoInterface err'') (ofSum (go_UnpackNewGovernor L (lg_Data g)))) (\<lambda>governor.
           ret (events @ [event 5 g], p\<lparr>gp_pendingNewSysConfigMap :=
             AList.update Governor (newConfig Governor governor ''governor'') (gp_pendingNewSysConfigMap p)\<rparr>))
         else if topic = go_NewAssetGovernanceSigHash L then
           bnd (mapErr (\<lambda>_. ErrorsNew ''unpackIntoInterface err'') (ofSum (go_UnpackNewAssetGovernance L (lg_Data g)))) (\<lambda>contract.
           ret (events @ [event 6 g], p\<lparr>gp_pendingNewSysConfigMap :=
             AList.update AssetGovernanceContract (newConfig AssetGovernanceContract contract ''asset governance contract'')
               (gp_pendingNewSysConfigMap p)\<rparr>))
         else if topic = go_ValidatorStatusUpdateSigHash L then
           bnd (mapErr (\<lambda>_. ErrorsNew ''unpack GovernanceValidatorStatusUpdate'') (ofSum (go_UnpackValidatorStatusUpdate L (lg_Data g))))
             (\<lambda>(address, active). bnd (processValidatorUpdate L address active p) (\<lambda>p'. ret (events @ [event 7 g], p')))
         else if topic = go_AssetPausedUpdateSigHash L then
           bnd (mapErr (\<lambda>_. ErrorsNew ''unpack GovernanceAssetPausedUpdate failed'') (ofSum (go_UnpackAssetPausedUpdate L (lg_Data g))))
             (\<lambda>(token, paused). bnd (processAssetPausedUpdate token paused p) (\<lambda>p'. ret (events @ [event 8 g], p')))
         else ret (events, p))"

fun governanceLogs :: "Governed \<Rightarrow> Log list \<Rightarrow> L1Event list \<times> GovernancePendingChanges \<Rightarrow> (L1Event list \<times> GovernancePendingChanges) rollupM" where
  "governanceLogs L [] a = ret a"
| "governanceLogs L (g # gs) a = bnd (governanceLog L g a) (governanceLogs L gs)"

definition MonitorGovernanceBlocks :: "MonitorConfig \<Rightarrow> Governed \<Rightarrow> unit rollupM" where
  "MonitorGovernanceBlocks c L =
     bnd (getBlockRangeToSync c L TypeGovernance) (\<lambda>(startHeight, endHeight).
     if endHeight < startHeight then ret () else
     bnd (mapErr (\<lambda>_. ErrorsNew ''failed to query logs through rpc client'') (ofSum (go_FilterLogs L startHeight endHeight))) (\<lambda>logs.
     bnd (governanceLogs L logs ([], NewGovernancePendingChanges)) (\<lambda>(events, p).
     storeChanges \<lparr>sy_L1BlockHeight = endHeight, sy_BlockInfo = events, sy_Type = TypeGovernance\<rparr> p)))"

end
