(* ===== verification/Ref_Sender.thy ===== *)
theory Ref_Sender
  imports Zk_Monitor Ref_PubData
begin

text \<open>
  The services facing L1 as one state machine: \<open>rollupStep\<close> interleaves the operations of the sender and
  the monitor, whatever they return, with anything the other services write. Its invariant is that at
  most one transaction of each kind is in flight, so that no block is sent twice at a time.
\<close>

section \<open>Rows in flight\<close>

definition pendingRows :: "rollupType \<Rightarrow> Rollup \<Rightarrow> L1RollupTx list" where
  "pendingRows ty s = filter (\<lambda>r. rt_TxType r = ty \<and> rt_TxStatus r = RollupPending) (ru_L1RollupTx s)"

definition handledRows :: "rollupType \<Rightarrow> Rollup \<Rightarrow> L1RollupTx list" where
  "handledRows ty s = filter (\<lambda>r. rt_TxType r = ty \<and> rt_TxStatus r = RollupHandled) (ru_L1RollupTx s)"

definition lastHandled :: "rollupType \<Rightarrow> Rollup \<Rightarrow> L1RollupTx option" where
  "lastHandled ty s = (if handledRows ty s = [] then None else Some (hd (sort_key (\<lambda>r. - rt_L2BlockHeight r) (handledRows ty s))))"

definition rollupOk :: "Rollup \<Rightarrow> bool" where
  "rollupOk s \<longleftrightarrow> (\<forall>ty. length (pendingRows ty s) \<le> 1)"

lemma optional_run [run]:
  "optional m s = (case m s of (Ok a, t) \<Rightarrow> (Ok (Some a), t)
     | (Err e, t) \<Rightarrow> if e = DbErrNotFound then (Ok None, t) else (Err e, t) | (Panic p, t) \<Rightarrow> (Panic p, t))"
  by (simp add: optional_def)

lemma GetLatestPendingTx_run:
  "optional (GetLatestPendingTx ty) s = (if ru_down s then (Err DbErrSqlOperation, s) else
     (Ok (if pendingRows ty s = [] then None else Some (hd (pendingRows ty s))), s))"
  by (simp add: GetLatestPendingTx_def pendingRows_def run)

lemma GetLatestHandledTx_run:
  "optional (GetLatestHandledTx ty) s = (if ru_down s then (Err DbErrSqlOperation, s) else (Ok (lastHandled ty s), s))"
proof -
  have "(sort_key (\<lambda>r. - rt_L2BlockHeight r) xs = []) = (xs = [])" for xs :: "L1RollupTx list" by (metis set_empty set_sort)
  then show ?thesis by (simp add: GetLatestHandledTx_def lastHandled_def handledRows_def run)
qed

section \<open>What the sender sends\<close>

definition sent :: "l1Call \<Rightarrow> Rollup \<Rightarrow> Rollup" where
  "sent call s = s\<lparr>ru_sent := ru_sent s @ [call]\<rparr>"

definition recorded :: "string \<Rightarrow> rollupType \<Rightarrow> int \<Rightarrow> Rollup \<Rightarrow> Rollup" where
  "recorded h ty height s = s\<lparr>ru_nextId := ru_nextId s + 1, ru_L1RollupTx := ru_L1RollupTx s @
     [\<lparr>rt_ID = ru_nextId s, rt_UpdatedAt = ru_now s, rt_L1TxHash = h, rt_TxStatus = RollupPending, rt_TxType = ty, rt_L2BlockHeight = height\<rparr>]\<rparr>"

text \<open>The blocks that are committed next, and the header of the block before them.\<close>

definition toCommit :: "SenderConfig \<Rightarrow> Rollup \<Rightarrow> CompressedBlock list" where
  "toCommit c s = (let start = startHeight (lastHandled TxTypeCommit s) in
     sort_key cb_BlockHeight (filter (\<lambda>b. start \<le> cb_BlockHeight b \<and> cb_BlockHeight b \<le> wrap64 (start + sd_MaxBlockCount c)) (ru_CompressedBlock s)))"

definition headerBefore :: "('t, 'd) Smt \<Rightarrow> Lib \<Rightarrow> Rollup \<Rightarrow> StorageStoredBlockInfo \<Rightarrow> bool" where
  "headerBefore T X s h = (case lastHandled TxTypeCommit s of None \<Rightarrow> h = defaultBlockHeader T X
     | Some r \<Rightarrow> \<exists>b \<in> set (ru_Block s). bk_BlockHeight b = rt_L2BlockHeight r \<and> h = ConstructStoredBlockInfo X (Block.truncate b))"

lemma stored_txs: "ConstructStoredBlockInfo X (Block.truncate (b\<lparr>bk_Txs := ts\<rparr>)) = ConstructStoredBlockInfo X (Block.truncate b)"
  by (simp add: ConstructStoredBlockInfo_def Block.truncate_def)

lemma sort_key_Nil_iff: "(sort_key f xs = []) = (xs = [])" by (metis set_empty set_sort)

lemma optional_rows_run:
  "mapErr g (optional (queryRows f)) s = (if ru_down s then (Err (g DbErrSqlOperation), s) else (Ok (if f s = [] then None else Some (f s)), s))"
  by (simp add: mapErr_def optional_run queryRows_run)

lemma rows_run:
  "mapErr g (queryRows f) s = (if ru_down s then (Err (g DbErrSqlOperation), s) else if f s = [] then (Err (g DbErrNotFound), s) else (Ok (f s), s))"
  by (simp add: mapErr_def queryRows_run)

lemma header_run:
  assumes "(case lastHandled TxTypeCommit s of None \<Rightarrow> ret (defaultBlockHeader T X)
      | Some t \<Rightarrow> bnd (mapErr g (GetBlockByHeight (rt_L2BlockHeight t))) (\<lambda>b. ret (ConstructStoredBlockInfo X (Block.truncate b)))) s = (r, u)"
  shows "u = s \<and> (case r of Ok h \<Rightarrow> headerBefore T X s h | Err _ \<Rightarrow> True | Panic _ \<Rightarrow> False)"
proof (cases "lastHandled TxTypeCommit s")
  case None
  with assms show ?thesis by (auto simp: headerBefore_def)
next
  case (Some q)
  let ?rows = "filter (\<lambda>b. bk_BlockHeight b = rt_L2BlockHeight q) (ru_Block s)"
  have "?rows \<noteq> [] \<Longrightarrow> hd ?rows \<in> set ?rows" by (rule hd_in_set)
  with assms Some show ?thesis
    by (auto simp: bnd_run mapErr_def GetBlockByHeight_def GetBlockByHeightWithoutTx_def queryRow_run stored_txs headerBefore_def
        split: if_splits)
qed

text \<open>Sending a call and recording it.\<close>

lemma send_outcome:
  assumes "bnd (gasPriceOf c L) (\<lambda>p. bnd (sendL1 L m (call p)) (\<lambda>h. mapErr g (CreateL1RollupTx h RollupPending ty height))) s = (r, t)"
  shows "t = s \<and> (\<exists>e. r = Err e) \<or> (\<exists>p h. l1_Send L (call p) = Inr h \<and>
    (r = Ok () \<and> t = recorded h ty height (sent (call p) s) \<or> (\<exists>e. r = Err e) \<and> t = sent (call p) s))"
proof -
  have "gasPriceOf c L s = (case (if 0 < sd_GasPrice c then Inr (sint (sd_GasPrice c)) else l1_SuggestGasPrice L) of
      Inl e \<Rightarrow> (Err e, s) | Inr p \<Rightarrow> (Ok p, s))" by (simp add: gasPriceOf_def ofSum_run)
  then show ?thesis using assms
    by (auto simp: bnd_run sendL1_def thn_run mapErr_def CreateL1RollupTx_def update_run recorded_def sent_def
        split: sum.splits if_splits)
qed

lemma CommitBlocks_outcome:
  assumes "CommitBlocks T X c L s = (r, t)"
  shows "t = s \<or> (\<exists>header price h. pendingRows TxTypeCommit s = [] \<and> toCommit c s \<noteq> [] \<and> headerBefore T X s header \<and>
    (let call = CommitCall header (map (commitInfo X) (toCommit c s)) price (sd_GasLimit c);
         height = uint (ci_BlockNumber (commitInfo X (last (toCommit c s)))) in
     l1_Send L call = Inr h \<and> (r = Ok () \<and> t = recorded h TxTypeCommit height (sent call s) \<or> (\<exists>e. r = Err e) \<and> t = sent call s)))"
proof (cases "ru_down s \<or> pendingRows TxTypeCommit s \<noteq> [] \<or> toCommit c s = []")
  case True
  with assms have "t = s"
    by (auto simp: CommitBlocks_def bnd_run GetLatestPendingTx_run GetLatestHandledTx_run Let_def GetCompressedBlocksBetween_def optional_rows_run
        toCommit_def split: if_splits)
  then show ?thesis ..
next
  case False
  let ?bs = "toCommit c s"
  let ?header = "(case lastHandled TxTypeCommit s of None \<Rightarrow> ret (defaultBlockHeader T X)
      | Some t \<Rightarrow> bnd (mapErr (\<lambda>_. ErrorsNew ''failed to get block info'') (GetBlockByHeight (rt_L2BlockHeight t)))
          (\<lambda>b. ret (ConstructStoredBlockInfo X (Block.truncate b))))"
  from False assms have r: "bnd ?header (\<lambda>header. bnd (gasPriceOf c L) (\<lambda>p.
      bnd (sendL1 L ''failed to send commit tx'' (CommitCall header (map (commitInfo X) ?bs) p (sd_GasLimit c))) (\<lambda>h.
      mapErr (\<lambda>_. ErrorsNew ''failed to create tx in database'') (CreateL1RollupTx h RollupPending TxTypeCommit
        (uint (ci_BlockNumber (last (map (commitInfo X) ?bs)))))))) s = (r, t)"
    by (simp add: CommitBlocks_def bnd_run [of "optional _"] bnd_run [of "mapErr _ (optional _)"] GetLatestPendingTx_run GetLatestHandledTx_run Let_def
        GetCompressedBlocksBetween_def optional_rows_run toCommit_def ConvertBlocksForCommitToCommitBlockInfos_def)
  obtain hr u where h: "?header s = (hr, u)" by fastforce
  note hh = header_run [OF h]
  show ?thesis
  proof (cases hr)
    case (Ok header)
    with r h hh have "bnd (gasPriceOf c L) (\<lambda>p.
      bnd (sendL1 L ''failed to send commit tx'' (CommitCall header (map (commitInfo X) ?bs) p (sd_GasLimit c))) (\<lambda>h.
      mapErr (\<lambda>_. ErrorsNew ''failed to create tx in database'') (CreateL1RollupTx h RollupPending TxTypeCommit
        (uint (ci_BlockNumber (last (map (commitInfo X) ?bs))))))) s = (r, t)" by (simp add: bnd_run [of ?header])
    from send_outcome [OF this] Ok hh False show ?thesis by (auto simp: Let_def last_map)
  qed (use r h hh in \<open>auto simp: bnd_run [of ?header]\<close>)
qed

text \<open>The blocks that are verified next and their proofs.\<close>

definition toVerify :: "SenderConfig \<Rightarrow> Rollup \<Rightarrow> BlockRow list" where
  "toVerify c s = (let start = startHeight (lastHandled TxTypeVerifyAndExecute s) in
     sort_key bk_BlockHeight (filter (\<lambda>b. bk_BlockStatus b = BlockCommitted \<and> start \<le> bk_BlockHeight b \<and>
       bk_BlockHeight b \<le> wrap64 (start + sd_MaxBlockCount c)) (ru_Block s)))"

definition proofsNext :: "SenderConfig \<Rightarrow> Rollup \<Rightarrow> Proof list" where
  "proofsNext c s = (let start = startHeight (lastHandled TxTypeVerifyAndExecute s) in
     sort_key pf_BlockNumber (filter (\<lambda>p. start \<le> pf_BlockNumber p \<and> pf_BlockNumber p \<le> wrap64 (start + int (length (toVerify c s)) - 1) \<and>
       pf_Status p = NotSent) (ru_Proof s)))"

lemma proofElements_pure:
  "proofElements L ps s = (r, t) \<Longrightarrow> t = s \<and> (\<forall>p. r \<noteq> Panic p) \<and>
    (\<forall>es. r = Ok es \<longrightarrow> list_all (\<lambda>p. \<exists>f. l1_UnmarshalProof L (pf_ProofInfo p) = Inr f) ps)"
  by (induction ps arbitrary: r t) (auto simp: bnd_run ofSum_run split: sum.splits prod.splits res.splits)

lemma Verify_outcome:
  assumes "VerifyAndExecuteBlocks X c L s = (r, t)"
  shows "t = s \<or> (\<exists>proofs price h. pendingRows TxTypeVerifyAndExecute s = [] \<and> toVerify c s \<noteq> [] \<and>
    map pf_BlockNumber (proofsNext c s) = map bk_BlockHeight (toVerify c s) \<and> proofElements L (proofsNext c s) s = (Ok proofs, s) \<and>
    (let call = VerifyCall (map (verifyInfo X) (toVerify c s)) proofs price (sd_GasLimit c);
         height = uint (sb_BlockNumber (vi_BlockHeader (verifyInfo X (last (toVerify c s))))) in
     l1_Send L call = Inr h \<and> (r = Ok () \<and> t = recorded h TxTypeVerifyAndExecute height (sent call s) \<or> (\<exists>e. r = Err e) \<and> t = sent call s)))"
proof (cases "ru_down s \<or> pendingRows TxTypeVerifyAndExecute s \<noteq> [] \<or> toVerify c s = [] \<or> proofsNext c s = [] \<or>
    length (proofsNext c s) \<noteq> length (toVerify c s) \<or> map pf_BlockNumber (proofsNext c s) \<noteq> map bk_BlockHeight (toVerify c s)")
  case True
  with assms have "t = s"
    by (auto simp: VerifyAndExecuteBlocks_def bnd_run [of "optional _"] bnd_run [of "mapErr _ (optional _)"] bnd_run [of "mapErr _ (queryRows _)"] rows_run
        GetLatestPendingTx_run GetLatestHandledTx_run Let_def GetCommittedBlocksBetween_def optional_rows_run GetProofsBetween_def
        thn_run failIf_run toVerify_def proofsNext_def split: if_splits)
  then show ?thesis ..
next
  case False
  let ?bs = "toVerify c s" and ?ps = "proofsNext c s"
  from False assms have r: "bnd (proofElements L ?ps) (\<lambda>proofs. bnd (gasPriceOf c L) (\<lambda>p.
      bnd (sendL1 L ''failed to send verify tx'' (VerifyCall (map (verifyInfo X) ?bs) proofs p (sd_GasLimit c))) (\<lambda>h.
      mapErr (\<lambda>_. ErrorsNew ''failed to create rollup tx in db'') (CreateL1RollupTx h RollupPending TxTypeVerifyAndExecute
        (uint (sb_BlockNumber (vi_BlockHeader (last (map (verifyInfo X) ?bs))))))))) s = (r, t)"
    by (simp add: VerifyAndExecuteBlocks_def bnd_run [of "optional _"] bnd_run [of "mapErr _ (optional _)"] bnd_run [of "mapErr _ (queryRows _)"] rows_run
        GetLatestPendingTx_run GetLatestHandledTx_run Let_def GetCommittedBlocksBetween_def optional_rows_run GetProofsBetween_def
        thn_run failIf_run toVerify_def proofsNext_def ConvertBlocksToVerifyAndExecuteBlockInfos_def)
  obtain pr u where pe: "proofElements L ?ps s = (pr, u)" by fastforce
  note pp = proofElements_pure [OF pe]
  show ?thesis
  proof (cases pr)
    case (Ok proofs)
    with r pe pp have "bnd (gasPriceOf c L) (\<lambda>p.
      bnd (sendL1 L ''failed to send verify tx'' (VerifyCall (map (verifyInfo X) ?bs) proofs p (sd_GasLimit c))) (\<lambda>h.
      mapErr (\<lambda>_. ErrorsNew ''failed to create rollup tx in db'') (CreateL1RollupTx h RollupPending TxTypeVerifyAndExecute
        (uint (sb_BlockNumber (vi_BlockHeader (last (map (verifyInfo X) ?bs)))))))) s = (r, t)" by (simp add: bnd_run [of "proofElements L ?ps"])
    from send_outcome [OF this] Ok pe pp False show ?thesis by (auto simp: Let_def last_map)
  qed (use r pe pp in \<open>auto simp: bnd_run [of "proofElements L ?ps"]\<close>)
qed

section \<open>The invariant\<close>

text \<open>Computations that leave the table of rollup transactions alone keep every property of it.\<close>

definition onRollupTxs :: "(L1RollupTx list \<Rightarrow> bool) \<Rightarrow> Rollup \<Rightarrow> bool" where
  "onRollupTxs P s = P (ru_L1RollupTx s)"

lemma keeps_query [keep]: "keeps I (query f)" by (simp add: keeps_def run)
lemma keeps_queryRows [keep]: "keeps I (queryRows f)" by (simp add: keeps_def run)
lemma keeps_queryRow [keep]: "keeps I (queryRow f)" by (simp add: keeps_def run)

lemma keeps_optional [keep]: "keeps I m \<Longrightarrow> keeps I (optional m)"
  unfolding keeps_def optional_run by (auto split: prod.splits res.splits)

lemma keeps_update: "(\<And>s. I s \<Longrightarrow> I (f s)) \<Longrightarrow> keeps I (update f)"
  by (simp add: keeps_def run)

lemma keeps_transaction [keep]: "keeps I m \<Longrightarrow> keeps I (transaction m)"
  unfolding keeps_def transaction_def by (auto split: prod.splits res.splits)

lemma keeps_keeping [keep]:
  "keeps (onRollupTxs P) m \<Longrightarrow> keeps (onRollupTxs P) (transactionKeepingRollupTxs m)"
  unfolding keeps_def transactionKeepingRollupTxs_def onRollupTxs_def by (auto simp: Let_def split: prod.splits res.splits)

lemma keeps_bnd_gives:
  assumes "keeps I m" "gives P m" "\<And>a. P a \<Longrightarrow> keeps I (f a)"
  shows "keeps I (bnd m f)"
  using assms unfolding keeps_def gives_def bnd_run by (force split: prod.splits res.splits)

definition fewPending :: "L1RollupTx list \<Rightarrow> bool" where
  "fewPending rows \<longleftrightarrow> (\<forall>ty. length (filter (\<lambda>r. rt_TxType r = ty \<and> rt_TxStatus r = RollupPending) rows) \<le> 1)"

lemma rollupOk_few: "rollupOk s = onRollupTxs fewPending s"
  by (simp add: rollupOk_def onRollupTxs_def fewPending_def pendingRows_def)

lemma few_filter:
  assumes "fewPending rows"
  shows "fewPending (filter P rows)"
  unfolding fewPending_def
proof
  fix ty
  let ?Q = "\<lambda>r. rt_TxType r = ty \<and> rt_TxStatus r = RollupPending"
  have f: "filter ?Q (filter P rows) = filter P (filter ?Q rows)" by (simp add: conj_commute)
  have "length (filter ?Q rows) \<le> 1" using assms by (simp add: fewPending_def)
  then show "length (filter ?Q (filter P rows)) \<le> 1" unfolding f using length_filter_le [of P "filter ?Q rows"] by (rule order_trans [rotated])
qed

lemma few_handled: "fewPending rows \<Longrightarrow> rt_TxStatus r = RollupHandled \<Longrightarrow> fewPending (rows @ [r])"
  by (simp add: fewPending_def)

lemma few_update: "fewPending rows \<Longrightarrow> rt_TxStatus r = RollupHandled \<Longrightarrow> fewPending (updateRow rt_ID r rows)"
proof -
  assume r: "rt_TxStatus r = RollupHandled"
  have "length (filter (\<lambda>r. rt_TxType r = ty \<and> rt_TxStatus r = RollupPending) (updateRow rt_ID r xs)) \<le>
      length (filter (\<lambda>r. rt_TxType r = ty \<and> rt_TxStatus r = RollupPending) xs)" for ty xs
    using r by (induction xs) (auto simp: updateRow_def)
  moreover assume "fewPending rows"
  ultimately show ?thesis unfolding fewPending_def using le_trans by blast
qed

lemma scanLogs_keeps [keep]: "keeps I (scanLogs L h gs v m)"
proof (induction L h gs v m rule: scanLogs.induct)
  case (1 L h v m)
  then show ?case by (simp add: keeps_def)
next
  case (2 L h g gs v m)
  then show ?case by (auto intro!: keep split: list.split)
qed

lemma DeleteL1RollupTx_keeps [keep]: "keeps (onRollupTxs fewPending) (DeleteL1RollupTx r)"
  unfolding DeleteL1RollupTx_def by (intro keep keeps_update) (simp add: onRollupTxs_def few_filter)

lemma followSent_keeps [keep]: "keeps (onRollupTxs fewPending) (followSent c L h rs done m)"
proof (induction c L h rs "done" m rule: followSent.induct)
  case (1 c L h "done" m)
  then show ?case by (simp add: keeps_def)
next
  case (2 c L h r rs "done" m)
  then show ?case by (auto intro!: keep split: sum.split)
qed

lemma followSent_handled:
  "\<forall>r \<in> set done. rt_TxStatus r = RollupHandled \<Longrightarrow>
    gives (\<lambda>(rows, p). \<forall>r \<in> set rows. rt_TxStatus r = RollupHandled) (followSent c L h rs done m)"
proof (induction c L h rs "done" m rule: followSent.induct)
  case (1 c L h "done" m)
  then show ?case by (simp add: gives_def)
next
  case (2 c L h r rs "done" m)
  show ?case
  proof (cases "l1_GetTransactionReceipt L (rt_L1TxHash r)")
    case (Inl e)
    then show ?thesis using 2 by (auto simp: thn_def intro!: gives_any)
  next
    case (Inr q)
    have p: "gives P (bnd m (\<lambda>_. panic x))" for P x and m :: "(Rollup, err, 'z) comp"
      by (rule gives_any) (simp add: gives_def)
    show ?thesis using 2 Inr by (auto intro!: gives_any gives_case_prod p)
  qed
qed

lemma Update_keeps: "keeps (onRollupTxs fewPending) (UpdateSentTxs X c L)"
proof -
  have u: "keeps (onRollupTxs fewPending) (UpdateL1RollupTxsInTransact rows)" if "\<forall>r \<in> set rows. rt_TxStatus r = RollupHandled" for rows
    unfolding UpdateL1RollupTxsInTransact_def using that by (auto intro!: keep keeps_update simp: onRollupTxs_def few_update)
  have p: "keeps (onRollupTxs fewPending) (UpdateProofsInTransact X m)" for m
    unfolding UpdateProofsInTransact_def by (intro keep keeps_update) (simp_all add: onRollupTxs_def)
  have f: "keeps (onRollupTxs fewPending) (bnd (followSent c L h rows [] []) (\<lambda>(handled, proofs).
      mapErr g (transaction (thn (UpdateL1RollupTxsInTransact handled) (UpdateProofsInTransact X proofs)))))" for h rows g
    by (rule keeps_bnd_gives [where P = "\<lambda>(rows, _). \<forall>r \<in> set rows. rt_TxStatus r = RollupHandled"])
      (auto intro!: keep u p followSent_handled)
  show ?thesis unfolding UpdateSentTxs_def GetL1RollupTxsByStatus_def by (intro keep f)
qed

lemma few_pending:
  "fewPending rows \<Longrightarrow> filter (\<lambda>r. rt_TxType r = rt_TxType q \<and> rt_TxStatus r = RollupPending) rows = [] \<Longrightarrow> fewPending (rows @ [q])"
  by (auto simp: fewPending_def)

lemma Commit_keeps: "keeps (onRollupTxs fewPending) (CommitBlocks T X c L)"
proof (rule keepsI)
  fix s assume "onRollupTxs fewPending s"
  moreover obtain r t where o: "CommitBlocks T X c L s = (r, t)" by fastforce
  ultimately show "onRollupTxs fewPending (snd (CommitBlocks T X c L s))" using CommitBlocks_outcome [OF o]
    by (auto simp: onRollupTxs_def Let_def recorded_def sent_def pendingRows_def intro!: few_pending)
qed

lemma Verify_keeps: "keeps (onRollupTxs fewPending) (VerifyAndExecuteBlocks X c L)"
proof (rule keepsI)
  fix s assume "onRollupTxs fewPending s"
  moreover obtain r t where o: "VerifyAndExecuteBlocks X c L s = (r, t)" by fastforce
  ultimately show "onRollupTxs fewPending (snd (VerifyAndExecuteBlocks X c L s))" using Verify_outcome [OF o]
    by (auto simp: onRollupTxs_def Let_def recorded_def sent_def pendingRows_def intro!: few_pending)
qed

lemma keeps_onRollupTxs: "(\<And>s. ru_L1RollupTx (f s) = ru_L1RollupTx s) \<Longrightarrow> keeps (onRollupTxs P) (update f)"
  by (rule keeps_update) (simp add: onRollupTxs_def)

lemma ensure_keeps [keep]: "keeps (onRollupTxs fewPending) (ensureRollupTx ty h n)"
  unfolding ensureRollupTx_def GetL1RollupTxsByHash_def CreateL1RollupTx_def
  by (intro keep keeps_update) (simp add: onRollupTxs_def few_handled)

lemma genericLog_keeps [keep]: "keeps I (genericLog X L g a)"
  unfolding genericLog_def relatedBlock_def GetBlockByHeightWithoutTx_def
  by (cases "lg_Topics g") (auto intro!: keep)

lemma genericLogs_keeps [keep]: "keeps I (genericLogs X L gs a)"
proof (induction X L gs a rule: genericLogs.induct)
  case (1 X L a)
  then show ?case by (simp add: keeps_def)
next
  case (2 X L g gs a)
  then show ?case by (auto intro!: keep)
qed

lemma range_keeps [keep]: "keeps I (getBlockRangeToSync c L ty)"
  unfolding getBlockRangeToSync_def Let_def GetLatestL1SyncedBlockByType_def by (intro keep)

lemma Generic_keeps: "keeps (onRollupTxs fewPending) (MonitorGenericBlocks X c L)"
  unfolding MonitorGenericBlocks_def storeGeneric_def Let_def CreateL1SyncedBlockInTransact_def CreatePriorityRequestsInTransact_def
    UpdateBlocksWithoutTxsInTransact_def UpdateProofsInTransact_def UpdateTxsStatusInTransact_def
  by (intro keep keeps_onRollupTxs) simp_all

lemma poolTxs_keeps [keep]: "keeps I (poolTxs T X i rs)"
proof (induction T X i rs rule: poolTxs.induct)
  case (1 T X i)
  then show ?case by (simp add: keeps_def)
next
  case (2 T X i r rs)
  have "keeps I (requestPayload X r)"
    by (rule keepsI) (simp add: requestPayload_def Let_def bnd_run mapErr_def parse_eqs layout_defs)
  then show ?case using 2 unfolding poolTxs.simps Let_def by (intro keep) auto
qed

lemma Requests_keeps: "keeps (onRollupTxs fewPending) (MonitorPriorityRequests T X)"
  unfolding MonitorPriorityRequests_def CreateTxsInTransact_def UpdateHandledPriorityRequestsInTransact_def
    GetPriorityRequestsByStatus_def GetLatestHandledRequestId_def
  by (intro keep keeps_onRollupTxs) (simp_all add: keeps_def split: list.split)

text \<open>
  The steps: any operation of the two services, with any answer of L1, and anything the other services
  write to their own tables.
\<close>

inductive rollupStep :: "('t, 'd) Smt \<Rightarrow> Lib \<Rightarrow> Rollup \<Rightarrow> Rollup \<Rightarrow> bool" for T X where
  commit: "CommitBlocks T X c L s = (r, t) \<Longrightarrow> rollupStep T X s t"
| verify: "VerifyAndExecuteBlocks X c L s = (r, t) \<Longrightarrow> rollupStep T X s t"
| follow: "UpdateSentTxs X c L s = (r, t) \<Longrightarrow> rollupStep T X s t"
| generic: "MonitorGenericBlocks X mc (M :: Monitored) s = (r, t) \<Longrightarrow> rollupStep T X s t"
| requests: "MonitorPriorityRequests T X s = (r, t) \<Longrightarrow> rollupStep T X s t"
| others: "ru_L1RollupTx t = ru_L1RollupTx s \<Longrightarrow> rollupStep T X s t"

lemma rollupStep_ok: "rollupStep T X s t \<Longrightarrow> rollupOk s \<Longrightarrow> rollupOk t"
  unfolding rollupOk_few
proof (induction rule: rollupStep.induct)
  case (others t s)
  then show ?case by (simp add: onRollupTxs_def)
qed (rule keepsD [OF Commit_keeps] keepsD [OF Verify_keeps] keepsD [OF Update_keeps] keepsD [OF Generic_keeps]
      keepsD [OF Requests_keeps]; assumption)+

lemma rollup_reachable: "(rollupStep T X)\<^sup>*\<^sup>* s t \<Longrightarrow> rollupOk s \<Longrightarrow> rollupOk t"
  by (induction rule: rtranclp_induct) (auto intro: rollupStep_ok)

end
