(* ===== verification/Ref_Monitor.thy ===== *)
theory Ref_Monitor
  imports Ref_Sender
begin

text \<open>
  What the monitor guarantees: it reads every L1 block once, in order, and only blocks that are
  confirmed; what it stores of a range is stored whole or not at all; and every pending priority request
  becomes exactly one transaction of the pool, in the order of the request ids.
\<close>

section \<open>The range\<close>

definition syncedRows :: "syncType \<Rightarrow> Rollup \<Rightarrow> L1SyncedBlock list" where
  "syncedRows ty s = filter (\<lambda>b. sy_Type b = ty) (ru_L1SyncedBlock s)"

text \<open>The last L1 block that was read.\<close>

definition handledHeight :: "MonitorConfig \<Rightarrow> syncType \<Rightarrow> Rollup \<Rightarrow> int" where
  "handledHeight c ty s = (if syncedRows ty s = [] then mc_StartL1BlockHeight c else Max (sy_L1BlockHeight ` set (syncedRows ty s)))"

lemma hd_desc_Max:
  fixes f :: "'a \<Rightarrow> int"
  assumes "xs \<noteq> []"
  shows "f (hd (sort_key (\<lambda>x. - f x) xs)) = Max (f ` set xs)"
  using hd_sort_key_desc [OF assms, of f] by (intro Max_eqI [symmetric]) auto

lemma range_run:
  assumes "\<not> ru_down s" "l1_GetHeight L = Inr h"
  shows "getBlockRangeToSync c L ty s = (Ok (wrap64 (handledHeight c ty s + 1),
    sint (word_of_int (MinInt64 (sint (h - mc_ConfirmBlocksCount c)) (wrap64 (handledHeight c ty s + mc_MaxHandledBlocksCount c))) :: 64 word)), s)"
  using assms
  by (simp add: getBlockRangeToSync_def bnd_run mapErr_def optional_run GetLatestL1SyncedBlockByType_def queryRow_run sort_key_Nil_iff
      ofSum_run handledHeight_def syncedRows_def Let_def hd_desc_Max)

lemma sint_word_of_int: "- (2 ^ 63) \<le> x \<Longrightarrow> x < 2 ^ 63 \<Longrightarrow> sint (word_of_int x :: 64 word) = x"
  by (simp add: signed_of_int signed_take_bit_int_eq_self)

lemma sint_diff:
  fixes a b :: "64 word"
  assumes "uint a < 2 ^ 63" "uint b < 2 ^ 63"
  shows "sint (a - b) = uint a - uint b"
proof -
  have "a - b = word_of_int (uint a - uint b)" by simp
  also have "sint \<dots> = uint a - uint b"
    by (rule sint_word_of_int) (use assms uint_ge_0 [of a] uint_ge_0 [of b] in linarith)+
  finally show ?thesis .
qed

definition heightsFit :: "MonitorConfig \<Rightarrow> syncType \<Rightarrow> Rollup \<Rightarrow> 64 word \<Rightarrow> bool" where
  "heightsFit c ty s h \<longleftrightarrow> 0 \<le> handledHeight c ty s \<and> 0 < mc_MaxHandledBlocksCount c \<and>
     handledHeight c ty s + mc_MaxHandledBlocksCount c < 2 ^ 63 \<and> uint h < 2 ^ 63 \<and> uint (mc_ConfirmBlocksCount c) < 2 ^ 63"

lemma range_eq:
  assumes "\<not> ru_down s" "l1_GetHeight L = Inr h" "heightsFit c ty s h"
  shows "getBlockRangeToSync c L ty s = (Ok (handledHeight c ty s + 1,
    min (uint h - uint (mc_ConfirmBlocksCount c)) (handledHeight c ty s + mc_MaxHandledBlocksCount c)), s)"
proof -
  let ?m = "min (uint h - uint (mc_ConfirmBlocksCount c)) (handledHeight c ty s + mc_MaxHandledBlocksCount c)"
  have f: "0 \<le> handledHeight c ty s" "0 < mc_MaxHandledBlocksCount c" "handledHeight c ty s + mc_MaxHandledBlocksCount c < 2 ^ 63"
    "uint h < 2 ^ 63" "uint (mc_ConfirmBlocksCount c) < 2 ^ 63"
    using assms(3) unfolding heightsFit_def by blast+
  have w: "wrap64 (handledHeight c ty s + mc_MaxHandledBlocksCount c) = handledHeight c ty s + mc_MaxHandledBlocksCount c"
    "wrap64 (handledHeight c ty s + 1) = handledHeight c ty s + 1"
    by (rule wrap64_id; use f in linarith)+
  have m: "MinInt64 (uint h - uint (mc_ConfirmBlocksCount c)) (handledHeight c ty s + mc_MaxHandledBlocksCount c) = ?m"
    by (simp add: MinInt64_def min_def)
  have "sint (word_of_int ?m :: 64 word) = ?m"
    by (rule sint_word_of_int) (use f uint_ge_0 [of h] uint_ge_0 [of "mc_ConfirmBlocksCount c"] in \<open>linarith | simp add: min_def\<close>)+
  then show ?thesis by (simp only: range_run [OF assms(1,2)] sint_diff [OF f(4,5)] w m)
qed

section \<open>A range is read once\<close>

text \<open>Storing a range adds one row of synced blocks.\<close>

definition onSynced :: "(L1SyncedBlock list \<Rightarrow> bool) \<Rightarrow> Rollup \<Rightarrow> bool" where
  "onSynced P s = P (ru_L1SyncedBlock s)"

lemma keeps_onSynced: "(\<And>s. ru_L1SyncedBlock (f s) = ru_L1SyncedBlock s) \<Longrightarrow> keeps (onSynced P) (update f)"
  by (rule keeps_update) (simp add: onSynced_def)

lemma storeGeneric_synced:
  assumes "storeGeneric X e a s = (Ok (), t)"
  shows "ru_L1SyncedBlock t = ru_L1SyncedBlock s @ [\<lparr>sy_L1BlockHeight = e, sy_BlockInfo = se_events a, sy_Type = TypeGeneric\<rparr>]"
proof -
  let ?b = "\<lparr>sy_L1BlockHeight = e, sy_BlockInfo = se_events a, sy_Type = TypeGeneric\<rparr>"
  let ?rows = "map (\<lambda>h. the (mget (se_blocks a) h)) (x_range X (mkeys (se_blocks a)))"
  define rest where "rest = thn (CreatePriorityRequestsInTransact (se_requests a))
      (thn (UpdateBlocksWithoutTxsInTransact ?rows)
      (thn (forM (highest bk_CommittedTxHash ?rows) (\<lambda>(h, b). ensureRollupTx TxTypeCommit h (bk_BlockHeight b)))
      (thn (forM (highest bk_VerifiedTxHash ?rows) (\<lambda>(h, b). ensureRollupTx TxTypeVerifyAndExecute h (bk_BlockHeight b)))
      (thn (if highest bk_VerifiedTxHash ?rows = [] then ret ()
            else UpdateProofsInTransact X (fold (\<lambda>(h, b). mput (bk_BlockHeight b) Confirmed) (highest bk_VerifiedTxHash ?rows) []))
      (UpdateTxsStatusInTransact X (se_txStatus a))))))"
  have k: "keeps (onSynced (\<lambda>rows. rows = ru_L1SyncedBlock s @ [?b])) rest"
    unfolding rest_def CreatePriorityRequestsInTransact_def UpdateBlocksWithoutTxsInTransact_def ensureRollupTx_def CreateL1RollupTx_def
      GetL1RollupTxsByHash_def UpdateProofsInTransact_def UpdateTxsStatusInTransact_def
    by (intro keep keeps_onSynced) simp_all
  have "storeGeneric X e a = thn (CreateL1SyncedBlockInTransact ?b) rest" by (simp add: storeGeneric_def Let_def rest_def)
  with assms have "rest (s\<lparr>ru_L1SyncedBlock := ru_L1SyncedBlock s @ [?b]\<rparr>) = (Ok (), t)"
    by (auto simp: thn_run CreateL1SyncedBlockInTransact_def update_run split: if_splits)
  from keepsD [OF k _ this] show ?thesis by (simp add: onSynced_def)
qed

text \<open>The outcome of a pass: nothing to read, a stored range, or a failure that undid everything but rollup rows.\<close>

definition undone :: "Rollup \<Rightarrow> Rollup \<Rightarrow> bool" where
  "undone s t \<longleftrightarrow> t = s\<lparr>ru_L1RollupTx := ru_L1RollupTx t, ru_nextId := ru_nextId t\<rparr>"

lemma undone_refl: "undone s s" by (simp add: undone_def)

lemma pure_bndE:
  assumes "bnd m f s = (r, t)" "keeps (\<lambda>t. t = s) m"
  obtains a where "f a s = (r, t)" | "t = s" "\<forall>u. r \<noteq> Ok u"
  using assms(1) keepsD [OF assms(2) refl] by (force simp: bnd_run split: prod.splits res.splits)

lemmas pure_thnE = pure_bndE [where f = "\<lambda>_. m2" for m2, folded thn_def]

lemma Generic_outcome:
  assumes "MonitorGenericBlocks X c L s = (r, t)" "\<not> ru_down s" "l1_GetHeight L = Inr h" "heightsFit c TypeGeneric s h"
  defines "e \<equiv> min (uint h - uint (mc_ConfirmBlocksCount c)) (handledHeight c TypeGeneric s + mc_MaxHandledBlocksCount c)"
  shows "(\<exists>a. r = Ok () \<and> handledHeight c TypeGeneric s < e \<and> storeGeneric X e a s = (Ok (), t)) \<or>
    r = Ok () \<and> e \<le> handledHeight c TypeGeneric s \<and> t = s \<or> (\<forall>u. r \<noteq> Ok u) \<and> undone s t"
proof (cases "e < handledHeight c TypeGeneric s + 1")
  case True
  with assms range_eq [OF assms(2,3,4)] show ?thesis by (auto simp: MonitorGenericBlocks_def bnd_run)
next
  case False
  let ?st = "handledHeight c TypeGeneric s + 1"
  let ?store = "\<lambda>a. mapErr (\<lambda>_. ErrorsNew ''failed to store monitor info'') (transactionKeepingRollupTxs (storeGeneric X e a))"
  let ?a0 = "\<lparr>se_events = [], se_requests = [], se_blocks = [], se_txStatus = []\<rparr>"
  from False assms(1) range_eq [OF assms(2,3,4)] have
    "bnd (mapErr (\<lambda>_. ErrorsNew ''failed to get priority request count'') (ofSum (mo_CountRequests L (word_of_int ?st) (word_of_int e)))) (\<lambda>n.
     bnd (mapErr (\<lambda>_. ErrorsNew ''failed to get contract logs'') (ofSum (mo_FilterLogs L ?st e))) (\<lambda>logs.
     bnd (genericLogs X L logs ?a0) (\<lambda>a.
     thn (failIf (n \<noteq> int (length (se_requests a))) (ErrorsNew ''new priority requests events not match, try it again'')) (?store a)))) s = (r, t)"
    by (simp add: MonitorGenericBlocks_def bnd_run [of "getBlockRangeToSync _ _ _"] e_def)
  moreover have "(\<exists>a. r = Ok () \<and> storeGeneric X e a s = (Ok (), t)) \<or> (\<forall>u. r \<noteq> Ok u) \<and> undone s t" if "?store a s = (r, t)" for a
    using that by (auto simp: mapErr_def transactionKeepingRollupTxs_def Let_def undone_def split: prod.splits res.splits)
  ultimately have "(\<exists>a. r = Ok () \<and> storeGeneric X e a s = (Ok (), t)) \<or> (\<forall>u. r \<noteq> Ok u) \<and> undone s t"
    by (elim pure_bndE pure_thnE) (auto intro!: keep simp: undone_refl)
  with False show ?thesis by auto
qed

lemma handledHeight_append:
  assumes "ru_L1SyncedBlock t = ru_L1SyncedBlock s @ [b]" "sy_Type b = ty" "handledHeight c ty s < sy_L1BlockHeight b"
  shows "handledHeight c ty t = sy_L1BlockHeight b"
proof -
  have r: "syncedRows ty t = syncedRows ty s @ [b]" by (simp add: syncedRows_def assms(1,2))
  have "h \<le> sy_L1BlockHeight b" if "h \<in> sy_L1BlockHeight ` set (syncedRows ty s)" for h
  proof -
    from that have "h \<le> Max (sy_L1BlockHeight ` set (syncedRows ty s))" by simp
    moreover have "syncedRows ty s \<noteq> []" using that by auto
    ultimately show ?thesis using assms(3) unfolding handledHeight_def by (simp only: if_False)
  qed
  then have "Max (sy_L1BlockHeight ` set (syncedRows ty t)) = sy_L1BlockHeight b" unfolding r by (intro Max_eqI) auto
  then show ?thesis by (simp add: handledHeight_def r)
qed

lemma handledHeight_stored:
  assumes "storeGeneric X e a s = (Ok (), t)" "handledHeight c TypeGeneric s < e"
  shows "handledHeight c TypeGeneric t = e"
  using handledHeight_append [OF storeGeneric_synced [OF assms(1)]] assms(2) by simp

section \<open>Priority requests\<close>

definition pendingRequests :: "Rollup \<Rightarrow> PriorityRequest list" where
  "pendingRequests s = sort_key pr_RequestId (filter (\<lambda>r. pr_Status r = RequestPending) (ru_PriorityRequest s))"

definition latestHandledId :: "Rollup \<Rightarrow> int" where
  "latestHandledId s = (case sort_key (\<lambda>r. - pr_RequestId r) (filter (\<lambda>r. pr_Status r = RequestHandled) (ru_PriorityRequest s)) of
     [] \<Rightarrow> -1 | r # _ \<Rightarrow> pr_RequestId r)"

text \<open>The transaction a request stands for.\<close>

definition standsFor :: "('t, 'd) Smt \<Rightarrow> Lib \<Rightarrow> PriorityRequest \<Rightarrow> Tx \<Rightarrow> bool" where
  "standsFor T X r tx \<longleftrightarrow> (\<exists>ty payload info. (\<forall>s. requestPayload X r s = (Ok (ty, payload), s)) \<and> x_MarshalTx X payload = Inr info \<and>
     tx\<lparr>tx_ID := 0\<rparr> = requestTx (ComputeL1TxTxHash T X (pr_RequestId r) (pr_L1TxHash r)) (pr_SenderAddress r) ty info)"

lemma requestPayload_pure:
  assumes "requestPayload X r s = (q, t)"
  shows "t = s \<and> (\<forall>v. requestPayload X r v = (q, v))"
  using assms by (auto simp: requestPayload_def Let_def bnd_run mapErr_def parse_eqs layout_defs split: if_splits)

lemma standsForD:
  assumes "standsFor T X r tx" "\<And>s. requestPayload X r s = (Ok (ty, payload), s)"
  shows "\<exists>info. x_MarshalTx X payload = Inr info \<and> tx_TxType tx = ty \<and> tx_TxInfo tx = info \<and>
    tx_NativeAddress tx = pr_SenderAddress r \<and> tx_TxStatus tx = StatusPending"
proof -
  from assms obtain info where i: "x_MarshalTx X payload = Inr info"
    "tx\<lparr>tx_ID := 0\<rparr> = requestTx (ComputeL1TxTxHash T X (pr_RequestId r) (pr_L1TxHash r)) (pr_SenderAddress r) ty info"
    unfolding standsFor_def by auto
  have "tx_TxType tx = ty" "tx_TxInfo tx = info" "tx_NativeAddress tx = pr_SenderAddress r" "tx_TxStatus tx = StatusPending"
    using arg_cong [OF i(2), of tx_TxType] arg_cong [OF i(2), of tx_TxInfo] arg_cong [OF i(2), of tx_NativeAddress]
      arg_cong [OF i(2), of tx_TxStatus] by (simp_all add: requestTx_def)
  with i(1) show ?thesis by blast
qed

lemma requestPayload_keeps [keep]: "keeps I (requestPayload X r)"
  using requestPayload_pure by (intro keepsI) (metis prod.collapse)

fun idsFrom :: "int \<Rightarrow> PriorityRequest list \<Rightarrow> bool" where
  "idsFrom i [] = True"
| "idsFrom i (r # rs) = (pr_RequestId r = wrap64 (i + 1) \<and> idsFrom (wrap64 (i + 1)) rs)"

lemma poolTxs_ok:
  "poolTxs T X i rs s = (Ok new, t) \<Longrightarrow> t = s \<and> idsFrom i rs \<and>
    map fst new = map (\<lambda>r. r\<lparr>pr_L2TxHash := ComputeL1TxTxHash T X (pr_RequestId r) (pr_L1TxHash r)\<rparr>) rs \<and>
    list_all2 (standsFor T X) rs (map snd new)"
proof (induction rs arbitrary: i s new t)
  case (Cons r rs)
  from Cons.prems have i: "pr_RequestId r = wrap64 (i + 1)" by (auto simp: thn_run failIf_run split: if_splits)
  let ?h = "ComputeL1TxTxHash T X (pr_RequestId r) (pr_L1TxHash r)"
  obtain q u where q: "requestPayload X r s = (q, u)" by fastforce
  note pure = requestPayload_pure [OF q]
  from Cons.prems i q pure obtain ty payload where ty: "q = Ok (ty, payload)"
    by (cases q) (auto simp: thn_run failIf_run Let_def bnd_run split: prod.splits)
  from Cons.prems i q pure ty obtain info where info: "x_MarshalTx X payload = Inr info"
    by (cases "x_MarshalTx X payload") (auto simp: thn_run failIf_run Let_def bnd_run mapErr_def ofSum_run)
  obtain q2 v where p: "poolTxs T X (wrap64 (i + 1)) rs s = (q2, v)" by fastforce
  from Cons.prems i q pure ty info p obtain rest where rest: "q2 = Ok rest" "t = v"
    "new = (r\<lparr>pr_L2TxHash := ?h\<rparr>, requestTx ?h (pr_SenderAddress r) ty info) # rest"
    by (cases q2) (auto simp: thn_run failIf_run Let_def bnd_run mapErr_def ofSum_run)
  have st: "standsFor T X r (requestTx ?h (pr_SenderAddress r) ty info)"
    unfolding standsFor_def using pure ty info by (intro exI [of _ ty] exI [of _ payload] exI [of _ info]) (simp add: requestTx_def)
  from Cons.IH [of "wrap64 (i + 1)" s rest v] p rest i st show ?case by simp
qed simp

text \<open>Marking the requests handled.\<close>

definition handle :: "PriorityRequest \<Rightarrow> PriorityRequest \<Rightarrow> PriorityRequest" where
  "handle r x = (if pr_ID x = pr_ID r then x\<lparr>pr_Status := RequestHandled, pr_L2TxHash := pr_L2TxHash r\<rparr> else x)"

lemma forM_fold: "forM rs m s = (Ok (), t) \<Longrightarrow> (\<And>r s t. m r s = (Ok (), t) \<Longrightarrow> t = F r s) \<Longrightarrow> t = fold F rs s"
  by (induction rs arbitrary: s) (auto simp: thn_run split: prod.splits res.splits)

lemma fold_rows: "fold (\<lambda>r s. s\<lparr>ru_PriorityRequest := map (handle r) (ru_PriorityRequest s)\<rparr>) rs s =
    s\<lparr>ru_PriorityRequest := map (fold handle rs) (ru_PriorityRequest s)\<rparr>"
  by (induction rs arbitrary: s) (simp_all add: comp_def)

lemma UpdateHandled_ok:
  assumes "UpdateHandledPriorityRequestsInTransact rs s = (Ok (), t)"
  shows "t = s\<lparr>ru_PriorityRequest := map (fold handle rs) (ru_PriorityRequest s)\<rparr>"
proof -
  have "t = fold (\<lambda>r s. s\<lparr>ru_PriorityRequest := map (handle r) (ru_PriorityRequest s)\<rparr>) rs s"
    by (rule forM_fold [OF assms [unfolded UpdateHandledPriorityRequestsInTransact_def]])
      (auto simp: bnd_run thn_run update_run failIf_run handle_def split: if_splits)
  then show ?thesis by (simp only: fold_rows)
qed

lemma fold_handle:
  "distinct (map pr_ID rs) \<Longrightarrow> fold handle rs x = (case find (\<lambda>r. pr_ID r = pr_ID x) rs of None \<Rightarrow> x
     | Some r \<Rightarrow> x\<lparr>pr_Status := RequestHandled, pr_L2TxHash := pr_L2TxHash r\<rparr>)"
proof (induction rs arbitrary: x)
  case (Cons r rs)
  show ?case
  proof (cases "pr_ID r = pr_ID x")
    case True
    then have "pr_ID q \<noteq> pr_ID x" if "q \<in> set rs" for q
      using Cons.prems that by (metis distinct.simps(2) image_eqI list.simps(9) set_map)
    then have "find (\<lambda>q. pr_ID q = pr_ID x) rs = None" unfolding find_None_iff by blast
    with True Cons show ?thesis by (simp add: handle_def)
  next
    case False
    with Cons show ?thesis by (simp add: handle_def)
  qed
qed simp

definition handledRow :: "('t, 'd) Smt \<Rightarrow> Lib \<Rightarrow> PriorityRequest \<Rightarrow> PriorityRequest" where
  "handledRow T X x = (if pr_Status x = RequestPending
     then x\<lparr>pr_Status := RequestHandled, pr_L2TxHash := ComputeL1TxTxHash T X (pr_RequestId x) (pr_L1TxHash x)\<rparr> else x)"

lemma handled_rows:
  assumes d: "distinct (map pr_ID (ru_PriorityRequest s))"
    and rs: "rs = map (\<lambda>r. r\<lparr>pr_L2TxHash := ComputeL1TxTxHash T X (pr_RequestId r) (pr_L1TxHash r)\<rparr>) (pendingRequests s)"
    and x: "x \<in> set (ru_PriorityRequest s)"
  shows "fold handle rs x = handledRow T X x"
proof -
  let ?P = "pendingRequests s"
  have "distinct (map pr_ID (filter (\<lambda>r. pr_Status r = RequestPending) (ru_PriorityRequest s)))"
    using d by (simp add: distinct_map inj_on_def)
  then have dp: "distinct (map pr_ID ?P)" unfolding pendingRequests_def by (simp add: distinct_map)
  have "map pr_ID rs = map pr_ID ?P" by (simp add: rs)
  with dp have dr: "distinct (map pr_ID rs)" by simp
  have eq: "y = x" if "y \<in> set (ru_PriorityRequest s)" "pr_ID y = pr_ID x" for y
    using d x that by (auto simp: distinct_map dest: inj_onD)
  show ?thesis
  proof (cases "pr_Status x = RequestPending")
    case True
    then have "x \<in> set ?P" using x by (simp add: pendingRequests_def)
    then obtain q where q: "find (\<lambda>r. pr_ID r = pr_ID x) rs = Some q" by (fastforce simp: rs find_None_iff image_iff dest: spec)
    then have "q \<in> set rs" "pr_ID q = pr_ID x" by (auto simp: find_Some_iff)
    then obtain y where "y \<in> set ?P" "q = y\<lparr>pr_L2TxHash := ComputeL1TxTxHash T X (pr_RequestId y) (pr_L1TxHash y)\<rparr>" "pr_ID y = pr_ID x"
      by (auto simp: rs)
    then have "q = x\<lparr>pr_L2TxHash := ComputeL1TxTxHash T X (pr_RequestId x) (pr_L1TxHash x)\<rparr>"
      using eq [of y] by (simp add: pendingRequests_def)
    with True q show ?thesis by (simp add: fold_handle [OF dr] handledRow_def)
  next
    case False
    have "find (\<lambda>r. pr_ID r = pr_ID x) rs = None"
      unfolding find_None_iff rs using eq False by (auto simp: pendingRequests_def)
    with False show ?thesis by (simp add: fold_handle [OF dr] handledRow_def)
  qed
qed

lemma mapErr_Ok: "mapErr g m s = (Ok a, t) \<Longrightarrow> m s = (Ok a, t)"
  by (auto simp: mapErr_def split: prod.splits res.splits)

lemma transaction_Ok: "transaction m s = (Ok a, t) \<Longrightarrow> m s = (Ok a, t)"
  by (auto simp: transaction_def split: prod.splits res.splits)

lemma transaction_fail: "mapErr g (transaction m) s = (r, t) \<Longrightarrow> \<forall>u. r \<noteq> Ok u \<Longrightarrow> t = s"
  by (auto simp: mapErr_def transaction_def split: prod.splits res.splits)

lemma keeps_case_list [keep]:
  "(xs = [] \<Longrightarrow> keeps I m) \<Longrightarrow> (\<And>y ys. xs = y # ys \<Longrightarrow> keeps I (f y ys)) \<Longrightarrow> keeps I (case xs of [] \<Rightarrow> m | y # ys \<Rightarrow> f y ys)"
  by (cases xs) auto

lemma MonitorPriorityRequests_ok:
  assumes ok: "MonitorPriorityRequests T X s = (Ok (), t)" and ne: "pendingRequests s \<noteq> []"
    and d: "distinct (map pr_ID (ru_PriorityRequest s))"
  shows "idsFrom (latestHandledId s) (pendingRequests s) \<and>
    (\<exists>txs. list_all2 (standsFor T X) (pendingRequests s) txs \<and> ru_TxPool t = ru_TxPool s @ txs) \<and>
    ru_PriorityRequest t = map (handledRow T X) (ru_PriorityRequest s)"
proof -
  have up: "\<not> ru_down s" using ok
    by (auto simp: MonitorPriorityRequests_def bnd_run optional_run GetPriorityRequestsByStatus_def queryRows_run split: if_splits)
  have l: "mapErr g GetLatestHandledRequestId s = (Ok (latestHandledId s), s)" for g
    using up by (auto simp: mapErr_def GetLatestHandledRequestId_def bnd_run query_run latestHandledId_def split: list.split)
  obtain q u where p: "poolTxs T X (latestHandledId s) (pendingRequests s) s = (q, u)" by fastforce
  have "bnd (poolTxs T X (latestHandledId s) (pendingRequests s)) (\<lambda>new. mapErr (\<lambda>_. ErrorsNew ''unable to create pool tx and update priority requests'')
      (transaction (thn (CreateTxsInTransact (map snd new)) (UpdateHandledPriorityRequestsInTransact (map fst new))))) s = (Ok (), t)"
    using ok up ne by (simp add: MonitorPriorityRequests_def bnd_run [of "optional _"] bnd_run [of "mapErr _ GetLatestHandledRequestId"] optional_run
        GetPriorityRequestsByStatus_def queryRows_run pendingRequests_def l)
  with p obtain new where new: "q = Ok new" and st: "mapErr (\<lambda>_. ErrorsNew ''unable to create pool tx and update priority requests'')
      (transaction (thn (CreateTxsInTransact (map snd new)) (UpdateHandledPriorityRequestsInTransact (map fst new)))) u = (Ok (), t)"
    by (cases q) (auto simp: bnd_run)
  note pool = poolTxs_ok [OF p [unfolded new]]
  from st pool obtain v where v: "CreateTxsInTransact (map snd new) s = (Ok (), v)" "UpdateHandledPriorityRequestsInTransact (map fst new) v = (Ok (), t)"
    by (elim thn_OkE [OF transaction_Ok [OF mapErr_Ok]]) simp
  let ?txs = "map (\<lambda>(k, t). t\<lparr>tx_ID := ru_nextId s + int k\<rparr>) (enumerate 0 (map snd new))"
  from v(1) have vs: "ru_TxPool v = ru_TxPool s @ ?txs" "ru_PriorityRequest v = ru_PriorityRequest s"
    by (auto simp: CreateTxsInTransact_def bnd_run thn_run failIf_run update_run split: if_splits)
  note t = UpdateHandled_ok [OF v(2)]
  have "list_all2 (standsFor T X) (pendingRequests s) ?txs"
    using pool by (auto simp: list_all2_conv_all_nth nth_enumerate_eq standsFor_def)
  moreover have "map (fold handle (map fst new)) (ru_PriorityRequest s) = map (handledRow T X) (ru_PriorityRequest s)"
    by (rule map_cong [OF refl]) (rule handled_rows [OF d]; use pool in blast)
  ultimately show ?thesis using pool by (auto simp: t vs)
qed

lemma MonitorPriorityRequests_fail:
  assumes "MonitorPriorityRequests T X s = (r, t)" "\<forall>u. r \<noteq> Ok u"
  shows "t = s"
  using assms(1) unfolding MonitorPriorityRequests_def
proof (rule pure_bndE)
  show "keeps (\<lambda>t. t = s) (optional (GetPriorityRequestsByStatus RequestPending))"
    unfolding GetPriorityRequestsByStatus_def by (intro keep)
  fix a assume a: "(case a of None \<Rightarrow> ret () | Some rows \<Rightarrow>
      bnd (mapErr (\<lambda>_. ErrorsNew ''unable to get last handled request id'') GetLatestHandledRequestId) (\<lambda>current.
      bnd (poolTxs T X current rows) (\<lambda>new.
      mapErr (\<lambda>_. ErrorsNew ''unable to create pool tx and update priority requests'')
        (transaction (thn (CreateTxsInTransact (map snd new)) (UpdateHandledPriorityRequestsInTransact (map fst new))))))) s = (r, t)"
  show "t = s"
  proof (cases a)
    case (Some rows)
    have k: "keeps (\<lambda>t. t = s) (mapErr g GetLatestHandledRequestId)" for g unfolding GetLatestHandledRequestId_def by (intro keep)
    from a Some show ?thesis
      by (simp only: option.case) (elim pure_bndE; (intro keep k)?; (erule transaction_fail [OF _ assms(2)] | assumption))
  qed (use a in simp)
qed

end
