(* ===== verification/Ref_Governance.thy ===== *)
theory Ref_Governance
  imports Zk_Governance Ref_Monitor
begin

text \<open>
  What a pass over the events of the governance contract does: it is stored whole or not at all, and the
  ranges it reads follow each other. Two of its event handlers do not do what they are for, which the
  last two properties state.
\<close>

section \<open>A pass\<close>

lemma processValidatorUpdate_keeps [keep]: "keeps I (processValidatorUpdate L a b p)"
  unfolding processValidatorUpdate_def sysConfigByName_def Let_def by (intro keep)

lemma processAssetPausedUpdate_keeps [keep]: "keeps I (processAssetPausedUpdate a b p)"
  unfolding processAssetPausedUpdate_def GetAssetByAddress_def by (intro keep)

lemma governanceLog_keeps [keep]: "keeps I (governanceLog L g a)"
  unfolding governanceLog_def getNewL2Asset_def by (cases a; cases "lg_Topics g") (auto intro!: keep)

lemma governanceLogs_keeps [keep]: "keeps I (governanceLogs L gs a)"
proof (induction L gs a rule: governanceLogs.induct)
  case (1 L a)
  then show ?case by (simp add: keeps_def)
next
  case (2 L g gs a)
  then show ?case by (auto intro!: keep)
qed

lemma storeChanges_outcome:
  assumes "storeChanges b p s = (r, t)"
  shows "(\<forall>u. r \<noteq> Ok u) \<and> t = s \<or> r = Ok () \<and> ru_L1SyncedBlock t = ru_L1SyncedBlock s @ [b]"
proof -
  let ?rest = "thn (if map snd (gp_l2AssetMap p) \<noteq> [] then CreateAssetsInTransact (map snd (gp_l2AssetMap p)) else ret ())
        (thn (if map snd (gp_pendingUpdateL2AssetMap p) \<noteq> [] then UpdateAssetsInTransact (map snd (gp_pendingUpdateL2AssetMap p)) else ret ())
        (thn (if map snd (gp_pendingNewSysConfigMap p) \<noteq> [] then CreateSysConfigsInTransact (map snd (gp_pendingNewSysConfigMap p)) else ret ())
        (if map snd (gp_pendingUpdateSysConfigMap p) \<noteq> [] then UpdateSysConfigsInTransact (map snd (gp_pendingUpdateSysConfigMap p)) else ret ())))"
  have k: "keeps (onSynced (\<lambda>rows. rows = ru_L1SyncedBlock s @ [b])) ?rest"
    unfolding CreateAssetsInTransact_def UpdateAssetsInTransact_def CreateSysConfigsInTransact_def UpdateSysConfigsInTransact_def
    by (intro keep keeps_onSynced) simp_all
  have eq: "storeChanges b p = mapErr (\<lambda>_. ErrorsNew ''store governance monitor info error'') (transaction (thn (CreateL1SyncedBlockInTransact b) ?rest))"
    by (simp only: storeChanges_def Let_def)
  show ?thesis
  proof (cases r)
    case (Ok u)
    have "thn (CreateL1SyncedBlockInTransact b) ?rest s = (Ok (), t)"
      by (rule transaction_Ok, rule mapErr_Ok) (use assms Ok in \<open>simp only: eq\<close>, simp)
    then have "?rest (s\<lparr>ru_L1SyncedBlock := ru_L1SyncedBlock s @ [b]\<rparr>) = (Ok (), t)"
      by (rule thn_OkE) (simp only: CreateL1SyncedBlockInTransact_def update_run prod.inject res.distinct res.inject if_split_eq2 simp_thms split: if_split_asm)
    from keepsD [OF k _ this] Ok show ?thesis by (simp add: onSynced_def)
  qed (use assms transaction_fail in \<open>simp_all only: eq\<close>, blast+)
qed

lemma Governance_outcome:
  assumes "MonitorGovernanceBlocks c L s = (r, t)" "\<not> ru_down s" "l1_GetHeight L = Inr h" "heightsFit c TypeGovernance s h"
  defines "e \<equiv> min (uint h - uint (mc_ConfirmBlocksCount c)) (handledHeight c TypeGovernance s + mc_MaxHandledBlocksCount c)"
  shows "r = Ok () \<and> handledHeight c TypeGovernance s < e \<and> handledHeight c TypeGovernance t = e \<or>
    r = Ok () \<and> e \<le> handledHeight c TypeGovernance s \<and> t = s \<or> (\<forall>u. r \<noteq> Ok u) \<and> t = s"
proof (cases "e < handledHeight c TypeGovernance s + 1")
  case True
  with assms range_eq [OF assms(2,3,4)] show ?thesis by (auto simp: MonitorGovernanceBlocks_def bnd_run)
next
  case False
  let ?st = "handledHeight c TypeGovernance s + 1"
  from False assms(1) range_eq [OF assms(2,3,4)] have
    "bnd (mapErr (\<lambda>_. ErrorsNew ''failed to query logs through rpc client'') (ofSum (go_FilterLogs L ?st e))) (\<lambda>logs.
     bnd (governanceLogs L logs ([], NewGovernancePendingChanges)) (\<lambda>(events, p).
     storeChanges \<lparr>sy_L1BlockHeight = e, sy_BlockInfo = events, sy_Type = TypeGovernance\<rparr> p)) s = (r, t)"
    by (simp add: MonitorGovernanceBlocks_def bnd_run [of "getBlockRangeToSync _ _ _"] e_def)
  then consider ev p where "storeChanges \<lparr>sy_L1BlockHeight = e, sy_BlockInfo = ev, sy_Type = TypeGovernance\<rparr> p s = (r, t)"
    | "t = s" "\<forall>u. r \<noteq> Ok u"
    by (elim pure_bndE) (auto intro!: keep)
  then show ?thesis
  proof cases
    case 1
    from storeChanges_outcome [OF 1] False show ?thesis
      using handledHeight_append [of t s "\<lparr>sy_L1BlockHeight = e, sy_BlockInfo = ev, sy_Type = TypeGovernance\<rparr>" TypeGovernance c] by auto
  qed auto
qed

section \<open>Two event handlers\<close>

lemma validator_row_read:
  assumes "\<not> ru_down s" "filter (\<lambda>c. cf_Name c = Validators) (ru_SysConfig s) = row # rows" "map_of (gp_pendingNewSysConfigMap p) Validators = None"
    and "go_UnmarshalValidators L (cf_Value row) = Inr vs" "go_MarshalValidators L (setValidator a v vs) = Inr text"
  shows "processValidatorUpdate L a v p s = (Ok (p\<lparr>gp_pendingUpdateSysConfigMap := AList.update Validators
    ((case map_of (gp_pendingUpdateSysConfigMap p) Validators of None \<Rightarrow> row | Some r \<Rightarrow> r)\<lparr>cf_Value := text\<rparr>) (gp_pendingUpdateSysConfigMap p)\<rparr>), s)"
  using assms by (simp add: processValidatorUpdate_def sysConfigByName_def bnd_run mapErr_def optional_run queryRow_run ofSum_run Let_def)

lemma paused_unknown_fails:
  assumes "lg_Topics g = topic # ts" "topic = go_AssetPausedUpdateSigHash L"
    "distinct [go_NewAssetSigHash L, go_NewGovernorSigHash L, go_NewAssetGovernanceSigHash L, go_ValidatorStatusUpdateSigHash L, go_AssetPausedUpdateSigHash L]"
    "go_UnpackAssetPausedUpdate L (lg_Data g) = Inr (token, paused)" "map_of (gp_l2AssetMap p) token = None"
  shows "governanceLog L g (events, p) s = (Err (ErrorsNew ''unable to get l2 asset by address''), s)"
  using assms by (auto simp: governanceLog_def bnd_run mapErr_def ofSum_run processAssetPausedUpdate_def GetAssetByAddress_def)

end
