(* ===== verification/Zk_SampleL1.thy ===== *)
theory Zk_SampleL1
  imports Zk_Sample Ref_Block Ref_Governance
begin

text \<open>
  The concrete chain with its trees and with the services facing L1: a tree is a function from keys to
  leaves, L1 confirms everything at once, and one deposit waits as a priority request.
\<close>

section \<open>Trees\<close>

definition sampleSmt :: "(64 word \<Rightarrow> byte list, unit) Smt" where
  "sampleSmt =
     \<lparr>k_Mimc = (\<lambda>bs. take 32 (bs @ replicate 32 0)), k_Modulus = 97, k_Mod = (\<lambda>x m. x mod m), k_PointSize = 32,
      k_MultiSet = (\<lambda>items t. (None, \<lambda>k. case map_of items k of Some v \<Rightarrow> v | None \<Rightarrow> t k)), k_Root = (\<lambda>t. t 0 @ t 1),
      k_LatestVersion = (\<lambda>_. 0), k_RecentVersion = (\<lambda>_. 0), k_IsEmpty = (\<lambda>_. False),
      k_Commit = (\<lambda>_ t d. (None, t, d)), k_Rollback = (\<lambda>_ t d. (None, t, d)), k_Open = (\<lambda>_ _ _ _. [])\<rparr>"

lemma sampleSmt_ok: "smt_ok sampleSmt (\<lambda>t. t) (\<lambda>f. f 0 @ f 1)" "field_ok sampleSmt"
  by (simp_all add: smt_ok_def field_ok_def sampleSmt_def)

text \<open>Account 0 changed its asset 0, and the NFT changed.\<close>

definition sampleNode :: "(64 word \<Rightarrow> byte list, unit) Node" where
  "sampleNode =
     \<lparr>n_world = updSc (\<lambda>c. c\<lparr>sc_dirtyAccountsAndAssetsMap := [(0, [(0, True)])], sc_dirtyNftMap := [(0, True)]\<rparr>) sampleWorld,
      n_AccountTree = (\<lambda>_. []), n_NftTree = (\<lambda>_. []), n_treeHeap = (\<lambda>_ _. []), n_treeNext = 0, n_treeCache = [], n_treeCacheSize = 1,
      n_changes = [], n_disk = ()\<rparr>"

lemma sampleNode_dirty:
  "dirtyAccounts (n_world sampleNode) = [0]" "dirtyAssets (n_world sampleNode) 0 = [0]" "dirtyNfts (n_world sampleNode) = [0]"
  by (simp_all add: sampleNode_def updSc_def dirtyAccounts_def dirtyAssets_def dirtyNfts_def mkeys_def dirtyKeys_def mget_def)

lemma sample_inField: "0 \<le> x \<Longrightarrow> x < 1000 \<Longrightarrow> inField sampleSmt x"
  by (simp add: inField_def sampleSmt_def nat_less_iff)

lemma sampleNode_ready: "rootReady sampleSmt sampleX {0} sampleNode (\<lambda>_. sampleAccount 0 100) (\<lambda>_. sampleNft)"
proof -
  have a: "accountReady sampleSmt sampleX (n_world sampleNode) (\<lambda>_. sampleAccount 0 100) 0"
  proof -
    have "readable {0} (sampleAccount 0 100) (n_world sampleNode) 0"
      by (simp add: readable_def sampleNode_def updSc_def sampleWorld_def mget_def looks_def sampleAccount_def assetBal_def assetOffer_def)
    moreover have "accountHashes sampleSmt sampleX (sampleAccount 0 100)"
      by (simp add: accountHashes_def sample_inField sampleAccount_def) (simp add: ParsePubKey_def sampleLib_def)
    moreover have "assetsHash sampleSmt (w_sc (n_world sampleNode)) 0 (sampleAccount 0 100) [0]"
      by (simp add: assetsHash_def gasPart_def isGasAsset_def GasAccount_def sample_inField sampleAccount_def assetBal_def assetOffer_def)
    ultimately show ?thesis by (simp add: accountReady_def sampleNode_dirty)
  qed
  have n: "nftReady sampleSmt sampleX (n_world sampleNode) (\<lambda>_. sampleNft) 0"
  proof -
    have "readableNft sampleNft (n_world sampleNode) 0"
      by (simp add: readableNft_def sampleNode_def updSc_def sampleWorld_def mget_def)
    moreover have "nftHashes sampleSmt sampleX sampleNft"
    proof -
      have "parseBig ''0'' = Some 0" by code_simp
      moreover have "nat \<bar>k_Mod sampleSmt (SetBytes b) (k_Modulus sampleSmt)\<bar> < 256 ^ 32" for b
      proof -
        have "0 \<le> SetBytes b mod 97" "SetBytes b mod 97 < 97" by simp_all
        then show ?thesis by (simp add: sampleSmt_def nat_less_iff)
      qed
      ultimately show ?thesis by (simp add: nftHashes_def sampleNft_def sample_inField EmptyL1Address_def)
    qed
    ultimately show ?thesis by (simp add: nftReady_def)
  qed
  show ?thesis unfolding rootReady_def sampleNode_dirty using a n
    by (simp add: treesOk_def) (simp add: sampleNode_def updSc_def sampleWorld_def)
qed

section \<open>L1\<close>

definition sampleDeposit :: DepositTxInfo where
  "sampleDeposit = \<lparr>dp_TxType = 2, dp_AccountIndex = 0, dp_AccountNameHash = replicate 32 0, dp_AssetId = 0, dp_AssetAmount = 5\<rparr>"

abbreviation depositX :: Lib where "depositX \<equiv> sampleLib (DepositInfo sampleDeposit)"

definition sampleRequest :: PriorityRequest where
  "sampleRequest = \<lparr>pr_ID = 1, pr_L1TxHash = [], pr_L1BlockHeight = 5, pr_SenderAddress = ''s'', pr_RequestId = 0,
     pr_TxType = 2, pr_Pubdata = map charOfByte (encodeDeposit sampleDeposit), pr_ExpirationBlock = 0,
     pr_Status = RequestPending, pr_L2TxHash = []\<rparr>"

definition sampleCompressed :: CompressedBlock where
  "sampleCompressed = \<lparr>cb_BlockSize = 1, cb_BlockHeight = 1, cb_StateRoot = [], cb_PublicData = [], cb_Timestamp = 0, cb_PublicDataOffsets = []\<rparr>"

definition sampleBlockRow :: BlockRow where
  "sampleBlockRow = Block.extend (sampleBlock\<lparr>bk_BlockHeight := 1, bk_BlockStatus := BlockCommitted\<rparr>)
     (BlockRow.fields 1 [] 0 [] 0)"

definition sampleProof :: Proof where
  "sampleProof = \<lparr>pf_ID = 1, pf_ProofInfo = [], pf_BlockNumber = 1, pf_Status = NotSent\<rparr>"

definition sampleRollup :: Rollup where
  "sampleRollup = \<lparr>ru_down = False, ru_readOnly = False, ru_nextId = 2, ru_now = 0, ru_Block = [sampleBlockRow],
     ru_CompressedBlock = [sampleCompressed], ru_L1RollupTx = [], ru_Proof = [sampleProof], ru_PriorityRequest = [sampleRequest],
     ru_L1SyncedBlock = [], ru_TxPool = [], ru_poolHashes = [], ru_Tx = [], ru_Asset = [], ru_assetIds = [],
     ru_SysConfig = [], ru_sent = []\<rparr>"

definition sampleSender :: SenderConfig where
  "sampleSender = \<lparr>sd_MaxWaitingTime = 60, sd_MaxBlockCount = 4, sd_ConfirmBlocksCount = 3, sd_GasLimit = 100, sd_GasPrice = 1\<rparr>"

definition sampleMonitor :: MonitorConfig where
  "sampleMonitor = \<lparr>mc_StartL1BlockHeight = 1, mc_ConfirmBlocksCount = 3, mc_MaxHandledBlocksCount = 10, mc_KeptHistoryBlocksCount = 100\<rparr>"

definition sampleL1 :: Monitored where
  "sampleL1 = \<lparr>l1_GetHeight = Inr 100, l1_GetTransactionReceipt = (\<lambda>_. Inl DbErrNotFound), l1_SuggestGasPrice = Inr 1,
     l1_Send = (\<lambda>_. Inr ''tx''), l1_CommitSigHash = ''c'', l1_VerificationSigHash = ''v'',
     l1_UnpackBlockCommit = (\<lambda>_. Inr 1), l1_UnpackBlockVerification = (\<lambda>_. Inr 1),
     l1_UnmarshalProof = (\<lambda>_. Inr \<lparr>fp_A = [1, 2], fp_B = [[3, 4], [5, 6]], fp_C = [7, 8], fp_Inputs = [9, 10, 11]\<rparr>),
     mo_FilterLogs = (\<lambda>_ _. Inr []), mo_CountRequests = (\<lambda>_ _. Inr 0), mo_HeaderTime = (\<lambda>_. Inr 0),
     mo_NewPriorityRequestSigHash = ''r'', mo_WithdrawalSigHash = ''w'', mo_WithdrawalPendingSigHash = ''p'', mo_BlocksRevertSigHash = ''x'',
     mo_UnpackNewPriorityRequest = (\<lambda>_. Inl DbErrNotFound)\<rparr>"

abbreviation sampleCalls :: L1 where "sampleCalls \<equiv> L1.truncate sampleL1"

lemma sampleDeposit_fits: "depositFits sampleDeposit" by (simp add: depositFits_def sampleDeposit_def)

lemma byteOfChar_charOfByte: "byteOfChar (charOfByte b) = b"
proof -
  have "unat b < 256" using unsigned_less [of b] by simp
  then have "(of_char (char_of (unat b) :: char) :: nat) = unat b" by simp
  then have "of_nat (of_char (char_of (unat b) :: char)) = b" by simp
  then show ?thesis by (simp add: byteOfChar_def charOfByte_def of_nat_of_char del: of_char_of)
qed

lemma sample_hex: "x_FromHex (sampleLib ti) (map charOfByte bs) = bs"
  by (simp add: sampleLib_def comp_def byteOfChar_charOfByte)

text \<open>A table of validators with one row, and a contract that pauses a token.\<close>

definition sampleConfig :: SysConfig where
  "sampleConfig = \<lparr>cf_ID = 9, cf_Name = Validators, cf_Value = [], cf_ValueType = [], cf_Comment = []\<rparr>"

definition sampleLog :: Log where
  "sampleLog = \<lparr>lg_TxHash = ''t'', lg_BlockNumber = 5, lg_Topics = [''u''], lg_Data = []\<rparr>"

definition sampleGov :: Governed where
  "sampleGov = L1.extend sampleCalls
     (Governed.fields (\<lambda>_ _. Inr [sampleLog]) ''a'' ''g'' ''n'' ''s'' ''u'' (\<lambda>_. Inl DbErrNotFound) (\<lambda>_. Inl DbErrNotFound)
       (\<lambda>_. Inl DbErrNotFound) (\<lambda>_. Inr (''v'', True)) (\<lambda>_. Inr (''token'', True)) (\<lambda>_. Inl DbErrNotFound) (\<lambda>x. x)
       (\<lambda>_. Inr []) (\<lambda>vs. Inr (concat (map fst vs))))"

lemma sampleGov_sel [simp]:
  "go_FilterLogs sampleGov a b = Inr [sampleLog]" "go_AssetPausedUpdateSigHash sampleGov = ''u''" "go_NewAssetSigHash sampleGov = ''a''"
  "go_NewGovernorSigHash sampleGov = ''g''" "go_NewAssetGovernanceSigHash sampleGov = ''n''" "go_ValidatorStatusUpdateSigHash sampleGov = ''s''"
  "go_UnpackAssetPausedUpdate sampleGov d = Inr (''token'', True)" "go_UnmarshalValidators sampleGov x = Inr []"
  "go_MarshalValidators sampleGov vs = Inr (concat (map fst vs))" "l1_GetHeight sampleGov = Inr 100"
  by (simp_all add: sampleGov_def L1.extend_def Governed.fields_def L1.truncate_def sampleL1_def)

lemma sample_governed:
  "\<not> ru_down sampleRollup" "heightsFit sampleMonitor TypeGovernance sampleRollup 100"
  "handledHeight sampleMonitor TypeGovernance sampleRollup = 1"
  by (simp_all add: sampleRollup_def heightsFit_def handledHeight_def syncedRows_def sampleMonitor_def)

end
