(* ===== verification/Zk_Store.thy ===== *)
theory Zk_Store
  imports Zk_Committer Zk_Rollup
begin

text \<open>
  The committer with its database: the writes a block makes (src/dao/account, nft, compressedblock,
  block, tx), restoring an interrupted block, and one pass of the loop of \<open>Committer.Run\<close>
  (src/service/committer/committer/committer.go). The tables of accounts and NFTs are those the state
  database reads (\<open>w_db\<close>), the others those of the services facing L1. gorm: \<open>Updates\<close> with all columns
  selected writes the whole row but its id, and looks for the id too when the object has one; \<open>Create\<close>
  numbers an object that has no id; a unique index refuses a second row.
\<close>

record ('t, 'd) Service =
  sv_node :: "('t, 'd) Node"
  sv_rollup :: Rollup
  sv_AccountHistory :: "AccountHistory list"
  sv_L2NftHistory :: "L2NftHistory list"
  sv_blockID :: int

type_synonym ('t, 'd, 'a) serviceM = "(('t, 'd) Service, err, 'a) comp"

abbreviation worldOf :: "('t, 'd) Service \<Rightarrow> World" where
  "worldOf s \<equiv> n_world (sv_node s)"

definition onNode :: "('t, 'd, 'a) nodeM \<Rightarrow> ('t, 'd, 'a) serviceM" where
  "onNode m = (\<lambda>s. case m (sv_node s) of (r, n) \<Rightarrow> (r, s\<lparr>sv_node := n\<rparr>))"

definition onRollup :: "'a rollupM \<Rightarrow> ('t, 'd, 'a) serviceM" where
  "onRollup m = (\<lambda>s. case m (sv_rollup s) of (r, u) \<Rightarrow> (r, s\<lparr>sv_rollup := u\<rparr>))"

definition onChain :: "'a go \<Rightarrow> ('t, 'd, 'a) serviceM" where
  "onChain m = onNode (onWorld m)"

definition setDb :: "ChainDB \<Rightarrow> ('t, 'd) Service \<Rightarrow> ('t, 'd) Service" where
  "setDb d s = s\<lparr>sv_node := (sv_node s)\<lparr>n_world := (worldOf s)\<lparr>w_db := d\<rparr>\<rparr>\<rparr>"

text \<open>\<open>db.Transaction\<close>: an error or a panic of the body undoes what it wrote to the tables.\<close>

definition storing :: "('t, 'd, 'a) serviceM \<Rightarrow> ('t, 'd, 'a) serviceM" where
  "storing m = (\<lambda>s. case m s of (Ok a, t) \<Rightarrow> (Ok a, t)
     | (r, t) \<Rightarrow> (r, setDb (w_db (worldOf s)) (t\<lparr>sv_rollup := sv_rollup s, sv_AccountHistory := sv_AccountHistory s,
         sv_L2NftHistory := sv_L2NftHistory s\<rparr>)))"

definition tableWrite :: "(('t, 'd) Service \<Rightarrow> ('t, 'd) Service) \<Rightarrow> ('t, 'd, unit) serviceM" where
  "tableWrite f = (\<lambda>s. if db_down (w_db (worldOf s)) \<or> ru_down (sv_rollup s) \<or> ru_readOnly (sv_rollup s)
     then (Err sqlErr, s) else (Ok (), f s))"

section \<open>Rows a block updates or creates\<close>

definition hits :: "('r \<Rightarrow> int) \<Rightarrow> ('r \<Rightarrow> int) \<Rightarrow> 'r \<Rightarrow> 'r \<Rightarrow> bool" where
  "hits key rid r x \<longleftrightarrow> key x = key r \<and> (rid r = 0 \<or> rid x = rid r)"

definition upsert :: "('r \<Rightarrow> int) \<Rightarrow> ('r \<Rightarrow> int) \<Rightarrow> (int \<Rightarrow> 'r \<Rightarrow> 'r) \<Rightarrow> int \<Rightarrow> 'r \<Rightarrow> 'r list \<Rightarrow> 'r list" where
  "upsert key rid setId next r rows =
     (if list_ex (hits key rid r) rows then map (\<lambda>x. if hits key rid r x then setId (rid x) r else x) rows
      else rows @ [if rid r = 0 then setId next r else r])"

definition setAccountId :: "int \<Rightarrow> Account \<Rightarrow> Account" where "setAccountId i a = a\<lparr>ac_ID := i\<rparr>"

definition setNftId :: "int \<Rightarrow> L2Nft \<Rightarrow> L2Nft" where "setNftId i n = n\<lparr>nft_ID := i\<rparr>"

definition uniqueAccounts :: "Account list \<Rightarrow> bool" where
  "uniqueAccounts rows \<longleftrightarrow> distinct (map ac_AccountIndex rows) \<and> distinct (map ac_AccountName rows) \<and>
     distinct (map ac_PublicKey rows) \<and> distinct (map ac_AccountNameHash rows) \<and> distinct (map ac_ID rows)"

definition uniqueNfts :: "L2Nft list \<Rightarrow> bool" where
  "uniqueNfts rows \<longleftrightarrow> distinct (map nft_NftIndex rows) \<and> distinct (map nft_ID rows)"

definition takeId :: "('t, 'd) Service \<Rightarrow> ('t, 'd) Service" where
  "takeId s = s\<lparr>sv_rollup := (sv_rollup s)\<lparr>ru_nextId := ru_nextId (sv_rollup s) + 1\<rparr>\<rparr>"

definition UpdateAccountsInTransact :: "Account list \<Rightarrow> ('t, 'd, unit) serviceM" where
  "UpdateAccountsInTransact accounts = forM accounts (\<lambda>a.
     bnd (gets (\<lambda>s. upsert ac_AccountIndex ac_ID setAccountId (ru_nextId (sv_rollup s)) a (db_Account (w_db (worldOf s))))) (\<lambda>rows.
     thn (failIf (\<not> uniqueAccounts rows) sqlErr)
       (tableWrite (\<lambda>s. takeId (setDb ((w_db (worldOf s))\<lparr>db_Account := rows\<rparr>) s)))))"

text \<open>\<open>Create\<close> writes the new id into the object, here the pending NFT itself.\<close>

definition numberNft :: "int \<Rightarrow> int \<Rightarrow> World \<Rightarrow> World" where
  "numberNft n i w = (case pendingNft w n of None \<Rightarrow> w | Some r \<Rightarrow> setNft r (setNftId i (w_nftHeap w r)) w)"

definition UpdateNftsInTransact :: "L2Nft list \<Rightarrow> ('t, 'd, unit) serviceM" where
  "UpdateNftsInTransact nfts = forM nfts (\<lambda>n.
     bnd (gets (\<lambda>s. upsert nft_NftIndex nft_ID setNftId (ru_nextId (sv_rollup s)) n (db_L2Nft (w_db (worldOf s))))) (\<lambda>rows.
     thn (failIf (\<not> uniqueNfts rows) sqlErr)
       (tableWrite (\<lambda>s.
          let created = \<not> list_ex (hits nft_NftIndex nft_ID n) (db_L2Nft (w_db (worldOf s))) \<and> nft_ID n = 0;
              w = (if created then numberNft (nft_NftIndex n) (ru_nextId (sv_rollup s)) (worldOf s) else worldOf s) in
          takeId (setDb ((w_db w)\<lparr>db_L2Nft := rows\<rparr>) (s\<lparr>sv_node := (sv_node s)\<lparr>n_world := w\<rparr>\<rparr>))))))"

definition CreateAccountHistoriesInTransact :: "AccountHistory list \<Rightarrow> ('t, 'd, unit) serviceM" where
  "CreateAccountHistoriesInTransact hs = tableWrite (\<lambda>s. s\<lparr>sv_AccountHistory := sv_AccountHistory s @ hs\<rparr>)"

definition CreateNftHistoriesInTransact :: "L2NftHistory list \<Rightarrow> ('t, 'd, unit) serviceM" where
  "CreateNftHistoriesInTransact hs = tableWrite (\<lambda>s. s\<lparr>sv_L2NftHistory := sv_L2NftHistory s @ hs\<rparr>)"

section \<open>The pool and the blocks\<close>

definition onTables :: "(Rollup \<Rightarrow> Rollup) \<Rightarrow> ('t, 'd, unit) serviceM" where
  "onTables f = tableWrite (\<lambda>s. s\<lparr>sv_rollup := f (sv_rollup s)\<rparr>)"

definition CreateCompressedBlockInTransact :: "CompressedBlock \<Rightarrow> ('t, 'd, unit) serviceM" where
  "CreateCompressedBlockInTransact b = onTables (\<lambda>u. u\<lparr>ru_CompressedBlock := ru_CompressedBlock u @ [b]\<rparr>)"

definition GetTxsByStatus :: "txStatus \<Rightarrow> Tx list rollupM" where
  "GetTxsByStatus status = query (\<lambda>u. filter (\<lambda>t. tx_TxStatus t = status) (ru_TxPool u))"

definition GetLatestTx :: "int list \<Rightarrow> txStatus list \<Rightarrow> Tx rollupM" where
  "GetLatestTx txTypes statuses = queryRow (\<lambda>u. sort_key (\<lambda>t. - tx_ID t)
     (filter (\<lambda>t. tx_TxStatus t \<in> set statuses \<and> tx_TxType t \<in> set txTypes) (ru_TxPool u)))"

text \<open>The details of a transaction are rows of another table, which is not written here.\<close>

definition UpdateTxsInTransact :: "Tx list \<Rightarrow> ('t, 'd, unit) serviceM" where
  "UpdateTxsInTransact txs = forM txs (\<lambda>t.
     bnd (gets (\<lambda>s. \<exists>x \<in> set (ru_TxPool (sv_rollup s)). tx_ID x = tx_ID t)) (\<lambda>found.
     thn (onTables (\<lambda>u. u\<lparr>ru_TxPool := map (\<lambda>x. if tx_ID x = tx_ID t then t\<lparr>tx_TxDetails := tx_TxDetails x\<rparr> else x) (ru_TxPool u)\<rparr>))
       (failIf (\<not> found) (ErrorsNew ''fail to update pool tx''))))"

definition DeleteTxsInTransact :: "Tx list \<Rightarrow> ('t, 'd, unit) serviceM" where
  "DeleteTxsInTransact txs = forM txs (\<lambda>t.
     bnd (gets (\<lambda>s. \<exists>x \<in> set (ru_TxPool (sv_rollup s)). tx_ID x = tx_ID t)) (\<lambda>found.
     thn (onTables (\<lambda>u. u\<lparr>ru_TxPool := filter (\<lambda>x. tx_ID x \<noteq> tx_ID t) (ru_TxPool u)\<rparr>))
       (failIf (\<not> found) (ErrorsNew ''fail to delete pool tx''))))"

definition blockRow :: "int \<Rightarrow> Block \<Rightarrow> BlockRow" where
  "blockRow i b = Block.extend b (BlockRow.fields i [] 0 [] 0)"

definition GetCurrentBlockHeight :: "int rollupM" where
  "GetCurrentBlockHeight = queryRow (\<lambda>u. sort_key (\<lambda>h. - h) (map bk_BlockHeight (ru_Block u)))"

text \<open>
  Creating or updating a block creates the rows of its transactions; a transaction whose hash the table
  has already is left as it is.
\<close>

definition numbered :: "int \<Rightarrow> Tx list \<Rightarrow> Tx list" where
  "numbered i txs = map (\<lambda>(k, t). t\<lparr>tx_ID := i + int k\<rparr>) (enumerate 0 txs)"

definition addTxs :: "Tx list \<Rightarrow> Tx list \<Rightarrow> Tx list" where
  "addTxs txs rows = rows @ filter (\<lambda>t. tx_TxHash t \<notin> tx_TxHash ` set rows) txs"

definition CreateBlockInTransact :: "BlockRow \<Rightarrow> ('t, 'd, unit) serviceM" where
  "CreateBlockInTransact b =
     bnd (gets (\<lambda>s. \<exists>x \<in> set (ru_Block (sv_rollup s)). bk_BlockHeight x = bk_BlockHeight b)) (\<lambda>clash.
     thn (failIf clash sqlErr)
     (tableWrite (\<lambda>s. let u = sv_rollup s; i = ru_nextId u; txs = numbered (i + 1) (bk_Txs b) in
        s\<lparr>sv_rollup := u\<lparr>ru_nextId := i + 1 + int (length txs), ru_Block := ru_Block u @ [b\<lparr>bk_ID := i, bk_Txs := txs\<rparr>],
            ru_Tx := addTxs txs (ru_Tx u)\<rparr>, sv_blockID := i\<rparr>)))"

definition UpdateBlockInTransact :: "Block \<Rightarrow> ('t, 'd, unit) serviceM" where
  "UpdateBlockInTransact b =
     bnd (gets (\<lambda>s. \<exists>x \<in> set (ru_Block (sv_rollup s)). bk_ID x = sv_blockID s)) (\<lambda>found.
     thn (tableWrite (\<lambda>s. let u = sv_rollup s; txs = numbered (ru_nextId u) (bk_Txs b) in
        s\<lparr>sv_rollup := u\<lparr>ru_nextId := ru_nextId u + int (length txs),
          ru_Block := map (\<lambda>x. if bk_ID x = sv_blockID s then blockRow (sv_blockID s) (b\<lparr>bk_Txs := txs\<rparr>) else x) (ru_Block u),
          ru_Tx := addTxs txs (ru_Tx u)\<rparr>\<rparr>))
       (failIf (\<not> found) (ErrorsNew ''fail to update block'')))"

section \<open>Committing a block\<close>

definition ClearTxsModel :: "Block \<Rightarrow> Block" where
  "ClearTxsModel b = b\<lparr>bk_Txs := map (\<lambda>t. t\<lparr>tx_ID := 0\<rparr>) (bk_Txs b)\<rparr>"

definition whenAny :: "'x list \<Rightarrow> ('s, err, unit) comp \<Rightarrow> ('s, err, unit) comp" where
  "whenAny xs m = (if xs \<noteq> [] then m else ret ())"

text \<open>The writes of a block that do not depend on how its row is stored.\<close>

definition storeStates :: "BlockStates \<Rightarrow> ('t, 'd, unit) serviceM" where
  "storeStates b =
     thn (CreateCompressedBlockInTransact (bs_CompressedBlock b))
     (thn (whenAny (bs_PendingAccount b) (UpdateAccountsInTransact (bs_PendingAccount b)))
     (thn (whenAny (bs_PendingAccountHistory b) (CreateAccountHistoriesInTransact (bs_PendingAccountHistory b)))
     (thn (whenAny (bs_PendingNft b) (UpdateNftsInTransact (bs_PendingNft b)))
          (whenAny (bs_PendingNftHistory b) (CreateNftHistoriesInTransact (bs_PendingNftHistory b))))))"

definition storeBlock :: "BlockStates \<Rightarrow> ('t, 'd, unit) serviceM" where
  "storeBlock b = storing
     (thn (storeStates b)
     (thn (DeleteTxsInTransact (bk_Txs (bs_Block b)))
          (UpdateBlockInTransact (ClearTxsModel (bs_Block b)))))"

definition Committer_commitNewBlock :: "('t, 'd) Smt \<Rightarrow> Lib \<Rightarrow> Committer \<Rightarrow> ('t, 'd, Block) serviceM" where
  "Committer_commitNewBlock T X c =
     bnd (gets (\<lambda>s. (computeCurrentBlockSize c (worldOf s), bk_CreatedAt (w_currentBlock (worldOf s))))) (\<lambda>(blockSize, createdAt).
     bnd (onNode (CommitNewBlock T X blockSize createdAt)) (\<lambda>blockStates.
     thn (onChain (SyncGasAccountToRedis X))
     (thn (storeBlock blockStates) (ret (bs_Block blockStates)))))"

section \<open>Restoring\<close>

definition restoreExecutedTxs :: "Lib \<Rightarrow> ('t, 'd, BlockRow) serviceM" where
  "restoreExecutedTxs X =
     bnd (onRollup GetCurrentBlockHeight) (\<lambda>curHeight.
     bnd (onRollup (GetBlockByHeight curHeight)) (\<lambda>curBlock.
     bnd (onRollup (GetTxsByStatus StatusExecuted)) (\<lambda>executedTxs.
     if bk_BlockStatus curBlock \<noteq> StatusProposing then
       thn (failIf (executedTxs \<noteq> []) (ErrorsNew ''no proposing block but exist executed txs'')) (ret curBlock)
     else
       thn (onChain (MarkGasAccountAsPending X))
       (thn (forM executedTxs (\<lambda>t. onChain (CommitProcessor_Process X t))) (ret curBlock)))))"

definition getLatestExecutedRequestId :: "('t, 'd, int) serviceM" where
  "getLatestExecutedRequestId =
     bnd (onRollup (attempt (GetLatestTx
       [TxTypeRegisterZns, TxTypeDeposit, TxTypeDepositNft, TxTypeFullExit, TxTypeFullExitNft]
       [StatusExecuted, StatusPacked, StatusCommitted, StatusVerified]))) (\<lambda>x. case x of
         Inl err \<Rightarrow> if err \<noteq> DbErrNotFound then throw err else ret (-1)
       | Inr latestTx \<Rightarrow> bnd (onRollup (GetPriorityRequestsByL2TxHash (tx_TxHash latestTx))) (\<lambda>p. ret (pr_RequestId p)))"

section \<open>The loop\<close>

definition createNewBlock :: "Tx \<Rightarrow> ('t, 'd, unit) serviceM" where
  "createNewBlock poolTx = storing
     (thn (UpdateTxsInTransact [poolTx])
     (bnd (gets (\<lambda>s. w_currentBlock (worldOf s))) (\<lambda>b. CreateBlockInTransact (blockRow 0 b))))"

definition requestIdOf :: "Rollup \<Rightarrow> string \<Rightarrow> err + int" where
  "requestIdOf u h = (case fst (GetPriorityRequestsByL2TxHash h u) of Ok r \<Rightarrow> Inr (pr_RequestId r)
     | Err e \<Rightarrow> Inl e | Panic _ \<Rightarrow> Inl sqlErr)"

text \<open>
  The pending transactions with the clock at which each is looked at; the answer is the last request id,
  the transactions to update and those to delete, or \<open>None\<close> when \<open>Run\<close> returns.
\<close>

fun poolLoop :: "Lib \<Rightarrow> Committer \<Rightarrow> (int \<times> Tx) list \<Rightarrow> int \<Rightarrow> Tx list \<Rightarrow> Tx list \<Rightarrow>
    ('t, 'd, (int \<times> Tx list \<times> Tx list) option) serviceM" where
  "poolLoop X c [] latest upd del = ret (Some (latest, upd, del))"
| "poolLoop X c ((now, poolTx) # rest) latest upd del =
     thn (onChain (modify (\<lambda>w. w\<lparr>w_now := now\<rparr>)))
     (bnd (gets worldOf) (\<lambda>w.
      if shouldCommit c w then ret (Some (latest, upd, del))
      else bnd (attempt (onChain (CommitProcessor_Process X poolTx))) (\<lambda>result.
      bnd (gets worldOf) (\<lambda>w'. case result of
        Inl _ \<Rightarrow> poolLoop X c rest latest upd (del @ [failedTx X poolTx w w'])
      | Inr _ \<Rightarrow> (let executed = last (sc_Txs (w_sc w')) in
          bnd (gets (\<lambda>s. requestIdOf (sv_rollup s))) (\<lambda>requests.
          case nextRequestId requests executed latest of
            None \<Rightarrow> ret None
          | Some latest' \<Rightarrow>
              if length (sc_Txs (w_sc w')) = 1 then
                thn (mustOk ''create new block failed'' (createNewBlock executed)) (poolLoop X c rest latest' upd del)
              else poolLoop X c rest latest' (upd @ [executed]) del))))))"

definition startBlock :: "Lib \<Rightarrow> ('t, 'd, unit) serviceM" where
  "startBlock X =
     bnd (gets (\<lambda>s. bk_BlockStatus (w_currentBlock (worldOf s)))) (\<lambda>status.
     if status \<noteq> StatusProposing then
       thn (mustOk ''propose new block failed'' (onChain (InitNewBlock X))) (modify (\<lambda>s. s\<lparr>sv_blockID := 0\<rparr>))
     else ret ())"

definition timed :: "(nat \<Rightarrow> int) \<Rightarrow> Tx list \<Rightarrow> (int \<times> Tx) list" where
  "timed clock txs = map (\<lambda>(k, t). (clock k, t)) (enumerate 0 txs)"

text \<open>
  One pass: from the test of \<open>running\<close> to the end of the body. While the pool is empty and the block is
  not due the loop sleeps and reads the pool again, which is another pass. \<open>None\<close>: \<open>Run\<close> has returned.
\<close>

definition Run_pass :: "('t, 'd) Smt \<Rightarrow> Lib \<Rightarrow> Committer \<Rightarrow> (nat \<Rightarrow> int) \<Rightarrow> int \<Rightarrow> ('t, 'd, int option) serviceM" where
  "Run_pass T X c clock latest =
     thn (startBlock X)
     (bnd (attempt (onRollup (GetTxsByStatus StatusPending))) (\<lambda>x. case x of Inl _ \<Rightarrow> ret None | Inr pendingTxs \<Rightarrow>
      bnd (gets (\<lambda>s. shouldCommit c (worldOf s))) (\<lambda>due.
      if pendingTxs = [] \<and> \<not> due then ret (Some latest)
      else bnd (poolLoop X c (timed clock pendingTxs) latest [] []) (\<lambda>batch. case batch of None \<Rightarrow> ret None
        | Some (latest', upd, del) \<Rightarrow>
            thn (mustOk ''sync redis cache failed'' (onChain (SyncStateCacheToRedis X)))
            (thn (mustOk ''update tx pool failed'' (storing (thn (UpdateTxsInTransact upd) (DeleteTxsInTransact del))))
            (bnd (gets (\<lambda>s. shouldCommit c (worldOf s))) (\<lambda>due.
             thn (if due then thn (mustOk ''commit new block failed'' (Committer_commitNewBlock T X c)) (ret ()) else ret ())
               (ret (Some latest')))))))))"

end
