(* ===== verification/Ref_Store.thy ===== *)
theory Ref_Store
  imports Zk_Store Ref_Block Ref_Chain
begin

text \<open>
  What the database transaction of a block does to the tables the state database reads. A table with a
  unique key is a map from keys to rows up to the ids of the rows; \<open>keyed_table\<close> is that interface, and
  the tables of accounts and of NFTs provide it.
\<close>

section \<open>Keyed tables\<close>

locale keyed_table =
  fixes key :: "'r \<Rightarrow> int" and rid :: "'r \<Rightarrow> int" and setId :: "int \<Rightarrow> 'r \<Rightarrow> 'r" and core :: "'r \<Rightarrow> 'v"
  assumes key_setId: "key (setId i r) = key r" and core_setId: "core (setId i r) = core r"
begin

lemma keys_upsert: "map key (upsert key rid setId n r rows) =
    (if list_ex (hits key rid r) rows then map key rows else map key rows @ [key r])"
  by (auto simp: upsert_def key_setId hits_def)

lemma find_map_row:
  assumes "distinct (map key rows)" "\<And>x. key (f x) = key x"
  shows "find (\<lambda>x. key x = k) (map f rows) = map_option f (find (\<lambda>x. key x = k) rows)"
  using assms by (induction rows) auto

lemma find_upsert:
  assumes "distinct (map key (upsert key rid setId n r rows))"
  shows "map_option core (find (\<lambda>x. key x = k) (upsert key rid setId n r rows)) =
    (if k = key r then Some (core r) else map_option core (find (\<lambda>x. key x = k) rows))"
proof (cases "list_ex (hits key rid r) rows")
  case True
  then obtain x where x: "x \<in> set rows" "hits key rid r x" by (auto simp: list_ex_iff)
  have d: "distinct (map key rows)" using assms True by (simp add: keys_upsert)
  let ?f = "\<lambda>x. if hits key rid r x then setId (rid x) r else x"
  have "find (\<lambda>y. key y = key r) rows = Some x"
    using x d by (induction rows) (auto simp: hits_def image_iff)
  moreover have "\<not> hits key rid r y" if "find (\<lambda>x. key x = k) rows = Some y" "k \<noteq> key r" for y
    using that by (auto simp: find_Some_iff hits_def)
  ultimately show ?thesis
    using find_map_row [OF d, of ?f k] True x(2) core_setId
    by (cases "find (\<lambda>x. key x = k) rows") (auto simp: upsert_def key_setId hits_def)
next
  case False
  then have "key r \<notin> key ` set rows" using assms by (simp add: keys_upsert)
  then have "find (\<lambda>y. key y = key r) rows = None" by (force simp: find_None_iff image_iff)
  with False show ?thesis
    by (induction rows) (auto simp: upsert_def key_setId core_setId split: if_splits)
qed

text \<open>Every row of the table is an old one or one that was written.\<close>

lemma keys_upsert_subset: "set (map key (upsert key rid setId n r rows)) \<subseteq> insert (key r) (set (map key rows))"
  by (auto simp: upsert_def key_setId)

end

definition accountCore :: "Account \<Rightarrow> Account" where "accountCore a = a\<lparr>ac_ID := 0\<rparr>"

interpretation accounts: keyed_table ac_AccountIndex ac_ID setAccountId accountCore
  by unfold_locales (simp_all add: setAccountId_def accountCore_def)

interpretation nfts: keyed_table nft_NftIndex nft_ID setNftId nftCore
  by unfold_locales (simp_all add: setNftId_def nftCore_def)

section \<open>Writing the accounts and NFTs of a block\<close>

lemma tableWrite_Ok: "tableWrite f s = (Ok u, t) \<Longrightarrow> t = f s \<and> \<not> db_down (w_db (worldOf s))"
  by (auto simp: tableWrite_def split: if_splits)

text \<open>The last row written under a key is what a reader finds, up to its id.\<close>

definition lastRow :: "('r \<Rightarrow> int) \<Rightarrow> 'r list \<Rightarrow> int \<Rightarrow> 'r option" where
  "lastRow key rs k = find (\<lambda>r. key r = k) (rev rs)"

lemma lastRow_Nil [simp]: "lastRow key [] k = None" by (simp add: lastRow_def)

lemma lastRow_snoc [simp]: "lastRow key (rs @ [r]) k = (if key r = k then Some r else lastRow key rs k)"
  by (simp add: lastRow_def)

lemma forM_append: "forM (xs @ ys) f = thn (forM xs f) (forM ys f)"
  by (induction xs) (auto simp: fun_eq_iff thn_run ret_def split: prod.splits res.splits)

lemma UpdateAccounts_Ok:
  assumes "UpdateAccountsInTransact as s = (Ok u, t)"
  shows "\<exists>rows k. t = setDb ((w_db (worldOf s))\<lparr>db_Account := rows\<rparr>) (s\<lparr>sv_rollup := (sv_rollup s)\<lparr>ru_nextId := k\<rparr>\<rparr>) \<and>
    set (map ac_AccountIndex rows) \<subseteq> set (map ac_AccountIndex as) \<union> set (map ac_AccountIndex (db_Account (w_db (worldOf s)))) \<and>
    (\<forall>i. map_option accountCore (find (\<lambda>a. ac_AccountIndex a = i) rows) = (case lastRow ac_AccountIndex as i of
       Some a \<Rightarrow> Some (accountCore a) | None \<Rightarrow> map_option accountCore (find (\<lambda>a. ac_AccountIndex a = i) (db_Account (w_db (worldOf s))))))"
  using assms
proof (induction as arbitrary: t rule: rev_induct)
  case Nil
  then show ?case
    by (auto simp: UpdateAccountsInTransact_def setDb_def
        intro!: exI [of _ "db_Account (w_db (worldOf s))"] exI [of _ "ru_nextId (sv_rollup s)"])
next
  case (snoc a as)
  from snoc.prems obtain x v where v: "UpdateAccountsInTransact as s = (Ok x, v)" "UpdateAccountsInTransact [a] v = (Ok u, t)"
    unfolding UpdateAccountsInTransact_def forM_append by (rule thn_OkE)
  from snoc.IH [of v] v(1) obtain rows k where
    r: "v = setDb ((w_db (worldOf s))\<lparr>db_Account := rows\<rparr>) (s\<lparr>sv_rollup := (sv_rollup s)\<lparr>ru_nextId := k\<rparr>\<rparr>)"
      "set (map ac_AccountIndex rows) \<subseteq> set (map ac_AccountIndex as) \<union> set (map ac_AccountIndex (db_Account (w_db (worldOf s))))"
      "\<And>i. map_option accountCore (find (\<lambda>a. ac_AccountIndex a = i) rows) = (case lastRow ac_AccountIndex as i of
         Some a \<Rightarrow> Some (accountCore a) | None \<Rightarrow> map_option accountCore (find (\<lambda>a. ac_AccountIndex a = i) (db_Account (w_db (worldOf s)))))"
    by auto
  have e: "db_Account (w_db (worldOf v)) = rows" "ru_nextId (sv_rollup v) = k" by (simp_all add: r(1) setDb_def)
  let ?rows = "upsert ac_AccountIndex ac_ID setAccountId k a rows"
  from v(2) have t: "t = takeId (setDb ((w_db (worldOf v))\<lparr>db_Account := ?rows\<rparr>) v)" and q: "uniqueAccounts ?rows"
    by (auto simp: UpdateAccountsInTransact_def run e tableWrite_def split: if_splits)
  have "t = setDb ((w_db (worldOf s))\<lparr>db_Account := ?rows\<rparr>) (s\<lparr>sv_rollup := (sv_rollup s)\<lparr>ru_nextId := k + 1\<rparr>\<rparr>)"
    by (simp add: t r(1) setDb_def takeId_def)
  moreover have "map_option accountCore (find (\<lambda>a. ac_AccountIndex a = i) ?rows) = (case lastRow ac_AccountIndex (as @ [a]) i of
      Some a \<Rightarrow> Some (accountCore a) | None \<Rightarrow> map_option accountCore (find (\<lambda>a. ac_AccountIndex a = i) (db_Account (w_db (worldOf s)))))" for i
    using accounts.find_upsert [of k a rows i] q r(3) [of i] by (simp add: uniqueAccounts_def)
  moreover have "set (map ac_AccountIndex ?rows) \<subseteq> set (map ac_AccountIndex (as @ [a])) \<union> set (map ac_AccountIndex (db_Account (w_db (worldOf s))))"
    using accounts.keys_upsert_subset [of k a rows] r(2) by (simp only: map_append set_append list.map list.set) blast
  ultimately show ?case by (intro exI [of _ ?rows] exI [of _ "k + 1"]) simp
qed

text \<open>Numbering a new NFT changes the id of an object only.\<close>

definition sameNfts :: "(nat \<Rightarrow> L2Nft) \<Rightarrow> (nat \<Rightarrow> L2Nft) \<Rightarrow> bool" where
  "sameNfts h h' \<longleftrightarrow> (\<forall>r. nftCore (h' r) = nftCore (h r))"

lemma numberNft_same: "\<exists>h. numberNft n i w = w\<lparr>w_nftHeap := h\<rparr> \<and> sameNfts (w_nftHeap w) h"
proof (cases "pendingNft w n")
  case None
  then show ?thesis by (intro exI [of _ "w_nftHeap w"]) (simp add: numberNft_def sameNfts_def)
next
  case (Some r)
  then show ?thesis by (auto simp: numberNft_def setNft_def setNftId_def sameNfts_def nftCore_def)
qed

lemma UpdateNfts_one:
  assumes "UpdateNftsInTransact [n] s = (Ok u, t)"
  defines "rows \<equiv> upsert nft_NftIndex nft_ID setNftId (ru_nextId (sv_rollup s)) n (db_L2Nft (w_db (worldOf s)))"
  shows "uniqueNfts rows \<and> (\<exists>h. sameNfts (w_nftHeap (worldOf s)) h \<and>
    t = setDb ((w_db (worldOf s))\<lparr>db_L2Nft := rows\<rparr>) (s\<lparr>sv_rollup := (sv_rollup s)\<lparr>ru_nextId := ru_nextId (sv_rollup s) + 1\<rparr>,
      sv_node := (sv_node s)\<lparr>n_world := (worldOf s)\<lparr>w_nftHeap := h\<rparr>\<rparr>\<rparr>))"
proof -
  let ?new = "\<not> list_ex (hits nft_NftIndex nft_ID n) (db_L2Nft (w_db (worldOf s))) \<and> nft_ID n = 0"
  let ?w = "if ?new then numberNft (nft_NftIndex n) (ru_nextId (sv_rollup s)) (worldOf s) else worldOf s"
  obtain h where h: "?w = (worldOf s)\<lparr>w_nftHeap := h\<rparr>" "sameNfts (w_nftHeap (worldOf s)) h"
  proof (cases ?new)
    case True
    with numberNft_same [of "nft_NftIndex n" "ru_nextId (sv_rollup s)" "worldOf s"] that show ?thesis by auto
  next
    case False
    then show ?thesis by (intro that [of "w_nftHeap (worldOf s)"]) (auto simp: sameNfts_def)
  qed
  from assms(1) have "uniqueNfts rows" "t = takeId (setDb ((w_db ?w)\<lparr>db_L2Nft := rows\<rparr>) (s\<lparr>sv_node := (sv_node s)\<lparr>n_world := ?w\<rparr>\<rparr>))"
    by (auto simp: UpdateNftsInTransact_def run rows_def tableWrite_def Let_def split: if_splits)
  with h(2) show ?thesis unfolding h(1) by (auto simp: takeId_def setDb_def intro!: exI [of _ h])
qed

lemma UpdateNfts_Ok:
  assumes "UpdateNftsInTransact ns s = (Ok u, t)"
  shows "\<exists>rows k h. sameNfts (w_nftHeap (worldOf s)) h \<and>
    t = setDb ((w_db (worldOf s))\<lparr>db_L2Nft := rows\<rparr>) (s\<lparr>sv_rollup := (sv_rollup s)\<lparr>ru_nextId := k\<rparr>,
      sv_node := (sv_node s)\<lparr>n_world := (worldOf s)\<lparr>w_nftHeap := h\<rparr>\<rparr>\<rparr>) \<and>
    (\<forall>i. map_option nftCore (find (\<lambda>x. nft_NftIndex x = i) rows) = (case lastRow nft_NftIndex ns i of
       Some x \<Rightarrow> Some (nftCore x) | None \<Rightarrow> map_option nftCore (find (\<lambda>x. nft_NftIndex x = i) (db_L2Nft (w_db (worldOf s))))))"
  using assms
proof (induction ns arbitrary: t rule: rev_induct)
  case Nil
  then show ?case
    by (auto simp: UpdateNftsInTransact_def setDb_def sameNfts_def
        intro!: exI [of _ "db_L2Nft (w_db (worldOf s))"] exI [of _ "ru_nextId (sv_rollup s)"] exI [of _ "w_nftHeap (worldOf s)"])
next
  case (snoc n ns)
  from snoc.prems obtain x v where v: "UpdateNftsInTransact ns s = (Ok x, v)" "UpdateNftsInTransact [n] v = (Ok u, t)"
    unfolding UpdateNftsInTransact_def forM_append by (rule thn_OkE)
  from snoc.IH [of v] v(1) obtain rows k h where h: "sameNfts (w_nftHeap (worldOf s)) h"
    and r: "v = setDb ((w_db (worldOf s))\<lparr>db_L2Nft := rows\<rparr>) (s\<lparr>sv_rollup := (sv_rollup s)\<lparr>ru_nextId := k\<rparr>,
      sv_node := (sv_node s)\<lparr>n_world := (worldOf s)\<lparr>w_nftHeap := h\<rparr>\<rparr>\<rparr>)"
      "\<And>i. map_option nftCore (find (\<lambda>x. nft_NftIndex x = i) rows) = (case lastRow nft_NftIndex ns i of
         Some x \<Rightarrow> Some (nftCore x) | None \<Rightarrow> map_option nftCore (find (\<lambda>x. nft_NftIndex x = i) (db_L2Nft (w_db (worldOf s)))))"
    by auto
  have e: "db_L2Nft (w_db (worldOf v)) = rows" "ru_nextId (sv_rollup v) = k" "w_nftHeap (worldOf v) = h"
    by (simp_all add: r(1) setDb_def)
  let ?rows = "upsert nft_NftIndex nft_ID setNftId k n rows"
  from UpdateNfts_one [OF v(2)] obtain h' where q: "uniqueNfts ?rows" "sameNfts h h'"
    and t: "t = setDb ((w_db (worldOf v))\<lparr>db_L2Nft := ?rows\<rparr>) (v\<lparr>sv_rollup := (sv_rollup v)\<lparr>ru_nextId := k + 1\<rparr>,
      sv_node := (sv_node v)\<lparr>n_world := (worldOf v)\<lparr>w_nftHeap := h'\<rparr>\<rparr>\<rparr>)"
    by (auto simp: e)
  have "t = setDb ((w_db (worldOf s))\<lparr>db_L2Nft := ?rows\<rparr>) (s\<lparr>sv_rollup := (sv_rollup s)\<lparr>ru_nextId := k + 1\<rparr>,
      sv_node := (sv_node s)\<lparr>n_world := (worldOf s)\<lparr>w_nftHeap := h'\<rparr>\<rparr>\<rparr>)"
    by (simp add: t r(1) setDb_def)
  moreover have "sameNfts (w_nftHeap (worldOf s)) h'" using h q(2) by (simp add: sameNfts_def)
  moreover have "map_option nftCore (find (\<lambda>x. nft_NftIndex x = i) ?rows) = (case lastRow nft_NftIndex (ns @ [n]) i of
      Some x \<Rightarrow> Some (nftCore x) | None \<Rightarrow> map_option nftCore (find (\<lambda>x. nft_NftIndex x = i) (db_L2Nft (w_db (worldOf s)))))" for i
    using nfts.find_upsert [of k n rows i] q(1) r(2) [of i] by (simp add: uniqueNfts_def)
  ultimately show ?case by (intro exI [of _ ?rows] exI [of _ "k + 1"] exI [of _ h']) auto
qed

section \<open>The transaction of a block\<close>

lemma DeleteTxs_Ok:
  assumes "DeleteTxsInTransact txs s = (Ok u, t)"
  shows "t = s\<lparr>sv_rollup := (sv_rollup s)\<lparr>ru_TxPool := filter (\<lambda>x. tx_ID x \<notin> tx_ID ` set txs) (ru_TxPool (sv_rollup s))\<rparr>\<rparr> \<and>
    tx_ID ` set txs \<subseteq> tx_ID ` set (ru_TxPool (sv_rollup s))"
  using assms
proof (induction txs arbitrary: s)
  case (Cons x txs)
  let ?v = "s\<lparr>sv_rollup := (sv_rollup s)\<lparr>ru_TxPool := filter (\<lambda>y. tx_ID y \<noteq> tx_ID x) (ru_TxPool (sv_rollup s))\<rparr>\<rparr>"
  from Cons.prems have "\<exists>y \<in> set (ru_TxPool (sv_rollup s)). tx_ID y = tx_ID x" "DeleteTxsInTransact txs ?v = (Ok u, t)"
    by (auto simp: DeleteTxsInTransact_def run onTables_def tableWrite_def split: if_splits)
  with Cons.IH [of ?v] show ?case by (auto simp: image_iff) (metis+)?
qed (simp add: DeleteTxsInTransact_def)

text \<open>The tables after a block was stored.\<close>

definition blockStored :: "BlockStates \<Rightarrow> ('t, 'd) Service \<Rightarrow> ('t, 'd) Service \<Rightarrow> bool" where
  "blockStored b s t \<longleftrightarrow>
     (\<exists>k txs. map (\<lambda>x. x\<lparr>tx_ID := 0\<rparr>) txs = map (\<lambda>x. x\<lparr>tx_ID := 0\<rparr>) (bk_Txs (bs_Block b)) \<and>
       sv_rollup t = (sv_rollup s)\<lparr>ru_nextId := k, ru_CompressedBlock := ru_CompressedBlock (sv_rollup s) @ [bs_CompressedBlock b],
         ru_TxPool := filter (\<lambda>x. tx_ID x \<notin> tx_ID ` set (bk_Txs (bs_Block b))) (ru_TxPool (sv_rollup s)),
         ru_Block := map (\<lambda>x. if bk_ID x = sv_blockID s then blockRow (sv_blockID s) ((bs_Block b)\<lparr>bk_Txs := txs\<rparr>) else x) (ru_Block (sv_rollup s)),
         ru_Tx := ru_Tx (sv_rollup s) @ filter (\<lambda>x. tx_TxHash x \<notin> tx_TxHash ` set (ru_Tx (sv_rollup s))) txs\<rparr>) \<and>
     sv_AccountHistory t = sv_AccountHistory s @ bs_PendingAccountHistory b \<and>
     sv_L2NftHistory t = sv_L2NftHistory s @ bs_PendingNftHistory b \<and> sv_blockID t = sv_blockID s \<and>
     tx_ID ` set (bk_Txs (bs_Block b)) \<subseteq> tx_ID ` set (ru_TxPool (sv_rollup s)) \<and>
     (\<exists>x \<in> set (ru_Block (sv_rollup s)). bk_ID x = sv_blockID s)"

text \<open>What the state database reads after a block was stored.\<close>

definition rowsStored :: "Account list \<Rightarrow> L2Nft list \<Rightarrow> World \<Rightarrow> World \<Rightarrow> bool" where
  "rowsStored as ns w w' \<longleftrightarrow> (\<exists>ra rn h. sameNfts (w_nftHeap w) h \<and>
     w' = w\<lparr>w_nftHeap := h, w_db := (w_db w)\<lparr>db_Account := ra, db_L2Nft := rn\<rparr>\<rparr> \<and>
     set (map ac_AccountIndex ra) \<subseteq> set (map ac_AccountIndex as) \<union> set (map ac_AccountIndex (db_Account (w_db w))) \<and>
     (\<forall>i. map_option accountCore (find (\<lambda>a. ac_AccountIndex a = i) ra) = (case lastRow ac_AccountIndex as i of
        Some a \<Rightarrow> Some (accountCore a) | None \<Rightarrow> map_option accountCore (find (\<lambda>a. ac_AccountIndex a = i) (db_Account (w_db w))))) \<and>
     (\<forall>i. map_option nftCore (find (\<lambda>x. nft_NftIndex x = i) rn) = (case lastRow nft_NftIndex ns i of
        Some x \<Rightarrow> Some (nftCore x) | None \<Rightarrow> map_option nftCore (find (\<lambda>x. nft_NftIndex x = i) (db_L2Nft (w_db w))))))"

lemma numbered_clear: "map (\<lambda>x. x\<lparr>tx_ID := 0\<rparr>) (numbered i (map (\<lambda>x. x\<lparr>tx_ID := 0\<rparr>) txs)) = map (\<lambda>x. x\<lparr>tx_ID := 0\<rparr>) txs"
  by (rule nth_equalityI) (simp_all add: numbered_def enumerate_eq_zip)

lemma whenAny_accounts: "whenAny as (UpdateAccountsInTransact as) = UpdateAccountsInTransact as"
  "whenAny ns (UpdateNftsInTransact ns) = UpdateNftsInTransact ns"
  by (auto simp: whenAny_def UpdateAccountsInTransact_def UpdateNftsInTransact_def)

lemma storeStates_Ok:
  assumes "storeStates b s = (Ok u, t)"
  shows "\<exists>w k. rowsStored (bs_PendingAccount b) (bs_PendingNft b) (worldOf s) w \<and>
    t = s\<lparr>sv_node := (sv_node s)\<lparr>n_world := w\<rparr>,
      sv_rollup := (sv_rollup s)\<lparr>ru_nextId := k, ru_CompressedBlock := ru_CompressedBlock (sv_rollup s) @ [bs_CompressedBlock b]\<rparr>,
      sv_AccountHistory := sv_AccountHistory s @ bs_PendingAccountHistory b, sv_L2NftHistory := sv_L2NftHistory s @ bs_PendingNftHistory b\<rparr>"
proof -
  from assms obtain s1 s2 s3 s4 where
    1: "CreateCompressedBlockInTransact (bs_CompressedBlock b) s = (Ok (), s1)" and
    2: "UpdateAccountsInTransact (bs_PendingAccount b) s1 = (Ok (), s2)" and
    3: "whenAny (bs_PendingAccountHistory b) (CreateAccountHistoriesInTransact (bs_PendingAccountHistory b)) s2 = (Ok (), s3)" and
    4: "UpdateNftsInTransact (bs_PendingNft b) s3 = (Ok (), s4)" and
    5: "whenAny (bs_PendingNftHistory b) (CreateNftHistoriesInTransact (bs_PendingNftHistory b)) s4 = (Ok (), t)"
    unfolding storeStates_def whenAny_accounts thn_run by (auto split: prod.splits res.splits)
  from 1 have e1: "s1 = s\<lparr>sv_rollup := (sv_rollup s)\<lparr>ru_CompressedBlock := ru_CompressedBlock (sv_rollup s) @ [bs_CompressedBlock b]\<rparr>\<rparr>"
    by (auto simp: CreateCompressedBlockInTransact_def onTables_def dest: tableWrite_Ok)
  have w1: "worldOf s1 = worldOf s" by (simp add: e1)
  from UpdateAccounts_Ok [OF 2, unfolded w1] obtain ra k where
    e2: "s2 = setDb ((w_db (worldOf s))\<lparr>db_Account := ra\<rparr>) (s1\<lparr>sv_rollup := (sv_rollup s1)\<lparr>ru_nextId := k\<rparr>\<rparr>)" and
    a: "set (map ac_AccountIndex ra) \<subseteq> set (map ac_AccountIndex (bs_PendingAccount b)) \<union> set (map ac_AccountIndex (db_Account (w_db (worldOf s))))"
       "\<forall>i. map_option accountCore (find (\<lambda>a. ac_AccountIndex a = i) ra) = (case lastRow ac_AccountIndex (bs_PendingAccount b) i of
          Some a \<Rightarrow> Some (accountCore a) | None \<Rightarrow> map_option accountCore (find (\<lambda>a. ac_AccountIndex a = i) (db_Account (w_db (worldOf s)))))"
    by blast
  from 3 have e3: "s3 = s2\<lparr>sv_AccountHistory := sv_AccountHistory s @ bs_PendingAccountHistory b\<rparr>"
    by (auto simp: whenAny_def CreateAccountHistoriesInTransact_def e1 e2 setDb_def dest!: tableWrite_Ok split: if_splits)
  have w3: "w_nftHeap (worldOf s3) = w_nftHeap (worldOf s)" "db_L2Nft (w_db (worldOf s3)) = db_L2Nft (w_db (worldOf s))"
    by (simp_all add: e1 e2 e3 setDb_def)
  from UpdateNfts_Ok [OF 4, unfolded w3] obtain rn k' h where h: "sameNfts (w_nftHeap (worldOf s)) h" and
    e4: "s4 = setDb ((w_db (worldOf s3))\<lparr>db_L2Nft := rn\<rparr>) (s3\<lparr>sv_rollup := (sv_rollup s3)\<lparr>ru_nextId := k'\<rparr>,
      sv_node := (sv_node s3)\<lparr>n_world := (worldOf s3)\<lparr>w_nftHeap := h\<rparr>\<rparr>\<rparr>)" and
    n: "\<forall>i. map_option nftCore (find (\<lambda>x. nft_NftIndex x = i) rn) = (case lastRow nft_NftIndex (bs_PendingNft b) i of
       Some x \<Rightarrow> Some (nftCore x) | None \<Rightarrow> map_option nftCore (find (\<lambda>x. nft_NftIndex x = i) (db_L2Nft (w_db (worldOf s)))))"
    by blast
  from 5 have e5: "t = s4\<lparr>sv_L2NftHistory := sv_L2NftHistory s @ bs_PendingNftHistory b\<rparr>"
    by (auto simp: whenAny_def CreateNftHistoriesInTransact_def e1 e2 e3 e4 setDb_def dest!: tableWrite_Ok split: if_splits)
  let ?w = "(worldOf s)\<lparr>w_nftHeap := h, w_db := (w_db (worldOf s))\<lparr>db_Account := ra, db_L2Nft := rn\<rparr>\<rparr>"
  have "rowsStored (bs_PendingAccount b) (bs_PendingNft b) (worldOf s) ?w" unfolding rowsStored_def using h a n by blast
  then show ?thesis by (intro exI [of _ ?w] exI [of _ k'] conjI) (simp_all add: e1 e2 e3 e4 e5 setDb_def)
qed

lemma storeBlock_Ok:
  assumes "storeBlock b s = (Ok u, t)"
  shows "blockStored b s t \<and> rowsStored (bs_PendingAccount b) (bs_PendingNft b) (worldOf s) (worldOf t)"
proof -
  from assms obtain s5 s6 where
    5: "storeStates b s = (Ok (), s5)" and
    6: "DeleteTxsInTransact (bk_Txs (bs_Block b)) s5 = (Ok (), s6)" and
    7: "UpdateBlockInTransact (ClearTxsModel (bs_Block b)) s6 = (Ok (), t)"
    unfolding storeBlock_def storing_def thn_run by (auto split: prod.splits res.splits)
  from storeStates_Ok [OF 5] obtain w k where w: "rowsStored (bs_PendingAccount b) (bs_PendingNft b) (worldOf s) w" and
    e5: "s5 = s\<lparr>sv_node := (sv_node s)\<lparr>n_world := w\<rparr>,
      sv_rollup := (sv_rollup s)\<lparr>ru_nextId := k, ru_CompressedBlock := ru_CompressedBlock (sv_rollup s) @ [bs_CompressedBlock b]\<rparr>,
      sv_AccountHistory := sv_AccountHistory s @ bs_PendingAccountHistory b, sv_L2NftHistory := sv_L2NftHistory s @ bs_PendingNftHistory b\<rparr>" by blast
  let ?txs = "bk_Txs (bs_Block b)"
  from DeleteTxs_Ok [OF 6] have e6: "s6 = s5\<lparr>sv_rollup := (sv_rollup s5)\<lparr>ru_TxPool := filter (\<lambda>x. tx_ID x \<notin> tx_ID ` set ?txs) (ru_TxPool (sv_rollup s))\<rparr>\<rparr>"
    and p: "tx_ID ` set ?txs \<subseteq> tx_ID ` set (ru_TxPool (sv_rollup s))"
    by (auto simp: e5)
  let ?new = "numbered k (bk_Txs (ClearTxsModel (bs_Block b)))"
  from 7 have e7: "t = s6\<lparr>sv_rollup := (sv_rollup s6)\<lparr>ru_nextId := k + int (length ?new),
      ru_Block := map (\<lambda>x. if bk_ID x = sv_blockID s then blockRow (sv_blockID s) ((bs_Block b)\<lparr>bk_Txs := ?new\<rparr>) else x) (ru_Block (sv_rollup s)),
      ru_Tx := ru_Tx (sv_rollup s) @ filter (\<lambda>t. tx_TxHash t \<notin> tx_TxHash ` set (ru_Tx (sv_rollup s))) ?new\<rparr>\<rparr>"
    and f: "\<exists>x \<in> set (ru_Block (sv_rollup s)). bk_ID x = sv_blockID s"
    by (auto simp: UpdateBlockInTransact_def run tableWrite_def Let_def addTxs_def e5 e6 ClearTxsModel_def split: if_splits)
  have "worldOf t = w" by (simp add: e5 e6 e7)
  moreover have "blockStored b s t"
    unfolding blockStored_def using p f numbered_clear [of k ?txs]
    by (intro conjI exI [of _ "k + int (length ?new)"] exI [of _ ?new]) (simp_all add: e5 e6 e7 ClearTxsModel_def)
  ultimately show ?thesis using w by blast
qed

end
