(* ===== verification/Ref_Boundary.thy ===== *)
theory Ref_Boundary
  imports Ref_Store
begin

text \<open>
  From one block to the next. The pending objects of a block become rows, the state cache is emptied, and
  what a reader sees is what it saw before, with the gas collected in the block on the gas account.
\<close>

section \<open>Forgetting the pending objects\<close>

text \<open>The cache holds no other object for a pending NFT.\<close>

definition nftsCached :: "World \<Rightarrow> bool" where
  "nftsCached w \<longleftrightarrow> (\<forall>n r r'. pendingNft w n = Some r \<longrightarrow> map_of (w_NftCache w) n = Some r' \<longrightarrow> r' = r)"

definition flushes :: "World \<Rightarrow> Account list \<Rightarrow> L2Nft list \<Rightarrow> bool" where
  "flushes w as ns \<longleftrightarrow>
     (\<forall>i. lastRow ac_AccountIndex as i = map_option (\<lambda>r. FromFormatAccountInfo (w_accHeap w r)) (pendingAcc w i)) \<and>
     (\<forall>n. lastRow nft_NftIndex ns n = map_option (w_nftHeap w) (pendingNft w n))"

text \<open>The account of a row.\<close>

definition accountOf :: "Account \<Rightarrow> AccountInfo option" where
  "accountOf a = (case ToFormatAccountInfo a of Inl _ \<Rightarrow> None | Inr f \<Rightarrow> Some f)"

lemma accountOf_core: "accountCore a = accountCore b \<Longrightarrow> rel_option accEq (accountOf a) (accountOf b)"
proof -
  assume c: "accountCore a = accountCore b"
  have s: "ac_AssetInfo a = ac_AssetInfo b" "ac_AccountIndex a = ac_AccountIndex b" "ac_AccountName a = ac_AccountName b"
    "ac_PublicKey a = ac_PublicKey b" "ac_AccountNameHash a = ac_AccountNameHash b" "ac_L1Address a = ac_L1Address b"
    "ac_Nonce a = ac_Nonce b" "ac_CollectionNonce a = ac_CollectionNonce b" "ac_AssetRoot a = ac_AssetRoot b" "ac_Status a = ac_Status b"
    using arg_cong [OF c, of ac_AssetInfo] arg_cong [OF c, of ac_AccountIndex] arg_cong [OF c, of ac_AccountName]
      arg_cong [OF c, of ac_PublicKey] arg_cong [OF c, of ac_AccountNameHash] arg_cong [OF c, of ac_L1Address]
      arg_cong [OF c, of ac_Nonce] arg_cong [OF c, of ac_CollectionNonce] arg_cong [OF c, of ac_AssetRoot] arg_cong [OF c, of ac_Status]
    by (simp_all add: accountCore_def)
  show ?thesis
    by (cases "ac_AssetInfo b") (simp_all add: accountOf_def ToFormatAccountInfo_def s accEq_def ident_def assetBal_def assetOffer_def fun_eq_iff)
qed

lemma dbAcc_accountOf: "dbAcc w i = Option.bind (find (\<lambda>a. ac_AccountIndex a = i) (db_Account (w_db w))) accountOf"
  by (cases "find (\<lambda>a. ac_AccountIndex a = i) (db_Account (w_db w))") (auto simp: dbAcc_def accountOf_def split: sum.splits)

lemma stored_account:
  assumes "flushes w as ns" "rowsStored as ns w w'"
  shows "rel_option accEq (case pendingAcc w i of Some r \<Rightarrow> Some (w_accHeap w r) | None \<Rightarrow> dbAcc w i) (dbAcc w' i)"
proof -
  from assms(2) obtain ra rn h where w': "w' = w\<lparr>w_nftHeap := h, w_db := (w_db w)\<lparr>db_Account := ra, db_L2Nft := rn\<rparr>\<rparr>"
    and a: "map_option accountCore (find (\<lambda>a. ac_AccountIndex a = i) ra) = (case lastRow ac_AccountIndex as i of
        Some a \<Rightarrow> Some (accountCore a) | None \<Rightarrow> map_option accountCore (find (\<lambda>a. ac_AccountIndex a = i) (db_Account (w_db w))))"
    by (auto simp: rowsStored_def)
  have l: "lastRow ac_AccountIndex as i = map_option (\<lambda>r. FromFormatAccountInfo (w_accHeap w r)) (pendingAcc w i)"
    using assms(1) by (simp add: flushes_def)
  show ?thesis
  proof (cases "pendingAcc w i")
    case None
    with a l accountOf_core show ?thesis
      by (cases "find (\<lambda>a. ac_AccountIndex a = i) ra"; cases "find (\<lambda>a. ac_AccountIndex a = i) (db_Account (w_db w))")
        (auto simp: dbAcc_accountOf w')
  next
    case (Some r)
    with a l obtain x where x: "find (\<lambda>a. ac_AccountIndex a = i) ra = Some x" "accountCore x = accountCore (FromFormatAccountInfo (w_accHeap w r))"
      by auto
    have "accountOf (FromFormatAccountInfo (w_accHeap w r)) = Some (w_accHeap w r)" by (simp add: accountOf_def ToFormat_FromFormat)
    with accountOf_core [OF x(2) [symmetric]] x(1) Some show ?thesis by (simp add: dbAcc_accountOf w')
  qed
qed

lemma stored_nft:
  assumes "flushes w as ns" "rowsStored as ns w w'"
  shows "dbNft w' n = (case pendingNft w n of Some r \<Rightarrow> Some (nftCore (w_nftHeap w r)) | None \<Rightarrow> dbNft w n)"
proof -
  from assms(2) obtain ra rn h where "w' = w\<lparr>w_nftHeap := h, w_db := (w_db w)\<lparr>db_Account := ra, db_L2Nft := rn\<rparr>\<rparr>"
    "map_option nftCore (find (\<lambda>x. nft_NftIndex x = n) rn) = (case lastRow nft_NftIndex ns n of
        Some x \<Rightarrow> Some (nftCore x) | None \<Rightarrow> map_option nftCore (find (\<lambda>x. nft_NftIndex x = n) (db_L2Nft (w_db w))))"
    by (auto simp: rowsStored_def)
  moreover have "lastRow nft_NftIndex ns n = map_option (w_nftHeap w) (pendingNft w n)" using assms(1) by (simp add: flushes_def)
  ultimately show ?thesis by (simp add: dbNft_def split: option.splits)
qed

definition emptied :: "Block \<Rightarrow> StateCache \<Rightarrow> World \<Rightarrow> World" where
  "emptied b c w = w\<lparr>w_currentBlock := b, w_sc := c\<rparr>"

lemma emptied_wf:
  assumes w: "wf w" "nftsCached w" and f: "flushes w as ns" "rowsStored as ns w w'"
    and c: "sc_PendingAccountMap c = []" "sc_PendingNftMap c = []"
  shows "wf (emptied b c w')"
proof -
  from f(2) obtain ra rn h where h: "sameNfts (w_nftHeap w) h"
    and w': "w' = w\<lparr>w_nftHeap := h, w_db := (w_db w)\<lparr>db_Account := ra, db_L2Nft := rn\<rparr>\<rparr>" by (auto simp: rowsStored_def)
  have idx: "nft_NftIndex (h r) = nft_NftIndex (w_nftHeap w r)" for r
    using h unfolding sameNfts_def by (metis nftCore_sel(1))
  have d: "dbAcc (emptied b c w') = dbAcc w'" "dbNft (emptied b c w') = dbNft w'" by (simp_all add: emptied_def dbAcc_def dbNft_def fun_eq_iff)
  have a: "\<exists>g. dbAcc w' i = Some g \<and> accEq g (w_accHeap w r)" if "map_of (w_AccountCache w) i = Some r" for i r
  proof (cases "pendingAcc w i")
    case None
    with w(1) that obtain g where g: "dbAcc w i = Some g" "accEq g (w_accHeap w r)" unfolding wfx_def by blast
    with stored_account [OF f, of i] None show ?thesis by (auto simp: option_rel_Some1 dest: accEq_sym intro: accEq_trans)
  next
    case (Some p)
    with w(1) that have "r = p" unfolding wfx_def by blast
    with stored_account [OF f, of i] Some show ?thesis by (auto simp: option_rel_Some1 dest: accEq_sym)
  qed
  have n: "dbNft w' k = Some (nftCore (h r))" if "map_of (w_NftCache w) k = Some r" for k r
  proof (cases "pendingNft w k")
    case None
    with w(1) that have "dbNft w k = Some (nftCore (w_nftHeap w r))" unfolding wfx_def by blast
    with stored_nft [OF f, of k] None h show ?thesis by (simp add: sameNfts_def)
  next
    case (Some p)
    with w(2) that have "r = p" unfolding nftsCached_def by blast
    with stored_nft [OF f, of k] Some h show ?thesis by (simp add: sameNfts_def)
  qed
  have e: "w_AccountCache (emptied b c w') = w_AccountCache w" "w_NftCache (emptied b c w') = w_NftCache w"
    "w_accHeap (emptied b c w') = w_accHeap w" "w_nftHeap (emptied b c w') = h" "w_next (emptied b c w') = w_next w"
    "w_dryRun (emptied b c w') = w_dryRun w" "w_AccountCacheSize (emptied b c w') = w_AccountCacheSize w"
    "w_NftCacheSize (emptied b c w') = w_NftCacheSize w" "\<And>i. pendingAcc (emptied b c w') i = None" "\<And>i. pendingNft (emptied b c w') i = None"
    by (simp_all add: emptied_def w' c)
  show ?thesis using w(1) a n unfolding wfx_def e d by (auto simp: idx)
qed

lemma emptied_ledger:
  assumes w: "wf w" "nftsCached w" and f: "flushes w as ns" "rowsStored as ns w w'"
    and c: "sc_PendingAccountMap c = []" "sc_PendingNftMap c = []" "sc_PendingGasMap c = []"
  shows "ledgerOf (emptied b c w') = (ledgerOf w)\<lparr>l_gas := \<lambda>_. 0\<rparr>"
proof -
  from f(2) obtain ra rn h where h: "sameNfts (w_nftHeap w) h"
    and w': "w' = w\<lparr>w_nftHeap := h, w_db := (w_db w)\<lparr>db_Account := ra, db_L2Nft := rn\<rparr>\<rparr>" by (auto simp: rowsStored_def)
  let ?t = "emptied b c w'" and ?s = "w\<lparr>w_sc := (w_sc w)\<lparr>sc_PendingGasMap := []\<rparr>\<rparr>"
  have r: "acctRef ?t = map_of (w_AccountCache w)" "nftRef ?t = map_of (w_NftCache w)"
    by (simp_all add: emptied_def acctRef_def nftRef_def w' c fun_eq_iff)
  have d: "dbAcc ?t = dbAcc w'" "dbNft ?t = dbNft w'" by (simp_all add: emptied_def dbAcc_def dbNft_def fun_eq_iff)
  have hp: "w_accHeap ?t = w_accHeap w" "w_nftHeap ?t = h" by (simp_all add: emptied_def w')
  have gs: "acct ?s = acct w" "nftv ?s = nftv w" by (rule acct_cong nftv_cong; simp add: acctRef_def nftRef_def fun_eq_iff cong: option.case_cong)+
  have a: "rel_option accEq (acct w i) (acct ?t i)" for i
  proof (cases "map_of (w_AccountCache w) i")
    case (Some r0)
    with cached_ok [OF w(1) Some] have "acctRef w i = Some r0" by (auto simp: cacheable_def acctRef_def split: option.splits)
    with Some show ?thesis by (simp add: acct_def r hp)
  next
    case None
    then have "acct w i = (case pendingAcc w i of Some r \<Rightarrow> Some (w_accHeap w r) | None \<Rightarrow> dbAcc w i)"
      by (simp add: acct_def acctRef_def split: option.splits)
    with stored_account [OF f, of i] None show ?thesis by (simp add: acct_def r d)
  qed
  have n: "nftv ?t k = nftv w k" for k
  proof (cases "map_of (w_NftCache w) k")
    case (Some r0)
    with w(2) have "nftRef w k = Some r0" unfolding nftsCached_def nftRef_def by (auto split: option.splits)
    with Some h show ?thesis by (simp add: nftv_def r hp sameNfts_def)
  next
    case None
    then have "nftv w k = (case pendingNft w k of Some r \<Rightarrow> Some (nftCore (w_nftHeap w r)) | None \<Rightarrow> dbNft w k)"
      by (simp add: nftv_def nftRef_def split: option.splits)
    with stored_nft [OF f, of k] None show ?thesis by (simp add: nftv_def r d)
  qed
  have "ledgerOf ?t = ledgerOf ?s"
    by (rule ledgerOf_accEq) (use a n c(3) in \<open>simp_all add: gs fun_eq_iff emptied_def GetPendingGas_def\<close>)
  also have "\<dots> = (ledgerOf w)\<lparr>l_gas := \<lambda>_. 0\<rparr>"
    by (simp add: ledgerOf_def atAcc_def gs GetPendingGas_def fun_eq_iff)
  finally show ?thesis .
qed

end
