(* ===== verification/Ref_Calm.thy ===== *)
theory Ref_Calm
  imports Ref_Boundary
begin

text \<open>
  Computing the state root, sealing the block and committing the trees load accounts and NFTs and write
  the roots of their asset trees, and leave alone what the state database shows.
\<close>

section \<open>What sealing a block leaves alone\<close>

definition calm :: "World \<Rightarrow> World \<Rightarrow> bool" where
  "calm s t \<longleftrightarrow> wf t \<and> nftsCached t \<and> ledgerOf t = ledgerOf s \<and> w_db t = w_db s \<and> w_nextAccountNumber t = w_nextAccountNumber s \<and>
     sc_PendingAccountMap (w_sc t) = sc_PendingAccountMap (w_sc s) \<and> sc_PendingNftMap (w_sc t) = sc_PendingNftMap (w_sc s) \<and>
     sc_PendingGasMap (w_sc t) = sc_PendingGasMap (w_sc s)"

lemma calm_refl: "wf s \<Longrightarrow> nftsCached s \<Longrightarrow> calm s s" by (simp add: calm_def)

lemma calm_quiet: "calm s t \<Longrightarrow> quietS t u \<Longrightarrow> w_NftCache u = w_NftCache t \<Longrightarrow> calm s u"
  by (simp add: calm_def quietS_def nftsCached_def)

lemma GetFormatAccount_calm:
  assumes "lru_ok X" "lru_order X"
  shows "keeps (calm s) (GetFormatAccount X i)"
proof
  fix t assume t: "calm s t"
  then have "wf t" by (simp add: calm_def)
  from GetFormatAccount_load [OF assms this, of i] t show "calm s (snd (GetFormatAccount X i t))"
    by (auto simp: loaded_def intro: calm_quiet split: prod.splits res.splits)
qed

lemma GetNft_frame:
  assumes "lru_ok X"
  shows "w_sc (snd (GetNft X n s)) = w_sc s \<and> w_db (snd (GetNft X n s)) = w_db s \<and>
    w_nextAccountNumber (snd (GetNft X n s)) = w_nextAccountNumber s \<and>
    (\<forall>k r. pendingNft s k \<noteq> None \<longrightarrow> map_of (w_NftCache (snd (GetNft X n s))) k = Some r \<longrightarrow> map_of (w_NftCache s) k = Some r)"
proof (cases "pendingNft s n")
  case (Some p)
  then show ?thesis by (simp add: GetNft_def bnd_run GetPendingNft_def)
next
  case None
  have m: "map_of (snd (x_lruGet X (w_NftCache s) n)) = map_of (w_NftCache s)" by (rule lru_get_keeps [OF assms])
  from None m lru_add_other [OF assms, of _ n] show ?thesis
    by (auto simp: GetNft_def bnd_run thn_run GetPendingNft_def NftCache_Get_def split_beta GetNftRow_def mapErr_def orThrow_run
        alloc_run NftCache_Add_def split: option.splits) (metis option.distinct(1))+
qed

lemma GetNft_calm:
  assumes "lru_ok X"
  shows "keeps (calm s) (GetNft X i)"
proof
  fix t assume t: "calm s t"
  let ?u = "snd (GetNft X i t)"
  have "St {} {} (view t) t" using t by (simp add: calm_def St_def)
  from GetNft_load [OF assms this, of i] have "wf ?u \<and> ledgerOf ?u = ledgerOf t"
    by (cases "GetNft X i t") (auto simp: St_def dest: arg_cong [of _ _ v_led] split: res.splits)
  moreover from GetNft_frame [OF assms, of i t] t have "nftsCached ?u" by (auto simp: calm_def nftsCached_def)
  ultimately show "calm s ?u" using t GetNft_frame [OF assms, of i t] by (simp add: calm_def)
qed

lemma assetRoot_calm: "keeps (calm s) (mutAcc r (\<lambda>acc. Some (acc\<lparr>ai_AssetRoot := h\<rparr>)))"
proof
  fix t assume t: "calm s t"
  let ?u = "setAcc r ((w_accHeap t r)\<lparr>ai_AssetRoot := h\<rparr>) t"
  have e: "accEq (w_accHeap t q) (w_accHeap ?u q)" "ai_AccountIndex (w_accHeap ?u q) = ai_AccountIndex (w_accHeap t q)" for q
    by (simp_all add: accEq_def ident_def assetBal_def assetOffer_def fun_eq_iff)
  have d: "dbAcc ?u = dbAcc t" "dbNft ?u = dbNft t" by (simp_all add: dbAcc_def dbNft_def fun_eq_iff)
  have f: "w_dryRun ?u = w_dryRun t" "w_AccountCacheSize ?u = w_AccountCacheSize t" "w_NftCacheSize ?u = w_NftCacheSize t"
    "w_AccountCache ?u = w_AccountCache t" "w_NftCache ?u = w_NftCache t" "w_next ?u = w_next t" by (simp_all add: setAcc_def)
  have w: "wf t" using t by (simp add: calm_def)
  have c: "\<exists>f. dbAcc t i = Some f \<and> accEq f (w_accHeap ?u q)" if "pendingAcc t i = None" "map_of (w_AccountCache t) i = Some q" for i q
    using w that e(1) [of q] accEq_trans unfolding wfx_def by blast
  from w have "wf ?u" unfolding wfx_def d f setAcc_frame(1) e(2) using c by (simp add: setAcc_def)
  moreover have "rel_option accEq (acct t i) (acct ?u i)" for i
    using e(1) by (cases "acctRef t i") (simp_all add: acct_def d rel_accEq_refl)
  then have "ledgerOf ?u = ledgerOf t" by (rule ledgerOf_accEq) simp_all
  ultimately have "quietS t ?u" by (simp add: quietS_def f)
  with t have "calm s ?u" by (rule calm_quiet) (simp add: f)
  then show "calm s (snd (mutAcc r (\<lambda>acc. Some (acc\<lparr>ai_AssetRoot := h\<rparr>)) t))" by (simp add: mutAcc_run)
qed

lemma updSc_calm:
  assumes "calm s t" "sc_PendingAccountMap (f (w_sc t)) = sc_PendingAccountMap (w_sc t)"
    "sc_PendingNftMap (f (w_sc t)) = sc_PendingNftMap (w_sc t)" "sc_PendingGasMap (f (w_sc t)) = sc_PendingGasMap (w_sc t)"
  shows "calm s (updSc f t)"
proof -
  have "GetPendingGas (f (w_sc t)) = l_gas (ledgerOf t)" using assms(4) by (simp add: GetPendingGas_def ledgerOf_def fun_eq_iff)
  then have "ledgerOf (updSc f t) = ledgerOf t" "wf (updSc f t) = wf t"
    using arg_cong [OF view_updSc(1) [of f t], of v_led] view_updSc(2) [of f t] assms by simp_all
  with assms show ?thesis by (simp add: calm_def nftsCached_def) (simp add: updSc_def)
qed

lemma block_calm: "calm s (t\<lparr>w_currentBlock := b\<rparr>) = calm s t"
  by (simp add: calm_def block_frame nftsCached_def)

text \<open>On the node: the trees are not what the state database reads.\<close>

lemma keeps_onWorld: "keeps P m \<Longrightarrow> keeps (\<lambda>n. P (n_world n)) (onWorld m)"
  by (simp add: keeps_def onWorld_def split_beta)

definition sameWorld :: "('t, 'd, 'a) nodeM \<Rightarrow> bool" where
  "sameWorld m \<longleftrightarrow> (\<forall>P. keeps (\<lambda>n. P (n_world n)) m)"

lemma sameWorldD: "sameWorld m \<Longrightarrow> keeps (\<lambda>n. P (n_world n)) m" by (simp add: sameWorld_def)

lemma AssetTreeCache_same: "sameWorld (AssetTreeCache_Get T X i)"
  by (simp add: sameWorld_def AssetTreeCache_Get_def keeps_def thn_run ContainsOrAdd_def Let_def split_beta)

lemma tree_same: "sameWorld (treeAt x)" "sameWorld (setTree x t)"
  by (simp_all add: sameWorld_def treeAt_def setTree_def keeps_def bnd_run orPanic_run split: option.splits)

lemma commitOne_same: "sameWorld (commitOne T v t)"
  by (auto simp: sameWorld_def commitOne_def keeps_def split: prod.splits option.splits)

named_theorems calmly \<open>computations that leave the readable state alone\<close>

abbreviation calmN :: "World \<Rightarrow> ('t, 'd) Node \<Rightarrow> bool" where
  "calmN s n \<equiv> calm s (n_world n)"

lemma leafHash_calm [calmly]:
  "keeps I (ComputeAccountAssetLeafHash T a b)" "keeps I (ComputeAccountLeafHash T X c d e f r)"
  "keeps I (ComputeNftAssetLeafHash T X i j k l m n o')" "keeps I (CreateBlockCommitment T X h z o1 o2 p q)"
  unfolding ComputeAccountAssetLeafHash_def ComputeAccountLeafHash_def ComputeNftAssetLeafHash_def PaddingStringBigIntIntoBuf_def
    PaddingPkIntoBuf_def PaddingInt64IntoBuf_def PaddingAddressIntoBuf_def Let_def CreateBlockCommitment_def
  by (rule keep | simp)+

lemma world_calm [calmly]:
  "lru_ok X \<Longrightarrow> lru_order X \<Longrightarrow> keeps (calmN s) (onWorld (GetFormatAccount X i))"
  "lru_ok X \<Longrightarrow> keeps (calmN s) (onWorld (GetNft X i))"
  "keeps (calmN s) (onWorld (mutAcc r (\<lambda>acc. Some (acc\<lparr>ai_AssetRoot := h\<rparr>))))"
  "keeps (calmN s) (onWorld (assetAt r a))" "keeps (calmN s) (onWorld (accountAt r))" "keeps (calmN s) (onWorld (nftAt r))"
  by (intro keeps_onWorld GetFormatAccount_calm GetNft_calm assetRoot_calm; assumption?;
      simp add: keeps_def assetAt_run at_run split: option.splits)+

lemma same_calm [calmly]:
  "keeps (\<lambda>n. P (n_world n)) (AssetTreeCache_Get T X i)" "keeps (\<lambda>n. P (n_world n)) (treeAt x)" "keeps (\<lambda>n. P (n_world n)) (setTree x t)"
  "keeps (\<lambda>n. P (n_world n)) (commitOne T v t)"
  by (intro sameWorldD AssetTreeCache_same tree_same commitOne_same)+

lemma assetItems_calm [calmly]: "keeps (calmN s) (assetItems T X account i as)"
  by (induction as) (simp_all only: assetItems.simps Let_def, (rule keep calmly | assumption)+)

lemma updateTree_calm [calmly]:
  assumes "lru_ok X" "lru_order X"
  shows "keeps (calmN s) (updateAccountTree T X i as)" "keeps (calmN s) (updateNftTree T X n)"
  unfolding updateAccountTree_def updateNftTree_def multiSetAsset_def assetRoot_def
  by (rule keep calmly assms | simp split: prod.splits option.splits)+

lemma collect_calm: "(\<And>k. keeps I (f k)) \<Longrightarrow> keeps I (collect f ks)"
  by (induction ks) (auto intro!: keep)

lemma IntermediateRoot_calm [calmly]:
  assumes "lru_ok X" "lru_order X"
  shows "keeps (calmN s) (IntermediateRoot T X False)"
proof -
  have m: "keeps (calmN s) (\<lambda>n. case k_MultiSet T is (n_AccountTree n) of (e, t) \<Rightarrow> (Ok e, n\<lparr>n_AccountTree := t\<rparr>))"
    "keeps (calmN s) (\<lambda>n. case k_MultiSet T is (n_NftTree n) of (e, t) \<Rightarrow> (Ok e, n\<lparr>n_NftTree := t\<rparr>))" for "is"
    by (auto simp: keeps_def split: prod.splits)
  have r: "keeps (calmN s) (modify (\<lambda>n. n\<lparr>n_world := updSc (\<lambda>c. c\<lparr>sc_StateRoot := f n\<rparr>) (n_world n)\<rparr>))" for f
    by (rule keeps_modify) (simp add: updSc_calm)
  show ?thesis unfolding IntermediateRoot_def
    by (rule keep calmly m r collect_calm assms | simp)+
qed

section \<open>Sealing the block\<close>

lemma bnd_gets: "bnd (gets f) g s = g (f s) s" by (simp add: bnd_run)

lemma alignE:
  assumes "bnd (gets A) (\<lambda>a. bnd (orPanic p a) (\<lambda>c. thn (onWorld (modify (g c))) (f c))) m = (Ok r, m')"
  obtains c where "A m = Some c" "f c (m\<lparr>n_world := g c (n_world m)\<rparr>) = (Ok r, m')"
  using assms by (auto simp: bnd_run orPanic_run thn_run onWorld_run split: option.splits)

lemma AlignPubData_maps:
  "AlignPubData X sz c = Some c' \<Longrightarrow> sc_PendingAccountMap c' = sc_PendingAccountMap c \<and> sc_PendingNftMap c' = sc_PendingNftMap c \<and>
     sc_PendingGasMap c' = sc_PendingGasMap c"
  by (auto simp: AlignPubData_def Let_def split: if_splits)

lemma commitNewBlock_calm:
  assumes X: "lru_ok X" "lru_order X" and n: "calmN s n" and run: "commitNewBlock T X sz t0 n = (Ok r, m)"
  shows "calmN s m \<and> w_currentBlock (n_world m) = fst r \<and> bk_BlockStatus (fst r) = BlockPending"
proof -
  let ?b0 = "if bk_BlockStatus (w_currentBlock (n_world n)) \<noteq> StatusProposing then freshBlock t0 (w_currentBlock (n_world n))
    else w_currentBlock (n_world n)"
  let ?F = "\<lambda>c. bnd (CreateBlockCommitment T X (bk_BlockHeight ?b0) (bk_CreatedAt ?b0) (x_FromHex X (bk_StateRoot ?b0))
      (x_FromHex X (sc_StateRoot c)) (sc_PubData c) (int (length (sc_PubDataOffset c)))) (\<lambda>commitment.
    let b = sealBlock X sz commitment c ?b0 in
    thn (onWorld (modify (\<lambda>s. updSc packTxs (s\<lparr>w_currentBlock := b\<rparr>))))
    (ret (b, \<lparr>cb_BlockSize = word_of_int sz, cb_BlockHeight = bk_BlockHeight b, cb_StateRoot = bk_StateRoot b,
       cb_PublicData = x_Bytes2Hex X (sc_PubData c), cb_Timestamp = bk_CreatedAt b, cb_PublicDataOffsets = sc_PubDataOffset c\<rparr>)))"
  from run obtain m1 where 1: "IntermediateRoot T X False n = (Ok (), m1)" and rest:
    "bnd (gets (\<lambda>n. AlignPubData X sz (w_sc (n_world n)))) (\<lambda>aligned.
       bnd (orPanic ''makeslice: len out of range'' aligned) (\<lambda>c. thn (onWorld (modify (updSc (\<lambda>_. c)))) (?F c))) m1 = (Ok r, m)"
    unfolding commitNewBlock_def Let_def bnd_gets thn_run failIf_run by (auto split: prod.splits res.splits if_splits)
  have c1: "calmN s m1" by (rule keepsD [OF IntermediateRoot_calm [OF X] n 1])
  from rest obtain c where c: "AlignPubData X sz (w_sc (n_world m1)) = Some c"
    and rest2: "?F c (m1\<lparr>n_world := updSc (\<lambda>_. c) (n_world m1)\<rparr>) = (Ok r, m)" by (rule alignE)
  let ?m2 = "m1\<lparr>n_world := updSc (\<lambda>_. c) (n_world m1)\<rparr>"
  have c2: "calmN s ?m2" using updSc_calm [OF c1, of "\<lambda>_. c"] AlignPubData_maps [OF c] by simp
  from rest2 obtain com m3 where
    3: "CreateBlockCommitment T X (bk_BlockHeight ?b0) (bk_CreatedAt ?b0) (x_FromHex X (bk_StateRoot ?b0))
          (x_FromHex X (sc_StateRoot c)) (sc_PubData c) (int (length (sc_PubDataOffset c))) ?m2 = (Ok com, m3)"
    and m: "fst r = sealBlock X sz com c ?b0" "m = m3\<lparr>n_world := updSc packTxs ((n_world m3)\<lparr>w_currentBlock := sealBlock X sz com c ?b0\<rparr>)\<rparr>"
    by (elim bnd_OkE) (auto simp: Let_def thn_run onWorld_run)
  have c3: "calmN s m3" by (rule keepsD [where I = "calmN s", OF leafHash_calm(4) c2 3])
  then have "calm s ((n_world m3)\<lparr>w_currentBlock := sealBlock X sz com c ?b0\<rparr>)" by (simp add: block_calm)
  from updSc_calm [OF this, of packTxs] show ?thesis unfolding m by (simp add: packTxs_def sealBlock_def) (simp add: updSc_def)
qed

lemma runAll_keeps: "(\<And>m. m \<in> set ms \<Longrightarrow> keeps I m) \<Longrightarrow> keeps I (runAll ms)"
  by (induction ms) (auto intro!: keep)

lemma CommitTrees_same: "keeps (\<lambda>n. P (n_world n)) (CommitTrees T X v)"
proof -
  have t: "keeps (\<lambda>n. P (n_world n)) (commitAccountTree T v)" "keeps (\<lambda>n. P (n_world n)) (commitNftTree T v)"
    "keeps (\<lambda>n. P (n_world n)) (commitAsset T X i)" for i
    unfolding commitAccountTree_def commitNftTree_def commitAsset_def by (rule keep calmly keeps_modify | simp)+
  show ?thesis unfolding CommitTrees_def firstError_def
    by (rule keep keeps_modify runAll_keeps | auto simp: CleanChanges_def t split: list.splits)+
qed

end
