(* ===== verification/Ref_Settle.thy ===== *)
theory Ref_Settle
  imports Ref_Calm
begin

text \<open>
  The rows of a block: the gas collected in it is added to the gas account while the pending accounts
  are written out, and nothing else changes.
\<close>

section \<open>The gas account\<close>

definition gassed :: "Lib \<Rightarrow> World \<Rightarrow> AccountInfo \<Rightarrow> AccountInfo" where
  "gassed X s acc = (let gas = sc_PendingGasMap (w_sc s) in fold (applyGasDelta X gas) (x_range X (mkeys gas)) acc)"

lemma gas_loop:
  "forM ks (\<lambda>a. modify (\<lambda>s. setAcc r (applyGasDelta X gas a (w_accHeap s r)) s)) s =
    (Ok (), setAcc r (fold (applyGasDelta X gas) ks (w_accHeap s r)) s)"
  by (induction ks arbitrary: s) (simp_all add: thn_run setAcc_def)

lemma applyGasUpdate_run: "applyGasUpdate X r s = (Ok (), setAcc r (gassed X s (w_accHeap s r)) s)"
  by (simp add: applyGasUpdate_def bnd_run gas_loop gassed_def Let_def)

lemma applyGasDelta_sel:
  assumes "ffmath_ok X"
  shows "assetBal (applyGasDelta X gas a acc) = (assetBal acc)(a := assetBal acc a + the (mget gas a))"
    "assetOffer (applyGasDelta X gas a acc) = assetOffer acc" "ident (applyGasDelta X gas a acc) = ident acc"
    "ai_Nonce (applyGasDelta X gas a acc) = ai_Nonce acc" "ai_CollectionNonce (applyGasDelta X gas a acc) = ai_CollectionNonce acc"
  using assms
  by (auto simp: applyGasDelta_def Let_def assetBal_def assetOffer_def ident_def fun_eq_iff ffmath_ok_def ConstructAccountAsset_def split: option.splits)

lemma gasFold_sel:
  assumes "ffmath_ok X"
  shows "distinct ks \<Longrightarrow> assetBal (fold (applyGasDelta X gas) ks acc) = (\<lambda>a. assetBal acc a + (if a \<in> set ks then the (mget gas a) else 0))"
    "assetOffer (fold (applyGasDelta X gas) ks acc) = assetOffer acc" "ident (fold (applyGasDelta X gas) ks acc) = ident acc"
    "ai_Nonce (fold (applyGasDelta X gas) ks acc) = ai_Nonce acc"
    "ai_CollectionNonce (fold (applyGasDelta X gas) ks acc) = ai_CollectionNonce acc"
  by (induction ks arbitrary: acc) (auto simp: applyGasDelta_sel [OF assms] fun_eq_iff)

lemma gassed_sel:
  assumes "ffmath_ok X" "range_ok X"
  shows "assetBal (gassed X s acc) = (\<lambda>a. assetBal acc a + GetPendingGas (w_sc s) a)"
    "assetOffer (gassed X s acc) = assetOffer acc" "ident (gassed X s acc) = ident acc"
    "ai_Nonce (gassed X s acc) = ai_Nonce acc" "ai_CollectionNonce (gassed X s acc) = ai_CollectionNonce acc"
proof -
  let ?gas = "sc_PendingGasMap (w_sc s)"
  have "distinct (x_range X (mkeys ?gas))" "\<And>a. a \<in> set (x_range X (mkeys ?gas)) \<longleftrightarrow> mget ?gas a \<noteq> None"
    using assms(2) by (simp_all add: range_ok_def mkeys_dom)
  then show "assetBal (gassed X s acc) = (\<lambda>a. assetBal acc a + GetPendingGas (w_sc s) a)"
    by (auto simp: gassed_def Let_def gasFold_sel(1) [OF assms(1)] fun_eq_iff GetPendingGas_def split: option.splits)
qed (simp_all add: gassed_def Let_def gasFold_sel [OF assms(1)])

text \<open>The ledger with the gas of the block on the gas account.\<close>

definition settleL :: "Ledger \<Rightarrow> Ledger" where
  "settleL L = L\<lparr>l_bal := (l_bal L)(GasAccount := (\<lambda>a. l_bal L GasAccount a + l_gas L a)), l_gas := (\<lambda>_. 0)\<rparr>"

definition credited :: "Lib \<Rightarrow> World \<Rightarrow> World" where
  "credited X s = (case pendingAcc s GasAccount of None \<Rightarrow> s | Some r \<Rightarrow> setAcc r (gassed X s (w_accHeap s r)) s)"

lemma credited_frame [simp]:
  "w_sc (credited X s) = w_sc s" "w_db (credited X s) = w_db s" "w_currentBlock (credited X s) = w_currentBlock s"
  "w_NftCache (credited X s) = w_NftCache s" "w_AccountCache (credited X s) = w_AccountCache s"
  "w_nftHeap (credited X s) = w_nftHeap s" "w_nextAccountNumber (credited X s) = w_nextAccountNumber s"
  by (simp_all add: credited_def split: option.splits)

lemma credited_other: "wf s \<Longrightarrow> i \<noteq> GasAccount \<Longrightarrow> pendingAcc s i = Some r \<Longrightarrow> w_accHeap (credited X s) r = w_accHeap s r"
proof -
  assume s: "wf s" "i \<noteq> GasAccount" "pendingAcc s i = Some r"
  then have "pendingAcc s GasAccount \<noteq> Some r" using wfx_ref_inj [OF s(1), of i r GasAccount] by (auto simp: acctRef_def)
  then show ?thesis by (auto simp: credited_def split: option.splits)
qed

lemma credited_ledger:
  assumes X: "ffmath_ok X" "range_ok X" and s: "wf s" "pendingAcc s GasAccount = Some r"
  shows "wf (credited X s)" "(ledgerOf (credited X s))\<lparr>l_gas := \<lambda>_. 0\<rparr> = settleL (ledgerOf s)"
proof -
  let ?a = "gassed X s (w_accHeap s r)"
  have r: "acctRef s GasAccount = Some r" using s(2) by (simp add: acctRef_def)
  have i: "ai_AccountIndex ?a = GasAccount" using wfx_ref(2) [OF s(1) r] ident_index [OF gassed_sel(3) [OF X]] by simp
  have c: "credited X s = setAcc r ?a s" using s(2) by (simp add: credited_def)
  show "wf (credited X s)" unfolding c
    by (rule wfx_close [OF wfx_setAcc [OF s(1) r i]]) (use s(2) in simp)
  have "acct s GasAccount = Some (w_accHeap s r)" by (simp add: acct_def r)
  with ledgerOf_acct_upd [of "setAcc r ?a s" s GasAccount ?a] acct_setAcc [OF s(1) r]
  show "(ledgerOf (credited X s))\<lparr>l_gas := \<lambda>_. 0\<rparr> = settleL (ledgerOf s)"
    unfolding c by (simp add: settleL_def gassed_sel [OF X] ledgerOf_def atAcc_def fun_eq_iff)
qed

section \<open>The pending accounts\<close>

definition historyOf :: "int \<Rightarrow> Account \<Rightarrow> AccountHistory" where
  "historyOf h a = \<lparr>ah_AccountIndex = ac_AccountIndex a, ah_Nonce = ac_Nonce a, ah_CollectionNonce = ac_CollectionNonce a,
     ah_AssetInfo = ac_AssetInfo a, ah_AssetRoot = ac_AssetRoot a, ah_L2BlockHeight = h\<rparr>"

definition writtenRows :: "World \<Rightarrow> int list \<Rightarrow> Account list" where
  "writtenRows t is = map (\<lambda>i. FromFormatAccountInfo (w_accHeap t (the (pendingAcc t i)))) is"

lemma pendingAccountLoop_run:
  assumes X: "ffmath_ok X" "range_ok X"
  shows "wf s \<Longrightarrow> distinct is \<Longrightarrow> \<forall>i \<in> set is. pendingAcc s i \<noteq> None \<Longrightarrow>
    t = (if GasAccount \<in> set is then credited X s else s) \<Longrightarrow>
    pendingAccountLoop X h is (as, hs) s = (Ok (as @ writtenRows t is, hs @ map (historyOf h) (writtenRows t is)), t)"
proof (induction "is" arbitrary: as hs s)
  case Nil
  then show ?case by (simp add: writtenRows_def)
next
  case (Cons i "is")
  then obtain r where r: "pendingAcc s i = Some r" by auto
  have idx: "ai_AccountIndex (w_accHeap s r) = i" using Cons.prems(1) r by (simp add: wfx_def)
  show ?case
  proof (cases "i = GasAccount")
    case True
    have t: "t = credited X s" "t = setAcc r (gassed X s (w_accHeap s r)) s" using Cons.prems(4) r by (simp_all add: True credited_def)
    have w: "wf t" using credited_ledger(1) [OF X Cons.prems(1)] r by (simp add: t(1) True)
    have p: "pendingAcc t = pendingAcc s" by (simp add: t(1) fun_eq_iff)
    have "pendingAccountLoop X h is (as', hs') t = (Ok (as' @ writtenRows t is, hs' @ map (historyOf h) (writtenRows t is)), t)" for as' hs'
      by (rule Cons.IH [OF w]) (use Cons.prems(2,3) True in \<open>auto simp: p\<close>)
    then show ?thesis using True idx r p
      by (simp add: bnd_run at_run thn_run applyGasUpdate_run flip: t(2)) (simp add: writtenRows_def historyOf_def Let_def)
  next
    case False
    then have t: "t = (if GasAccount \<in> set is then credited X s else s)" using Cons.prems(4) by auto
    have "pendingAccountLoop X h is (as', hs') s = (Ok (as' @ writtenRows t is, hs' @ map (historyOf h) (writtenRows t is)), t)" for as' hs'
      by (rule Cons.IH [OF Cons.prems(1) _ _ t]) (use Cons.prems(2,3) in simp_all)
    moreover have "w_accHeap t r = w_accHeap s r" "pendingAcc t i = Some r"
      using credited_other [OF Cons.prems(1) False r] r by (simp_all add: t)
    ultimately show ?thesis using False idx r
      by (simp add: bnd_run at_run thn_run writtenRows_def historyOf_def Let_def)
  qed
qed

lemma lastRow_map:
  assumes "distinct is" "\<And>i. i \<in> set is \<Longrightarrow> key (f i) = i"
  shows "lastRow key (map f is) k = (if k \<in> set is then Some (f k) else None)"
  using assms by (induction "is" rule: rev_induct) auto

lemma GetPending_run:
  assumes X: "ffmath_ok X" "range_ok X" and s: "wf s" "pendingAcc s GasAccount \<noteq> None"
  shows "\<exists>as ns. StateDB_GetPendingAccount X h s = (Ok (as, map (historyOf h) as), credited X s) \<and>
    StateDB_GetPendingNft X h (credited X s) = (Ok (ns, map (nftHistory h) ns), credited X s) \<and> flushes (credited X s) as ns"
proof -
  let ?t = "credited X s"
  let ?is = "x_range X (mkeys (sc_PendingAccountMap (w_sc s)))" and ?js = "x_range X (mkeys (sc_PendingNftMap (w_sc s)))"
  have i: "distinct ?is" "\<And>i. i \<in> set ?is \<longleftrightarrow> pendingAcc s i \<noteq> None" "distinct ?js" "\<And>i. i \<in> set ?js \<longleftrightarrow> pendingNft s i \<noteq> None"
    using X(2) by (auto simp: range_ok_def mkeys_dom)
  let ?as = "writtenRows ?t ?is" and ?ns = "map (\<lambda>i. w_nftHeap s (the (pendingNft s i))) ?js"
  have w: "wf ?t" using credited_ledger(1) [OF X s(1)] s(2) by auto
  have 1: "StateDB_GetPendingAccount X h s = (Ok (?as, map (historyOf h) ?as), ?t)"
    using pendingAccountLoop_run [OF X s(1) i(1), of ?t h "[]" "[]"] i(2) s(2) by (simp add: StateDB_GetPendingAccount_def bnd_run)
  have 2: "StateDB_GetPendingNft X h ?t = (Ok (?ns, map (nftHistory h) ?ns), ?t)" by (simp add: StateDB_GetPendingNft_def Let_def)
  have p: "pendingAcc ?t = pendingAcc s" "pendingNft ?t = pendingNft s" by (simp_all add: fun_eq_iff)
  have a: "lastRow ac_AccountIndex ?as k = map_option (\<lambda>r. FromFormatAccountInfo (w_accHeap ?t r)) (pendingAcc ?t k)" for k
    unfolding writtenRows_def
    by (subst lastRow_map [OF i(1)]) (use w i(2) in \<open>auto simp: wfx_def p FromFormatAccountInfo_def\<close>)
  have n: "lastRow nft_NftIndex ?ns k = map_option (w_nftHeap ?t) (pendingNft ?t k)" for k
    by (subst lastRow_map [OF i(3)]) (use s(1) i(4) in \<open>auto simp: wfx_def p\<close>)
  have "flushes ?t ?as ?ns" unfolding flushes_def using a n by blast
  with 1 2 show ?thesis by blast
qed

end
