(* ===== verification/Ref_Turn.thy ===== *)
theory Ref_Turn
  imports Ref_Settle
begin

text \<open>
  The turn of a block: the state cache is written to Redis, the block is committed, and the next one is
  started. Nothing is lost between the pending objects, the rows and the caches.
\<close>

section \<open>Redis\<close>

lemma redis_frame: "wf (s\<lparr>w_redis := rd\<rparr>) = wf s" "ledgerOf (s\<lparr>w_redis := rd\<rparr>) = ledgerOf s"
proof -
  have "St {} {} v (s\<lparr>w_redis := rd\<rparr>) = St {} {} v s" for v by simp
  then show "wf (s\<lparr>w_redis := rd\<rparr>) = wf s" by (auto simp: St_def)
  show "ledgerOf (s\<lparr>w_redis := rd\<rparr>) = ledgerOf s" by (rule state_frame(2)) simp_all
qed

lemma redis_calm: "calm s (t\<lparr>w_redis := rd\<rparr>) = calm s t"
  by (simp add: calm_def redis_frame nftsCached_def)

text \<open>Calm, with the objects and the state cache as they were.\<close>

definition still :: "World \<Rightarrow> World \<Rightarrow> bool" where
  "still s t \<longleftrightarrow> calm s t \<and> w_accHeap t = w_accHeap s \<and> w_nftHeap t = w_nftHeap s \<and> w_sc t = w_sc s \<and> w_currentBlock t = w_currentBlock s"

lemma still_refl: "wf s \<Longrightarrow> nftsCached s \<Longrightarrow> still s s" by (simp add: still_def calm_refl)

lemma still_flushes: "still s t \<Longrightarrow> flushes t as ns = flushes s as ns" by (simp add: still_def flushes_def)

lemma SyncGasAccount_still:
  assumes "lru_ok X"
  shows "keeps (still s) (SyncGasAccountToRedis X)"
proof -
  have g: "keeps (still s) (AccountCache_Get X i)" for i
  proof
    fix t assume t: "still s t"
    let ?u = "t\<lparr>w_AccountCache := snd (x_lruGet X (w_AccountCache t) i)\<rparr>"
    have "wf t" using t by (simp add: still_def calm_def)
    from quietS_get [OF assms this, of i] t have "still s ?u" by (auto simp: still_def intro: calm_quiet)
    then show "still s (snd (AccountCache_Get X i t))" by (simp add: AccountCache_Get_def split_beta)
  qed
  have r: "keeps (still s) (Redis_SetAccount i a)" for i a
    unfolding Redis_SetAccount_def by (rule keep keeps_modify | simp add: still_def redis_calm)+
  show ?thesis unfolding SyncGasAccountToRedis_def
    by (rule keep g r | simp add: keeps_def at_run)+
qed

section \<open>Writing the state cache to Redis\<close>

lemma AccountCache_Add_pending:
  assumes "lru_ok X" "wf s" "pendingAcc s i = Some r"
  shows "quietS s (s\<lparr>w_AccountCache := x_lruAdd X (w_AccountCacheSize s) (w_AccountCache s) i r\<rparr>)"
  by (rule Add_quiet [OF assms(1,2)]) (use assms(2,3) in \<open>auto simp: wfx_def cacheable_def\<close>)

lemma redis_quiet: "wf s \<Longrightarrow> quietS s (s\<lparr>w_redis := rd\<rparr>)" by (simp add: quietS_def redis_frame)

lemma syncPendingAccount_quiet:
  assumes "lru_ok X" "range_ok X" "wf s" "syncPendingAccount X (sc_PendingAccountMap (w_sc s)) s = (Ok u, t)"
  shows "quietS s t \<and> w_NftCache t = w_NftCache s"
proof -
  let ?m = "sc_PendingAccountMap (w_sc s)"
  let ?I = "\<lambda>t. quietS s t \<and> w_NftCache t = w_NftCache s"
  have "keeps ?I (syncPendingAccount X ?m)"
    unfolding syncPendingAccount_def Let_def
  proof (rule keeps_forM, rule keepsI)
    fix i v assume i: "i \<in> set (x_range X (mkeys ?m))" and v: "?I v"
    from i assms(2) obtain r where r: "mget ?m i = Some r" by (auto simp: range_ok_def mkeys_dom)
    have wv: "wf v" and p: "pendingAcc v i = Some r" using v r by (auto simp: quietS_def)
    let ?rd = "(w_redis v)\<lparr>rd_account := (rd_account (w_redis v))(i \<mapsto> FromFormatAccountInfo (w_accHeap v r))\<rparr>"
    let ?v = "v\<lparr>w_redis := ?rd\<rparr>"
    have q: "quietS v ?v" by (rule redis_quiet [OF wv])
    from AccountCache_Add_pending [OF assms(1) quietS_wf [OF q], of i r] p
    have "quietS ?v (?v\<lparr>w_AccountCache := x_lruAdd X (w_AccountCacheSize v) (w_AccountCache v) i r\<rparr>)" by simp
    from quietS_trans [OF conjunct1 [OF v] quietS_trans [OF q this]] v
    show "?I (snd (bnd (accountAt (the (mget ?m i))) (\<lambda>formatAccount.
        thn (Redis_SetAccount i (FromFormatAccountInfo formatAccount)) (AccountCache_Add X i (the (mget ?m i)))) v))"
      by (simp add: r bnd_run at_run thn_run Redis_SetAccount_def AccountCache_Add_def)
  qed
  from keepsD [OF this _ assms(4)] assms(3) show ?thesis by (simp add: quietS_refl)
qed

definition nftsCachedFor :: "int set \<Rightarrow> World \<Rightarrow> bool" where
  "nftsCachedFor N w \<longleftrightarrow> (\<forall>n \<in> N. \<forall>r r'. pendingNft w n = Some r \<longrightarrow> map_of (w_NftCache w) n = Some r' \<longrightarrow> r' = r)"

lemma NftCache_Add_pending:
  assumes X: "lru_ok X" and s: "wf s" "pendingNft s n = Some r" "nftsCachedFor N s"
  defines "t \<equiv> s\<lparr>w_NftCache := x_lruAdd X (w_NftCacheSize s) (w_NftCache s) n r\<rparr>"
  shows "wf t \<and> ledgerOf t = ledgerOf s \<and> nftsCachedFor (insert n N) t"
proof -
  have z: "0 < w_NftCacheSize s" using s(1) by (simp add: wfx_def)
  note same = lru_add_same [OF X z, of "w_NftCache s" n r]
  note other = lru_add_other [OF X, of _ n "w_NftCacheSize s" "w_NftCache s" r]
  have c: "map_of (w_NftCache t) k = Some q \<Longrightarrow> k = n \<and> q = r \<or> k \<noteq> n \<and> map_of (w_NftCache s) k = Some q" for k q
    using same other [of k] by (cases "k = n") (auto simp: t_def)
  have d: "dbNft t = dbNft s" "dbAcc t = dbAcc s" by (simp_all add: t_def dbNft_def dbAcc_def fun_eq_iff)
  have wt: "wf t"
  proof -
    have "\<forall>n r. map_of (w_NftCache t) n = Some r \<longrightarrow> r < w_next s \<and> nft_NftIndex (w_nftHeap s r) = n"
      using s(1,2) c unfolding wfx_def by metis
    moreover have "\<forall>n r. pendingNft s n = None \<longrightarrow> map_of (w_NftCache t) n = Some r \<longrightarrow> dbNft s n = Some (nftCore (w_nftHeap s r))"
      using s(1,2) c unfolding wfx_def by (metis empty_iff option.distinct(1))
    ultimately show ?thesis using s(1) unfolding wfx_def d by (simp add: t_def)
  qed
  have "nftv t k = nftv s k" for k
  proof (cases "pendingNft s k")
    case None
    moreover from None have "pendingNft t k = None" by (simp add: t_def)
    ultimately show ?thesis using nftv_dbNft [OF s(1)] nftv_dbNft [OF wt] by (simp add: d)
  qed (simp add: nftv_def nftRef_def t_def)
  moreover have "acct t = acct s" by (rule acct_cong) (simp_all add: d acctRef_def fun_eq_iff t_def cong: option.case_cong)
  ultimately have "ledgerOf t = ledgerOf s" by (intro ledgerOf_cong) (simp_all add: t_def fun_eq_iff)
  moreover have "nftsCachedFor (insert n N) t"
    using s(2,3) c unfolding nftsCachedFor_def by (auto simp: t_def dest!: c) (metis option.inject)+
  ultimately show ?thesis using wt by simp
qed

lemma syncPendingNft_caches:
  assumes X: "lru_ok X" "range_ok X" and s: "wf s" and run: "syncPendingNft X (sc_PendingNftMap (w_sc s)) s = (Ok u, t)"
  shows "wf t \<and> ledgerOf t = ledgerOf s \<and> nftsCached t \<and> w_sc t = w_sc s \<and> w_db t = w_db s \<and> w_currentBlock t = w_currentBlock s \<and>
    w_nextAccountNumber t = w_nextAccountNumber s"
proof -
  let ?m = "sc_PendingNftMap (w_sc s)"
  let ?I = "\<lambda>N t. wf t \<and> ledgerOf t = ledgerOf s \<and> nftsCachedFor N t \<and> w_sc t = w_sc s \<and> w_db t = w_db s \<and>
    w_currentBlock t = w_currentBlock s \<and> w_nextAccountNumber t = w_nextAccountNumber s"
  let ?f = "\<lambda>i. bnd (nftAt (the (mget ?m i))) (\<lambda>nft. thn (Redis_SetNft i nft) (NftCache_Add X i (the (mget ?m i))))"
  have one: "?I (insert i N) w" if i: "mget ?m i = Some r" and v: "?I N v" and f: "?f i v = (Ok x, w)" for i r N v w x
  proof -
    let ?v = "v\<lparr>w_redis := (w_redis v)\<lparr>rd_nft := (rd_nft (w_redis v))(i \<mapsto> w_nftHeap v r)\<rparr>\<rparr>"
    have w: "w = ?v\<lparr>w_NftCache := x_lruAdd X (w_NftCacheSize ?v) (w_NftCache ?v) i r\<rparr>"
      using f i by (simp add: bnd_run at_run thn_run Redis_SetNft_def NftCache_Add_def split: if_splits)
    have "wf ?v" "pendingNft ?v i = Some r" "nftsCachedFor N ?v" "ledgerOf ?v = ledgerOf s"
      using v i by (auto simp: redis_frame nftsCachedFor_def)
    from NftCache_Add_pending [OF X(1) this(1-3)] this(4) v show ?thesis unfolding w by simp
  qed
  have "?I (N \<union> set is) t" if "\<forall>i \<in> set is. mget ?m i \<noteq> None" "?I N v" "forM is ?f v = (Ok x, t)" for "is" N v x
    using that
  proof (induction "is" arbitrary: N v)
    case (Cons i "is")
    from Cons.prems(3) obtain y w where w: "?f i v = (Ok y, w)" "forM is ?f w = (Ok x, t)" by (auto elim!: thn_OkE)
    from Cons.prems(1) obtain r where "mget ?m i = Some r" by auto
    from one [OF this Cons.prems(2) w(1)] Cons.IH [of w "insert i N"] w(2) Cons.prems(1) show ?case by simp
  qed (simp add: ret_def)
  from this [of "x_range X (mkeys ?m)" s "{}" u] s run X(2) have "?I (set (x_range X (mkeys ?m))) t"
    by (simp add: syncPendingNft_def Let_def range_ok_def mkeys_dom nftsCachedFor_def)
  moreover have "nftsCached t" if "nftsCachedFor (set (x_range X (mkeys ?m))) t" "w_sc t = w_sc s"
    using that X(2) by (simp add: nftsCached_def nftsCachedFor_def range_ok_def Ball_def mkeys_dom) blast
  ultimately show ?thesis by blast
qed

lemma SyncStateCache_caches:
  assumes X: "lru_ok X" "range_ok X" and s: "wf s" and run: "SyncStateCacheToRedis X s = (Ok u, t)"
  shows "calm s t \<and> w_sc t = w_sc s \<and> w_currentBlock t = w_currentBlock s"
proof -
  from run obtain v where 1: "syncPendingAccount X (sc_PendingAccountMap (w_sc s)) s = (Ok (), v)"
    and 2: "syncPendingNft X (sc_PendingNftMap (w_sc v)) v = (Ok u, t)"
    by (auto simp: SyncStateCacheToRedis_def bnd_run elim!: thn_OkE)
  from syncPendingAccount_quiet [OF X s 1] have q: "quietS s v" by blast
  from syncPendingNft_caches [OF X quietS_wf [OF q] 2] q show ?thesis by (simp add: calm_def quietS_def)
qed

section \<open>The next block\<close>

lemma GetFormatAccount_absent:
  assumes "lru_ok X" "GetFormatAccount X i s = (Err AppErrAccountNotFound, t)"
  shows "acct s i = None"
  using assms(2) lru_getD [OF assms(1), of "w_AccountCache s" i]
  by (auto simp: GetFormatAccount_def bnd_run GetPendingAccount_def AccountCache_Get_def split_beta GetAccountByIndex_def mapErr_def
      orThrow_run ofSum_run alloc_run thn_run AccountCache_Add_def acct_def acctRef_def dbAcc_def notFoundTo_def AppErrAccountNotFound_def
      split: option.splits if_splits sum.splits)

lemma MarkGasAccount_calm:
  assumes X: "lru_ok X" "lru_order X" and s: "wf s" "nftsCached s" and ok: "MarkGasAccountAsPending X s = (Ok u, t)"
  shows "wf t \<and> nftsCached t \<and> ledgerOf t = ledgerOf s \<and> w_db t = w_db s \<and> w_nextAccountNumber t = w_nextAccountNumber s \<and>
    w_currentBlock t = w_currentBlock s \<and> (l_id (ledgerOf s) GasAccount \<noteq> None \<longrightarrow> pendingAcc t GasAccount \<noteq> None)"
proof (cases "GetFormatAccount X GasAccount s")
  case (Pair res v)
  note L = GetFormatAccount_load [OF X s(1), of GasAccount]
  show ?thesis
  proof (cases res)
    case (Ok r)
    from Pair Ok L have v: "quietS s v" "w_NftCache v = w_NftCache s" and r: "acctRef v GasAccount = Some r" by (auto simp: loaded_def)
    have t: "t = updSc (SetPendingAccount GasAccount r) v"
      using ok Pair Ok by (auto simp: MarkGasAccountAsPending_def run attempt_def SetPendingAccount_def [abs_def])
    have "St {} {} (view v) v" using v by (simp add: St_def quietS_def)
    from St_setPendingAccount [OF this, of GasAccount r] r have "wf t" "view t = view v" by (simp_all add: St_def t)
    moreover from this(2) have "ledgerOf t = ledgerOf v" by (metis view_sel(1))
    ultimately show ?thesis using v s(2)
      by (auto simp: t quietS_def nftsCached_def updSc_def SetPendingAccount_def)
  next
    case (Err e)
    from Pair Err L have v: "quietS s v" "w_NftCache v = w_NftCache s" by auto
    have "e = AppErrAccountNotFound" "t = v"
      using ok Pair Err by (auto simp: MarkGasAccountAsPending_def run attempt_def split: if_splits)
    with GetFormatAccount_absent [OF X(1)] Pair Err v s(2) show ?thesis
      by (auto simp: quietS_def nftsCached_def ledgerOf_def)
  qed (use Pair L in simp)
qed

section \<open>The turn\<close>

lemma CommitNewBlock_flushes:
  assumes X: "libOk X" and n: "calmN s n" "pendingAcc s GasAccount \<noteq> None" and ok: "CommitNewBlock T X sz t0 n = (Ok b, m)"
  shows "\<exists>w. calm s w \<and> w_currentBlock w = bs_Block b \<and> bk_BlockStatus (bs_Block b) = BlockPending \<and> n_world m = credited X w \<and> flushes (credited X w) (bs_PendingAccount b) (bs_PendingNft b)"
proof -
  note L = libOkD [OF X]
  let ?h = "\<lambda>m. bk_BlockHeight (w_currentBlock (n_world m))"
  from ok obtain r m1 m2 pa m3 pn where 1: "commitNewBlock T X sz t0 n = (Ok r, m1)"
    and 2: "CommitTrees T X (word_of_int (?h m1)) m1 = (Ok (), m2)"
    and 3: "onWorld (StateDB_GetPendingAccount X (?h m1)) m2 = (Ok pa, m3)" "onWorld (StateDB_GetPendingNft X (?h m1)) m3 = (Ok pn, m)"
    and b: "bs_Block b = fst r" "bs_PendingAccount b = fst pa" "bs_PendingNft b = fst pn"
    unfolding CommitNewBlock_def by (elim bnd_OkE thn_OkE) (auto split: prod.splits elim!: bnd_OkE thn_OkE simp: gets_def ret_def)
  from commitNewBlock_calm [OF _ _ n(1) 1] L have c: "calmN s m1" "w_currentBlock (n_world m1) = bs_Block b" "bk_BlockStatus (bs_Block b) = BlockPending" by (auto simp: b)
  have w2: "n_world m2 = n_world m1" by (rule keepsD [OF CommitTrees_same [where P = "\<lambda>w. w = n_world m1"] _ 2]) simp
  have p: "wf (n_world m1)" "pendingAcc (n_world m1) GasAccount \<noteq> None" using c(1) n(2) by (simp_all add: calm_def)
  from GetPending_run [OF _ _ p, of X "?h m1"] L obtain as ns where
    "StateDB_GetPendingAccount X (?h m1) (n_world m1) = (Ok (as, map (historyOf (?h m1)) as), credited X (n_world m1))"
    "StateDB_GetPendingNft X (?h m1) (credited X (n_world m1)) = (Ok (ns, map (nftHistory (?h m1)) ns), credited X (n_world m1))"
    "flushes (credited X (n_world m1)) as ns" by blast
  with 3 w2 b c show ?thesis by (intro exI [of _ "n_world m1"]) (auto simp: onWorld_run)
qed

lemma flushes_index:
  assumes "wf w" "flushes w as ns" "a \<in> set as"
  shows "l_id (ledgerOf w) (ac_AccountIndex a) \<noteq> None"
proof -
  have "lastRow ac_AccountIndex as (ac_AccountIndex a) \<noteq> None" using assms(3) by (auto simp: lastRow_def find_None_iff)
  then have "pendingAcc w (ac_AccountIndex a) \<noteq> None" using assms(2) by (simp add: flushes_def)
  then show ?thesis by (auto simp: ledgerOf_def acct_def acctRef_def)
qed

text \<open>What holds of the state when a block is committed and of the state in which the next one starts.\<close>

definition turnReady :: "World \<Rightarrow> bool" where
  "turnReady w \<longleftrightarrow> healthy w \<and> pendingAcc w GasAccount \<noteq> None"

lemma blockStored_cong:
  assumes "sv_rollup s = sv_rollup s'" "sv_AccountHistory s = sv_AccountHistory s'" "sv_L2NftHistory s = sv_L2NftHistory s'" "sv_blockID s = sv_blockID s'"
  shows "blockStored b s t = blockStored b s' t"
  unfolding blockStored_def assms by (rule refl)

lemma commit_stores:
  assumes X: "libOk X" and s: "turnReady (worldOf s)" "nftsCached (worldOf s)" and ok: "Committer_commitNewBlock T X c s = (Ok b, t)"
  obtains w bs where "rowsStored (bs_PendingAccount bs) (bs_PendingNft bs) w (worldOf t)"
    "flushes w (bs_PendingAccount bs) (bs_PendingNft bs)" "wf w" "nftsCached w" "w_currentBlock w = b"
    "(ledgerOf w)\<lparr>l_gas := \<lambda>_. 0\<rparr> = settleL (ledgerOf (worldOf s))" "w_db w = w_db (worldOf s)"
    "w_nextAccountNumber w = w_nextAccountNumber (worldOf s)" "bs_Block bs = b" "bk_BlockStatus b = BlockPending" "blockStored bs s t"
proof -
  note L = libOkD [OF X]
  let ?w = "worldOf s"
  from ok obtain bs m1 w2 where 1: "CommitNewBlock T X (computeCurrentBlockSize c ?w) (bk_CreatedAt (w_currentBlock ?w)) (sv_node s) = (Ok bs, m1)"
    and 2: "SyncGasAccountToRedis X (n_world m1) = (Ok (), w2)"
    and 3: "storeBlock bs (s\<lparr>sv_node := m1\<lparr>n_world := w2\<rparr>\<rparr>) = (Ok (), t)" and b: "b = bs_Block bs"
    unfolding Committer_commitNewBlock_def onNode_def onChain_def onWorld_run [abs_def]
    by (auto elim!: bnd_OkE thn_OkE simp: gets_def ret_def split: prod.splits)
  have w: "wf ?w" using s(1) by (simp add: turnReady_def healthy_def)
  from CommitNewBlock_flushes [OF X calm_refl [OF w s(2)] _ 1] s(1) obtain u where u: "calm ?w u" "w_currentBlock u = b"
    "n_world m1 = credited X u" "flushes (credited X u) (bs_PendingAccount bs) (bs_PendingNft bs)" and pending: "bk_BlockStatus b = BlockPending" by (auto simp: turnReady_def b)
  from u(1) s(1) obtain r where r: "wf u" "pendingAcc u GasAccount = Some r" by (auto simp: calm_def turnReady_def)
  note C = credited_ledger [OF L(4) L(3) r]
  have nc: "nftsCached (credited X u)" using u(1) by (simp add: calm_def nftsCached_def)
  have st: "still (credited X u) w2"
    by (rule keepsD [OF SyncGasAccount_still [OF L(1)] _ 2]) (simp add: u(3) still_refl [OF C(1) nc])
  from storeBlock_Ok [OF 3] have rows: "rowsStored (bs_PendingAccount bs) (bs_PendingNft bs) w2 (worldOf t)" "blockStored bs s t"
    using blockStored_cong [of s "s\<lparr>sv_node := m1\<lparr>n_world := w2\<rparr>\<rparr>"] by simp_all
  moreover have "flushes w2 (bs_PendingAccount bs) (bs_PendingNft bs)" using still_flushes [OF st] u(4) by simp
  moreover have "wf w2" "nftsCached w2" "w_currentBlock w2 = b" "(ledgerOf w2)\<lparr>l_gas := \<lambda>_. 0\<rparr> = settleL (ledgerOf ?w)"
      "w_db w2 = w_db ?w" "w_nextAccountNumber w2 = w_nextAccountNumber ?w"
    using st C u(1,2) by (simp_all add: still_def calm_def)
  ultimately show ?thesis using that b pending by simp
qed

lemma settleL_sel [simp]:
  "l_id (settleL L) = l_id L" "l_nft (settleL L) = l_nft L" "l_nonce (settleL L) = l_nonce L" "l_cnonce (settleL L) = l_cnonce L"
  "l_offer (settleL L) = l_offer L" "l_gas (settleL L) = (\<lambda>_. 0)"
  by (simp_all add: settleL_def)

lemma next_block:
  assumes X: "libOk X" and w: "wf w" "nftsCached w" "flushes w as ns" "rowsStored as ns w w'" and ids: "idsOk ((view w)\<lparr>v_led := L\<rparr>)"
    and L: "(ledgerOf w)\<lparr>l_gas := \<lambda>_. 0\<rparr> = L" and g: "l_id L GasAccount \<noteq> None" and ok: "InitNewBlock X w' = (Ok b, t)"
  shows "turnReady t \<and> ledgerOf t = L"
proof -
  from w(4) obtain ra rn h where w': "w' = w\<lparr>w_nftHeap := h, w_db := (w_db w)\<lparr>db_Account := ra, db_L2Nft := rn\<rparr>\<rparr>"
    and ra: "set (map ac_AccountIndex ra) \<subseteq> set (map ac_AccountIndex as) \<union> set (map ac_AccountIndex (db_Account (w_db w)))"
    by (auto simp: rowsStored_def)
  define c where "c = NewStateCache X (bk_StateRoot (w_currentBlock w'))"
  have c: "sc_PendingAccountMap c = []" "sc_PendingNftMap c = []" "sc_PendingGasMap c = []" by (simp_all add: c_def NewStateCache_def)
  from ok have m: "MarkGasAccountAsPending X (emptied b c w') = (Ok (), t)"
    by (auto simp: InitNewBlock_def run Let_def PurgeCache_def updSc_def emptied_def c_def split: prod.splits res.splits)
  have nc: "nftsCached (emptied b c w')" by (simp add: nftsCached_def emptied_def c)
  note M = MarkGasAccount_calm [OF libOkD(1,2) [OF X] emptied_wf [OF w c(1,2)] nc m]
  have l: "ledgerOf t = L" using M emptied_ledger [OF w c] L by simp
  have "l_id L = l_id (ledgerOf w)" using L by auto
  then have "\<forall>a \<in> set as. 0 \<le> ac_AccountIndex a" using flushes_index [OF w(1,3)] ids by (simp add: idsOk_def)
  moreover have "\<forall>a \<in> set (db_Account (w_db w)). 0 \<le> ac_AccountIndex a" using ids by (simp add: idsOk_def)
  ultimately have "\<forall>i \<in> set (map ac_AccountIndex as) \<union> set (map ac_AccountIndex (db_Account (w_db w))). 0 \<le> i" by auto
  with ra have "\<forall>i \<in> set (map ac_AccountIndex ra). 0 \<le> i" by blast
  then have "\<forall>a \<in> set ra. 0 \<le> ac_AccountIndex a" by simp
  then have "idsOk (view t)" using M ids l by (simp add: idsOk_def emptied_def w')
  with M l g emptied_ledger [OF w c] L show ?thesis by (simp add: turnReady_def healthy_def)
qed

abbreviation statusOf :: "World \<Rightarrow> blockStatus" where "statusOf w \<equiv> bk_BlockStatus (w_currentBlock w)"

text \<open>
  The state between passes, with the ledger the next transaction will see: a block is open, or the last
  one is closed and starting the next one gives that ledger.
\<close>

definition passOk :: "Lib \<Rightarrow> Ledger \<Rightarrow> ('t, 'd) Service \<Rightarrow> bool" where
  "passOk X L s \<longleftrightarrow> (if statusOf (worldOf s) = StatusProposing then turnReady (worldOf s) \<and> ledgerOf (worldOf s) = L
     else (\<forall>b u. InitNewBlock X (worldOf s) = (Ok b, u) \<longrightarrow> turnReady u \<and> ledgerOf u = L))"

lemma startBlock_ok:
  assumes "passOk X L s" "startBlock X s = (Ok u, t)"
  shows "turnReady (worldOf t) \<and> ledgerOf (worldOf t) = L \<and> statusOf (worldOf t) = StatusProposing \<and> sv_rollup t = sv_rollup s"
proof (cases "statusOf (worldOf s) = StatusProposing")
  case True
  with assms show ?thesis by (simp add: startBlock_def bnd_run passOk_def ret_def)
next
  case False
  with assms(2) obtain b where b: "InitNewBlock X (worldOf s) = (Ok b, worldOf t)" and r: "sv_rollup t = sv_rollup s"
    by (auto simp: startBlock_def run mustOk_def onChain_def onNode_def onWorld_run split: prod.splits res.splits)
  with False assms(1) bookOk_init [OF b] show ?thesis by (simp add: passOk_def)
qed

lemma sync_turnReady:
  assumes X: "libOk X" and s: "turnReady w" and ok: "SyncStateCacheToRedis X w = (Ok u, v)"
  shows "turnReady v \<and> nftsCached v \<and> ledgerOf v = ledgerOf w \<and> statusOf v = statusOf w"
proof -
  have "wf w" using s by (simp add: turnReady_def healthy_def)
  from SyncStateCache_caches [OF libOkD(1,3) [OF X] this ok] s show ?thesis
    by (simp add: turnReady_def healthy_def calm_def idsOk_def)
qed

lemma commit_passOk:
  assumes X: "libOk X" and s: "turnReady (worldOf s)" "nftsCached (worldOf s)" and ok: "Committer_commitNewBlock T X c s = (Ok b, t)"
  shows "passOk X (settleL (ledgerOf (worldOf s))) t"
proof -
  obtain v and bs :: BlockStates where v: "rowsStored (bs_PendingAccount bs) (bs_PendingNft bs) v (worldOf t)"
    "flushes v (bs_PendingAccount bs) (bs_PendingNft bs)" "wf v" "nftsCached v" "w_currentBlock v = b" "bk_BlockStatus b = BlockPending"
    "(ledgerOf v)\<lparr>l_gas := \<lambda>_. 0\<rparr> = settleL (ledgerOf (worldOf s))" "w_db v = w_db (worldOf s)"
    "w_nextAccountNumber v = w_nextAccountNumber (worldOf s)"
    by (rule commit_stores [OF X s ok])
  have st: "statusOf (worldOf t) \<noteq> StatusProposing" using v(1,5,6) by (auto simp: rowsStored_def)
  have g: "l_id (settleL (ledgerOf (worldOf s))) GasAccount \<noteq> None" using s by (auto simp: turnReady_def ledgerOf_def acct_def acctRef_def)
  have "idsOk ((view v)\<lparr>v_led := settleL (ledgerOf (worldOf s))\<rparr>)" using s v(8,9) by (simp add: turnReady_def healthy_def idsOk_def)
  from next_block [OF X v(3,4,2,1) this v(7) g] st show ?thesis by (simp add: passOk_def)
qed

text \<open>The state cache is synchronised, the block committed and the next one started, as in the loop of the committer.\<close>

definition turnBlock :: "('t, 'd) Smt \<Rightarrow> Lib \<Rightarrow> Committer \<Rightarrow> ('t, 'd, unit) serviceM" where
  "turnBlock T X c = thn (onChain (SyncStateCacheToRedis X)) (thn (Committer_commitNewBlock T X c) (startBlock X))"

lemma turnBlock_ok:
  assumes X: "libOk X" and s: "turnReady (worldOf s)" and ok: "turnBlock T X c s = (Ok u, t)"
  shows "turnReady (worldOf t) \<and> ledgerOf (worldOf t) = settleL (ledgerOf (worldOf s)) \<and> statusOf (worldOf t) = StatusProposing"
proof -
  note L = libOkD [OF X]
  from ok obtain w1 b s2 where 1: "SyncStateCacheToRedis X (worldOf s) = (Ok (), w1)"
    and 2: "Committer_commitNewBlock T X c (s\<lparr>sv_node := (sv_node s)\<lparr>n_world := w1\<rparr>\<rparr>) = (Ok b, s2)" and 3: "startBlock X s2 = (Ok u, t)"
    unfolding turnBlock_def onChain_def onNode_def onWorld_run [abs_def] by (auto elim!: thn_OkE split: prod.splits)
  from sync_turnReady [OF X s 1] have w1: "turnReady w1" "nftsCached w1" "ledgerOf w1 = ledgerOf (worldOf s)" by simp_all
  from commit_passOk [OF X _ _ 2] w1 have "passOk X (settleL (ledgerOf (worldOf s))) s2" by simp
  from startBlock_ok [OF this 3] show ?thesis by simp
qed

end
