(* ===== verification/Ref_Abort.thy ===== *)
theory Ref_Abort
  imports Ref_Turn
begin

text \<open>
  A block that is not stored: nothing but the database transaction of the block writes the tables, and
  the transaction undoes what it wrote.
\<close>

abbreviation sameDb :: "ChainDB \<Rightarrow> World \<Rightarrow> bool" where "sameDb d w \<equiv> w_db w = d"

text \<open>Loading accounts and NFTs and updating trees leave the state cache, the block and the tables alone.\<close>

abbreviation booked :: "(StateCache \<Rightarrow> Block \<Rightarrow> ChainDB \<Rightarrow> bool) \<Rightarrow> World \<Rightarrow> bool" where
  "booked P w \<equiv> P (w_sc w) (w_currentBlock w) (w_db w)"

lemma GetFormatAccount_booked: "keeps (booked P) (GetFormatAccount X i)" "keeps (booked P) (GetNft X i)"
  unfolding GetFormatAccount_def GetNft_def AccountCache_Add_def NftCache_Add_def GetAccountByIndex_def GetNftRow_def newAccount_def newNft_def
  by (rule keep keeps_modify keeps_AccountCache_Get | simp add: NftCache_Get_def keeps_def split: prod.splits)+

lemma world_booked [calmly]:
  "keeps (\<lambda>n. booked P (n_world n)) (onWorld (GetFormatAccount X i))" "keeps (\<lambda>n. booked P (n_world n)) (onWorld (GetNft X i))"
  "keeps (\<lambda>n. booked P (n_world n)) (onWorld (mutAcc r (\<lambda>acc. Some (acc\<lparr>ai_AssetRoot := h\<rparr>))))"
  "keeps (\<lambda>n. booked P (n_world n)) (onWorld (assetAt r a))" "keeps (\<lambda>n. booked P (n_world n)) (onWorld (accountAt r))"
  "keeps (\<lambda>n. booked P (n_world n)) (onWorld (nftAt r))"
  by (intro keeps_onWorld GetFormatAccount_booked; simp add: keeps_def assetAt_run at_run mutAcc_run split: option.splits)+

lemma assetItems_booked [calmly]: "keeps (\<lambda>n. booked P (n_world n)) (assetItems T X account i as)"
  by (induction as) (simp_all only: assetItems.simps Let_def, (rule keep calmly | assumption)+)

lemma updateTree_booked [calmly]:
  "keeps (\<lambda>n. booked P (n_world n)) (updateAccountTree T X i as)" "keeps (\<lambda>n. booked P (n_world n)) (updateNftTree T X n)"
  unfolding updateAccountTree_def updateNftTree_def multiSetAsset_def assetRoot_def
  by (rule keep calmly | simp split: prod.splits option.splits)+

lemmas updateTree_db = updateTree_booked [of "\<lambda>_ _ x. x = d" for d]

lemma GetFormatAccount_db: "keeps (sameDb d) (GetFormatAccount X i)" "keeps (sameDb d) (GetNft X i)"
  by (rule GetFormatAccount_booked [of "\<lambda>_ _ x. x = d"])+

lemma updSc_db: "keeps (\<lambda>n. sameDb d (n_world n)) (onWorld (modify (updSc f)))"
  by (intro keeps_onWorld) (simp add: keeps_def updSc_def)

lemma IntermediateRoot_db [calmly]: "keeps (\<lambda>n. sameDb d (n_world n)) (IntermediateRoot T X b)"
proof -
  have m: "keeps (\<lambda>n. sameDb d (n_world n)) (\<lambda>n. case k_MultiSet T is (n_AccountTree n) of (e, t) \<Rightarrow> (Ok e, n\<lparr>n_AccountTree := t\<rparr>))"
    "keeps (\<lambda>n. sameDb d (n_world n)) (\<lambda>n. case k_MultiSet T is (n_NftTree n) of (e, t) \<Rightarrow> (Ok e, n\<lparr>n_NftTree := t\<rparr>))" for "is"
    by (auto simp: keeps_def split: prod.splits)
  have r: "keeps (\<lambda>n. sameDb d (n_world n)) (modify (\<lambda>n. n\<lparr>n_world := updSc (\<lambda>c. c\<lparr>sc_StateRoot := f n\<rparr>) (n_world n)\<rparr>))" for f
    by (rule keeps_modify) (simp add: updSc_def)
  show ?thesis unfolding IntermediateRoot_def
    by (rule keep updateTree_db updSc_db m r collect_calm | simp)+
qed

lemma pendingAccountLoop_db: "keeps (sameDb d) (pendingAccountLoop X h is p)"
proof (induction "is" arbitrary: p)
  case (Cons i "is")
  show ?case
    by (cases p) (simp only: pendingAccountLoop.simps Let_def applyGasUpdate_def, (rule keep keeps_modify Cons.IH | simp add: keeps_def at_run)+)
qed (simp add: keep)

lemma CommitNewBlock_db: "keeps (\<lambda>n. sameDb d (n_world n)) (CommitNewBlock T X sz t0)"
  unfolding CommitNewBlock_def commitNewBlock_def StateDB_GetPendingAccount_def StateDB_GetPendingNft_def Let_def
  by (rule keep calmly CommitTrees_same keeps_onWorld keeps_modify pendingAccountLoop_db | simp add: updSc_def)+

lemma SyncGasAccount_db: "keeps (sameDb d) (SyncGasAccountToRedis X)"
  unfolding SyncGasAccountToRedis_def Redis_SetAccount_def
  by (rule keep keeps_modify keeps_AccountCache_Get | simp add: keeps_def at_run)+

text \<open>The tables of a service.\<close>

definition sameTables :: "('t, 'd) Service \<Rightarrow> ('t, 'd) Service \<Rightarrow> bool" where
  "sameTables s t \<longleftrightarrow> w_db (worldOf t) = w_db (worldOf s) \<and> sv_rollup t = sv_rollup s \<and> sv_AccountHistory t = sv_AccountHistory s \<and>
     sv_L2NftHistory t = sv_L2NftHistory s"

lemma sameTables_trans: "sameTables s t \<Longrightarrow> sameTables t u \<Longrightarrow> sameTables s u" by (simp add: sameTables_def)

lemma onNode_tables: "keeps (\<lambda>n. sameDb (w_db (worldOf s)) (n_world n)) m \<Longrightarrow> onNode m s = (r, t) \<Longrightarrow> sameTables s t"
  by (auto simp: onNode_def sameTables_def split: prod.splits dest: keepsD)

lemma storing_tables: "storing m s = (r, t) \<Longrightarrow> (\<And>a. r \<noteq> Ok a) \<Longrightarrow> sameTables s t"
  by (auto simp: storing_def sameTables_def setDb_def split: prod.splits res.splits)

lemma commit_aborts:
  assumes "Committer_commitNewBlock T X c s = (r, t)" "\<And>b. r \<noteq> Ok b"
  shows "sameTables s t"
proof -
  let ?m = "onNode (CommitNewBlock T X (computeCurrentBlockSize c (worldOf s)) (bk_CreatedAt (w_currentBlock (worldOf s))))"
  obtain r1 s1 where 1: "?m s = (r1, s1)" by (cases "?m s")
  note A = onNode_tables [OF CommitNewBlock_db 1]
  show ?thesis
  proof (cases r1)
    case (Ok bs)
    obtain r2 s2 where 2: "onChain (SyncGasAccountToRedis X) s1 = (r2, s2)" by (cases "onChain (SyncGasAccountToRedis X) s1")
    note B = sameTables_trans [OF A onNode_tables [OF keeps_onWorld [OF SyncGasAccount_db] 2 [unfolded onChain_def]]]
    show ?thesis
    proof (cases r2)
      case (Ok x)
      obtain r3 s3 where 3: "storeBlock bs s2 = (r3, s3)" by (cases "storeBlock bs s2")
      have e: "Committer_commitNewBlock T X c s = ((case r3 of Ok _ \<Rightarrow> Ok (bs_Block bs) | Err e \<Rightarrow> Err e | Panic p \<Rightarrow> Panic p), s3)"
        by (cases r3) (simp_all add: Committer_commitNewBlock_def run 1 2 3 Ok \<open>r1 = Ok bs\<close>)
      have t: "t = s3" using e assms(1) by simp
      have "r3 \<noteq> Ok a" for a using e assms(1) assms(2) [of "bs_Block bs"] by auto
      from sameTables_trans [OF B storing_tables [OF 3 [unfolded storeBlock_def] this]] show ?thesis by (simp only: t)
    qed (use assms 1 2 B Ok in \<open>auto simp: Committer_commitNewBlock_def run\<close>)
  qed (use assms 1 A in \<open>auto simp: Committer_commitNewBlock_def run\<close>)
qed

section \<open>A block that is stored\<close>

lemma settleL_total:
  assumes "finite S" "GasAccount \<in> S"
  shows "assetTotal S a (settleL L) = assetTotal S a L"
proof -
  have "(\<Sum>i \<in> S. l_bal (settleL L) i a) = (\<Sum>i \<in> S. l_bal L i a + (if i = GasAccount then l_gas L a else 0))"
    by (rule sum.cong) (simp_all add: settleL_def)
  then show ?thesis using assms by (simp add: assetTotal_def sum.distrib sum.delta)
qed

lemma new_or_old: "f x \<in> f ` set ys \<Longrightarrow> f x \<in> f ` set (xs @ filter (\<lambda>y. f y \<notin> f ` set xs) ys)"
proof (cases "f x \<in> f ` set xs")
  case True
  then show ?thesis by (simp add: image_Un)
next
  case False
  assume "f x \<in> f ` set ys"
  then obtain y where "y \<in> set ys" "f y = f x" by force
  with False have "y \<in> set (filter (\<lambda>y. f y \<notin> f ` set xs) ys)" by simp
  with \<open>f y = f x\<close> show ?thesis unfolding set_append image_Un by (metis UnI2 imageI)
qed

lemma commit_tables:
  assumes "libOk X" "turnReady (worldOf s)" "nftsCached (worldOf s)" "Committer_commitNewBlock T X c s = (Ok b, t)"
  shows "bk_BlockStatus b = BlockPending \<and> w_currentBlock (worldOf t) = b \<and>
    (\<forall>x \<in> set (ru_TxPool (sv_rollup t)). x \<in> set (ru_TxPool (sv_rollup s)) \<and> tx_ID x \<notin> tx_ID ` set (bk_Txs b)) \<and>
    (\<exists>x \<in> set (ru_Block (sv_rollup t)). bk_ID x = sv_blockID s \<and> bk_BlockStatus x = BlockPending \<and> bk_StateRoot x = bk_StateRoot b \<and>
       map (\<lambda>y. y\<lparr>tx_ID := 0\<rparr>) (bk_Txs x) = map (\<lambda>y. y\<lparr>tx_ID := 0\<rparr>) (bk_Txs b)) \<and>
    (\<exists>cb. ru_CompressedBlock (sv_rollup t) = ru_CompressedBlock (sv_rollup s) @ [cb]) \<and>
    (\<forall>x \<in> set (bk_Txs b). tx_TxHash x \<in> tx_TxHash ` set (ru_Tx (sv_rollup t)))"
proof -
  obtain v and bs :: BlockStates where v: "rowsStored (bs_PendingAccount bs) (bs_PendingNft bs) v (worldOf t)" "w_currentBlock v = b"
    "bs_Block bs = b" "bk_BlockStatus b = BlockPending" "blockStored bs s t" by (rule commit_stores [OF assms])
  have w: "w_currentBlock (worldOf t) = b" using v(1,2) by (auto simp: rowsStored_def)
  from v(3,5) obtain k txs x where txs: "map (\<lambda>x. x\<lparr>tx_ID := 0\<rparr>) txs = map (\<lambda>x. x\<lparr>tx_ID := 0\<rparr>) (bk_Txs b)"
    and u: "ru_CompressedBlock (sv_rollup t) = ru_CompressedBlock (sv_rollup s) @ [bs_CompressedBlock bs]"
      "ru_TxPool (sv_rollup t) = filter (\<lambda>x. tx_ID x \<notin> tx_ID ` set (bk_Txs b)) (ru_TxPool (sv_rollup s))"
      "ru_Block (sv_rollup t) = map (\<lambda>x. if bk_ID x = sv_blockID s then blockRow (sv_blockID s) (b\<lparr>bk_Txs := txs\<rparr>) else x) (ru_Block (sv_rollup s))"
      "ru_Tx (sv_rollup t) = ru_Tx (sv_rollup s) @ filter (\<lambda>x. tx_TxHash x \<notin> tx_TxHash ` set (ru_Tx (sv_rollup s))) txs"
    and x: "x \<in> set (ru_Block (sv_rollup s))" "bk_ID x = sv_blockID s"
    by (auto simp: blockStored_def)
  have "blockRow (sv_blockID s) (b\<lparr>bk_Txs := txs\<rparr>) \<in> set (ru_Block (sv_rollup t))" using x by (force simp: u(3))
  moreover have "bk_ID (blockRow i y) = i" "bk_BlockStatus (blockRow i y) = bk_BlockStatus y" "bk_StateRoot (blockRow i y) = bk_StateRoot y"
    "bk_Txs (blockRow i y) = bk_Txs y" for i y by (simp_all add: blockRow_def Block.defs BlockRow.defs)
  ultimately have "\<exists>x \<in> set (ru_Block (sv_rollup t)). bk_ID x = sv_blockID s \<and> bk_BlockStatus x = BlockPending \<and> bk_StateRoot x = bk_StateRoot b \<and>
       map (\<lambda>y. y\<lparr>tx_ID := 0\<rparr>) (bk_Txs x) = map (\<lambda>y. y\<lparr>tx_ID := 0\<rparr>) (bk_Txs b)"
    using v(4) txs by (intro bexI [of _ "blockRow (sv_blockID s) (b\<lparr>bk_Txs := txs\<rparr>)"]) auto
  moreover have h: "tx_TxHash ` set txs = tx_TxHash ` set (bk_Txs b)"
    using arg_cong [OF txs, of "\<lambda>l. tx_TxHash ` set l"] by (simp add: image_image)
  have "\<forall>x \<in> set (bk_Txs b). tx_TxHash x \<in> tx_TxHash ` set (ru_Tx (sv_rollup t))"
  proof
    fix x assume "x \<in> set (bk_Txs b)"
    then have "tx_TxHash x \<in> tx_TxHash ` set txs" unfolding h by (rule imageI)
    then show "tx_TxHash x \<in> tx_TxHash ` set (ru_Tx (sv_rollup t))" unfolding u(4) by (rule new_or_old)
  qed
  moreover have "\<forall>x \<in> set (ru_TxPool (sv_rollup t)). x \<in> set (ru_TxPool (sv_rollup s)) \<and> tx_ID x \<notin> tx_ID ` set (bk_Txs b)"
    by (simp add: u(2))
  ultimately show ?thesis using v(4) w u(1) by blast
qed

end
