(* ===== verification/Ref_Grow.thy ===== *)
theory Ref_Grow
  imports Ref_Chain
begin

text \<open>
  Within a block the tables do not change, the block stays the same but for its time, and an account or
  NFT that is pending stays pending: no method of an executor takes an entry out of the pending maps.
\<close>

definition untimed :: "Block \<Rightarrow> Block" where "untimed b = b\<lparr>bk_CreatedAt := 0\<rparr>"

definition grown :: "World \<Rightarrow> World \<Rightarrow> bool" where
  "grown s t \<longleftrightarrow> w_db t = w_db s \<and> untimed (w_currentBlock t) = untimed (w_currentBlock s) \<and> (\<forall>i. pendingAcc s i \<noteq> None \<longrightarrow> pendingAcc t i \<noteq> None) \<and>
     (\<forall>n. pendingNft s n \<noteq> None \<longrightarrow> pendingNft t n \<noteq> None)"

lemma grown_refl: "grown s s" by (simp add: grown_def)

lemma grown_trans: "grown s t \<Longrightarrow> grown t u \<Longrightarrow> grown s u" by (simp add: grown_def)

named_theorems grow \<open>computations after which what was pending is pending\<close>

lemma grown_frame:
  "grown s t \<Longrightarrow> w_sc u = w_sc t \<Longrightarrow> w_db u = w_db t \<Longrightarrow> w_currentBlock u = w_currentBlock t \<Longrightarrow> grown s u" by (simp add: grown_def)

lemma grown_sc:
  "grown s t \<Longrightarrow> sc_PendingAccountMap (f (w_sc t)) = sc_PendingAccountMap (w_sc t) \<Longrightarrow>
     sc_PendingNftMap (f (w_sc t)) = sc_PendingNftMap (w_sc t) \<Longrightarrow> grown s (updSc f t)"
  by (simp add: grown_def updSc_def)

lemma modify_frame [grow]:
  "(\<And>t. w_sc (f t) = w_sc t \<and> w_db (f t) = w_db t \<and> w_currentBlock (f t) = w_currentBlock t) \<Longrightarrow> keeps (grown s) (modify f)"
  by (rule keeps_modify) (auto intro: grown_frame)

lemma modify_sc:
  "(\<And>c. sc_PendingAccountMap (f c) = sc_PendingAccountMap c \<and> sc_PendingNftMap (f c) = sc_PendingNftMap c) \<Longrightarrow> keeps (grown s) (modify (updSc f))"
  by (rule keeps_modify) (auto intro: grown_sc)

lemma pending_grow [grow]:
  "keeps (grown s) (setPendingAccount i r)" "keeps (grown s) (setPendingNft n r)" "keeps (grown s) (setPendingGas X a d)"
  unfolding setPendingAccount_def setPendingNft_def setPendingGas_def
  by (rule keeps_modify, simp add: grown_def updSc_def SetPendingAccount_def SetPendingNft_def SetPendingGas_def Let_def)+

lemma reads_grow [grow]:
  "keeps I (accountAt r)" "keeps I (nftAt r)" "keeps I (assetAt r a)"
  by (simp_all add: keeps_def at_run assetAt_run split: option.splits)

lemma mutAcc_grow [grow]: "keeps (grown s) (mutAcc r g)"
  by (auto simp: keeps_def mutAcc_run grown_def split: option.splits)

lemma cache_grow [grow]:
  "keeps (grown s) (AccountCache_Get X i)" "keeps (grown s) (NftCache_Get X i)" "keeps (grown s) (AccountCache_Add X i r)"
  "keeps (grown s) (NftCache_Add X i r)"
  by (auto simp: keeps_def AccountCache_Get_def NftCache_Get_def AccountCache_Add_def NftCache_Add_def grown_def split: prod.splits)

lemma alloc_grow [grow]: "keeps (grown s) (newAccount a)" "keeps (grown s) (newNft n)"
  by (auto simp: keeps_def alloc_run grown_def allocAcc_def allocNft_def)

lemma GetFormatAccount_grow [grow]: "keeps (grown s) (GetFormatAccount X i)" "keeps (grown s) (GetNft X i)"
  unfolding GetFormatAccount_def GetNft_def GetAccountByIndex_def GetNftRow_def
  by (rule keep grow | simp)+

lemma deepCopyLoop_grow: "keeps (grown s) (deepCopyLoop X is a)"
  by (induction "is" arbitrary: a) (simp_all add: keep, auto intro!: keep grow)

lemma statedb_grow [grow]:
  "keeps (grown s) (PrepareAccountAndAssets X i a)" "keeps (grown s) (PrepareAccountsAndAssets X m)" "keeps (grown s) (PrepareNft X n)"
  "keeps (grown s) (DeepCopyAccounts X is)" "keeps (grown s) GetNextAccountIndex" "keeps (grown s) (UpdateCache k b)"
  "keeps (grown s) GetNextNftIndex" "keeps (grown s) (GetCommittedNonce X i)" "keeps (grown s) GetGasAccountIndex" "keeps (grown s) (GetGasConfig X)"
  "keeps (grown s) (GetAccountByNameHash X h)" "keeps (grown s) (GetAccountByName X h)"
  unfolding PrepareAccountAndAssets_def PrepareAccountsAndAssets_def PrepareNft_def DeepCopyAccounts_def GetNextAccountIndex_def UpdateCache_def
    GetNextNftIndex_def GetLatestNftIndex_def GetCommittedNonce_def GetGasAccountIndex_def GetGasConfig_def GetSysConfigByName_def GetAccountByNameHash_def
    GetAccountByName_def GetAccountRowByNameHash_def GetAccountRowByName_def Let_def
  by (rule keep grow deepCopyLoop_grow | simp)+

section \<open>The executors\<close>

lemma base_grow [grow]:
  "keeps (grown s) (BaseExecutor_MarkAccountAssetsDirty i as)" "keeps (grown s) (BaseExecutor_MarkNftDirty n)" "keeps (grown s) (BaseExecutor_Prepare X)"
  "keeps (grown s) (BaseExecutor_VerifyInputs X b)" "keeps (grown s) (BaseExecutor_ApplyTransaction X)" "keeps (grown s) BaseExecutor_GetExecutedTx"
  "keeps (grown s) (marshalTxInfo X ti)" "keeps (grown s) (setTxInfo ti)" "keeps (grown s) (newExecutor tx e x f)" "keeps (grown s) (setPendingSelf r)"
  "keeps (grown s) (setNftOwner r j)"
  unfolding BaseExecutor_MarkAccountAssetsDirty_def BaseExecutor_MarkNftDirty_def BaseExecutor_Prepare_def BaseExecutor_VerifyInputs_def
    BaseExecutor_ApplyTransaction_def BaseExecutor_GetExecutedTx_def marshalTxInfo_def setTxInfo_def newExecutor_def setPendingSelf_def setNftOwner_def
    SyncDirtyToStateCache_def VerifyExpiredAt_def VerifyNonce_def VerifyGas_def GetPendingNonce_def GetMaxNonceByAccountIndex_def GetAccountByIndex_def Let_def
  by (rule keep grow modify_sc | simp add: updExec_def updTx_def setNft_def MarkAccountAssetsDirty_def MarkNftDirty_def)+

lemma pure_grow [grow]:
  "keeps I (Bit x i)" "keeps I (SetBit x i)" "keeps I (copyOf cs i)" "keeps I (copyMut cs i g)" "keeps I (copyAsset cs i a)"
  "keeps I (fungibleRow cs a i dl o1 o2 b)" "keeps I (AmountToPackedAmountBytes X a)" "keeps I (FeeToPackedFeeBytes X a)" "keeps I (filled y)"
  "keeps I (VerifyExpiredAt k)" "keeps I (offersMatch mi)"
  unfolding Bit_def SetBit_def copyOf_def copyMut_def copyAsset_def fungibleRow_def AmountToPackedAmountBytes_def FeeToPackedFeeBytes_def filled_def
    VerifyExpiredAt_def offersMatch_def Let_def
  by (rule keep)+

lemmas prepare_defs = RegisterZns_Prepare_def Deposit_Prepare_def DepositNft_Prepare_def Transfer_Prepare_def Withdraw_Prepare_def
  CreateCollection_Prepare_def MintNft_Prepare_def TransferNft_Prepare_def AtomicMatch_Prepare_def CancelOffer_Prepare_def WithdrawNft_Prepare_def
  FullExit_Prepare_def FullExitNft_Prepare_def

lemmas verify_defs = RegisterZns_VerifyInputs_def Deposit_VerifyInputs_def DepositNft_VerifyInputs_def Transfer_VerifyInputs_def
  Withdraw_VerifyInputs_def CreateCollection_VerifyInputs_def MintNft_VerifyInputs_def TransferNft_VerifyInputs_def AtomicMatch_VerifyInputs_def
  CancelOffer_VerifyInputs_def WithdrawNft_VerifyInputs_def FullExit_VerifyInputs_def FullExitNft_VerifyInputs_def

lemmas apply_defs = RegisterZns_ApplyTransaction_def Deposit_ApplyTransaction_def DepositNft_ApplyTransaction_def Transfer_ApplyTransaction_def
  Withdraw_ApplyTransaction_def CreateCollection_ApplyTransaction_def MintNft_ApplyTransaction_def TransferNft_ApplyTransaction_def
  AtomicMatch_ApplyTransaction_def CancelOffer_ApplyTransaction_def WithdrawNft_ApplyTransaction_def FullExit_ApplyTransaction_def
  FullExitNft_ApplyTransaction_def setOfferBit_def

lemmas detail_defs = RegisterZns_GenerateTxDetails_def Deposit_GenerateTxDetails_def DepositNft_GenerateTxDetails_def Transfer_GenerateTxDetails_def
  Withdraw_GenerateTxDetails_def CreateCollection_GenerateTxDetails_def MintNft_GenerateTxDetails_def TransferNft_GenerateTxDetails_def
  AtomicMatch_GenerateTxDetails_def CancelOffer_GenerateTxDetails_def WithdrawNft_GenerateTxDetails_def FullExit_GenerateTxDetails_def
  FullExitNft_GenerateTxDetails_def copyOfferBit_def

lemma Prepare_grow: "keeps (grown s) (executor_Prepare X ti)"
  by (cases ti) (simp_all only: executor_Prepare.simps prepare_defs Let_def, (rule keep grow | simp add: updExec_def)+)

lemma VerifyInputs_grow: "keeps (grown s) (executor_VerifyInputs X b ti)"
  by (cases ti) (simp_all only: executor_VerifyInputs.simps verify_defs Let_def, (rule keep grow | simp)+)

lemma Apply_grow: "keeps (grown s) (executor_ApplyTransaction X ti)"
  by (cases ti) (simp_all only: executor_ApplyTransaction.simps apply_defs Let_def, (rule keep grow | simp)+)

lemma Details_grow: "keeps (grown s) (executor_GenerateTxDetails X ti)"
  by (cases ti) (simp_all only: executor_GenerateTxDetails.simps detail_defs Let_def, (rule keep grow | simp)+)

lemma PubData_grow: "keeps (grown s) (executor_GeneratePubData X ti)"
  by (cases ti) (simp_all only: executor_GeneratePubData.simps generate_defs pubData_defs Let_def,
    (rule keep grow modify_sc | simp add: addPubData_def addPubDataOffset_def addPriorityOperation_def addPendingOnChain_def)+)

lemma GetExecutedTx_grow: "keeps (grown s) (executor_GetExecutedTx X ti)"
  by (cases ti) (simp_all only: executor_GetExecutedTx.simps executed_defs, (rule keep grow | simp add: updTx_def updExec_def)+)

lemma NewTxExecutor_grow: "keeps (grown s) (NewTxExecutor X tx)"
  unfolding NewTxExecutor_def new_defs Let_def by (rule keep grow)+

lemma onExec_keeps: "(\<And>ti. keeps I (f ti)) \<Longrightarrow> keeps I (onExec f)"
  unfolding onExec_def by (rule keep | assumption)+

lemma commitSteps_grow: "keeps (grown s) (commitSteps X tx)"
  unfolding commitSteps_def
  by (rule keep grow modify_sc NewTxExecutor_grow onExec_keeps Prepare_grow VerifyInputs_grow Details_grow Apply_grow PubData_grow GetExecutedTx_grow
    | simp add: updTx_def updExec_def)+

lemma Process_grow: "CommitProcessor_Process X tx s = (r, t) \<Longrightarrow> grown s t"
proof -
  assume r: "CommitProcessor_Process X tx s = (r, t)"
  let ?s = "snd (setCurrentBlockTimeStamp s)"
  have "grown s ?s" by (simp add: setCurrentBlockTimeStamp_def grown_def untimed_def)
  then have "grown s (snd (commitSteps X tx ?s))" using commitSteps_grow [of s X tx] by (simp add: keeps_def)
  then have "grown s (snd (resetCurrentBlockTimeStamp (snd (commitSteps X tx ?s))))"
    by (simp add: resetCurrentBlockTimeStamp_def grown_def untimed_def)
  with r show ?thesis by (simp add: CommitProcessor_Process_def thn_run deferred_def setCurrentBlockTimeStamp_def split_beta)
qed

lemma reaches_grow:
  assumes "reaches X s t"
  shows "grown s t"
  using assms
proof induction
  case (step t u)
  from step.hyps(2) have "grown t u" by cases (auto dest: Process_grow simp: grown_def)
  with step.IH show ?case by (rule grown_trans)
qed (rule grown_refl)

end
