(* ===== verification/Ref_Pass.thy ===== *)
theory Ref_Pass
  imports Ref_Abort Ref_Grow Ref_Committer
begin

text \<open>
  One pass of the loop of the committer over its database: the pool is read, its transactions are steps
  of the chain, the caches and the pool are written, and a block that is due is sealed and stored.
\<close>

section \<open>Writes that leave the chain alone\<close>

abbreviation chainIs :: "World \<Rightarrow> ('t, 'd) Service \<Rightarrow> bool" where "chainIs w s \<equiv> worldOf s = w"

lemma onTables_chain: "keeps (chainIs w) (onTables f)"
  by (auto simp: keeps_def onTables_def tableWrite_def)

lemma storing_chain: "keeps (chainIs w) m \<Longrightarrow> keeps (chainIs w) (storing m)"
  by (auto simp: keeps_def storing_def setDb_def split: prod.splits res.splits)

lemma pool_chain:
  "keeps (chainIs w) (UpdateTxsInTransact txs)" "keeps (chainIs w) (DeleteTxsInTransact txs)" "keeps (chainIs w) (createNewBlock tx)"
proof -
  show 1: "keeps (chainIs w) (UpdateTxsInTransact txs)" "keeps (chainIs w) (DeleteTxsInTransact txs)" for txs
    unfolding UpdateTxsInTransact_def DeleteTxsInTransact_def by (rule keep onTables_chain)+
  have "keeps (chainIs w) (CreateBlockInTransact b)" for b
    unfolding CreateBlockInTransact_def by (rule keep | simp add: keeps_def tableWrite_def Let_def)+
  then show "keeps (chainIs w) (createNewBlock tx)" unfolding createNewBlock_def by (intro storing_chain keep 1)
qed

lemma onRollup_chain: "keeps (chainIs w) (onRollup m)"
  by (auto simp: keeps_def onRollup_def split: prod.splits)

section \<open>The pool loop\<close>

text \<open>One round: the block is due, or the transaction was processed and the loop goes on or \<open>Run\<close> returns.\<close>

lemma poolLoop_ConsE:
  assumes run: "poolLoop X c ((now, tx) # rest) latest upd del s = (Ok r, t)"
  obtains (due) "worldOf t = (worldOf s)\<lparr>w_now := now\<rparr>"
  | (round) res v s' l u d where "CommitProcessor_Process X tx ((worldOf s)\<lparr>w_now := now\<rparr>) = (res, v)" "\<forall>m. res \<noteq> Panic m"
      "worldOf s' = v" "t = s' \<or> poolLoop X c rest l u d s' = (Ok r, t)"
proof -
  define w where "w = (worldOf s)\<lparr>w_now := now\<rparr>"
  define s1 where "s1 = s\<lparr>sv_node := (sv_node s)\<lparr>n_world := w\<rparr>\<rparr>"
  have tick: "onChain (modify (\<lambda>w. w\<lparr>w_now := now\<rparr>)) s = (Ok (), s1)" by (simp add: onChain_def onNode_def onWorld_run s1_def w_def)
  obtain res v where pr: "CommitProcessor_Process X tx w = (res, v)" by (cases "CommitProcessor_Process X tx w")
  define s2 where "s2 = s1\<lparr>sv_node := (sv_node s1)\<lparr>n_world := v\<rparr>\<rparr>"
  have w: "worldOf s1 = w" "worldOf s2 = v" by (simp_all add: s2_def s1_def)
  have at: "attempt (onChain (CommitProcessor_Process X tx)) s1 = (case res of Ok a \<Rightarrow> Ok (Inr a) | Err e \<Rightarrow> Ok (Inl e) | Panic m \<Rightarrow> Panic m, s2)"
    using pr by (simp add: attempt_def onChain_def onNode_def onWorld_run s2_def s1_def split: res.splits)
  show thesis
  proof (cases "shouldCommit c w")
    case True
    then have "t = s1" using run by (simp add: thn_run tick bnd_run w(1))
    then show ?thesis using due w(1) by (simp add: w_def)
  next
    case False
    show ?thesis
    proof (cases res)
      case (Err e)
      then have "poolLoop X c rest latest upd (del @ [failedTx X tx w (worldOf s2)]) s2 = (Ok r, t)"
        using run by (simp add: thn_run tick bnd_run w(1) False at)
      with round [of res v s2] pr w(2) Err show ?thesis by (auto simp: w_def)
    next
      case (Ok a)
      let ?e = "last (sc_Txs (w_sc (worldOf s2)))"
      have "(case nextRequestId (requestIdOf (sv_rollup s2)) ?e latest of None \<Rightarrow> ret None | Some latest' \<Rightarrow>
          if length (sc_Txs (w_sc (worldOf s2))) = 1
          then thn (mustOk ''create new block failed'' (createNewBlock ?e)) (poolLoop X c rest latest' upd del)
          else poolLoop X c rest latest' (upd @ [?e]) del) s2 = (Ok r, t)"
        using run by (simp add: thn_run tick bnd_run w(1) False at Ok Let_def)
      then consider "t = s2" | l where "poolLoop X c rest l (upd @ [?e]) del s2 = (Ok r, t)"
        | l x s3 where "mustOk ''create new block failed'' (createNewBlock ?e) s2 = (Ok x, s3)" "poolLoop X c rest l upd del s3 = (Ok r, t)"
        by (auto simp: ret_def elim!: thn_OkE split: option.splits if_splits)
      then show ?thesis
      proof cases
        case 3
        have "worldOf s3 = v" by (rule keepsD [OF keeps_mustOk [OF pool_chain(3)] w(2) 3(1)])
        with round [of res v s3] pr Ok 3(2) show ?thesis by (auto simp: w_def)
      qed (use round [of res v s2] pr w(2) Ok in \<open>auto simp: w_def\<close>)
    qed (use run in \<open>simp add: thn_run tick bnd_run w(1) False at\<close>)
  qed
qed

lemma poolLoop_steps:
  assumes L: "libOk X"
  shows "healthy (worldOf s) \<Longrightarrow> \<forall>tx \<in> snd ` set txs. pendingOk X (worldOf s) tx \<Longrightarrow>
    poolLoop X c txs latest upd del s = (Ok r, t) \<Longrightarrow> reaches X (worldOf s) (worldOf t)"
proof (induction txs arbitrary: s latest upd del)
  case (Cons p rest)
  obtain now tx where p: "p = (now, tx)" by (cases p)
  let ?w = "(worldOf s)\<lparr>w_now := now\<rparr>"
  have s: "chainStep X (worldOf s) ?w" by (rule chainStep.tick)
  have hs: "healthy ?w" by (rule chainStep_healthy [OF s L Cons.prems(1)])
  have ok: "\<forall>tx \<in> insert tx (snd ` set rest). pendingOk X ?w tx"
    using Cons.prems(2) pendingOk_reaches [of X "worldOf s" _ ?w] s by (auto simp: p)
  then have adm: "\<forall>ti. parsesTo X tx ti \<longrightarrow> admissible (view ?w) ti" by (auto simp: pendingOk_def)
  from Cons.prems(3) [unfolded p] show ?case
  proof (cases rule: poolLoop_ConsE)
    case due
    with s show ?thesis by (simp add: r_into_rtranclp)
  next
    case (round res v s' l u d)
    then have st: "chainStep X ?w v" using adm by (cases res) (auto intro: chainStep.commit chainStep.reject)
    have "\<forall>tx \<in> snd ` set rest. pendingOk X v tx" using ok pendingOk_reaches [of X ?w _ v] st by auto
    then have "reaches X v (worldOf t)" using Cons.IH [of s' l u d] chainStep_healthy [OF st L hs] round by auto
    then show ?thesis using s st by (meson converse_rtranclp_into_rtranclp)
  qed
qed (simp add: ret_def)

section \<open>The pass\<close>

lemma chainStep_status:
  assumes "chainStep X s t" "libOk X" "healthy s"
  shows "statusOf t = statusOf s"
  using assms by (cases rule: chainStep_cases) (auto simp: committed_def stampBlock_eq unchanged_def restamped_def)

lemma reaches_turnReady:
  assumes "reaches X s t" "libOk X" "turnReady s"
  shows "turnReady t \<and> statusOf t = statusOf s"
proof -
  have "healthy t \<and> statusOf t = statusOf s"
    using assms by (intro reaches_induct [where I = "\<lambda>t. statusOf t = statusOf s"]) (auto simp: turnReady_def dest: chainStep_status)
  then show ?thesis using reaches_grow [OF assms(1)] assms(3) by (auto simp: turnReady_def grown_def)
qed

text \<open>The transactions the pass will look at are well typed in the state it starts from.\<close>

definition poolOk :: "Lib \<Rightarrow> World \<Rightarrow> Rollup \<Rightarrow> bool" where
  "poolOk X w u \<longleftrightarrow> (\<forall>tx \<in> set (ru_TxPool u). tx_TxStatus tx = StatusPending \<longrightarrow> pendingOk X w tx)"

lemma timed_txs: "snd ` set (timed clock txs) = set txs"
proof -
  have "map snd (timed clock txs) = txs" by (simp add: timed_def comp_def split_beta)
  then show ?thesis by (metis set_map)
qed

text \<open>The pass after the pool was read.\<close>

definition passTail :: "('t, 'd) Smt \<Rightarrow> Lib \<Rightarrow> Committer \<Rightarrow> (nat \<Rightarrow> int) \<Rightarrow> int \<Rightarrow> Tx list \<Rightarrow> ('t, 'd, int option) serviceM" where
  "passTail T X c clock latest pendingTxs =
     bnd (gets (\<lambda>s. shouldCommit c (worldOf s))) (\<lambda>due.
      if pendingTxs = [] \<and> \<not> due then ret (Some latest)
      else bnd (poolLoop X c (timed clock pendingTxs) latest [] []) (\<lambda>batch. case batch of None \<Rightarrow> ret None
        | Some (latest', upd, del) \<Rightarrow>
            thn (mustOk ''sync redis cache failed'' (onChain (SyncStateCacheToRedis X)))
            (thn (mustOk ''update tx pool failed'' (storing (thn (UpdateTxsInTransact upd) (DeleteTxsInTransact del))))
            (bnd (gets (\<lambda>s. shouldCommit c (worldOf s))) (\<lambda>due.
             thn (if due then thn (mustOk ''commit new block failed'' (Committer_commitNewBlock T X c)) (ret ()) else ret ())
               (ret (Some latest')))))))"

lemma Run_pass_split: "Run_pass T X c clock latest = thn (startBlock X) (bnd (attempt (onRollup (GetTxsByStatus StatusPending)))
    (\<lambda>x. case x of Inl _ \<Rightarrow> ret None | Inr pendingTxs \<Rightarrow> passTail T X c clock latest pendingTxs))"
  unfolding Run_pass_def passTail_def by (rule refl)

lemma mustOk_Ok: "mustOk e m s = (Ok a, t) \<Longrightarrow> m s = (Ok a, t)"
  by (auto simp: mustOk_def split: prod.splits res.splits)

lemma passTail_ok:
  assumes X: "libOk X" and s: "turnReady (worldOf s) \<and> statusOf (worldOf s) = StatusProposing"
    and pool: "\<forall>tx \<in> snd ` set (timed clock txs). pendingOk X (worldOf s) tx"
    and ok: "passTail T X c clock latest txs s = (Ok (Some latest'), t)"
  shows "\<exists>w. reaches X (worldOf s) w \<and> (passOk X (ledgerOf w) t \<or> passOk X (settleL (ledgerOf w)) t)"
proof (cases "txs = [] \<and> \<not> shouldCommit c (worldOf s)")
  case True
  with ok have "t = s" by (simp add: passTail_def bnd_run ret_def)
  with s show ?thesis by (intro exI [of _ "worldOf s"]) (simp add: passOk_def)
next
  case False
  with ok obtain l upd del s1 s2 s3 where 1: "poolLoop X c (timed clock txs) latest [] [] s = (Ok (Some (l, upd, del)), s1)"
    and 2: "onChain (SyncStateCacheToRedis X) s1 = (Ok (), s2)"
    and 3: "storing (thn (UpdateTxsInTransact upd) (DeleteTxsInTransact del)) s2 = (Ok (), s3)"
    and 4: "t = s3 \<and> \<not> shouldCommit c (worldOf s3) \<or> (\<exists>b. Committer_commitNewBlock T X c s3 = (Ok b, t))"
    by (auto simp: passTail_def bnd_gets elim!: bnd_OkE thn_OkE split: option.splits prod.splits if_splits simp: ret_def gets_def dest!: mustOk_Ok) 
  have h: "healthy (worldOf s)" using s by (simp add: turnReady_def)
  note R = poolLoop_steps [OF X h pool 1]
  from reaches_turnReady [OF R X] s have r1: "turnReady (worldOf s1)" "statusOf (worldOf s1) = StatusProposing" by auto
  from 2 have sync: "SyncStateCacheToRedis X (worldOf s1) = (Ok (), worldOf s2)"
    by (auto simp: onChain_def onNode_def onWorld_run split: prod.splits)
  have w3: "worldOf s3 = worldOf s2"
    by (rule keepsD [OF storing_chain [OF keeps_thn [OF pool_chain(1,2)]] refl 3])
  note r3 = sync_turnReady [OF X r1(1) sync]
  from 4 show ?thesis
  proof (elim disjE conjE exE)
    assume "t = s3"
    with R r1(2) r3 w3 show ?thesis by (intro exI [of _ "worldOf s1"]) (simp add: passOk_def)
  next
    fix b assume "Committer_commitNewBlock T X c s3 = (Ok b, t)"
    from commit_passOk [OF X _ _ this] r3 w3 R show ?thesis by (intro exI [of _ "worldOf s1"]) simp
  qed
qed

lemma Run_pass_ok:
  assumes X: "libOk X" and s: "passOk X L s" and pool: "\<forall>s1. startBlock X s = (Ok (), s1) \<longrightarrow> poolOk X (worldOf s1) (sv_rollup s1)"
    and ok: "Run_pass T X c clock latest s = (Ok (Some latest'), t)"
  shows "\<exists>w0 w. turnReady w0 \<and> ledgerOf w0 = L \<and> reaches X w0 w \<and> (passOk X (ledgerOf w) t \<or> passOk X (settleL (ledgerOf w)) t)"
proof -
  from ok obtain u s1 where 1: "startBlock X s = (Ok (), s1)" and rest: "(bnd (attempt (onRollup (GetTxsByStatus StatusPending))) u) s1 = (Ok (Some latest'), t)"
    and u: "u = (\<lambda>x. case x of Inl _ \<Rightarrow> ret None | Inr pendingTxs \<Rightarrow> passTail T X c clock latest pendingTxs)"
    unfolding Run_pass_split by (elim thn_OkE) auto
  note S = startBlock_ok [OF s 1]
  let ?txs = "filter (\<lambda>t. tx_TxStatus t = StatusPending) (ru_TxPool (sv_rollup s1))"
  from rest have tail: "passTail T X c clock latest ?txs s1 = (Ok (Some latest'), t)"
    by (auto simp: u bnd_run attempt_def onRollup_def GetTxsByStatus_def query_def ret_def split: if_splits)
  have "\<forall>tx \<in> snd ` set (timed clock ?txs). pendingOk X (worldOf s1) tx" using pool 1 by (auto simp: timed_txs poolOk_def)
  from passTail_ok [OF X _ this tail] S show ?thesis by blast
qed

end
