(* ===== verification/Zk_SampleSv.thy ===== *)
theory Zk_SampleSv
  imports Zk_SampleL1 Ref_Pass
begin

text \<open>
  The concrete chain with its database: a block with one executed transaction and five units of gas is
  waiting to be committed.
\<close>

definition sampleSelf :: AccountInfo where
  "sampleSelf = (sampleAccount 0 100)\<lparr>ai_AccountName := ''b'', ai_PublicKey := ''l'', ai_AccountNameHash := ''g'', ai_AccountId := 2\<rparr>"

definition servedTx :: Tx where "servedTx = (sampleTx TxTypeTransfer)\<lparr>tx_TxStatus := StatusExecuted\<rparr>"

definition servedWorld :: World where
  "servedWorld = sampleWorld\<lparr>w_accHeap := (\<lambda>r. if r = 0 then sampleSelf else sampleAccount 1 7),
     w_sc := (w_sc sampleWorld)\<lparr>sc_PendingGasMap := [(0, 5)], sc_Txs := [servedTx]\<rparr>\<rparr>"

definition sampleService :: "(64 word \<Rightarrow> byte list, unit) Service" where
  "sampleService = \<lparr>sv_node = sampleNode\<lparr>n_world := servedWorld\<rparr>,
     sv_rollup = sampleRollup\<lparr>ru_TxPool := [servedTx], ru_Block := [blockRow 9 sampleBlock]\<rparr>,
     sv_AccountHistory = [], sv_L2NftHistory = [], sv_blockID = 9\<rparr>"

lemma served_refs:
  "pendingAcc servedWorld i = (if i = 0 then Some 0 else if i = 1 then Some 1 else None)"
  "pendingNft servedWorld n = (if n = 0 then Some 2 else None)"
  by (simp_all add: servedWorld_def sampleWorld_def mget_def)

lemma served_acct:
  "acct servedWorld i = (if i = 0 then Some sampleSelf else if i = 1 then Some (sampleAccount 1 7) else None)"
  by (simp add: acct_def acctRef_def served_refs) (simp add: servedWorld_def sampleWorld_def dbAcc_def)

lemma served_wf: "wf servedWorld"
  by (auto simp: wfx_def served_refs) (auto simp: servedWorld_def sampleWorld_def sampleSelf_def sampleAccount_def sampleNft_def dbAcc_def)

lemma served_ready: "turnReady (worldOf sampleService)"
  by (auto simp: sampleService_def turnReady_def healthy_def served_wf served_refs idsOk_def ledgerOf_def served_acct GasAccount_def split: if_splits)
    (simp_all add: servedWorld_def sampleWorld_def)


definition syncedWorld :: World where
  "syncedWorld = servedWorld\<lparr>w_AccountCache := [(1, 1), (0, 0)], w_NftCache := [(0, 2)],
     w_redis := \<lparr>rd_down = False, rd_account = [0 \<mapsto> FromFormatAccountInfo sampleSelf, 1 \<mapsto> FromFormatAccountInfo (sampleAccount 1 7)],
       rd_nft = [0 \<mapsto> sampleNft], rd_gasAccount = Some 1, rd_gasConfig = Some []\<rparr>\<rparr>"

lemma sample_sync: "SyncStateCacheToRedis sampleX servedWorld = (Ok (), syncedWorld)"
  by (simp add: SyncStateCacheToRedis_def syncPendingAccount_def syncPendingNft_def servedWorld_def syncedWorld_def sampleWorld_def run mkeys_def mget_def
      Redis_SetAccount_def Redis_SetNft_def AccountCache_Add_def NftCache_Add_def at_run sampleLib_def lruAddSample_def Let_def)


lemmas synced_defs = syncedWorld_def servedWorld_def sampleWorld_def NewStateCache_def

text \<open>The sealed block and the state cache it leaves.\<close>

definition sealedBy :: "Block \<Rightarrow> StateCache \<Rightarrow> bool" where
  "sealedBy b C \<longleftrightarrow> bk_Txs b = [servedTx\<lparr>tx_TxStatus := StatusPacked\<rparr>] \<and> bk_BlockStatus b = BlockPending \<and>
     sc_PendingAccountMap C = [(0, 0), (1, 1)] \<and> sc_PendingNftMap C = [(0, 2)] \<and> sc_PendingGasMap C = [(0, 5)]"

definition sealedNode :: "Block \<Rightarrow> StateCache \<Rightarrow> (64 word \<Rightarrow> byte list, unit) Node" where
  "sealedNode b C = sampleNode\<lparr>n_world := syncedWorld\<lparr>w_currentBlock := b, w_sc := C\<rparr>\<rparr>"

lemma sample_root:
  "IntermediateRoot sampleSmt sampleX False (sampleNode\<lparr>n_world := syncedWorld\<rparr>) = (Ok (), sampleNode\<lparr>n_world := syncedWorld\<lparr>w_sc :=
     (w_sc syncedWorld)\<lparr>sc_StateRoot := replicate 32 (charOfByte 0)\<rparr>\<rparr>\<rparr>)"
  by (simp add: IntermediateRoot_def run synced_defs mkeys_def dirtyKeys_def sampleNode_def sampleSmt_def sampleLib_def updSc_def)

lemma sample_seal:
  "\<exists>C b cb. commitNewBlock sampleSmt sampleX 1 zeroTimeMilli (sampleNode\<lparr>n_world := syncedWorld\<rparr>) = (Ok (b, cb), sealedNode b C) \<and> sealedBy b C"
proof -
  let ?n = "sampleNode\<lparr>n_world := syncedWorld\<rparr>"
  have f: "inField sampleSmt 3" "inField sampleSmt zeroTimeMilli" "inField sampleSmt 0"
    by (simp_all add: inField_def sampleSmt_def zeroTimeMilli_def)
  have s: "sc_Txs (w_sc syncedWorld) = [servedTx]" "w_currentBlock syncedWorld = sampleBlock" "sc_PubDataOffset (w_sc syncedWorld) = []"
    "sc_PendingOnChainOperationsPubData (w_sc syncedWorld) = []"
    "sc_PendingAccountMap (w_sc syncedWorld) = [(0, 0), (1, 1)]" "sc_PendingNftMap (w_sc syncedWorld) = [(0, 2)]"
    "sc_PendingGasMap (w_sc syncedWorld) = [(0, 5)]"
    "bk_BlockStatus sampleBlock = StatusProposing" "bk_BlockHeight sampleBlock = 3" "bk_CreatedAt sampleBlock = zeroTimeMilli"
    by (simp_all add: synced_defs sampleBlock_def)
  have p: "x_PubDataSizePerTx sampleX = 6" by (simp add: sampleLib_def)
  let ?C = "(w_sc syncedWorld)\<lparr>sc_StateRoot := replicate 32 (charOfByte 0)\<rparr>"
  show ?thesis
    by (rule exI [of _ "packTxs ?C"])
      (simp add: commitNewBlock_def run sample_root s AlignPubData_def p CreateBlockCommitment_run [OF sampleSmt_ok(2)] f Let_def updSc_def sealedBy_def
        sealedNode_def sealBlock_def packTxs_def)
qed

lemma sample_trees: "CommitTrees sampleSmt sampleX v (sealedNode b C) = (Ok (), sealedNode b C)"
  by (simp add: CommitTrees_def GetChanges_def sealedNode_def sampleNode_def run attempt_def commitAccountTree_def commitNftTree_def commitOne_def
      sampleSmt_def sampleLib_def CleanChanges_def firstError_def)

lemma sample_rows:
  assumes "sealedBy b C"
  shows "\<exists>as hs ns ks. StateDB_GetPendingAccount sampleX h (n_world (sealedNode b C)) = (Ok (as, hs), credited sampleX (n_world (sealedNode b C))) \<and>
    StateDB_GetPendingNft sampleX h (credited sampleX (n_world (sealedNode b C))) = (Ok (ns, ks), credited sampleX (n_world (sealedNode b C))) \<and>
    as = [FromFormatAccountInfo sampleSelf, FromFormatAccountInfo (gassed sampleX (n_world (sealedNode b C)) (sampleAccount 1 7))] \<and> ns = [sampleNft]"
proof -
  have x: "x_range sampleX ks = ks" for ks by (simp add: sampleLib_def)
  have h: "w_accHeap syncedWorld 0 = sampleSelf" "w_accHeap syncedWorld (Suc 0) = sampleAccount 1 7" "w_nftHeap syncedWorld 2 = sampleNft"
    "ai_AccountIndex sampleSelf = 0" "ai_AccountIndex (sampleAccount 1 7) = 1"
    by (simp_all add: synced_defs sampleSelf_def sampleAccount_def)
  show ?thesis using assms
    by (simp add: StateDB_GetPendingAccount_def StateDB_GetPendingNft_def run sealedBy_def sealedNode_def mkeys_def mget_def at_run applyGasUpdate_run credited_def
      GasAccount_def x h Let_def setAcc_def)
qed


lemma gassed_id: "ai_AccountId (gassed X s acc) = ai_AccountId acc"
proof -
  have "ai_AccountId (fold (applyGasDelta X g) ks acc) = ai_AccountId acc" for g ks
    by (induction ks arbitrary: acc) (auto simp: applyGasDelta_def Let_def split: option.splits)
  then show ?thesis by (simp add: gassed_def Let_def)
qed

text \<open>The tables accept the block.\<close>

lemma sample_store:
  assumes b: "sealedBy (bs_Block bs) C" "bs_PendingAccount bs = [FromFormatAccountInfo sampleSelf, FromFormatAccountInfo acc]" "bs_PendingNft bs = [sampleNft]"
    and a: "ai_AccountIndex acc = 1" "ai_AccountName acc = ''a''" "ai_PublicKey acc = ''k''" "ai_AccountNameHash acc = ''h''" "ai_AccountId acc = 1"
    and s: "w_db (worldOf s) = w_db sampleWorld" "sv_rollup s = sv_rollup sampleService" "sv_blockID s = 9"
  shows "\<exists>t. storeBlock bs s = (Ok (), t)"
proof -
  have d: "db_down (w_db sampleWorld) = False" "db_Account (w_db sampleWorld) = []" "db_L2Nft (w_db sampleWorld) = []" by (simp_all add: sampleWorld_def)
  have r: "ru_down (sv_rollup sampleService) = False" "ru_readOnly (sv_rollup sampleService) = False"
    "ru_TxPool (sv_rollup sampleService) = [servedTx]" "ru_Block (sv_rollup sampleService) = [blockRow 9 sampleBlock]"
    by (simp_all add: sampleService_def sampleRollup_def)
  have t: "bk_Txs (bs_Block bs) = [servedTx\<lparr>tx_TxStatus := StatusPacked\<rparr>]" "tx_ID servedTx = 1"
    using b by (simp_all add: sealedBy_def servedTx_def sampleTx_def)
  have f: "ac_AccountIndex (FromFormatAccountInfo x) = ai_AccountIndex x" "ac_AccountName (FromFormatAccountInfo x) = ai_AccountName x"
    "ac_PublicKey (FromFormatAccountInfo x) = ai_PublicKey x" "ac_AccountNameHash (FromFormatAccountInfo x) = ai_AccountNameHash x"
    "ac_ID (FromFormatAccountInfo x) = ai_AccountId x" for x by (simp_all add: FromFormatAccountInfo_def)
  have i: "ai_AccountIndex sampleSelf = 0" "ai_AccountName sampleSelf = ''b''" "ai_PublicKey sampleSelf = ''l''" "ai_AccountNameHash sampleSelf = ''g''"
    "ai_AccountId sampleSelf = 2" "nft_ID sampleNft = 1" by (simp_all add: sampleSelf_def sampleAccount_def sampleNft_def)
  show ?thesis unfolding storeBlock_def storeStates_def storing_def whenAny_accounts
    by (simp add: thn_run CreateCompressedBlockInTransact_def onTables_def tableWrite_def s d r UpdateAccountsInTransact_def UpdateNftsInTransact_def run b a f i
        upsert_def hits_def uniqueAccounts_def uniqueNfts_def takeId_def setDb_def Let_def whenAny_def CreateAccountHistoriesInTransact_def
        CreateNftHistoriesInTransact_def DeleteTxsInTransact_def UpdateBlockInTransact_def addTxs_def t blockRow_def Block.defs BlockRow.defs split: prod.splits res.splits)
qed

lemma InitNewBlock_cached:
  assumes "lru_ok X" "map_of (w_AccountCache w) GasAccount = Some r"
  shows "\<exists>b t. InitNewBlock X w = (Ok b, t)"
  using lru_getD [OF assms(1), of "w_AccountCache w" GasAccount] assms(2)
  by (auto simp: InitNewBlock_def Let_def run PurgeCache_def updSc_def MarkGasAccountAsPending_def attempt_def GetFormatAccount_def GetPendingAccount_def
      NewStateCache_def mget_def AccountCache_Get_def split: prod.splits)

text \<open>The block is committed, and the next one can be started.\<close>

lemma sample_committed:
  "\<exists>b t b' w'. Committer_commitNewBlock sampleSmt sampleX sampleCommitter (sampleService\<lparr>sv_node := sampleNode\<lparr>n_world := syncedWorld\<rparr>\<rparr>) = (Ok b, t) \<and>
     statusOf (worldOf t) = BlockPending \<and> InitNewBlock sampleX (worldOf t) = (Ok b', w')"
proof -
  from sample_seal obtain C b cb where c: "commitNewBlock sampleSmt sampleX 1 zeroTimeMilli (sampleNode\<lparr>n_world := syncedWorld\<rparr>) = (Ok (b, cb), sealedNode b C)"
    and b: "sealedBy b C" by blast
  let ?w = "n_world (sealedNode b C)" and ?h = "bk_BlockHeight b"
  have h: "bk_BlockHeight (w_currentBlock ?w) = ?h" by (simp add: sealedNode_def)
  from sample_rows [OF b, of ?h] obtain as hs ns ks where r: "StateDB_GetPendingAccount sampleX ?h ?w = (Ok (as, hs), credited sampleX ?w)"
    "StateDB_GetPendingNft sampleX ?h (credited sampleX ?w) = (Ok (ns, ks), credited sampleX ?w)"
    and rows: "as = [FromFormatAccountInfo sampleSelf, FromFormatAccountInfo (gassed sampleX ?w (sampleAccount 1 7))]" "ns = [sampleNft]" by blast
  let ?bs = "\<lparr>bs_Block = b, bs_CompressedBlock = cb, bs_PendingAccount = as, bs_PendingAccountHistory = hs, bs_PendingNft = ns, bs_PendingNftHistory = ks\<rparr>"
  let ?n1 = "(sealedNode b C)\<lparr>n_world := credited sampleX ?w\<rparr>"
  have C: "CommitNewBlock sampleSmt sampleX 1 zeroTimeMilli (sampleNode\<lparr>n_world := syncedWorld\<rparr>) = (Ok ?bs, ?n1)"
    by (simp add: CommitNewBlock_def run c h sample_trees r)
  have lru: "lru_ok sampleX" using libOkD(1) [OF sample_lib] .
  let ?v = "credited sampleX ?w"
  have v: "w_AccountCache ?v = [(1, 1), (0, 0)]" "w_redis ?v = w_redis syncedWorld" "w_db ?v = w_db sampleWorld"
    by (simp_all add: sealedNode_def credited_def setAcc_def syncedWorld_def servedWorld_def split: option.splits)
  have "\<not> rd_down (w_redis syncedWorld)" by (simp add: syncedWorld_def)
  then obtain w2 where G: "SyncGasAccountToRedis sampleX ?v = (Ok (), w2)" "map_of (w_AccountCache w2) GasAccount = Some 1" "w_db w2 = w_db sampleWorld"
    "w_currentBlock w2 = b"
    using lru_getD [OF lru, of "[(1, 1), (0, 0)]" GasAccount] lru_get_keeps [OF lru, of "[(1, 1), (0, 0)]" GasAccount] v
    by (simp add: SyncGasAccountToRedis_def run AccountCache_Get_def split_beta at_run Redis_SetAccount_def GasAccount_def) (simp add: sealedNode_def)
  let ?s2 = "sampleService\<lparr>sv_node := (sealedNode b C)\<lparr>n_world := w2\<rparr>\<rparr>"
  let ?acc = "gassed sampleX ?w (sampleAccount 1 7)"
  have id: "ident ?acc = ident (sampleAccount 1 7)" by (rule gassed_sel) (use libOkD [OF sample_lib] in simp_all)
  have acc: "ai_AccountIndex ?acc = 1" "ai_AccountName ?acc = ''a''" "ai_PublicKey ?acc = ''k''" "ai_AccountNameHash ?acc = ''h''"
    using arg_cong [OF id, of ai_AccountIndex] arg_cong [OF id, of ai_AccountName] arg_cong [OF id, of ai_PublicKey] arg_cong [OF id, of ai_AccountNameHash]
    by (simp_all add: ident_def sampleAccount_def)
  have acc1: "ai_AccountId ?acc = 1" by (simp add: gassed_id sampleAccount_def)
  have "\<exists>t. storeBlock ?bs ?s2 = (Ok (), t)"
    by (rule sample_store [where C = C and acc = ?acc]) (use b rows acc acc1 G(3) in \<open>simp_all add: sampleService_def\<close>)
  then obtain t where t: "storeBlock ?bs ?s2 = (Ok (), t)" by blast
  then have "rowsStored as ns w2 (worldOf t)" using storeBlock_Ok [OF t] by simp
  then have t1: "w_AccountCache (worldOf t) = w_AccountCache w2" "w_currentBlock (worldOf t) = b" using G(4) by (auto simp: rowsStored_def)
  from InitNewBlock_cached [OF lru, of "worldOf t" 1] t1 G(2) obtain b' w' where i: "InitNewBlock sampleX (worldOf t) = (Ok b', w')" by auto
  have z: "computeCurrentBlockSize sampleCommitter syncedWorld = 1" "bk_CreatedAt (w_currentBlock syncedWorld) = zeroTimeMilli"
    by (simp_all add: synced_defs computeCurrentBlockSize_def sampleCommitter_def sampleBlock_def)
  have st: "bk_BlockStatus b = BlockPending" using b by (simp add: sealedBy_def)
  have "Committer_commitNewBlock sampleSmt sampleX sampleCommitter (sampleService\<lparr>sv_node := sampleNode\<lparr>n_world := syncedWorld\<rparr>\<rparr>) = (Ok b, t)"
    by (simp add: thn_run onChain_def onNode_def onWorld_run Committer_commitNewBlock_def bnd_run z C G(1) t)
  then show ?thesis using st t1 i by auto
qed

lemma served_sync: "onChain (SyncStateCacheToRedis sampleX) sampleService = (Ok (), sampleService\<lparr>sv_node := sampleNode\<lparr>n_world := syncedWorld\<rparr>\<rparr>)"
  by (simp add: sampleService_def onChain_def onNode_def onWorld_run sample_sync)

lemma sample_turn: "\<exists>t. turnBlock sampleSmt sampleX sampleCommitter sampleService = (Ok (), t)"
proof -
  from sample_committed obtain b t b' w' where
    c: "Committer_commitNewBlock sampleSmt sampleX sampleCommitter (sampleService\<lparr>sv_node := sampleNode\<lparr>n_world := syncedWorld\<rparr>\<rparr>) = (Ok b, t)"
    and t: "statusOf (worldOf t) = BlockPending" "InitNewBlock sampleX (worldOf t) = (Ok b', w')" by blast
  from t have "\<exists>u. startBlock sampleX t = (Ok (), u)"
    by (simp add: startBlock_def bnd_run thn_run mustOk_def onChain_def onNode_def onWorld_run)
  with c show ?thesis by (simp add: turnBlock_def thn_run served_sync)
qed

text \<open>A pass over a pool without pending transactions commits the block, which is due.\<close>

lemma sample_pass: "\<exists>t. Run_pass sampleSmt sampleX sampleCommitter clock 0 sampleService = (Ok (Some 0), t)"
proof -
  have d: "shouldCommit sampleCommitter servedWorld" "shouldCommit sampleCommitter syncedWorld" "statusOf servedWorld = StatusProposing"
    by (simp_all add: shouldCommit_def synced_defs sampleBlock_def zeroTimeMilli_def MaxCommitterInterval_def unixOf_def)
  have w: "worldOf sampleService = servedWorld" "\<not> ru_down (sv_rollup sampleService)" "ru_TxPool (sv_rollup sampleService) = [servedTx]"
    by (simp_all add: sampleService_def sampleRollup_def)
  show ?thesis
    using sample_committed
    by (auto simp: Run_pass_def thn_run startBlock_def bnd_run w d attempt_def onRollup_def GetTxsByStatus_def query_def servedTx_def timed_def
        mustOk_def served_sync storing_def UpdateTxsInTransact_def DeleteTxsInTransact_def)
qed

lemma served_pass: "passOk sampleX (ledgerOf servedWorld) sampleService"
proof -
  have "worldOf sampleService = servedWorld" "statusOf servedWorld = StatusProposing"
    by (simp_all add: sampleService_def synced_defs sampleBlock_def)
  with served_ready show ?thesis by (simp add: passOk_def)
qed

lemma served_pool: "ru_TxPool (sv_rollup sampleService) = [servedTx]" "tx_TxStatus servedTx = StatusExecuted"
  by (simp_all add: sampleService_def servedTx_def)

end
