(* ===== verification/Zk_Proving.thy ===== *)
theory Zk_Proving
  imports Zk_Sender
begin

text \<open>
  From a block witness to its proof: the tables of witnesses and proofs (src/dao/blockwitness,
  src/dao/proof), the prover service (src/service/prover/prover, src/common/prove/proof_keys.go,
  src/common/redislock) and the rescheduling of the witness service (src/service/witness/witness).
  Several provers work on the same tables; \<open>pipeline_step\<close> interleaves them at their database
  operations. The circuit and the proof system (zkbnb-crypto, gnark) are the parameter \<open>Groth\<close>.
\<close>

datatype witnessStatus = StatusPublished | StatusReceived

record BlockWitness =
  bw_ID :: int
  bw_UpdatedAt :: int
  bw_Height :: int
  bw_WitnessData :: string
  bw_Status :: witnessStatus

record Proving =
  pv_db :: Rollup
  pv_Witness :: "BlockWitness list"

type_synonym 'a provingM = "(Proving, err, 'a) comp"

definition onDb :: "'a rollupM \<Rightarrow> 'a provingM" where
  "onDb m = (\<lambda>s. case m (pv_db s) of (r, d) \<Rightarrow> (r, s\<lparr>pv_db := d\<rparr>))"

section \<open>src/dao/blockwitness\<close>

text \<open>A query of the witness table by the rows it selects, in their order.\<close>

definition witnessRow :: "(BlockWitness list \<Rightarrow> BlockWitness list) \<Rightarrow> BlockWitness provingM" where
  "witnessRow f = bnd (gets (\<lambda>s. f (pv_Witness s))) (\<lambda>rows. onDb (queryRow (\<lambda>_. rows)))"

definition GetLatestBlockWitnessHeight :: "int provingM" where
  "GetLatestBlockWitnessHeight = bnd (witnessRow (sort_key (\<lambda>w. - bw_Height w))) (\<lambda>w. ret (bw_Height w))"

definition GetLatestBlockWitness :: "BlockWitness provingM" where
  "GetLatestBlockWitness = witnessRow (\<lambda>rows. sort_key bw_Height (filter (\<lambda>w. bw_Status w = StatusPublished) rows))"

definition GetBlockWitnessByHeight :: "int \<Rightarrow> BlockWitness provingM" where
  "GetBlockWitnessByHeight h = witnessRow (filter (\<lambda>w. bw_Height w = h))"

text \<open>A write: the new contents of the table, or the database's error; \<open>None\<close> violates the unique index.\<close>

definition witnessWrite :: "(Rollup \<Rightarrow> BlockWitness list \<Rightarrow> BlockWitness list option) \<Rightarrow> unit provingM" where
  "witnessWrite f = (\<lambda>s. if ru_down (pv_db s) \<or> ru_readOnly (pv_db s) then (Err DbErrSqlOperation, s) else
     case f (pv_db s) (pv_Witness s) of None \<Rightarrow> (Err DbErrSqlOperation, s) | Some rows \<Rightarrow> (Ok (), s\<lparr>pv_Witness := rows\<rparr>))"

text \<open>\<open>Create\<close> numbers the row. The height is unique.\<close>

definition insertWitness :: "BlockWitness \<Rightarrow> Rollup \<Rightarrow> BlockWitness list \<Rightarrow> BlockWitness list option" where
  "insertWitness w d rows = (if bw_Height w \<in> bw_Height ` set rows then None
     else Some (rows @ [w\<lparr>bw_ID := ru_nextId d, bw_UpdatedAt := ru_now d\<rparr>]))"

definition CreateBlockWitness :: "BlockWitness \<Rightarrow> unit provingM" where
  "CreateBlockWitness w =
     thn (if 1 < bw_Height w then mapErr (\<lambda>_. ErrorsNew ''previous witness does not exist'')
         (thn (GetBlockWitnessByHeight (bw_Height w - 1)) (ret ())) else ret ())
     (thn (witnessWrite (insertWitness w)) (onDb (modify (\<lambda>d. d\<lparr>ru_nextId := ru_nextId d + 1\<rparr>))))"

text \<open>\<open>Save\<close> writes every column of the row with that id, and inserts it when there is none.\<close>

definition saveWitness :: "BlockWitness \<Rightarrow> BlockWitness list \<Rightarrow> BlockWitness list option" where
  "saveWitness w rows = (if \<exists>x \<in> set rows. bw_ID x \<noteq> bw_ID w \<and> bw_Height x = bw_Height w then None
     else if \<exists>x \<in> set rows. bw_ID x = bw_ID w then Some (updateRow bw_ID w rows) else Some (rows @ [w]))"

definition UpdateBlockWitnessStatus :: "BlockWitness \<Rightarrow> witnessStatus \<Rightarrow> unit provingM" where
  "UpdateBlockWitnessStatus w st = witnessWrite (\<lambda>d. saveWitness (w\<lparr>bw_Status := st, bw_UpdatedAt := ru_now d\<rparr>))"

section \<open>src/dao/proof\<close>

text \<open>The number of the block is unique.\<close>

definition CreateProof :: "string \<Rightarrow> int \<Rightarrow> proofStatus \<Rightarrow> unit rollupM" where
  "CreateProof info n st = bnd (gets (\<lambda>s. n \<in> pf_BlockNumber ` set (ru_Proof s))) (\<lambda>taken.
     thn (failIf taken sqlErr)
       (update (\<lambda>s. s\<lparr>ru_nextId := ru_nextId s + 1, ru_Proof := ru_Proof s @
         [\<lparr>pf_ID = ru_nextId s, pf_ProofInfo = info, pf_BlockNumber = n, pf_Status = st\<rparr>]\<rparr>)))"

definition GetLatestProof :: "Proof rollupM" where
  "GetLatestProof = queryRow (\<lambda>s. sort_key (\<lambda>p. - pf_BlockNumber p) (ru_Proof s))"

definition GetLatestConfirmedProof :: "Proof rollupM" where
  "GetLatestConfirmedProof = queryRow (\<lambda>s. sort_key (\<lambda>p. - pf_BlockNumber p) (filter (\<lambda>p. pf_Status p \<noteq> NotSent) (ru_Proof s)))"

definition GetProofByBlockHeight :: "int \<Rightarrow> Proof rollupM" where
  "GetProofByBlockHeight n = queryRow (\<lambda>s. filter (\<lambda>p. pf_BlockNumber p = n) (ru_Proof s))"

section \<open>The lock between provers (src/common/redislock/lock.go)\<close>

text \<open>\<open>answer k\<close> is what the k-th call of \<open>Acquire\<close> returns.\<close>

definition MaxRetryTimes :: nat where "MaxRetryTimes = 3"

function retryLock :: "(nat \<Rightarrow> err + bool) \<Rightarrow> nat \<Rightarrow> err option" where
  "retryLock answer count =
     (if MaxRetryTimes < count then Some (ErrorsNew ''the lock has been used, re-try later'')
      else case answer (Suc count) of Inl e \<Rightarrow> Some e
        | Inr held \<Rightarrow> if held then None else retryLock answer (Suc count))"
  by pat_completeness auto

termination by (relation "measure (\<lambda>(_, count). Suc MaxRetryTimes - count)") auto

declare retryLock.simps [simp del]

definition TryAcquireLock :: "(nat \<Rightarrow> err + bool) \<Rightarrow> err option" where
  "TryAcquireLock answer = (case answer 0 of Inl e \<Rightarrow> Some e | Inr held \<Rightarrow> if held then None else retryLock answer 0)"

section \<open>Proofs (src/common/prove/proof_keys.go)\<close>

record ('x, 'g) CircuitBlock =
  ck_BlockNumber :: int
  ck_CreatedAt :: int
  ck_OldStateRoot :: "byte list"
  ck_NewStateRoot :: "byte list"
  ck_BlockCommitment :: "byte list"
  ck_Txs :: "'x list"
  ck_Gas :: 'g

text \<open>
  What the provers call: decoding a witness, the assignments of the circuit, and groth16 with the
  constraint system and the keys of an index; \<open>None\<close> of \<open>gr_Unmarshal\<close> is a nil block.
\<close>

record ('x, 'g, 'w, 'p) Groth =
  gr_Unmarshal :: "string \<Rightarrow> err + ('x, 'g) CircuitBlock option"
  gr_SetBlockWitness :: "('x, 'g) CircuitBlock \<Rightarrow> err + 'w"
  gr_NewWitness :: "'w \<Rightarrow> err + 'w"
  gr_PublicWitness :: "byte list \<Rightarrow> byte list \<Rightarrow> byte list \<Rightarrow> err + 'w"
  gr_Prove :: "nat \<Rightarrow> 'w \<Rightarrow> err + 'p"
  gr_Verify :: "'p \<Rightarrow> nat \<Rightarrow> 'w \<Rightarrow> err option"
  gr_WriteRawTo :: "'p \<Rightarrow> err + byte list"
  gr_MarshalProof :: "FormattedProof \<Rightarrow> err + string"

definition GenerateProof :: "('x, 'g, 'w, 'p) Groth \<Rightarrow> nat \<Rightarrow> ('x, 'g) CircuitBlock \<Rightarrow> ('s, err, 'p) comp" where
  "GenerateProof G i cBlock =
     bnd (ofSum (gr_SetBlockWitness G cBlock)) (\<lambda>blockWitness.
     bnd (ofSum (gr_NewWitness G blockWitness)) (\<lambda>witness.
     bnd (ofSum (gr_PublicWitness G (ck_OldStateRoot cBlock) (ck_NewStateRoot cBlock) (ck_BlockCommitment cBlock))) (\<lambda>vWitness.
     bnd (ofSum (gr_Prove G i witness)) (\<lambda>proof.
     thn (failOn (gr_Verify G proof i vWitness)) (ret proof)))))"

definition fpSize :: nat where "fpSize = 4 * 8"

text \<open>The k-th field element of a raw proof; a slice past the end panics.\<close>

definition rawElement :: "byte list \<Rightarrow> nat \<Rightarrow> int option" where
  "rawElement bs k = (if fpSize * (k + 1) \<le> length bs then Some (SetBytes (take fpSize (drop (fpSize * k) bs))) else None)"

definition rawElements :: "byte list \<Rightarrow> int list option" where
  "rawElements bs = those (map (rawElement bs) [0..<8])"

definition FormatProof :: "('x, 'g, 'w, 'p) Groth \<Rightarrow> 'p \<Rightarrow> byte list \<Rightarrow> byte list \<Rightarrow> byte list \<Rightarrow> ('s, err, FormattedProof) comp" where
  "FormatProof G oProof oldRoot newRoot commitment =
     bnd (ofSum (gr_WriteRawTo G oProof)) (\<lambda>proofBytes.
     bnd (orPanic ''slice bounds out of range'' (rawElements proofBytes)) (\<lambda>e.
     ret \<lparr>fp_A = [e ! 0, e ! 1], fp_B = [[e ! 2, e ! 3], [e ! 4, e ! 5]], fp_C = [e ! 6, e ! 7],
          fp_Inputs = [SetBytes oldRoot, SetBytes newRoot, SetBytes commitment]\<rparr>))"

section \<open>The prover service (src/service/prover/prover/prover.go)\<close>

definition IsBlockSizesSorted :: "int list \<Rightarrow> bool" where
  "IsBlockSizesSorted sizes \<longleftrightarrow> sorted_wrt (<) sizes"

text \<open>The first size that is the number of transactions of the block; the search ends at the length without.\<close>

fun keyIndexFrom :: "nat \<Rightarrow> int list \<Rightarrow> int \<Rightarrow> nat" where
  "keyIndexFrom k [] n = k"
| "keyIndexFrom k (z # zs) n = (if n = z then k else keyIndexFrom (Suc k) zs n)"

text \<open>The deferred function: it puts the witness back when the variable \<open>err\<close> holds an error at the end.\<close>

definition reverting :: "BlockWitness \<Rightarrow> 'a provingM \<Rightarrow> 'a provingM" where
  "reverting w m = bnd (attempt m) (\<lambda>r. case r of Inr a \<Rightarrow> ret a
     | Inl e \<Rightarrow> bnd (attempt (UpdateBlockWitnessStatus w StatusPublished)) (\<lambda>_. throw e))"

text \<open>The proof of a witness, up to its encoding. A missing key leaves \<open>err\<close> nil; every other error sets it.\<close>

definition parseBlock :: "('x, 'g, 'w, 'p) Groth \<Rightarrow> BlockWitness \<Rightarrow> ('s, err, ('x, 'g) CircuitBlock) comp" where
  "parseBlock G w = bnd (ofSum (gr_Unmarshal G (bw_WitnessData w))) (orPanic nilDeref)"

definition encodeProof :: "('x, 'g, 'w, 'p) Groth \<Rightarrow> nat \<Rightarrow> ('x, 'g) CircuitBlock \<Rightarrow> ('s, err, string) comp" where
  "encodeProof G i cBlock =
     bnd (mapErr (\<lambda>_. ErrorsNew ''failed to generateProof'') (GenerateProof G i cBlock)) (\<lambda>blockProof.
     bnd (mapErr (\<lambda>_. ErrorsNew ''unable to format blockProof'')
       (FormatProof G blockProof (ck_OldStateRoot cBlock) (ck_NewStateRoot cBlock) (ck_BlockCommitment cBlock))) (\<lambda>formatted.
     ofSum (gr_MarshalProof G formatted)))"

text \<open>Any answer of the query but a row lets the proof be created.\<close>

definition storeProof :: "BlockWitness \<Rightarrow> string \<Rightarrow> unit provingM" where
  "storeProof w proofBytes = bnd (attempt (onDb (GetProofByBlockHeight (bw_Height w)))) (\<lambda>r.
     case r of Inr _ \<Rightarrow> ret () | Inl _ \<Rightarrow> onDb (CreateProof proofBytes (bw_Height w) NotSent))"

definition proveWitness :: "('x, 'g, 'w, 'p) Groth \<Rightarrow> int list \<Rightarrow> BlockWitness \<Rightarrow> unit provingM" where
  "proveWitness G sizes w =
     bnd (reverting w (parseBlock G w)) (\<lambda>cBlock.
     let keyIndex = keyIndexFrom 0 sizes (int (length (ck_Txs cBlock))) in
     if keyIndex = length sizes then throw (ErrorsNew ''can't find correct vk/pk'')
     else reverting w (bnd (encodeProof G keyIndex cBlock) (storeProof w)))"

text \<open>The critical section: the lowest published witness is marked as received.\<close>

definition takeWitness :: "err option \<Rightarrow> BlockWitness provingM" where
  "takeWitness lock = thn (failOn lock) (bnd GetLatestBlockWitness (\<lambda>w. thn (UpdateBlockWitnessStatus w StatusReceived) (ret w)))"

definition ProveBlock :: "('x, 'g, 'w, 'p) Groth \<Rightarrow> int list \<Rightarrow> (nat \<Rightarrow> err + bool) \<Rightarrow> unit provingM" where
  "ProveBlock G sizes answer = bnd (attempt (takeWitness (TryAcquireLock answer))) (\<lambda>r. case r of
     Inl e \<Rightarrow> if e = DbErrNotFound then ret () else throw e | Inr w \<Rightarrow> proveWitness G sizes w)"

section \<open>Rescheduling (src/service/witness/witness/witness.go)\<close>

text \<open>In milliseconds, as the times of the rows.\<close>

definition UnprovedBlockWitnessTimeout :: int where "UnprovedBlockWitnessTimeout = 10 * 60 * 1000"

function scanProofs :: "int \<Rightarrow> int \<Rightarrow> int provingM" where
  "scanProofs blockHeight endToCheck =
     (if blockHeight < endToCheck
      then bnd (attempt (onDb (GetProofByBlockHeight blockHeight))) (\<lambda>r. case r of Inl _ \<Rightarrow> ret blockHeight
         | Inr _ \<Rightarrow> scanProofs (blockHeight + 1) endToCheck)
      else ret (wrap64 (endToCheck + 1)))"
  by pat_completeness auto

termination by (relation "measure (\<lambda>(h, e). nat (e - h))") auto

declare scanProofs.simps [simp del]

definition getNextWitnessToCheck :: "int provingM" where
  "getNextWitnessToCheck =
     bnd (onDb (optional GetLatestProof)) (\<lambda>latestProof. case latestProof of None \<Rightarrow> ret 1 | Some p \<Rightarrow>
     bnd (onDb (optional GetLatestConfirmedProof)) (\<lambda>confirmed.
     scanProofs (case confirmed of None \<Rightarrow> 1 | Some c \<Rightarrow> wrap64 (pf_BlockNumber c + 1)) (pf_BlockNumber p)))"

text \<open>Errors are logged; one of \<open>getNextWitnessToCheck\<close> goes on with the height 0.\<close>

definition RescheduleBlockWitness :: "unit provingM" where
  "RescheduleBlockWitness =
     bnd (attempt getNextWitnessToCheck) (\<lambda>r. let nextBlockNumber = (case r of Inl _ \<Rightarrow> 0 | Inr h \<Rightarrow> h) in
     bnd (attempt (GetBlockWitnessByHeight nextBlockNumber)) (\<lambda>r. case r of Inl _ \<Rightarrow> ret () | Inr w \<Rightarrow>
     if bw_Status w = StatusPublished then ret () else
     bnd (attempt (onDb (GetProofByBlockHeight nextBlockNumber))) (\<lambda>r. case r of Inr _ \<Rightarrow> ret () | Inl _ \<Rightarrow>
     bnd (gets (\<lambda>s. ru_now (pv_db s))) (\<lambda>now.
     if bw_UpdatedAt w + UnprovedBlockWitnessTimeout < now
     then bnd (attempt (UpdateBlockWitnessStatus w StatusPublished)) (\<lambda>_. ret ()) else ret ()))))"

section \<open>The pipeline\<close>

text \<open>
  Provers and the witness service over the shared tables. A prover is between two of its database
  operations; each step is one of them. The lock of the provers is not relied on.
\<close>

datatype phase =
    Idle
  | Fetched BlockWitness
  | Taken BlockWitness
  | Encoded BlockWitness string
  | Unproved BlockWitness string
  | Failing BlockWitness

text \<open>What the computation of a prover between two operations leads to.\<close>

definition proofOf :: "('x, 'g, 'w, 'p) Groth \<Rightarrow> int list \<Rightarrow> BlockWitness \<Rightarrow> phase" where
  "proofOf G sizes w = (case parseBlock G w () of (Err _, _) \<Rightarrow> Failing w | (Panic _, _) \<Rightarrow> Idle | (Ok cBlock, _) \<Rightarrow>
     let keyIndex = keyIndexFrom 0 sizes (int (length (ck_Txs cBlock))) in
     if keyIndex = length sizes then Idle
     else case encodeProof G keyIndex cBlock () of (Err _, _) \<Rightarrow> Failing w | (Panic _, _) \<Rightarrow> Idle
       | (Ok proofBytes, _) \<Rightarrow> Encoded w proofBytes)"

text \<open>
  \<open>other\<close> is what the rest of the system does between two operations: time passes, the database stops
  or answers again, ids are taken and the other tables change. Proofs change by the sender alone.
\<close>

inductive pipeline_step :: "('x, 'g, 'w, 'p) Groth \<Rightarrow> int list \<Rightarrow> Proving \<times> (nat \<Rightarrow> phase) \<Rightarrow> Proving \<times> (nat \<Rightarrow> phase) \<Rightarrow> bool"
  for G sizes where
  fetch: "ps i = Idle \<Longrightarrow> GetLatestBlockWitness s = (Ok w, t) \<Longrightarrow> pipeline_step G sizes (s, ps) (t, ps(i := Fetched w))"
| take: "ps i = Fetched w \<Longrightarrow> UpdateBlockWitnessStatus w StatusReceived s = (Ok u, t) \<Longrightarrow>
    pipeline_step G sizes (s, ps) (t, ps(i := Taken w))"
| lose: "ps i = Fetched w \<Longrightarrow> UpdateBlockWitnessStatus w StatusReceived s = (Err e, t) \<Longrightarrow>
    pipeline_step G sizes (s, ps) (t, ps(i := Idle))"
| compute: "ps i = Taken w \<Longrightarrow> pipeline_step G sizes (s, ps) (s, ps(i := proofOf G sizes w))"
| known: "ps i = Encoded w b \<Longrightarrow> onDb (GetProofByBlockHeight (bw_Height w)) s = (Ok p, t) \<Longrightarrow>
    pipeline_step G sizes (s, ps) (t, ps(i := Idle))"
| unknown: "ps i = Encoded w b \<Longrightarrow> onDb (GetProofByBlockHeight (bw_Height w)) s = (Err e, t) \<Longrightarrow>
    pipeline_step G sizes (s, ps) (t, ps(i := Unproved w b))"
| create: "ps i = Unproved w b \<Longrightarrow> onDb (CreateProof b (bw_Height w) NotSent) s = (Ok u, t) \<Longrightarrow>
    pipeline_step G sizes (s, ps) (t, ps(i := Idle))"
| refuse: "ps i = Unproved w b \<Longrightarrow> onDb (CreateProof b (bw_Height w) NotSent) s = (Err e, t) \<Longrightarrow>
    pipeline_step G sizes (s, ps) (t, ps(i := Failing w))"
| revert: "ps i = Failing w \<Longrightarrow> UpdateBlockWitnessStatus w StatusPublished s = (r, t) \<Longrightarrow>
    pipeline_step G sizes (s, ps) (t, ps(i := Idle))"
| crash: "pipeline_step G sizes (s, ps) (s, ps(i := Idle))"
| publish: "1 \<le> bw_Height w \<Longrightarrow> bw_Status w = StatusPublished \<Longrightarrow> CreateBlockWitness w s = (r, t) \<Longrightarrow>
    pipeline_step G sizes (s, ps) (t, ps)"
| reschedule: "RescheduleBlockWitness s = (r, t) \<Longrightarrow> pipeline_step G sizes (s, ps) (t, ps)"
| confirm: "onDb (transaction (UpdateProofsInTransact X m)) s = (r, t) \<Longrightarrow> pipeline_step G sizes (s, ps) (t, ps)"
| other: "ru_Proof d = ru_Proof (pv_db s) \<Longrightarrow> ru_nextId (pv_db s) \<le> ru_nextId d \<Longrightarrow>
    pipeline_step G sizes (s, ps) (s\<lparr>pv_db := d\<rparr>, ps)"

end
