(* ===== verification/Ref_Proving.thy ===== *)
theory Ref_Proving
  imports Zk_Proving Ref_Sender
begin

text \<open>
  What the proving pipeline guarantees. The witness table is a log: \<open>entries\<close> are the parts of its rows
  that no operation changes, and the locale \<open>witness_log\<close> is the contract of the table. From it follows
  the invariant \<open>pipeOk\<close> of every interleaving of provers, and what one pass of a prover and of the
  rescheduling achieve.
\<close>

section \<open>Running the operations\<close>

lemma onDb_run [run]: "onDb m s = (case m (pv_db s) of (r, d) \<Rightarrow> (r, s\<lparr>pv_db := d\<rparr>))"
  by (simp add: onDb_def)

lemma attempt_onDb [run]: "attempt (onDb m) s = (case m (pv_db s) of (Ok a, d) \<Rightarrow> (Ok (Inr a), s\<lparr>pv_db := d\<rparr>)
    | (Err e, d) \<Rightarrow> (Ok (Inl e), s\<lparr>pv_db := d\<rparr>) | (Panic p, d) \<Rightarrow> (Panic p, s\<lparr>pv_db := d\<rparr>))"
  by (simp add: attempt_def onDb_def split: prod.splits res.splits)

lemma onDb_queryRow: "onDb (queryRow f) s = (if ru_down (pv_db s) then (Err DbErrSqlOperation, s)
    else if f (pv_db s) = [] then (Err DbErrNotFound, s) else (Ok (hd (f (pv_db s))), s))"
  by (simp add: run)

declare sort_key_Nil_iff [simp]

lemma witnessRow_run [run]: "witnessRow f s = (if ru_down (pv_db s) then (Err DbErrSqlOperation, s)
    else if f (pv_Witness s) = [] then (Err DbErrNotFound, s) else (Ok (hd (f (pv_Witness s))), s))"
  by (simp add: witnessRow_def run)

lemma optional_queryRow [run]: "optional (queryRow f) s = (if ru_down s then (Err DbErrSqlOperation, s)
    else if f s = [] then (Ok None, s) else (Ok (Some (hd (f s))), s))"
  by (simp add: optional_def run)

lemmas witness_queries = GetLatestBlockWitnessHeight_def GetLatestBlockWitness_def GetBlockWitnessByHeight_def
lemmas proof_queries = GetLatestProof_def GetLatestConfirmedProof_def GetProofByBlockHeight_def

lemma hd_sort_key_asc:
  fixes f :: "'a \<Rightarrow> int"
  assumes "xs \<noteq> []"
  shows "hd (sort_key f xs) \<in> set xs \<and> (\<forall>x \<in> set xs. f (hd (sort_key f xs)) \<le> f x)"
  using hd_sort_key_desc [OF assms, of "\<lambda>x. - f x"] by simp

section \<open>The witness table as a log\<close>

definition entry :: "BlockWitness \<Rightarrow> int \<times> int \<times> string" where
  "entry w = (bw_ID w, bw_Height w, bw_WitnessData w)"

abbreviation entries :: "Proving \<Rightarrow> (int \<times> int \<times> string) list" where
  "entries s \<equiv> map entry (pv_Witness s)"

text \<open>Ids are distinct and already taken; the heights are 1, 2, 3 and so on.\<close>

definition logOk :: "Proving \<Rightarrow> bool" where
  "logOk s \<longleftrightarrow> distinct (map bw_ID (pv_Witness s)) \<and> (\<forall>w \<in> set (pv_Witness s). bw_ID w < ru_nextId (pv_db s)) \<and>
     map bw_Height (pv_Witness s) = map int [1..<Suc (length (pv_Witness s))]"

text \<open>What an operation may do to the log and to the proofs.\<close>

definition keepsLog :: "Proving \<Rightarrow> Proving \<Rightarrow> bool" where
  "keepsLog s t \<longleftrightarrow> entries t = entries s \<and> ru_Proof (pv_db t) = ru_Proof (pv_db s) \<and> ru_nextId (pv_db s) \<le> ru_nextId (pv_db t)"

definition extendsLog :: "string \<Rightarrow> Proving \<Rightarrow> Proving \<Rightarrow> bool" where
  "extendsLog data s t \<longleftrightarrow> entries t = entries s @ [(ru_nextId (pv_db s), int (length (pv_Witness s)) + 1, data)] \<and>
     ru_Proof (pv_db t) = ru_Proof (pv_db s) \<and> ru_nextId (pv_db t) = ru_nextId (pv_db s) + 1"

lemma keepsLog_refl [simp, intro]: "keepsLog s s" by (simp add: keepsLog_def)

lemma keepsLog_set: "keepsLog s t \<Longrightarrow> entry ` set (pv_Witness t) = entry ` set (pv_Witness s)"
  by (metis keepsLog_def list.set_map)

lemma entries_ids: "map bw_ID rows = map fst (map entry rows)" by (simp add: entry_def)

lemma entries_heights: "map bw_Height rows = map (\<lambda>e. fst (snd e)) (map entry rows)" by (simp add: entry_def)

lemma entries_lengths: "length rows = length (map entry rows)" by simp

lemma logOk_entries: "logOk s \<longleftrightarrow> distinct (map fst (entries s)) \<and> (\<forall>e \<in> set (entries s). fst e < ru_nextId (pv_db s)) \<and>
    map (\<lambda>e. fst (snd e)) (entries s) = map int [1..<Suc (length (entries s))]"
  by (simp add: logOk_def entry_def comp_def)

lemma logOk_keeps: "logOk s \<Longrightarrow> keepsLog s t \<Longrightarrow> logOk t"
  unfolding logOk_entries keepsLog_def by auto

lemma logOk_extends: "logOk s \<Longrightarrow> extendsLog data s t \<Longrightarrow> logOk t"
  unfolding logOk_entries extendsLog_def by (fastforce simp: entry_def)

lemma logOk_heights: "logOk s \<Longrightarrow> bw_Height ` set (pv_Witness s) = {1..int (length (pv_Witness s))}"
proof -
  assume "logOk s"
  then have "bw_Height ` set (pv_Witness s) = int ` {1..<Suc (length (pv_Witness s))}"
    by (metis list.set_map logOk_def set_upt)
  then show ?thesis by (simp add: atLeastLessThanSuc_atLeastAtMost image_int_atLeastAtMost)
qed

lemma logOk_height_unique:
  assumes "logOk s" "x \<in> set (pv_Witness s)" "y \<in> set (pv_Witness s)" "bw_Height x = bw_Height y"
  shows "x = y"
proof -
  have "distinct (map bw_Height (pv_Witness s))" using assms(1) by (simp add: logOk_def distinct_map)
  then show ?thesis using assms by (auto simp: distinct_map dest: inj_onD)
qed

lemma logOk_id_unique:
  assumes "logOk s" "x \<in> set (pv_Witness s)" "y \<in> set (pv_Witness s)" "bw_ID x = bw_ID y"
  shows "x = y"
  using assms by (auto simp: logOk_def distinct_map dest: inj_onD)

section \<open>The contract of BlockWitnessModel\<close>

locale witness_log =
  fixes publish :: "BlockWitness \<Rightarrow> unit provingM" and setStatus :: "BlockWitness \<Rightarrow> witnessStatus \<Rightarrow> unit provingM"
  assumes setStatus_keeps: "logOk s \<Longrightarrow> entry w \<in> set (entries s) \<Longrightarrow> setStatus w st s = (r, t) \<Longrightarrow> keepsLog s t"
    and publish_extends: "logOk s \<Longrightarrow> 1 \<le> bw_Height w \<Longrightarrow> publish w s = (r, t) \<Longrightarrow>
      keepsLog s t \<or> extendsLog (bw_WitnessData w) s t"
begin

lemma setStatus_logOk: "logOk s \<Longrightarrow> entry w \<in> set (entries s) \<Longrightarrow> setStatus w st s = (r, t) \<Longrightarrow> logOk t"
  using setStatus_keeps logOk_keeps by blast

lemma publish_logOk: "logOk s \<Longrightarrow> 1 \<le> bw_Height w \<Longrightarrow> publish w s = (r, t) \<Longrightarrow> logOk t"
  using publish_extends logOk_keeps logOk_extends by blast

lemma publish_mono: "logOk s \<Longrightarrow> 1 \<le> bw_Height w \<Longrightarrow> publish w s = (r, t) \<Longrightarrow> set (entries s) \<subseteq> set (entries t)"
  using publish_extends by (fastforce simp: keepsLog_def extendsLog_def)

end

text \<open>Saving a row of the table writes that row alone.\<close>

lemma saveWitness_row:
  assumes "logOk s" "entry w \<in> set (entries s)"
  shows "saveWitness w (pv_Witness s) = Some (updateRow bw_ID w (pv_Witness s))"
proof -
  obtain x where x: "x \<in> set (pv_Witness s)" "bw_ID x = bw_ID w" "bw_Height x = bw_Height w"
    using assms(2) by (auto simp: entry_def)
  have "y = x" if "y \<in> set (pv_Witness s)" "bw_Height y = bw_Height w" for y
    using logOk_height_unique [OF assms(1) that(1) x(1)] that(2) x(3) by simp
  then have "\<not> (\<exists>y \<in> set (pv_Witness s). bw_ID y \<noteq> bw_ID w \<and> bw_Height y = bw_Height w)" using x(2) by auto
  moreover have "\<exists>y \<in> set (pv_Witness s). bw_ID y = bw_ID w" using x(1,2) by auto
  ultimately show ?thesis by (simp add: saveWitness_def)
qed

lemma updateRow_entries:
  assumes "logOk s" "entry w \<in> set (entries s)"
  shows "map entry (updateRow bw_ID w (pv_Witness s)) = entries s"
proof -
  obtain x where x: "x \<in> set (pv_Witness s)" "entry x = entry w" using assms(2) by auto
  then have "entry y = entry w" if "y \<in> set (pv_Witness s)" "bw_ID y = bw_ID w" for y
    using logOk_id_unique [OF assms(1) that(1) x(1)] that by (auto simp: entry_def)
  then show ?thesis by (auto simp: updateRow_def)
qed

lemma UpdateBlockWitnessStatus_run:
  assumes "logOk s" "entry w \<in> set (entries s)"
  shows "UpdateBlockWitnessStatus w st s = (if ru_down (pv_db s) \<or> ru_readOnly (pv_db s) then (Err DbErrSqlOperation, s)
    else (Ok (), s\<lparr>pv_Witness := updateRow bw_ID (w\<lparr>bw_Status := st, bw_UpdatedAt := ru_now (pv_db s)\<rparr>) (pv_Witness s)\<rparr>))"
  using saveWitness_row [OF assms(1), of "w\<lparr>bw_Status := st, bw_UpdatedAt := ru_now (pv_db s)\<rparr>"] assms(2)
  by (simp add: UpdateBlockWitnessStatus_def witnessWrite_def entry_def)

lemma CreateBlockWitness_log:
  assumes ok: "logOk s" and h: "1 \<le> bw_Height w" and go: "CreateBlockWitness w s = (r, t)"
  shows "keepsLog s t \<or> extendsLog (bw_WitnessData w) s t"
proof (cases "ru_down (pv_db s) \<or> ru_readOnly (pv_db s) \<or> bw_Height w \<in> bw_Height ` set (pv_Witness s) \<or>
    (1 < bw_Height w \<and> bw_Height w - 1 \<notin> bw_Height ` set (pv_Witness s))")
  case True
  have "t = s" using go True
    by (auto simp: CreateBlockWitness_def GetBlockWitnessByHeight_def witnessWrite_def insertWitness_def mapErr_def run filter_empty_conv image_iff
      split: if_splits option.splits prod.splits res.splits)
  then show ?thesis by simp
next
  case False
  then have height: "bw_Height w = int (length (pv_Witness s)) + 1" using h by (auto simp: logOk_heights [OF ok] Suc_le_eq)
  have t: "t = s\<lparr>pv_Witness := pv_Witness s @ [w\<lparr>bw_ID := ru_nextId (pv_db s), bw_UpdatedAt := ru_now (pv_db s)\<rparr>],
      pv_db := (pv_db s)\<lparr>ru_nextId := ru_nextId (pv_db s) + 1\<rparr>\<rparr>"
    using go False
    by (auto simp: CreateBlockWitness_def GetBlockWitnessByHeight_def witnessWrite_def insertWitness_def mapErr_def run filter_empty_conv image_iff
      split: if_splits option.splits prod.splits res.splits)
  then show ?thesis using height by (simp add: extendsLog_def entry_def)
qed

interpretation wm: witness_log CreateBlockWitness UpdateBlockWitnessStatus
proof
  show "keepsLog s t" if "logOk s" "entry w \<in> set (entries s)" "UpdateBlockWitnessStatus w st s = (r, t)" for s w st r t
    using that(3) updateRow_entries [OF that(1), of "w\<lparr>bw_Status := st, bw_UpdatedAt := ru_now (pv_db s)\<rparr>"] that(2)
    by (auto simp: UpdateBlockWitnessStatus_run [OF that(1,2)] keepsLog_def entry_def split: if_splits)
qed (rule CreateBlockWitness_log)

section \<open>Proofs\<close>

text \<open>\<open>info\<close> encodes a proof that groth16 accepted for the roots and the commitment of a witness of the data.\<close>

definition formatted :: "('x, 'g) CircuitBlock \<Rightarrow> int list \<Rightarrow> FormattedProof" where
  "formatted b e = \<lparr>fp_A = [e ! 0, e ! 1], fp_B = [[e ! 2, e ! 3], [e ! 4, e ! 5]], fp_C = [e ! 6, e ! 7],
     fp_Inputs = [SetBytes (ck_OldStateRoot b), SetBytes (ck_NewStateRoot b), SetBytes (ck_BlockCommitment b)]\<rparr>"

definition verified :: "('x, 'g, 'w, 'p) Groth \<Rightarrow> int list \<Rightarrow> ('x, 'g) CircuitBlock \<Rightarrow> 'p \<Rightarrow> bool" where
  "verified G sizes b proof \<longleftrightarrow> (\<exists>i < length sizes. \<exists>public. sizes ! i = int (length (ck_Txs b)) \<and>
     gr_PublicWitness G (ck_OldStateRoot b) (ck_NewStateRoot b) (ck_BlockCommitment b) = Inr public \<and>
     gr_Verify G proof i public = None)"

definition proves :: "('x, 'g, 'w, 'p) Groth \<Rightarrow> int list \<Rightarrow> string \<Rightarrow> string \<Rightarrow> bool" where
  "proves G sizes data info \<longleftrightarrow> (\<exists>b proof raw e. gr_Unmarshal G data = Inr (Some b) \<and> verified G sizes b proof \<and>
     gr_WriteRawTo G proof = Inr raw \<and> rawElements raw = Some e \<and> gr_MarshalProof G (formatted b e) = Inr info)"

lemma keyIndexFrom_found:
  assumes "keyIndexFrom k zs n \<noteq> k + length zs"
  shows "k \<le> keyIndexFrom k zs n \<and> keyIndexFrom k zs n - k < length zs \<and> zs ! (keyIndexFrom k zs n - k) = n"
  using assms
proof (induction zs arbitrary: k)
  case (Cons z zs)
  show ?case
  proof (cases "n = z")
    case False
    with Cons.prems have "keyIndexFrom (Suc k) zs n \<noteq> Suc k + length zs" by simp
    then show ?thesis using Cons.IH [of "Suc k"] False by (auto simp: Suc_diff_le nth_Cons' diff_Suc split: nat.splits)
  qed simp
qed simp

lemma keyIndexFrom_le: "keyIndexFrom k zs n \<le> k + length zs"
  by (induction zs arbitrary: k) (auto, metis add_Suc_right add_Suc)

lemma encodeProof_Ok:
  assumes "encodeProof G i b s = (Ok info, t)"
  obtains pf public raw e where "gr_PublicWitness G (ck_OldStateRoot b) (ck_NewStateRoot b) (ck_BlockCommitment b) = Inr public"
    "gr_Verify G pf i public = None" "gr_WriteRawTo G pf = Inr raw" "rawElements raw = Some e"
    "gr_MarshalProof G (formatted b e) = Inr info"
  using assms
  by (auto simp: encodeProof_def GenerateProof_def FormatProof_def formatted_def mapErr_def run
    split: prod.splits res.splits sum.splits option.splits if_splits)

text \<open>The computations between two operations of the database do not depend on the state.\<close>

lemma parseBlock_pure: "parseBlock G w s = (fst (parseBlock G w ()), s)"
  by (auto simp: parseBlock_def run split: sum.splits option.splits)

lemma encodeProof_pure: "encodeProof G i b s = (fst (encodeProof G i b ()), s)"
  by (auto simp: encodeProof_def GenerateProof_def FormatProof_def mapErr_def run
    split: sum.splits option.splits prod.splits res.splits)

lemma proofOf_Encoded:
  assumes "proofOf G sizes w = Encoded v info"
  shows "v = w \<and> proves G sizes (bw_WitnessData w) info"
proof -
  let ?i = "\<lambda>b. keyIndexFrom 0 sizes (int (length (ck_Txs b)))"
  obtain b where b: "parseBlock G w () = (Ok b, ())" "?i b \<noteq> length sizes" "encodeProof G (?i b) b () = (Ok info, ())" "v = w"
    using assms by (auto simp: proofOf_def Let_def split: prod.splits res.splits if_splits)
  have "gr_Unmarshal G (bw_WitnessData w) = Inr (Some b)"
    using b(1) by (auto simp: parseBlock_def run split: sum.splits option.splits)
  moreover have "?i b < length sizes \<and> sizes ! ?i b = int (length (ck_Txs b))"
    using keyIndexFrom_found [of 0 sizes] b(2) by auto
  ultimately show ?thesis
    using b(4) encodeProof_Ok [OF b(3)] unfolding proves_def verified_def by metis
qed

lemma proofOf_cases: "proofOf G sizes w \<in> {Idle, Failing w} \<or> (\<exists>info. proofOf G sizes w = Encoded w info)"
  by (auto simp: proofOf_def Let_def split: prod.splits res.splits if_splits)

section \<open>The invariant of the pipeline\<close>

text \<open>A prover holds a row of the table, and an encoded proof proves it.\<close>

fun phaseOk :: "('x, 'g, 'w, 'p) Groth \<Rightarrow> int list \<Rightarrow> (int \<times> int \<times> string) set \<Rightarrow> phase \<Rightarrow> bool" where
  "phaseOk G sizes E Idle \<longleftrightarrow> True"
| "phaseOk G sizes E (Fetched w) \<longleftrightarrow> entry w \<in> E"
| "phaseOk G sizes E (Taken w) \<longleftrightarrow> entry w \<in> E"
| "phaseOk G sizes E (Encoded w b) \<longleftrightarrow> entry w \<in> E \<and> proves G sizes (bw_WitnessData w) b"
| "phaseOk G sizes E (Unproved w b) \<longleftrightarrow> entry w \<in> E \<and> proves G sizes (bw_WitnessData w) b"
| "phaseOk G sizes E (Failing w) \<longleftrightarrow> entry w \<in> E"

text \<open>Every proof is one of a witness at its height.\<close>

definition proofsOk :: "('x, 'g, 'w, 'p) Groth \<Rightarrow> int list \<Rightarrow> (int \<times> int \<times> string) set \<Rightarrow> Proof list \<Rightarrow> bool" where
  "proofsOk G sizes E proofs \<longleftrightarrow> distinct (map pf_BlockNumber proofs) \<and>
     (\<forall>p \<in> set proofs. \<exists>k data. (k, pf_BlockNumber p, data) \<in> E \<and> proves G sizes data (pf_ProofInfo p))"

definition pipeOk :: "('x, 'g, 'w, 'p) Groth \<Rightarrow> int list \<Rightarrow> Proving \<times> (nat \<Rightarrow> phase) \<Rightarrow> bool" where
  "pipeOk G sizes = (\<lambda>(s, ps). logOk s \<and> proofsOk G sizes (set (entries s)) (ru_Proof (pv_db s)) \<and>
     (\<forall>i. phaseOk G sizes (set (entries s)) (ps i)))"

lemma phaseOk_mono: "phaseOk G sizes E p \<Longrightarrow> E \<subseteq> F \<Longrightarrow> phaseOk G sizes F p"
  by (cases p) auto

lemma proofsOk_mono: "proofsOk G sizes E ps \<Longrightarrow> E \<subseteq> F \<Longrightarrow> proofsOk G sizes F ps"
  by (auto simp: proofsOk_def) blast

text \<open>A step that keeps the log and the proofs needs the new phase of its prover alone.\<close>

lemma pipeOk_keeps:
  assumes "pipeOk G sizes (s, ps)" "keepsLog s t" "phaseOk G sizes (set (entries s)) p"
  shows "pipeOk G sizes (t, ps(i := p))"
  using assms logOk_keeps [of s t] keepsLog_set [of s t] by (simp add: pipeOk_def keepsLog_def)

lemma pipeOk_keeps_all:
  assumes "pipeOk G sizes (s, ps)" "keepsLog s t"
  shows "pipeOk G sizes (t, ps)"
  using assms logOk_keeps [of s t] keepsLog_set [of s t] by (simp add: pipeOk_def keepsLog_def)

lemma pipeOk_entry:
  assumes "pipeOk G sizes (s, ps)" "ps i \<in> {Fetched w, Taken w, Failing w, Encoded w b, Unproved w b}"
  shows "entry w \<in> set (entries s)"
proof -
  have "phaseOk G sizes (set (entries s)) (ps i)" using assms(1) by (simp add: pipeOk_def)
  then show ?thesis using assms(2) by auto
qed

lemma GetLatestBlockWitness_Ok:
  assumes "GetLatestBlockWitness s = (Ok w, t)"
  shows "t = s \<and> w \<in> set (pv_Witness s) \<and> bw_Status w = StatusPublished \<and>
    (\<forall>x \<in> set (pv_Witness s). bw_Status x = StatusPublished \<longrightarrow> bw_Height w \<le> bw_Height x)"
proof -
  let ?xs = "filter (\<lambda>w. bw_Status w = StatusPublished) (pv_Witness s)"
  have *: "sort_key bw_Height ?xs \<noteq> [] \<and> w = hd (sort_key bw_Height ?xs) \<and> t = s"
    using assms by (auto simp: GetLatestBlockWitness_def run split: if_splits)
  then have "?xs \<noteq> []" by (metis set_empty set_sort)
  from hd_sort_key_asc [OF this, of bw_Height] show ?thesis using * by auto
qed

lemma query_keeps:
  assumes "onDb (queryRow f) s = (r, t)"
  shows "t = s"
  using assms by (auto simp: run split: if_splits)

lemma CreateProof_pipeOk:
  assumes "pipeOk G sizes (s, ps)" "ps i = Unproved w b" "onDb (CreateProof b (bw_Height w) NotSent) s = (Ok u, t)"
  shows "pipeOk G sizes (t, ps(i := Idle))"
proof -
  have w: "entry w \<in> set (entries s)" "proves G sizes (bw_WitnessData w) b"
    using assms(1,2) spec [of "\<lambda>i. phaseOk G sizes (set (entries s)) (ps i)" i] by (auto simp: pipeOk_def)
  obtain d p where t: "t = s\<lparr>pv_db := d\<rparr>" "ru_Proof d = ru_Proof (pv_db s) @ [p]" "pf_BlockNumber p = bw_Height w" "pf_ProofInfo p = b"
      "ru_nextId d = ru_nextId (pv_db s) + 1" and new: "bw_Height w \<notin> pf_BlockNumber ` set (ru_Proof (pv_db s))"
    using assms(3) by (auto simp: CreateProof_def run split: if_splits)
  have "logOk t" using assms(1) t by (auto simp: pipeOk_def logOk_def)
  moreover have "proofsOk G sizes (set (entries t)) (ru_Proof (pv_db t))"
    using assms(1) t new w by (force simp: pipeOk_def proofsOk_def entry_def)
  ultimately show ?thesis using assms(1) t by (simp add: pipeOk_def)
qed

text \<open>The sender changes the statuses of proofs.\<close>

definition sameProofs :: "Rollup \<Rightarrow> Rollup \<Rightarrow> bool" where
  "sameProofs d d' \<longleftrightarrow> map (\<lambda>p. (pf_BlockNumber p, pf_ProofInfo p)) (ru_Proof d') = map (\<lambda>p. (pf_BlockNumber p, pf_ProofInfo p)) (ru_Proof d) \<and>
     ru_nextId d' = ru_nextId d"

lemma UpdateProofs_same: "keeps (sameProofs d) (transaction (UpdateProofsInTransact X m))"
  unfolding UpdateProofsInTransact_def by (intro keep keeps_update) (simp_all add: sameProofs_def o_def if_distrib cong: if_cong)

lemma proofsOk_same:
  assumes "proofsOk G sizes E (ru_Proof d)" "sameProofs d d'"
  shows "proofsOk G sizes E (ru_Proof d')"
proof -
  let ?f = "\<lambda>p. (pf_BlockNumber p, pf_ProofInfo p)"
  have eq: "map ?f (ru_Proof d') = map ?f (ru_Proof d)" using assms(2) by (simp add: sameProofs_def)
  have "map pf_BlockNumber ps = map fst (map ?f ps)" for ps by (simp add: o_def)
  then have "distinct (map pf_BlockNumber (ru_Proof d'))" using assms(1) eq unfolding proofsOk_def by metis
  moreover have "?f ` set (ru_Proof d') = ?f ` set (ru_Proof d)" using arg_cong [OF eq, of set] by simp
  then have "\<exists>q \<in> set (ru_Proof d). pf_BlockNumber q = pf_BlockNumber p \<and> pf_ProofInfo q = pf_ProofInfo p"
    if "p \<in> set (ru_Proof d')" for p
    using that by (metis (mono_tags, lifting) Pair_inject image_iff)
  ultimately show ?thesis using assms(1) unfolding proofsOk_def by metis
qed

section \<open>Rescheduling\<close>

lemma scanProofs_state: "snd (scanProofs h e s) = s"
proof (induction h e rule: scanProofs.induct)
  case (1 h e)
  show ?case by (subst scanProofs.simps) (auto simp: run proof_queries 1 split: if_splits)
qed

lemma getNextWitnessToCheck_state: "snd (getNextWitnessToCheck s) = s"
  by (auto simp: getNextWitnessToCheck_def proof_queries run scanProofs_state)

lemma getNextWitnessToCheck_attempt: "\<exists>r. attempt getNextWitnessToCheck s = (r, s)"
  using getNextWitnessToCheck_state [of s] by (auto simp: attempt_def split: prod.splits res.splits)

text \<open>An update whose error is only logged.\<close>

lemma update_logged: "bnd (attempt (UpdateBlockWitnessStatus w st)) (\<lambda>_. m) s = m (snd (UpdateBlockWitnessStatus w st s))"
  by (simp add: run attempt_def UpdateBlockWitnessStatus_def witnessWrite_def split: option.splits)

text \<open>Rescheduling changes at most the status of one row.\<close>

lemma Reschedule_cases:
  assumes "RescheduleBlockWitness s = (r, t)"
  shows "t = s \<or> (\<exists>w \<in> set (pv_Witness s). t = snd (UpdateBlockWitnessStatus w StatusPublished s))"
proof -
  let ?sel = "\<lambda>h. filter (\<lambda>w. bw_Height w = h) (pv_Witness s)"
  have hd: "hd (?sel h) \<in> set (pv_Witness s)" if "?sel h \<noteq> []" for h
    using hd_in_set [OF that] by auto
  have row: "attempt (GetBlockWitnessByHeight h) s = (if ru_down (pv_db s) then (Ok (Inl DbErrSqlOperation), s)
      else if ?sel h = [] then (Ok (Inl DbErrNotFound), s) else (Ok (Inr (hd (?sel h))), s))" for h
    by (simp add: attempt_def GetBlockWitnessByHeight_def run)
  obtain x where x: "attempt getNextWitnessToCheck s = (x, s)" using getNextWitnessToCheck_attempt by blast
  note runs = bnd_run [of "attempt getNextWitnessToCheck"] bnd_run [of "attempt (GetBlockWitnessByHeight h)" for h]
    bnd_run [of "attempt (onDb m)" for m] bnd_run [of "gets f" for f]
  show ?thesis using assms hd
    by (cases x) (auto simp: RescheduleBlockWitness_def x row runs attempt_onDb queryRow_run Let_def proof_queries update_logged
      split: if_splits sum.splits)
qed

lemma entry_in: "w \<in> set (pv_Witness s) \<Longrightarrow> entry w \<in> set (entries s)" by simp

lemma Reschedule_keeps: "logOk s \<Longrightarrow> RescheduleBlockWitness s = (r, t) \<Longrightarrow> keepsLog s t"
  using Reschedule_cases [of s r t] wm.setStatus_keeps [OF _ entry_in surjective_pairing] by blast

section \<open>Every step keeps the invariant\<close>

lemma pipeOk_logOk: "pipeOk G sizes (s, ps) \<Longrightarrow> logOk s" by (simp add: pipeOk_def)

lemma pipeOk_phase: "pipeOk G sizes (s, ps) \<Longrightarrow> phaseOk G sizes (set (entries s)) (ps i)" by (simp add: pipeOk_def)

lemma pipeOk_set:
  assumes "pipeOk G sizes (s, ps)" "ps i \<in> {Fetched w, Failing w}" "UpdateBlockWitnessStatus w st s = (r, t)"
    "p \<in> {Idle, Taken w}"
  shows "pipeOk G sizes (t, ps(i := p))"
proof -
  have w: "entry w \<in> set (entries s)" using pipeOk_entry [OF assms(1), of i w] assms(2) by auto
  then show ?thesis
    using pipeOk_keeps [OF assms(1) wm.setStatus_keeps [OF pipeOk_logOk [OF assms(1)] w assms(3)], of p i] assms(4) by auto
qed

lemma pipeOk_publish:
  assumes ok: "pipeOk G sizes (s, ps)" and h: "1 \<le> bw_Height w" and go: "CreateBlockWitness w s = (r, t)"
  shows "pipeOk G sizes (t, ps)"
proof -
  note l = pipeOk_logOk [OF ok]
  have "logOk t" "set (entries s) \<subseteq> set (entries t)" using wm.publish_logOk [OF l h go] wm.publish_mono [OF l h go] .
  moreover have "ru_Proof (pv_db t) = ru_Proof (pv_db s)"
    using wm.publish_extends [OF l h go] by (auto simp: keepsLog_def extendsLog_def)
  moreover have "phaseOk G sizes (set (entries t)) (ps i)" for i using phaseOk_mono [OF pipeOk_phase [OF ok]] calculation(2) .
  moreover have "proofsOk G sizes (set (entries s)) (ru_Proof (pv_db s))" using ok by (simp add: pipeOk_def)
  then have "proofsOk G sizes (set (entries t)) (ru_Proof (pv_db s))" using proofsOk_mono calculation(2) by blast
  ultimately show ?thesis by (simp add: pipeOk_def)
qed

lemma pipeOk_confirm:
  assumes ok: "pipeOk G sizes (s, ps)" and go: "onDb (transaction (UpdateProofsInTransact X m)) s = (r, t)"
  shows "pipeOk G sizes (t, ps)"
proof -
  have t: "t = s\<lparr>pv_db := snd (transaction (UpdateProofsInTransact X m) (pv_db s))\<rparr>"
    using go by (auto simp: run split: prod.splits)
  have "sameProofs (pv_db s) (pv_db t)"
    using UpdateProofs_same [of "pv_db s" X m] by (simp add: t keeps_def sameProofs_def)
  then show ?thesis using ok proofsOk_same [of G sizes _ "pv_db s" "pv_db t"] by (auto simp: pipeOk_def t logOk_def sameProofs_def)
qed

lemma step_pipeOk:
  assumes "pipeline_step G sizes c c'" "pipeOk G sizes c"
  shows "pipeOk G sizes c'"
  using assms
proof (induction rule: pipeline_step.induct)
  case (fetch ps i s w t)
  then show ?case using GetLatestBlockWitness_Ok [OF fetch(2)] pipeOk_keeps [of G sizes s ps s "Fetched w" i] by simp
next
  case (compute ps i w s)
  have "entry w \<in> set (entries s)" using pipeOk_entry [OF compute(2), of i w] compute(1) by simp
  then have "phaseOk G sizes (set (entries s)) (proofOf G sizes w)"
    using proofOf_cases [of G sizes w] proofOf_Encoded [of G sizes w w] by auto
  then show ?case using pipeOk_keeps [OF compute(2)] by blast
next
  case (known ps i w b s p t)
  have "t = s" using known(2) unfolding GetProofByBlockHeight_def by (rule query_keeps)
  then show ?case using known pipeOk_keeps [of G sizes s ps s Idle i] by simp
next
  case (unknown ps i w b s e t)
  have "t = s" using unknown(2) unfolding GetProofByBlockHeight_def by (rule query_keeps)
  then show ?case using unknown pipeOk_phase [OF unknown(3), of i] pipeOk_keeps [of G sizes s ps s "Unproved w b" i] by simp
next
  case (refuse ps i w b s e t)
  have "t = s" using refuse(2) by (auto simp: CreateProof_def run split: if_splits)
  then show ?case using refuse pipeOk_phase [OF refuse(3), of i] pipeOk_keeps [of G sizes s ps s "Failing w" i] by simp
next
  case (crash s ps i)
  then show ?case using pipeOk_keeps [of G sizes s ps s Idle i] by simp
next
  case (reschedule s r t ps)
  then show ?case using pipeOk_keeps_all Reschedule_keeps pipeOk_logOk by blast
next
  case (other d s ps)
  then show ?case using pipeOk_keeps_all [of G sizes s ps "s\<lparr>pv_db := d\<rparr>"] by (simp add: keepsLog_def)
qed (auto intro: CreateProof_pipeOk pipeOk_set pipeOk_publish pipeOk_confirm)

lemma steps_pipeOk: "(pipeline_step G sizes)\<^sup>*\<^sup>* c c' \<Longrightarrow> pipeOk G sizes c \<Longrightarrow> pipeOk G sizes c'"
  by (induction rule: rtranclp_induct) (auto intro: step_pipeOk)

lemma start_pipeOk: "pv_Witness s = [] \<Longrightarrow> ru_Proof (pv_db s) = [] \<Longrightarrow> pipeOk G sizes (s, \<lambda>_. Idle)"
  by (simp add: pipeOk_def logOk_def proofsOk_def)

section \<open>A run of a prover\<close>

lemma Update_cases: "UpdateBlockWitnessStatus w st s = (Ok (), snd (UpdateBlockWitnessStatus w st s)) \<or>
    UpdateBlockWitnessStatus w st s = (Err DbErrSqlOperation, s)"
  by (simp add: UpdateBlockWitnessStatus_def witnessWrite_def split: option.splits)

lemma reverting_run: "reverting w m s = (case m s of (Err e, t) \<Rightarrow> (Err e, snd (UpdateBlockWitnessStatus w StatusPublished t)) | r \<Rightarrow> r)"
proof -
  have "attempt m s = (case m s of (Ok a, t) \<Rightarrow> (Ok (Inr a), t) | (Err e, t) \<Rightarrow> (Ok (Inl e), t) | (Panic p, t) \<Rightarrow> (Panic p, t))"
    by (simp add: attempt_def)
  then show ?thesis by (simp add: reverting_def bnd_run [of "attempt m"] update_logged split: prod.splits res.splits)
qed

text \<open>What is left to do after the computation is determined by the phase it leads to.\<close>

lemma proveWitness_run: "proveWitness G sizes w s = (case proofOf G sizes w of
     Encoded _ info \<Rightarrow> reverting w (storeProof w info) s
   | Failing _ \<Rightarrow> (fst (proveWitness G sizes w s), snd (UpdateBlockWitnessStatus w StatusPublished s))
   | _ \<Rightarrow> (fst (proveWitness G sizes w s), s))"
proof -
  let ?i = "\<lambda>b. keyIndexFrom 0 sizes (int (length (ck_Txs b)))"
  obtain x where x: "parseBlock G w () = (x, ())" by (cases "parseBlock G w ()") auto
  show ?thesis
  proof (cases x)
    case (Ok b)
    obtain y where y: "encodeProof G (?i b) b () = (y, ())" by (cases "encodeProof G (?i b) b ()") auto
    show ?thesis using Ok x y
      by (cases y) (auto simp: proveWitness_def proofOf_def bnd_run reverting_run parseBlock_pure [of _ _ s]
        encodeProof_pure [of _ _ _ s] Let_def)
  qed (use x in \<open>auto simp: proveWitness_def proofOf_def bnd_run reverting_run parseBlock_pure [of _ _ s]\<close>)
qed

lemma proveWitness_steps:
  assumes i: "ps i = Taken w" and go: "proveWitness G sizes w s = (r, t)"
  shows "(pipeline_step G sizes)\<^sup>*\<^sup>* (s, ps) (t, ps(i := Idle))"
proof -
  let ?S = "pipeline_step G sizes"
  have start: "?S (s, ps) (s, ps(i := proofOf G sizes w))" using i by (rule pipeline_step.compute)
  have undo: "?S\<^sup>*\<^sup>* (s, ps(i := Failing w)) (snd (UpdateBlockWitnessStatus w StatusPublished s), ps(i := Idle))"
    using pipeline_step.revert [of "ps(i := Failing w)" i w s] by (metis fun_upd_same fun_upd_upd r_into_rtranclp surjective_pairing)
  consider "proofOf G sizes w = Idle" | "proofOf G sizes w = Failing w" | info where "proofOf G sizes w = Encoded w info"
    using proofOf_cases [of G sizes w] by auto
  then show ?thesis
  proof cases
    case 1
    then have "t = s" using go proveWitness_run [of G sizes w s] by simp
    then show ?thesis using start 1 by auto
  next
    case 2
    then have "t = snd (UpdateBlockWitnessStatus w StatusPublished s)" using go proveWitness_run [of G sizes w s] by simp
    then show ?thesis using start 2 undo by (simp add: converse_rtranclp_into_rtranclp)
  next
    case (3 info)
    let ?P = "\<lambda>p. ps(i := p)"
    have go: "reverting w (storeProof w info) s = (r, t)" using go proveWitness_run [of G sizes w s] 3 by simp
    have first: "?S\<^sup>*\<^sup>* (s, ps) (s, ?P (Encoded w info))" using start 3 by auto
    let ?q = "onDb (GetProofByBlockHeight (bw_Height w)) s"
    have "(\<exists>p. ?q = (Ok p, s)) \<or> (\<exists>e. ?q = (Err e, s))" by (simp add: onDb_queryRow GetProofByBlockHeight_def)
    then consider p where "?q = (Ok p, s)" | e where "?q = (Err e, s)" by blast
    then show ?thesis
    proof cases
      case (1 p)
      then have "t = s" using go by (auto simp: reverting_run storeProof_def bnd_run attempt_def)
      moreover have "?S (s, ?P (Encoded w info)) (s, ?P Idle)" using pipeline_step.known [of "?P (Encoded w info)" i w info] 1 by fastforce
      ultimately show ?thesis using first by simp
    next
      case (2 e)
      have second: "?S\<^sup>*\<^sup>* (s, ps) (s, ?P (Unproved w info))"
        using first pipeline_step.unknown [of "?P (Encoded w info)" i w info] 2 by (fastforce intro: rtranclp.rtrancl_into_rtrancl)
      let ?c = "onDb (CreateProof info (bw_Height w) NotSent) s"
      consider u where "?c = (Ok u, t)" | e where "?c = (Err e, s)" "t = snd (UpdateBlockWitnessStatus w StatusPublished s)"
        using go 2 by (auto simp: reverting_run storeProof_def bnd_run attempt_def run CreateProof_def split: if_splits)
      then show ?thesis
      proof cases
        case 1
        then have "?S (s, ?P (Unproved w info)) (t, ?P Idle)" using pipeline_step.create [of "?P (Unproved w info)" i w info] by fastforce
        then show ?thesis using second by simp
      next
        case 2
        then have "?S (s, ?P (Unproved w info)) (s, ?P (Failing w))" using pipeline_step.refuse [of "?P (Unproved w info)" i w info] by fastforce
        then show ?thesis using second undo 2 by (meson rtranclp.rtrancl_into_rtrancl rtranclp_trans)
      qed
    qed
  qed
qed

lemma takeWitness_cases:
  obtains (failed) e where "takeWitness lock s = (Err e, s)"
  | (taken) w u where "GetLatestBlockWitness s = (Ok w, s)" "UpdateBlockWitnessStatus w StatusReceived s = (Ok (), u)"
      "takeWitness lock s = (Ok w, u)"
proof (cases "lock = None \<and> \<not> ru_down (pv_db s) \<and> filter (\<lambda>w. bw_Status w = StatusPublished) (pv_Witness s) \<noteq> []")
  case True
  let ?w = "hd (sort_key bw_Height (filter (\<lambda>w. bw_Status w = StatusPublished) (pv_Witness s)))"
  have w: "GetLatestBlockWitness s = (Ok ?w, s)" using True by (simp add: GetLatestBlockWitness_def run)
  show ?thesis using Update_cases [of ?w StatusReceived s]
  proof
    assume "UpdateBlockWitnessStatus ?w StatusReceived s = (Ok (), snd (UpdateBlockWitnessStatus ?w StatusReceived s))"
    then show ?thesis using taken [OF w] True w by (simp add: takeWitness_def thn_run bnd_run failOn_run)
  next
    assume "UpdateBlockWitnessStatus ?w StatusReceived s = (Err DbErrSqlOperation, s)"
    then show ?thesis using failed True w by (simp add: takeWitness_def thn_run bnd_run failOn_run)
  qed
next
  case False
  then have "\<exists>e. takeWitness lock s = (Err e, s)"
    by (cases lock) (auto simp: takeWitness_def GetLatestBlockWitness_def run)
  then show ?thesis using failed by blast
qed

text \<open>The sequential code of a prover is a sequence of steps of the pipeline.\<close>

lemma ProveBlock_steps:
  assumes i: "ps i = Idle" and go: "ProveBlock G sizes answer s = (r, t)"
  shows "(pipeline_step G sizes)\<^sup>*\<^sup>* (s, ps) (t, ps)"
  using takeWitness_cases [of "TryAcquireLock answer" s]
proof cases
  case (failed e)
  then have "t = s" using go by (auto simp: ProveBlock_def bnd_run attempt_def split: if_splits)
  then show ?thesis by simp
next
  case (taken w u)
  let ?S = "pipeline_step G sizes"
  have idle: "ps(i := Idle) = ps" using i by (metis fun_upd_triv)
  have go: "proveWitness G sizes w u = (r, t)" using go taken by (simp add: ProveBlock_def bnd_run attempt_def)
  have "?S (s, ps) (s, ps(i := Fetched w))" using i taken(1) by (rule pipeline_step.fetch)
  moreover have "?S (s, ps(i := Fetched w)) (u, ps(i := Taken w))"
    using pipeline_step.take [of "ps(i := Fetched w)" i w s "()" u] taken(2) by simp
  moreover have "?S\<^sup>*\<^sup>* (u, ps(i := Taken w)) (t, ps)"
    using proveWitness_steps [of "ps(i := Taken w)" i w G sizes u r t] go by (simp add: idle)
  ultimately show ?thesis by (meson converse_rtranclp_into_rtranclp)
qed

section \<open>Which block is next\<close>

abbreviation proved :: "Proving \<Rightarrow> int set" where
  "proved s \<equiv> pf_BlockNumber ` set (ru_Proof (pv_db s))"

text \<open>The highest block whose proof was sent.\<close>

definition lastSent :: "Proving \<Rightarrow> int" where
  "lastSent s = Max (insert 0 (pf_BlockNumber ` {p \<in> set (ru_Proof (pv_db s)). pf_Status p \<noteq> NotSent}))"

definition numbersOk :: "Proving \<Rightarrow> bool" where
  "numbersOk s \<longleftrightarrow> (\<forall>n \<in> proved s. 1 \<le> n \<and> n < 2 ^ 63 - 1)"

lemma GetProof_run: "onDb (GetProofByBlockHeight h) s = (if ru_down (pv_db s) then (Err DbErrSqlOperation, s)
    else if h \<in> proved s then (Ok (hd (filter (\<lambda>p. pf_BlockNumber p = h) (ru_Proof (pv_db s)))), s) else (Err DbErrNotFound, s))"
  by (auto simp: onDb_queryRow GetProofByBlockHeight_def filter_empty_conv)

lemma scanProofs_spec:
  assumes "\<not> ru_down (pv_db s)" "e \<in> proved s" "h \<le> e + 1" "wrap64 (e + 1) = e + 1" "e + 1 \<notin> proved s"
  shows "\<exists>k. scanProofs h e s = (Ok k, s) \<and> h \<le> k \<and> k \<notin> proved s \<and> {h..<k} \<subseteq> proved s"
  using assms
proof (induction h e rule: scanProofs.induct)
  case (1 h e)
  show ?case
  proof (cases "h < e \<and> h \<in> proved s")
    case True
    then obtain k where k: "scanProofs (h + 1) e s = (Ok k, s)" "h + 1 \<le> k" "k \<notin> proved s" "{h + 1..<k} \<subseteq> proved s"
      using 1 by force
    have "{h..<k} = insert h {h + 1..<k}" using k(2) by auto
    moreover have "scanProofs h e s = (Ok k, s)"
      using True 1(2) k(1) by (subst scanProofs.simps) (simp add: bnd_run attempt_def GetProof_run)
    ultimately show ?thesis using True k by auto
  next
    case False
    then have "scanProofs h e s = (Ok (if h < e then h else e + 1), s)"
      using 1(2,5) by (subst scanProofs.simps) (simp add: bnd_run attempt_def GetProof_run)
    moreover have "h = e \<or> h = e + 1" if "\<not> h < e" using that 1(4) by auto
    ultimately show ?thesis using False 1(3,6) by (cases "h < e") (auto simp: atLeastLessThan_def lessThan_def order_le_less)
  qed
qed

lemma getNextWitnessToCheck_spec:
  assumes up: "\<not> ru_down (pv_db s)" and num: "numbersOk s"
  shows "\<exists>h. getNextWitnessToCheck s = (Ok h, s) \<and> lastSent s < h \<and> h \<notin> proved s \<and> {lastSent s<..<h} \<subseteq> proved s"
proof (cases "ru_Proof (pv_db s) = []")
  case True
  then show ?thesis using up by (auto simp: getNextWitnessToCheck_def proof_queries run lastSent_def)
next
  case False
  let ?ps = "ru_Proof (pv_db s)" and ?sent = "filter (\<lambda>p. pf_Status p \<noteq> NotSent) (ru_Proof (pv_db s))"
  let ?p = "hd (sort_key (\<lambda>p. - pf_BlockNumber p) ?ps)" and ?c = "hd (sort_key (\<lambda>p. - pf_BlockNumber p) ?sent)"
  have p: "?p \<in> set ?ps" "\<forall>q \<in> set ?ps. pf_BlockNumber q \<le> pf_BlockNumber ?p" using hd_sort_key_desc [OF False, of pf_BlockNumber] by auto
  let ?e = "pf_BlockNumber ?p"
  have bnd: "1 \<le> n \<and> n < 2 ^ 63 - 1" if "n \<in> proved s" for n using num that unfolding numbersOk_def by blast
  have e: "?e \<in> proved s" "?e + 1 \<notin> proved s" "wrap64 (?e + 1) = ?e + 1" using p bnd [of ?e] by (auto simp: wrap64_id)
  let ?h = "case if ?sent = [] then None else Some ?c of None \<Rightarrow> 1 | Some c \<Rightarrow> wrap64 (pf_BlockNumber c + 1)"
  have h: "?h = lastSent s + 1 \<and> lastSent s \<le> ?e"
  proof (cases "?sent = []")
    case True
    then have none: "{p \<in> set ?ps. pf_Status p \<noteq> NotSent} = {}" by (auto simp: filter_empty_conv)
    have "lastSent s = 0" unfolding lastSent_def none by simp
    then show ?thesis using True bnd [OF e(1)] by simp
  next
    case f: False
    have c: "?c \<in> set ?sent" "\<forall>q \<in> set ?sent. pf_BlockNumber q \<le> pf_BlockNumber ?c" using hd_sort_key_desc [OF f, of pf_BlockNumber] by auto
    then have b: "1 \<le> pf_BlockNumber ?c \<and> pf_BlockNumber ?c < 2 ^ 63 - 1" "pf_BlockNumber ?c \<le> ?e" using bnd p(2) by auto
    have "lastSent s = pf_BlockNumber ?c" unfolding lastSent_def by (rule Max_eqI) (use b c in auto)
    then show ?thesis using f b by (simp add: wrap64_id)
  qed
  have "getNextWitnessToCheck s = scanProofs ?h ?e s"
    using up False by (simp add: getNextWitnessToCheck_def proof_queries run)
  then show ?thesis using scanProofs_spec [OF up e(1) _ e(3,2), of ?h] h by (auto simp: subset_eq)
qed

section \<open>Progress\<close>

definition published :: "Proving \<Rightarrow> int set" where
  "published s = bw_Height ` {w \<in> set (pv_Witness s). bw_Status w = StatusPublished}"

definition writable :: "Proving \<Rightarrow> bool" where
  "writable s \<longleftrightarrow> \<not> ru_down (pv_db s) \<and> \<not> ru_readOnly (pv_db s)"

text \<open>The prover can prove every witness of the table.\<close>

definition able :: "('x, 'g, 'w, 'p) Groth \<Rightarrow> int list \<Rightarrow> Proving \<Rightarrow> bool" where
  "able G sizes s \<longleftrightarrow> (\<forall>w. entry w \<in> set (entries s) \<longrightarrow> (\<exists>info. proofOf G sizes w = Encoded w info))"

definition proverReady :: "('x, 'g, 'w, 'p) Groth \<Rightarrow> int list \<Rightarrow> Proving \<Rightarrow> bool" where
  "proverReady G sizes s \<longleftrightarrow> logOk s \<and> writable s \<and> able G sizes s"

lemma published_update:
  assumes "logOk s" "entry w \<in> set (entries s)"
  shows "published (s\<lparr>pv_Witness := updateRow bw_ID (w\<lparr>bw_Status := st, bw_UpdatedAt := now\<rparr>) (pv_Witness s)\<rparr>) =
    (if st = StatusPublished then insert (bw_Height w) (published s) else published s - {bw_Height w})"
proof -
  obtain v where v: "v \<in> set (pv_Witness s)" "bw_ID v = bw_ID w" "bw_Height v = bw_Height w"
    using assms(2) by (auto simp: entry_def)
  then have u: "bw_ID x = bw_ID w \<longleftrightarrow> bw_Height x = bw_Height w" if "x \<in> set (pv_Witness s)" for x
    using logOk_id_unique [OF assms(1) that v(1)] logOk_height_unique [OF assms(1) that v(1)] by auto
  define f where "f = (\<lambda>x. if bw_ID x = bw_ID w then w\<lparr>bw_Status := st, bw_UpdatedAt := now\<rparr> else x)"
  have p: "published (s\<lparr>pv_Witness := updateRow bw_ID (w\<lparr>bw_Status := st, bw_UpdatedAt := now\<rparr>) (pv_Witness s)\<rparr>) =
      {h. \<exists>x \<in> set (pv_Witness s). bw_Status (f x) = StatusPublished \<and> h = bw_Height (f x)}"
  proof -
    have "updateRow bw_ID (w\<lparr>bw_Status := st, bw_UpdatedAt := now\<rparr>) (pv_Witness s) = map f (pv_Witness s)"
      by (simp add: updateRow_def f_def)
    then show ?thesis by (auto simp: published_def)
  qed
  have f: "bw_Height (f x) = bw_Height x \<and> bw_Status (f x) = (if bw_Height x = bw_Height w then st else bw_Status x)"
    if "x \<in> set (pv_Witness s)" for x using u [OF that] by (simp add: f_def)
  show ?thesis unfolding p using f v(1,3) by (cases st) (auto simp: published_def split: if_splits)
qed

lemma ready_set:
  assumes "proverReady G sizes s" "entry w \<in> set (entries s)"
  obtains t where "UpdateBlockWitnessStatus w st s = (Ok (), t)" "proverReady G sizes t" "entries t = entries s" "pv_db t = pv_db s"
    "published t = (if st = StatusPublished then insert (bw_Height w) (published s) else published s - {bw_Height w})"
proof -
  let ?t = "s\<lparr>pv_Witness := updateRow bw_ID (w\<lparr>bw_Status := st, bw_UpdatedAt := ru_now (pv_db s)\<rparr>) (pv_Witness s)\<rparr>"
  have l: "logOk s" and u: "UpdateBlockWitnessStatus w st s = (Ok (), ?t)"
    using assms by (simp_all add: proverReady_def writable_def UpdateBlockWitnessStatus_run)
  have k: "keepsLog s ?t" by (rule wm.setStatus_keeps [OF l assms(2) u])
  then have e: "entries ?t = entries s" by (simp add: keepsLog_def)
  moreover have "proverReady G sizes ?t"
    using assms(1) logOk_keeps [OF l k] keepsLog_set [OF k] by (simp add: proverReady_def writable_def able_def)
  ultimately show ?thesis using that u published_update [OF l assms(2)] by simp
qed

lemma storeProof_ready:
  assumes "proverReady G sizes s"
  obtains t where "storeProof w info s = (Ok (), t)" "proverReady G sizes t" "published t = published s"
    "proved t = insert (bw_Height w) (proved s)"
proof -
  let ?d = "(pv_db s)\<lparr>ru_nextId := ru_nextId (pv_db s) + 1, ru_Proof := ru_Proof (pv_db s) @
      [\<lparr>pf_ID = ru_nextId (pv_db s), pf_ProofInfo = info, pf_BlockNumber = bw_Height w, pf_Status = NotSent\<rparr>]\<rparr>"
  have up: "\<not> ru_down (pv_db s)" "\<not> ru_readOnly (pv_db s)" using assms by (simp_all add: proverReady_def writable_def)
  show ?thesis
  proof (cases "bw_Height w \<in> proved s")
    case True
    then have "storeProof w info s = (Ok (), s)" using up by (simp add: storeProof_def bnd_run attempt_def GetProof_run)
    then show ?thesis using that [of s] True assms by (simp add: insert_absorb)
  next
    case False
    then have "onDb (CreateProof info (bw_Height w) NotSent) s = (Ok (), s\<lparr>pv_db := ?d\<rparr>)"
      using up by (simp add: onDb_run CreateProof_def bnd_run thn_run failIf_run update_run)
    then have "storeProof w info s = (Ok (), s\<lparr>pv_db := ?d\<rparr>)"
      using up False by (simp add: storeProof_def bnd_run attempt_def GetProof_run)
    moreover have "proverReady G sizes (s\<lparr>pv_db := ?d\<rparr>)"
      using assms by (auto simp: proverReady_def writable_def able_def logOk_def)
    ultimately show ?thesis using that by (auto simp: published_def)
  qed
qed

text \<open>A pass proves the lowest published witness.\<close>

lemma ProveBlock_ready:
  assumes r: "proverReady G sizes s" and free: "TryAcquireLock answer = None"
  obtains t where "ProveBlock G sizes answer s = (Ok (), t)" "proverReady G sizes t"
    "if published s = {} then t = s else \<exists>h \<in> published s. (\<forall>k \<in> published s. h \<le> k) \<and>
       published t = published s - {h} \<and> proved t = insert h (proved s)"
proof (cases "published s = {}")
  case True
  then have "filter (\<lambda>w. bw_Status w = StatusPublished) (pv_Witness s) = []" by (auto simp: published_def filter_empty_conv)
  then have "GetLatestBlockWitness s = (Err DbErrNotFound, s)" using r by (simp add: GetLatestBlockWitness_def run proverReady_def writable_def)
  then have "ProveBlock G sizes answer s = (Ok (), s)"
    by (simp add: ProveBlock_def takeWitness_def free bnd_run thn_run failOn_run attempt_def)
  then show ?thesis using that r True by simp
next
  case False
  let ?xs = "filter (\<lambda>w. bw_Status w = StatusPublished) (pv_Witness s)"
  have ne: "?xs \<noteq> []" using False by (auto simp: published_def filter_empty_conv)
  define w where "w = hd (sort_key bw_Height ?xs)"
  have get: "GetLatestBlockWitness s = (Ok w, s)" using r ne by (simp add: GetLatestBlockWitness_def run proverReady_def writable_def w_def)
  from GetLatestBlockWitness_Ok [OF get] have w: "w \<in> set (pv_Witness s)" "bw_Status w = StatusPublished"
    "\<forall>k \<in> published s. bw_Height w \<le> k" by (auto simp: published_def)
  obtain u where u: "UpdateBlockWitnessStatus w StatusReceived s = (Ok (), u)" "proverReady G sizes u" "entries u = entries s"
      "pv_db u = pv_db s" "published u = published s - {bw_Height w}"
    using ready_set [OF r entry_in [OF w(1)], of StatusReceived] by auto
  obtain info where "proofOf G sizes w = Encoded w info" using r entry_in [OF w(1)] by (auto simp: proverReady_def able_def)
  then have prove: "proveWitness G sizes w u = reverting w (storeProof w info) u" using proveWitness_run [of G sizes w u] by simp
  obtain t where t: "storeProof w info u = (Ok (), t)" "proverReady G sizes t" "published t = published u"
      "proved t = insert (bw_Height w) (proved u)" using storeProof_ready [OF u(2)] .
  have "ProveBlock G sizes answer s = (Ok (), t)"
    by (simp add: ProveBlock_def takeWitness_def free bnd_run thn_run failOn_run attempt_def get u(1) prove reverting_run t(1))
  moreover have "bw_Height w \<in> published s" using w(1,2) by (auto simp: published_def)
  ultimately show ?thesis using that t(2) False w(3) t(3,4) u(4,5) by metis
qed

lemma finite_published [simp]: "finite (published s)" by (simp add: published_def)

text \<open>As many passes as there are published witnesses prove them all.\<close>

lemma ProveBlock_rounds:
  assumes "proverReady G sizes s" "\<forall>a \<in> set answers. TryAcquireLock a = None" "card (published s) \<le> length answers"
  shows "\<exists>t. forM answers (ProveBlock G sizes) s = (Ok (), t) \<and> proverReady G sizes t \<and> published t = {} \<and> proved t = proved s \<union> published s"
  using assms
proof (induction answers arbitrary: s)
  case (Cons a answers)
  obtain u where u: "ProveBlock G sizes a s = (Ok (), u)" "proverReady G sizes u"
    "if published s = {} then u = s else \<exists>h \<in> published s. (\<forall>k \<in> published s. h \<le> k) \<and>
       published u = published s - {h} \<and> proved u = insert h (proved s)"
    using ProveBlock_ready [OF Cons.prems(1), of a] Cons.prems(2) by auto
  have c: "card (published u) \<le> length answers \<and> proved u \<union> published u = proved s \<union> published s"
    using u(3) Cons.prems(3) by (cases "published s = {}") (auto simp: card_Diff_singleton)
  then show ?case using Cons.IH [OF u(2)] Cons.prems(2) u(1) by (auto simp: thn_run)
qed simp

text \<open>A witness that was taken and not proved in time is published again.\<close>

lemma Reschedule_stuck:
  assumes r: "proverReady G sizes s" and nxt: "getNextWitnessToCheck s = (Ok h, s)" and h: "h \<notin> proved s"
    and w: "w \<in> set (pv_Witness s)" "bw_Height w = h" "bw_UpdatedAt w + UnprovedBlockWitnessTimeout < ru_now (pv_db s)"
  obtains t where "RescheduleBlockWitness s = (Ok (), t)" "proverReady G sizes t" "published t = insert h (published s)" "proved t = proved s"
proof -
  have l: "logOk s" and up: "\<not> ru_down (pv_db s)" using r by (simp_all add: proverReady_def writable_def)
  let ?xs = "filter (\<lambda>w. bw_Height w = h) (pv_Witness s)"
  have ne: "?xs \<noteq> []" using w by (auto simp: filter_empty_conv)
  have "hd ?xs \<in> set ?xs" using ne by (rule hd_in_set)
  then have "hd ?xs = w" using logOk_height_unique [OF l _ w(1), of "hd ?xs"] w(2) by auto
  then have get: "GetBlockWitnessByHeight h s = (Ok w, s)" using ne up by (simp add: GetBlockWitnessByHeight_def run)
  obtain t where t: "UpdateBlockWitnessStatus w StatusPublished s = (Ok (), t)" "proverReady G sizes t" "pv_db t = pv_db s"
      "published t = insert h (published s)" using ready_set [OF r entry_in [OF w(1)], of StatusPublished] w(2) by auto
  show ?thesis
  proof (cases "bw_Status w = StatusPublished")
    case True
    then have "RescheduleBlockWitness s = (Ok (), s)" by (simp add: RescheduleBlockWitness_def bnd_run attempt_def nxt get)
    moreover have "h \<in> published s" using w True by (auto simp: published_def)
    ultimately show ?thesis using that r by (simp add: insert_absorb)
  next
    case False
    then have "RescheduleBlockWitness s = (Ok (), t)"
      using h w(3) by (simp add: RescheduleBlockWitness_def bnd_run attempt_def nxt get GetProof_run up t(1))
    then show ?thesis using that t by simp
  qed
qed

section \<open>Failures\<close>

lemma proveWitness_fails:
  assumes "proofOf G sizes w = Failing w"
  shows "\<exists>e. proveWitness G sizes w s = (Err e, snd (UpdateBlockWitnessStatus w StatusPublished s))"
proof -
  have "\<exists>e. fst (proveWitness G sizes w s) = Err e"
  proof (cases "fst (parseBlock G w ())")
    case (Ok b)
    let ?i = "keyIndexFrom 0 sizes (int (length (ck_Txs b)))"
    show ?thesis using assms Ok
      by (cases "fst (encodeProof G ?i b ())") (auto simp: proveWitness_def proofOf_def bnd_run reverting_run
        parseBlock_pure [of _ _ s] encodeProof_pure [of _ _ _ s] Let_def split: prod.splits if_splits)
  qed (use assms in \<open>auto simp: proveWitness_def proofOf_def bnd_run reverting_run parseBlock_pure [of _ _ s] split: prod.splits\<close>)
  then show ?thesis using proveWitness_run [of G sizes w s] assms by auto
qed

lemma proveWitness_no_key:
  assumes "gr_Unmarshal G (bw_WitnessData w) = Inr (Some b)" "int (length (ck_Txs b)) \<notin> set sizes"
  shows "proveWitness G sizes w s = (Err (ErrorsNew ''can't find correct vk/pk''), s)"
proof -
  have "keyIndexFrom 0 sizes (int (length (ck_Txs b))) = length sizes"
    using keyIndexFrom_found [of 0 sizes "int (length (ck_Txs b))"] assms(2) by (metis add_0 diff_zero nth_mem)
  then show ?thesis using assms(1) by (simp add: proveWitness_def bnd_run reverting_run parseBlock_def ofSum_run orPanic_run)
qed

text \<open>After a failure of the computation the witness is published again; without a key it stays taken.\<close>

lemma ProveBlock_taken:
  assumes l: "logOk s" and up: "writable s" and free: "TryAcquireLock answer = None" and get: "GetLatestBlockWitness s = (Ok w, s)"
  obtains u where "logOk u" "writable u" "entry w \<in> set (entries u)" "pv_db u = pv_db s" "published u = published s - {bw_Height w}"
    "bw_Height w \<in> published s" "ProveBlock G sizes answer s = proveWitness G sizes w u"
proof -
  have w: "w \<in> set (pv_Witness s)" "bw_Status w = StatusPublished" using GetLatestBlockWitness_Ok [OF get] by auto
  let ?u = "s\<lparr>pv_Witness := updateRow bw_ID (w\<lparr>bw_Status := StatusReceived, bw_UpdatedAt := ru_now (pv_db s)\<rparr>) (pv_Witness s)\<rparr>"
  have u: "UpdateBlockWitnessStatus w StatusReceived s = (Ok (), ?u)"
    using up by (simp add: UpdateBlockWitnessStatus_run [OF l entry_in [OF w(1)]] writable_def)
  have k: "keepsLog s ?u" by (rule wm.setStatus_keeps [OF l entry_in [OF w(1)] u])
  show ?thesis
  proof (rule that)
    show "logOk ?u" by (rule logOk_keeps [OF l k])
    show "entry w \<in> set (entries ?u)" using k entry_in [OF w(1)] unfolding keepsLog_def by metis
    show "published ?u = published s - {bw_Height w}" using published_update [OF l entry_in [OF w(1)], where st = StatusReceived] by simp
    show "bw_Height w \<in> published s" using w by (auto simp: published_def)
    show "ProveBlock G sizes answer s = proveWitness G sizes w ?u"
      by (simp add: ProveBlock_def takeWitness_def free bnd_run thn_run failOn_run attempt_def get u)
  qed (use up in \<open>simp_all add: writable_def\<close>)
qed

lemma ProveBlock_fails:
  assumes "logOk s" "writable s" "TryAcquireLock answer = None" "GetLatestBlockWitness s = (Ok w, s)" "proofOf G sizes w = Failing w"
  shows "\<exists>e t. ProveBlock G sizes answer s = (Err e, t) \<and> published t = published s \<and> pv_db t = pv_db s"
proof -
  obtain u where u: "logOk u" "writable u" "entry w \<in> set (entries u)" "pv_db u = pv_db s" "published u = published s - {bw_Height w}"
    "bw_Height w \<in> published s" "ProveBlock G sizes answer s = proveWitness G sizes w u" using ProveBlock_taken [OF assms(1-4)] .
  obtain e where e: "proveWitness G sizes w u = (Err e, snd (UpdateBlockWitnessStatus w StatusPublished u))"
    using proveWitness_fails [OF assms(5)] by blast
  have t: "snd (UpdateBlockWitnessStatus w StatusPublished u) =
      u\<lparr>pv_Witness := updateRow bw_ID (w\<lparr>bw_Status := StatusPublished, bw_UpdatedAt := ru_now (pv_db u)\<rparr>) (pv_Witness u)\<rparr>"
    using u(2) by (simp add: UpdateBlockWitnessStatus_run [OF u(1,3)] writable_def)
  show ?thesis using e u published_update [OF u(1,3), where st = StatusPublished] by (auto simp: t insert_absorb)
qed

lemma ProveBlock_no_key:
  assumes "logOk s" "writable s" "TryAcquireLock answer = None" "GetLatestBlockWitness s = (Ok w, s)"
    "gr_Unmarshal G (bw_WitnessData w) = Inr (Some b)" "int (length (ck_Txs b)) \<notin> set sizes"
  shows "\<exists>t. ProveBlock G sizes answer s = (Err (ErrorsNew ''can't find correct vk/pk''), t) \<and>
    published t = published s - {bw_Height w} \<and> bw_Height w \<in> published s \<and> pv_db t = pv_db s"
proof -
  obtain u where u: "pv_db u = pv_db s" "published u = published s - {bw_Height w}"
    "bw_Height w \<in> published s" "ProveBlock G sizes answer s = proveWitness G sizes w u" using ProveBlock_taken [OF assms(1-4)] .
  then show ?thesis using proveWitness_no_key [OF assms(5,6), of u] by auto
qed

section \<open>From the prover to the sender\<close>

text \<open>\<open>e\<close> are the elements of a proof that was accepted for the witness at height \<open>h\<close>.\<close>

definition provenElements :: "('x, 'g, 'w, 'p) Groth \<Rightarrow> int list \<Rightarrow> Proving \<Rightarrow> int \<Rightarrow> int list \<Rightarrow> bool" where
  "provenElements G sizes s h e \<longleftrightarrow> length e = 8 \<and> (\<exists>w \<in> set (pv_Witness s). bw_Height w = h \<and>
     (\<exists>b proof raw. gr_Unmarshal G (bw_WitnessData w) = Inr (Some b) \<and> verified G sizes b proof \<and>
        gr_WriteRawTo G proof = Inr raw \<and> rawElements raw = Some e))"

lemma those_length: "those xs = Some ys \<Longrightarrow> length ys = length xs"
  by (induction xs arbitrary: ys) (auto split: option.splits)

lemma rawElements_length: "rawElements bs = Some e \<Longrightarrow> length e = 8"
  using those_length by (fastforce simp: rawElements_def)

lemma formatted_elements:
  assumes "length e = 8"
  shows "fp_A (formatted b e) @ [fp_B (formatted b e) ! 0 ! 0, fp_B (formatted b e) ! 0 ! 1, fp_B (formatted b e) ! 1 ! 0,
    fp_B (formatted b e) ! 1 ! 1] @ fp_C (formatted b e) @ rest = e @ rest"
proof -
  obtain a0 a1 a2 a3 a4 a5 a6 a7 where "e = [a0, a1, a2, a3, a4, a5, a6, a7]"
    using assms by (auto simp: length_Suc_conv eval_nat_numeral)
  then show ?thesis by (simp add: formatted_def eval_nat_numeral)
qed

lemma proofElements_proven:
  assumes dec: "\<And>f info. gr_MarshalProof G f = Inr info \<Longrightarrow> l1_UnmarshalProof L info = Inr f"
    and ok: "proofsOk G sizes (set (entries s)) (ru_Proof (pv_db s))" and sub: "set ps \<subseteq> set (ru_Proof (pv_db s))"
  shows "\<exists>ess. proofElements L ps d = (Ok (concat ess), d) \<and> list_all2 (\<lambda>p. provenElements G sizes s (pf_BlockNumber p)) ps ess"
  using sub
proof (induction ps)
  case (Cons p ps)
  obtain k data where e: "(k, pf_BlockNumber p, data) \<in> set (entries s)" "proves G sizes data (pf_ProofInfo p)"
    using ok Cons.prems unfolding proofsOk_def by (meson list.set_intros(1) subsetD)
  then obtain w where w: "w \<in> set (pv_Witness s)" "bw_Height w = pf_BlockNumber p" "bw_WitnessData w = data"
    by (auto simp: entry_def)
  obtain b pr raw es where pr: "gr_Unmarshal G data = Inr (Some b)" "verified G sizes b pr" "gr_WriteRawTo G pr = Inr raw"
      "rawElements raw = Some es" "gr_MarshalProof G (formatted b es) = Inr (pf_ProofInfo p)"
    using e(2) by (auto simp: proves_def)
  note len = rawElements_length [OF pr(4)]
  have "provenElements G sizes s (pf_BlockNumber p) es" using w pr len unfolding provenElements_def by blast
  moreover obtain ess where ess: "proofElements L ps d = (Ok (concat ess), d)" "list_all2 (\<lambda>p. provenElements G sizes s (pf_BlockNumber p)) ps ess"
    using Cons by auto
  moreover have "proofElements L (p # ps) d = (Ok (es @ concat ess), d)"
    using formatted_elements [OF len, of b "concat ess"] by (simp add: bnd_run ofSum_run dec [OF pr(5)] ess(1))
  ultimately show ?case by (intro exI [of _ "es # ess"]) simp
qed simp

lemma list_all2_numbers:
  assumes "list_all2 (\<lambda>p. P (f p)) ps es" "map f ps = map g bs"
  shows "list_all2 (\<lambda>b. P (g b)) bs es"
proof -
  have "list_all2 P (map f ps) es" using assms(1) by (simp add: list_all2_map1)
  then show ?thesis by (simp add: assms(2) list_all2_map1)
qed

end
