(* ===== verification/Zk_SamplePv.thy ===== *)
theory Zk_SamplePv
  imports Ref_Proving Zk_SampleL1
begin

text \<open>
  A small instance of the proving pipeline: a proof system that accepts every block of one
  transaction, an empty database, and the state after one witness was published and proved.
\<close>

definition sampleElement :: "int \<Rightarrow> byte list" where
  "sampleElement n = replicate 31 0 @ [word_of_int n]"

definition sampleRaw :: "byte list" where
  "sampleRaw = concat (map sampleElement [1, 2, 3, 4, 5, 6, 7, 8])"

definition sampleFormatted :: FormattedProof where
  "sampleFormatted = \<lparr>fp_A = [1, 2], fp_B = [[3, 4], [5, 6]], fp_C = [7, 8], fp_Inputs = [9, 10, 11]\<rparr>"

definition sampleGroth :: "(unit, unit, unit, unit) Groth" where
  "sampleGroth = \<lparr>gr_Unmarshal = (\<lambda>_. Inr (Some \<lparr>ck_BlockNumber = 1, ck_CreatedAt = 0, ck_OldStateRoot = [9], ck_NewStateRoot = [10],
       ck_BlockCommitment = [11], ck_Txs = [()], ck_Gas = ()\<rparr>)),
     gr_SetBlockWitness = (\<lambda>_. Inr ()), gr_NewWitness = Inr, gr_PublicWitness = (\<lambda>_ _ _. Inr ()), gr_Prove = (\<lambda>_ _. Inr ()),
     gr_Verify = (\<lambda>_ _ _. None), gr_WriteRawTo = (\<lambda>_. Inr sampleRaw),
     gr_MarshalProof = (\<lambda>f. if f = sampleFormatted then Inr [] else Inl JsonErrMarshal)\<rparr>"

definition sampleWitness :: BlockWitness where
  "sampleWitness = \<lparr>bw_ID = 0, bw_UpdatedAt = 0, bw_Height = 1, bw_WitnessData = ''witness'', bw_Status = StatusPublished\<rparr>"

definition samplePipe :: Proving where
  "samplePipe = \<lparr>pv_db = sampleRollup\<lparr>ru_Proof := []\<rparr>, pv_Witness = []\<rparr>"

definition sampleOpen :: "nat \<Rightarrow> err + bool" where "sampleOpen = (\<lambda>_. Inr True)"

text \<open>Published; taken and lost; proved.\<close>

definition samplePublished :: Proving where
  "samplePublished = snd (CreateBlockWitness sampleWitness samplePipe)"

definition sampleProved :: Proving where
  "sampleProved = snd (ProveBlock sampleGroth [1] sampleOpen samplePublished)"

lemma sample_steps: "(pipeline_step sampleGroth [1])\<^sup>*\<^sup>* (samplePipe, \<lambda>_. Idle) (sampleProved, \<lambda>_. Idle)"
proof -
  have "pipeline_step sampleGroth [1] (samplePipe, \<lambda>_. Idle) (samplePublished, \<lambda>_. Idle)"
    by (rule pipeline_step.publish [of sampleWitness _ "fst (CreateBlockWitness sampleWitness samplePipe)"])
      (simp_all add: sampleWitness_def samplePublished_def)
  moreover have "(pipeline_step sampleGroth [1])\<^sup>*\<^sup>* (samplePublished, \<lambda>_. Idle) (sampleProved, \<lambda>_. Idle)"
    by (rule ProveBlock_steps [where i = 0 and answer = sampleOpen and r = "fst (ProveBlock sampleGroth [1] sampleOpen samplePublished)"])
      (simp_all add: sampleProved_def)
  ultimately show ?thesis by (rule converse_rtranclp_into_rtranclp)
qed

lemma sample_empty: "pv_Witness samplePipe = []" "ru_Proof (pv_db samplePipe) = []"
  by (simp_all add: samplePipe_def)

lemma sample_proved: "map pf_BlockNumber (ru_Proof (pv_db sampleProved)) = [1]" "map bw_Status (pv_Witness sampleProved) = [StatusReceived]"
  by code_simp+

text \<open>The row of the published witness.\<close>

definition sampleRow :: BlockWitness where
  "sampleRow = sampleWitness\<lparr>bw_ID := 2\<rparr>"

lemma samplePublished_eq: "samplePublished = \<lparr>pv_db = sampleRollup\<lparr>ru_Proof := [], ru_nextId := 3\<rparr>, pv_Witness = [sampleRow]\<rparr>"
  by (simp add: samplePublished_def samplePipe_def sampleRow_def sampleWitness_def CreateBlockWitness_def witnessWrite_def
    insertWitness_def sampleRollup_def run)

lemma sample_published: "logOk samplePublished" "writable samplePublished" "TryAcquireLock sampleOpen = None"
  "GetLatestBlockWitness samplePublished = (Ok sampleRow, samplePublished)"
  by (simp_all add: samplePublished_eq logOk_def writable_def sampleRollup_def sampleRow_def sampleWitness_def TryAcquireLock_def sampleOpen_def
    GetLatestBlockWitness_def run)

text \<open>The witness was taken and not proved in time.\<close>

definition sampleStuck :: Proving where
  "sampleStuck = \<lparr>pv_db = sampleRollup\<lparr>ru_Proof := [], ru_nextId := 3, ru_now := 700000\<rparr>, pv_Witness = [sampleRow\<lparr>bw_Status := StatusReceived\<rparr>]\<rparr>"

lemma sample_able: "proofOf sampleGroth [1] w = Encoded w []"
proof -
  have "encodeProof sampleGroth 0 \<lparr>ck_BlockNumber = 1, ck_CreatedAt = 0, ck_OldStateRoot = [9], ck_NewStateRoot = [10],
       ck_BlockCommitment = [11], ck_Txs = [()], ck_Gas = ()\<rparr> () = (Ok [], ())" by code_simp
  then show ?thesis by (simp add: proofOf_def parseBlock_def run sampleGroth_def)
qed

lemma sample_stuck: "proverReady sampleGroth [1] sampleStuck" "numbersOk sampleStuck" "lastSent sampleStuck = 0" "proved sampleStuck = {}"
  "published sampleStuck = {}"
  by (simp_all add: proverReady_def able_def sample_able logOk_def writable_def numbersOk_def lastSent_def published_def sampleStuck_def
    sampleRollup_def sampleRow_def sampleWitness_def)

end
