(* ===== verification/Zk_Fullnode.thy ===== *)
theory Zk_Fullnode
  imports Zk_Store
begin

text \<open>
  The full node (src/service/fullnode/fullnode/fullnode.go): it asks another node for the block at the
  next height, executes its transactions and stores the block when the state roots agree. The client of
  the other node (zkbnb-go-sdk) is a parameter: what it answers for a height.
\<close>

text \<open>What the full node reads of a block of the SDK.\<close>

record RemoteTx =
  rx_Hash :: string
  rx_Type :: int
  rx_Info :: string

record RemoteBlock =
  rb_Status :: int
  rb_CommittedAt :: int
  rb_CommittedTxHash :: string
  rb_Commitment :: string
  rb_VerifiedAt :: int
  rb_VerifiedTxHash :: string
  rb_StateRoot :: string
  rb_Size :: int
  rb_Txs :: "RemoteTx list"

text \<open>The statuses of a block are the numbers from 1.\<close>

definition statusNo :: "blockStatus \<Rightarrow> int" where
  "statusNo st = (case st of StatusProposing \<Rightarrow> 1 | BlockPending \<Rightarrow> 2 | BlockCommitted \<Rightarrow> 3 | StatusVerifiedAndExecuted \<Rightarrow> 4)"

text \<open>The configured status, or verified when it is out of range.\<close>

definition NewFullnode :: "int \<Rightarrow> blockStatus" where
  "NewFullnode syncBlockStatus =
     (if syncBlockStatus \<le> statusNo StatusProposing \<or> statusNo StatusVerifiedAndExecuted < syncBlockStatus then StatusVerifiedAndExecuted
      else if syncBlockStatus = statusNo BlockPending then BlockPending
      else if syncBlockStatus = statusNo BlockCommitted then BlockCommitted else StatusVerifiedAndExecuted)"

definition remoteTx :: "RemoteTx \<Rightarrow> Tx" where
  "remoteTx x = \<lparr>tx_ID = 0, tx_TxHash = rx_Hash x, tx_TxType = rx_Type x, tx_TxInfo = rx_Info x, tx_AccountIndex = 0, tx_Nonce = 0,
     tx_ExpiredAt = 0, tx_GasFee = [], tx_GasFeeAssetId = 0, tx_NftIndex = 0, tx_CollectionId = 0, tx_AssetId = 0, tx_TxAmount = [],
     tx_NativeAddress = [], tx_TxDetails = [], tx_TxIndex = 0, tx_BlockHeight = 0, tx_TxStatus = StatusFailed\<rparr>"

text \<open>The time and the commitment of the current block are set from the block that was read.\<close>

definition setInfo :: "RemoteBlock \<Rightarrow> Block \<Rightarrow> Block" where
  "setInfo l2Block b = (let b = b\<lparr>bk_CreatedAt := rb_CommittedAt l2Block\<rparr> in
     if statusNo BlockCommitted \<le> rb_Status l2Block then b\<lparr>bk_BlockCommitment := rb_Commitment l2Block\<rparr> else b)"

text \<open>The same block object carries the stamps of L1 to its row.\<close>

definition stampedRow :: "RemoteBlock \<Rightarrow> Block \<Rightarrow> BlockRow" where
  "stampedRow l2Block b = (let r = blockRow 0 b;
     r = (if statusNo BlockCommitted \<le> rb_Status l2Block
          then r\<lparr>bk_CommittedAt := rb_CommittedAt l2Block, bk_CommittedTxHash := rb_CommittedTxHash l2Block\<rparr> else r) in
     if rb_Status l2Block = statusNo StatusVerifiedAndExecuted
     then r\<lparr>bk_VerifiedAt := rb_VerifiedAt l2Block, bk_VerifiedTxHash := rb_VerifiedTxHash l2Block\<rparr> else r)"

definition processNewBlock :: "('t, 'd) Smt \<Rightarrow> Lib \<Rightarrow> blockStatus \<Rightarrow> RemoteBlock \<Rightarrow> ('t, 'd, Block) serviceM" where
  "processNewBlock T X status l2Block =
     bnd (gets (\<lambda>s. bk_CreatedAt (w_currentBlock (worldOf s)))) (\<lambda>createdAt.
     bnd (onNode (CommitNewBlock T X (rb_Size l2Block) createdAt)) (\<lambda>blockStates.
     let newBlock = (bs_Block blockStates)\<lparr>bk_BlockStatus := status\<rparr> in
     thn (onChain (modify (\<lambda>w. w\<lparr>w_currentBlock := newBlock\<rparr>)))
     (thn (onChain (SyncGasAccountToRedis X))
     (thn (mustOk ''sync redis cache failed'' (onChain (SyncStateCacheToRedis X)))
     (thn (storing (thn (storeStates blockStates) (CreateBlockInTransact (stampedRow l2Block newBlock))))
          (ret newBlock))))))"

text \<open>A transaction that fails is logged and skipped.\<close>

definition applyRemote :: "Lib \<Rightarrow> RemoteTx list \<Rightarrow> ('t, 'd, unit) serviceM" where
  "applyRemote X txs = forM txs (\<lambda>x. bnd (attempt (onChain (CommitProcessor_Process X (remoteTx x)))) (\<lambda>_. ret ()))"

text \<open>The next block is proposed when the current one is stored.\<close>

definition nextHeight :: "Lib \<Rightarrow> int \<Rightarrow> ('t, 'd, int) serviceM" where
  "nextHeight X curHeight =
     bnd (gets (\<lambda>s. bk_BlockStatus (w_currentBlock (worldOf s)))) (\<lambda>status.
     if status \<noteq> StatusProposing then
       thn (mustOk ''init new block failed'' (onChain (InitNewBlock X)))
       (thn (modify (\<lambda>s. s\<lparr>sv_blockID := 0\<rparr>)) (ret (wrap64 (curHeight + 1))))
     else ret curHeight)"

text \<open>One tick of the loop of \<open>Run\<close>, from the height it holds to the next one.\<close>

definition Fullnode_tick :: "('t, 'd) Smt \<Rightarrow> Lib \<Rightarrow> blockStatus \<Rightarrow> (int \<Rightarrow> err + RemoteBlock) \<Rightarrow> int \<Rightarrow> ('t, 'd, int) serviceM" where
  "Fullnode_tick T X syncBlockStatus client curHeight =
     bnd (nextHeight X curHeight) (\<lambda>height.
     case client height of Inl _ \<Rightarrow> ret height
     | Inr l2Block \<Rightarrow>
         if rb_Status l2Block < statusNo syncBlockStatus then ret height
         else
           thn (onChain (modify (\<lambda>w. w\<lparr>w_currentBlock := setInfo l2Block (w_currentBlock w)\<rparr>)))
           (bnd (gets (\<lambda>s. bk_StateRoot (w_currentBlock (worldOf s)))) (\<lambda>stateRoot.
            thn (onChain (PurgeCache X stateRoot))
            (thn (applyRemote X (rb_Txs l2Block))
            (thn (mustOk ''calculate state root failed'' (onNode (IntermediateRoot T X True)))
            (bnd (gets (\<lambda>s. sc_StateRoot (w_sc (worldOf s)))) (\<lambda>local.
             if local \<noteq> rb_StateRoot l2Block then panic ''state root not matched between statedb and l2block''
             else thn (mustOk ''new block failed'' (processNewBlock T X syncBlockStatus l2Block)) (ret height))))))))"

end
