(* ===== verification/Ref_Fullnode.thy ===== *)
theory Ref_Fullnode
  imports Zk_Fullnode Ref_Pass
begin

text \<open>
  What a tick of the full node stores: a block whose state root is the one of the block it read, at the
  height it asked for, or nothing.
\<close>

section \<open>The state root without dirty entries\<close>

definition rootText :: "('t, 'd) Smt \<Rightarrow> Lib \<Rightarrow> ('t, 'd) Node \<Rightarrow> string" where
  "rootText T X n = x_Bytes2Hex X (k_Mimc T (k_Root T (n_AccountTree n) @ k_Root T (n_NftTree n)))"

definition clean :: "StateCache \<Rightarrow> bool" where
  "clean c \<longleftrightarrow> sc_dirtyAccountsAndAssetsMap c = [] \<and> sc_dirtyNftMap c = []"

lemma IntermediateRoot_True:
  assumes "IntermediateRoot T X True n = (Ok u, m)"
  shows "sc_StateRoot (w_sc (n_world m)) = rootText T X m \<and> w_currentBlock (n_world m) = w_currentBlock (n_world n) \<and>
    clean (w_sc (n_world m))"
proof -
  let ?P = "\<lambda>c b d. clean c \<and> b = w_currentBlock (n_world n)"
  let ?n1 = "n\<lparr>n_world := updSc (\<lambda>c. c\<lparr>sc_dirtyAccountsAndAssetsMap := [], sc_dirtyNftMap := []\<rparr>) (n_world n)\<rparr>"
  from assms obtain f g ks ls items items' n2 n3 ta tn where 2: "collect (\<lambda>i. updateAccountTree T X i (f i)) ks ?n1 = (Ok items, n2)" and
    3: "collect (updateNftTree T X) ls n2 = (Ok items', n3)" and
    m: "m = n3\<lparr>n_AccountTree := ta, n_NftTree := tn, n_world := updSc (\<lambda>c. c\<lparr>sc_StateRoot :=
         x_Bytes2Hex X (k_Mimc T (k_Root T ta @ k_Root T tn))\<rparr>) (n_world n3)\<rparr>"
    by (auto simp: IntermediateRoot_def bnd_run thn_run onWorld_run failIf_run split: prod.splits res.splits if_splits)
  have k: "keeps (\<lambda>n. booked ?P (n_world n)) (collect (\<lambda>i. updateAccountTree T X i (f i)) ks)"
    "keeps (\<lambda>n. booked ?P (n_world n)) (collect (updateNftTree T X) ls)"
    by (rule collect_calm updateTree_booked)+
  have "booked ?P (n_world ?n1)" by (simp add: updSc_def clean_def)
  then have "booked ?P (n_world n3)" using keepsD [OF k(2) _ 3] keepsD [OF k(1) _ 2] by blast
  then show ?thesis by (simp add: m rootText_def updSc_def clean_def)
qed

lemma IntermediateRoot_clean:
  assumes "smt_ok T leaf rootOf" "range_ok X" "clean (w_sc (n_world n))" "sc_StateRoot (w_sc (n_world n)) = rootText T X n"
    "IntermediateRoot T X False n = (r, m)"
  shows "r = Ok () \<and> n_world m = n_world n"
proof -
  have x: "x_range X [] = []" using assms(2) by (metis range_ok_def set_empty)
  obtain ta where ta: "k_MultiSet T [] (n_AccountTree n) = (None, ta)" "leaf ta = leaf (n_AccountTree n)"
    by (rule smt_MultiSet [OF assms(1), of "[]" "n_AccountTree n"]) auto
  obtain tn where tn: "k_MultiSet T [] (n_NftTree n) = (None, tn)" "leaf tn = leaf (n_NftTree n)"
    by (rule smt_MultiSet [OF assms(1), of "[]" "n_NftTree n"]) auto
  have root: "k_Root T t = rootOf (leaf t)" for t using assms(1) by (simp add: smt_ok_def)
  have "updSc (\<lambda>c. c\<lparr>sc_StateRoot := rootText T X n\<rparr>) (n_world n) = n_world n"
    using assms(4) by (simp add: updSc_def flip: assms(4))
  then show ?thesis using assms(3,5)
    by (simp add: IntermediateRoot_def bnd_run thn_run failIf_run clean_def mkeys_def dirtyKeys_def x ta tn root rootText_def)
      (auto simp: ta tn root)
qed

section \<open>Sealing\<close>

lemma CommitNewBlock_clean:
  assumes T: "smt_ok T leaf rootOf" "range_ok X" and c: "clean (w_sc (n_world n))" "sc_StateRoot (w_sc (n_world n)) = rootText T X n"
    and p: "bk_BlockStatus (w_currentBlock (n_world n)) = StatusProposing" and go: "CommitNewBlock T X sz t0 n = (Ok bs, m)"
  shows "bk_StateRoot (bs_Block bs) = sc_StateRoot (w_sc (n_world n)) \<and> bk_BlockHeight (bs_Block bs) = bk_BlockHeight (w_currentBlock (n_world n)) \<and>
    cb_StateRoot (bs_CompressedBlock bs) = sc_StateRoot (w_sc (n_world n)) \<and>
    cb_BlockHeight (bs_CompressedBlock bs) = bk_BlockHeight (w_currentBlock (n_world n))"
proof -
  from go obtain b cb n1 where 1: "commitNewBlock T X sz t0 n = (Ok (b, cb), n1)" and bs: "bs_Block bs = b" "bs_CompressedBlock bs = cb"
    by (auto simp: CommitNewBlock_def elim!: bnd_OkE thn_OkE)
  obtain r n2 where ir: "IntermediateRoot T X False n = (r, n2)" by fastforce
  from IntermediateRoot_clean [OF T c ir] have 2: "r = Ok ()" "n_world n2 = n_world n" by auto
  have al: "sc_StateRoot c' = sc_StateRoot c0" if "AlignPubData X sz c0 = Some c'" for c' c0
    using that by (auto simp: AlignPubData_def Let_def split: if_splits)
  from 1 obtain c' commitment where "AlignPubData X sz (w_sc (n_world n)) = Some c'" "b = sealBlock X sz commitment c' (w_currentBlock (n_world n))"
    "cb_StateRoot cb = bk_StateRoot b" "cb_BlockHeight cb = bk_BlockHeight b"
    by (auto simp: commitNewBlock_def Let_def p bnd_run thn_run failIf_run orPanic_run ir 2 split: if_splits option.splits prod.splits res.splits)
  then show ?thesis using al by (auto simp: bs sealBlock_def)
qed

section \<open>Tables\<close>

lemma onNode_keepsTables: "(\<And>d. keeps (\<lambda>n. sameDb d (n_world n)) m) \<Longrightarrow> keeps (sameTables s) (onNode m)"
  by (auto simp: keeps_def onNode_def sameTables_def split: prod.splits) (metis snd_conv)

lemma onChain_keepsTables: "(\<And>d. keeps (sameDb d) m) \<Longrightarrow> keeps (sameTables s) (onChain m)"
  unfolding onChain_def by (intro onNode_keepsTables keeps_onWorld)

lemma sync_booked: "keeps (booked P) (SyncStateCacheToRedis X)" "keeps (booked P) (SyncGasAccountToRedis X)"
  unfolding SyncStateCacheToRedis_def syncPendingAccount_def syncPendingNft_def SyncGasAccountToRedis_def Redis_SetAccount_def Redis_SetNft_def
    AccountCache_Add_def NftCache_Add_def Let_def
  by (rule keep keeps_modify keeps_AccountCache_Get | simp add: keeps_def at_run)+

lemmas SyncStateCache_db = sync_booked(1) [of "\<lambda>_ _ x. x = d" for d]

lemma InitNewBlock_db: "keeps (sameDb d) (InitNewBlock X)"
  unfolding InitNewBlock_def MarkGasAccountAsPending_def PurgeCache_def Let_def
  by (rule keep keeps_modify GetFormatAccount_db | simp add: updSc_def)+

lemma Process_db: "keeps (sameDb d) (CommitProcessor_Process X tx)"
proof
  fix w assume "sameDb d w"
  then show "sameDb d (snd (CommitProcessor_Process X tx w))"
    using Process_grow [of X tx w] by (cases "CommitProcessor_Process X tx w") (simp add: grown_def)
qed

lemma prefix_tables:
  "keeps (sameTables s) (nextHeight X h)" "keeps (sameTables s) (applyRemote X txs)"
  "keeps (sameTables s) (onChain (modify (\<lambda>w. w\<lparr>w_currentBlock := f w\<rparr>)))" "keeps (sameTables s) (onChain (PurgeCache X r))"
  "keeps (sameTables s) (onNode (IntermediateRoot T X b))" "keeps (sameTables s) (onNode (CommitNewBlock T X z t0))"
  "keeps (sameTables s) (onChain (SyncGasAccountToRedis X))" "keeps (sameTables s) (onChain (SyncStateCacheToRedis X))"
  unfolding nextHeight_def applyRemote_def PurgeCache_def
  by (rule keep onChain_keepsTables onNode_keepsTables InitNewBlock_db Process_db IntermediateRoot_db CommitNewBlock_db SyncGasAccount_db SyncStateCache_db
    keeps_modify | simp add: sameTables_def updSc_def keeps_def)+

text \<open>The block and its height.\<close>

lemma nextHeight_block:
  assumes "nextHeight X h s = (Ok h', t)" "bk_BlockHeight (w_currentBlock (worldOf s)) = h"
  shows "bk_BlockHeight (w_currentBlock (worldOf t)) = h' \<and> bk_BlockStatus (w_currentBlock (worldOf t)) = StatusProposing"
proof -
  have k: "keeps (\<lambda>w. w_currentBlock w = b) (MarkGasAccountAsPending X)" for b
    unfolding MarkGasAccountAsPending_def
    by (rule keep keeps_modify GetFormatAccount_booked [of "\<lambda>_ c _. c = b"] | simp add: updSc_def)+
  have i: "bk_BlockHeight (w_currentBlock v) = wrap64 (bk_BlockHeight (w_currentBlock w) + 1) \<and> bk_BlockStatus (w_currentBlock v) = StatusProposing"
    if "InitNewBlock X w = (Ok r, v)" for r v w
  proof -
    let ?b = "\<lparr>bk_BlockHeight = wrap64 (bk_BlockHeight (w_currentBlock w) + 1), bk_StateRoot = bk_StateRoot (w_currentBlock w),
       bk_BlockStatus = StatusProposing, bk_CreatedAt = zeroTimeMilli, bk_BlockSize = 0, bk_BlockCommitment = [], bk_PriorityOperations = 0,
       bk_PendingOnChainOperationsHash = [], bk_PendingOnChainOperationsPubData = [], bk_Txs = []\<rparr>"
    let ?w = "updSc (\<lambda>_. NewStateCache X (bk_StateRoot (w_currentBlock w))) (w\<lparr>w_currentBlock := ?b\<rparr>)"
    from that obtain x where "MarkGasAccountAsPending X ?w = (Ok x, v)"
      by (auto simp: InitNewBlock_def PurgeCache_def bnd_run thn_run Let_def split: prod.splits res.splits)
    from keepsD [OF k [of ?b] _ this] have "w_currentBlock v = ?b" by (simp add: updSc_def)
    then show ?thesis by simp
  qed
  show ?thesis using assms i
    by (auto simp: nextHeight_def bnd_run thn_run mustOk_def onChain_def onNode_def onWorld_run split: if_splits prod.splits res.splits)
qed

lemma applyRemote_block:
  assumes "applyRemote X txs s = (r, t)"
  shows "untimed (w_currentBlock (worldOf t)) = untimed (w_currentBlock (worldOf s))"
proof -
  have "keeps (\<lambda>w. untimed (w_currentBlock w) = b) (CommitProcessor_Process X tx)" for tx b
  proof
    fix w :: World assume "untimed (w_currentBlock w) = b"
    then show "untimed (w_currentBlock (snd (CommitProcessor_Process X tx w))) = b"
      using Process_grow [of X tx w] by (cases "CommitProcessor_Process X tx w") (simp add: grown_def)
  qed
  then have "keeps (\<lambda>s. untimed (w_currentBlock (worldOf s)) = b) (onChain (CommitProcessor_Process X tx))" for tx and b
    by (simp add: keeps_def onChain_def onNode_def onWorld_run split_beta)
  then have "keeps (\<lambda>s. untimed (w_currentBlock (worldOf s)) = b) (applyRemote X txs)" for b
    unfolding applyRemote_def by (intro keep)
  from keepsD [OF this [of "untimed (w_currentBlock (worldOf s))"] _ assms] show ?thesis by simp
qed

lemma untimed_eqD: "untimed a = untimed b \<Longrightarrow> bk_BlockHeight a = bk_BlockHeight b \<and> bk_BlockStatus a = bk_BlockStatus b"
  by (metis (no_types, lifting) untimed_def Block.select_convs(1,3) Block.surjective Block.update_convs(4))

section \<open>Storing the block\<close>

definition followed :: "blockStatus \<Rightarrow> int \<Rightarrow> string \<Rightarrow> ('t, 'd) Service \<Rightarrow> ('t, 'd) Service \<Rightarrow> bool" where
  "followed st h root s t \<longleftrightarrow> (\<exists>row cb. ru_Block (sv_rollup t) = ru_Block (sv_rollup s) @ [row] \<and> bk_BlockHeight row = h \<and>
     bk_StateRoot row = root \<and> bk_BlockStatus row = st \<and> ru_CompressedBlock (sv_rollup t) = ru_CompressedBlock (sv_rollup s) @ [cb] \<and>
     cb_BlockHeight cb = h \<and> cb_StateRoot cb = root) \<and> bk_BlockHeight (w_currentBlock (worldOf t)) = h \<and>
     bk_BlockStatus (w_currentBlock (worldOf t)) = st"

lemma stampedRow_block: "bk_BlockHeight (stampedRow l b) = bk_BlockHeight b" "bk_StateRoot (stampedRow l b) = bk_StateRoot b"
  "bk_BlockStatus (stampedRow l b) = bk_BlockStatus b"
  by (simp_all add: stampedRow_def Let_def blockRow_def Block.defs BlockRow.defs)

lemma rowsStored_block: "rowsStored as ns w w' \<Longrightarrow> w_currentBlock w' = w_currentBlock w"
  by (auto simp: rowsStored_def)

lemma thn_assoc: "thn (thn m n) k = thn m (thn n k)"
  by (simp add: thn_def bnd_assoc)

lemma onChain_modify: "onChain (modify f) s = (Ok (), s\<lparr>sv_node := (sv_node s)\<lparr>n_world := f (worldOf s)\<rparr>\<rparr>)"
  by (simp add: onChain_def onNode_def onWorld_run)

lemma sync_block:
  assumes "thn (onChain (modify (\<lambda>w. w\<lparr>w_currentBlock := b\<rparr>))) (thn (onChain (SyncGasAccountToRedis X))
      (mustOk msg (onChain (SyncStateCacheToRedis X)))) s = (r, t)"
  shows "w_currentBlock (worldOf t) = b"
proof -
  let ?s = "s\<lparr>sv_node := (sv_node s)\<lparr>n_world := (worldOf s)\<lparr>w_currentBlock := b\<rparr>\<rparr>\<rparr>"
  have on: "keeps (\<lambda>s. w_currentBlock (worldOf s) = b) (onChain m)" if "keeps (booked (\<lambda>_ c _. c = b)) m" for m :: "'c go"
    using that by (simp add: keeps_def onChain_def onNode_def onWorld_run split_beta)
  have k: "keeps (\<lambda>s. w_currentBlock (worldOf s) = b) (thn (onChain (SyncGasAccountToRedis X)) (mustOk msg (onChain (SyncStateCacheToRedis X))))"
    by (rule keep on sync_booked)+
  have "thn (onChain (SyncGasAccountToRedis X)) (mustOk msg (onChain (SyncStateCacheToRedis X))) ?s = (r, t)"
    using assms by (simp add: thn_run [of "onChain (modify _)"] onChain_modify)
  from keepsD [OF k _ this] show ?thesis by simp
qed

lemma processNewBlock_outcome:
  assumes T: "smt_ok T leaf rootOf" "range_ok X" and c: "clean (w_sc (worldOf s))" "sc_StateRoot (w_sc (worldOf s)) = rootText T X (sv_node s)"
    and p: "bk_BlockStatus (w_currentBlock (worldOf s)) = StatusProposing" and go: "processNewBlock T X st l s = (r, t)"
  shows "case r of Ok b \<Rightarrow> followed st (bk_BlockHeight (w_currentBlock (worldOf s))) (sc_StateRoot (w_sc (worldOf s))) s t | _ \<Rightarrow> sameTables s t"
proof -
  let ?m = "onNode (CommitNewBlock T X (rb_Size l) (bk_CreatedAt (w_currentBlock (worldOf s))))"
  obtain r1 s1 where 1: "?m s = (r1, s1)" by (cases "?m s")
  have A: "sameTables s s1" using keepsD [OF prefix_tables(6) _ 1] by (simp add: sameTables_def)
  show ?thesis
  proof (cases r1)
    case (Ok bs)
    then obtain m where m: "CommitNewBlock T X (rb_Size l) (bk_CreatedAt (w_currentBlock (worldOf s))) (sv_node s) = (Ok bs, m)"
      using 1 by (auto simp: onNode_def split: prod.splits)
    note B = CommitNewBlock_clean [OF T c p m]
    let ?b = "(bs_Block bs)\<lparr>bk_BlockStatus := st\<rparr>"
    let ?sync = "thn (onChain (modify (\<lambda>w. w\<lparr>w_currentBlock := ?b\<rparr>))) (thn (onChain (SyncGasAccountToRedis X))
      (mustOk ''sync redis cache failed'' (onChain (SyncStateCacheToRedis X))))"
    obtain r2 s2 where 2: "?sync s1 = (r2, s2)" by (cases "?sync s1")
    have k: "keeps (sameTables s) ?sync" by (rule keep prefix_tables)+
    have S: "sameTables s s2" by (rule keepsD [OF k A 2])
    let ?st = "storing (thn (storeStates bs) (CreateBlockInTransact (stampedRow l ?b)))"
    have e: "processNewBlock T X st l s = (case r2 of Ok _ \<Rightarrow> thn ?st (ret ?b) s2 | Err e \<Rightarrow> (Err e, s2) | Panic q \<Rightarrow> (Panic q, s2))"
    proof -
      have "processNewBlock T X st l s = thn ?sync (thn ?st (ret ?b)) s1"
        using 1 Ok by (simp add: processNewBlock_def bnd_run [of "gets _"] bnd_run [of ?m] Let_def thn_assoc)
      also have "\<dots> = (case r2 of Ok _ \<Rightarrow> thn ?st (ret ?b) s2 | Err e \<Rightarrow> (Err e, s2) | Panic q \<Rightarrow> (Panic q, s2))"
        by (cases r2) (simp_all add: thn_run [of ?sync] 2)
      finally show ?thesis .
    qed
    show ?thesis
    proof (cases r2)
      case (Ok x)
      obtain r3 s3 where 3: "?st s2 = (r3, s3)" by (cases "?st s2")
      show ?thesis
      proof (cases r3)
        case (Ok y)
        have r: "r = Ok ?b" "t = s3" using e go Ok 3 \<open>r2 = Ok x\<close> by (simp_all add: thn_run)
        from 3 Ok obtain s4 where 4: "storeStates bs s2 = (Ok (), s4)" "CreateBlockInTransact (stampedRow l ?b) s4 = (Ok (), s3)"
          by (auto simp: storing_def thn_run split: prod.splits res.splits)
        have cur: "w_currentBlock (worldOf s2) = ?b" by (rule sync_block [OF 2])
        from storeStates_Ok [OF 4(1)] 4(2) S B cur rowsStored_block show ?thesis
          by (auto simp: r followed_def CreateBlockInTransact_def bnd_run thn_run failIf_run tableWrite_def Let_def stampedRow_block sameTables_def
            split: if_splits)
      qed (use e go 3 S \<open>r2 = Ok x\<close> storing_tables [OF 3] sameTables_trans in \<open>auto simp: thn_run\<close>)
    qed (use e go S in auto)
  qed (use 1 A go in \<open>auto simp: processNewBlock_def bnd_run\<close>)
qed

section \<open>A tick\<close>

lemma followed_tables: "followed st h root s t \<Longrightarrow> sameTables s0 s \<Longrightarrow> followed st h root s0 t"
  by (simp add: followed_def sameTables_def)

lemma followed_block: "followed st h root s t \<Longrightarrow> bk_BlockHeight (w_currentBlock (worldOf t)) = h"
  by (simp add: followed_def)

text \<open>The part of a tick after a block was read.\<close>

definition replay :: "('t, 'd) Smt \<Rightarrow> Lib \<Rightarrow> blockStatus \<Rightarrow> RemoteBlock \<Rightarrow> ('t, 'd, Block) serviceM" where
  "replay T X st l2Block =
     thn (onChain (modify (\<lambda>w. w\<lparr>w_currentBlock := setInfo l2Block (w_currentBlock w)\<rparr>)))
     (bnd (gets (\<lambda>s. bk_StateRoot (w_currentBlock (worldOf s)))) (\<lambda>stateRoot.
      thn (onChain (PurgeCache X stateRoot))
      (thn (applyRemote X (rb_Txs l2Block))
      (thn (mustOk ''calculate state root failed'' (onNode (IntermediateRoot T X True)))
      (bnd (gets (\<lambda>s. sc_StateRoot (w_sc (worldOf s)))) (\<lambda>local.
       if local \<noteq> rb_StateRoot l2Block then panic ''state root not matched between statedb and l2block''
       else mustOk ''new block failed'' (processNewBlock T X st l2Block)))))))"

lemma thn_panic: "thn (panic m) k = panic m"
  by (auto simp: thn_run fun_eq_iff)

lemma thn_if: "thn (if b then m else n) k = (if b then thn m k else thn n k)"
  by simp

lemma thn_bnd: "thn (bnd m f) k = bnd m (\<lambda>x. thn (f x) k)"
  by (simp add: thn_def bnd_assoc)

lemma tick_replay: "Fullnode_tick T X st client h = bnd (nextHeight X h) (\<lambda>height. case client height of Inl _ \<Rightarrow> ret height
    | Inr l2Block \<Rightarrow> if rb_Status l2Block < statusNo st then ret height else thn (replay T X st l2Block) (ret height))"
  unfolding Fullnode_tick_def replay_def thn_assoc thn_bnd thn_if thn_panic by (rule refl)

text \<open>What the node looks like before the block is stored.\<close>

lemma prepared:
  assumes "onNode (IntermediateRoot T X True) s = (Ok u, t)"
  shows "clean (w_sc (worldOf t)) \<and> sc_StateRoot (w_sc (worldOf t)) = rootText T X (sv_node t) \<and> w_currentBlock (worldOf t) = w_currentBlock (worldOf s)"
  using assms IntermediateRoot_True [of T X "sv_node s"] by (auto simp: onNode_def split: prod.splits)

lemma replay_outcome:
  assumes T: "smt_ok T leaf rootOf" "range_ok X" and p: "bk_BlockStatus (w_currentBlock (worldOf s)) = StatusProposing"
    and go: "replay T X st l s = (r, t)"
  shows "case r of Ok b \<Rightarrow> followed st (bk_BlockHeight (w_currentBlock (worldOf s))) (rb_StateRoot l) s t | _ \<Rightarrow> sameTables s t"
proof -
  let ?b = "setInfo l (w_currentBlock (worldOf s))"
  let ?s = "s\<lparr>sv_node := (sv_node s)\<lparr>n_world := updSc (\<lambda>_. NewStateCache X (bk_StateRoot ?b)) ((worldOf s)\<lparr>w_currentBlock := ?b\<rparr>)\<rparr>\<rparr>"
  have S: "sameTables s ?s" by (simp add: sameTables_def updSc_def)
  have b: "bk_BlockStatus (w_currentBlock (worldOf ?s)) = StatusProposing \<and>
      bk_BlockHeight (w_currentBlock (worldOf ?s)) = bk_BlockHeight (w_currentBlock (worldOf s))"
    using p by (simp add: updSc_def setInfo_def Let_def)
  let ?ir = "mustOk ''calculate state root failed'' (onNode (IntermediateRoot T X True))"
  let ?last = "bnd (gets (\<lambda>s. sc_StateRoot (w_sc (worldOf s)))) (\<lambda>local.
       if local \<noteq> rb_StateRoot l then panic ''state root not matched between statedb and l2block''
       else mustOk ''new block failed'' (processNewBlock T X st l))"
  have go: "thn (applyRemote X (rb_Txs l)) (thn ?ir ?last) ?s = (r, t)"
    using go by (simp add: replay_def thn_run [of "onChain (modify _)"] onChain_modify bnd_run [of "gets _"] PurgeCache_def)
  obtain r1 s1 where 1: "applyRemote X (rb_Txs l) ?s = (r1, s1)" by (cases "applyRemote X (rb_Txs l) ?s")
  have S1: "sameTables s s1" by (rule keepsD [OF prefix_tables(2) S 1])
  obtain r2 s2 where 2: "?ir s1 = (r2, s2)" by (cases "?ir s1")
  have S2: "sameTables s s2" by (rule keepsD [OF keeps_mustOk [OF prefix_tables(5)] S1 2])
  show ?thesis
  proof (cases "(\<exists>x. r1 = Ok x) \<and> (\<exists>x. r2 = Ok x) \<and> sc_StateRoot (w_sc (worldOf s2)) = rb_StateRoot l")
    case True
    then have e: "mustOk ''new block failed'' (processNewBlock T X st l) s2 = (r, t)"
      using go 1 2 by (auto simp: thn_run [of "applyRemote _ _"] thn_run [of ?ir] bnd_run)
    have "onNode (IntermediateRoot T X True) s1 = (Ok (), s2)" using 2 True by (auto simp: mustOk_def split: prod.splits res.splits)
    note q = prepared [OF this]
    have u: "bk_BlockStatus (w_currentBlock (worldOf s2)) = StatusProposing" "bk_BlockHeight (w_currentBlock (worldOf s2)) = bk_BlockHeight (w_currentBlock (worldOf s))"
      using untimed_eqD [OF applyRemote_block [OF 1]] q b by simp_all
    obtain r3 s3 where 3: "processNewBlock T X st l s2 = (r3, s3)" by (cases "processNewBlock T X st l s2")
    from processNewBlock_outcome [OF T _ _ u(1) 3] q
    have "case r3 of Ok b \<Rightarrow> followed st (bk_BlockHeight (w_currentBlock (worldOf s2))) (sc_StateRoot (w_sc (worldOf s2))) s2 s3 | _ \<Rightarrow> sameTables s2 s3"
      by simp
    with e 3 True u(2) followed_tables [OF _ S2] sameTables_trans [OF S2] show ?thesis by (auto simp: mustOk_def split: res.splits)
  next
    case False
    then show ?thesis using go 1 2 S1 S2
      by (auto simp: thn_run [of "applyRemote _ _"] thn_run [of ?ir] bnd_run split: res.splits if_splits)
  qed
qed

lemma tick_outcome:
  assumes T: "smt_ok T leaf rootOf" "range_ok X" and h: "bk_BlockHeight (w_currentBlock (worldOf s)) = h"
    and go: "Fullnode_tick T X st client h s = (r, t)"
  shows "case r of Ok h' \<Rightarrow> bk_BlockHeight (w_currentBlock (worldOf t)) = h' \<and>
      (case client h' of Inl _ \<Rightarrow> sameTables s t
        | Inr l \<Rightarrow> if rb_Status l < statusNo st then sameTables s t else followed st h' (rb_StateRoot l) s t)
    | _ \<Rightarrow> sameTables s t"
proof -
  obtain r1 s1 where 1: "nextHeight X h s = (r1, s1)" by (cases "nextHeight X h s")
  have S1: "sameTables s s1" using keepsD [OF prefix_tables(1) _ 1] by (simp add: sameTables_def)
  show ?thesis
  proof (cases r1)
    case (Ok h')
    note b = nextHeight_block [OF 1 [unfolded Ok] h]
    show ?thesis
    proof (cases "\<exists>l. client h' = Inr l \<and> statusNo st \<le> rb_Status l")
      case True
      then obtain l where l: "client h' = Inr l" "statusNo st \<le> rb_Status l" by blast
      obtain r2 s2 where 2: "replay T X st l s1 = (r2, s2)" by (cases "replay T X st l s1")
      have p: "bk_BlockStatus (w_currentBlock (worldOf s1)) = StatusProposing" and hs: "bk_BlockHeight (w_currentBlock (worldOf s1)) = h'"
        using b by auto
      note o = replay_outcome [OF T p 2, unfolded hs]
      have "(r, t) = (case r2 of Ok _ \<Rightarrow> (Ok h', s2) | Err e \<Rightarrow> (Err e, s2) | Panic p \<Rightarrow> (Panic p, s2))"
        using go 1 2 Ok l by (simp add: tick_replay bnd_run thn_run split: res.splits)
      then show ?thesis using o l followed_tables [OF _ S1] sameTables_trans [OF S1]
        by (cases r2) (auto dest: followed_block)
    next
      case False
      then have "r = Ok h' \<and> t = s1" using go 1 Ok by (auto simp: tick_replay bnd_run split: sum.splits if_splits)
      then show ?thesis using False S1 b by (auto split: sum.splits)
    qed
  qed (use go 1 S1 in \<open>auto simp: tick_replay bnd_run\<close>)
qed

section \<open>The gas of a block\<close>

lemma processNewBlock_rows:
  assumes "processNewBlock T X st l s = (Ok b, t)"
  obtains bs m w where "CommitNewBlock T X (rb_Size l) (bk_CreatedAt (w_currentBlock (worldOf s))) (sv_node s) = (Ok bs, m)"
    "rowsStored (bs_PendingAccount bs) (bs_PendingNft bs) w (worldOf t)" "w_db w = w_db (worldOf s)"
proof -
  from assms obtain bs s1 s2 s3 s4 s5 s6 where
    1: "onNode (CommitNewBlock T X (rb_Size l) (bk_CreatedAt (w_currentBlock (worldOf s)))) s = (Ok bs, s1)" and
    2: "onChain (modify (\<lambda>w. w\<lparr>w_currentBlock := (bs_Block bs)\<lparr>bk_BlockStatus := st\<rparr>\<rparr>)) s1 = (Ok (), s2)" and
    3: "onChain (SyncGasAccountToRedis X) s2 = (Ok (), s3)" and
    4: "mustOk ''sync redis cache failed'' (onChain (SyncStateCacheToRedis X)) s3 = (Ok (), s4)" and
    5: "storeStates bs s4 = (Ok (), s5)" "CreateBlockInTransact (stampedRow l ((bs_Block bs)\<lparr>bk_BlockStatus := st\<rparr>)) s5 = (Ok (), t)"
    by (auto simp: processNewBlock_def Let_def storing_def elim!: bnd_OkE thn_OkE split: prod.splits res.splits)
  have "sameTables s s1" using keepsD [OF prefix_tables(6) _ 1] by (simp add: sameTables_def)
  note keepsD [OF prefix_tables(3) this 2]
  note keepsD [OF prefix_tables(7) this 3]
  note keepsD [OF keeps_mustOk [OF prefix_tables(8)] this 4]
  then have d: "w_db (worldOf s4) = w_db (worldOf s)" by (simp add: sameTables_def)
  from storeStates_Ok [OF 5(1)] have r: "rowsStored (bs_PendingAccount bs) (bs_PendingNft bs) (worldOf s4) (worldOf s5)" by auto
  have "worldOf t = worldOf s5"
    using 5(2) by (auto simp: CreateBlockInTransact_def bnd_run thn_run failIf_run tableWrite_def Let_def split: if_splits)
  moreover from 1 obtain m where "CommitNewBlock T X (rb_Size l) (bk_CreatedAt (w_currentBlock (worldOf s))) (sv_node s) = (Ok bs, m)"
    by (auto simp: onNode_def split: prod.splits)
  ultimately show thesis using that r d by simp
qed

text \<open>Rows are written for the accounts that are pending, and gas is paid to the gas account on the way.\<close>

lemma CommitNewBlock_pending:
  assumes X: "libOk X" and n: "calmN s n" "pendingAcc s GasAccount = None" and ok: "CommitNewBlock T X sz t0 n = (Ok b, m)"
  shows "lastRow ac_AccountIndex (bs_PendingAccount b) GasAccount = None"
proof -
  note L = libOkD [OF X]
  let ?h = "\<lambda>m. bk_BlockHeight (w_currentBlock (n_world m))"
  from ok obtain r m1 m2 pa m3 where 1: "commitNewBlock T X sz t0 n = (Ok r, m1)" and 2: "CommitTrees T X (word_of_int (?h m1)) m1 = (Ok (), m2)"
    and 3: "onWorld (StateDB_GetPendingAccount X (?h m1)) m2 = (Ok pa, m3)" and b: "bs_PendingAccount b = fst pa"
    unfolding CommitNewBlock_def by (elim bnd_OkE thn_OkE) (auto split: prod.splits elim!: bnd_OkE thn_OkE simp: gets_def ret_def)
  from commitNewBlock_calm [OF _ _ n(1) 1] L have c: "calmN s m1" by auto
  have w2: "n_world m2 = n_world m1" by (rule keepsD [OF CommitTrees_same [where P = "\<lambda>w. w = n_world m1"] _ 2]) simp
  let ?w = "n_world m1" and ?is = "x_range X (mkeys (sc_PendingAccountMap (w_sc (n_world m1))))"
  have i: "distinct ?is" "\<And>i. i \<in> set ?is \<longleftrightarrow> pendingAcc ?w i \<noteq> None" using L(3) by (auto simp: range_ok_def mkeys_dom)
  have p: "wf ?w" "pendingAcc ?w GasAccount = None" using c n(2) by (simp_all add: calm_def)
  have "StateDB_GetPendingAccount X (?h m1) ?w = (Ok (writtenRows ?w ?is, map (historyOf (?h m1)) (writtenRows ?w ?is)), ?w)"
    using pendingAccountLoop_run [OF L(4) L(3) p(1) i(1), of ?w "?h m1" "[]" "[]"] i(2) p(2) by (simp add: StateDB_GetPendingAccount_def bnd_run)
  then have "bs_PendingAccount b = writtenRows ?w ?is" using 3 w2 b by (auto simp: onWorld_run)
  then show ?thesis
    unfolding writtenRows_def by (simp, subst lastRow_map [OF i(1)]) (use p i(2) in \<open>auto simp: wfx_def FromFormatAccountInfo_def\<close>)
qed

abbreviation gasRow :: "World \<Rightarrow> Account option" where
  "gasRow w \<equiv> map_option accountCore (find (\<lambda>a. ac_AccountIndex a = GasAccount) (db_Account (w_db w)))"

lemma processNewBlock_gasRow:
  assumes X: "libOk X" and w: "wf (worldOf s)" "nftsCached (worldOf s)" "pendingAcc (worldOf s) GasAccount = None"
    and ok: "processNewBlock T X st l s = (Ok b, t)"
  shows "gasRow (worldOf t) = gasRow (worldOf s)"
proof -
  from processNewBlock_rows [OF ok] obtain bs m v where
    1: "CommitNewBlock T X (rb_Size l) (bk_CreatedAt (w_currentBlock (worldOf s))) (sv_node s) = (Ok bs, m)"
    and r: "rowsStored (bs_PendingAccount bs) (bs_PendingNft bs) v (worldOf t)" "w_db v = w_db (worldOf s)" .
  have "lastRow ac_AccountIndex (bs_PendingAccount bs) GasAccount = None"
    by (rule CommitNewBlock_pending [OF X _ w(3) 1]) (simp add: calm_refl [OF w(1,2)])
  then show ?thesis using r by (auto simp: rowsStored_def)
qed

end
