(* ===== verification/Zk_SampleFn.thy ===== *)
theory Zk_SampleFn
  imports Zk_SampleSv Ref_Fullnode
begin

text \<open>A full node at height 3, with a row for the gas account, and another node that serves an empty block there.\<close>

definition remoteBlock :: RemoteBlock where
  "remoteBlock = \<lparr>rb_Status = 3, rb_CommittedAt = 5, rb_CommittedTxHash = ''c'', rb_Commitment = [], rb_VerifiedAt = 0, rb_VerifiedTxHash = [],
     rb_StateRoot = replicate 32 (charOfByte 0), rb_Size = 1, rb_Txs = []\<rparr>"

definition gasDb :: ChainDB where
  "gasDb = (w_db servedWorld)\<lparr>db_Account := [FromFormatAccountInfo (sampleAccount 1 7)]\<rparr>"

definition fullnodeService :: "(64 word \<Rightarrow> byte list, unit) Service" where
  "fullnodeService = sampleService\<lparr>sv_node := sampleNode\<lparr>n_world := servedWorld\<lparr>w_sc := NewStateCache sampleX [], w_db := gasDb\<rparr>\<rparr>,
     sv_rollup := sampleRollup\<lparr>ru_TxPool := [], ru_Block := []\<rparr>\<rparr>"

definition sampleClient :: "int \<Rightarrow> err + RemoteBlock" where
  "sampleClient h = (if h = 3 then Inr remoteBlock else Inl DbErrNotFound)"

abbreviation zeroRoot :: string where
  "zeroRoot \<equiv> replicate 32 (charOfByte 0)"

text \<open>The node with nothing pending but gas.\<close>

definition gasCache :: "(int \<times> int) list \<Rightarrow> string \<Rightarrow> StateCache" where
  "gasCache g root = (NewStateCache sampleX root)\<lparr>sc_PendingGasMap := g\<rparr>"

definition emptyNode :: "(int \<times> int) list \<Rightarrow> Block \<Rightarrow> string \<Rightarrow> (64 word \<Rightarrow> byte list, unit) Node" where
  "emptyNode g b root = sampleNode\<lparr>n_world := servedWorld\<lparr>w_sc := gasCache g root, w_db := gasDb, w_currentBlock := b\<rparr>\<rparr>"

lemma service_run:
  "onNode m s = (fst (m (sv_node s)), s\<lparr>sv_node := snd (m (sv_node s))\<rparr>)"
  "onChain c s = (fst (c (worldOf s)), s\<lparr>sv_node := (sv_node s)\<lparr>n_world := snd (c (worldOf s))\<rparr>\<rparr>)"
  "k s = (Ok a, t) \<Longrightarrow> mustOk msg k s = (Ok a, t)" "k s = (Ok a, t) \<Longrightarrow> storing k s = (Ok a, t)"
  by (simp_all add: onNode_def onChain_def onWorld_run mustOk_def storing_def split: prod.split)

lemma empty_root: "IntermediateRoot sampleSmt sampleX c (emptyNode g b root) = (Ok (), emptyNode g b zeroRoot)"
  by (simp add: IntermediateRoot_def run emptyNode_def gasCache_def NewStateCache_def mkeys_def dirtyKeys_def sampleNode_def sampleSmt_def sampleLib_def updSc_def)

lemma empty_seal:
  assumes "bk_BlockStatus b = StatusProposing" "bk_BlockHeight b = 3" "bk_CreatedAt b = 5"
  shows "\<exists>bs m. CommitNewBlock sampleSmt sampleX 1 5 (emptyNode g b zeroRoot) = (Ok bs, m) \<and> sc_PendingAccountMap (w_sc (n_world m)) = [] \<and>
    sc_PendingNftMap (w_sc (n_world m)) = [] \<and> w_AccountCache (n_world m) = [] \<and> w_db (n_world m) = gasDb \<and>
    bs_PendingAccount bs = [] \<and> bs_PendingAccountHistory bs = [] \<and> bs_PendingNft bs = [] \<and> bs_PendingNftHistory bs = []"
proof -
  have f: "inField sampleSmt 3" "inField sampleSmt 5" "inField sampleSmt 0" by (simp_all add: sample_inField)
  have p: "x_PubDataSizePerTx sampleX = 6" "x_range sampleX ks = ks" for ks by (simp_all add: sampleLib_def)
  have w: "n_world (emptyNode g b zeroRoot) = servedWorld\<lparr>w_sc := gasCache g zeroRoot, w_db := gasDb, w_currentBlock := b\<rparr>"
    "w_AccountCache servedWorld = []" by (simp_all add: emptyNode_def servedWorld_def sampleWorld_def)
  have t: "CommitTrees sampleSmt sampleX v (sampleNode\<lparr>n_world := u\<rparr>) = (Ok (), sampleNode\<lparr>n_world := u\<rparr>)" for v u
    by (simp add: CommitTrees_def GetChanges_def sampleNode_def run attempt_def commitAccountTree_def commitNftTree_def commitOne_def
      sampleSmt_def sampleLib_def CleanChanges_def firstError_def)
  let ?n = "emptyNode g b zeroRoot"
  obtain bk cb C where c: "commitNewBlock sampleSmt sampleX 1 5 ?n = (Ok (bk, cb), ?n\<lparr>n_world := (n_world ?n)\<lparr>w_currentBlock := bk, w_sc := C\<rparr>\<rparr>)"
    "sc_PendingAccountMap C = []" "sc_PendingNftMap C = []" "bk_BlockHeight bk = 3"
    using assms by (simp add: commitNewBlock_def run empty_root w AlignPubData_def gasCache_def NewStateCache_def p CreateBlockCommitment_run [OF sampleSmt_ok(2)] f Let_def
        updSc_def sealBlock_def packTxs_def)
  then show ?thesis
    by (simp add: CommitNewBlock_def run w emptyNode_def t StateDB_GetPendingAccount_def StateDB_GetPendingNft_def mkeys_def p)
qed

lemma empty_store:
  assumes "bs_PendingAccount bs = []" "bs_PendingAccountHistory bs = []" "bs_PendingNft bs = []" "bs_PendingNftHistory bs = []"
    "sv_rollup s = sv_rollup fullnodeService" "w_db (worldOf s) = gasDb"
  shows "\<exists>t. thn (storeStates bs) (CreateBlockInTransact row) s = (Ok (), t)"
  using assms by (simp add: storeStates_def run whenAny_def CreateCompressedBlockInTransact_def CreateBlockInTransact_def onTables_def tableWrite_def
      fullnodeService_def sampleRollup_def gasDb_def servedWorld_def sampleWorld_def Let_def)

lemma empty_process:
  assumes "bk_BlockStatus b = StatusProposing" "bk_BlockHeight b = 3" "bk_CreatedAt b = 5"
  shows "\<exists>b' t. processNewBlock sampleSmt sampleX BlockCommitted remoteBlock (fullnodeService\<lparr>sv_node := emptyNode g b zeroRoot\<rparr>) = (Ok b', t)"
proof -
  from empty_seal [OF assms] obtain bs m where m: "CommitNewBlock sampleSmt sampleX 1 5 (emptyNode g b zeroRoot) = (Ok bs, m)"
    "sc_PendingAccountMap (w_sc (n_world m)) = []" "sc_PendingNftMap (w_sc (n_world m)) = []" "w_AccountCache (n_world m) = []"
    "w_db (n_world m) = gasDb" and r: "bs_PendingAccount bs = []" "bs_PendingAccountHistory bs = []" "bs_PendingNft bs = []" "bs_PendingNftHistory bs = []" by blast
  have c: "bk_CreatedAt (w_currentBlock (n_world (emptyNode g b zeroRoot))) = 5" "rb_Size remoteBlock = 1"
    using assms by (simp_all add: emptyNode_def remoteBlock_def)
  let ?w = "(n_world m)\<lparr>w_currentBlock := (bs_Block bs)\<lparr>bk_BlockStatus := BlockCommitted\<rparr>\<rparr>"
  have g: "SyncGasAccountToRedis sampleX ?w = (Ok (), ?w)" "SyncStateCacheToRedis sampleX ?w = (Ok (), ?w)"
    using m by (simp_all add: SyncGasAccountToRedis_def SyncStateCacheToRedis_def syncPendingAccount_def syncPendingNft_def run AccountCache_Get_def sampleLib_def
        lruGetSample_def mkeys_def Let_def)
  let ?s = "fullnodeService\<lparr>sv_node := m\<lparr>n_world := ?w\<rparr>\<rparr>"
  obtain t where "thn (storeStates bs) (CreateBlockInTransact (stampedRow remoteBlock ((bs_Block bs)\<lparr>bk_BlockStatus := BlockCommitted\<rparr>))) ?s = (Ok (), t)"
    using empty_store [OF r, of ?s] m(5) by auto
  then show ?thesis
    by (simp add: processNewBlock_def bnd_run thn_run service_run c m(1) Let_def g)
qed

text \<open>The served block is stored.\<close>

lemma fullnode_stores: "\<exists>t. Fullnode_tick sampleSmt sampleX BlockCommitted sampleClient 3 fullnodeService = (Ok 3, t)"
proof -
  let ?b = "setInfo remoteBlock sampleBlock"
  have b: "bk_BlockStatus ?b = StatusProposing" "bk_BlockHeight ?b = 3" "bk_CreatedAt ?b = 5"
    by (simp_all add: setInfo_def remoteBlock_def sampleBlock_def statusNo_def Let_def)
  have p: "PurgeCache sampleX (bk_StateRoot ?b) ((worldOf fullnodeService)\<lparr>w_currentBlock := ?b\<rparr>) = (Ok (), n_world (emptyNode [] ?b (bk_StateRoot ?b)))"
    by (simp add: PurgeCache_def updSc_def fullnodeService_def emptyNode_def gasCache_def NewStateCache_def)
  have s: "w_currentBlock (worldOf fullnodeService) = sampleBlock"
    "(sv_node fullnodeService)\<lparr>n_world := n_world (emptyNode [] ?b x)\<rparr> = emptyNode [] ?b x"
    "sc_StateRoot (w_sc (n_world (emptyNode [] ?b x))) = x" for x
    by (simp_all add: fullnodeService_def emptyNode_def servedWorld_def sampleWorld_def gasCache_def NewStateCache_def)
  from empty_process [OF b] obtain b' t where q: "processNewBlock sampleSmt sampleX BlockCommitted remoteBlock (fullnodeService\<lparr>sv_node := emptyNode [] ?b zeroRoot\<rparr>) = (Ok b', t)"
    by blast
  have n: "nextHeight sampleX 3 fullnodeService = (Ok 3, fullnodeService)"
    by (simp add: nextHeight_def run fullnodeService_def servedWorld_def sampleWorld_def sampleBlock_def)
  have r: "rb_Txs remoteBlock = []" "rb_StateRoot remoteBlock = zeroRoot" "rb_Status remoteBlock = 3" by (simp_all add: remoteBlock_def)
  show ?thesis
    by (simp add: Fullnode_tick_def bnd_run n sampleClient_def r statusNo_def thn_run service_run s p applyRemote_def empty_root q)
qed

text \<open>Five units of gas are waiting, and the gas account is not pending.\<close>

definition gasService :: "(64 word \<Rightarrow> byte list, unit) Service" where
  "gasService = fullnodeService\<lparr>sv_node := emptyNode [(0, 5)] (setInfo remoteBlock sampleBlock) zeroRoot\<rparr>"

lemma gas_ready:
  "wf (worldOf gasService)" "nftsCached (worldOf gasService)" "pendingAcc (worldOf gasService) GasAccount = None"
  by (auto simp: gasService_def emptyNode_def gasCache_def NewStateCache_def servedWorld_def sampleWorld_def wfx_def nftsCached_def mget_def)

lemma gas_stored: "\<exists>b t. processNewBlock sampleSmt sampleX BlockCommitted remoteBlock gasService = (Ok b, t)"
  unfolding gasService_def
  by (rule empty_process) (simp_all add: setInfo_def remoteBlock_def sampleBlock_def statusNo_def Let_def)

lemma gas_row: "gasRow (worldOf gasService) = Some (accountCore (FromFormatAccountInfo (sampleAccount 1 7)))"
  by (simp add: gasService_def emptyNode_def gasDb_def FromFormatAccountInfo_def sampleAccount_def GasAccount_def)

end
