(* ===== verification/Ref_Tree.thy ===== *)
theory Ref_Tree
  imports Zk_Tree
begin

text \<open>
  What \<open>CommitTrees\<close> and \<open>RollBackTrees\<close> do with the tasks they start: how many results there are, and
  what a caller that waits for a number of them gets.
\<close>

lemma results_length: "results ms s = (Ok rs, t) \<Longrightarrow> length rs = length ms"
  by (induction ms arbitrary: s rs t) (auto elim!: bnd_OkE)

lemma receive_short: "length rs < k \<Longrightarrow> receive k rs \<noteq> Some None"
  by (induction k rs rule: receive.induct) (auto split: option.splits)

lemma receive_waits: "length rs < k \<Longrightarrow> list_all (\<lambda>r. r = None) rs \<Longrightarrow> receive k rs = None"
  by (induction k rs rule: receive.induct) auto

lemma receive_enough: "k \<le> length rs \<Longrightarrow> receive k rs \<noteq> None"
  by (induction k rs rule: receive.induct) (auto split: option.splits)

lemma GetChanges_distinct:
  assumes "distinct (n_changes n)"
  shows "distinct (GetChanges T n)"
proof -
  have "distinct cs \<Longrightarrow> distinct (fold (\<lambda>(k, r). onDelete T k (n_treeHeap n r)) c cs)" for c :: lru and cs
    by (induction c arbitrary: cs) (auto simp: onDelete_def)
  with assms show ?thesis by (simp add: GetChanges_def)
qed

lemma range_length: "range_ok X \<Longrightarrow> distinct xs \<Longrightarrow> length (x_range X xs) = length xs"
  unfolding range_ok_def by (metis distinct_card)

lemma RollBackTrees_results:
  assumes "range_ok X" "distinct (n_changes n)" "RollBackTrees T X version n = (Ok r, m)"
  obtains rs where "length rs < length (GetChanges T n) + 3" "r = receive (length (GetChanges T n) + 3) rs"
proof -
  let ?ch = "GetChanges T n"
  let ?tasks = "rollAccountTree T version # map (rollAsset T X) (x_range X ?ch) @ [rollNftTree T version]"
  obtain q u where q: "results ?tasks n = (q, u)" by fastforce
  from assms(3) have run: "(case q of Ok rs \<Rightarrow> (case receive (length ?ch + 3) rs of None \<Rightarrow> ret None | Some r \<Rightarrow> thn (modify CleanChanges) (ret (Some r))) u
      | Err e \<Rightarrow> (Err e, u) | Panic p \<Rightarrow> (Panic p, u)) = (Ok r, m)"
    by (simp only: RollBackTrees_def Let_def bnd_run gets_run q prod.case res.case)
  then obtain rs where ok: "q = Ok rs" by (cases q) auto
  have rs: "results ?tasks n = (Ok rs, u)"
    "(case receive (length ?ch + 3) rs of None \<Rightarrow> ret None | Some r \<Rightarrow> thn (modify CleanChanges) (ret (Some r))) u = (Ok r :: (err, _) res, m)"
    using q run by (simp_all only: ok res.case)
  have "length rs = length ?ch + 2"
    using results_length [OF rs(1)] range_length [OF assms(1) GetChanges_distinct [OF assms(2)]] by simp
  moreover have "r = receive (length ?ch + 3) rs" using rs(2) by (auto simp: thn_run split: option.splits)
  ultimately show thesis by (intro that) auto
qed

end
