(* ===== verification/Spec2Isabelle.thy ===== *)
theory Spec2Isabelle
  imports Zk_SampleSv Zk_SamplePv Zk_SampleFn Ref_Tree
begin

text \<open>
  ZkBNB (module zkbas): a zero-knowledge rollup. This development models the Go services that execute
  transactions, build blocks out of them and exchange blocks and requests with L1, and proves what the
  blocks and the state are.

  \<^bold>\<open>The program.\<close> L1 events are read by the \<^emph>\<open>monitor\<close> (src/service/monitor), which stores priority
  requests (deposits, exits, registrations) and turns them into transactions of the pool; the API
  server adds the transactions of L2. The \<^emph>\<open>committer\<close> (src/service/committer) takes the pending
  transactions and gives them to the \<^emph>\<open>block processor\<close> (src/core/block\_processor.go), which drives one
  of thirteen \<^emph>\<open>executors\<close> (src/core/executor) over the \<^emph>\<open>state database\<close> (src/core/statedb). When
  the block is full, src/core/blockchain.go computes the state root over the \<^emph>\<open>trees\<close> (src/tree) and
  seals the block with a commitment (src/common/chain). The \<^emph>\<open>sender\<close> (src/service/sender) commits
  sealed blocks to the contract on L1 and verifies them with their proofs; the monitor sees both. The
  \<^emph>\<open>witness\<close> service (src/service/witness) publishes a witness of every block, and any number of
  \<^emph>\<open>provers\<close> (src/service/prover) take witnesses and store the proofs the sender uses. A \<^emph>\<open>full node\<close>
  (src/service/fullnode) executes the blocks of another node on a database of its own.

  \<^bold>\<open>The model.\<close> A computation is a function from a state to a result and a state; the result is a value,
  a Go \<open>error\<close> or a panic, and what was mutated before an error or a panic stays (\<open>Zk_Prelude\<close>).
  Pointers that the pending maps, the caches and the executors share are addresses into a store, so
  that aliasing is the code's (\<open>Zk_World\<close>).

  \<^item> \<open>Zk_Bytes\<close>, \<open>Zk_Errors\<close>, \<open>Zk_Types\<close>: src/common (bytes.go, hash.go, pubkey.go, string.go) and
    src/types, the payloads, the rows of src/dao.
  \<^item> \<open>Zk_Env\<close>: the code outside the repository, a record of functions \<open>Lib\<close> that every definition takes
    as an argument; what is relied on is in named predicates (\<open>ffmath_ok\<close>, \<open>lru_ok\<close>, \<open>range_ok\<close>,
    \<open>accessors_ok\<close>, \<dots>), collected in \<open>libOk\<close>.
  \<^item> \<open>Zk_World\<close>, \<open>Zk_StateDB\<close>: the state and every operation of src/core/statedb on accounts and NFTs.
  \<^item> \<open>Exec_Base\<close>, \<open>Exec_Fungible\<close>, \<open>Exec_Nft\<close>, \<open>Exec_Market\<close>: one definition for each method of each
    executor, \<open>Transfer_Prepare\<close> for \<open>(*TransferExecutor).Prepare\<close> and so on.
  \<^item> \<open>Zk_Processor\<close>: \<open>NewTxExecutor\<close>, the dispatch of the interface \<open>TxExecutor\<close>,
    \<open>CommitProcessor.Process\<close> and \<open>APIProcessor.Process\<close>.
  \<^item> \<open>Zk_Committer\<close>: src/service/committer. \<open>Zk_Tree\<close>, \<open>Zk_Block\<close>: src/tree and the sealing of blocks.
  \<^item> \<open>Zk_PubData\<close>: src/common/chain/pubdata\_helper.go. \<open>Zk_Rollup\<close>: the tables of src/dao the
    services facing L1 share.
  \<^item> \<open>Zk_Sender\<close>, \<open>Zk_Monitor\<close>, \<open>Zk_Governance\<close>: the sender and the monitor.
  \<^item> \<open>Zk_Store\<close>: the committer with its database: the pass of \<open>Committer.Run\<close>, \<open>commitNewBlock\<close> with its
    transaction, the writes of src/dao/account, nft, block, compressedblock and tx, restoring an
    interrupted block.
  \<^item> \<open>Zk_Proving\<close>: src/dao/blockwitness, src/dao/proof, src/common/redislock,
    src/common/prove/proof\_keys.go, \<open>Prover.ProveBlock\<close>, \<open>Witness.RescheduleBlockWitness\<close>, and
    \<open>pipeline_step\<close>, their interleaving at the operations of the database. gnark is the parameter
    \<open>Groth\<close>.
  \<^item> \<open>Zk_Fullnode\<close>: src/service/fullnode/fullnode/fullnode.go, a tick of \<open>Fullnode.Run\<close> and
    \<open>processNewBlock\<close>. The client of the other node is a parameter, a function from heights to blocks.

  \<^bold>\<open>What is proved.\<close>

  \<^item> \<open>Zk_Ledger\<close> is the abstract state: balances, offers, nonces, names, NFTs, collected gas, with no
    caches, pointers or pending maps. \<open>Zk_Logic\<close>, \<open>Zk_Triples\<close>, \<open>Zk_Prepare\<close>, \<open>Zk_Rules\<close> are a program
    logic over it: \<open>spec P m Q R\<close> says that \<open>m\<close> does not panic from \<open>P\<close>, and ends in \<open>Q\<close> or fails in \<open>R\<close>.
  \<^item> \<open>Ref_Stages\<close> states for every transaction type what \<open>Prepare\<close> completes, what \<open>VerifyInputs\<close>
    guarantees and what \<open>ApplyTransaction\<close> does to the ledger; \<open>Ref_Apply\<close>, \<open>Ref_Prepare\<close>, \<open>Ref_Verify\<close>,
    \<open>Ref_Details\<close>, \<open>Ref_PubData\<close> prove it for the thirteen executors. \<open>Ref_Commit\<close> has the interface
    \<open>TxExecutor\<close> as a locale, its interpretation on the executors, and the outcome of
    \<open>CommitProcessor.Process\<close> (C1 to C3).
  \<^item> \<open>Led_Laws\<close>: conservation of assets, solvency, nonces, offers and ownership as laws of the ledger
    (C4 to C8). \<open>Ref_Chain\<close>: the chain as a state machine and the books of the block (C9, C10).
    \<open>Ref_Committer\<close>: the batch loop (C11, C12) and the block size (C18).
  \<^item> \<open>Zk_PubData\<close>: the parsers invert the layouts of the contract and are total (C13 to C15).
  \<^item> \<open>Ref_Root\<close>, \<open>Ref_Block\<close>, \<open>Ref_Tree\<close>: the state root is a function of the ledger and of the dirty
    sets only, the sealed block, committing and rolling back trees (C16, C17, C19).
  \<^item> \<open>Ref_Sender\<close>, \<open>Ref_Monitor\<close>, \<open>Ref_Governance\<close>: the services facing L1, each alone and interleaved
    (C20 to C29).
  \<^item> From block to block (C30 to C33): \<open>Ref_Store\<close> has the contract of a table with a unique key as the
    locale \<open>keyed_table\<close> (accounts and NFTs interpret it); \<open>Ref_Boundary\<close>, \<open>Ref_Calm\<close>, \<open>Ref_Settle\<close> and
    \<open>Ref_Turn\<close> follow the state over the end of a block, where pending objects become rows and cache
    entries and the collected gas is paid out; \<open>Ref_Abort\<close> shows that a block that fails changes no
    table, \<open>Ref_Grow\<close> that transactions only add to what is pending, and \<open>Ref_Pass\<close> puts the pass of
    the committer together.
  \<^item> From witness to proof (C34 to C38): \<open>Ref_Proving\<close> reads the witness table as a log (locale
    \<open>witness_log\<close>, interpreted on the operations of \<open>BlockWitnessModel\<close>), proves the invariant \<open>pipeOk\<close> of
    every interleaving, that the code of a prover is a run of it, and that no block stays without a proof.
  \<^item> The full node (C39, C40): \<open>Ref_Fullnode\<close> shows that the state root computed before the comparison is
    the root of the sealed block, that a tick writes the tables all at once or not at all, and which rows
    a block without a pending gas account writes.

  \<^bold>\<open>Hypotheses.\<close> \<open>libOk\<close> is what the libraries document. \<open>healthy\<close> is the invariant of the state
  database (pointers are sound, caches agree with the tables); C9 shows that it is one. \<open>admissible\<close>
  bounds the indices and amounts of a priority request, which L1 writes and no executor checks.
  \<open>smt_ok\<close> says that a sparse Merkle tree returns the root of the leaves written, \<open>rootReady\<close> that
  indices fit the trees. \<open>heightsFit\<close> keeps block heights in the range of a Go \<open>int64\<close>. \<open>turnReady\<close>,
  \<open>passOk\<close> and \<open>poolOk\<close> say that rows, caches and pending objects agree at the start of a pass, and the
  pass leaves them so. \<open>proverReady\<close> says that the database writes and that the proof system succeeds on
  the published witnesses. The samples of \<open>Zk_Sample\<close>, \<open>Zk_SampleL1\<close>, \<open>Zk_SampleSv\<close>, \<open>Zk_SamplePv\<close>
  and \<open>Zk_SampleFn\<close> meet all of them, and the witnesses evaluate the model on them.

  \<^bold>\<open>Bounds.\<close> Amounts are \<open>big.Int\<close> in Go and \<open>int\<close> here. Indices and nonces are \<open>int64\<close>; the model
  keeps them in \<open>int\<close>, writes out the conversions the code makes (\<open>wrap64\<close>, \<open>FillBytes\<close> panicking on
  overflow) and states the ranges where they matter. No definition uses fuel: every loop of the
  modelled code ends; the recursion is over the list it ranges over, or, for the lock of the provers and
  the scan of proofs, terminates by a measure. The one wait that may not end,
  the receive loop of \<open>RollBackTrees\<close>, returns an explicit value for waiting (C19).

  \<^bold>\<open>Abstractions.\<close> Goroutines of a pool are run one after the other: the tasks write
  disjoint data and their results are collected at the end. The database answers or does not for the whole of a
  call. A JSON column is the value it encodes. \<open>x_NilAccountAssetRoot\<close> is the root that
  \<open>NilAccountAssetRoot\<close> of \<open>Zk_Tree\<close> computes. Logs and metrics are left out.

  \<^bold>\<open>Not modelled.\<close> Constructors that open databases and connections; command line, configuration
  files and metrics; the HTTP handlers and caches of the API server; the loading of trees from the database; gnark and the circuit types of zkbnb-crypto, and
  with them the assignment of circuit witnesses (src/common/prove/witness\_helper.go).
\<close>

section \<open>Committing a transaction\<close>

text \<open>
  C1. A transaction that \<open>CommitProcessor.Process\<close> accepts refines the ledger: its payload was parsed
  and completed, the completed payload passed the guard of its type against the ledger and the block's
  time, the new ledger is exactly the effect of the payload on the old one (whatever the pointers of
  the roles alias, wherever the accounts were cached), the state is healthy again, and exactly one
  transaction, executed, entered the block.
\<close>

theorem commit_refines_ledger:
  assumes "libOk X" "healthy s" "\<forall>ti. parsesTo X tx ti \<longrightarrow> admissible (view s) ti"
    and "CommitProcessor_Process X tx s = (Ok r, t)"
  shows "\<exists>ti u tx'. parsesTo X tx ti \<and> adapted X (view s) ti u \<and> guard X (view (stampBlock s)) u \<and>
    ledgerOf t = effect X (tx_NativeAddress tx) u (ledgerOf s) \<and> healthy t \<and>
    sc_Txs (w_sc t) = sc_Txs (w_sc s) @ [tx'] \<and> tx_TxStatus tx' = StatusExecuted \<and>
    tx_TxIndex tx' = int (length (sc_Txs (w_sc s)))"
proof -
  from assms Process_outcome [of X s tx] obtain ti u where u: "parsesTo X tx ti" "adapted X (view s) ti u" "committed X (stampBlock s) tx u t"
    by (auto simp: healthy_def)
  from u(3) obtain tx' where "sc_Txs (w_sc t) = sc_Txs (w_sc (stampBlock s)) @ [tx']" "entered (stampBlock s) tx'"
    by (rule committed_txs)
  with u show ?thesis
    by (intro exI [of _ ti] exI [of _ u] exI [of _ tx']) (auto simp: committed_def healthy_def entered_def stampBlock_eq block_frame)
qed

theorem commit_refines_ledger_witness:
  "\<exists>t. CommitProcessor_Process sampleX (sampleTx TxTypeTransfer) sampleWorld = (Ok (), t) \<and>
     (\<exists>ti u tx'. parsesTo sampleX (sampleTx TxTypeTransfer) ti \<and> adapted sampleX (view sampleWorld) ti u \<and>
        guard sampleX (view (stampBlock sampleWorld)) u \<and>
        ledgerOf t = effect sampleX (tx_NativeAddress (sampleTx TxTypeTransfer)) u (ledgerOf sampleWorld) \<and> healthy t \<and>
        sc_Txs (w_sc t) = sc_Txs (w_sc sampleWorld) @ [tx'] \<and> tx_TxStatus tx' = StatusExecuted \<and>
        tx_TxIndex tx' = int (length (sc_Txs (w_sc sampleWorld))))"
proof -
  from sample_commit obtain t where t: "CommitProcessor_Process sampleX (sampleTx TxTypeTransfer) sampleWorld = (Ok (), t)" by blast
  show ?thesis using t commit_refines_ledger [OF sample_lib sample_healthy _ t] by (auto simp: sample_parses)
qed

text \<open>
  C2. A transaction that is rejected leaves no trace: the ledger, the books of the block and the tables
  are as before, and the block has a time stamp afterwards only if it has transactions.
\<close>

theorem commit_error_atomic:
  assumes "libOk X" "healthy s" "\<forall>ti. parsesTo X tx ti \<longrightarrow> admissible (view s) ti"
    and "CommitProcessor_Process X tx s = (Err e, t)"
  shows "ledgerOf t = ledgerOf s \<and> healthy t \<and> maskSc (w_sc t) = maskSc (w_sc s) \<and> w_db t = w_db s \<and>
    w_currentBlock t = restamped s"
proof -
  from assms Process_outcome [of X s tx] have "unchanged s t" by (auto simp: healthy_def)
  with assms(2) unchanged_ids [of s t] show ?thesis by (auto simp: unchanged_def healthy_def)
qed

theorem commit_error_atomic_witness:
  "\<exists>t. CommitProcessor_Process sampleX (sampleTx 99) sampleWorld = (Err (ErrorsNew ''new tx executor failed''), t) \<and>
     ledgerOf t = ledgerOf sampleWorld \<and> healthy t \<and> maskSc (w_sc t) = maskSc (w_sc sampleWorld) \<and>
     w_db t = w_db sampleWorld \<and> w_currentBlock t = restamped sampleWorld"
proof -
  have n: "NewTxExecutor sampleX (sampleTx 99) s = (Err (ErrorsNew ''unsupported tx type''), s)" for s
    by (simp add: NewTxExecutor_def sampleTx_def txtype_defs Let_def)
  then obtain t where t: "CommitProcessor_Process sampleX (sampleTx 99) sampleWorld = (Err (ErrorsNew ''new tx executor failed''), t)"
    by (auto simp: Process_run commitSteps_eq thn_run mapErr_def)
  show ?thesis using t commit_error_atomic [OF sample_lib sample_healthy _ t] by (auto simp: parsesTo_def n)
qed

text \<open>
  C3. \<open>CommitProcessor.Process\<close> does not panic on a transaction whose completed payload can be written
  down: the panics of the processor after \<open>ApplyTransaction\<close> are unreachable for payloads in range.
\<close>

theorem commit_no_panic:
  assumes "libOk X" "packing_ok X" "healthy s" "\<forall>ti. parsesTo X tx ti \<longrightarrow> admissible (view s) ti"
    and "\<forall>ti u. parsesTo X tx ti \<longrightarrow> adapted X (view s) ti u \<longrightarrow> fits X u \<and> (\<exists>m. x_MarshalTx X u = Inr m)"
  shows "\<forall>p t. CommitProcessor_Process X tx s \<noteq> (Panic p, t)"
  using assms Process_outcome [of X s tx] fits_writable [OF assms(2)] by (fastforce simp: healthy_def)

theorem commit_no_panic_witness:
  "\<forall>p t. CommitProcessor_Process sampleX (sampleTx TxTypeTransfer) sampleWorld \<noteq> (Panic p, t)"
  by (rule commit_no_panic) (use sample_fits in \<open>auto simp: sample_healthy sample_parses\<close>)

text \<open>
  C4. Assets are conserved. Over any finite set of accounts that includes the parties, the balances of
  an asset together with the gas collected in the block change by exactly what the transaction brings
  in from L1 or takes out: nothing for the eight transactions inside the rollup.
\<close>

theorem commit_conserves_assets:
  assumes "libOk X" "healthy s" "parsesTo X tx ti" "admissible (view s) ti" "CommitProcessor_Process X tx s = (Ok r, t)"
  shows "\<exists>u. adapted X (view s) ti u \<and> (\<forall>S a. finite S \<longrightarrow> parties (ledgerOf s) u \<subseteq> S \<longrightarrow>
    assetTotal S a (ledgerOf t) = assetTotal S a (ledgerOf s) + inflow u a)"
proof -
  from Process_committed [OF assms] obtain u where u: "adapted X (view s) ti u" "committed X (stampBlock s) tx u t" by blast
  with commit_laws(1) [OF assms(1,2,4) u] show ?thesis by blast
qed

theorem commit_conserves_assets_witness:
  "\<exists>t. CommitProcessor_Process sampleX (sampleTx TxTypeTransfer) sampleWorld = (Ok (), t) \<and>
     assetTotal {0, 1} 0 (ledgerOf t) = assetTotal {0, 1} 0 (ledgerOf sampleWorld)"
proof -
  from sample_commit obtain t where t: "CommitProcessor_Process sampleX (sampleTx TxTypeTransfer) sampleWorld = (Ok (), t)" by blast
  from commit_conserves_assets [OF sample_lib sample_healthy sample_parsed _ t] obtain u where
    u: "adapted sampleX (view sampleWorld) (TransferInfo sampleTransfer) u"
    and c: "\<forall>S a. finite S \<longrightarrow> parties (ledgerOf sampleWorld) u \<subseteq> S \<longrightarrow>
      assetTotal S a (ledgerOf t) = assetTotal S a (ledgerOf sampleWorld) + inflow u a" by auto
  from u have "u = TransferInfo sampleTransfer" by simp
  with c [rule_format, of "{0, 1}" 0] have "assetTotal {0, 1} 0 (ledgerOf t) = assetTotal {0, 1} 0 (ledgerOf sampleWorld)"
    by simp
  with t show ?thesis by blast
qed



text \<open>
  C6. A transaction signed on L2 cannot be replayed: processed again after it was committed, it is
  rejected with an error, and not committed and not a panic.
\<close>

theorem commit_no_replay:
  assumes L: "libOk X" and h: "healthy s" and p: "parsesTo X tx ti" "isL2 ti" and a: "admissible (view s) ti"
    and ok: "CommitProcessor_Process X tx s = (Ok r, t)"
  shows "\<exists>e t'. CommitProcessor_Process X tx t = (Err e, t')"
proof -
  note one = parsesTo_unique [OF p(1)]
  have "\<forall>ti'. parsesTo X tx ti' \<longrightarrow> admissible (view s) ti'" using a one by blast
  then have "chainStep X s t" using ok by (intro chainStep.commit)
  then have ht: "healthy t" by (rule chainStep_healthy [OF _ L h])
  from Process_committed [OF L h p(1) a ok] obtain u where u: "adapted X (view s) ti u" "committed X (stampBlock s) tx u t"
    by blast
  from u(2) have g: "signed X (ledgerOf s) (bk_CreatedAt (w_currentBlock (stampBlock s))) u"
    and l: "ledgerOf t = effect X (tx_NativeAddress tx) u (ledgerOf s)" and db: "w_db t = w_db s"
    using guard_signed [of X "view (stampBlock s)" u] adapted_sender(3) [OF u(1)] p(2)
    by (simp_all add: committed_def)
  have no: "\<not> guard X (view (stampBlock t)) u'" if "adapted X (view t) ti u'" for u'
  proof
    assume "guard X (view (stampBlock t)) u'"
    then have "signed X (ledgerOf t) (bk_CreatedAt (w_currentBlock (stampBlock t))) u'"
      using guard_signed [of X "view (stampBlock t)" u'] adapted_sender(3) [OF that] p(2) by simp
    with no_replay [OF g, of u' "tx_NativeAddress tx"] adapted_sender [OF that] adapted_sender [OF u(1)] p(2)
    show False unfolding l by simp
  qed
  have "admissible (view t) ti" using a p(2) db by (cases ti) simp_all
  with Process_outcome [OF L, of t tx] ht one no show ?thesis
    by (cases "CommitProcessor_Process X tx t"; cases "fst (CommitProcessor_Process X tx t)")
      (auto simp: healthy_def committed_def)
qed

theorem commit_no_replay_witness:
  "\<exists>t e t'. CommitProcessor_Process sampleX (sampleTx TxTypeTransfer) sampleWorld = (Ok (), t) \<and>
     CommitProcessor_Process sampleX (sampleTx TxTypeTransfer) t = (Err e, t')"
proof -
  from sample_commit obtain t where t: "CommitProcessor_Process sampleX (sampleTx TxTypeTransfer) sampleWorld = (Ok (), t)" by blast
  with commit_no_replay [OF sample_lib sample_healthy _ _ _ t, of "TransferInfo sampleTransfer"] show ?thesis
    by (auto simp: sample_parses)
qed

text \<open>
  C7. Nonces count the transactions of their account: a committed L2 transaction carried its sender's
  nonce and moves it by one; no other nonce changes, and an L1 operation changes none.
\<close>

theorem commit_counts_nonces:
  assumes "libOk X" "healthy s" "parsesTo X tx ti" "admissible (view s) ti" "CommitProcessor_Process X tx s = (Ok r, t)"
  shows "if isL2 ti then payloadNonce ti = l_nonce (ledgerOf s) (payloadFrom ti) \<and>
      l_nonce (ledgerOf t) = (l_nonce (ledgerOf s))(payloadFrom ti := wrap64 (payloadNonce ti + 1))
    else l_nonce (ledgerOf t) = l_nonce (ledgerOf s)"
proof -
  from Process_committed [OF assms] obtain u where u: "adapted X (view s) ti u" "committed X (stampBlock s) tx u t" by blast
  note n = commit_laws(3,4) [OF assms(1,2,4) u] and a = adapted_sender [OF u(1)]
  from u(2) guard_signed [of X "view (stampBlock s)" u] n a show ?thesis by (auto simp: committed_def signed_def)
qed

theorem commit_counts_nonces_witness:
  "\<exists>t. CommitProcessor_Process sampleX (sampleTx TxTypeTransfer) sampleWorld = (Ok (), t) \<and>
     l_nonce (ledgerOf t) = (l_nonce (ledgerOf sampleWorld))(0 := 1)"
proof -
  from sample_commit obtain t where t: "CommitProcessor_Process sampleX (sampleTx TxTypeTransfer) sampleWorld = (Ok (), t)" by blast
  with commit_counts_nonces [OF sample_lib sample_healthy sample_parsed _ t] show ?thesis
    by (auto simp: wrap64_def)
qed

text \<open>
  C8. An NFT changes only for its owner: if the committed transaction is not the owner's transfer,
  withdrawal, exit or sale of it, nor a deposit into an emptied slot, nor the mint of that index, the
  NFT is the same afterwards.
\<close>

theorem commit_respects_nft_owner:
  assumes "libOk X" "healthy s" "parsesTo X tx ti" "admissible (view s) ti" "CommitProcessor_Process X tx s = (Ok r, t)"
    and "l_nft (ledgerOf s) n = Some x"
  shows "\<exists>u. adapted X (view s) ti u \<and> (disposes n x u \<or> l_nft (ledgerOf t) n = Some x)"
proof -
  from Process_committed [OF assms(1-5)] obtain u where u: "adapted X (view s) ti u" "committed X (stampBlock s) tx u t" by blast
  with commit_laws(6) [OF assms(1,2,4) u assms(6)] show ?thesis by blast
qed

theorem commit_respects_nft_owner_witness:
  "\<exists>t. CommitProcessor_Process sampleX (sampleTx TxTypeTransfer) sampleWorld = (Ok (), t) \<and>
     l_nft (ledgerOf t) 0 = Some (nftCore sampleNft)"
proof -
  from sample_commit obtain t where t: "CommitProcessor_Process sampleX (sampleTx TxTypeTransfer) sampleWorld = (Ok (), t)" by blast
  have n: "l_nft (ledgerOf sampleWorld) 0 = Some (nftCore sampleNft)" by (simp add: ledgerOf_def sample_nft)
  from t commit_respects_nft_owner [OF sample_lib sample_healthy _ _ t n, of "TransferInfo sampleTransfer"] show ?thesis
    by (auto simp: sample_parses)
qed

section \<open>Filling a block\<close>



text \<open>
  C10. What is permanent stays so along every sequence of steps: an offer that was matched or canceled
  never opens again, an account keeps its name and keys, and an NFT slot in use is never lost.
\<close>

theorem ledger_permanent:
  assumes "libOk X" "healthy s" "reaches X s t"
  shows "(\<forall>i k. \<not> offerOpen (ledgerOf s) i k \<longrightarrow> \<not> offerOpen (ledgerOf t) i k) \<and>
    (\<forall>j b. l_id (ledgerOf s) j = Some b \<longrightarrow> l_id (ledgerOf t) j = Some b) \<and>
    (\<forall>n. l_nft (ledgerOf s) n \<noteq> None \<longrightarrow> l_nft (ledgerOf t) n \<noteq> None)" (is "?I t")
proof -
  have "?I v" if "healthy u" "?I u" "chainStep X u v" for u v
    using that step_laws [OF that(3) assms(1) that(1)] by blast
  then show ?thesis using reaches_induct [OF assms(3,1,2), of ?I] by blast
qed

theorem ledger_permanent_witness:
  "\<exists>t. reaches sampleX sampleWorld t \<and> length (sc_Txs (w_sc t)) = 1 \<and> l_nft (ledgerOf t) 0 \<noteq> None"
proof -
  from sample_step obtain t where t: "chainStep sampleX sampleWorld t" "CommitProcessor_Process sampleX (sampleTx TxTypeTransfer) sampleWorld = (Ok (), t)"
    by blast
  then have r: "reaches sampleX sampleWorld t" by blast
  from commit_Txs [OF sample_lib sample_healthy _ t(2)] have "length (sc_Txs (w_sc t)) = 1" by (simp add: sample_parses)
  moreover have "l_nft (ledgerOf sampleWorld) 0 \<noteq> None" by (simp add: ledgerOf_def sample_nft)
  ultimately show ?thesis using r ledger_permanent [OF sample_lib sample_healthy r] by blast
qed

section \<open>The committer\<close>

text \<open>
  C11. A batch of the committer is a sequence of steps of the chain that keeps the books sound and the
  block within the largest size; when the pending payloads can be written and the block can be
  stored, the loop does not panic.
\<close>

theorem batch_safe:
  assumes "libOk X" "healthy (b_world b)" "bookOk X (b_world b)" "int (length (sc_Txs (w_sc (b_world b)))) \<le> cm_maxTxsPerBlock c"
    and "\<forall>tx \<in> snd ` set pending. pendingOk X (b_world b) tx \<and> writableIn X (b_world b) tx"
    and "\<forall>blk tx. create blk tx = None"
    and "applyPending X c requests create pending b = (e, b')"
  shows "(e = Finished \<or> e = Returned) \<and> reaches X (b_world b) (b_world b') \<and> healthy (b_world b') \<and> bookOk X (b_world b') \<and>
    int (length (sc_Txs (w_sc (b_world b')))) \<le> cm_maxTxsPerBlock c"
proof -
  have np: "e \<noteq> Panicked m" for m
    using applyPending_no_panic [OF assms(1,6,2,5), of c requests m] assms(7) by simp
  have steps: "reaches X (b_world b) (b_world b') \<and> int (length (sc_Txs (w_sc (b_world b')))) \<le> cm_maxTxsPerBlock c"
    by (rule applyPending_steps [OF assms(1,2) _ assms(7)]) (use assms(4,5) np in auto)
  moreover have "healthy (b_world b') \<and> bookOk X (b_world b')"
    using steps reaches_induct [of X "b_world b" "b_world b'" "bookOk X"] assms(1,2,3) bookOk_step by blast
  ultimately show ?thesis using np by (cases e) auto
qed

theorem batch_safe_witness:
  "\<exists>e b'. applyPending sampleX sampleCommitter (\<lambda>_. Inl DbErrNotFound) (\<lambda>_ _. None) [(1000, sampleTx TxTypeTransfer)] sampleBatch = (e, b') \<and>
     (e = Finished \<or> e = Returned) \<and> healthy (b_world b') \<and> bookOk sampleX (b_world b') \<and> length (sc_Txs (w_sc (b_world b'))) \<le> 8"
proof -
  obtain e b' where r: "applyPending sampleX sampleCommitter (\<lambda>_. Inl DbErrNotFound) (\<lambda>_ _. None) [(1000, sampleTx TxTypeTransfer)] sampleBatch = (e, b')"
    by fastforce
  from batch_safe [OF sample_lib _ _ _ _ _ r] sample_healthy sample_books sample_pending r show ?thesis by auto
qed



section \<open>The block and its trees\<close>

text \<open>
  C16. \<open>IntermediateRoot\<close> computes the state root the ledger defines: from any node that is ready it
  succeeds, the leaf of every dirty account is the hash of the account with the root of its asset tree,
  the leaf of every dirty asset the hash of its balance with the gas collected in the block, the leaf of
  every dirty NFT its hash, all other leaves stay, and the state root is the hash of the two roots. The
  order in which Go ranges over the dirty maps has no influence.
\<close>

theorem state_root_refines:
  fixes leaf :: "'t \<Rightarrow> 64 word \<Rightarrow> byte list"
  assumes "libOk X" "smt_ok T leaf rootOf" "rootReady T X K n accs nfts"
  shows "\<exists>m. IntermediateRoot T X b n = (Ok (), m) \<and> sc_StateRoot (w_sc (n_world m)) = rootSpec T X leaf rootOf n accs nfts \<and>
    leaf (n_AccountTree m) = accountSpec T X leaf rootOf n accs \<and> leaf (n_NftTree m) = nftSpec T X leaf n nfts \<and>
    (\<forall>i \<in> set (dirtyAccounts (n_world n)). assetsOf T leaf m i = assetSpec T leaf n accs i)"
  using IntermediateRoot_ok [OF assms, of b] by auto

theorem state_root_refines_witness:
  "\<exists>m. IntermediateRoot sampleSmt sampleX True sampleNode = (Ok (), m) \<and>
    sc_StateRoot (w_sc (n_world m)) = rootSpec sampleSmt sampleX (\<lambda>t. t) (\<lambda>f. f 0 @ f 1) sampleNode (\<lambda>_. sampleAccount 0 100) (\<lambda>_. sampleNft)"
  using state_root_refines [OF sample_lib sampleSmt_ok(1) sampleNode_ready, of True] by blast

text \<open>
  C17. The block that is sealed: with a size that fits, \<open>commitNewBlock\<close> succeeds; the block has the state
  root of the ledger, the given size, all executed transactions, packed, the priority operations and the
  hash of the on-chain operations of the block's books, and the commitment over the old root, the new
  root and the padded public data; the public data is \<open>192\<close> bytes for every transaction the block has
  room for; the compressed block carries the same height, root and data.
\<close>

theorem block_sealed:
  fixes leaf :: "'t \<Rightarrow> 64 word \<Rightarrow> byte list"
  assumes "libOk X" "smt_ok T leaf rootOf" "field_ok T" "rootReady T X K n accs nfts" "bookOk X (n_world n)" "x_PubDataSizePerTx X = 6"
    and "int (length (sc_Txs (w_sc (n_world n)))) \<le> size'"
    and "inField T (bk_BlockHeight (openBlock now (n_world n)))" "inField T (bk_CreatedAt (openBlock now (n_world n)))"
      "inField T (int (length (sc_PubDataOffset (w_sc (n_world n)))))"
  shows "\<exists>b cb m pub. commitNewBlock T X size' now n = (Ok (b, cb), m) \<and> bk_StateRoot b = rootSpec T X leaf rootOf n accs nfts \<and>
    bk_BlockSize b = word_of_int size' \<and> bk_BlockStatus b = BlockPending \<and>
    bk_Txs b = map (\<lambda>t. t\<lparr>tx_TxStatus := StatusPacked\<rparr>) (sc_Txs (w_sc (n_world n))) \<and>
    bk_PriorityOperations b = sc_PriorityOperations (w_sc (n_world n)) \<and>
    bk_PendingOnChainOperationsHash b = x_Bytes2Hex X (sc_PendingOnChainOperationsHash (w_sc (n_world n))) \<and>
    int (length pub) = 192 * size' \<and> take (length (sc_PubData (w_sc (n_world n)))) pub = sc_PubData (w_sc (n_world n)) \<and>
    bk_BlockCommitment b = commitmentOf T X (bk_BlockHeight b) (bk_CreatedAt b) (x_FromHex X (bk_StateRoot (openBlock now (n_world n))))
      (x_FromHex X (bk_StateRoot b)) pub (int (length (sc_PubDataOffset (w_sc (n_world n))))) \<and>
    cb_PublicData cb = x_Bytes2Hex X pub \<and> cb_StateRoot cb = bk_StateRoot b \<and> cb_BlockHeight cb = bk_BlockHeight b \<and>
    w_currentBlock (n_world m) = b"
proof -
  let ?c = "w_sc (n_world n)"
  have l: "length (sc_PubData ?c) = 192 * length (sc_Txs ?c)" using assms(5) by (simp add: bookOk_def Let_def)
  have "int (length (paddedPubData X size' ?c)) = 192 * size'" using assms(6,7) l by (simp add: paddedPubData_def)
  moreover have "take (length (sc_PubData ?c)) (paddedPubData X size' ?c) = sc_PubData ?c" by (simp add: paddedPubData_def)
  moreover have "0 \<le> x_PubDataSizePerTx X" using assms(6) by simp
  ultimately show ?thesis
    using commitNewBlock_ok [OF assms(1,2,3,4,7) _ assms(8,9,10)]
    by (intro exI [of _ "sealBlock X size' (commitmentOf T X (bk_BlockHeight (openBlock now (n_world n))) (bk_CreatedAt (openBlock now (n_world n)))
      (x_FromHex X (bk_StateRoot (openBlock now (n_world n)))) (x_FromHex X (rootSpec T X leaf rootOf n accs nfts)) (paddedPubData X size' ?c)
      (int (length (sc_PubDataOffset ?c)))) (?c\<lparr>sc_StateRoot := rootSpec T X leaf rootOf n accs nfts\<rparr>) (openBlock now (n_world n))"])
      (auto simp: sealBlock_def)
qed

theorem block_sealed_witness:
  "\<exists>b cb m. commitNewBlock sampleSmt sampleX 1 0 sampleNode = (Ok (b, cb), m) \<and> bk_BlockStatus b = BlockPending \<and> bk_BlockSize b = 1 \<and>
    cb_StateRoot cb = bk_StateRoot b"
proof -
  have w: "bookOk sampleX (n_world sampleNode)" "openBlock 0 (n_world sampleNode) = sampleBlock" "sc_Txs (w_sc (n_world sampleNode)) = []"
    "sc_PubDataOffset (w_sc (n_world sampleNode)) = []"
    using sample_books by (simp_all add: sampleNode_def updSc_def bookOk_def openBlock_def sampleWorld_def sampleBlock_def NewStateCache_def Let_def)
  have f: "inField sampleSmt (bk_BlockHeight sampleBlock)" "inField sampleSmt (bk_CreatedAt sampleBlock)"
    by (simp_all add: sampleBlock_def inField_def sampleSmt_def zeroTimeMilli_def)
  have "x_PubDataSizePerTx sampleX = 6" by (simp add: sampleLib_def)
  from block_sealed [OF sample_lib sampleSmt_ok sampleNode_ready w(1) this, of 1 0] show ?thesis
    by (auto simp: w f sample_inField)
qed

text \<open>
  C18. The committer's choice of a size always fits: for a committer that \<open>NewCommitter\<close> accepts and a
  block with at most as many transactions as \<open>shouldCommit\<close> lets in, the computed size is one of the
  configured ones, no smaller than the number of transactions, and, when the sizes are configured in
  ascending order, the smallest such size.
\<close>

theorem block_size_fits:
  assumes "NewCommitter sizes = Inr c" "int (length (sc_Txs (w_sc s))) \<le> cm_maxTxsPerBlock c"
  shows "computeCurrentBlockSize c s \<in> set sizes \<and> int (length (sc_Txs (w_sc s))) \<le> computeCurrentBlockSize c s \<and>
    (sorted sizes \<longrightarrow> (\<forall>m \<in> set sizes. int (length (sc_Txs (w_sc s))) \<le> m \<longrightarrow> computeCurrentBlockSize c s \<le> m))"
proof -
  from assms(1) have "sizes \<noteq> []" "c = \<lparr>cm_maxTxsPerBlock = last sizes, cm_optionalBlockSizes = sizes\<rparr>"
    by (auto simp: NewCommitter_def split: if_splits)
  with assms(2) firstFit_fits [of "int (length (sc_Txs (w_sc s)))" sizes] firstFit_least [of sizes] show ?thesis
    by (simp add: computeCurrentBlockSize_def)
qed

theorem block_size_fits_witness:
  "NewCommitter [1, 8] = Inr sampleCommitter \<and> computeCurrentBlockSize sampleCommitter sampleWorld = 1"
proof -
  have n: "NewCommitter [1, 8] = Inr sampleCommitter" by (simp add: NewCommitter_def sampleCommitter_def)
  with block_size_fits [OF n, of sampleWorld] show ?thesis by (auto dest: bspec [of _ _ 1])
qed

text \<open>
  C19. \<open>RollBackTrees\<close> never reports success: it starts two tasks more than there are changed asset
  trees but waits for three results more, so it either returns the error of a task or waits for ever.
\<close>

theorem rollback_never_succeeds:
  assumes "range_ok X" "distinct (n_changes n)" "RollBackTrees T X version n = (Ok r, m)"
  shows "r \<noteq> Some None"
  using RollBackTrees_results [OF assms] receive_short by metis

theorem rollback_never_succeeds_witness:
  "\<exists>r m. RollBackTrees sampleSmt sampleX 0 sampleNode = (Ok r, m) \<and> r = None \<and> r \<noteq> Some None"
proof -
  have r: "RollBackTrees sampleSmt sampleX 0 sampleNode = (Ok None, sampleNode)"
    by (simp add: RollBackTrees_def GetChanges_def sampleNode_def Let_def bnd_run attempt_def rollAccountTree_def rollNftTree_def
        sampleSmt_def sampleLib_def numeral_3_eq_3)
  have d: "distinct (n_changes sampleNode)" by (simp add: sampleNode_def)
  show ?thesis using r rollback_never_succeeds [OF libOkD(3) [OF sample_lib] d r] by blast
qed

section \<open>The services facing L1\<close>



text \<open>
  C21. What the sender commits: when \<open>CommitBlocks\<close> sends anything, no commit was waiting; it sends one
  call with all compressed blocks of the window that starts right above the last handled block, in
  ascending order, after the stored header of that block (the genesis header when there is none), and
  records it as waiting with the height of the last block sent; only a failing database keeps it from
  recording it.
\<close>

theorem sender_commits_next_blocks:
  assumes "CommitBlocks T X c L s = (r, t)" "ru_sent t \<noteq> ru_sent s"
  shows "\<exists>header bs price h. pendingRows TxTypeCommit s = [] \<and> headerBefore T X s header \<and> bs \<noteq> [] \<and>
    set bs = {b \<in> set (ru_CompressedBlock s). startHeight (lastHandled TxTypeCommit s) \<le> cb_BlockHeight b \<and>
      cb_BlockHeight b \<le> wrap64 (startHeight (lastHandled TxTypeCommit s) + sd_MaxBlockCount c)} \<and>
    sorted (map cb_BlockHeight bs) \<and>
    ru_sent t = ru_sent s @ [CommitCall header (map (commitInfo X) bs) price (sd_GasLimit c)] \<and>
    (r = Ok () \<and> map rt_L2BlockHeight (pendingRows TxTypeCommit t) = [uint (word_of_int (cb_BlockHeight (last bs)) :: 32 word)] \<or>
     (\<exists>e. r = Err e) \<and> ru_L1RollupTx t = ru_L1RollupTx s)"
proof -
  from CommitBlocks_outcome [OF assms(1)] assms(2) obtain header price h where o: "pendingRows TxTypeCommit s = []" "toCommit c s \<noteq> []"
    "headerBefore T X s header" and t: "r = Ok () \<and> t = recorded h TxTypeCommit (uint (ci_BlockNumber (commitInfo X (last (toCommit c s)))))
        (sent (CommitCall header (map (commitInfo X) (toCommit c s)) price (sd_GasLimit c)) s) \<or>
      (\<exists>e. r = Err e) \<and> t = sent (CommitCall header (map (commitInfo X) (toCommit c s)) price (sd_GasLimit c)) s"
    by (auto simp: Let_def)
  have "sorted (map cb_BlockHeight (toCommit c s))" "set (toCommit c s) = {b \<in> set (ru_CompressedBlock s).
      startHeight (lastHandled TxTypeCommit s) \<le> cb_BlockHeight b \<and>
      cb_BlockHeight b \<le> wrap64 (startHeight (lastHandled TxTypeCommit s) + sd_MaxBlockCount c)}"
    by (auto simp: toCommit_def Let_def)
  with o t show ?thesis
    by (intro exI [of _ header] exI [of _ "toCommit c s"] exI [of _ price])
      (auto simp: recorded_def sent_def pendingRows_def commitInfo_def)
qed

theorem sender_commits_next_blocks_witness:
  "\<exists>header bs price t. CommitBlocks sampleSmt sampleX sampleSender sampleCalls sampleRollup = (Ok (), t) \<and> bs \<noteq> [] \<and>
    set bs \<subseteq> {sampleCompressed} \<and> ru_sent t = [CommitCall header (map (commitInfo sampleX) bs) price 100]"
proof -
  obtain r t where o: "CommitBlocks sampleSmt sampleX sampleSender sampleCalls sampleRollup = (r, t)" by fastforce
  have "length (ru_sent (snd (CommitBlocks sampleSmt sampleX sampleSender sampleCalls sampleRollup))) = 1" by code_simp
  then have n: "ru_sent t \<noteq> ru_sent sampleRollup" using o by (auto simp: sampleRollup_def)
  have "(case CommitBlocks sampleSmt sampleX sampleSender sampleCalls sampleRollup of (Ok _, _) \<Rightarrow> True | _ \<Rightarrow> False)" by code_simp
  then have ok: "r = Ok ()" using o by (auto split: res.splits)
  from sender_commits_next_blocks [OF o n] obtain header bs price where "bs \<noteq> []" "set bs \<subseteq> {sampleCompressed}"
    "ru_sent t = [CommitCall header (map (commitInfo sampleX) bs) price 100]"
    by (auto simp: sampleRollup_def sampleSender_def)
  with o ok show ?thesis by blast
qed

text \<open>
  C22. What the sender verifies: when \<open>VerifyAndExecuteBlocks\<close> sends anything, no verification was
  waiting; it sends the committed blocks of the window above the last verified block, each with an
  unsent proof of exactly its number, and never a block without its proof.
\<close>

theorem sender_verifies_with_proofs:
  assumes "VerifyAndExecuteBlocks X c L s = (r, t)" "ru_sent t \<noteq> ru_sent s"
  shows "\<exists>bs ps proofs price. pendingRows TxTypeVerifyAndExecute s = [] \<and> bs \<noteq> [] \<and> set ps \<subseteq> set (ru_Proof s) \<and>
    (\<forall>b \<in> set bs. b \<in> set (ru_Block s) \<and> bk_BlockStatus b = BlockCommitted \<and>
       startHeight (lastHandled TxTypeVerifyAndExecute s) \<le> bk_BlockHeight b) \<and>
    map pf_BlockNumber ps = map bk_BlockHeight bs \<and> (\<forall>p \<in> set ps. pf_Status p = NotSent) \<and> proofElements L ps s = (Ok proofs, s) \<and>
    ru_sent t = ru_sent s @ [VerifyCall (map (verifyInfo X) bs) proofs price (sd_GasLimit c)]"
proof -
  from Verify_outcome [OF assms(1)] assms(2) obtain proofs price where o: "pendingRows TxTypeVerifyAndExecute s = []" "toVerify c s \<noteq> []"
    "map pf_BlockNumber (proofsNext c s) = map bk_BlockHeight (toVerify c s)" "proofElements L (proofsNext c s) s = (Ok proofs, s)"
    "ru_sent t = ru_sent s @ [VerifyCall (map (verifyInfo X) (toVerify c s)) proofs price (sd_GasLimit c)]"
    by (auto simp: Let_def recorded_def sent_def)
  moreover have "\<forall>b \<in> set (toVerify c s). b \<in> set (ru_Block s) \<and> bk_BlockStatus b = BlockCommitted \<and>
      startHeight (lastHandled TxTypeVerifyAndExecute s) \<le> bk_BlockHeight b" "set (proofsNext c s) \<subseteq> set (ru_Proof s)"
    "\<forall>p \<in> set (proofsNext c s). pf_Status p = NotSent"
    by (auto simp: toVerify_def proofsNext_def Let_def)
  ultimately show ?thesis by blast
qed

theorem sender_verifies_with_proofs_witness:
  "\<exists>bs proofs price t. VerifyAndExecuteBlocks sampleX sampleSender sampleCalls sampleRollup = (Ok (), t) \<and> bs \<noteq> [] \<and>
    ru_sent t = [VerifyCall (map (verifyInfo sampleX) bs) proofs price 100]"
proof -
  obtain r t where o: "VerifyAndExecuteBlocks sampleX sampleSender sampleCalls sampleRollup = (r, t)" by fastforce
  have "length (ru_sent (snd (VerifyAndExecuteBlocks sampleX sampleSender sampleCalls sampleRollup))) = 1" by code_simp
  then have n: "ru_sent t \<noteq> ru_sent sampleRollup" using o by (auto simp: sampleRollup_def)
  have "(case VerifyAndExecuteBlocks sampleX sampleSender sampleCalls sampleRollup of (Ok _, _) \<Rightarrow> True | _ \<Rightarrow> False)" by code_simp
  then have ok: "r = Ok ()" using o by (auto split: res.splits)
  from sender_verifies_with_proofs [OF o n] obtain bs proofs price where "bs \<noteq> []"
    "ru_sent t = [VerifyCall (map (verifyInfo sampleX) bs) proofs price 100]"
    by (auto simp: sampleRollup_def sampleSender_def)
  with o ok show ?thesis by blast
qed

text \<open>
  C23. The range of L1 blocks the monitor reads next: it starts right above the last block it read, is
  at most \<open>MaxHandledBlocksCount\<close> long and ends at a block with the configured number of
  confirmations; this holds too when the chain is shorter than that number and the unsigned
  subtraction of the code wraps around: the range is empty then.
\<close>

theorem sync_range_bounds:
  assumes "\<not> ru_down s" "l1_GetHeight L = Inr h" "heightsFit c ty s h"
  shows "\<exists>start end'. getBlockRangeToSync c L ty s = (Ok (start, end'), s) \<and> start = handledHeight c ty s + 1 \<and>
    end' - handledHeight c ty s \<le> mc_MaxHandledBlocksCount c \<and> end' + uint (mc_ConfirmBlocksCount c) \<le> uint h \<and>
    (uint h < uint (mc_ConfirmBlocksCount c) \<longrightarrow> end' < start)"
  using range_eq [OF assms] assms(3) by (auto simp: heightsFit_def min_def)

theorem sync_range_bounds_witness:
  "\<exists>start end'. getBlockRangeToSync sampleMonitor sampleL1 TypeGeneric sampleRollup = (Ok (start, end'), sampleRollup) \<and>
    start = 2 \<and> end' \<le> 11 \<and> end' \<le> 97"
proof -
  have f: "\<not> ru_down sampleRollup" "l1_GetHeight sampleL1 = Inr 100" "heightsFit sampleMonitor TypeGeneric sampleRollup 100"
    "handledHeight sampleMonitor TypeGeneric sampleRollup = 1"
    by (simp_all add: sampleRollup_def sampleL1_def heightsFit_def handledHeight_def syncedRows_def sampleMonitor_def)
  from sync_range_bounds [OF f(1-3)] f(4) show ?thesis by (auto simp: sampleMonitor_def)
qed

text \<open>
  C24. Every L1 block is read once: after a pass of \<open>MonitorGenericBlocks\<close> that succeeds, either there
  was nothing to read and nothing changed, or the events of the whole range are stored and the next
  range starts right above the end of this one; a pass that fails leaves the last read block, and every
  table but the rows of rollup transactions, as they were, so the same range is read again.
\<close>

theorem l1_blocks_read_once:
  assumes "MonitorGenericBlocks X c L s = (r, t)" "\<not> ru_down s" "l1_GetHeight L = Inr h" "heightsFit c TypeGeneric s h"
  shows "case r of Ok _ \<Rightarrow>
      (let e = min (uint h - uint (mc_ConfirmBlocksCount c)) (handledHeight c TypeGeneric s + mc_MaxHandledBlocksCount c) in
       if e \<le> handledHeight c TypeGeneric s then t = s else handledHeight c TypeGeneric t = e)
    | _ \<Rightarrow> t = s\<lparr>ru_L1RollupTx := ru_L1RollupTx t, ru_nextId := ru_nextId t\<rparr>"
proof -
  let ?e = "min (uint h - uint (mc_ConfirmBlocksCount c)) (handledHeight c TypeGeneric s + mc_MaxHandledBlocksCount c)"
  from Generic_outcome [OF assms] consider (stored) a where "r = Ok ()" "handledHeight c TypeGeneric s < ?e" "storeGeneric X ?e a s = (Ok (), t)"
    | (none) "r = Ok ()" "?e \<le> handledHeight c TypeGeneric s" "t = s" | (failed) "\<forall>u. r \<noteq> Ok u" "undone s t" by blast
  then show ?thesis
  proof cases
    case stored
    from handledHeight_stored [OF stored(3,2)] stored(1,2) show ?thesis unfolding Let_def by (simp only: res.case not_le [symmetric] if_False)
  next
    case none
    then show ?thesis unfolding Let_def by (simp only: res.case if_True)
  next
    case failed
    then show ?thesis by (cases r) (simp_all add: undone_def)
  qed
qed

theorem l1_blocks_read_once_witness:
  "\<exists>t. MonitorGenericBlocks sampleX sampleMonitor sampleL1 sampleRollup = (Ok (), t) \<and> handledHeight sampleMonitor TypeGeneric t = 11"
proof -
  obtain r t where o: "MonitorGenericBlocks sampleX sampleMonitor sampleL1 sampleRollup = (r, t)" by fastforce
  have "(case MonitorGenericBlocks sampleX sampleMonitor sampleL1 sampleRollup of (Ok _, _) \<Rightarrow> True | _ \<Rightarrow> False)" by code_simp
  then have ok: "r = Ok ()" using o by (auto split: res.splits)
  have f: "\<not> ru_down sampleRollup" "l1_GetHeight sampleL1 = Inr 100" "heightsFit sampleMonitor TypeGeneric sampleRollup 100"
    "handledHeight sampleMonitor TypeGeneric sampleRollup = 1"
    by (simp_all add: sampleRollup_def sampleL1_def heightsFit_def handledHeight_def syncedRows_def sampleMonitor_def)
  from l1_blocks_read_once [OF o f(1-3)] ok f(4) o show ?thesis by (simp add: sampleMonitor_def)
qed

text \<open>
  C25. Every priority request becomes one transaction of the pool, in order: when
  \<open>MonitorPriorityRequests\<close> succeeds with requests waiting, their ids follow the last handled id without
  a gap, the pool grows by exactly one transaction for each, parsed from its public data and linked by
  its hash, and exactly the waiting requests become handled; when it fails, nothing changes.
\<close>

theorem requests_enter_pool:
  assumes "MonitorPriorityRequests T X s = (r, t)" "distinct (map pr_ID (ru_PriorityRequest s))" "pendingRequests s \<noteq> []"
  shows "case r of Ok _ \<Rightarrow> idsFrom (latestHandledId s) (pendingRequests s) \<and>
      (\<exists>txs. list_all2 (standsFor T X) (pendingRequests s) txs \<and> ru_TxPool t = ru_TxPool s @ txs) \<and>
      ru_PriorityRequest t = map (handledRow T X) (ru_PriorityRequest s)
    | _ \<Rightarrow> t = s"
proof (cases r)
  case (Ok u)
  with MonitorPriorityRequests_ok [OF _ assms(3,2)] assms(1) show ?thesis by simp
qed (use MonitorPriorityRequests_fail [OF assms(1)] in auto)

theorem requests_enter_pool_witness:
  "\<exists>t. MonitorPriorityRequests sampleSmt depositX sampleRollup = (Ok (), t) \<and> length (ru_TxPool t) = 1 \<and>
    map pr_Status (ru_PriorityRequest t) = [RequestHandled]"
proof -
  obtain r t where o: "MonitorPriorityRequests sampleSmt depositX sampleRollup = (r, t)" by fastforce
  have "(case MonitorPriorityRequests sampleSmt depositX sampleRollup of (Ok _, _) \<Rightarrow> True | _ \<Rightarrow> False)" by code_simp
  then have ok: "r = Ok ()" using o by (auto split: res.splits)
  have p: "pendingRequests sampleRollup = [sampleRequest]" by (simp add: pendingRequests_def sampleRollup_def sampleRequest_def)
  from requests_enter_pool [OF o] ok have "list_all2 (standsFor sampleSmt depositX) [sampleRequest] (ru_TxPool t) \<and>
      ru_PriorityRequest t = [handledRow sampleSmt depositX sampleRequest]"
    by (auto simp: p) (auto simp: sampleRollup_def)
  then show ?thesis using o ok by (auto dest: list_all2_lengthD simp: handledRow_def sampleRequest_def)
qed

text \<open>
  C26. A deposit on L1 reaches the executor unchanged: a waiting request that carries the contract's
  encoding of a deposit becomes a pending transaction of the pool which the committer's executor reads
  back as exactly that deposit, from the address that made it.
\<close>

theorem deposit_reaches_executor:
  assumes "MonitorPriorityRequests T X s = (Ok (), t)" "distinct (map pr_ID (ru_PriorityRequest s))" "q \<in> set (pendingRequests s)"
    and "pr_TxType q = TxTypeDeposit" "depositFits d" "dp_TxType d = TxTypeDeposit" "x_FromHex X (pr_Pubdata q) = encodeDeposit d"
    and "\<forall>info. x_MarshalTx X (DepositInfo d) = Inr info \<longrightarrow> x_UnmarshalDeposit X info = Inr d"
  shows "\<exists>tx \<in> set (ru_TxPool t). parsesTo X tx (DepositInfo d) \<and> tx_NativeAddress tx = pr_SenderAddress q \<and> tx_TxStatus tx = StatusPending"
proof -
  have p: "requestPayload X q u = (Ok (TxTypeDeposit, DepositInfo d), u)" for u
  proof -
    have "ParseDepositPubData (encodeDeposit d) u = (Ok d, u)" by (rule ParseDeposit_encode [OF assms(5)])
    then show ?thesis by (simp add: requestPayload_def Let_def assms(4,6,7) bnd_run mapErr_def txtype_defs)
  qed
  have ne: "pendingRequests s \<noteq> []" using assms(3) by auto
  from MonitorPriorityRequests_ok [OF assms(1) ne assms(2)] obtain txs where
    txs: "list_all2 (standsFor T X) (pendingRequests s) txs" "ru_TxPool t = ru_TxPool s @ txs" by blast
  with assms(3) obtain tx where tx: "tx \<in> set (ru_TxPool t)" "standsFor T X q tx"
    by (auto simp: list_all2_conv_all_nth in_set_conv_nth) (metis nth_mem)
  then obtain info where i: "x_MarshalTx X (DepositInfo d) = Inr info" "tx_TxType tx = TxTypeDeposit" "tx_TxInfo tx = info"
    "tx_NativeAddress tx = pr_SenderAddress q" "tx_TxStatus tx = StatusPending"
    using standsForD [OF tx(2) p] by blast
  with assms(8) have "parsesTo X tx (DepositInfo d)"
    by (auto simp: parsesTo_def NewTxExecutor_def NewDepositExecutor_def newExecutor_def bnd_run mapErr_def ofSum_run txtype_defs)
  with tx i show ?thesis by blast
qed

theorem deposit_reaches_executor_witness:
  "\<exists>t. MonitorPriorityRequests sampleSmt depositX sampleRollup = (Ok (), t) \<and>
    (\<exists>tx \<in> set (ru_TxPool t). parsesTo depositX tx (DepositInfo sampleDeposit) \<and> tx_NativeAddress tx = ''s'')"
proof -
  obtain r t where o: "MonitorPriorityRequests sampleSmt depositX sampleRollup = (r, t)" by fastforce
  have "(case MonitorPriorityRequests sampleSmt depositX sampleRollup of (Ok _, _) \<Rightarrow> True | _ \<Rightarrow> False)" by code_simp
  then have ok: "MonitorPriorityRequests sampleSmt depositX sampleRollup = (Ok (), t)" using o by (auto split: res.splits)
  have "distinct (map pr_ID (ru_PriorityRequest sampleRollup))" "sampleRequest \<in> set (pendingRequests sampleRollup)"
    "pr_TxType sampleRequest = TxTypeDeposit" "dp_TxType sampleDeposit = TxTypeDeposit"
    "x_FromHex depositX (pr_Pubdata sampleRequest) = encodeDeposit sampleDeposit"
    "\<forall>info. x_MarshalTx depositX (DepositInfo sampleDeposit) = Inr info \<longrightarrow> x_UnmarshalDeposit depositX info = Inr sampleDeposit"
    by (simp_all add: sampleRollup_def pendingRequests_def sampleRequest_def sampleDeposit_def sample_hex TxTypeDeposit_def)
      (simp add: sampleLib_def)
  from deposit_reaches_executor [OF ok this(1-3) sampleDeposit_fits this(4-6)] ok show ?thesis by (auto simp: sampleRequest_def)
qed







section \<open>From block to block\<close>

text \<open>
  C30. The loop of the committer keeps the ledger from pass to pass. A pass of \<open>Committer.Run\<close> over the
  database, which starts the next block if the last one is closed, executes the pending transactions of
  the pool, writes Redis and the pool, and commits the block if it is due, starts from the ledger the
  last pass left, goes on by steps of the chain only, and leaves either the ledger these steps end in or
  the same with the gas of the block paid to the gas account. In both cases the invariant holds that the
  next pass relies on: rows, caches and pending objects agree.
\<close>

theorem committer_pass:
  assumes "libOk X" "passOk X L s" "\<forall>s1. startBlock X s = (Ok (), s1) \<longrightarrow> poolOk X (worldOf s1) (sv_rollup s1)"
    and "Run_pass T X c clock latest s = (Ok (Some latest'), t)"
  shows "\<exists>w0 w. turnReady w0 \<and> ledgerOf w0 = L \<and> reaches X w0 w \<and> (passOk X (ledgerOf w) t \<or> passOk X (settleL (ledgerOf w)) t)"
  by (rule Run_pass_ok [OF assms])

theorem committer_pass_witness:
  "\<exists>t w0 w. Run_pass sampleSmt sampleX sampleCommitter (\<lambda>_. 0) 0 sampleService = (Ok (Some 0), t) \<and> turnReady w0 \<and>
     ledgerOf w0 = ledgerOf servedWorld \<and> reaches sampleX w0 w \<and> (passOk sampleX (ledgerOf w) t \<or> passOk sampleX (settleL (ledgerOf w)) t)"
proof -
  from sample_pass obtain t where t: "Run_pass sampleSmt sampleX sampleCommitter (\<lambda>_. 0) 0 sampleService = (Ok (Some 0), t)" by blast
  have "\<forall>s1. startBlock sampleX sampleService = (Ok (), s1) \<longrightarrow> poolOk sampleX (worldOf s1) (sv_rollup s1)"
    using startBlock_ok [OF served_pass] by (auto simp: poolOk_def served_pool)
  from committer_pass [OF sample_lib served_pass this t] t show ?thesis by blast
qed

text \<open>
  C31. Closing a block and starting the next one changes nothing a transaction can see but the gas: after
  the caches were synchronised, the block committed and the next one started, every balance, nonce,
  offer, name and NFT reads as before, the gas account has the gas of the block on top, the gas counter
  is zero, and the total of every asset is the same.
\<close>

theorem block_turn:
  assumes "libOk X" "turnReady (worldOf s)" "turnBlock T X c s = (Ok u, t)"
  shows "turnReady (worldOf t) \<and> ledgerOf (worldOf t) = settleL (ledgerOf (worldOf s)) \<and> statusOf (worldOf t) = StatusProposing \<and>
    (\<forall>S a. finite S \<longrightarrow> GasAccount \<in> S \<longrightarrow> assetTotal S a (ledgerOf (worldOf t)) = assetTotal S a (ledgerOf (worldOf s)))"
  using turnBlock_ok [OF assms] by (simp add: settleL_total)

theorem block_turn_witness:
  "\<exists>t. turnBlock sampleSmt sampleX sampleCommitter sampleService = (Ok (), t) \<and> l_bal (ledgerOf (worldOf t)) 1 0 = 12 \<and>
     l_gas (ledgerOf (worldOf t)) 0 = 0 \<and> assetTotal {0, 1} 0 (ledgerOf (worldOf t)) = 112"
proof -
  from sample_turn obtain t where t: "turnBlock sampleSmt sampleX sampleCommitter sampleService = (Ok (), t)" by blast
  have L: "l_bal (ledgerOf servedWorld) 0 0 = 100" "l_bal (ledgerOf servedWorld) 1 0 = 7" "l_gas (ledgerOf servedWorld) 0 = 5"
    by (simp_all add: ledgerOf_def atAcc_def served_acct assetBal_def sampleSelf_def sampleAccount_def)
       (simp add: servedWorld_def GetPendingGas_def mget_def)
  have w: "worldOf sampleService = servedWorld" by (simp add: sampleService_def)
  from block_turn [OF sample_lib served_ready t] t L show ?thesis
    by (intro exI [of _ t]) (auto simp: w settleL_def GasAccount_def assetTotal_def)
qed



text \<open>
  C33. A block is stored as a whole or not at all: when committing it fails or panics at any point, in
  the trees, in Redis or in the middle of the writes, no table has changed.
\<close>

theorem block_store_atomic:
  assumes "Committer_commitNewBlock T X c s = (r, t)" "\<forall>b. r \<noteq> Ok b"
  shows "w_db (worldOf t) = w_db (worldOf s) \<and> sv_rollup t = sv_rollup s \<and> sv_AccountHistory t = sv_AccountHistory s \<and>
    sv_L2NftHistory t = sv_L2NftHistory s"
  using commit_aborts [OF assms(1)] assms(2) by (simp add: sameTables_def)

theorem block_store_atomic_witness:
  "\<exists>r t. Committer_commitNewBlock sampleSmt sampleX \<lparr>cm_maxTxsPerBlock = 0, cm_optionalBlockSizes = [0]\<rparr> sampleService = (r, t) \<and>
     r = Err (ErrorsNew ''block size too small'') \<and> sv_rollup t = sv_rollup sampleService"
proof -
  let ?c = "\<lparr>cm_maxTxsPerBlock = 0, cm_optionalBlockSizes = [0]\<rparr>"
  have z: "computeCurrentBlockSize ?c servedWorld = 0" "sc_Txs (w_sc servedWorld) = [servedTx]"
    by (simp_all add: computeCurrentBlockSize_def servedWorld_def)
  have "Committer_commitNewBlock sampleSmt sampleX ?c sampleService = (Err (ErrorsNew ''block size too small''), sampleService)"
    by (simp add: Committer_commitNewBlock_def bnd_run onNode_def CommitNewBlock_def commitNewBlock_small sampleService_def z)
  with block_store_atomic [of sampleSmt sampleX ?c sampleService] show ?thesis by blast
qed

section \<open>From witness to proof\<close>

text \<open>
  C34. The proving pipeline is sound whatever the interleaving of provers, of the witness service, of the
  sender and of outages, and without relying on the lock between provers: there is exactly one witness
  for each height 1, 2, 3 and so on, at most one proof for a block, and every stored proof encodes a
  groth16 proof that was checked against the roots and the commitment of the witness of its block, under
  the key for the size of that block.
\<close>

theorem proofs_sound:
  assumes "(pipeline_step G sizes)\<^sup>*\<^sup>* (s0, \<lambda>_. Idle) (s, ps)" "pv_Witness s0 = []" "ru_Proof (pv_db s0) = []"
  shows "map bw_Height (pv_Witness s) = map int [1..<Suc (length (pv_Witness s))] \<and>
    distinct (map pf_BlockNumber (ru_Proof (pv_db s))) \<and>
    (\<forall>p \<in> set (ru_Proof (pv_db s)). \<exists>w \<in> set (pv_Witness s). bw_Height w = pf_BlockNumber p \<and>
       (\<exists>b proof raw e. gr_Unmarshal G (bw_WitnessData w) = Inr (Some b) \<and> verified G sizes b proof \<and>
          gr_WriteRawTo G proof = Inr raw \<and> rawElements raw = Some e \<and> gr_MarshalProof G (formatted b e) = Inr (pf_ProofInfo p)))"
proof -
  have ok: "pipeOk G sizes (s, ps)" by (rule steps_pipeOk [OF assms(1) start_pipeOk [OF assms(2,3)]])
  have "\<exists>w \<in> set (pv_Witness s). bw_Height w = pf_BlockNumber p \<and> proves G sizes (bw_WitnessData w) (pf_ProofInfo p)"
    if p: "p \<in> set (ru_Proof (pv_db s))" for p
  proof -
    obtain k data where "(k, pf_BlockNumber p, data) \<in> set (entries s)" "proves G sizes data (pf_ProofInfo p)"
      using ok p unfolding pipeOk_def proofsOk_def prod.case by blast
    then show ?thesis by (auto simp: entry_def)
  qed
  then show ?thesis using ok by (simp add: pipeOk_def logOk_def proofsOk_def proves_def)
qed

theorem proofs_sound_witness:
  "map bw_Height (pv_Witness sampleProved) = [1] \<and> (\<exists>p \<in> set (ru_Proof (pv_db sampleProved)). \<exists>b. verified sampleGroth [1] b ())"
proof -
  note sound = proofs_sound [OF sample_steps sample_empty]
  have "length (pv_Witness sampleProved) = 1" using sample_proved(2) by (metis length_map length_Cons list.size(3) One_nat_def)
  then have "map bw_Height (pv_Witness sampleProved) = [1]" using sound by simp
  moreover obtain p where "p \<in> set (ru_Proof (pv_db sampleProved))" using sample_proved(1) by (cases "ru_Proof (pv_db sampleProved)") auto
  ultimately show ?thesis using sound by (metis (full_types) old.unit.exhaust)
qed

text \<open>
  C35. What reaches L1: when the sender verifies blocks out of a database the provers filled, the proof
  data of its call are, block after block, the eight elements of a groth16 proof that was checked for the
  witness of exactly that block. The one assumption on the encoding is that decoding a proof inverts
  encoding it.
\<close>

theorem verified_proofs_reach_L1:
  assumes "(pipeline_step G sizes)\<^sup>*\<^sup>* (s0, \<lambda>_. Idle) (s, ps)" "pv_Witness s0 = []" "ru_Proof (pv_db s0) = []"
    and "\<And>f info. gr_MarshalProof G f = Inr info \<Longrightarrow> l1_UnmarshalProof L info = Inr f"
    and "VerifyAndExecuteBlocks X c L (pv_db s) = (r, t)" "ru_sent t \<noteq> ru_sent (pv_db s)"
  shows "\<exists>bs ess price. bs \<noteq> [] \<and>
    ru_sent t = ru_sent (pv_db s) @ [VerifyCall (map (verifyInfo X) bs) (concat ess) price (sd_GasLimit c)] \<and>
    list_all2 (\<lambda>b. provenElements G sizes s (bk_BlockHeight b)) bs ess"
proof -
  have ok: "proofsOk G sizes (set (entries s)) (ru_Proof (pv_db s))"
    using steps_pipeOk [OF assms(1) start_pipeOk [OF assms(2,3)]] by (simp add: pipeOk_def)
  from Verify_outcome [OF assms(5)] assms(6) obtain proofs price where o: "toVerify c (pv_db s) \<noteq> []"
    "map pf_BlockNumber (proofsNext c (pv_db s)) = map bk_BlockHeight (toVerify c (pv_db s))"
    "proofElements L (proofsNext c (pv_db s)) (pv_db s) = (Ok proofs, pv_db s)"
    "ru_sent t = ru_sent (pv_db s) @ [VerifyCall (map (verifyInfo X) (toVerify c (pv_db s))) proofs price (sd_GasLimit c)]"
    by (auto simp: Let_def recorded_def sent_def)
  have "set (proofsNext c (pv_db s)) \<subseteq> set (ru_Proof (pv_db s))" by (auto simp: proofsNext_def Let_def)
  from proofElements_proven [OF assms(4) ok this, of "pv_db s"] o(3) obtain ess where ess: "proofs = concat ess"
    "list_all2 (\<lambda>p. provenElements G sizes s (pf_BlockNumber p)) (proofsNext c (pv_db s)) ess" by auto
  have "list_all2 (\<lambda>b. provenElements G sizes s (bk_BlockHeight b)) (toVerify c (pv_db s)) ess"
    by (rule list_all2_numbers [OF ess(2) o(2)])
  with o ess(1) show ?thesis by blast
qed

theorem verified_proofs_reach_L1_witness:
  "\<exists>t bs ess price. VerifyAndExecuteBlocks sampleX sampleSender sampleCalls (pv_db sampleProved) = (Ok (), t) \<and> bs \<noteq> [] \<and>
    ru_sent t = [VerifyCall (map (verifyInfo sampleX) bs) (concat ess) price 100] \<and>
    list_all2 (\<lambda>b. provenElements sampleGroth [1] sampleProved (bk_BlockHeight b)) bs ess"
proof -
  let ?v = "VerifyAndExecuteBlocks sampleX sampleSender sampleCalls (pv_db sampleProved)"
  obtain r t where o: "?v = (r, t)" by fastforce
  have "(case ?v of (Ok _, _) \<Rightarrow> True | _ \<Rightarrow> False)" "length (ru_sent (snd ?v)) = 1" "ru_sent (pv_db sampleProved) = []" by code_simp+
  then have ok: "r = Ok ()" "ru_sent t \<noteq> ru_sent (pv_db sampleProved)" "ru_sent (pv_db sampleProved) = []"
    using o by (auto split: res.splits)
  have d: "l1_UnmarshalProof sampleCalls info = Inr f" if "gr_MarshalProof sampleGroth f = Inr info" for f info
    using that by (auto simp: sampleGroth_def sampleL1_def sampleFormatted_def L1.truncate_def split: if_splits)
  from verified_proofs_reach_L1 [OF sample_steps sample_empty d o ok(2)] o ok show ?thesis by (auto simp: sampleSender_def)
qed

text \<open>
  C36. No block is stuck for ever: let \<open>h\<close> be the lowest block above the last one sent to L1 that has no
  proof, and its witness taken by a prover that did not deliver within the timeout. Then rescheduling
  publishes the witness again, and once as many passes of a working prover have run as witnesses are
  published, the block is proved.
\<close>

theorem stuck_block_proved:
  assumes "proverReady G sizes s" "numbersOk s" "lastSent s < h" "{lastSent s<..<h} \<subseteq> proved s" "h \<notin> proved s"
    and "w \<in> set (pv_Witness s)" "bw_Height w = h" "bw_UpdatedAt w + UnprovedBlockWitnessTimeout < ru_now (pv_db s)"
    and "\<forall>a \<in> set answers. TryAcquireLock a = None" "card (published s) < length answers"
  shows "\<exists>u t. RescheduleBlockWitness s = (Ok (), u) \<and> h \<in> published u \<and> forM answers (ProveBlock G sizes) u = (Ok (), t) \<and> h \<in> proved t"
proof -
  have up: "\<not> ru_down (pv_db s)" using assms(1) by (simp add: proverReady_def writable_def)
  obtain k where k: "getNextWitnessToCheck s = (Ok k, s)" "lastSent s < k" "k \<notin> proved s" "{lastSent s<..<k} \<subseteq> proved s"
    using getNextWitnessToCheck_spec [OF up assms(2)] by blast
  then have n: "getNextWitnessToCheck s = (Ok h, s)" using assms(3-5) by (cases k h rule: linorder_cases) auto
  obtain u where u: "RescheduleBlockWitness s = (Ok (), u)" "proverReady G sizes u" "published u = insert h (published s)" "proved u = proved s"
    using Reschedule_stuck [OF assms(1) n assms(5-8)] .
  have "card (published u) \<le> length answers" using assms(10) by (simp add: u(3) card_insert_if)
  from ProveBlock_rounds [OF u(2) assms(9) this] u show ?thesis by auto
qed

theorem stuck_block_proved_witness:
  "\<exists>u t. RescheduleBlockWitness sampleStuck = (Ok (), u) \<and> 1 \<in> published u \<and>
     forM [sampleOpen] (ProveBlock sampleGroth [1]) u = (Ok (), t) \<and> 1 \<in> proved t"
proof -
  let ?w = "sampleRow\<lparr>bw_Status := StatusReceived\<rparr>"
  have "{lastSent sampleStuck<..<1} \<subseteq> proved sampleStuck" "lastSent sampleStuck < 1" "1 \<notin> proved sampleStuck"
    "card (published sampleStuck) < length [sampleOpen]" unfolding sample_stuck(3,4,5) by auto
  moreover have "?w \<in> set (pv_Witness sampleStuck)" "bw_Height ?w = 1" "bw_UpdatedAt ?w + UnprovedBlockWitnessTimeout < ru_now (pv_db sampleStuck)"
    by (simp_all add: sampleStuck_def sampleRow_def sampleWitness_def UnprovedBlockWitnessTimeout_def)
  moreover have "\<forall>a \<in> set [sampleOpen]. TryAcquireLock a = None" by (simp add: sample_published(3))
  ultimately show ?thesis using stuck_block_proved [OF sample_stuck(1,2), of 1 ?w "[sampleOpen]"] by blast
qed

text \<open>
  C37. The code of a prover is the pipeline's: every run of \<open>ProveBlock\<close>, whatever it returns, is a
  sequence of steps of one prover, so that what holds of all interleavings holds of it.
\<close>

theorem prover_refines_pipeline:
  assumes "ps i = Idle" "ProveBlock G sizes answer s = (r, t)"
  shows "(pipeline_step G sizes)\<^sup>*\<^sup>* (s, ps) (t, ps)"
  using assms by (rule ProveBlock_steps)

theorem prover_refines_pipeline_witness:
  "(pipeline_step sampleGroth [1])\<^sup>*\<^sup>* (samplePublished, \<lambda>_. Idle) (sampleProved, \<lambda>_. Idle) \<and> proved sampleProved = {1}"
proof
  show "(pipeline_step sampleGroth [1])\<^sup>*\<^sup>* (samplePublished, \<lambda>_. Idle) (sampleProved, \<lambda>_. Idle)"
    by (rule prover_refines_pipeline [where i = 0 and answer = sampleOpen and r = "fst (ProveBlock sampleGroth [1] sampleOpen samplePublished)"])
      (simp_all add: sampleProved_def)
  show "proved sampleProved = {1}" using sample_proved(1) by (metis list.set_map list.simps(15) empty_set)
qed



section \<open>The full node\<close>



text \<open>
  C40. The gas of a block is paid to the gas account only when that account is pending as the block is
  stored. \<open>InitNewBlock\<close> makes it pending, but the full node then empties the state cache, after which
  nothing is pending: unless a transaction of the block makes the gas account pending again, the row of
  the gas account is the one before the block, whatever gas was collected.
\<close>

theorem fullnode_gas_not_stored:
  assumes "libOk X" "wf (worldOf s)" "nftsCached (worldOf s)" "pendingAcc (worldOf s) GasAccount = None"
    and "processNewBlock T X st l s = (Ok b, t)"
  shows "gasRow (worldOf t) = gasRow (worldOf s) \<and> pendingAcc (snd (PurgeCache X root w)) GasAccount = None"
  using processNewBlock_gasRow [OF assms] by (simp add: PurgeCache_def updSc_def NewStateCache_def mget_def)

theorem fullnode_gas_not_stored_witness:
  "\<exists>b t. processNewBlock sampleSmt sampleX BlockCommitted remoteBlock gasService = (Ok b, t) \<and>
     sc_PendingGasMap (w_sc (worldOf gasService)) = [(0, 5)] \<and> gasRow (worldOf t) = Some (accountCore (FromFormatAccountInfo (sampleAccount 1 7)))"
proof -
  from gas_stored obtain b t where t: "processNewBlock sampleSmt sampleX BlockCommitted remoteBlock gasService = (Ok b, t)" by blast
  show ?thesis using t fullnode_gas_not_stored [OF sample_lib gas_ready t] gas_row
    by (auto simp: gasService_def emptyNode_def gasCache_def)
qed

end
